(* ===== verification/Prelude.thy ===== *)
theory Prelude
  imports Main "HOL-Library.Word" "HOL-Library.List_Lexorder" "HOL-Library.Char_ord"
    "HOL-Library.Sublist"
begin

unbundle bit_operations_syntax

text \<open>
  The prelude of the development: machine integers, fallible results, and the two
  interfaces that most components of the program share.

  Rust's \<open>Result<T, E>\<close> is the sum type \<open>'e + 'a\<close> with \<open>Err\<close> for the error.  A
  validator of the source is a sequence of guards that return early; here it is a list
  of results given to \<open>checks\<close>, which yields the first error of the list.  The guards
  are total in HOL, so evaluating a later guard never depends on an earlier one having
  passed; where the source relies on an earlier guard (an index, an \<open>expect\<close>), the model
  writes the failing case out.

  The locale \<open>unique_scan\<close> is the contract of the loops that reject a repeated identity
  with a \<open>BTreeSet\<close>; the locale \<open>validated_newtype\<close> is the contract of the
  private-field newtypes (\<open>Name\<close>, \<open>DurationMs\<close>, \<open>ArtifactPath\<close>, \<dots>) whose only
  constructor validates.  Both are interpreted by the components that provide them.
\<close>

section \<open>Machine integers and results\<close>

type_synonym u8 = "8 word"
type_synonym u16 = "16 word"
type_synonym u32 = "32 word"
type_synonym u64 = "64 word"

abbreviation Ok :: "'a \<Rightarrow> 'e + 'a" where
  "Ok \<equiv> Inr"

abbreviation Err :: "'e \<Rightarrow> 'e + 'a" where
  "Err \<equiv> Inl"

named_theorems ok_simps "characterisations of the successful runs of a validator"

definition is_ok :: "'e + 'a \<Rightarrow> bool" where
  "is_ok r = (case r of Err e \<Rightarrow> False | Ok a \<Rightarrow> True)"

lemma is_ok_simps [simp]: "is_ok (Ok a)" "\<not> is_ok (Err e)"
  by (simp_all add: is_ok_def)

lemma is_ok_unit [ok_simps]: "is_ok r \<longleftrightarrow> r = Ok ()"
  by (cases r) simp_all

definition reject_if :: "bool \<Rightarrow> 'e \<Rightarrow> 'e + unit" where
  "reject_if b e = (if b then Err e else Ok ())"

lemma reject_if_Ok [ok_simps]: "reject_if b e = Ok () \<longleftrightarrow> \<not> b"
  by (simp add: reject_if_def)

lemma reject_if_Err: "reject_if b e = Err e' \<longleftrightarrow> b \<and> e' = e"
  by (auto simp: reject_if_def)

fun checks :: "('e + unit) list \<Rightarrow> 'e + unit" where
  "checks [] = Ok ()"
| "checks (c # cs) = (case c of Err e \<Rightarrow> Err e | Ok _ \<Rightarrow> checks cs)"

lemma checks_Cons_Ok: "checks (c # cs) = Ok () \<longleftrightarrow> c = Ok () \<and> checks cs = Ok ()"
  by (cases c) simp_all

declare checks.simps(2) [simp del]

lemma checks_passed [simp]: "checks (Ok u # cs) = checks cs"
  by (simp add: checks.simps(2))

lemma checks_failed [simp]: "checks (Err e # cs) = Err e"
  by (simp add: checks.simps(2))

lemma checks_Ok: "checks cs = Ok () \<longleftrightarrow> (\<forall>c \<in> set cs. c = Ok ())"
  by (induction cs) (simp_all add: checks_Cons_Ok)

lemma checks_Err_in: "checks cs = Err e \<Longrightarrow> Err e \<in> set cs"
  by (induction cs) (auto simp: checks.simps(2) split: sum.splits)

lemma checks_append: "checks (cs @ ds) = (case checks cs of Err e \<Rightarrow> Err e | Ok _ \<Rightarrow> checks ds)"
  by (induction cs) (auto simp: checks.simps(2) split: sum.splits)

declare checks.simps(1) [ok_simps] checks_Cons_Ok [ok_simps]

definition for_each :: "('a \<Rightarrow> 'e + unit) \<Rightarrow> 'a list \<Rightarrow> 'e + unit" where
  "for_each f xs = checks (map f xs)"

lemma for_each_simps [simp]:
  "for_each f [] = Ok ()"
  "for_each f (x # xs) = (case f x of Err e \<Rightarrow> Err e | Ok _ \<Rightarrow> for_each f xs)"
  by (simp_all add: for_each_def checks.simps(2) split: sum.split)

lemma for_each_Ok [ok_simps]: "for_each f xs = Ok () \<longleftrightarrow> (\<forall>x \<in> set xs. f x = Ok ())"
  by (simp add: for_each_def checks_Ok)

lemma for_each_Err_in: "for_each f xs = Err e \<Longrightarrow> \<exists>x \<in> set xs. f x = Err e"
  unfolding for_each_def by (drule checks_Err_in) (auto intro: sym)

definition map_err :: "('e \<Rightarrow> 'f) \<Rightarrow> 'e + 'a \<Rightarrow> 'f + 'a" where
  "map_err g r = (case r of Err e \<Rightarrow> Err (g e) | Ok a \<Rightarrow> Ok a)"

lemma map_err_Ok [ok_simps]: "map_err g r = Ok a \<longleftrightarrow> r = Ok a"
  by (cases r) (simp_all add: map_err_def)

lemma result_unit_cases: "(r :: 'e + unit) = Ok () \<or> (\<exists>e. r = Err e)"
  by (cases r) auto

text \<open>The errors a validator can give, closed under the ways validators are composed.\<close>

named_theorems err_simps "error sets of composed validators"

definition errs_in :: "'e set \<Rightarrow> 'e + 'a \<Rightarrow> bool" where
  "errs_in E r = (case r of Err e \<Rightarrow> e \<in> E | Ok _ \<Rightarrow> True)"

lemma errs_in_D: "errs_in E r \<Longrightarrow> r = Err e \<Longrightarrow> e \<in> E"
  by (simp add: errs_in_def)

lemma errs_in_simps [err_simps]:
  "errs_in E (Ok a)"
  "errs_in E (Err e) \<longleftrightarrow> e \<in> E"
  by (simp_all add: errs_in_def)

lemma errs_in_reject_if [err_simps]: "e \<in> E \<Longrightarrow> errs_in E (reject_if b e)"
  by (simp add: errs_in_def reject_if_def)

lemma errs_in_checks [err_simps]: "(\<forall>c \<in> set cs. errs_in E c) \<Longrightarrow> errs_in E (checks cs)"
  by (cases "checks cs") (auto simp: errs_in_def dest!: checks_Err_in)

lemma errs_in_for_each [err_simps]: "(\<forall>x \<in> set xs. errs_in E (f x)) \<Longrightarrow> errs_in E (for_each f xs)"
  by (cases "for_each f xs") (auto simp: errs_in_def dest!: for_each_Err_in)

lemma errs_in_map_err [err_simps]: "(\<forall>e. g e \<in> E) \<Longrightarrow> errs_in E (map_err g r)"
  by (cases r) (auto simp: errs_in_def map_err_def)

lemma errs_in_if [err_simps]:
  "(b \<longrightarrow> errs_in E r) \<Longrightarrow> (\<not> b \<longrightarrow> errs_in E s) \<Longrightarrow> errs_in E (if b then r else s)"
  by simp

section \<open>Checked arithmetic\<close>

text \<open>Rust's \<open>checked_add\<close>: nothing when the sum leaves the width.\<close>

definition checked_add :: "'w::len word \<Rightarrow> 'w word \<Rightarrow> 'w word option" where
  "checked_add a b = (if unat a + unat b < 2 ^ LENGTH('w) then Some (a + b) else None)"

lemma checked_add_Some: "checked_add a b = Some c \<Longrightarrow> unat c = unat a + unat b"
  by (auto simp: checked_add_def unat_word_ariths split: if_splits)

lemma checked_add_None:
  fixes a b :: "'w::len word"
  shows "checked_add a b = None \<longleftrightarrow> 2 ^ LENGTH('w) \<le> unat a + unat b"
  by (auto simp: checked_add_def)

lemma word_ge_1_iff: "1 \<le> (v :: 'w::len word) \<longleftrightarrow> v \<noteq> 0"
  by (simp add: word_le_nat_alt Suc_le_eq unat_gt_0)

section \<open>Loops that reject a repeated identity\<close>

text \<open>
  The shape of the loops over services, metrics, diagnostics, checks, faults, drivers and
  trials: some guards, then \<open>seen.insert(key)\<close> must be fresh, then more guards.
\<close>

locale unique_scan =
  fixes key :: "'a \<Rightarrow> 'k"
    and pre :: "'a \<Rightarrow> 'e + unit"
    and dup_err :: "'a \<Rightarrow> 'e"
    and post :: "'a \<Rightarrow> 'e + unit"
    and scan :: "'k set \<Rightarrow> 'a list \<Rightarrow> 'e + unit"
  assumes scan_Nil: "scan seen [] = Ok ()"
    and scan_Cons: "scan seen (x # xs) =
      checks [pre x, reject_if (key x \<in> seen) (dup_err x), post x,
              scan (insert (key x) seen) xs]"
begin

lemma scan_Ok_iff:
  "scan seen xs = Ok () \<longleftrightarrow>
     distinct (map key xs) \<and> (\<forall>x \<in> set xs. key x \<notin> seen \<and> pre x = Ok () \<and> post x = Ok ())"
proof (induction xs arbitrary: seen)
  case Nil
  then show ?case by (simp add: scan_Nil)
next
  case (Cons x xs)
  show ?case
    by (auto simp: scan_Cons ok_simps Cons.IH)
      (metis image_eqI)
qed

lemma scan_distinct: "scan seen xs = Ok () \<Longrightarrow> distinct (map key xs)"
  by (simp add: scan_Ok_iff)

lemma scan_errs:
  "(\<forall>x \<in> set xs. errs_in E (pre x) \<and> dup_err x \<in> E \<and> errs_in E (post x)) \<Longrightarrow> errs_in E (scan seen xs)"
proof (induction xs arbitrary: seen)
  case Nil
  then show ?case by (simp add: scan_Nil err_simps)
next
  case (Cons x xs)
  then show ?case by (simp add: scan_Cons err_simps)
qed

lemma scan_repeated_rejected:
  assumes "x \<in> set xs" and "key x \<in> seen"
  shows "\<exists>e. scan seen xs = Err e"
  using assms result_unit_cases [of "scan seen xs"] by (auto simp: scan_Ok_iff)

end

section \<open>Validated newtypes\<close>

text \<open>
  A newtype with a private field: \<open>make\<close> is its only constructor, \<open>raw\<close> its accessor
  and \<open>allowed\<close> the values the type admits.  The two laws are what the constructors of
  the source promise; \<open>serde\<close> goes through \<open>make\<close> (\<open>try_from\<close>) and \<open>raw\<close>
  (\<open>into\<close>), so the lemmas are the round trip of the wire format.
\<close>

locale validated_newtype =
  fixes make :: "'r \<Rightarrow> 'e + 't"
    and raw :: "'t \<Rightarrow> 'r"
    and allowed :: "'r \<Rightarrow> bool"
  assumes make_ok: "allowed v \<Longrightarrow> \<exists>t. make v = Ok t \<and> raw t = v"
    and make_err: "\<not> allowed v \<Longrightarrow> \<exists>e. make v = Err e"
    and raw_inject: "raw s = raw t \<Longrightarrow> s = t"
begin

lemma make_Ok_iff: "make v = Ok t \<longleftrightarrow> allowed v \<and> raw t = v"
proof
  assume mk: "make v = Ok t"
  with make_err [of v] have "allowed v" by auto
  with make_ok [of v] mk show "allowed v \<and> raw t = v" by auto
next
  assume "allowed v \<and> raw t = v"
  with make_ok [of v] raw_inject show "make v = Ok t" by metis
qed

lemma roundtrip: "make v = Ok t \<Longrightarrow> make (raw t) = Ok t"
  by (simp add: make_Ok_iff)

lemma make_injective: "make v = Ok t \<Longrightarrow> make w = Ok t \<Longrightarrow> v = w"
  by (auto simp: make_Ok_iff)

lemma rejected_iff: "(\<exists>e. make v = Err e) \<longleftrightarrow> \<not> allowed v"
  using make_ok make_err by (metis sum.distinct(1))

end

end
