(* ===== verification/RustStd.thy ===== *)
theory RustStd
  imports Prelude
begin

text \<open>
  The parts of the Rust standard library that the modelled code calls.

  A Rust \<open>String\<close> is the list of its UTF-8 bytes (\<open>string\<close>, a \<open>char\<close> being one byte),
  so \<open>len\<close> is \<open>length\<close> and \<open>Ord\<close> is the lexicographic order of the bytes that
  \<open>List_Lexorder\<close> and \<open>Char_ord\<close> give.  \<open>chars\<close> decodes the code points, for the
  Unicode predicates \<open>is_control\<close> and \<open>is_whitespace\<close>.  The ASCII predicates hold only of
  bytes below 128, and a byte of a multi-byte character is never below 128, so
  \<open>chars().all(\<dots>is_ascii\<dots>)\<close> is the same test on the bytes.

  \<open>f64\<close> is the bit pattern of a double (IEEE 754 binary64), with the comparisons of the
  language on it.  \<open>read_ipv6\<close> is the address grammar of \<open>std::net::Ipv6Addr\<close>.
\<close>

section \<open>Bytes and characters\<close>

definition byte :: "char \<Rightarrow> nat" where
  "byte c = of_char c"

lemma byte_less: "byte c < 256"
  by (simp add: byte_def)

lemma byte_inject: "byte c = byte d \<longleftrightarrow> c = d"
  by (simp add: byte_def)

definition is_ascii_digit :: "char \<Rightarrow> bool" where
  "is_ascii_digit c \<longleftrightarrow> 48 \<le> byte c \<and> byte c \<le> 57"

definition is_ascii_uppercase :: "char \<Rightarrow> bool" where
  "is_ascii_uppercase c \<longleftrightarrow> 65 \<le> byte c \<and> byte c \<le> 90"

definition is_ascii_lowercase :: "char \<Rightarrow> bool" where
  "is_ascii_lowercase c \<longleftrightarrow> 97 \<le> byte c \<and> byte c \<le> 122"

definition is_ascii_alphanumeric :: "char \<Rightarrow> bool" where
  "is_ascii_alphanumeric c \<longleftrightarrow> is_ascii_digit c \<or> is_ascii_uppercase c \<or> is_ascii_lowercase c"

definition is_ascii_hexdigit :: "char \<Rightarrow> bool" where
  "is_ascii_hexdigit c \<longleftrightarrow> is_ascii_digit c \<or> (65 \<le> byte c \<and> byte c \<le> 70) \<or> (97 \<le> byte c \<and> byte c \<le> 102)"

definition ascii_lower :: "char \<Rightarrow> char" where
  "ascii_lower c = (if is_ascii_uppercase c then char_of (byte c + 32) else c)"

definition ascii_upper :: "char \<Rightarrow> char" where
  "ascii_upper c = (if is_ascii_lowercase c then char_of (byte c - 32) else c)"

definition to_ascii_lowercase :: "string \<Rightarrow> string" where
  "to_ascii_lowercase s = map ascii_lower s"

definition to_ascii_uppercase :: "string \<Rightarrow> string" where
  "to_ascii_uppercase s = map ascii_upper s"

definition eq_ignore_ascii_case :: "string \<Rightarrow> string \<Rightarrow> bool" where
  "eq_ignore_ascii_case s t \<longleftrightarrow> to_ascii_lowercase s = to_ascii_lowercase t"

lemmas ascii_defs = is_ascii_digit_def is_ascii_uppercase_def is_ascii_lowercase_def
  is_ascii_alphanumeric_def is_ascii_hexdigit_def ascii_lower_def ascii_upper_def byte_def

text \<open>UTF-8 decoding: the low bits of a continuation byte, then one code point per lead byte.\<close>

definition cont_bits :: "string \<Rightarrow> nat \<Rightarrow> nat" where
  "cont_bits s i = (if i < length s then byte (s ! i) mod 64 else 0)"

function chars :: "string \<Rightarrow> nat list" where
  "chars [] = []"
| "chars (a # s) =
    (if byte a < 128 then byte a # chars s
     else if byte a < 224 then ((byte a mod 32) * 64 + cont_bits s 0) # chars (drop 1 s)
     else if byte a < 240 then
       ((byte a mod 16) * 4096 + cont_bits s 0 * 64 + cont_bits s 1) # chars (drop 2 s)
     else ((byte a mod 8) * 262144 + cont_bits s 0 * 4096 + cont_bits s 1 * 64 + cont_bits s 2)
            # chars (drop 3 s))"
  by pat_completeness auto
termination
  by (relation "measure length") auto

definition is_control :: "nat \<Rightarrow> bool" where
  "is_control cp \<longleftrightarrow> cp < 32 \<or> (127 \<le> cp \<and> cp < 160)"

definition is_whitespace :: "nat \<Rightarrow> bool" where
  "is_whitespace cp \<longleftrightarrow>
     cp \<in> {9, 10, 11, 12, 13, 32, 133, 160, 5760, 8232, 8233, 8239, 8287, 12288}
     \<or> (8192 \<le> cp \<and> cp \<le> 8202)"

definition has_control :: "string \<Rightarrow> bool" where
  "has_control s \<longleftrightarrow> (\<exists>cp \<in> set (chars s). is_control cp)"

definition has_whitespace :: "string \<Rightarrow> bool" where
  "has_whitespace s \<longleftrightarrow> (\<exists>cp \<in> set (chars s). is_whitespace cp)"

text \<open>\<open>s.trim().is_empty()\<close>: trimming removes everything exactly when all is white space.\<close>

definition trim_is_empty :: "string \<Rightarrow> bool" where
  "trim_is_empty s \<longleftrightarrow> (\<forall>cp \<in> set (chars s). is_whitespace cp)"

lemma chars_ascii: "\<forall>c \<in> set s. byte c < 128 \<Longrightarrow> chars s = map byte s"
  by (induction s) auto

lemma has_control_ascii:
  "\<forall>c \<in> set s. byte c < 128 \<Longrightarrow> has_control s \<longleftrightarrow> (\<exists>c \<in> set s. is_control (byte c))"
  by (simp add: has_control_def chars_ascii)

section \<open>Searching and splitting\<close>

text \<open>\<open>s.split(c)\<close>, \<open>s.split(pat)\<close>, \<open>s.split_once(pat)\<close>, \<open>s.rsplit_once(c)\<close>.\<close>

fun split_char :: "char \<Rightarrow> string \<Rightarrow> string list" where
  "split_char d [] = [[]]"
| "split_char d (c # s) =
    (if c = d then [] # split_char d s
     else (case split_char d s of [] \<Rightarrow> [[c]] | w # ws \<Rightarrow> (c # w) # ws))"

function split_str :: "string \<Rightarrow> string \<Rightarrow> string list" where
  "split_str sep [] = [[]]"
| "split_str sep (c # s) =
    (if prefix sep (c # s) then [] # split_str sep (drop (length sep - 1) s)
     else (case split_str sep s of [] \<Rightarrow> [[c]] | w # ws \<Rightarrow> (c # w) # ws))"
  by pat_completeness auto
termination
  by (relation "measure (\<lambda>(sep, s). length s)") auto

fun split_once :: "string \<Rightarrow> string \<Rightarrow> (string \<times> string) option" where
  "split_once sep [] = (if sep = [] then Some ([], []) else None)"
| "split_once sep (c # s) =
    (if prefix sep (c # s) then Some ([], drop (length sep) (c # s))
     else (case split_once sep s of None \<Rightarrow> None | Some (a, b) \<Rightarrow> Some (c # a, b)))"

definition rsplit_once_char :: "char \<Rightarrow> string \<Rightarrow> (string \<times> string) option" where
  "rsplit_once_char d s =
    (case split_once [d] (rev s) of None \<Rightarrow> None | Some (a, b) \<Rightarrow> Some (rev b, rev a))"

fun strip_prefix :: "string \<Rightarrow> string \<Rightarrow> string option" where
  "strip_prefix p s = (if prefix p s then Some (drop (length p) s) else None)"

fun join_str :: "string \<Rightarrow> string list \<Rightarrow> string" where
  "join_str sep [] = []"
| "join_str sep [w] = w"
| "join_str sep (w # ws) = w @ sep @ join_str sep ws"

lemma split_char_nonempty [simp]: "split_char d s \<noteq> []"
  by (induction s) (auto split: list.splits)

lemma split_str_nonempty [simp]: "split_str sep s \<noteq> []"
  by (induction sep s rule: split_str.induct) (auto split: list.splits)

lemma join_str_Cons: "ws \<noteq> [] \<Longrightarrow> join_str sep (w # ws) = w @ sep @ join_str sep ws"
  by (cases ws) simp_all

lemma split_char_no_delim: "d \<notin> set s \<Longrightarrow> split_char d s = [s]"
  by (induction s) auto

lemma split_char_pieces: "w \<in> set (split_char d s) \<Longrightarrow> d \<notin> set w"
proof (induction s arbitrary: w)
  case Nil
  then show ?case by simp
next
  case (Cons c s)
  then show ?case
    by (cases "split_char d s") (auto split: if_splits)
qed

lemma join_split_char: "join_str [d] (split_char d s) = s"
proof (induction s)
  case Nil
  then show ?case by simp
next
  case (Cons c s)
  then show ?case
    by (cases "split_char d s"; cases "tl (split_char d s)") (auto simp: join_str_Cons)
qed

lemma set_split_char: "w \<in> set (split_char d s) \<Longrightarrow> set w \<subseteq> set s"
proof (induction s arbitrary: w)
  case Nil
  then show ?case by simp
next
  case (Cons c s)
  then show ?case
    by (cases "split_char d s") (fastforce split: if_splits)+
qed

lemma split_once_first:
  assumes "\<And>u v w. a = u @ v \<Longrightarrow> v \<noteq> [] \<Longrightarrow> \<not> prefix sep (v @ sep @ b)" and "sep \<noteq> []"
  shows "split_once sep (a @ sep @ b) = Some (a, b)"
  using assms
proof (induction a)
  case Nil
  then show ?case by (cases sep) (auto simp: prefix_def)
next
  case (Cons c a)
  have step: "split_once sep (a @ sep @ b) = Some (a, b)"
    using Cons.prems by (intro Cons.IH) (metis append_Cons)+
  moreover have "\<not> prefix sep (c # a @ sep @ b)"
    using Cons.prems(1) [of "[]" "c # a"] by simp
  ultimately show ?case by simp
qed

lemma split_once_Some: "split_once sep s = Some (a, b) \<Longrightarrow> s = a @ sep @ b"
proof (induction s arbitrary: a)
  case Nil
  then show ?case by (auto split: if_splits)
next
  case (Cons c s)
  then show ?case
    by (auto simp: prefix_def split: if_splits option.splits)
qed

lemma split_once_char_no_delim: "split_once [d] s = Some (a, b) \<Longrightarrow> d \<notin> set a"
proof (induction s arbitrary: a)
  case Nil
  then show ?case by simp
next
  case (Cons c s)
  then show ?case
    by (auto simp: prefix_def split: if_splits option.splits)
qed

lemma split_once_char_append: "d \<notin> set a \<Longrightarrow> split_once [d] (a @ d # b) = Some (a, b)"
  by (induction a) (auto simp: prefix_def)

lemma split_once_char_None: "split_once [d] s = None \<longleftrightarrow> d \<notin> set s"
  by (induction s) (auto simp: prefix_def split: option.splits)

lemma rsplit_once_char_append:
  assumes "d \<notin> set b"
  shows "rsplit_once_char d (a @ d # b) = Some (a, b)"
proof -
  have "split_once [d] (rev (a @ d # b)) = Some (rev b, rev a)"
    using split_once_char_append [of d "rev b" "rev a"] assms by simp
  then show ?thesis by (simp add: rsplit_once_char_def)
qed

lemma rsplit_once_char_Some:
  assumes "rsplit_once_char d s = Some (a, b)"
  shows "s = a @ d # b \<and> d \<notin> set b"
proof -
  from assms have sp: "split_once [d] (rev s) = Some (rev b, rev a)"
    by (auto simp: rsplit_once_char_def split: option.splits)
  from split_once_Some [OF sp] have "rev (rev s) = rev (rev b @ [d] @ rev a)"
    by (simp only:)
  moreover from split_once_char_no_delim [OF sp] have "d \<notin> set b" by simp
  ultimately show ?thesis by simp
qed

text \<open>Splitting at the two-byte separator of the route chains undoes joining with it.\<close>

lemma split_str_plain: "CHR ''_'' \<notin> set w \<Longrightarrow> split_str ''__'' w = [w]"
  by (induction w) (auto simp: prefix_def)

lemma split_str_step:
  "CHR ''_'' \<notin> set w \<Longrightarrow>
     split_str ''__'' (w @ CHR ''_'' # CHR ''_'' # s) = w # split_str ''__'' s"
  by (induction w) (auto simp: prefix_def)

lemma split_join_str:
  "ws \<noteq> [] \<Longrightarrow> \<forall>w \<in> set ws. CHR ''_'' \<notin> set w \<Longrightarrow> split_str ''__'' (join_str ''__'' ws) = ws"
proof (induction ws)
  case Nil
  then show ?case by simp
next
  case (Cons w ws)
  then show ?case
    by (cases "ws = []") (auto simp: join_str_Cons split_str_plain split_str_step)
qed

lemma join_split_str: "join_str ''__'' (split_str ''__'' s) = s"
proof (induction "''__''" s rule: split_str.induct)
  case 1
  then show ?case by simp
next
  case (2 c s)
  show ?case
  proof (cases "prefix ''__'' (c # s)")
    case True
    with 2 show ?thesis by (auto simp: join_str_Cons prefix_def)
  next
    case False
    with 2 show ?thesis
      by (cases "split_str ''__'' s"; cases "tl (split_str ''__'' s)") (auto simp: join_str_Cons)
  qed
qed

end
