(* ===== verification/RustNum.thy ===== *)
theory RustNum
  imports RustStd
begin

text \<open>
  Numbers of the Rust standard library: decimal parsing and printing of the unsigned
  integers, the address grammar of \<open>Ipv6Addr::from_str\<close>, and the comparisons of \<open>f64\<close>.
\<close>

section \<open>Decimal numbers\<close>

definition digit_val :: "char \<Rightarrow> nat" where
  "digit_val c = byte c - 48"

definition dec_value :: "string \<Rightarrow> nat" where
  "dec_value ds = foldl (\<lambda>n c. 10 * n + digit_val c) 0 ds"

definition digit_char :: "nat \<Rightarrow> char" where
  "digit_char n = char_of (48 + n)"

fun show_dec :: "nat \<Rightarrow> string" where
  "show_dec n = (if n < 10 then [digit_char n] else show_dec (n div 10) @ [digit_char (n mod 10)])"

declare show_dec.simps [simp del]

text \<open>\<open>str::parse::<u16>\<close>: an optional plus sign, at least one digit, no overflow.\<close>

definition parse_u16 :: "string \<Rightarrow> u16 option" where
  "parse_u16 s =
    (let ds = (case s of [] \<Rightarrow> [] | c # r \<Rightarrow> if c = CHR ''+'' then r else s)
     in if ds = [] \<or> \<not> list_all is_ascii_digit ds then None
        else if dec_value ds < 65536 then Some (of_nat (dec_value ds)) else None)"

lemma byte_digit_char: "n < 10 \<Longrightarrow> byte (digit_char n) = 48 + n"
  by (simp add: byte_def digit_char_def)

lemma digit_char_digit: "n < 10 \<Longrightarrow> is_ascii_digit (digit_char n)"
  by (simp add: is_ascii_digit_def byte_digit_char)

lemma digit_val_char: "n < 10 \<Longrightarrow> digit_val (digit_char n) = n"
  by (simp add: digit_val_def byte_digit_char)

lemma dec_value_append: "dec_value (ds @ [c]) = 10 * dec_value ds + digit_val c"
  by (simp add: dec_value_def)

lemma show_dec_nonempty: "show_dec n \<noteq> []"
  by (subst show_dec.simps) simp

lemma show_dec_digits: "list_all is_ascii_digit (show_dec n)"
proof (induction n rule: show_dec.induct)
  case (1 n)
  then show ?case
    by (subst show_dec.simps) (auto simp: digit_char_digit)
qed

lemma dec_value_show: "dec_value (show_dec n) = n"
proof (induction n rule: show_dec.induct)
  case (1 n)
  show ?case
  proof (cases "n < 10")
    case True
    then show ?thesis by (subst show_dec.simps) (simp add: dec_value_def digit_val_char)
  next
    case False
    with 1 show ?thesis
      by (subst show_dec.simps) (simp add: dec_value_append digit_val_char)
  qed
qed

lemma digit_not_plus: "list_all is_ascii_digit ds \<Longrightarrow> ds \<noteq> [] \<Longrightarrow> hd ds \<noteq> CHR ''+''"
  by (cases ds) (auto simp: is_ascii_digit_def byte_def)

lemma parse_u16_show: "parse_u16 (show_dec (unat p)) = Some p"
proof -
  obtain c r where cr: "show_dec (unat p) = c # r"
    using show_dec_nonempty by (cases "show_dec (unat p)") auto
  have "c \<noteq> CHR ''+''"
    using digit_not_plus [OF show_dec_digits [of "unat p"]] cr by simp
  moreover have "unat p < 65536"
    using unsigned_less [of p, where ?'a = nat] by simp
  ultimately show ?thesis
    using show_dec_digits [of "unat p"] dec_value_show [of "unat p"] cr
    by (simp add: parse_u16_def)
qed

text \<open>Printing never needs more digits than the text that was parsed.\<close>

lemma dec_value_bound: "list_all is_ascii_digit ds \<Longrightarrow> dec_value ds < 10 ^ length ds"
proof (induction ds rule: rev_induct)
  case Nil
  then show ?case by (simp add: dec_value_def)
next
  case (snoc c ds)
  then have "digit_val c \<le> 9" "dec_value ds < 10 ^ length ds"
    by (auto simp: is_ascii_digit_def digit_val_def)
  then show ?case by (simp add: dec_value_append)
qed

lemma length_show_dec: "n < 10 ^ k \<Longrightarrow> 0 < k \<Longrightarrow> length (show_dec n) \<le> k"
proof (induction n arbitrary: k rule: show_dec.induct)
  case (1 n)
  show ?case
  proof (cases "n < 10")
    case True
    with "1.prems" show ?thesis by (subst show_dec.simps) simp
  next
    case False
    with "1.prems" obtain j where k: "k = Suc j" "0 < j"
      by (cases k; cases "k - 1") auto
    with "1.prems" have "n div 10 < 10 ^ j" by (simp add: div_less_iff_less_mult mult.commute)
    with "1.IH" [OF False _ k(2)] k False show ?thesis
      by (subst show_dec.simps) simp
  qed
qed

lemma length_show_parse_u16:
  assumes "parse_u16 s = Some p"
  shows "length (show_dec (unat p)) \<le> length s"
proof -
  define ds where "ds = (case s of [] \<Rightarrow> [] | c # r \<Rightarrow> if c = CHR ''+'' then r else s)"
  from assms have ds: "ds \<noteq> []" "list_all is_ascii_digit ds" "dec_value ds < 65536"
      "p = of_nat (dec_value ds)"
    by (auto simp: parse_u16_def ds_def [symmetric] Let_def split: if_splits)
  then have "unat p = dec_value ds" by (simp add: unat_of_nat)
  with ds dec_value_bound [OF ds(2)] have "length (show_dec (unat p)) \<le> length ds"
    by (intro length_show_dec) auto
  also have "\<dots> \<le> length s" by (auto simp: ds_def split: list.splits)
  finally show ?thesis .
qed

section \<open>IPv6 addresses\<close>

text \<open>
  The recursive-descent parser of \<open>core::net::parser\<close>.  Only the acceptance of the whole
  text is used by the program, so the readers return the rest of the input and drop the
  numeric value of a group.
\<close>

definition read_hex_group :: "string \<Rightarrow> string option" where
  "read_hex_group s =
    (let n = length (takeWhile is_ascii_hexdigit s)
     in if n = 0 \<or> 4 < n then None else Some (dropWhile is_ascii_hexdigit s))"

definition read_octet :: "string \<Rightarrow> string option" where
  "read_octet s =
    (let ds = takeWhile is_ascii_digit s
     in if ds = [] \<or> 3 < length ds \<or> (hd ds = CHR ''0'' \<and> 1 < length ds) \<or> 255 < dec_value ds
        then None else Some (dropWhile is_ascii_digit s))"

definition read_separated :: "char \<Rightarrow> nat \<Rightarrow> (string \<Rightarrow> string option) \<Rightarrow> string \<Rightarrow> string option" where
  "read_separated sep i inner s =
    (if i = 0 then inner s
     else case s of [] \<Rightarrow> None | c # r \<Rightarrow> if c = sep then inner r else None)"

definition read_ipv4 :: "string \<Rightarrow> string option" where
  "read_ipv4 s =
    Option.bind (read_separated CHR ''.'' 0 read_octet s) (\<lambda>a.
    Option.bind (read_separated CHR ''.'' 1 read_octet a) (\<lambda>b.
    Option.bind (read_separated CHR ''.'' 2 read_octet b) (\<lambda>c.
    read_separated CHR ''.'' 3 read_octet c)))"

fun read_groups :: "nat \<Rightarrow> nat \<Rightarrow> string \<Rightarrow> nat \<times> bool \<times> string" where
  "read_groups 0 i s = (i, False, s)"
| "read_groups (Suc k) i s =
    (case (if 0 < k then read_separated CHR '':'' i read_ipv4 s else None) of
       Some r \<Rightarrow> (i + 2, True, r)
     | None \<Rightarrow>
        (case read_separated CHR '':'' i read_hex_group s of
           Some r \<Rightarrow> read_groups k (Suc i) r
         | None \<Rightarrow> (i, False, s)))"

definition is_ipv6 :: "string \<Rightarrow> bool" where
  "is_ipv6 s =
    (case read_groups 8 0 s of
       (n, v4, r) \<Rightarrow>
         if n = 8 then r = []
         else if v4 then False
         else (case r of
                 c # d # t \<Rightarrow> c = CHR '':'' \<and> d = CHR '':''
                   \<and> snd (snd (read_groups (8 - (n + 1)) 0 t)) = []
               | _ \<Rightarrow> False))"

lemma read_separated_no_colon:
  "CHR '':'' \<notin> set s \<Longrightarrow> 0 < i \<Longrightarrow> read_separated CHR '':'' i inner s = None"
  by (cases s) (auto simp: read_separated_def)

lemma read_groups_no_colon:
  "CHR '':'' \<notin> set s \<Longrightarrow> 0 < i \<Longrightarrow> read_groups k i s = (i, False, s)"
  by (cases k) (simp_all add: read_separated_no_colon)

lemma set_read_hex_group: "read_hex_group s = Some r \<Longrightarrow> set r \<subseteq> set s"
  by (auto simp: read_hex_group_def Let_def split: if_splits dest: set_dropWhileD)

text \<open>An address always has a colon: that is how the program tells it from a host name.\<close>

lemma is_ipv6_colon:
  assumes "is_ipv6 s"
  shows "CHR '':'' \<in> set s"
proof (rule ccontr)
  assume no: "CHR '':'' \<notin> set s"
  have eight: "read_groups 8 0 s =
      (case read_ipv4 s of Some r \<Rightarrow> (2, True, r)
       | None \<Rightarrow> (case read_hex_group s of Some r \<Rightarrow> read_groups 7 1 r | None \<Rightarrow> (0, False, s)))"
    by (simp add: eval_nat_numeral read_separated_def split: option.splits)
  show False
  proof (cases "read_ipv4 s")
    case (Some r)
    with eight assms show ?thesis by (simp add: is_ipv6_def)
  next
    case None
    show ?thesis
    proof (cases "read_hex_group s")
      case (Some r)
      with no have nr: "CHR '':'' \<notin> set r"
        using set_read_hex_group by blast
      then have "read_groups 7 1 r = (1, False, r)"
        by (simp add: read_groups_no_colon)
      with Some None eight nr assms show ?thesis
        by (simp add: is_ipv6_def split: list.splits)
    next
      case N2: None
      with None eight no assms show ?thesis
        by (simp add: is_ipv6_def split: list.splits)
    qed
  qed
qed

text \<open>The definitions that evaluate the number readers on a literal.\<close>

lemmas num_eval = parse_u16_def dec_value_def digit_val_def ascii_defs

lemma read_groups_numeral:
  "read_groups (numeral v) i s =
    (case (if 0 < (pred_numeral v :: nat) then read_separated CHR '':'' i read_ipv4 s else None) of
       Some r \<Rightarrow> (i + 2, True, r)
     | None \<Rightarrow>
        (case read_separated CHR '':'' i read_hex_group s of
           Some r \<Rightarrow> read_groups (pred_numeral v) (Suc i) r
         | None \<Rightarrow> (i, False, s)))"
  by (simp add: numeral_eq_Suc)

lemmas ipv6_eval = is_ipv6_def read_separated_def read_ipv4_def read_octet_def
  read_hex_group_def read_groups_numeral

section \<open>Double-precision numbers\<close>

text \<open>
  A double is its bit pattern.  The order of the language on the non-NaN values is the
  order of the sign-magnitude reading of the pattern, in which both zeros are 0.
\<close>

type_synonym f64 = "64 word"

definition f64_magnitude :: "f64 \<Rightarrow> int" where
  "f64_magnitude x = uint (x AND 0x7FFFFFFFFFFFFFFF)"

definition f64_negative :: "f64 \<Rightarrow> bool" where
  "f64_negative x \<longleftrightarrow> 0x8000000000000000 \<le> uint x"

definition f64_is_nan :: "f64 \<Rightarrow> bool" where
  "f64_is_nan x \<longleftrightarrow> 0x7FF0000000000000 < f64_magnitude x"

definition f64_is_finite :: "f64 \<Rightarrow> bool" where
  "f64_is_finite x \<longleftrightarrow> f64_magnitude x < 0x7FF0000000000000"

definition f64_rank :: "f64 \<Rightarrow> int" where
  "f64_rank x = (if f64_negative x then - f64_magnitude x else f64_magnitude x)"

definition f64_le :: "f64 \<Rightarrow> f64 \<Rightarrow> bool" where
  "f64_le x y \<longleftrightarrow> \<not> f64_is_nan x \<and> \<not> f64_is_nan y \<and> f64_rank x \<le> f64_rank y"

definition f64_lt :: "f64 \<Rightarrow> f64 \<Rightarrow> bool" where
  "f64_lt x y \<longleftrightarrow> \<not> f64_is_nan x \<and> \<not> f64_is_nan y \<and> f64_rank x < f64_rank y"

definition f64_eq :: "f64 \<Rightarrow> f64 \<Rightarrow> bool" where
  "f64_eq x y \<longleftrightarrow> \<not> f64_is_nan x \<and> \<not> f64_is_nan y \<and> f64_rank x = f64_rank y"

definition f64_zero :: f64 where
  "f64_zero = 0"

lemmas f64_defs = f64_magnitude_def f64_negative_def f64_is_nan_def f64_is_finite_def
  f64_rank_def f64_le_def f64_lt_def f64_eq_def f64_zero_def

lemma f64_finite_not_nan: "f64_is_finite x \<Longrightarrow> \<not> f64_is_nan x"
  by (simp add: f64_is_finite_def f64_is_nan_def)

lemma f64_le_total: "f64_is_finite x \<Longrightarrow> f64_is_finite y \<Longrightarrow> f64_le x y \<or> f64_lt y x"
  by (auto simp: f64_le_def f64_lt_def f64_finite_not_nan)

end
