(* ===== verification/BTree.thy ===== *)
theory BTree
  imports Prelude
begin

text \<open>
  \<open>BTreeMap\<close> as the list of its entries in key order, which is what iteration, \<open>values()\<close>
  and serialisation of the source go by.  The locale \<open>ordered_map\<close> is the interface the
  components use (insert, lookup, in-order entries) with its laws; the entry-list model
  interprets it, and the components use the facts of that interpretation.
\<close>

locale ordered_map =
  fixes empty :: "'m"
    and insert :: "'k::linorder \<Rightarrow> 'v \<Rightarrow> 'm \<Rightarrow> 'm"
    and lookup :: "'m \<Rightarrow> 'k \<Rightarrow> 'v option"
    and entries :: "'m \<Rightarrow> ('k \<times> 'v) list"
    and invar :: "'m \<Rightarrow> bool"
  assumes lookup_empty: "lookup empty k = None"
    and lookup_insert: "invar m \<Longrightarrow> lookup (insert k v m) = (lookup m)(k \<mapsto> v)"
    and invar_empty: "invar empty"
    and invar_insert: "invar m \<Longrightarrow> invar (insert k v m)"
    and entries_sorted: "invar m \<Longrightarrow> sorted_wrt (<) (map fst (entries m))"
    and entries_lookup: "invar m \<Longrightarrow> (k, v) \<in> set (entries m) \<longleftrightarrow> lookup m k = Some v"
begin

lemma entries_distinct: "invar m \<Longrightarrow> distinct (map fst (entries m))"
  by (drule entries_sorted) (simp add: strict_sorted_iff)

lemma keys_dom: "invar m \<Longrightarrow> fst ` set (entries m) = dom (lookup m)"
  using entries_lookup by (force simp: dom_def)

lemma length_entries: "invar m \<Longrightarrow> length (entries m) = card (dom (lookup m))"
  using entries_distinct [of m] keys_dom [of m]
  by (metis distinct_card length_map set_map)

lemma length_insert_fresh:
  assumes "invar m" and "lookup m k = None"
  shows "length (entries (insert k v m)) = Suc (length (entries m))"
proof -
  have "finite (dom (lookup m))"
    using keys_dom [OF assms(1)] by (metis List.finite_set finite_imageI)
  moreover have "k \<notin> dom (lookup m)" using assms(2) by auto
  ultimately show ?thesis
    using assms by (simp add: length_entries invar_insert lookup_insert)
qed

lemma entries_determine:
  assumes "invar m" and "invar n" and "lookup m = lookup n"
  shows "set (entries m) = set (entries n)"
  using assms entries_lookup by (metis subsetI subset_antisym surj_pair)

end

type_synonym ('k, 'v) BTreeMap = "('k \<times> 'v) list"

definition bt_ok :: "('k::linorder, 'v) BTreeMap \<Rightarrow> bool" where
  "bt_ok m \<longleftrightarrow> sorted_wrt (<) (map fst m)"

fun bt_insert :: "'k::linorder \<Rightarrow> 'v \<Rightarrow> ('k, 'v) BTreeMap \<Rightarrow> ('k, 'v) BTreeMap" where
  "bt_insert k v [] = [(k, v)]"
| "bt_insert k v (e # m) =
    (if k = fst e then (k, v) # m
     else if k < fst e then (k, v) # e # m
     else e # bt_insert k v m)"

definition bt_get :: "('k, 'v) BTreeMap \<Rightarrow> 'k \<Rightarrow> 'v option" where
  "bt_get m k = map_of m k"

definition bt_contains :: "('k, 'v) BTreeMap \<Rightarrow> 'k \<Rightarrow> bool" where
  "bt_contains m k \<longleftrightarrow> k \<in> fst ` set m"

lemma bt_get_Nil [simp]: "bt_get [] = Map.empty"
  by (rule ext) (simp add: bt_get_def)

lemma bt_contains_get: "bt_contains m k \<longleftrightarrow> bt_get m k \<noteq> None"
  by (simp add: bt_contains_def bt_get_def map_of_eq_None_iff)

lemma bt_ok_Nil [simp]: "bt_ok []"
  by (simp add: bt_ok_def)

lemma bt_ok_Cons: "bt_ok (e # m) \<longleftrightarrow> (\<forall>f \<in> set m. fst e < fst f) \<and> bt_ok m"
  by (auto simp: bt_ok_def)

lemma bt_insert_keys: "fst ` set (bt_insert k v m) = insert k (fst ` set m)"
  by (induction m) (auto simp: image_iff)

lemma bt_insert_entry: "f \<in> set (bt_insert k v m) \<Longrightarrow> f = (k, v) \<or> f \<in> set m"
  by (induction m) (auto split: if_splits)

lemma bt_ok_insert: "bt_ok m \<Longrightarrow> bt_ok (bt_insert k v m)"
proof (induction m)
  case Nil
  then show ?case by (simp add: bt_ok_def)
next
  case (Cons e m)
  then show ?case
    by (auto simp: bt_ok_Cons dest: bt_insert_entry)
qed

lemma bt_ok_distinct: "bt_ok m \<Longrightarrow> distinct (map fst m)"
  by (simp add: bt_ok_def strict_sorted_iff)

lemma bt_get_insert: "bt_ok m \<Longrightarrow> bt_get (bt_insert k v m) = (bt_get m)(k \<mapsto> v)"
  by (rule ext, induction m) (auto simp: bt_get_def bt_ok_Cons)

interpretation bt: ordered_map "[]" bt_insert bt_get "\<lambda>m. m" bt_ok
proof unfold_locales
  fix m :: "('k::linorder \<times> 'v) list" and k :: 'k and v :: 'v
  show "bt_get [] k = None" by (simp add: bt_get_def)
  show "bt_ok m \<Longrightarrow> bt_get (bt_insert k v m) = (bt_get m)(k \<mapsto> v)" by (rule bt_get_insert)
  show "bt_ok []" by simp
  show "bt_ok m \<Longrightarrow> bt_ok (bt_insert k v m)" by (rule bt_ok_insert)
  show "bt_ok m \<Longrightarrow> sorted_wrt (<) (map fst m)" by (simp add: bt_ok_def)
  show "bt_ok m \<Longrightarrow> (k, v) \<in> set m \<longleftrightarrow> bt_get m k = Some v"
    by (simp add: bt_get_def bt_ok_distinct)
qed

lemma bt_insert_fresh_set:
  assumes "bt_ok m" and "bt_get m k = None"
  shows "set (bt_insert k v m) = insert (k, v) (set m)"
proof -
  have "(a, b) \<in> set (bt_insert k v m) \<longleftrightarrow> (a, b) \<in> insert (k, v) (set m)" for a b
    using bt.entries_lookup [OF bt_ok_insert [OF assms(1)]] bt.entries_lookup [OF assms(1)] assms
    by (auto simp: bt_get_insert)
  then show ?thesis by auto
qed

text \<open>A map is determined by its lookups.\<close>

lemma bt_eqI: "bt_ok m \<Longrightarrow> bt_ok n \<Longrightarrow> bt_get m = bt_get n \<Longrightarrow> m = n"
proof (induction m arbitrary: n)
  case Nil
  then show ?case by (cases n) (auto simp: bt_get_def fun_eq_iff split: if_splits)
next
  case (Cons e m)
  obtain k v where e: "e = (k, v)" by (cases e)
  from Cons.prems(3) e have "bt_get n k = Some v" by (auto simp: bt_get_def dest: fun_cong [of _ _ k])
  then obtain f n' where n: "n = f # n'" by (cases n) (auto simp: bt_get_def)
  have sorted: "\<forall>g \<in> set m. k < fst g" "\<forall>g \<in> set n'. fst f < fst g" "bt_ok m" "bt_ok n'"
    using Cons.prems(1,2) e n by (simp_all add: bt_ok_Cons)
  have "fst f = k"
  proof (rule ccontr)
    assume neq: "fst f \<noteq> k"
    with \<open>bt_get n k = Some v\<close> n have "(k, v) \<in> set n'"
      by (auto simp: bt_get_def dest: map_of_SomeD)
    with sorted(2) have less: "fst f < k" by force
    have "bt_get (e # m) (fst f) = bt_get n (fst f)" using Cons.prems(3) by simp
    also have "\<dots> = Some (snd f)" using n by (simp add: bt_get_def)
    finally have "(fst f, snd f) \<in> set m" using neq e by (auto simp: bt_get_def dest: map_of_SomeD)
    with sorted(1) have "k < fst f" by force
    with less show False by simp
  qed
  with \<open>bt_get n k = Some v\<close> n e have "f = e" by (cases f) (simp add: bt_get_def)
  have "bt_get m j = bt_get n' j" for j
  proof (cases "j = k")
    case True
    have "bt_get m k = None" "bt_get n' k = None"
      using sorted(1,2) \<open>fst f = k\<close> by (force simp: bt_get_def map_of_eq_None_iff)+
    with True show ?thesis by simp
  next
    case False
    with fun_cong [OF Cons.prems(3), of j] e n \<open>f = e\<close> show ?thesis by (simp add: bt_get_def)
  qed
  with Cons.IH sorted(3,4) have "m = n'" by blast
  with n \<open>f = e\<close> show ?case by simp
qed

end
