(* ===== verification/Types.thy ===== *)
theory Types
  imports RustNum BTree
begin

text \<open>
  The validated value types of \<open>eggbench-core/src/types.rs\<close> and the schema versions of
  \<open>lib.rs\<close>.  Each newtype is a datatype with one field and its \<open>new\<close> as the only
  constructor the code offers; \<open>validated_newtype\<close> is interpreted for each of them, so
  the round trip of the wire format is one lemma of that locale.
\<close>

section \<open>Schema versions\<close>

datatype SchemaVersion = SchemaVersion (version_number: u32)

definition EXPERIMENT_PLAN_SCHEMA_VERSION :: SchemaVersion where
  "EXPERIMENT_PLAN_SCHEMA_VERSION = SchemaVersion 1"
definition EXPERIMENT_PLAN_SCHEMA_VERSION_2 :: SchemaVersion where
  "EXPERIMENT_PLAN_SCHEMA_VERSION_2 = SchemaVersion 2"
definition EXPERIMENT_PLAN_SCHEMA_VERSION_3 :: SchemaVersion where
  "EXPERIMENT_PLAN_SCHEMA_VERSION_3 = SchemaVersion 3"
definition EXPERIMENT_PLAN_SCHEMA_VERSION_4 :: SchemaVersion where
  "EXPERIMENT_PLAN_SCHEMA_VERSION_4 = SchemaVersion 4"
definition EXPERIMENT_PLAN_SCHEMA_VERSION_5 :: SchemaVersion where
  "EXPERIMENT_PLAN_SCHEMA_VERSION_5 = SchemaVersion 5"
definition EXPERIMENT_PLAN_SCHEMA_VERSION_6 :: SchemaVersion where
  "EXPERIMENT_PLAN_SCHEMA_VERSION_6 = SchemaVersion 6"
definition EXPERIMENT_PLAN_SCHEMA_VERSION_7 :: SchemaVersion where
  "EXPERIMENT_PLAN_SCHEMA_VERSION_7 = SchemaVersion 7"
definition EXPERIMENT_PLAN_SCHEMA_VERSION_8 :: SchemaVersion where
  "EXPERIMENT_PLAN_SCHEMA_VERSION_8 = SchemaVersion 8"
definition EXPERIMENT_PLAN_SCHEMA_VERSION_9 :: SchemaVersion where
  "EXPERIMENT_PLAN_SCHEMA_VERSION_9 = SchemaVersion 9"
definition EXPERIMENT_PLAN_SCHEMA_VERSION_10 :: SchemaVersion where
  "EXPERIMENT_PLAN_SCHEMA_VERSION_10 = SchemaVersion 10"

lemmas version_defs = EXPERIMENT_PLAN_SCHEMA_VERSION_def EXPERIMENT_PLAN_SCHEMA_VERSION_2_def
  EXPERIMENT_PLAN_SCHEMA_VERSION_3_def EXPERIMENT_PLAN_SCHEMA_VERSION_4_def
  EXPERIMENT_PLAN_SCHEMA_VERSION_5_def EXPERIMENT_PLAN_SCHEMA_VERSION_6_def
  EXPERIMENT_PLAN_SCHEMA_VERSION_7_def EXPERIMENT_PLAN_SCHEMA_VERSION_8_def
  EXPERIMENT_PLAN_SCHEMA_VERSION_9_def EXPERIMENT_PLAN_SCHEMA_VERSION_10_def

section \<open>Names\<close>

datatype Name = Name (as_str: string)

datatype NameError = NameEmpty | NameTooLong | NameControlCharacter

definition MAX_NAME_LEN :: nat where
  "MAX_NAME_LEN = 128"

definition Name_new :: "string \<Rightarrow> NameError + Name" where
  "Name_new v =
    (if v = [] \<or> trim_is_empty v then Err NameEmpty
     else if MAX_NAME_LEN < length v then Err NameTooLong
     else if has_control v then Err NameControlCharacter
     else Ok (Name v))"

definition name_allowed :: "string \<Rightarrow> bool" where
  "name_allowed v \<longleftrightarrow> v \<noteq> [] \<and> \<not> trim_is_empty v \<and> length v \<le> 128 \<and> \<not> has_control v"

interpretation name: validated_newtype Name_new as_str name_allowed
  by unfold_locales
    (auto simp: Name_new_def name_allowed_def MAX_NAME_LEN_def Name.expand)

text \<open>Names are ordered as their text, which orders every \<open>BTreeMap\<close> keyed by a name.\<close>

instantiation Name :: linorder
begin

definition less_eq_Name :: "Name \<Rightarrow> Name \<Rightarrow> bool" where
  "less_eq_Name a b \<longleftrightarrow> as_str a \<le> as_str b"

definition less_Name :: "Name \<Rightarrow> Name \<Rightarrow> bool" where
  "less_Name a b \<longleftrightarrow> as_str a < as_str b"

instance
  by standard (auto simp: less_eq_Name_def less_Name_def Name.expand)

end

section \<open>Secrets\<close>

text \<open>A secret-bearing input holds a reference; what is printed of it is the reference.\<close>

datatype SecretRef = SecretRef (secret_reference: Name)

definition secret_display :: "SecretRef \<Rightarrow> string" where
  "secret_display s = ''[REDACTED:'' @ as_str (secret_reference s) @ '']''"

section \<open>Bounded numbers\<close>

datatype BoundError = BoundError string

datatype DurationMs = DurationMs (duration_get: u64)
datatype RateMilliRps = RateMilliRps (rate_get: u64)
datatype BasisPoints = BasisPoints (bps_get: u16)
datatype PositiveCount = PositiveCount (count_get: u32)

definition DurationMs_new :: "u64 \<Rightarrow> BoundError + DurationMs" where
  "DurationMs_new v =
    (if v = 0 \<or> 31536000000 < v
     then Err (BoundError ''duration must be between 1ms and one year'')
     else Ok (DurationMs v))"

definition RateMilliRps_new :: "u64 \<Rightarrow> BoundError + RateMilliRps" where
  "RateMilliRps_new v =
    (if v = 0 \<or> 1000000000 < v
     then Err (BoundError ''rate must be between 0.001 and 1,000,000 requests/second'')
     else Ok (RateMilliRps v))"

definition BasisPoints_new :: "u16 \<Rightarrow> BoundError + BasisPoints" where
  "BasisPoints_new v =
    (if 10000 < v then Err (BoundError ''percentage must not exceed 10000 basis points'')
     else Ok (BasisPoints v))"

definition PositiveCount_new :: "u32 \<Rightarrow> BoundError + PositiveCount" where
  "PositiveCount_new v =
    (if 1000000 < v then Err (BoundError ''count exceeds one million'')
     else if v = 0 then Err (BoundError ''count must be positive'')
     else Ok (PositiveCount v))"

interpretation duration: validated_newtype DurationMs_new duration_get
    "\<lambda>v. 1 \<le> v \<and> v \<le> 31536000000"
  by unfold_locales (auto simp: DurationMs_new_def DurationMs.expand word_ge_1_iff)

interpretation rate: validated_newtype RateMilliRps_new rate_get
    "\<lambda>v. 1 \<le> v \<and> v \<le> 1000000000"
  by unfold_locales (auto simp: RateMilliRps_new_def RateMilliRps.expand word_ge_1_iff)

interpretation bps: validated_newtype BasisPoints_new bps_get "\<lambda>v. v \<le> 10000"
  by unfold_locales (auto simp: BasisPoints_new_def BasisPoints.expand)

interpretation count: validated_newtype PositiveCount_new count_get
    "\<lambda>v. 1 \<le> v \<and> v \<le> 1000000"
  by unfold_locales (auto simp: PositiveCount_new_def PositiveCount.expand word_ge_1_iff)

end
