(* ===== verification/RouteChain.thy ===== *)
theory RouteChain
  imports Types
begin

text \<open>
  Proxy-chain routes of a network path: the shape check and the canonical form of
  \<open>eggbench-core/src/plan.rs\<close> (\<open>validate_proxy_chain_shape\<close>, \<open>validate_route_endpoint\<close>,
  \<open>canonical_proxy_chain_text\<close>), with the error type of the plan component.

  The human-readable detail of a \<open>PlanError::Validation\<close> is left out; its stable category
  is kept.  The \<open>expect\<close> calls of the canonical form are the result \<open>None\<close>.

  The lemmas characterise a valid hop by its parts (scheme, host, port) and show that the
  canonical form of a valid chain exists, is valid, is a fixed point and never grows.
\<close>

section \<open>Errors of the plan component\<close>

datatype PlanError =
  Parse string string
| UnsupportedVersion u32
| Validation (category: string)

abbreviation invalid :: "string \<Rightarrow> PlanError + unit" where
  "invalid c \<equiv> Err (Validation c)"

section \<open>Shape of a proxy chain\<close>

definition route_endpoint_char :: "char \<Rightarrow> bool" where
  "route_endpoint_char c \<longleftrightarrow> is_ascii_alphanumeric c \<or> c \<in> set ''.-:[]''"

definition route_host_char :: "char \<Rightarrow> bool" where
  "route_host_char c \<longleftrightarrow> is_ascii_alphanumeric c \<or> c \<in> set ''.-''"

text \<open>The tail of \<open>validate_route_endpoint\<close>, common to the two spellings of the host.\<close>

definition validate_host_port :: "string \<Rightarrow> string \<Rightarrow> PlanError + unit" where
  "validate_host_port host port =
    (if (case parse_u16 port of None \<Rightarrow> True | Some p \<Rightarrow> \<not> 0 < p) then invalid ''invalid_route''
     else if CHR '':'' \<in> set host then Ok ()
     else if \<not> list_all route_host_char host then invalid ''invalid_route''
     else Ok ())"

definition validate_route_endpoint :: "string \<Rightarrow> PlanError + unit" where
  "validate_route_endpoint endpoint =
    (case strip_prefix ''['' endpoint of
       Some bracketed \<Rightarrow>
         (case split_once '']'' bracketed of
            None \<Rightarrow> invalid ''invalid_route''
          | Some (host, rest) \<Rightarrow>
              (case strip_prefix '':'' rest of
                 None \<Rightarrow> invalid ''invalid_route''
               | Some port \<Rightarrow>
                   if \<not> is_ipv6 host then invalid ''invalid_route''
                   else validate_host_port host port))
     | None \<Rightarrow>
         (case rsplit_once_char CHR '':'' endpoint of
            None \<Rightarrow> invalid ''invalid_route''
          | Some (host, port) \<Rightarrow>
              if host = [] \<or> CHR '':'' \<in> set host then invalid ''invalid_route''
              else validate_host_port host port))"

definition route_schemes :: "string set" where
  "route_schemes = {''http'', ''socks4'', ''socks4a'', ''socks5''}"

definition validate_hop :: "string \<Rightarrow> PlanError + unit" where
  "validate_hop hop =
    (case split_once ''://'' hop of
       None \<Rightarrow> invalid ''invalid_route''
     | Some (scheme, endpoint) \<Rightarrow>
         if scheme \<notin> route_schemes then invalid ''unsupported_route''
         else if endpoint = [] \<or> \<not> list_all route_endpoint_char endpoint
           then invalid ''invalid_route''
         else validate_route_endpoint endpoint)"

definition validate_proxy_chain_shape :: "string \<Rightarrow> PlanError + unit" where
  "validate_proxy_chain_shape chain = for_each validate_hop (split_str ''__'' chain)"

section \<open>Canonical form\<close>

definition hop_host_port :: "string \<Rightarrow> (string \<times> string) option" where
  "hop_host_port endpoint =
    (case strip_prefix ''['' endpoint of
       Some bracketed \<Rightarrow>
         (case split_once '']'' bracketed of
            None \<Rightarrow> None
          | Some (host, rest) \<Rightarrow> if rest = [] then None else Some (host, drop 1 rest))
     | None \<Rightarrow> rsplit_once_char CHR '':'' endpoint)"

definition canonical_hop :: "string \<Rightarrow> string option" where
  "canonical_hop hop =
    (case split_once ''://'' hop of
       None \<Rightarrow> None
     | Some (scheme, endpoint) \<Rightarrow>
         (case hop_host_port endpoint of
            None \<Rightarrow> None
          | Some (host, port) \<Rightarrow>
              (case parse_u16 port of
                 None \<Rightarrow> None
               | Some p \<Rightarrow>
                   Some ((if scheme = ''socks4a'' then ''socks4'' else scheme) @ ''://''
                     @ (if CHR '':'' \<in> set host then ''['' @ host @ '']'' else host)
                     @ '':'' @ show_dec (unat p)))))"

definition canonical_proxy_chain_text :: "string \<Rightarrow> string option" where
  "canonical_proxy_chain_text chain =
    map_option (join_str ''__'') (those (map canonical_hop (split_str ''__'' chain)))"

section \<open>Valid hops by their parts\<close>

definition hop_text :: "string \<Rightarrow> string \<Rightarrow> string \<Rightarrow> string" where
  "hop_text scheme host port =
     scheme @ ''://'' @ (if CHR '':'' \<in> set host then ''['' @ host @ '']'' else host) @ '':'' @ port"

definition hop_parts_ok :: "string \<Rightarrow> string \<Rightarrow> string \<Rightarrow> u16 \<Rightarrow> bool" where
  "hop_parts_ok scheme host port p \<longleftrightarrow>
     scheme \<in> route_schemes \<and> parse_u16 port = Some p \<and> 0 < p
     \<and> list_all route_endpoint_char host \<and> list_all route_endpoint_char port
     \<and> (if CHR '':'' \<in> set host then is_ipv6 host \<and> CHR '']'' \<notin> set host
        else host \<noteq> [] \<and> list_all route_host_char host)"

lemma scheme_no_colon: "scheme \<in> route_schemes \<Longrightarrow> CHR '':'' \<notin> set scheme"
  by (auto simp: route_schemes_def)

lemma split_once_colon_sep:
  "CHR '':'' \<notin> set a \<Longrightarrow> split_once ''://'' (a @ CHR '':'' # CHR ''/'' # CHR ''/'' # b) = Some (a, b)"
  by (induction a) (auto simp: prefix_def)

lemma parse_u16_chars:
  assumes "parse_u16 port = Some p"
  shows "port \<noteq> [] \<and> (\<forall>c \<in> set port. c = CHR ''+'' \<or> is_ascii_digit c)"
  using assms
  by (cases port) (auto simp: parse_u16_def Let_def list_all_iff split: if_splits)

lemma parse_u16_no_colon: "parse_u16 port = Some p \<Longrightarrow> CHR '':'' \<notin> set port"
  by (auto dest!: parse_u16_chars bspec simp: is_ascii_digit_def byte_def)

lemma validate_host_port_Ok:
  "validate_host_port host port = Ok () \<longleftrightarrow>
     (\<exists>p. parse_u16 port = Some p \<and> 0 < p) \<and> (CHR '':'' \<in> set host \<or> list_all route_host_char host)"
  by (auto simp: validate_host_port_def split: option.splits)

lemma strip_prefix_Some: "strip_prefix p s = Some r \<longleftrightarrow> s = p @ r"
  by (auto simp: prefix_def)

lemma strip_prefix_single: "strip_prefix [c] s = None \<longleftrightarrow> (s = [] \<or> hd s \<noteq> c)"
  by (cases s) (auto simp: prefix_def)

lemma endpoint_parts:
  assumes "validate_route_endpoint endpoint = Ok ()" and "list_all route_endpoint_char endpoint"
  obtains host port p where
    "endpoint = (if CHR '':'' \<in> set host then ''['' @ host @ '']'' else host) @ '':'' @ port"
    "parse_u16 port = Some p" "0 < p"
    "list_all route_endpoint_char host" "list_all route_endpoint_char port"
    "if CHR '':'' \<in> set host then is_ipv6 host \<and> CHR '']'' \<notin> set host
     else host \<noteq> [] \<and> list_all route_host_char host"
proof (cases "strip_prefix ''['' endpoint")
  case (Some bracketed)
  then have e: "endpoint = ''['' @ bracketed" by (simp add: strip_prefix_Some del: strip_prefix.simps)
  from assms(1) Some obtain host rest where sp: "split_once '']'' bracketed = Some (host, rest)"
    by (auto simp: validate_route_endpoint_def simp del: strip_prefix.simps split: option.splits)
  with assms(1) Some obtain port where pt: "strip_prefix '':'' rest = Some port"
    and v6: "is_ipv6 host" and hp0: "validate_host_port host port = Ok ()"
    by (auto simp: validate_route_endpoint_def simp del: strip_prefix.simps
        split: option.splits if_splits)
  from pt have s: "rest = '':'' @ port" by (simp add: strip_prefix_Some del: strip_prefix.simps)
  from split_once_Some [OF sp] e s have "endpoint = ''['' @ host @ '']'' @ '':'' @ port" by simp
  moreover from v6 have "CHR '':'' \<in> set host" by (rule is_ipv6_colon)
  moreover from sp have "CHR '']'' \<notin> set host" by (rule split_once_char_no_delim)
  moreover from hp0 obtain p where "parse_u16 port = Some p" "0 < p"
    by (auto simp: validate_host_port_Ok)
  ultimately show ?thesis
    using v6 assms(2) by (intro that [of host port p]) auto
next
  case None
  with assms(1) obtain host port where rs: "rsplit_once_char CHR '':'' endpoint = Some (host, port)"
    and ne: "host \<noteq> []" and nc: "CHR '':'' \<notin> set host"
    and hp0: "validate_host_port host port = Ok ()"
    by (auto simp: validate_route_endpoint_def simp del: strip_prefix.simps
        split: option.splits if_splits)
  from rsplit_once_char_Some [OF rs] have "endpoint = host @ '':'' @ port" by simp
  moreover from hp0 nc obtain p where "parse_u16 port = Some p" "0 < p" "list_all route_host_char host"
    by (auto simp: validate_host_port_Ok)
  ultimately show ?thesis
    using ne nc assms(2) by (intro that [of host port p]) auto
qed

lemma valid_hop_parts:
  assumes "validate_hop hop = Ok ()"
  obtains scheme host port p where "hop = hop_text scheme host port" "hop_parts_ok scheme host port p"
proof -
  from assms obtain scheme endpoint where sp: "split_once ''://'' hop = Some (scheme, endpoint)"
    and sch: "scheme \<in> route_schemes" and chs: "list_all route_endpoint_char endpoint"
    and ep: "validate_route_endpoint endpoint = Ok ()"
    by (auto simp: validate_hop_def split: option.splits if_splits)
  from endpoint_parts [OF ep chs] obtain host port p where
    "endpoint = (if CHR '':'' \<in> set host then ''['' @ host @ '']'' else host) @ '':'' @ port"
    "parse_u16 port = Some p" "0 < p"
    "list_all route_endpoint_char host" "list_all route_endpoint_char port"
    "if CHR '':'' \<in> set host then is_ipv6 host \<and> CHR '']'' \<notin> set host
     else host \<noteq> [] \<and> list_all route_host_char host" .
  moreover from split_once_Some [OF sp] have "hop = scheme @ ''://'' @ endpoint" .
  ultimately show ?thesis
    using sch by (intro that [of scheme host port p]) (simp_all add: hop_text_def hop_parts_ok_def)
qed

lemma hop_text_split:
  assumes "hop_parts_ok scheme host port p"
  shows "split_once ''://'' (hop_text scheme host port) = Some (scheme,
     (if CHR '':'' \<in> set host then ''['' @ host @ '']'' else host) @ '':'' @ port)"
  using assms split_once_colon_sep [OF scheme_no_colon]
  by (simp add: hop_text_def hop_parts_ok_def)

lemma host_no_bracket: "list_all route_host_char host \<Longrightarrow> host \<noteq> [] \<Longrightarrow> hd host \<noteq> CHR ''[''"
  by (cases host) (auto simp: route_host_char_def ascii_defs)

lemma hop_text_host_port:
  assumes "hop_parts_ok scheme host port p"
  shows "hop_host_port ((if CHR '':'' \<in> set host then ''['' @ host @ '']'' else host) @ '':'' @ port)
    = Some (host, port)"
proof (cases "CHR '':'' \<in> set host")
  case True
  with assms have "CHR '']'' \<notin> set host" by (simp add: hop_parts_ok_def)
  then have "split_once '']'' (host @ CHR '']'' # CHR '':'' # port) = Some (host, CHR '':'' # port)"
    by (rule split_once_char_append)
  with True show ?thesis by (simp add: hop_host_port_def)
next
  case False
  with assms have "host \<noteq> []" "list_all route_host_char host" "parse_u16 port = Some p"
    by (simp_all add: hop_parts_ok_def)
  moreover from this have "strip_prefix ''['' (host @ '':'' @ port) = None"
    using host_no_bracket [of host] by (simp add: strip_prefix_single del: strip_prefix.simps)
  ultimately show ?thesis
    using False rsplit_once_char_append [OF parse_u16_no_colon, of port p host]
    by (simp add: hop_host_port_def del: strip_prefix.simps)
qed

lemma parts_valid_endpoint:
  assumes "hop_parts_ok scheme host port p"
  shows "validate_route_endpoint
    ((if CHR '':'' \<in> set host then ''['' @ host @ '']'' else host) @ '':'' @ port) = Ok ()"
proof (cases "CHR '':'' \<in> set host")
  case True
  with assms have "CHR '']'' \<notin> set host" by (simp add: hop_parts_ok_def)
  then have "split_once '']'' (host @ CHR '']'' # CHR '':'' # port) = Some (host, CHR '':'' # port)"
    by (rule split_once_char_append)
  with True assms show ?thesis
    by (simp add: validate_route_endpoint_def hop_parts_ok_def validate_host_port_Ok)
next
  case False
  with assms have h: "host \<noteq> []" "list_all route_host_char host" "parse_u16 port = Some p" "0 < p"
    by (simp_all add: hop_parts_ok_def)
  then have "strip_prefix ''['' (host @ '':'' @ port) = None"
    using host_no_bracket [of host] by (simp add: strip_prefix_single del: strip_prefix.simps)
  with False h show ?thesis
    using rsplit_once_char_append [OF parse_u16_no_colon, of port p host]
    by (simp add: validate_route_endpoint_def validate_host_port_Ok del: strip_prefix.simps)
qed

lemma route_endpoint_punct [simp]:
  "route_endpoint_char CHR '':''" "route_endpoint_char CHR ''[''" "route_endpoint_char CHR '']''"
  by (simp_all add: route_endpoint_char_def)

lemma parts_valid_hop:
  assumes "hop_parts_ok scheme host port p"
  shows "validate_hop (hop_text scheme host port) = Ok ()"
  using assms hop_text_split [OF assms] parts_valid_endpoint [OF assms]
  by (simp add: validate_hop_def hop_parts_ok_def)

lemma canonical_hop_parts:
  assumes "hop_parts_ok scheme host port p"
  shows "canonical_hop (hop_text scheme host port) =
    Some (hop_text (if scheme = ''socks4a'' then ''socks4'' else scheme) host (show_dec (unat p)))"
  using assms hop_text_split [OF assms] hop_text_host_port [OF assms]
  by (simp add: canonical_hop_def hop_text_def hop_parts_ok_def)

lemma digits_route_char: "list_all is_ascii_digit ds \<Longrightarrow> list_all route_endpoint_char ds"
  by (auto simp: list_all_iff route_endpoint_char_def is_ascii_alphanumeric_def)

lemma canonical_parts_ok:
  assumes "hop_parts_ok scheme host port p"
  shows "hop_parts_ok (if scheme = ''socks4a'' then ''socks4'' else scheme) host (show_dec (unat p)) p"
  using assms
  by (auto simp: hop_parts_ok_def parse_u16_show digits_route_char show_dec_digits route_schemes_def)

lemma endpoint_char_no_underscore: "list_all route_endpoint_char s \<Longrightarrow> CHR ''_'' \<notin> set s"
  by (auto simp: list_all_iff route_endpoint_char_def ascii_defs)

lemma hop_no_underscore:
  assumes "hop_parts_ok scheme host port p"
  shows "CHR ''_'' \<notin> set (hop_text scheme host port)"
proof -
  from assms have "CHR ''_'' \<notin> set scheme" by (auto simp: hop_parts_ok_def route_schemes_def)
  moreover from assms have "CHR ''_'' \<notin> set host" "CHR ''_'' \<notin> set port"
    by (simp_all add: hop_parts_ok_def endpoint_char_no_underscore)
  ultimately show ?thesis by (simp add: hop_text_def)
qed

text \<open>The definitions that evaluate the chain functions on a literal.\<close>

lemmas route_eval = validate_proxy_chain_shape_def validate_hop_def route_schemes_def
  route_endpoint_char_def validate_route_endpoint_def rsplit_once_char_def
  validate_host_port_def route_host_char_def ipv6_eval num_eval

section \<open>Canonical chains\<close>

lemma canonical_hop_valid:
  assumes "validate_hop hop = Ok ()"
  shows "\<exists>h. canonical_hop hop = Some h \<and> validate_hop h = Ok () \<and> canonical_hop h = Some h
    \<and> CHR ''_'' \<notin> set h \<and> length h \<le> length hop"
proof -
  from valid_hop_parts [OF assms] obtain scheme host port p where
    hop: "hop = hop_text scheme host port" and ok: "hop_parts_ok scheme host port p" .
  let ?s = "if scheme = ''socks4a'' then ''socks4'' else scheme"
  let ?h = "hop_text ?s host (show_dec (unat p))"
  have ok': "hop_parts_ok ?s host (show_dec (unat p)) p" by (rule canonical_parts_ok [OF ok])
  have "canonical_hop hop = Some ?h" using canonical_hop_parts [OF ok] hop by simp
  moreover have "validate_hop ?h = Ok ()" by (rule parts_valid_hop [OF ok'])
  moreover have "canonical_hop ?h = Some ?h" using canonical_hop_parts [OF ok'] by simp
  moreover have "CHR ''_'' \<notin> set ?h" by (rule hop_no_underscore [OF ok'])
  moreover have "length ?h \<le> length hop"
    using length_show_parse_u16 [of port p] ok by (auto simp: hop hop_text_def hop_parts_ok_def)
  ultimately show ?thesis by blast
qed

lemma canonical_hops_valid:
  assumes "\<forall>w \<in> set ws. validate_hop w = Ok ()"
  shows "\<exists>hs. those (map canonical_hop ws) = Some hs \<and> length hs = length ws
    \<and> (\<forall>h \<in> set hs. validate_hop h = Ok () \<and> CHR ''_'' \<notin> set h)
    \<and> those (map canonical_hop hs) = Some hs \<and> length (join_str ''__'' hs) \<le> length (join_str ''__'' ws)"
  using assms
proof (induction ws)
  case Nil
  then show ?case by simp
next
  case (Cons w ws)
  then obtain hs where hs: "those (map canonical_hop ws) = Some hs" "length hs = length ws"
      "\<forall>h \<in> set hs. validate_hop h = Ok () \<and> CHR ''_'' \<notin> set h"
      "those (map canonical_hop hs) = Some hs"
      "length (join_str ''__'' hs) \<le> length (join_str ''__'' ws)"
    by auto
  from Cons.prems obtain h where h: "canonical_hop w = Some h" "validate_hop h = Ok ()"
      "canonical_hop h = Some h" "CHR ''_'' \<notin> set h" "length h \<le> length w"
    using canonical_hop_valid [of w] by auto
  show ?case
    using hs h by (cases "ws = []"; cases "hs = []") (auto simp: join_str_Cons)
qed

lemma canonical_chain_fixpoint:
  assumes "validate_proxy_chain_shape chain = Ok ()"
  shows "\<exists>canon. canonical_proxy_chain_text chain = Some canon
    \<and> validate_proxy_chain_shape canon = Ok ()
    \<and> canonical_proxy_chain_text canon = Some canon \<and> length canon \<le> length chain"
proof -
  let ?ws = "split_str ''__'' chain"
  from assms have "\<forall>w \<in> set ?ws. validate_hop w = Ok ()"
    by (simp add: validate_proxy_chain_shape_def ok_simps)
  from canonical_hops_valid [OF this] obtain hs where
    hs: "those (map canonical_hop ?ws) = Some hs" "length hs = length ?ws"
      "\<forall>h \<in> set hs. validate_hop h = Ok () \<and> CHR ''_'' \<notin> set h"
      "those (map canonical_hop hs) = Some hs"
      "length (join_str ''__'' hs) \<le> length (join_str ''__'' ?ws)" by blast
  from hs(2) have "hs \<noteq> []" by auto
  with hs(3) have sj: "split_str ''__'' (join_str ''__'' hs) = hs"
    by (intro split_join_str) auto
  with hs show ?thesis
    by (intro exI [of _ "join_str ''__'' hs"])
      (simp add: canonical_proxy_chain_text_def validate_proxy_chain_shape_def ok_simps join_split_str)
qed

text \<open>The shape check leaves a small alphabet: no control character, no credential syntax.\<close>

definition route_text_char :: "char \<Rightarrow> bool" where
  "route_text_char c \<longleftrightarrow> route_endpoint_char c \<or> c = CHR ''/'' \<or> c = CHR ''_''"

lemma valid_hop_alphabet:
  assumes "validate_hop hop = Ok ()"
  shows "list_all route_text_char hop"
proof -
  from valid_hop_parts [OF assms] obtain scheme host port p where
    hop: "hop = hop_text scheme host port" and ok: "hop_parts_ok scheme host port p" .
  from ok have "list_all route_text_char scheme"
    by (auto simp: hop_parts_ok_def route_schemes_def route_text_char_def route_endpoint_char_def
        ascii_defs)
  moreover from ok have "list_all route_text_char host" "list_all route_text_char port"
    by (auto simp: hop_parts_ok_def route_text_char_def elim: list.pred_mono_strong)
  ultimately show ?thesis
    by (simp add: hop hop_text_def route_text_char_def)
qed

lemma join_alphabet:
  "\<forall>w \<in> set ws. list_all P w \<Longrightarrow> list_all P sep \<Longrightarrow> list_all P (join_str sep ws)"
  by (induction sep ws rule: join_str.induct) auto

lemma valid_chain_alphabet:
  assumes "validate_proxy_chain_shape chain = Ok ()"
  shows "list_all route_text_char chain"
proof -
  have "list_all route_text_char (join_str ''__'' (split_str ''__'' chain))"
    using assms valid_hop_alphabet
    by (intro join_alphabet)
      (auto simp: validate_proxy_chain_shape_def ok_simps route_text_char_def)
  then show ?thesis by (simp add: join_split_str)
qed

lemma route_text_char_printable:
  assumes "route_text_char c"
  shows "byte c < 128 \<and> \<not> is_control (byte c) \<and> c \<notin> set ''@%?#''"
  using assms
  by (auto simp: route_text_char_def route_endpoint_char_def ascii_defs is_control_def)

lemma valid_chain_clean:
  assumes "validate_proxy_chain_shape chain = Ok ()"
  shows "\<not> has_control chain \<and> set chain \<inter> set ''@%?#'' = {}"
proof -
  have "\<forall>c \<in> set chain. byte c < 128 \<and> \<not> is_control (byte c) \<and> c \<notin> set ''@%?#''"
    using valid_chain_alphabet [OF assms] route_text_char_printable by (simp add: list_all_iff)
  then show ?thesis by (auto simp: has_control_ascii)
qed

lemma split_str_Nil_iff: "split_str sep s = [[]] \<Longrightarrow> sep \<noteq> [] \<Longrightarrow> s = []"
  by (cases s) (auto split: if_splits list.splits)

lemma valid_chain_nonempty: "validate_proxy_chain_shape chain = Ok () \<Longrightarrow> chain \<noteq> []"
  by (auto simp: validate_proxy_chain_shape_def validate_hop_def)

end
