(* ===== verification/NetworkPath.thy ===== *)
theory NetworkPath
  imports RouteChain
begin

text \<open>
  The declarative network path of a schema-3 plan: the data of
  \<open>eggbench-core/src/network_path.rs\<close> with its redacting serialiser and debug form, and the
  contract check \<open>validate_network_path_contract\<close> of \<open>plan.rs\<close>.

  The lemmas show that the serialiser refuses exactly the routes the contract refuses, and
  that the canonical text of an accepted route is again accepted.
\<close>

section \<open>Data\<close>

definition NETWORK_PATH_SEMANTICS_VERSION :: string where
  "NETWORK_PATH_SEMANTICS_VERSION = ''route-first-fault-second-v1''"

definition NETWORK_PATH_RNG_VERSION :: string where
  "NETWORK_PATH_RNG_VERSION = ''splitmix64-v1''"

datatype RouteMode = Direct | ProxyChain (route_chain: string)

record RouteRequest =
  route_driver :: Name
  route_mode :: RouteMode

datatype StreamFaultKind =
  Latency DurationMs DurationMs PositiveCount
| Bandwidth PositiveCount PositiveCount
| Blackhole "DurationMs option"
| LimitData PositiveCount
| SlowClose DurationMs
| Slice PositiveCount u64 DurationMs
| Disconnect DurationMs

record StreamFaultRequest =
  fault_id :: Name
  fault_kind :: StreamFaultKind

record StreamFaultPlanRequest =
  faults_driver :: Name
  faults_upstream :: "StreamFaultRequest list"
  faults_downstream :: "StreamFaultRequest list"

record NetworkPathRequest =
  path_route :: RouteRequest
  path_stream_faults :: "StreamFaultPlanRequest option"

section \<open>Serialisation and debug form of a route\<close>

text \<open>The serialised fields of a route, or the message of the refused serialisation.\<close>

definition serialize_route_mode :: "RouteMode \<Rightarrow> string + (string \<times> string) list" where
  "serialize_route_mode m =
    (case m of
       Direct \<Rightarrow> Ok [(''kind'', ''direct'')]
     | ProxyChain chain \<Rightarrow>
         if chain \<noteq> [] \<and> length chain \<le> 1024 \<and> \<not> has_control chain
            \<and> set chain \<inter> set ''@%?#'' = {} \<and> is_ok (validate_proxy_chain_shape chain)
         then Ok [(''kind'', ''proxy_chain''), (''chain'', chain)]
         else Err ''credential-bearing or invalid proxy chain cannot be serialized'')"

definition debug_route_mode :: "RouteMode \<Rightarrow> string" where
  "debug_route_mode m =
    (case m of
       Direct \<Rightarrow> ''Direct''
     | ProxyChain chain \<Rightarrow> ''ProxyChain { chain: '' @ [CHR 0x22] @ ''[REDACTED]'' @ [CHR 0x22] @ '' }'')"

section \<open>The contract of a network path\<close>

definition validate_route_mode :: "RouteMode \<Rightarrow> PlanError + unit" where
  "validate_route_mode m =
    (case m of
       Direct \<Rightarrow> Ok ()
     | ProxyChain chain \<Rightarrow> checks
        [reject_if (chain = [] \<or> 1024 < length chain) (Validation ''invalid_route''),
         reject_if (has_control chain) (Validation ''invalid_route''),
         reject_if (set chain \<inter> set ''@%?#'' \<noteq> {}) (Validation ''route_credentials_not_supported''),
         validate_proxy_chain_shape chain])"

definition slice_variation_ok :: "StreamFaultKind \<Rightarrow> bool" where
  "slice_variation_ok k =
    (case k of Slice average variation _ \<Rightarrow> variation < ucast (count_get average) | _ \<Rightarrow> True)"

fun scan_faults :: "Name set \<Rightarrow> StreamFaultRequest list \<Rightarrow> PlanError + unit" where
  "scan_faults seen [] = Ok ()"
| "scan_faults seen (f # fs) = checks
    [reject_if (fault_id f \<in> seen) (Validation ''duplicate_identity''),
     reject_if (\<not> slice_variation_ok (fault_kind f)) (Validation ''invalid_bound''),
     scan_faults (insert (fault_id f) seen) fs]"

definition validate_stream_fault_plan :: "StreamFaultRequest list \<Rightarrow> PlanError + unit" where
  "validate_stream_fault_plan faults = checks
    [reject_if (128 < length faults) (Validation ''invalid_bound''), scan_faults {} faults]"

definition validate_network_path_contract :: "NetworkPathRequest \<Rightarrow> PlanError + unit" where
  "validate_network_path_contract path = checks
    [validate_route_mode (route_mode (path_route path)),
     (case path_stream_faults path of
        None \<Rightarrow> Ok ()
      | Some faults \<Rightarrow> checks
         [map_err (\<lambda>_. Validation ''invalid_fault_plan'')
            (validate_stream_fault_plan (faults_upstream faults)),
          map_err (\<lambda>_. Validation ''invalid_fault_plan'')
            (validate_stream_fault_plan (faults_downstream faults))])]"

interpretation fault_scan: unique_scan fault_id "\<lambda>_. Ok ()" "\<lambda>_. Validation ''duplicate_identity''"
    "\<lambda>f. reject_if (\<not> slice_variation_ok (fault_kind f)) (Validation ''invalid_bound'')" scan_faults
  by unfold_locales simp_all

lemma validate_stream_fault_plan_Ok [ok_simps]:
  "validate_stream_fault_plan faults = Ok () \<longleftrightarrow>
     length faults \<le> 128 \<and> distinct (map fault_id faults)
     \<and> (\<forall>f \<in> set faults. slice_variation_ok (fault_kind f))"
  by (auto simp: validate_stream_fault_plan_def ok_simps fault_scan.scan_Ok_iff)

lemma validate_route_mode_chain:
  "validate_route_mode (ProxyChain chain) = Ok () \<longleftrightarrow>
     chain \<noteq> [] \<and> length chain \<le> 1024 \<and> \<not> has_control chain \<and> set chain \<inter> set ''@%?#'' = {}
     \<and> validate_proxy_chain_shape chain = Ok ()"
  by (auto simp: validate_route_mode_def ok_simps)

text \<open>
  The serialiser of a route mode, a second copy of the route contract, refuses exactly
  the routes the plan validator refuses; what it writes is the chain itself.
\<close>

lemma serialize_route_iff_valid:
  "(\<exists>fields. serialize_route_mode m = Ok fields) \<longleftrightarrow> validate_route_mode m = Ok ()"
  by (cases m)
    (auto simp: serialize_route_mode_def validate_route_mode_chain ok_simps validate_route_mode_def)

text \<open>
  C38: The canonical text of an accepted proxy chain exists (no \<open>expect\<close> can panic), passes
  the whole route contract again, is its own canonical text, and is not longer.
\<close>

theorem canonical_route_accepted:
  assumes "validate_route_mode (ProxyChain chain) = Ok ()"
  shows "\<exists>canon. canonical_proxy_chain_text chain = Some canon
    \<and> validate_route_mode (ProxyChain canon) = Ok ()
    \<and> canonical_proxy_chain_text canon = Some canon \<and> length canon \<le> length chain"
proof -
  from assms have shape: "validate_proxy_chain_shape chain = Ok ()" and len: "length chain \<le> 1024"
    by (simp_all add: validate_route_mode_chain)
  from canonical_chain_fixpoint [OF shape] obtain canon where
    t: "canonical_proxy_chain_text chain = Some canon" "validate_proxy_chain_shape canon = Ok ()"
      "canonical_proxy_chain_text canon = Some canon" "length canon \<le> length chain" by blast
  from valid_chain_clean [OF t(2)] valid_chain_nonempty [OF t(2)] t len
  have "validate_route_mode (ProxyChain canon) = Ok ()" by (simp add: validate_route_mode_chain)
  with t show ?thesis by blast
qed

theorem canonical_route_accepted_witness:
  "\<exists>canon. canonical_proxy_chain_text ''http://a.b:080__socks4a://[::1]:9'' = Some canon
     \<and> validate_route_mode (ProxyChain canon) = Ok ()
     \<and> canonical_proxy_chain_text canon = Some canon"
proof -
  have shape: "validate_proxy_chain_shape ''http://a.b:080__socks4a://[::1]:9'' = Ok ()"
    by (simp add: route_eval)
  then have "validate_route_mode (ProxyChain ''http://a.b:080__socks4a://[::1]:9'') = Ok ()"
    using valid_chain_clean [OF shape] by (simp add: validate_route_mode_chain)
  from canonical_route_accepted [OF this] show ?thesis by blast
qed

end
