(* ===== verification/Plan.thy ===== *)
theory Plan
  imports NetworkPath
begin

text \<open>
  The experiment plan of \<open>eggbench-core/src/plan.rs\<close> as it is after decoding: one record per
  struct and one datatype per enum, fields and variants in the source's order, with the
  limits of \<open>security.rs\<close> that the plan validator uses.  A \<open>BTreeMap\<close> field is the list of
  its entries in key order.  Decoding itself (serde) is not modelled.

  The operations here are those on the plan's own values: the workload's target and
  retargeting, and the WAF family tokens.
\<close>

section \<open>Subjects and services\<close>

datatype Subject =
  ManagedCommand (subject_argv: "string list") "(string, SecretRef) BTreeMap"
    "string option" "string option"
| External (subject_target: Name) "string option" "string option"
| Label (subject_label: Name)

datatype ServiceKind = Command (command_argv: "string list") | Named Name

datatype Lifecycle = Managed | ExternalService

datatype Readiness = Delay DurationMs | Probe Name DurationMs

record Shutdown =
  grace_ms :: DurationMs
  shutdown_method :: "Name option"

record RuntimeBindingArg =
  arg_index :: nat
  arg_source_service :: Name
  arg_source_key :: string

record RuntimeBindingSource =
  env_source_service :: Name
  env_source_key :: string

record Service =
  svc_name :: Name
  svc_kind :: ServiceKind
  svc_lifecycle :: Lifecycle
  depends_on :: "Name list"
  svc_config :: "(string, string) BTreeMap"
  http_url :: "string option"
  static_bindings :: "(string, string) BTreeMap"
  binding_args :: "RuntimeBindingArg list"
  binding_env :: "(string, RuntimeBindingSource) BTreeMap"
  readiness :: "Readiness option"
  shutdown :: "Shutdown option"
  working_directory :: "string option"
  log_limit_bytes :: u64

section \<open>Workloads\<close>

datatype LoadMode = ClosedLoopMode | OpenLoopMode

datatype HttpConnectionPolicy = Pooled | FreshPerRequest

record HttpCorpusScheduleEntry =
  case_id :: string
  case_count :: PositiveCount

datatype Workload =
  ClosedLoop Name PositiveCount "PositiveCount option" "DurationMs option"
| OpenLoop Name RateMilliRps "PositiveCount option" "DurationMs option"
| FiniteCount Name PositiveCount PositiveCount
| TimeBounded Name DurationMs LoadMode "PositiveCount option" "RateMilliRps option"
| SemanticReplay Name string
| HttpCorpus Name string string "HttpCorpusScheduleEntry list" PositiveCount
    HttpConnectionPolicy "(string \<times> string) list"

fun workload_target :: "Workload \<Rightarrow> Name" where
  "workload_target (ClosedLoop t c r d) = t"
| "workload_target (OpenLoop t x r d) = t"
| "workload_target (FiniteCount t r c) = t"
| "workload_target (TimeBounded t d m c r) = t"
| "workload_target (SemanticReplay t f) = t"
| "workload_target (HttpCorpus t cr sha sch c p h) = t"

fun with_target :: "Workload \<Rightarrow> Name \<Rightarrow> Workload" where
  "with_target (ClosedLoop _ c r d) t = ClosedLoop t c r d"
| "with_target (OpenLoop _ x r d) t = OpenLoop t x r d"
| "with_target (FiniteCount _ r c) t = FiniteCount t r c"
| "with_target (TimeBounded _ d m c r) t = TimeBounded t d m c r"
| "with_target (SemanticReplay _ f) t = SemanticReplay t f"
| "with_target (HttpCorpus _ cr sha sch c p h) t = HttpCorpus t cr sha sch c p h"

fun is_semantic_replay :: "Workload \<Rightarrow> bool" where
  "is_semantic_replay (SemanticReplay _ _) = True"
| "is_semantic_replay _ = False"

fun is_http_corpus :: "Workload \<Rightarrow> bool" where
  "is_http_corpus (HttpCorpus _ _ _ _ _ _ _) = True"
| "is_http_corpus _ = False"

section \<open>Trials, telemetry and metrics\<close>

datatype ResetPolicy = NoReset | ResetService Name | ResetReference Name

record TrialPolicy =
  measured :: PositiveCount
  warmup :: u32
  cooldown_ms :: "DurationMs option"
  reset_policy :: ResetPolicy
  timeouts :: "(Name, DurationMs) BTreeMap"

record TelemetryRequest =
  telemetry_source :: Name
  telemetry_fields :: "Name list"
  telemetry_required :: bool

datatype MetricDirection =
  HigherIsBetter | LowerIsBetter | TargetRange f64 f64 | Informational

datatype MetricIntent = Primary | Diagnostic

datatype Gate =
  Absolute f64
| RelativeRegression BasisPoints
| StatisticalRelative BasisPoints PositiveCount

record MetricRequest =
  metric_name :: Name
  metric_unit :: Name
  metric_direction :: MetricDirection
  metric_intent :: MetricIntent
  metric_gate :: "Gate option"

section \<open>Diagnostics and correctness checks\<close>

datatype DiagnosticPhase = PreWorkload | PostWorkload | BothPhases

datatype DiagnosticProbe = Dns | Tcp | Tls | Http

record DiagnosticRequest =
  diag_id :: Name
  diag_source :: Name
  diag_phase :: DiagnosticPhase
  diag_target :: Name
  diag_probes :: "DiagnosticProbe list"
  diag_required :: bool
  diag_timeout_ms :: DurationMs

datatype EggsecWafTestType = Sqli | Xss | Ssrf | Cmd | Traversal

fun as_cli_str :: "EggsecWafTestType \<Rightarrow> string" where
  "as_cli_str Sqli = ''sqli''"
| "as_cli_str Xss = ''xss''"
| "as_cli_str Ssrf = ''ssrf''"
| "as_cli_str Cmd = ''cmd''"
| "as_cli_str Traversal = ''traversal''"

definition from_cli_str :: "string \<Rightarrow> EggsecWafTestType option" where
  "from_cli_str v =
    (if v = ''sqli'' then Some Sqli
     else if v = ''xss'' then Some Xss
     else if v = ''ssrf'' then Some Ssrf
     else if v = ''cmd'' then Some Cmd
     else if v = ''traversal'' then Some Traversal
     else None)"

lemma waf_token_roundtrip: "from_cli_str v = Some t \<longleftrightarrow> v = as_cli_str t"
  by (cases t) (auto simp: from_cli_str_def)

record SecurityCheckRequest =
  sec_id :: Name
  sec_source :: Name
  sec_target :: Name
  sec_test_type :: EggsecWafTestType
  max_successful_bypasses :: u32
  sec_concurrency :: PositiveCount
  sec_timeout_ms :: DurationMs

record HttpCorpusCheckRequest =
  corpus_id :: Name
  corpus_source :: Name
  corpus_target :: Name
  check_corpus_ref :: string
  check_corpus_sha256 :: string
  corpus_timeout_ms :: DurationMs
  case_timeout_ms :: DurationMs

definition SECURITY_SOURCE_EGGSEC_WAF :: string where
  "SECURITY_SOURCE_EGGSEC_WAF = ''eggsec-waf''"
definition MAX_SECURITY_CHECKS :: nat where
  "MAX_SECURITY_CHECKS = 16"
definition MAX_SECURITY_CASES :: u32 where
  "MAX_SECURITY_CASES = 1024"
definition MIN_SECURITY_CONCURRENCY :: u32 where
  "MIN_SECURITY_CONCURRENCY = 1"
definition MAX_SECURITY_CONCURRENCY :: u32 where
  "MAX_SECURITY_CONCURRENCY = 32"
definition MIN_SECURITY_TIMEOUT_MS :: u64 where
  "MIN_SECURITY_TIMEOUT_MS = 1000"
definition MAX_SECURITY_TIMEOUT_MS :: u64 where
  "MAX_SECURITY_TIMEOUT_MS = 120000"
definition MAX_DIAGNOSTIC_TIMEOUT_MS :: u64 where
  "MAX_DIAGNOSTIC_TIMEOUT_MS = 600000"

lemmas security_limits = SECURITY_SOURCE_EGGSEC_WAF_def MAX_SECURITY_CHECKS_def
  MAX_SECURITY_CASES_def MIN_SECURITY_CONCURRENCY_def MAX_SECURITY_CONCURRENCY_def
  MIN_SECURITY_TIMEOUT_MS_def MAX_SECURITY_TIMEOUT_MS_def MAX_DIAGNOSTIC_TIMEOUT_MS_def

section \<open>The plan\<close>

record PairedArm =
  arm_service :: Name
  arm_subject :: Subject

record PairedDesign =
  baseline_arm :: PairedArm
  candidate_arm :: PairedArm

datatype EnvironmentPolicy = StrictSameTestbed | WarnOnMismatch | CrossTestbedDescriptive

record ArtifactBounds =
  artifact_count :: PositiveCount
  artifact_bytes :: u64
  total_bytes :: u64

record ExperimentPlan =
  schema_version :: SchemaVersion
  experiment_name :: Name
  subject :: Subject
  services :: "Service list"
  workload :: Workload
  trials :: TrialPolicy
  telemetry :: "TelemetryRequest list"
  metrics :: "MetricRequest list"
  environment_policy :: EnvironmentPolicy
  seed :: "u64 option"
  paired :: "PairedDesign option"
  network_path :: "NetworkPathRequest option"
  diagnostics :: "DiagnosticRequest list option"
  security_checks :: "SecurityCheckRequest list option"
  http_corpus_checks :: "HttpCorpusCheckRequest list option"
  bounds :: ArtifactBounds

text \<open>\<open>matches!(subject, Subject::External { target, .. } if target == t)\<close>\<close>

definition is_external_target :: "Subject \<Rightarrow> Name \<Rightarrow> bool" where
  "is_external_target s t = (case s of External ext _ _ \<Rightarrow> ext = t | _ \<Rightarrow> False)"

definition service_names :: "ExperimentPlan \<Rightarrow> Name set" where
  "service_names p = svc_name ` set (services p)"

lemma with_target_target [simp]: "workload_target (with_target w t) = t"
  by (cases w) simp_all

lemma with_target_same [simp]: "with_target w (workload_target w) = w"
  by (cases w) simp_all

lemma with_target_twice [simp]: "with_target (with_target w s) t = with_target w t"
  by (cases w) simp_all

lemma with_target_kind [simp]:
  "is_semantic_replay (with_target w t) = is_semantic_replay w"
  "is_http_corpus (with_target w t) = is_http_corpus w"
  by (cases w; simp)+

end
