(* ===== verification/PlanParts.thy ===== *)
theory PlanParts
  imports Topology
begin

text \<open>
  The field-level checks of the plan validator (\<open>eggbench-core/src/plan.rs\<close>): runtime
  binding sources and environment names, static HTTP URLs, fixture paths, the secret
  heuristic, HTTP-corpus headers and schedules, and \<open>validate_workload\<close>.

  The lemmas show that an accepted fixture path stays inside the workspace when it is
  resolved lexically, and that the request total of a schedule cannot overflow.
\<close>

section \<open>Bindings, URLs and secrets\<close>

definition validate_binding_source :: "string \<Rightarrow> string \<Rightarrow> Name list \<Rightarrow> PlanError + unit" where
  "validate_binding_source src key dependencies = checks
    [reject_if (\<not> list_ex (\<lambda>d. as_str d = src) dependencies) (Validation ''missing_reference''),
     reject_if (\<not> is_ok (Name_new key) \<or> has_whitespace key \<or> CHR ''/'' \<in> set key)
       (Validation ''invalid_bound'')]"

definition valid_env_name :: "string \<Rightarrow> bool" where
  "valid_env_name key \<longleftrightarrow>
     key \<noteq> [] \<and> list_all (\<lambda>c. is_ascii_alphanumeric c \<or> c = CHR ''_'') key
     \<and> \<not> is_ascii_digit (hd key)"

definition validate_static_http_url :: "string \<Rightarrow> PlanError + unit" where
  "validate_static_http_url v =
    (case split_once ''://'' v of
       None \<Rightarrow> invalid ''invalid_binding''
     | Some (scheme, rest) \<Rightarrow>
         if scheme \<notin> {''http'', ''https''} \<or> rest = [] \<or> CHR ''#'' \<in> set rest
         then invalid ''invalid_binding''
         else
           (let authority = takeWhile (\<lambda>c. c \<noteq> CHR ''/'' \<and> c \<noteq> CHR ''?'') rest
            in if authority = [] \<or> CHR ''@'' \<in> set authority \<or> has_whitespace authority
               then invalid ''invalid_binding'' else Ok ()))"

definition looks_secret :: "string \<Rightarrow> bool" where
  "looks_secret v \<longleftrightarrow>
     list_ex (\<lambda>marker. sublist marker (to_ascii_lowercase v))
       [''password='', ''token='', ''secret='', ''authorization:'', ''bearer '', ''api_key='']"

section \<open>Fixture paths\<close>

fun scan_components :: "nat \<Rightarrow> string list \<Rightarrow> PlanError + unit" where
  "scan_components depth [] = Ok ()"
| "scan_components depth (part # rest) = checks
    [reject_if (part = [] \<or> part = ''.'') (Validation ''invalid_fixture''),
     reject_if (part = ''..'') (Validation ''invalid_fixture''),
     reject_if (128 < length part) (Validation ''invalid_fixture''),
     reject_if (16 < depth + 1) (Validation ''invalid_fixture''),
     scan_components (depth + 1) rest]"

definition validate_semantic_fixture_path :: "string \<Rightarrow> PlanError + unit" where
  "validate_semantic_fixture_path fixture = checks
    [reject_if (fixture = [] \<or> 512 < length fixture) (Validation ''invalid_fixture''),
     reject_if (CHR 0x00 \<in> set fixture \<or> has_control fixture) (Validation ''invalid_fixture''),
     reject_if (prefix ''/'' fixture \<or> prefix [CHR 0x5C] fixture) (Validation ''invalid_fixture''),
     reject_if (2 \<le> length fixture \<and> fixture ! 1 = CHR '':'') (Validation ''invalid_fixture''),
     scan_components 0 (split_char CHR ''/'' fixture),
     reject_if (CHR 0x5C \<in> set fixture) (Validation ''invalid_fixture'')]"

section \<open>HTTP-corpus workloads\<close>

definition header_name_char :: "char \<Rightarrow> bool" where
  "header_name_char c \<longleftrightarrow>
     is_ascii_alphanumeric c \<or> c \<in> set ''!#$%&*+-.^_|~'' \<or> c = CHR 0x27 \<or> c = CHR 0x60"

definition forbidden_headers :: "string set" where
  "forbidden_headers = {''authorization'', ''proxy-authorization'', ''cookie'', ''set-cookie'',
     ''host'', ''connection'', ''proxy-connection'', ''transfer-encoding'', ''content-length''}"

definition header_shape :: "string \<times> string \<Rightarrow> PlanError + unit" where
  "header_shape h =
     reject_if (fst h = [] \<or> 256 < length (fst h) \<or> \<not> list_all header_name_char (fst h)
       \<or> 8192 < length (snd h) \<or> has_control (snd h)) (Validation ''invalid_bound'')"

definition header_policy :: "string \<times> string \<Rightarrow> PlanError + unit" where
  "header_policy h =
     reject_if (to_ascii_lowercase (fst h) \<in> forbidden_headers \<or> looks_secret (snd h))
       (Validation ''invalid_bound'')"

fun scan_headers :: "string set \<Rightarrow> (string \<times> string) list \<Rightarrow> PlanError + unit" where
  "scan_headers seen [] = Ok ()"
| "scan_headers seen (h # hs) = checks
    [header_shape h,
     reject_if (to_ascii_lowercase (fst h) \<in> seen) (Validation ''invalid_bound''),
     header_policy h,
     scan_headers (insert (to_ascii_lowercase (fst h)) seen) hs]"

fun schedule_total :: "string set \<Rightarrow> u64 \<Rightarrow> HttpCorpusScheduleEntry list \<Rightarrow> PlanError + u64" where
  "schedule_total seen acc [] = Ok acc"
| "schedule_total seen acc (e # es) =
    (if \<not> is_ok (Name_new (case_id e)) \<or> case_id e \<in> seen then Err (Validation ''invalid_reference'')
     else (case checked_add acc (ucast (count_get (case_count e))) of
             None \<Rightarrow> Err (Validation ''invalid_bound'')
           | Some acc' \<Rightarrow> schedule_total (insert (case_id e) seen) acc' es))"

definition is_sha256_hex :: "string \<Rightarrow> bool" where
  "is_sha256_hex s \<longleftrightarrow> length s = 64 \<and> list_all is_ascii_hexdigit s"

definition validate_http_corpus_workload ::
  "string \<Rightarrow> string \<Rightarrow> HttpCorpusScheduleEntry list \<Rightarrow> PositiveCount \<Rightarrow> (string \<times> string) list
    \<Rightarrow> PlanError + unit" where
  "validate_http_corpus_workload corpus_ref sha schedule concurrency headers = checks
    [validate_semantic_fixture_path corpus_ref,
     reject_if (\<not> is_sha256_hex sha) (Validation ''invalid_digest''),
     reject_if (schedule = [] \<or> 128 < length schedule \<or> 256 < count_get concurrency)
       (Validation ''invalid_bound''),
     reject_if (32 < length headers) (Validation ''invalid_bound''),
     scan_headers {} headers,
     (case schedule_total {} 0 schedule of
        Err e \<Rightarrow> Err e
      | Ok acc \<Rightarrow> reject_if (1000000 < acc) (Validation ''invalid_bound''))]"

fun validate_workload :: "Workload \<Rightarrow> PlanError + unit" where
  "validate_workload (ClosedLoop _ _ requests duration) =
     reject_if ((requests \<noteq> None) = (duration \<noteq> None)) (Validation ''contradictory_configuration'')"
| "validate_workload (OpenLoop _ _ requests duration) =
     reject_if ((requests \<noteq> None) = (duration \<noteq> None)) (Validation ''contradictory_configuration'')"
| "validate_workload (TimeBounded _ _ mode concurrency rate) =
     (case (mode, concurrency \<noteq> None, rate \<noteq> None) of
        (ClosedLoopMode, True, False) \<Rightarrow> Ok ()
      | (OpenLoopMode, False, True) \<Rightarrow> Ok ()
      | _ \<Rightarrow> invalid ''contradictory_configuration'')"
| "validate_workload (FiniteCount _ _ _) = Ok ()"
| "validate_workload (SemanticReplay _ fixture) = validate_semantic_fixture_path fixture"
| "validate_workload (HttpCorpus _ corpus_ref sha schedule concurrency _ headers) =
     validate_http_corpus_workload corpus_ref sha schedule concurrency headers"

interpretation header_scan: unique_scan "\<lambda>h. to_ascii_lowercase (fst h)" header_shape
    "\<lambda>_. Validation ''invalid_bound''" header_policy scan_headers
  by unfold_locales simp_all

lemma validate_workload_with_target [simp]:
  "validate_workload (with_target w t) = validate_workload w"
  by (cases w) simp_all

section \<open>Confinement of workspace paths\<close>

text \<open>
  Lexical resolution of a slash-separated path against a directory, the abstract meaning of
  a workspace-relative reference: an absolute path starts at the root, \<open>.\<close> and empty
  components stay, \<open>..\<close> leaves the directory.
\<close>

definition lexical_step :: "string list \<Rightarrow> string \<Rightarrow> string list" where
  "lexical_step dir part =
    (if part = [] \<or> part = ''.'' then dir else if part = ''..'' then butlast dir else dir @ [part])"

definition lexical_resolve :: "string list \<Rightarrow> string \<Rightarrow> string list" where
  "lexical_resolve root path =
     foldl lexical_step (if prefix ''/'' path then [] else root) (split_char CHR ''/'' path)"

definition plain_component :: "string \<Rightarrow> bool" where
  "plain_component part \<longleftrightarrow> part \<noteq> [] \<and> part \<noteq> ''.'' \<and> part \<noteq> ''..''"

lemma foldl_plain: "\<forall>w \<in> set ws. plain_component w \<Longrightarrow> foldl lexical_step dir ws = dir @ ws"
  by (induction ws arbitrary: dir) (auto simp: lexical_step_def plain_component_def)

lemma resolve_plain:
  assumes "\<forall>w \<in> set (split_char CHR ''/'' path). plain_component w"
  shows "lexical_resolve root path = root @ split_char CHR ''/'' path"
proof -
  have "\<not> prefix ''/'' path"
  proof
    assume "prefix ''/'' path"
    then obtain s where "path = CHR ''/'' # s" by (auto simp: prefix_def)
    then have "[] \<in> set (split_char CHR ''/'' path)" by simp
    with assms show False by (auto simp: plain_component_def)
  qed
  then show ?thesis by (simp add: lexical_resolve_def foldl_plain [OF assms])
qed

lemma scan_components_Cons:
  "scan_components depth (w # ws) = Ok () \<longleftrightarrow>
     plain_component w \<and> length w \<le> 128 \<and> depth < 16 \<and> scan_components (Suc depth) ws = Ok ()"
  by (auto simp: ok_simps plain_component_def)

lemma scan_components_Ok:
  "scan_components depth ws = Ok () \<longleftrightarrow>
     (\<forall>w \<in> set ws. plain_component w \<and> length w \<le> 128) \<and> (ws \<noteq> [] \<longrightarrow> depth + length ws \<le> 16)"
proof (induction ws arbitrary: depth)
  case Nil
  then show ?case by simp
next
  case (Cons w ws)
  then show ?case
    by (cases "ws = []") (auto simp: scan_components_Cons simp del: scan_components.simps(2))
qed

lemma fixture_components:
  assumes "validate_semantic_fixture_path fixture = Ok ()"
  shows "\<forall>w \<in> set (split_char CHR ''/'' fixture). plain_component w"
    and "length (split_char CHR ''/'' fixture) \<le> 16"
  using assms by (auto simp: validate_semantic_fixture_path_def ok_simps scan_components_Ok)

text \<open>
  A fixture path the validator accepts is confined: resolved lexically against any root
  it is the root followed by its own components, none of which is empty, \<open>.\<close> or \<open>..\<close>,
  at least one and at most sixteen of them.
\<close>

theorem fixture_path_confined:
  assumes "validate_semantic_fixture_path fixture = Ok ()"
  shows "lexical_resolve root fixture = root @ split_char CHR ''/'' fixture
    \<and> (\<forall>w \<in> set (split_char CHR ''/'' fixture). w \<notin> {[], ''.'', ''..''})
    \<and> 1 \<le> length (split_char CHR ''/'' fixture) \<and> length (split_char CHR ''/'' fixture) \<le> 16"
  using fixture_components [OF assms] resolve_plain [of fixture root]
  by (auto simp: plain_component_def Suc_le_eq)

lemma has_control_plain: "list_all (\<lambda>c. 32 \<le> byte c \<and> byte c < 127) s \<Longrightarrow> \<not> has_control s"
  by (subst has_control_ascii) (auto simp: list_all_iff is_control_def)

theorem fixture_path_confined_witness:
  "lexical_resolve [''ws''] ''fix/a.eggr'' = [''ws'', ''fix'', ''a.eggr'']"
proof -
  have "\<not> has_control ''fix/a.eggr''" by (rule has_control_plain) (simp add: byte_def)
  then have "validate_semantic_fixture_path ''fix/a.eggr'' = Ok ()"
    by (simp add: validate_semantic_fixture_path_def ok_simps)
  from fixture_path_confined [OF this, of "[''ws'']"] show ?thesis by simp
qed

section \<open>The request total of a schedule\<close>

definition schedule_requests :: "HttpCorpusScheduleEntry list \<Rightarrow> nat" where
  "schedule_requests es = (\<Sum>e \<leftarrow> es. unat (count_get (case_count e)))"

lemma unat_count_small: "unat (ucast (c :: u32) :: u64) = unat c \<and> unat c < 4294967296"
  using unsigned_less [of c, where ?'a = nat]
  by (simp add: unsigned_ucast_eq take_bit_nat_eq_self)

text \<open>As long as the accumulator has room for the remaining counts, only a bad or repeated
  case identifier stops the loop.\<close>

lemma schedule_total_room:
  "unat acc + length es * 4294967296 < 2 ^ 64 \<Longrightarrow>
     (if distinct (map case_id es) \<and> (\<forall>e \<in> set es. is_ok (Name_new (case_id e)) \<and> case_id e \<notin> seen)
      then \<exists>t. schedule_total seen acc es = Ok t \<and> unat t = unat acc + schedule_requests es
      else schedule_total seen acc es = Err (Validation ''invalid_reference''))"
proof (induction es arbitrary: seen acc)
  case Nil
  then show ?case by (simp add: schedule_requests_def)
next
  case (Cons e es)
  let ?c = "ucast (count_get (case_count e)) :: u64"
  have c: "unat ?c = unat (count_get (case_count e))" "unat ?c < 4294967296"
    using unat_count_small [of "count_get (case_count e)"] by simp_all
  with Cons.prems have "checked_add acc ?c = Some (acc + ?c)"
    by (simp add: checked_add_def)
  moreover from this have sum: "unat (acc + ?c) = unat acc + unat ?c" by (rule checked_add_Some)
  moreover have "unat (acc + ?c) + length es * 4294967296 < 2 ^ 64"
    using Cons.prems c sum by simp
  note ih = Cons.IH [OF this, of "insert (case_id e) seen"]
  ultimately show ?case
    using ih c by (auto simp: schedule_requests_def split: if_splits) (metis image_eqI)
qed

lemma schedule_total_cases:
  assumes "length es \<le> 128"
  shows "if distinct (map case_id es) \<and> (\<forall>e \<in> set es. is_ok (Name_new (case_id e)))
    then \<exists>t. schedule_total {} 0 es = Ok t \<and> unat t = schedule_requests es
    else schedule_total {} 0 es = Err (Validation ''invalid_reference'')"
  using schedule_total_room [of 0 es "{}"] assms by (auto split: if_splits)

text \<open>
  For every schedule the length check lets through (at most 128 entries), the overflow
  error of the request total cannot occur: the loop ends in the exact sum of the counts, or
  in the invalid-reference error of a bad or repeated case identifier.
\<close>

theorem schedule_total_never_overflows:
  assumes "length es \<le> 128"
  shows "(\<exists>t. schedule_total {} 0 es = Ok t \<and> unat t = schedule_requests es)
    \<or> schedule_total {} 0 es = Err (Validation ''invalid_reference'')"
  using schedule_total_cases [OF assms] by (auto split: if_splits)

theorem schedule_total_never_overflows_witness:
  "\<exists>t. schedule_total {} 0 [\<lparr>case_id = ''a'', case_count = PositiveCount 3\<rparr>] = Ok t \<and> unat t = 3"
  using schedule_total_never_overflows [of "[\<lparr>case_id = ''a'', case_count = PositiveCount 3\<rparr>]"]
  by (simp add: schedule_requests_def Name_new_def is_ok_def trim_is_empty_def has_control_def
      byte_def is_whitespace_def is_control_def MAX_NAME_LEN_def checked_add_def)

end
