(* ===== verification/PlanChecks.thy ===== *)
theory PlanChecks
  imports PlanParts
begin

text \<open>
  The request-level validators of \<open>eggbench-core/src/plan.rs\<close>: diagnostics, security checks,
  HTTP-corpus checks and the paired design.  Each is a loop that rejects a repeated identity
  (the locale \<open>unique_scan\<close> of the prelude) with the guards of the source in their order.

  The lemmas characterise what each validator accepts; the corpus-check lemmas add that the
  identifiers of security and corpus checks never collide and that a corpus reference stays
  inside the workspace.
\<close>

section \<open>Shared guards\<close>

definition unwrap_list :: "'a list option \<Rightarrow> 'a list" where
  "unwrap_list xs = (case xs of None \<Rightarrow> [] | Some ys \<Rightarrow> ys)"

definition known_target :: "service_map \<Rightarrow> Subject \<Rightarrow> Name \<Rightarrow> bool" where
  "known_target svcs subj t \<longleftrightarrow> bt_contains svcs t \<or> is_external_target subj t"

definition safe_id_char :: "char \<Rightarrow> bool" where
  "safe_id_char c \<longleftrightarrow> is_ascii_alphanumeric c \<or> c = CHR ''-'' \<or> c = CHR ''_''"

definition safe_check_id :: "Name \<Rightarrow> bool" where
  "safe_check_id n \<longleftrightarrow> length (as_str n) \<le> 64 \<and> list_all safe_id_char (as_str n)"

section \<open>Diagnostics\<close>

fun scan_probes :: "DiagnosticProbe set \<Rightarrow> DiagnosticProbe list \<Rightarrow> PlanError + unit" where
  "scan_probes seen [] = Ok ()"
| "scan_probes seen (p # ps) = checks
    [reject_if (p \<in> seen) (Validation ''duplicate_identity''), scan_probes (insert p seen) ps]"

definition diagnostic_body :: "service_map \<Rightarrow> Subject \<Rightarrow> DiagnosticRequest \<Rightarrow> PlanError + unit" where
  "diagnostic_body svcs subj r = checks
    [reject_if (\<not> safe_check_id (diag_id r)) (Validation ''invalid_bound''),
     reject_if (as_str (diag_source r) \<noteq> ''eggprobe'') (Validation ''unsupported_option''),
     reject_if (diag_probes r = [] \<or> 16 < length (diag_probes r)) (Validation ''invalid_bound''),
     scan_probes {} (diag_probes r),
     reject_if (MAX_DIAGNOSTIC_TIMEOUT_MS < duration_get (diag_timeout_ms r))
       (Validation ''invalid_bound''),
     reject_if (\<not> known_target svcs subj (diag_target r)) (Validation ''missing_reference'')]"

fun scan_diagnostics ::
  "service_map \<Rightarrow> Subject \<Rightarrow> Name set \<Rightarrow> DiagnosticRequest list \<Rightarrow> PlanError + unit" where
  "scan_diagnostics svcs subj seen [] = Ok ()"
| "scan_diagnostics svcs subj seen (r # rs) = checks
    [reject_if (diag_id r \<in> seen) (Validation ''duplicate_identity''),
     diagnostic_body svcs subj r,
     scan_diagnostics svcs subj (insert (diag_id r) seen) rs]"

definition validate_diagnostics :: "ExperimentPlan \<Rightarrow> service_map \<Rightarrow> PlanError + unit" where
  "validate_diagnostics plan svcs =
    (let requests = unwrap_list (diagnostics plan) in checks
      [reject_if (32 < length requests) (Validation ''invalid_bound''),
       scan_diagnostics svcs (subject plan) {} requests])"

section \<open>Security checks\<close>

definition security_body :: "service_map \<Rightarrow> Subject \<Rightarrow> SecurityCheckRequest \<Rightarrow> PlanError + unit" where
  "security_body svcs subj r = checks
    [reject_if (\<not> safe_check_id (sec_id r)) (Validation ''invalid_bound''),
     reject_if (as_str (sec_source r) \<noteq> SECURITY_SOURCE_EGGSEC_WAF) (Validation ''unsupported_option''),
     reject_if (count_get (sec_concurrency r) < MIN_SECURITY_CONCURRENCY
         \<or> MAX_SECURITY_CONCURRENCY < count_get (sec_concurrency r)) (Validation ''invalid_bound''),
     reject_if (duration_get (sec_timeout_ms r) < MIN_SECURITY_TIMEOUT_MS
         \<or> MAX_SECURITY_TIMEOUT_MS < duration_get (sec_timeout_ms r)) (Validation ''invalid_bound''),
     reject_if (MAX_SECURITY_CASES < max_successful_bypasses r) (Validation ''invalid_bound''),
     reject_if (\<not> known_target svcs subj (sec_target r)) (Validation ''missing_reference'')]"

fun scan_security ::
  "service_map \<Rightarrow> Subject \<Rightarrow> Name set \<Rightarrow> SecurityCheckRequest list \<Rightarrow> PlanError + unit" where
  "scan_security svcs subj seen [] = Ok ()"
| "scan_security svcs subj seen (r # rs) = checks
    [reject_if (sec_id r \<in> seen) (Validation ''duplicate_identity''),
     security_body svcs subj r,
     scan_security svcs subj (insert (sec_id r) seen) rs]"

definition validate_security_checks :: "ExperimentPlan \<Rightarrow> service_map \<Rightarrow> PlanError + unit" where
  "validate_security_checks plan svcs =
    (let requests = unwrap_list (security_checks plan) in checks
      [reject_if (MAX_SECURITY_CHECKS < length requests) (Validation ''invalid_bound''),
       scan_security svcs (subject plan) {} requests])"

section \<open>HTTP-corpus checks\<close>

definition confined_corpus_ref :: "string \<Rightarrow> bool" where
  "confined_corpus_ref v \<longleftrightarrow>
     \<not> (v = [] \<or> 1024 < length v \<or> prefix ''/'' v \<or> CHR 0x5C \<in> set v
        \<or> list_ex (\<lambda>part. part = [] \<or> part = ''.'' \<or> part = ''..'') (split_char CHR ''/'' v))"

definition corpus_body :: "service_map \<Rightarrow> Subject \<Rightarrow> HttpCorpusCheckRequest \<Rightarrow> PlanError + unit" where
  "corpus_body svcs subj r = checks
    [reject_if (\<not> safe_check_id (corpus_id r)) (Validation ''invalid_bound''),
     reject_if (as_str (corpus_source r) \<noteq> ''eggbench-http-corpus'') (Validation ''unsupported_option''),
     reject_if (\<not> confined_corpus_ref (check_corpus_ref r)) (Validation ''invalid_bound''),
     reject_if (\<not> is_sha256_hex (check_corpus_sha256 r)) (Validation ''invalid_bound''),
     reject_if (\<not> known_target svcs subj (corpus_target r)) (Validation ''missing_reference''),
     reject_if (120000 < duration_get (corpus_timeout_ms r)) (Validation ''invalid_bound''),
     reject_if (duration_get (corpus_timeout_ms r) < duration_get (case_timeout_ms r))
       (Validation ''invalid_bound'')]"

fun scan_corpus ::
  "service_map \<Rightarrow> Subject \<Rightarrow> Name set \<Rightarrow> HttpCorpusCheckRequest list \<Rightarrow> PlanError + unit" where
  "scan_corpus svcs subj seen [] = Ok ()"
| "scan_corpus svcs subj seen (r # rs) = checks
    [reject_if (corpus_id r \<in> seen) (Validation ''duplicate_identity''),
     corpus_body svcs subj r,
     scan_corpus svcs subj (insert (corpus_id r) seen) rs]"

definition validate_http_corpus_checks :: "ExperimentPlan \<Rightarrow> service_map \<Rightarrow> PlanError + unit" where
  "validate_http_corpus_checks plan svcs =
    (let requests = unwrap_list (http_corpus_checks plan) in checks
      [reject_if (MAX_SECURITY_CHECKS < length requests) (Validation ''invalid_bound''),
       reject_if (requests \<noteq> [] \<and> paired plan \<noteq> None) (Validation ''paired_security_not_supported''),
       reject_if (requests \<noteq> [] \<and> network_path plan \<noteq> None) (Validation ''security_path_incompatible''),
       scan_corpus svcs (subject plan)
         (sec_id ` set (unwrap_list (security_checks plan))) requests])"

section \<open>Paired designs\<close>

definition validate_arm :: "service_map \<Rightarrow> PairedArm \<Rightarrow> PlanError + unit" where
  "validate_arm svcs arm = checks
    [reject_if (\<not> bt_contains svcs (arm_service arm)) (Validation ''missing_reference''),
     reject_if (case arm_subject arm of ManagedCommand _ _ _ _ \<Rightarrow> True | _ \<Rightarrow> False)
       (Validation ''unsupported_option'')]"

definition validate_paired :: "ExperimentPlan \<Rightarrow> service_map \<Rightarrow> PlanError + unit" where
  "validate_paired plan svcs =
    (case paired plan of
       None \<Rightarrow> Ok ()
     | Some pd \<Rightarrow> checks
        [reject_if (schema_version plan = EXPERIMENT_PLAN_SCHEMA_VERSION)
           (UnsupportedVersion (version_number (schema_version plan))),
         reject_if (network_path plan \<noteq> None) (Validation ''paired_network_path_not_supported''),
         reject_if (\<not> (case subject plan of Label _ \<Rightarrow> True | _ \<Rightarrow> False))
           (Validation ''contradictory_configuration''),
         reject_if (count_get (measured (trials plan)) < 2 \<or> count_get (measured (trials plan)) mod 2 \<noteq> 0)
           (Validation ''invalid_bound''),
         for_each (validate_arm svcs) [baseline_arm pd, candidate_arm pd],
         reject_if (arm_service (baseline_arm pd) = arm_service (candidate_arm pd))
           (Validation ''contradictory_configuration''),
         reject_if (workload_target (workload plan) \<noteq> arm_service (baseline_arm pd))
           (Validation ''contradictory_configuration'')])"

section \<open>What the validators accept\<close>

interpretation probe_scan: unique_scan "\<lambda>p. p" "\<lambda>_. Ok ()" "\<lambda>_. Validation ''duplicate_identity''"
    "\<lambda>_. Ok ()" scan_probes
  by unfold_locales (simp_all add: checks.simps(2) split: sum.split)

interpretation diag_scan: unique_scan diag_id "\<lambda>_. Ok ()" "\<lambda>_. Validation ''duplicate_identity''"
    "diagnostic_body svcs subj" "scan_diagnostics svcs subj" for svcs subj
  by unfold_locales simp_all

interpretation sec_scan: unique_scan sec_id "\<lambda>_. Ok ()" "\<lambda>_. Validation ''duplicate_identity''"
    "security_body svcs subj" "scan_security svcs subj" for svcs subj
  by unfold_locales simp_all

interpretation corpus_scan: unique_scan corpus_id "\<lambda>_. Ok ()" "\<lambda>_. Validation ''duplicate_identity''"
    "corpus_body svcs subj" "scan_corpus svcs subj" for svcs subj
  by unfold_locales simp_all

lemmas request_scans = probe_scan.scan_Ok_iff diag_scan.scan_Ok_iff sec_scan.scan_Ok_iff
  corpus_scan.scan_Ok_iff

lemma validate_diagnostics_Ok:
  "validate_diagnostics plan svcs = Ok () \<longleftrightarrow>
     length (unwrap_list (diagnostics plan)) \<le> 32
     \<and> distinct (map diag_id (unwrap_list (diagnostics plan)))
     \<and> (\<forall>r \<in> set (unwrap_list (diagnostics plan)). diagnostic_body svcs (subject plan) r = Ok ())"
  by (auto simp: validate_diagnostics_def Let_def ok_simps request_scans)

lemma diagnostic_body_Ok:
  "diagnostic_body svcs subj r = Ok () \<longleftrightarrow>
     safe_check_id (diag_id r) \<and> as_str (diag_source r) = ''eggprobe''
     \<and> diag_probes r \<noteq> [] \<and> length (diag_probes r) \<le> 16 \<and> distinct (diag_probes r)
     \<and> duration_get (diag_timeout_ms r) \<le> 600000 \<and> known_target svcs subj (diag_target r)"
  by (auto simp: diagnostic_body_def ok_simps request_scans security_limits not_less)

lemma validate_security_checks_Ok:
  "validate_security_checks plan svcs = Ok () \<longleftrightarrow>
     length (unwrap_list (security_checks plan)) \<le> 16
     \<and> distinct (map sec_id (unwrap_list (security_checks plan)))
     \<and> (\<forall>r \<in> set (unwrap_list (security_checks plan)). security_body svcs (subject plan) r = Ok ())"
  by (auto simp: validate_security_checks_def Let_def ok_simps request_scans security_limits)

lemma security_body_Ok:
  "security_body svcs subj r = Ok () \<longleftrightarrow>
     safe_check_id (sec_id r) \<and> as_str (sec_source r) = ''eggsec-waf''
     \<and> 1 \<le> count_get (sec_concurrency r) \<and> count_get (sec_concurrency r) \<le> 32
     \<and> 1000 \<le> duration_get (sec_timeout_ms r) \<and> duration_get (sec_timeout_ms r) \<le> 120000
     \<and> max_successful_bypasses r \<le> 1024 \<and> known_target svcs subj (sec_target r)"
  by (auto simp: security_body_def ok_simps security_limits not_less word_ge_1_iff)

lemma validate_http_corpus_checks_Ok:
  "validate_http_corpus_checks plan svcs = Ok () \<longleftrightarrow>
     (let requests = unwrap_list (http_corpus_checks plan) in
        length requests \<le> 16 \<and> (requests \<noteq> [] \<longrightarrow> paired plan = None \<and> network_path plan = None)
        \<and> distinct (map corpus_id requests)
        \<and> corpus_id ` set requests \<inter> sec_id ` set (unwrap_list (security_checks plan)) = {}
        \<and> (\<forall>r \<in> set requests. corpus_body svcs (subject plan) r = Ok ()))"
  by (auto simp: validate_http_corpus_checks_def Let_def ok_simps request_scans security_limits
      disjoint_iff image_iff)

lemma confined_corpus_ref_plain:
  "confined_corpus_ref v \<Longrightarrow> \<forall>w \<in> set (split_char CHR ''/'' v). plain_component w"
  by (auto simp: confined_corpus_ref_def plain_component_def list_ex_iff)

lemma corpus_body_Ok:
  "corpus_body svcs subj r = Ok () \<longleftrightarrow>
     safe_check_id (corpus_id r) \<and> as_str (corpus_source r) = ''eggbench-http-corpus''
     \<and> confined_corpus_ref (check_corpus_ref r) \<and> is_sha256_hex (check_corpus_sha256 r)
     \<and> known_target svcs subj (corpus_target r)
     \<and> duration_get (corpus_timeout_ms r) \<le> 120000
     \<and> duration_get (case_timeout_ms r) \<le> duration_get (corpus_timeout_ms r)"
  by (auto simp: corpus_body_def ok_simps not_less)

lemma validate_paired_Ok:
  "validate_paired plan svcs = Ok () \<longleftrightarrow>
     (\<forall>pd. paired plan = Some pd \<longrightarrow>
        schema_version plan \<noteq> EXPERIMENT_PLAN_SCHEMA_VERSION \<and> network_path plan = None
        \<and> (\<exists>l. subject plan = Label l)
        \<and> 2 \<le> count_get (measured (trials plan)) \<and> count_get (measured (trials plan)) mod 2 = 0
        \<and> validate_arm svcs (baseline_arm pd) = Ok ()
        \<and> validate_arm svcs (candidate_arm pd) = Ok ()
        \<and> arm_service (baseline_arm pd) \<noteq> arm_service (candidate_arm pd)
        \<and> workload_target (workload plan) = arm_service (baseline_arm pd))"
  by (auto simp: validate_paired_def ok_simps not_less mod_2_eq_odd simp del: for_each_simps
      split: option.split Subject.split)

end
