(* ===== verification/PlanValidate.thy ===== *)
theory PlanValidate
  imports PlanChecks
begin

text \<open>
  \<open>ExperimentPlan::validate\<close> of \<open>eggbench-core/src/plan.rs\<close>, the complete invariant gate of
  a plan, stage by stage in the order of the source: schema gates, network path, services,
  references, workload and requests, trials, metrics, bounds.  The order matters, since the
  first failing stage decides the error category.
\<close>

section \<open>Schema gates\<close>

definition validate_version_gates :: "ExperimentPlan \<Rightarrow> PlanError + unit" where
  "validate_version_gates p = checks
    [reject_if (schema_version p \<notin>
        {EXPERIMENT_PLAN_SCHEMA_VERSION, EXPERIMENT_PLAN_SCHEMA_VERSION_2,
         EXPERIMENT_PLAN_SCHEMA_VERSION_3, EXPERIMENT_PLAN_SCHEMA_VERSION_4,
         EXPERIMENT_PLAN_SCHEMA_VERSION_5, EXPERIMENT_PLAN_SCHEMA_VERSION_6,
         EXPERIMENT_PLAN_SCHEMA_VERSION_7, EXPERIMENT_PLAN_SCHEMA_VERSION_8,
         EXPERIMENT_PLAN_SCHEMA_VERSION_9, EXPERIMENT_PLAN_SCHEMA_VERSION_10})
       (UnsupportedVersion (version_number (schema_version p))),
     reject_if (security_checks p \<noteq> None \<and> schema_version p \<notin>
        {EXPERIMENT_PLAN_SCHEMA_VERSION_6, EXPERIMENT_PLAN_SCHEMA_VERSION_8,
         EXPERIMENT_PLAN_SCHEMA_VERSION_9, EXPERIMENT_PLAN_SCHEMA_VERSION_10})
       (Validation ''unsupported_option''),
     reject_if (http_corpus_checks p \<noteq> None \<and> schema_version p \<notin>
        {EXPERIMENT_PLAN_SCHEMA_VERSION_8, EXPERIMENT_PLAN_SCHEMA_VERSION_9,
         EXPERIMENT_PLAN_SCHEMA_VERSION_10})
       (Validation ''unsupported_option''),
     reject_if (diagnostics p \<noteq> None \<and> schema_version p \<notin>
        {EXPERIMENT_PLAN_SCHEMA_VERSION_5, EXPERIMENT_PLAN_SCHEMA_VERSION_6,
         EXPERIMENT_PLAN_SCHEMA_VERSION_8, EXPERIMENT_PLAN_SCHEMA_VERSION_9,
         EXPERIMENT_PLAN_SCHEMA_VERSION_10})
       (Validation ''unsupported_option''),
     reject_if (is_semantic_replay (workload p) \<and> schema_version p \<notin>
        {EXPERIMENT_PLAN_SCHEMA_VERSION_4, EXPERIMENT_PLAN_SCHEMA_VERSION_5,
         EXPERIMENT_PLAN_SCHEMA_VERSION_6, EXPERIMENT_PLAN_SCHEMA_VERSION_8,
         EXPERIMENT_PLAN_SCHEMA_VERSION_9, EXPERIMENT_PLAN_SCHEMA_VERSION_10})
       (Validation ''unsupported_option''),
     reject_if (is_http_corpus (workload p) \<and> schema_version p \<noteq> EXPERIMENT_PLAN_SCHEMA_VERSION_10)
       (Validation ''unsupported_option''),
     reject_if (is_http_corpus (workload p) \<and> seed p = None) (Validation ''missing_fault_seed'')]"

section \<open>Network path\<close>

definition sensitive_config :: "string \<times> string \<Rightarrow> bool" where
  "sensitive_config kv =
    (let key = filter is_ascii_alphanumeric (to_ascii_lowercase (fst kv));
         v = to_ascii_lowercase (snd kv)
     in list_ex (\<lambda>marker. sublist marker key)
          [''password'', ''passwd'', ''secret'', ''token'', ''credential'', ''privatekey'',
           ''apikey'', ''authorization'']
        \<or> (sublist ''://'' v \<and> CHR ''@'' \<in> set v)
        \<or> sublist ''bearer '' v
        \<or> sublist ''basic '' v
        \<or> (CHR ''?'' \<in> set v
            \<and> list_ex (\<lambda>marker. sublist marker v)
                 [''password'', ''secret'', ''token'', ''credential'', ''apikey'']))"

definition validate_config_entry :: "string \<times> string \<Rightarrow> PlanError + unit" where
  "validate_config_entry kv = checks
    [reject_if (fst kv \<notin> {''path'', ''body_bytes'', ''status''})
       (Validation ''route_credentials_not_supported''),
     reject_if (sensitive_config kv) (Validation ''route_credentials_not_supported'')]"

definition validate_path_service_configs :: "Service list \<Rightarrow> PlanError + unit" where
  "validate_path_service_configs ss = for_each (\<lambda>s. for_each validate_config_entry (svc_config s)) ss"

definition path_fault_count :: "NetworkPathRequest \<Rightarrow> nat" where
  "path_fault_count path =
    (case path_stream_faults path of
       None \<Rightarrow> 0
     | Some faults \<Rightarrow> length (faults_upstream faults) + length (faults_downstream faults))"

definition is_external_subject :: "Subject \<Rightarrow> bool" where
  "is_external_subject s = (case s of External _ _ _ \<Rightarrow> True | _ \<Rightarrow> False)"

definition validate_path_composition :: "ExperimentPlan \<Rightarrow> PlanError + unit" where
  "validate_path_composition p = checks
    [reject_if (is_semantic_replay (workload p) \<and> network_path p \<noteq> None)
       (Validation ''workload_path_incompatible''),
     reject_if (network_path p \<noteq> None \<and> unwrap_list (diagnostics p) \<noteq> [])
       (Validation ''diagnostic_path_incompatible''),
     reject_if (network_path p \<noteq> None \<and> unwrap_list (security_checks p) \<noteq> [])
       (Validation ''security_path_incompatible''),
     reject_if (network_path p \<noteq> None \<and> schema_version p \<noteq> EXPERIMENT_PLAN_SCHEMA_VERSION_3)
       (Validation ''unsupported_option''),
     (case network_path p of
        None \<Rightarrow> Ok ()
      | Some path \<Rightarrow> checks
         [validate_network_path_contract path,
          validate_path_service_configs (services p),
          reject_if (is_external_subject (subject p)) (Validation ''workload_path_incompatible''),
          reject_if (0 < path_fault_count path \<and> seed p = None) (Validation ''missing_fault_seed'')])]"

section \<open>Services\<close>

definition no_program :: "string list \<Rightarrow> bool" where
  "no_program argv \<longleftrightarrow> argv = [] \<or> trim_is_empty (hd argv)"

definition validate_subject_program :: "Subject \<Rightarrow> PlanError + unit" where
  "validate_subject_program s =
    (case s of ManagedCommand argv _ _ _ \<Rightarrow> reject_if (no_program argv) (Validation ''invalid_bound'')
     | _ \<Rightarrow> Ok ())"

definition static_binding_entry :: "string \<times> string \<Rightarrow> PlanError + unit" where
  "static_binding_entry kv =
     reject_if (\<not> is_ok (Name_new (fst kv)) \<or> has_whitespace (fst kv) \<or> CHR ''/'' \<in> set (fst kv)
       \<or> snd kv = [] \<or> 2048 < length (snd kv) \<or> has_control (snd kv) \<or> looks_secret (snd kv))
       (Validation ''invalid_bound'')"

definition http_url_conflict :: "Service \<Rightarrow> bool" where
  "http_url_conflict s =
    (case (http_url s, bt_get (static_bindings s) ''http_url'') of
       (Some legacy, Some current) \<Rightarrow> legacy \<noteq> current
     | _ \<Rightarrow> False)"

definition validate_static_bindings :: "SchemaVersion \<Rightarrow> Service \<Rightarrow> PlanError + unit" where
  "validate_static_bindings v s =
    (if static_bindings s = [] then Ok () else checks
      [reject_if (v \<noteq> EXPERIMENT_PLAN_SCHEMA_VERSION_9) (Validation ''unsupported_option''),
       reject_if (32 < length (static_bindings s)) (Validation ''invalid_bound''),
       for_each static_binding_entry (static_bindings s),
       reject_if (http_url_conflict s) (Validation ''contradictory_configuration'')])"

definition validate_http_url :: "SchemaVersion \<Rightarrow> Service \<Rightarrow> PlanError + unit" where
  "validate_http_url v s =
    (case http_url s of
       None \<Rightarrow> Ok ()
     | Some url \<Rightarrow> checks
        [reject_if (v \<notin> {EXPERIMENT_PLAN_SCHEMA_VERSION_7, EXPERIMENT_PLAN_SCHEMA_VERSION_8,
            EXPERIMENT_PLAN_SCHEMA_VERSION_9, EXPERIMENT_PLAN_SCHEMA_VERSION_10})
           (Validation ''unsupported_option''),
         validate_static_http_url url])"

definition uses_binding_refs :: "Service \<Rightarrow> bool" where
  "uses_binding_refs s \<longleftrightarrow> binding_args s \<noteq> [] \<or> binding_env s \<noteq> []"

definition service_pre :: "SchemaVersion \<Rightarrow> Service \<Rightarrow> PlanError + unit" where
  "service_pre v s = checks
    [reject_if (uses_binding_refs s \<and> v \<noteq> EXPERIMENT_PLAN_SCHEMA_VERSION_9)
       (Validation ''unsupported_option''),
     validate_static_bindings v s,
     validate_http_url v s]"

fun scan_binding_args :: "nat \<Rightarrow> Name list \<Rightarrow> nat set \<Rightarrow> RuntimeBindingArg list \<Rightarrow> PlanError + unit" where
  "scan_binding_args argc deps seen [] = Ok ()"
| "scan_binding_args argc deps seen (r # rs) = checks
    [reject_if (arg_index r = 0 \<or> argc \<le> arg_index r) (Validation ''invalid_bound''),
     reject_if (arg_index r \<in> seen) (Validation ''invalid_bound''),
     validate_binding_source (as_str (arg_source_service r)) (arg_source_key r) deps,
     scan_binding_args argc deps (insert (arg_index r) seen) rs]"

definition binding_env_entry :: "Name list \<Rightarrow> string \<times> RuntimeBindingSource \<Rightarrow> PlanError + unit" where
  "binding_env_entry deps e = checks
    [reject_if (\<not> valid_env_name (fst e)) (Validation ''invalid_bound''),
     validate_binding_source (as_str (env_source_service (snd e))) (env_source_key (snd e)) deps]"

definition validate_binding_refs :: "Service \<Rightarrow> PlanError + unit" where
  "validate_binding_refs s =
    (if \<not> uses_binding_refs s then Ok ()
     else (case svc_kind s of
       Named _ \<Rightarrow> invalid ''contradictory_configuration''
     | Command argv \<Rightarrow> checks
        [scan_binding_args (length argv) (depends_on s) {} (binding_args s),
         for_each (binding_env_entry (depends_on s)) (binding_env s)]))"

definition service_post :: "ArtifactBounds \<Rightarrow> Service \<Rightarrow> PlanError + unit" where
  "service_post b s = checks
    [reject_if (artifact_bytes b < log_limit_bytes s) (Validation ''invalid_bound''),
     reject_if (case svc_kind s of Command argv \<Rightarrow> svc_lifecycle s = Managed \<and> no_program argv
         | Named _ \<Rightarrow> False) (Validation ''contradictory_configuration''),
     validate_binding_refs s,
     reject_if (svc_lifecycle s = ExternalService
         \<and> (case svc_kind s of Command _ \<Rightarrow> True | Named _ \<Rightarrow> False) \<and> shutdown s \<noteq> None)
       (Validation ''contradictory_configuration'')]"

fun scan_services :: "SchemaVersion \<Rightarrow> ArtifactBounds \<Rightarrow> Name set \<Rightarrow> Service list \<Rightarrow> PlanError + unit" where
  "scan_services v b seen [] = Ok ()"
| "scan_services v b seen (s # ss) = checks
    [service_pre v s,
     reject_if (svc_name s \<in> seen) (Validation ''duplicate_identity''),
     service_post b s,
     scan_services v b (insert (svc_name s) seen) ss]"

definition validate_dependency :: "service_map \<Rightarrow> Name \<Rightarrow> Name \<Rightarrow> PlanError + unit" where
  "validate_dependency svcs n dep = checks
    [reject_if (dep = n) (Validation ''contradictory_configuration''),
     reject_if (\<not> bt_contains svcs dep) (Validation ''missing_reference'')]"

definition validate_services :: "ExperimentPlan \<Rightarrow> PlanError + unit" where
  "validate_services p =
    (let svcs = service_map_of (services p) in checks
      [validate_subject_program (subject p),
       reject_if (256 < length (services p)) (Validation ''invalid_bound''),
       scan_services (schema_version p) (bounds p) {} (services p),
       reject_if (\<not> known_target svcs (subject p) (workload_target (workload p)))
         (Validation ''missing_reference''),
       for_each (\<lambda>s. for_each (validate_dependency svcs (svc_name s)) (depends_on s)) (services p),
       ensure_acyclic (services p)])"

section \<open>Trials, metrics and bounds\<close>

definition validate_trials :: "TrialPolicy \<Rightarrow> service_map \<Rightarrow> PlanError + unit" where
  "validate_trials t svcs = checks
    [reject_if (1000 < warmup t) (Validation ''invalid_bound''),
     (case reset_policy t of
        ResetService s \<Rightarrow> reject_if (\<not> bt_contains svcs s) (Validation ''missing_reference'')
      | _ \<Rightarrow> Ok ())]"

definition validate_direction :: "MetricDirection \<Rightarrow> PlanError + unit" where
  "validate_direction d =
    (case d of
       TargetRange lo hi \<Rightarrow>
         reject_if (\<not> f64_is_finite lo \<or> \<not> f64_is_finite hi \<or> f64_lt hi lo) (Validation ''invalid_bound'')
     | _ \<Rightarrow> Ok ())"

fun non_finite_absolute :: "Gate \<Rightarrow> bool" where
  "non_finite_absolute (Absolute v) = (\<not> f64_is_finite v)"
| "non_finite_absolute _ = False"

fun is_relative_gate :: "Gate \<Rightarrow> bool" where
  "is_relative_gate (Absolute _) = False"
| "is_relative_gate (RelativeRegression _) = True"
| "is_relative_gate (StatisticalRelative _ _) = True"

definition validate_metric_gate :: "Workload \<Rightarrow> MetricRequest \<Rightarrow> PlanError + unit" where
  "validate_metric_gate w m =
    (case metric_gate m of
       None \<Rightarrow> Ok ()
     | Some gate \<Rightarrow> checks
        [reject_if (metric_intent m = Diagnostic) (Validation ''contradictory_configuration''),
         reject_if (non_finite_absolute gate) (Validation ''invalid_bound''),
         reject_if (metric_direction m = Informational) (Validation ''contradictory_configuration''),
         reject_if (as_str (metric_name m) = ''semantic_findings'' \<and> is_semantic_replay w
             \<and> is_relative_gate gate) (Validation ''unsupported_gate'')])"

fun scan_metrics :: "Workload \<Rightarrow> Name set \<Rightarrow> MetricRequest list \<Rightarrow> PlanError + unit" where
  "scan_metrics w seen [] = Ok ()"
| "scan_metrics w seen (m # ms) = checks
    [reject_if (metric_name m \<in> seen) (Validation ''duplicate_identity''),
     checks [validate_direction (metric_direction m), validate_metric_gate w m],
     scan_metrics w (insert (metric_name m) seen) ms]"

definition is_mismatch_gate :: "MetricRequest \<Rightarrow> bool" where
  "is_mismatch_gate m \<longleftrightarrow>
     as_str (metric_name m) = ''expected_outcome_mismatch_rate'' \<and> as_str (metric_unit m) = ''ratio''
     \<and> metric_intent m = Primary \<and> metric_direction m = LowerIsBetter
     \<and> (case metric_gate m of Some (Absolute v) \<Rightarrow> f64_eq v f64_zero | _ \<Rightarrow> False)"

definition validate_metrics :: "ExperimentPlan \<Rightarrow> PlanError + unit" where
  "validate_metrics p = checks
    [reject_if (256 < length (metrics p) \<or> 128 < length (telemetry p)) (Validation ''invalid_bound''),
     scan_metrics (workload p) {} (metrics p),
     reject_if (is_http_corpus (workload p) \<and> \<not> list_ex is_mismatch_gate (metrics p))
       (Validation ''missing_required_metric'')]"

definition validate_artifact_bounds :: "ArtifactBounds \<Rightarrow> PlanError + unit" where
  "validate_artifact_bounds b =
     reject_if (artifact_bytes b = 0 \<or> total_bytes b = 0 \<or> total_bytes b < artifact_bytes b)
       (Validation ''invalid_bound'')"

section \<open>The gate\<close>

definition validate :: "ExperimentPlan \<Rightarrow> PlanError + unit" where
  "validate p =
    (let svcs = service_map_of (services p) in checks
      [validate_version_gates p,
       validate_path_composition p,
       validate_services p,
       validate_workload (workload p),
       validate_paired p svcs,
       validate_diagnostics p svcs,
       reject_if (paired p \<noteq> None \<and> unwrap_list (security_checks p) \<noteq> [])
         (Validation ''paired_security_not_supported''),
       validate_security_checks p svcs,
       validate_http_corpus_checks p svcs,
       validate_trials (trials p) svcs,
       validate_metrics p,
       validate_artifact_bounds (bounds p)])"

interpretation svc_scan: unique_scan svc_name "service_pre v" "\<lambda>_. Validation ''duplicate_identity''"
    "service_post b" "scan_services v b" for v b
  by unfold_locales simp_all

interpretation arg_scan: unique_scan arg_index
    "\<lambda>r. reject_if (arg_index r = 0 \<or> argc \<le> arg_index r) (Validation ''invalid_bound'')"
    "\<lambda>_. Validation ''invalid_bound''"
    "\<lambda>r. validate_binding_source (as_str (arg_source_service r)) (arg_source_key r) deps"
    "scan_binding_args argc deps" for argc deps
  by unfold_locales simp_all

interpretation metric_scan: unique_scan metric_name "\<lambda>_. Ok ()"
    "\<lambda>_. Validation ''duplicate_identity''"
    "\<lambda>m. checks [validate_direction (metric_direction m), validate_metric_gate w m]"
    "scan_metrics w" for w
  by unfold_locales simp_all

end
