(* ===== verification/PlanErrors.thy ===== *)
theory PlanErrors
  imports PlanProps
begin

text \<open>
  The errors of the plan validator.  \<open>validate\<close> has two kinds of error, the unsupported
  version and the categorised validation error; the lemmas go through the stages and show
  which of them can come from where.
\<close>

abbreviation validation_errors :: "PlanError set" where
  "validation_errors \<equiv> range Validation"

lemmas request_scan_errs = fault_scan.scan_errs header_scan.scan_errs probe_scan.scan_errs
  diag_scan.scan_errs sec_scan.scan_errs corpus_scan.scan_errs svc_scan.scan_errs
  arg_scan.scan_errs metric_scan.scan_errs

lemma scan_components_errs: "errs_in validation_errors (scan_components depth ws)"
  by (induction ws arbitrary: depth) (simp_all add: err_simps)

lemma schedule_total_errs: "errs_in validation_errors (schedule_total seen acc es)"
  by (induction es arbitrary: seen acc) (simp_all add: err_simps split: option.split)

lemma validate_host_port_errs: "errs_in validation_errors (validate_host_port host port)"
  by (simp add: validate_host_port_def err_simps)

lemma validate_route_endpoint_errs: "errs_in validation_errors (validate_route_endpoint endpoint)"
  by (simp add: validate_route_endpoint_def err_simps validate_host_port_errs split: option.split)

lemma validate_hop_errs: "errs_in validation_errors (validate_hop hop)"
  by (simp add: validate_hop_def err_simps validate_route_endpoint_errs split: option.split)

lemma network_path_errs: "errs_in validation_errors (validate_network_path_contract path)"
  by (simp add: validate_network_path_contract_def validate_route_mode_def err_simps
      validate_proxy_chain_shape_def validate_hop_errs split: option.split RouteMode.split)

lemma path_composition_errs: "errs_in validation_errors (validate_path_composition p)"
  by (simp add: validate_path_composition_def err_simps network_path_errs
      validate_path_service_configs_def validate_config_entry_def split: option.split)

lemma binding_source_errs: "errs_in validation_errors (validate_binding_source src key deps)"
  by (simp add: validate_binding_source_def err_simps)

lemma static_http_url_errs: "errs_in validation_errors (validate_static_http_url url)"
  by (simp add: validate_static_http_url_def err_simps Let_def split: option.split)

lemma service_errs:
  "errs_in validation_errors (service_pre v s)" "errs_in validation_errors (service_post b s)"
  by (simp_all add: service_pre_def service_post_def validate_static_bindings_def
      validate_http_url_def validate_binding_refs_def static_binding_entry_def binding_env_entry_def
      err_simps static_http_url_errs binding_source_errs request_scan_errs
      split: option.split ServiceKind.split)

lemma services_errs: "errs_in validation_errors (validate_services p)"
proof -
  have "errs_in validation_errors (ensure_acyclic (services p))"
    using ensure_acyclic_error by (cases "ensure_acyclic (services p)") (auto simp: err_simps)
  then show ?thesis
    by (simp add: validate_services_def Let_def validate_subject_program_def err_simps
        request_scan_errs service_errs validate_dependency_def split: Subject.split)
qed

lemma fixture_path_errs: "errs_in validation_errors (validate_semantic_fixture_path fixture)"
  by (simp add: err_simps validate_semantic_fixture_path_def scan_components_errs)

lemma corpus_workload_errs:
  "errs_in validation_errors (validate_http_corpus_workload ref sha schedule c headers)"
  using errs_in_D [OF schedule_total_errs [of "{}" 0 schedule]]
  by (cases "schedule_total {} 0 schedule")
    (simp_all add: validate_http_corpus_workload_def err_simps fixture_path_errs header_shape_def
      header_policy_def request_scan_errs)

lemma workload_errs: "errs_in validation_errors (validate_workload w)"
  by (cases w) (simp_all add: err_simps fixture_path_errs corpus_workload_errs
      split: LoadMode.split bool.split)

lemma requests_errs:
  "errs_in validation_errors (validate_diagnostics p svcs)"
  "errs_in validation_errors (validate_security_checks p svcs)"
  "errs_in validation_errors (validate_http_corpus_checks p svcs)"
  by (simp_all add: validate_diagnostics_def validate_security_checks_def
      validate_http_corpus_checks_def diagnostic_body_def security_body_def corpus_body_def
      Let_def err_simps request_scan_errs)

lemma trials_metrics_errs:
  "errs_in validation_errors (validate_trials t svcs)"
  "errs_in validation_errors (validate_metrics p)"
  "errs_in validation_errors (validate_artifact_bounds b)"
  by (simp_all add: validate_trials_def validate_metrics_def validate_direction_def
      validate_metric_gate_def validate_artifact_bounds_def err_simps request_scan_errs
      split: ResetPolicy.split MetricDirection.split option.split)

lemma paired_errs:
  "\<not> (paired p \<noteq> None \<and> schema_version p = SchemaVersion 1) \<Longrightarrow>
     errs_in validation_errors (validate_paired p svcs)"
  by (auto simp: validate_paired_def validate_arm_def err_simps version_defs reject_if_def
      simp del: for_each_simps split: option.split)

section \<open>The errors of the gate\<close>

lemma checks_first_Err: "checks (c # cs) = Err e \<longleftrightarrow> c = Err e \<or> c = Ok () \<and> checks cs = Err e"
  by (cases c) simp_all

lemma version_gate_unsupported:
  "version_number (schema_version p) \<notin> feature_versions AnyPlan \<Longrightarrow>
     validate_version_gates p = Err (UnsupportedVersion (version_number (schema_version p)))"
  unfolding validate_version_gates_def gate_sets by (simp add: reject_if_def del: feature_versions.simps)

lemma version_gate_errs:
  assumes "version_number (schema_version p) \<in> feature_versions AnyPlan"
  shows "errs_in validation_errors (validate_version_gates p)"
  using assms unfolding validate_version_gates_def gate_sets
  by (simp add: err_simps reject_if_def del: feature_versions.simps)

lemmas stage_errs = version_gate_errs path_composition_errs services_errs workload_errs paired_errs
  requests_errs trials_metrics_errs

text \<open>
  The validator reports an unsupported version exactly for the plans outside versions 1
  to 10, whatever else is wrong with them, and for version-1 plans that are paired and pass
  the stages before the paired one; it names the plan's own version.  Every other
  rejection is a categorised validation error.
\<close>

theorem unsupported_version_reported:
  "validate p = Err (UnsupportedVersion v) \<longleftrightarrow>
     v = version_number (schema_version p)
     \<and> (v \<notin> {1, 2, 3, 4, 5, 6, 7, 8, 9, 10}
        \<or> v = 1 \<and> paired p \<noteq> None \<and> validate_version_gates p = Ok ()
          \<and> validate_path_composition p = Ok () \<and> validate_services p = Ok ()
          \<and> validate_workload (workload p) = Ok ())"
  (is "?L \<longleftrightarrow> ?R")
proof (cases "version_number (schema_version p) \<in> feature_versions AnyPlan")
  case False
  from version_gate_unsupported [OF False] have
    "validate p = Err (UnsupportedVersion (version_number (schema_version p)))"
    by (simp add: validate_def Let_def)
  with False show ?thesis by auto
next
  case True
  have gates: "validate_version_gates p \<noteq> Err (UnsupportedVersion v)"
    using errs_in_D [OF version_gate_errs [OF True]] by blast
  have none: "errs_in validation_errors r \<Longrightarrow> r \<noteq> Err (UnsupportedVersion v)" for r :: "PlanError + unit"
    by (auto dest: errs_in_D)
  note noerr = gates none [OF path_composition_errs] none [OF services_errs] none [OF workload_errs]
    none [OF requests_errs(1)] none [OF requests_errs(2)] none [OF requests_errs(3)]
    none [OF trials_metrics_errs(1)] none [OF trials_metrics_errs(2)] none [OF trials_metrics_errs(3)]
  let ?svcs = "service_map_of (services p)"
  have "?L \<longleftrightarrow> validate_version_gates p = Ok () \<and> validate_path_composition p = Ok ()
      \<and> validate_services p = Ok () \<and> validate_workload (workload p) = Ok ()
      \<and> validate_paired p ?svcs = Err (UnsupportedVersion v)"
    by (auto simp: validate_def Let_def checks_first_Err noerr reject_if_Err)
  moreover have "validate_paired p ?svcs = Err (UnsupportedVersion v) \<longleftrightarrow>
      paired p \<noteq> None \<and> version_number (schema_version p) = 1 \<and> v = 1"
  proof (cases "paired p \<noteq> None \<and> schema_version p = SchemaVersion 1")
    case True
    then show ?thesis by (auto simp: validate_paired_def version_defs reject_if_def)
  next
    case False
    with none [OF paired_errs [OF False, of ?svcs]] show ?thesis
      by (auto simp: version_eq)
  qed
  ultimately show ?thesis using True by auto
qed

theorem unsupported_version_reported_witness:
  "validate (sample_plan \<lparr>schema_version := SchemaVersion 11, services := []\<rparr>)
     = Err (UnsupportedVersion 11)"
  by (simp add: unsupported_version_reported)

end
