(* ===== verification/ArtifactPaths.thy ===== *)
theory ArtifactPaths
  imports PlanProps
begin

text \<open>
  Artifact paths of an evidence bundle (\<open>eggbench-core/src/evidence.rs\<close>): the error type of
  the bundle component, \<open>ArtifactPath::new\<close> with its Windows device-name rule, and the
  path texts the runner builds for checks and logs (\<open>eggbench-runner/src/bundle.rs\<close>).

  The lemmas show that an accepted path stays below the bundle root, and decide for which
  accepted check identifiers and service names the derived paths exist.
\<close>

section \<open>Errors and paths\<close>

datatype ArtifactPath = ArtifactPath (path_text: string)

datatype BundleError =
  IoError string
| UnsafeArtifactPath string
| DestinationExists string
| IncompleteBundle
| UnsupportedManifestVersion u32
| MissingArtifact ArtifactPath
| ArtifactVerification ArtifactPath string
| ExtraFile string
| SymlinkError string
| BoundExceeded string
| InvalidManifest string
| ManifestParse string
| AtomicRenameUnsupported string

definition MAX_PATH_BYTES :: nat where
  "MAX_PATH_BYTES = 1024"
definition MAX_PATH_DEPTH :: nat where
  "MAX_PATH_DEPTH = 16"

definition is_windows_device_name :: "string \<Rightarrow> bool" where
  "is_windows_device_name segment \<longleftrightarrow>
    (let stem = to_ascii_uppercase (hd (split_char CHR ''.'' segment))
     in stem \<in> {''CON'', ''PRN'', ''AUX'', ''NUL''}
        \<or> list_ex (\<lambda>p. case strip_prefix p stem of
              None \<Rightarrow> False
            | Some rest \<Rightarrow> rest \<in> {''1'', ''2'', ''3'', ''4'', ''5'', ''6'', ''7'', ''8'', ''9''})
          [''COM'', ''LPT''])"

definition unsafe_segment :: "string \<Rightarrow> bool" where
  "unsafe_segment part \<longleftrightarrow>
     part = [] \<or> part = ''.'' \<or> part = ''..'' \<or> CHR '':'' \<in> set part
     \<or> suffix '' '' part \<or> suffix ''.'' part \<or> is_windows_device_name part"

definition unsafe_path :: "string \<Rightarrow> bool" where
  "unsafe_path v \<longleftrightarrow>
     v = [] \<or> MAX_PATH_BYTES < length v \<or> prefix ''/'' v \<or> CHR 0x5C \<in> set v \<or> has_control v
     \<or> MAX_PATH_DEPTH < length (split_char CHR ''/'' v)
     \<or> list_ex unsafe_segment (split_char CHR ''/'' v)
     \<or> eq_ignore_ascii_case v ''manifest.json''"

definition ArtifactPath_new :: "string \<Rightarrow> BundleError + ArtifactPath" where
  "ArtifactPath_new v = (if unsafe_path v then Err (UnsafeArtifactPath v) else Ok (ArtifactPath v))"

interpretation artifact_path: validated_newtype ArtifactPath_new path_text "\<lambda>v. \<not> unsafe_path v"
  by unfold_locales (auto simp: ArtifactPath_new_def ArtifactPath.expand)

instantiation ArtifactPath :: linorder
begin

definition less_eq_ArtifactPath :: "ArtifactPath \<Rightarrow> ArtifactPath \<Rightarrow> bool" where
  "less_eq_ArtifactPath a b \<longleftrightarrow> path_text a \<le> path_text b"

definition less_ArtifactPath :: "ArtifactPath \<Rightarrow> ArtifactPath \<Rightarrow> bool" where
  "less_ArtifactPath a b \<longleftrightarrow> path_text a < path_text b"

instance
  by standard (auto simp: less_eq_ArtifactPath_def less_ArtifactPath_def ArtifactPath.expand)

end

section \<open>Derived paths\<close>

definition check_artifact_text :: "Name \<Rightarrow> string" where
  "check_artifact_text n = ''security/'' @ as_str n @ ''.json''"

definition sanitize_identity :: "string \<Rightarrow> string" where
  "sanitize_identity identity =
    (let cleaned = map (\<lambda>c. if c < 128 \<and> safe_id_char (char_of c) then char_of c else CHR ''_'')
           (chars identity)
     in if cleaned = [] then ''unnamed'' else cleaned)"

definition log_artifact_texts :: "string \<Rightarrow> string \<times> string" where
  "log_artifact_texts identity =
    (''lifecycle/logs/'' @ sanitize_identity identity @ ''.stdout'',
     ''lifecycle/logs/'' @ sanitize_identity identity @ ''.stderr'')"

section \<open>Confinement\<close>

lemma safe_path_segments:
  assumes "\<not> unsafe_path v"
  shows "\<forall>w \<in> set (split_char CHR ''/'' v). plain_component w \<and> \<not> unsafe_segment w"
    and "length (split_char CHR ''/'' v) \<le> 16"
  using assms by (auto simp: unsafe_path_def list_ex_iff unsafe_segment_def plain_component_def
      MAX_PATH_DEPTH_def)

text \<open>
  C39: An artifact path the constructor accepts is relative and stays below the bundle root
  when it is resolved lexically; it has at most sixteen components and is never the
  manifest, in any ASCII case.
\<close>

theorem artifact_path_confined:
  assumes "ArtifactPath_new v = Ok p"
  shows "lexical_resolve root (path_text p) = root @ split_char CHR ''/'' v
    \<and> 1 \<le> length (split_char CHR ''/'' v) \<and> length (split_char CHR ''/'' v) \<le> 16
    \<and> to_ascii_lowercase (path_text p) \<noteq> ''manifest.json''"
proof -
  from assms have safe: "\<not> unsafe_path v" and p: "path_text p = v"
    by (simp_all add: artifact_path.make_Ok_iff)
  have "to_ascii_lowercase ''manifest.json'' = ''manifest.json''"
    by (simp add: to_ascii_lowercase_def ascii_lower_def is_ascii_uppercase_def byte_def)
  with safe have "to_ascii_lowercase v \<noteq> ''manifest.json''"
    by (auto simp: unsafe_path_def eq_ignore_ascii_case_def)
  with safe_path_segments [OF safe] resolve_plain [of v root] p show ?thesis
    by (simp add: Suc_le_eq)
qed

theorem artifact_path_confined_witness:
  "\<exists>p. ArtifactPath_new ''trials/001/r.json'' = Ok p
     \<and> lexical_resolve [''run.eggb''] (path_text p) = [''run.eggb'', ''trials'', ''001'', ''r.json'']"
proof -
  have "\<not> has_control ''trials/001/r.json''" by (rule has_control_plain) (simp add: byte_def)
  then have "ArtifactPath_new ''trials/001/r.json'' = Ok (ArtifactPath ''trials/001/r.json'')"
    by (simp add: ArtifactPath_new_def unsafe_path_def MAX_PATH_BYTES_def MAX_PATH_DEPTH_def
        unsafe_segment_def is_windows_device_name_def to_ascii_uppercase_def ascii_upper_def
        eq_ignore_ascii_case_def to_ascii_lowercase_def ascii_lower_def ascii_defs byte_def suffix_def
        Let_def)
  with artifact_path_confined [OF this, of "[''run.eggb'']"] show ?thesis by simp
qed

section \<open>Derived paths that exist\<close>

lemma unsafe_id_chars [simp]:
  "\<not> safe_id_char CHR ''/''" "\<not> safe_id_char CHR '':''" "\<not> safe_id_char CHR ''.''"
  "\<not> safe_id_char CHR 0x5C"
  by (simp_all add: safe_id_char_def ascii_defs byte_def)

lemma safe_id_char_plain: "safe_id_char c \<Longrightarrow> 32 \<le> byte c \<and> byte c < 127"
  by (auto simp: safe_id_char_def ascii_defs byte_def)

lemma safe_text_facts:
  assumes "list_all safe_id_char s"
  shows "CHR ''/'' \<notin> set s" "CHR '':'' \<notin> set s" "CHR ''.'' \<notin> set s" "CHR 0x5C \<notin> set s"
    "list_all (\<lambda>c. 32 \<le> byte c \<and> byte c < 127) s"
proof -
  have all: "\<forall>c \<in> set s. safe_id_char c" using assms by (simp add: list_all_iff)
  show "CHR ''/'' \<notin> set s" "CHR '':'' \<notin> set s" "CHR ''.'' \<notin> set s" "CHR 0x5C \<notin> set s"
    using all unsafe_id_chars by metis+
  show "list_all (\<lambda>c. 32 \<le> byte c \<and> byte c < 127) s"
    using all safe_id_char_plain by (simp add: list_all_iff)
qed

lemma split_char_first:
  "CHR ''.'' \<notin> set s \<Longrightarrow> hd (split_char CHR ''.'' (s @ CHR ''.'' # r)) = s"
  by (induction s) (auto split: list.splits)

lemma device_stem:
  "CHR ''.'' \<notin> set s \<Longrightarrow> is_windows_device_name (s @ CHR ''.'' # r) = is_windows_device_name s"
  using split_char_first [of s r] split_char_no_delim [of "CHR ''.''" s]
  by (simp add: is_windows_device_name_def)

lemma suffix_append_long: "suffix [c] (s @ r) \<longleftrightarrow> (if r = [] then suffix [c] s else suffix [c] r)"
  by (cases r rule: rev_cases) (auto simp: suffix_def)

text \<open>A file below \<open>security/\<close> or \<open>lifecycle/logs/\<close> whose stem is of the safe alphabet.\<close>

lemma derived_path_ok:
  assumes safe: "list_all safe_id_char s" and len: "length s \<le> 512"
  shows "unsafe_path (''security/'' @ s @ ''.json'') = is_windows_device_name s"
    and "unsafe_path (''lifecycle/logs/'' @ s @ ''.stdout'') = is_windows_device_name s"
    and "unsafe_path (''lifecycle/logs/'' @ s @ ''.stderr'') = is_windows_device_name s"
proof -
  note f = safe_text_facts [OF safe]
  have leaf: "unsafe_segment (s @ CHR ''.'' # r) = is_windows_device_name s"
    if "CHR '':'' \<notin> set r" "\<not> suffix '' '' (CHR ''.'' # r)" "\<not> suffix ''.'' (CHR ''.'' # r)" "r \<noteq> []"
      "r \<noteq> ''.''" for r
    using f that by (auto simp: unsafe_segment_def device_stem suffix_append_long append_eq_Cons_conv
        Cons_eq_append_conv)
  have dirs: "\<not> unsafe_segment ''security''" "\<not> unsafe_segment ''lifecycle''" "\<not> unsafe_segment ''logs''"
    by code_simp+
  have split: "split_char CHR ''/'' (s @ CHR ''.'' # r) = [s @ CHR ''.'' # r]" if "CHR ''/'' \<notin> set r" for r
    using f that by (intro split_char_no_delim) auto
  have ctl: "\<not> has_control (a @ s @ b)" if "list_all (\<lambda>c. 32 \<le> byte c \<and> byte c < 127) (a @ b)" for a b
    using f that by (intro has_control_plain) auto
  note ev = unsafe_path_def MAX_PATH_BYTES_def MAX_PATH_DEPTH_def eq_ignore_ascii_case_def
    to_ascii_lowercase_def ascii_lower_def ascii_defs byte_def
  show "unsafe_path (''security/'' @ s @ ''.json'') = is_windows_device_name s"
    using f len ctl [of "''security/''" "''.json''"] dirs
    by (simp add: ev split leaf suffix_def)
  show "unsafe_path (''lifecycle/logs/'' @ s @ ''.stdout'') = is_windows_device_name s"
    using f len ctl [of "''lifecycle/logs/''" "''.stdout''"] dirs
    by (simp add: ev split leaf suffix_def)
  show "unsafe_path (''lifecycle/logs/'' @ s @ ''.stderr'') = is_windows_device_name s"
    using f len ctl [of "''lifecycle/logs/''" "''.stderr''"] dirs
    by (simp add: ev split leaf suffix_def)
qed

lemma sanitize_identity_safe:
  assumes "length (chars identity) \<le> 512"
  shows "list_all safe_id_char (sanitize_identity identity) \<and> length (sanitize_identity identity) \<le> 512"
proof -
  have "safe_id_char CHR ''_''" "list_all safe_id_char ''unnamed''"
    by (simp_all add: safe_id_char_def ascii_defs byte_def)
  then show ?thesis
    using assms by (auto simp: sanitize_identity_def Let_def list_all_iff)
qed

lemma chars_length: "length (chars s) \<le> length s"
  by (induction s rule: chars.induct) (auto simp: Let_def)

text \<open>
  C40: The evidence file of a security or corpus check of an accepted plan can be named
  exactly when its identifier is not a Windows device name, the one thing the plan
  validator does not look at.
\<close>

theorem check_artifact_exists_iff:
  assumes "validate p = Ok ()"
    and "n \<in> sec_id ` set (unwrap_list (security_checks p))
           \<union> corpus_id ` set (unwrap_list (http_corpus_checks p))"
  shows "is_ok (ArtifactPath_new (check_artifact_text n)) \<longleftrightarrow> \<not> is_windows_device_name (as_str n)"
proof -
  from assms have "safe_check_id n" by (auto simp: stage_simps)
  then have "list_all safe_id_char (as_str n)" "length (as_str n) \<le> 512"
    by (auto simp: safe_check_id_def)
  from derived_path_ok(1) [OF this] show ?thesis
    by (simp add: ArtifactPath_new_def check_artifact_text_def)
qed

definition device_plan :: ExperimentPlan where
  "device_plan = sample_plan \<lparr>security_checks := Some [\<lparr>sec_id = Name ''con'',
     sec_source = Name ''eggsec-waf'', sec_target = Name ''web'', sec_test_type = Sqli,
     max_successful_bypasses = 0, sec_concurrency = PositiveCount 1,
     sec_timeout_ms = DurationMs 5000\<rparr>]\<rparr>"

lemma device_plan_valid: "validate device_plan = Ok ()"
  using sample_plan_acyclic
  by (simp add: device_plan_def sample_plan_def stage_simps plan_eval list_all_iff)

theorem check_artifact_exists_iff_witness:
  "validate device_plan = Ok () \<and> \<not> is_ok (ArtifactPath_new (check_artifact_text (Name ''con'')))"
proof -
  have "is_windows_device_name ''con''" by code_simp
  with check_artifact_exists_iff [OF device_plan_valid, of "Name ''con''"] device_plan_valid
  show ?thesis by (simp add: device_plan_def unwrap_list_def)
qed

text \<open>
  The two log files of a service or subject have valid bundle paths exactly when the
  sanitised identity is not a Windows device name.
\<close>

theorem log_artifacts_exist_iff:
  assumes "Name_new identity = Ok n"
  shows "is_ok (ArtifactPath_new (fst (log_artifact_texts identity)))
      \<and> is_ok (ArtifactPath_new (snd (log_artifact_texts identity)))
    \<longleftrightarrow> \<not> is_windows_device_name (sanitize_identity identity)"
proof -
  from assms have "length identity \<le> 128" by (simp add: name.make_Ok_iff name_allowed_def)
  with chars_length [of identity] have "length (chars identity) \<le> 512" by simp
  from sanitize_identity_safe [OF this] derived_path_ok(2,3) [of "sanitize_identity identity"]
  show ?thesis by (simp add: ArtifactPath_new_def log_artifact_texts_def)
qed

lemma name_b: "Name_new ''a.b'' = Ok (Name ''a.b'')"
  by (simp add: Name_new_def trim_is_empty_def has_control_def byte_def is_whitespace_def
      is_control_def MAX_NAME_LEN_def)

lemma sanitize_ascii:
  assumes "\<forall>c \<in> set s. byte c < 128" and "s \<noteq> []"
  shows "sanitize_identity s = map (\<lambda>c. if safe_id_char c then c else CHR ''_'') s"
  using assms by (simp add: sanitize_identity_def chars_ascii byte_def comp_def Let_def)

theorem log_artifacts_exist_iff_witness:
  "is_ok (ArtifactPath_new (fst (log_artifact_texts ''a.b'')))
    \<and> log_artifact_texts ''a.b'' = log_artifact_texts ''a_b''"
proof -
  have san: "sanitize_identity ''a.b'' = ''a_b''" "sanitize_identity ''a_b'' = ''a_b''"
    by (simp_all add: sanitize_ascii byte_def safe_id_char_def ascii_defs)
  moreover have "\<not> is_windows_device_name ''a_b''" by code_simp
  ultimately have "\<not> is_windows_device_name (sanitize_identity ''a.b'')" by simp
  with log_artifacts_exist_iff [OF name_b]
  have "is_ok (ArtifactPath_new (fst (log_artifact_texts ''a.b'')))" by simp
  with san show ?thesis by (simp add: log_artifact_texts_def)
qed

end
