(* ===== verification/Startup.thy ===== *)
theory Startup
  imports PlanProps "HOL-Library.Multiset"
begin

text \<open>
  The start order of a topology: the runner's error type (\<open>eggbench-runner/src/error.rs\<close>)
  and \<open>topological_order\<close> of \<open>eggbench-runner/src/spec.rs\<close>, Kahn's algorithm over three
  \<open>BTreeMap\<close>s and a queue.

  The result is an option: \<open>None\<close> is the panic of the final \<open>position[...]\<close> index, which the
  lemmas show never happens.  Details of an error are left out where they are prose.

  The lemmas keep one invariant through the queue loop and conclude that the order is a
  permutation of the services with every dependency first, found exactly when the declared
  dependencies have no cycle.
\<close>

section \<open>Runner errors\<close>

record CleanupFailure =
  cleanup_service :: string
  cleanup_reason :: string

datatype RunnerError =
  InvalidPlan
| UnsupportedService string
| UnsupportedProbe string string
| UnsupportedPlatform
| MissingSecret string string
| InvalidWorkingDirectory string
| InvalidExecutablePath string
| EmptyArgv string
| SpawnFailed string string "CleanupFailure list"
| ReadinessFailed string string "CleanupFailure list"
| ReadinessTimeout string u64 "CleanupFailure list"
| ProcessExitedEarly string string "CleanupFailure list"
| Cancelled "CleanupFailure list"
| CancelledBeforeSpawn

fun error_cleanup :: "RunnerError \<Rightarrow> CleanupFailure list" where
  "error_cleanup (SpawnFailed _ _ cs) = cs"
| "error_cleanup (ReadinessFailed _ _ cs) = cs"
| "error_cleanup (ReadinessTimeout _ _ cs) = cs"
| "error_cleanup (ProcessExitedEarly _ _ cs) = cs"
| "error_cleanup (Cancelled cs) = cs"
| "error_cleanup _ = []"

section \<open>Kahn's algorithm\<close>

text \<open>\<open>entry(k).or_insert(v)\<close>, the value left in the map, and \<open>remove(k)\<close>.\<close>

definition bt_or_insert :: "'k::linorder \<Rightarrow> 'v \<Rightarrow> ('k, 'v) BTreeMap \<Rightarrow> ('k, 'v) BTreeMap" where
  "bt_or_insert k v m = (if bt_contains m k then m else bt_insert k v m)"

definition bt_get_or :: "'v \<Rightarrow> ('k::linorder, 'v) BTreeMap \<Rightarrow> 'k \<Rightarrow> 'v" where
  "bt_get_or v m k = (case bt_get m k of None \<Rightarrow> v | Some w \<Rightarrow> w)"

definition bt_remove :: "'k \<Rightarrow> ('k, 'v) BTreeMap \<Rightarrow> ('k, 'v) BTreeMap" where
  "bt_remove k m = filter (\<lambda>e. fst e \<noteq> k) m"

type_synonym indegrees = "(Name, nat) BTreeMap"
type_synonym dependents = "(Name, Name list) BTreeMap"

fun add_dependencies ::
  "service_map \<Rightarrow> Name \<Rightarrow> Name set \<Rightarrow> Name list \<Rightarrow> indegrees \<times> dependents
    \<Rightarrow> RunnerError + (indegrees \<times> dependents)" where
  "add_dependencies by_name n seen [] g = Ok g"
| "add_dependencies by_name n seen (d # ds) (indegree, dependents) =
    (if \<not> bt_contains by_name d then Err InvalidPlan
     else if d \<in> seen then add_dependencies by_name n seen ds (indegree, dependents)
     else add_dependencies by_name n (insert d seen) ds
       (bt_insert n (bt_get_or 0 indegree n + 1) indegree,
        bt_insert d (bt_get_or [] dependents d @ [n]) dependents))"

fun add_services ::
  "service_map \<Rightarrow> Service list \<Rightarrow> indegrees \<times> dependents \<Rightarrow> RunnerError + (indegrees \<times> dependents)" where
  "add_services by_name [] g = Ok g"
| "add_services by_name (s # ss) (indegree, dependents) =
    (case add_dependencies by_name (svc_name s) {} (depends_on s)
            (bt_or_insert (svc_name s) 0 indegree, dependents) of
       Err e \<Rightarrow> Err e
     | Ok g \<Rightarrow> add_services by_name ss g)"

fun release :: "Name list \<Rightarrow> indegrees \<times> Name list \<Rightarrow> indegrees \<times> Name list" where
  "release [] st = st"
| "release (m # ms) (indegree, ready) =
    (let degree = bt_get_or 1 indegree m - 1
     in release ms (bt_insert m degree indegree, if degree = 0 then ready @ [m] else ready))"

definition pending :: "dependents \<Rightarrow> nat" where
  "pending dependents = (\<Sum>e \<leftarrow> dependents. length (snd e))"

lemma length_release: "length (snd (release ms (indegree, ready))) \<le> length ready + length ms"
proof (induction ms arbitrary: indegree ready)
  case Nil
  then show ?case by simp
next
  case (Cons m ms)
  show ?case
    using Cons [of "bt_insert m (bt_get_or 1 indegree m - 1) indegree" "ready @ [m]"]
      Cons [of "bt_insert m (bt_get_or 1 indegree m - 1) indegree" ready]
    by (auto simp: Let_def)
qed

lemma pending_remove: "bt_get m k = Some ms \<Longrightarrow> pending (bt_remove k m) + length ms \<le> pending m"
proof (induction m)
  case Nil
  then show ?case by simp
next
  case (Cons e m)
  have "pending (bt_remove k m) \<le> pending m"
    unfolding pending_def bt_remove_def by (induction m) auto
  with Cons show ?case
    by (cases "fst e = k") (auto simp: pending_def bt_remove_def bt_get_def)
qed

function kahn :: "Name list \<Rightarrow> Name list \<Rightarrow> indegrees \<Rightarrow> dependents \<Rightarrow> Name list" where
  "kahn [] ordered indegree dependents = ordered"
| "kahn (n # ready) ordered indegree dependents =
    (case bt_get dependents n of
       None \<Rightarrow> kahn ready (ordered @ [n]) indegree dependents
     | Some ms \<Rightarrow>
         kahn (snd (release ms (indegree, ready))) (ordered @ [n])
           (fst (release ms (indegree, ready))) (bt_remove n dependents))"
  by pat_completeness auto

termination
proof (relation "measure (\<lambda>(ready, ordered, indegree, dependents). length ready + pending dependents)",
    goal_cases)
  case 1
  show ?case by simp
next
  case (2 n ready ordered indegree dependents)
  then show ?case by simp
next
  case (3 n ready ordered indegree dependents ms)
  with length_release [of ms indegree ready] pending_remove [of dependents n ms] show ?case by simp
qed

text \<open>\<open>ordered.sort_by_key(|service| position[...])\<close>, stable; an absent position panics.\<close>

definition position_of :: "Name list \<Rightarrow> (Name, nat) BTreeMap" where
  "position_of ns = fold (\<lambda>e m. bt_insert (fst e) (snd e) m) (zip ns [0..<length ns]) []"

definition topological_order :: "Service list \<Rightarrow> (RunnerError + Service list) option" where
  "topological_order ss =
    (case add_services (service_map_of ss) ss ([], []) of
       Err e \<Rightarrow> Some (Err e)
     | Ok (indegree, dependents) \<Rightarrow>
         (let ready = map fst (filter (\<lambda>e. snd e = 0) indegree);
              ordered = kahn ready [] indegree dependents
          in if length ordered \<noteq> length ss then Some (Err InvalidPlan)
             else if list_all (\<lambda>s. bt_contains (position_of ordered) (svc_name s)) ss
               then Some (Ok (sort_key (\<lambda>s. bt_get_or 0 (position_of ordered) (svc_name s)) ss))
             else None))"

section \<open>The dependency graph\<close>

lemma bt_get_or_insert [simp]:
  "bt_ok m \<Longrightarrow> bt_get_or v (bt_insert k w m) j = (if j = k then w else bt_get_or v m j)"
  by (simp add: bt_get_or_def bt.lookup_insert)

lemma bt_get_or_None [simp]: "bt_get m k = None \<Longrightarrow> bt_get_or v m k = v"
  by (simp add: bt_get_or_def)

lemma bt_ok_remove: "bt_ok m \<Longrightarrow> bt_ok (bt_remove k m)"
  by (induction m) (auto simp: bt_remove_def bt_ok_Cons)

lemma bt_get_remove: "bt_get (bt_remove k m) j = (if j = k then None else bt_get m j)"
  by (induction m) (auto simp: bt_remove_def bt_get_def)

text \<open>The two maps hold the edges \<open>E\<close> (service, dependency): out-degrees and reversed lists.\<close>

definition graph_ok :: "(Name \<times> Name) set \<Rightarrow> indegrees \<times> dependents \<Rightarrow> bool" where
  "graph_ok E g \<longleftrightarrow> finite E \<and> bt_ok (fst g) \<and> bt_ok (snd g)
     \<and> (\<forall>n. bt_get_or 0 (fst g) n = card (E `` {n}))
     \<and> (\<forall>d. distinct (bt_get_or [] (snd g) d) \<and> set (bt_get_or [] (snd g) d) = E\<inverse> `` {d})"

lemma graph_ok_edge:
  assumes g: "graph_ok E (ind, deps)" and new: "(n, d) \<notin> E"
  shows "graph_ok (insert (n, d) E)
    (bt_insert n (bt_get_or 0 ind n + 1) ind, bt_insert d (bt_get_or [] deps d @ [n]) deps)"
proof -
  have "insert (n, d) E `` {m} = (if m = n then insert d (E `` {n}) else E `` {m})" for m by auto
  moreover have "finite (E `` {n})" using g by (simp add: graph_ok_def)
  moreover have "d \<notin> E `` {n}" using new by simp
  ultimately have "card (insert (n, d) E `` {m}) = (if m = n then card (E `` {n}) + 1 else card (E `` {m}))"
    for m by simp
  with g new show ?thesis
    by (auto simp: graph_ok_def bt.invar_insert)
qed

lemma add_dependencies_graph:
  assumes "graph_ok E (ind, deps)" and "E `` {n} = seen" and "n \<in> dom (bt_get ind)"
  shows "if \<forall>d \<in> set ds. bt_contains by_name d
    then \<exists>ind' deps'. add_dependencies by_name n seen ds (ind, deps) = Ok (ind', deps')
      \<and> graph_ok (E \<union> {n} \<times> set ds) (ind', deps') \<and> dom (bt_get ind') = dom (bt_get ind)
    else add_dependencies by_name n seen ds (ind, deps) = Err InvalidPlan"
  using assms
proof (induction ds arbitrary: E ind deps seen)
  case Nil
  then show ?case by simp
next
  case (Cons d ds)
  show ?case
  proof (cases "bt_contains by_name d")
    case False
    then show ?thesis by simp
  next
    case known: True
    show ?thesis
    proof (cases "d \<in> seen")
      case True
      with Cons.prems(2) have "E \<union> {n} \<times> set (d # ds) = E \<union> {n} \<times> set ds" by auto
      with Cons.IH [OF Cons.prems] known True show ?thesis by simp
    next
      case False
      with Cons.prems(2) have new: "(n, d) \<notin> E" by auto
      let ?ind = "bt_insert n (bt_get_or 0 ind n + 1) ind"
      have "insert (n, d) E `` {n} = insert d seen" using Cons.prems(2) by auto
      note ih = Cons.IH [OF graph_ok_edge [OF Cons.prems(1) new] this]
      have dm: "dom (bt_get ?ind) = dom (bt_get ind)"
        using Cons.prems(1,3) by (auto simp: graph_ok_def bt.lookup_insert)
      with Cons.prems(3) have "n \<in> dom (bt_get ?ind)" by simp
      note ih = ih [OF this, unfolded dm]
      have "insert (n, d) E \<union> {n} \<times> set ds = E \<union> {n} \<times> set (d # ds)" by auto
      with ih known False show ?thesis by (simp only: add_dependencies.simps if_True
            if_False not_False_eq_True not_True_eq_False list.set ball_simps simp_thms)
    qed
  qed
qed

lemma or_insert_graph:
  assumes "graph_ok E (ind, deps)" and "n \<notin> Domain E"
  shows "graph_ok E (bt_or_insert n 0 ind, deps)"
    and "dom (bt_get (bt_or_insert n 0 ind)) = insert n (dom (bt_get ind))"
proof -
  have "E `` {n} = {}" using assms(2) by auto
  with assms(1) show "graph_ok E (bt_or_insert n 0 ind, deps)"
    by (auto simp: graph_ok_def bt_or_insert_def bt.invar_insert)
  show "dom (bt_get (bt_or_insert n 0 ind)) = insert n (dom (bt_get ind))"
    using assms(1) by (auto simp: graph_ok_def bt_or_insert_def bt.lookup_insert bt_contains_get)
qed

lemma add_services_graph:
  assumes "graph_ok E (ind, deps)" and "distinct (map svc_name ss)" and "Domain E \<inter> svc_name ` set ss = {}"
    and "\<forall>s \<in> set ss. \<forall>d \<in> set (depends_on s). bt_contains by_name d"
  shows "\<exists>ind' deps'. add_services by_name ss (ind, deps) = Ok (ind', deps')
    \<and> graph_ok (E \<union> dep_relation ss) (ind', deps')
    \<and> dom (bt_get ind') = dom (bt_get ind) \<union> svc_name ` set ss"
  using assms
proof (induction ss arbitrary: E ind deps)
  case Nil
  then show ?case by simp
next
  case (Cons s ss)
  let ?n = "svc_name s"
  have n: "?n \<notin> Domain E" using Cons.prems(3) by auto
  then have "E `` {?n} = {}" by auto
  note ins = or_insert_graph [OF Cons.prems(1) n]
  from ins(2) have "?n \<in> dom (bt_get (bt_or_insert ?n 0 ind))" by simp
  from add_dependencies_graph [OF ins(1) \<open>E `` {?n} = {}\<close> this, of "depends_on s" by_name]
  obtain i d where add: "add_dependencies by_name ?n {} (depends_on s) (bt_or_insert ?n 0 ind, deps) = Ok (i, d)"
    and g: "graph_ok (E \<union> {?n} \<times> set (depends_on s)) (i, d)"
    and dm: "dom (bt_get i) = insert ?n (dom (bt_get ind))"
    using Cons.prems(4) ins(2) by auto
  have "?n \<notin> svc_name ` set ss" using Cons.prems(2) by simp
  with Cons.prems(3) have "Domain (E \<union> {?n} \<times> set (depends_on s)) \<inter> svc_name ` set ss = {}"
    by (auto simp: image_iff)
  from Cons.IH [OF g _ this] Cons.prems(2,4) add dm show ?case
    by (auto simp: Un_assoc)
qed

section \<open>The queue loop\<close>

lemma release_result:
  assumes "bt_ok ind" and "distinct ms"
  shows "snd (release ms (ind, ready)) = ready @ filter (\<lambda>m. bt_get_or 1 ind m \<le> 1) ms
    \<and> bt_ok (fst (release ms (ind, ready)))
    \<and> (\<forall>k. bt_get (fst (release ms (ind, ready))) k =
          (if k \<in> set ms then Some (bt_get_or 1 ind k - 1) else bt_get ind k))"
  using assms
proof (induction ms arbitrary: ind ready)
  case Nil
  then show ?case by simp
next
  case (Cons m ms)
  let ?ind = "bt_insert m (bt_get_or 1 ind m - 1) ind"
  have ok: "bt_ok ?ind" "distinct ms" using Cons.prems by (simp_all add: bt.invar_insert)
  have same: "filter (\<lambda>k. bt_get_or 1 ?ind k \<le> 1) ms = filter (\<lambda>k. bt_get_or 1 ind k \<le> 1) ms"
    using Cons.prems by (intro filter_cong) auto
  from Cons.IH [OF ok, unfolded same] Cons.prems show ?case
    by (auto simp: Let_def bt.lookup_insert bt_get_or_insert)
qed

text \<open>The state of the loop against the fixed edges \<open>E\<close> over the names \<open>N\<close>.\<close>

definition kahn_inv ::
  "Name set \<Rightarrow> (Name \<times> Name) set \<Rightarrow> Name list \<Rightarrow> Name list \<Rightarrow> indegrees \<Rightarrow> dependents \<Rightarrow> bool" where
  "kahn_inv N E ready ordered ind deps \<longleftrightarrow>
     bt_ok ind \<and> distinct (ordered @ ready)
     \<and> (\<forall>n \<in> N. bt_get ind n = Some (card (E `` {n} - set ordered)))
     \<and> (\<forall>d. distinct (bt_get_or [] deps d)
          \<and> set (bt_get_or [] deps d) = (if d \<in> set ordered then {} else E\<inverse> `` {d}))
     \<and> (\<forall>n. n \<in> set (ordered @ ready) \<longleftrightarrow> n \<in> N \<and> E `` {n} \<subseteq> set ordered)
     \<and> (\<forall>xs n ys. ordered = xs @ n # ys \<longrightarrow> E `` {n} \<subseteq> set xs)"

lemma kahn_inv_step:
  assumes inv: "kahn_inv N E (n # ready) ordered ind deps" and fin: "finite E" and EN: "E \<subseteq> N \<times> N"
  defines "ms \<equiv> bt_get_or [] deps n"
  assumes deps': "\<And>k. bt_get_or [] deps' k = (if k = n then [] else bt_get_or [] deps k)"
  shows "kahn_inv N E (snd (release ms (ind, ready))) (ordered @ [n]) (fst (release ms (ind, ready))) deps'"
proof -
  from inv have ok: "bt_ok ind" and dist: "distinct (ordered @ n # ready)"
    and deg: "\<And>k. k \<in> N \<Longrightarrow> bt_get ind k = Some (card (E `` {k} - set ordered))"
    and lists: "\<And>d. distinct (bt_get_or [] deps d)
          \<and> set (bt_get_or [] deps d) = (if d \<in> set ordered then {} else E\<inverse> `` {d})"
    and mem: "\<And>k. k \<in> set (ordered @ n # ready) \<longleftrightarrow> k \<in> N \<and> E `` {k} \<subseteq> set ordered"
    and closed: "\<And>xs k ys. ordered = xs @ k # ys \<Longrightarrow> E `` {k} \<subseteq> set xs"
    by (auto simp: kahn_inv_def)
  from dist have nn: "n \<notin> set ordered" by auto
  with lists [of n] have ms: "distinct ms" "set ms = E\<inverse> `` {n}" by (auto simp: ms_def)
  with EN have msN: "set ms \<subseteq> N" by auto
  note rel = release_result [OF ok ms(1), of ready]
  have fin': "finite (E `` {k})" for k using fin by simp
  have left: "card (E `` {k} - set (ordered @ [n])) = card (E `` {k} - set ordered) - (if k \<in> set ms then 1 else 0)"
    for k
  proof -
    have "E `` {k} - set (ordered @ [n]) = (E `` {k} - set ordered) - {n}" by auto
    moreover have "n \<in> E `` {k} - set ordered \<longleftrightarrow> k \<in> set ms" using ms(2) nn by auto
    ultimately show ?thesis using fin' by (auto simp: card_Diff_singleton)
  qed
  have degm: "bt_get_or 1 ind k = card (E `` {k} - set ordered)" if "k \<in> N" for k
    using deg [OF that] by (simp add: bt_get_or_def)
  have now: "bt_get_or 1 ind k \<le> 1 \<longleftrightarrow> E `` {k} \<subseteq> set (ordered @ [n])" if "k \<in> set ms" for k
  proof -
    from that ms(2) nn have "n \<in> E `` {k} - set ordered" by auto
    then have "0 < card (E `` {k} - set ordered)" using fin' by (auto simp: card_gt_0_iff)
    with left [of k] that have "bt_get_or 1 ind k \<le> 1 \<longleftrightarrow> card (E `` {k} - set (ordered @ [n])) = 0"
      using degm msN by (auto simp del: set_append)
    also have "\<dots> \<longleftrightarrow> E `` {k} \<subseteq> set (ordered @ [n])" using fin' by (simp del: set_append)
    finally show ?thesis .
  qed
  have fresh: "k \<notin> set (ordered @ n # ready)" if "k \<in> set ms" for k
    using that ms(2) nn mem [of k] by auto
  show ?thesis
    unfolding kahn_inv_def
  proof (intro conjI allI ballI impI)
    show "bt_ok (fst (release ms (ind, ready)))" using rel by blast
    show "distinct ((ordered @ [n]) @ snd (release ms (ind, ready)))"
      using rel dist ms(1) fresh by auto
    show "bt_get (fst (release ms (ind, ready))) k = Some (card (E `` {k} - set (ordered @ [n])))"
      if "k \<in> N" for k
      using rel degm [OF that] deg [OF that] left [of k] by auto
    show "distinct (bt_get_or [] deps' d)" for d using deps' lists by simp
    show "set (bt_get_or [] deps' d) = (if d \<in> set (ordered @ [n]) then {} else E\<inverse> `` {d})" for d
      using lists [of d] by (cases "d = n") (simp_all add: deps')
    show "k \<in> set ((ordered @ [n]) @ snd (release ms (ind, ready)))
        \<longleftrightarrow> k \<in> N \<and> E `` {k} \<subseteq> set (ordered @ [n])" for k
    proof (cases "k \<in> set ms")
      case True
      then show ?thesis using rel fresh [OF True] now [OF True] msN by auto
    next
      case False
      with ms(2) have "n \<notin> E `` {k}" by auto
      then have "E `` {k} \<subseteq> set (ordered @ [n]) \<longleftrightarrow> E `` {k} \<subseteq> set ordered" by auto
      then show ?thesis using rel False mem [of k] by (auto simp del: set_append simp: set_append)
    qed
    show "E `` {k} \<subseteq> set xs" if "ordered @ [n] = xs @ k # ys" for xs k ys
    proof (cases "ys = []")
      case True
      with that mem [of n] show ?thesis by simp
    next
      case False
      with that have "ordered = xs @ k # butlast ys"
        by (metis butlast.simps(2) butlast_append butlast_snoc list.distinct(1))
      then show ?thesis by (rule closed)
    qed
  qed
qed

lemma kahn_inv_final:
  assumes "kahn_inv N E ready ordered ind deps" and "finite E" and "E \<subseteq> N \<times> N"
  shows "\<exists>ind' deps'. kahn_inv N E [] (kahn ready ordered ind deps) ind' deps'"
  using assms
proof (induction ready ordered ind deps rule: kahn.induct)
  case (1 ordered ind deps)
  then show ?case by auto
next
  case (2 n ready ordered ind deps)
  show ?case
  proof (cases "bt_get deps n")
    case None
    then have "kahn_inv N E ready (ordered @ [n]) ind deps"
      using kahn_inv_step [OF "2.prems", of deps] by simp
    with 2 None show ?thesis by simp
  next
    case (Some ms)
    then have "bt_get_or [] deps n = ms" by (simp add: bt_get_or_def)
    moreover have "bt_get_or [] (bt_remove n deps) k = (if k = n then [] else bt_get_or [] deps k)" for k
      by (simp add: bt_get_or_def bt_get_remove)
    ultimately have "kahn_inv N E (snd (release ms (ind, ready))) (ordered @ [n])
        (fst (release ms (ind, ready))) (bt_remove n deps)"
      using kahn_inv_step [OF "2.prems", of "bt_remove n deps"] by simp
    with 2 Some show ?thesis by simp
  qed
qed

section \<open>The start order\<close>

lemma fold_bt_insert:
  "bt_ok m \<Longrightarrow> bt_get (fold (\<lambda>e m. bt_insert (fst e) (snd e) m) es m) = bt_get m ++ map_of (rev es)"
  by (induction es arbitrary: m) (auto simp: bt.invar_insert bt.lookup_insert map_add_upd_left)

lemma position_of_get:
  assumes "distinct ns"
  shows "bt_get (position_of ns) = map_of (zip ns [0..<length ns])"
proof -
  have "bt_get (position_of ns) = map_of (rev (zip ns [0..<length ns]))"
    unfolding position_of_def by (simp add: fold_bt_insert)
  also have "\<dots> = map_of (zip ns [0..<length ns])"
  proof (rule map_of_inject_set [THEN iffD2])
    show "distinct (map fst (rev (zip ns [0..<length ns])))"
      using assms by (simp only: rev_map [symmetric] distinct_rev) simp
    show "distinct (map fst (zip ns [0..<length ns]))" using assms by simp
  qed simp
  finally show ?thesis .
qed

lemma position_nth:
  "distinct ns \<Longrightarrow> i < length ns \<Longrightarrow> bt_get_or 0 (position_of ns) (ns ! i) = i"
  by (simp add: bt_get_or_def position_of_get map_of_zip_nth)

lemma position_contains: "distinct ns \<Longrightarrow> bt_contains (position_of ns) n \<longleftrightarrow> n \<in> set ns"
  by (force simp: bt_contains_get position_of_get map_of_eq_None_iff set_zip in_set_conv_nth image_iff)

lemma map_position: "distinct ns \<Longrightarrow> map (bt_get_or 0 (position_of ns)) ns = [0..<length ns]"
  by (rule nth_equalityI) (simp_all add: position_nth)

lemma sort_by_position:
  assumes "distinct ns" and "distinct (map svc_name ss)" and "svc_name ` set ss = set ns"
  shows "map svc_name (sort_key (\<lambda>s. bt_get_or 0 (position_of ns) (svc_name s)) ss) = ns"
proof -
  let ?pos = "bt_get_or 0 (position_of ns)"
  let ?os = "sort_key (\<lambda>s. ?pos (svc_name s)) ss"
  have "distinct (map svc_name ?os)" using assms(2) by (simp add: distinct_map)
  with assms have m: "mset (map svc_name ?os) = mset ns"
    by (metis set_eq_iff_mset_eq_distinct set_map set_sort)
  have "sorted (map ?pos (map svc_name ?os))" using sorted_sort_key [of "\<lambda>s. ?pos (svc_name s)" ss] by (simp add: comp_def)
  moreover have "sorted (map ?pos ns)" by (simp add: map_position [OF assms(1)])
  moreover have "mset (map ?pos (map svc_name ?os)) = mset (map ?pos ns)"
    using m by (metis mset_map)
  ultimately have "map ?pos (map svc_name ?os) = map ?pos ns"
    by (metis properties_for_sort)
  moreover have "inj_on ?pos (set ns)"
    using map_position [OF assms(1)] by (metis distinct_map distinct_upt)
  ultimately show ?thesis
    using assms(3) by (intro inj_on_map_eq_map [THEN iffD1, of ?pos]) auto
qed

definition deps_first :: "Service list \<Rightarrow> bool" where
  "deps_first os \<longleftrightarrow> (\<forall>xs s ys. os = xs @ s # ys \<longrightarrow> set (depends_on s) \<subseteq> svc_name ` set xs)"

definition deps_declared :: "Service list \<Rightarrow> bool" where
  "deps_declared ss \<longleftrightarrow> (\<forall>s \<in> set ss. set (depends_on s) \<subseteq> svc_name ` set ss)"

lemma kahn_order:
  assumes "distinct (map svc_name ss)" and "deps_declared ss"
  obtains ind deps ordered where "add_services (service_map_of ss) ss ([], []) = Ok (ind, deps)"
    and "ordered = kahn (map fst (filter (\<lambda>e. snd e = 0) ind)) [] ind deps"
    and "distinct ordered" and "set ordered \<subseteq> svc_name ` set ss"
    and "\<And>n. n \<in> svc_name ` set ss \<Longrightarrow> dep_relation ss `` {n} \<subseteq> set ordered \<Longrightarrow> n \<in> set ordered"
    and "\<And>xs n ys. ordered = xs @ n # ys \<Longrightarrow> dep_relation ss `` {n} \<subseteq> set xs"
proof -
  let ?E = "dep_relation ss" and ?N = "svc_name ` set ss"
  have fin: "finite ?E" by (induction ss) simp_all
  have EN: "?E \<subseteq> ?N \<times> ?N" using assms(2) by (fastforce simp: dep_relation_def deps_declared_def)
  have "graph_ok {} ([], [])" by (simp add: graph_ok_def)
  from add_services_graph [OF this assms(1), of "service_map_of ss"] assms(2)
  obtain ind deps where add: "add_services (service_map_of ss) ss ([], []) = Ok (ind, deps)"
    and g: "graph_ok ?E (ind, deps)" and dm: "dom (bt_get ind) = ?N"
    by (auto simp: deps_declared_def subset_iff)
  let ?ready = "map fst (filter (\<lambda>e. snd e = 0) ind)"
  have degree: "bt_get ind n = Some (card (?E `` {n}))" if "n \<in> ?N" for n
  proof -
    from that dm obtain k where k: "bt_get ind n = Some k" by blast
    moreover from g have "bt_get_or 0 ind n = card (?E `` {n})" by (simp add: graph_ok_def)
    ultimately show ?thesis by (simp add: bt_get_or_def)
  qed
  have entry: "(n, k) \<in> set ind \<longleftrightarrow> bt_get ind n = Some k" for n k
    using g by (intro bt.entries_lookup) (simp add: graph_ok_def)
  have "n \<in> set ?ready \<longleftrightarrow> bt_get ind n = Some 0" for n
    by (force simp: entry [symmetric])
  then have ready: "n \<in> set ?ready \<longleftrightarrow> n \<in> ?N \<and> ?E `` {n} = {}" for n
    using degree [of n] dm fin by (cases "n \<in> ?N") (auto simp: domIff)
  have "distinct ?ready"
    using g bt_ok_distinct [of ind] by (simp add: graph_ok_def distinct_map_filter)
  with g ready degree have "kahn_inv ?N ?E ?ready [] ind deps"
    by (simp add: kahn_inv_def graph_ok_def)
  from kahn_inv_final [OF this fin EN] obtain ind' deps' where
    "kahn_inv ?N ?E [] (kahn ?ready [] ind deps) ind' deps'" by blast
  then show thesis
    by (intro that [OF add refl]) (auto simp: kahn_inv_def)
qed

lemma closed_order_acyclic:
  fixes r :: "(Name \<times> Name) set"
  assumes "\<And>xs n ys. ns = xs @ n # ys \<Longrightarrow> r `` {n} \<subseteq> set xs" and "Domain r \<subseteq> set ns" and "distinct ns"
  shows "acyclic r"
proof -
  have "bt_get_or 0 (position_of ns) d < bt_get_or 0 (position_of ns) n" if nd: "(n, d) \<in> r" for n d
  proof -
    from nd assms(2) have "n \<in> set ns" by auto
    then obtain i where i: "i < length ns" "ns ! i = n" by (auto simp: in_set_conv_nth)
    then have "ns = take i ns @ n # drop (Suc i) ns" by (metis id_take_nth_drop)
    from assms(1) [OF this] nd have "d \<in> set (take i ns)" by auto
    then obtain j where "j < i" "ns ! j = d" using i(1) by (auto simp: in_set_conv_nth)
    with i assms(3) show ?thesis by (auto simp: position_nth)
  qed
  then have "r\<inverse> \<subseteq> measure (bt_get_or 0 (position_of ns))" by auto
  then have "wf (r\<inverse>)" by (rule wf_subset [OF wf_measure])
  then show ?thesis using wf_acyclic acyclic_converse by blast
qed

lemma topological_order_cases:
  assumes "distinct (map svc_name ss)" and "deps_declared ss"
  shows "if acyclic (dep_relation ss)
    then \<exists>os. topological_order ss = Some (Ok os) \<and> mset os = mset ss \<and> deps_first os
    else topological_order ss = Some (Err InvalidPlan)"
proof -
  let ?E = "dep_relation ss" and ?N = "svc_name ` set ss"
  from kahn_order [OF assms] obtain ind deps ordered where
    add: "add_services (service_map_of ss) ss ([], []) = Ok (ind, deps)"
    and ord: "ordered = kahn (map fst (filter (\<lambda>e. snd e = 0) ind)) [] ind deps"
    and dist: "distinct ordered" and sub: "set ordered \<subseteq> ?N"
    and full: "\<And>n. n \<in> ?N \<Longrightarrow> ?E `` {n} \<subseteq> set ordered \<Longrightarrow> n \<in> set ordered"
    and closed: "\<And>xs n ys. ordered = xs @ n # ys \<Longrightarrow> ?E `` {n} \<subseteq> set xs" by blast
  have card: "card ?N = length ss" using assms(1) by (metis distinct_card length_map set_map)
  have len: "length ordered = length ss \<longleftrightarrow> set ordered = ?N"
    using card sub dist by (metis card_subset_eq distinct_card finite_imageI List.finite_set)
  have EN: "Domain ?E \<subseteq> ?N" "Range ?E \<subseteq> ?N"
    using assms(2) by (fastforce simp: dep_relation_def deps_declared_def)+
  show ?thesis
  proof (cases "acyclic ?E")
    case True
    have "finite ?E" by (induction ss) simp_all
    with True have wf: "wf (?E\<inverse>)" by (simp add: finite_acyclic_wf_converse)
    have "n \<in> ?N \<Longrightarrow> n \<in> set ordered" for n
    proof (induction n rule: wf_induct_rule [OF wf])
      case (1 n)
      have "?E `` {n} \<subseteq> set ordered" using 1(1) EN by blast
      with 1(2) show ?case by (rule full)
    qed
    with sub have all: "set ordered = ?N" by blast
    define os where "os = sort_key (\<lambda>s. bt_get_or 0 (position_of ordered) (svc_name s)) ss"
    have names: "map svc_name os = ordered"
      unfolding os_def using dist assms(1) all by (intro sort_by_position) simp_all
    have "deps_first os"
      unfolding deps_first_def
    proof (intro allI impI)
      fix xs s ys
      assume os: "os = xs @ s # ys"
      then have "s \<in> set ss" unfolding os_def by (metis in_set_conv_decomp set_sort)
      then have "set (depends_on s) \<subseteq> ?E `` {svc_name s}" by (auto simp: dep_relation_def)
      also have "\<dots> \<subseteq> svc_name ` set xs"
        using closed [of "map svc_name xs" "svc_name s" "map svc_name ys"] names os by simp
      finally show "set (depends_on s) \<subseteq> svc_name ` set xs" .
    qed
    moreover have "topological_order ss = Some (Ok os)"
      using add ord len all dist by (auto simp: topological_order_def Let_def os_def list_all_iff
          position_contains)
    ultimately show ?thesis using True by (auto simp: os_def)
  next
    case False
    have "set ordered \<noteq> ?N"
    proof
      assume "set ordered = ?N"
      with EN(1) have "Domain ?E \<subseteq> set ordered" by simp
      with closed have "acyclic ?E" using dist by (rule closed_order_acyclic)
      with False show False by simp
    qed
    with len have "length ordered \<noteq> length ss" by simp
    with False add ord show ?thesis by (simp add: topological_order_def Let_def)
  qed
qed

text \<open>
  C12: The runner's ordering and the validator's cycle search, two different algorithms, agree
  on every topology with distinct names and declared dependencies: the order exists exactly
  when the search accepts, otherwise it is the invalid-plan error, and it never panics.
\<close>

theorem start_order_iff_acyclic:
  assumes "distinct (map svc_name ss)" and "deps_declared ss"
  shows "topological_order ss = Some (Err InvalidPlan) \<and> (\<exists>e. ensure_acyclic ss = Err e)
    \<or> (\<exists>os. topological_order ss = Some (Ok os)) \<and> ensure_acyclic ss = Ok ()"
  using topological_order_cases [OF assms] ensure_acyclic_map [of ss] map_rel_services [OF assms(1)]
    result_unit_cases [of "ensure_acyclic ss"]
  by (auto split: if_splits)

theorem start_order_iff_acyclic_witness:
  "topological_order [sample_service ''a'' [''a'']] = Some (Err InvalidPlan)"
proof -
  have "\<not> acyclic (dep_relation [sample_service ''a'' [''a'']])"
    by (auto simp: acyclic_def sample_service_def)
  then have "ensure_acyclic [sample_service ''a'' [''a'']] \<noteq> Ok ()"
    using map_rel_services [of "[sample_service ''a'' [''a'']]"] by (simp add: ensure_acyclic_map)
  then show ?thesis
    using start_order_iff_acyclic [of "[sample_service ''a'' [''a'']]"]
    by (simp add: deps_declared_def sample_service_def)
qed

lemma accepted_deps_declared: "validate p = Ok () \<Longrightarrow> deps_declared (services p)"
  by (auto simp: validate_Ok validate_services_Ok deps_declared_def service_names_def)

lemma accepted_start_order:
  assumes "validate p = Ok ()"
  shows "\<exists>os. topological_order (services p) = Some (Ok os) \<and> mset os = mset (services p) \<and> deps_first os"
proof -
  from assms have "distinct (map svc_name (services p))" by (simp add: validate_Ok validate_services_Ok)
  from topological_order_cases [OF this accepted_deps_declared [OF assms]] accepted_acyclic [OF assms]
  show ?thesis by simp
qed

end
