(* ===== verification/Resolved.thy ===== *)
theory Resolved
  imports Startup "HOL-Library.Product_Lexorder"
begin

text \<open>
  The vocabulary of driver capabilities and of deterministic plan resolution:
  \<open>eggbench-core/src/resolved.rs\<close>.  The resolution turns a validated plan, a list of driver
  descriptors and the caller's options into one driver per needed category.

  The registry and the required capabilities are \<open>BTreeMap\<close>s and \<open>BTreeSet\<close>s; a
  \<open>BTreeSet\<close> is the list of its elements in order.  The orders of the two key enums are
  those of \<open>derive(Ord)\<close>: declaration order, then the fields.

  The resolution itself and its properties are in the theory \<open>Resolve\<close>.
\<close>

section \<open>Sets in key order\<close>

type_synonym 'a BTreeSet = "('a, unit) BTreeMap"

definition bs_insert :: "'a::linorder \<Rightarrow> 'a BTreeSet \<Rightarrow> 'a BTreeSet" where
  "bs_insert a s = bt_insert a () s"

definition bs_elems :: "'a BTreeSet \<Rightarrow> 'a list" where
  "bs_elems s = map fst s"

definition bs_contains :: "'a BTreeSet \<Rightarrow> 'a \<Rightarrow> bool" where
  "bs_contains s a \<longleftrightarrow> a \<in> fst ` set s"

definition bs_extend :: "'a::linorder list \<Rightarrow> 'a BTreeSet \<Rightarrow> 'a BTreeSet" where
  "bs_extend as s = fold bs_insert as s"

section \<open>Vocabulary\<close>

definition RESOLVED_PLAN_SCHEMA_VERSION :: SchemaVersion where
  "RESOLVED_PLAN_SCHEMA_VERSION = SchemaVersion 6"

datatype DriverCategory =
  CatService | CatWorkload | CatTelemetry | CatFault | CatDiagnostic | CatCorrectness
| CatExecutionProvider | CatRoute

fun category_rank :: "DriverCategory \<Rightarrow> nat" where
  "category_rank CatService = 0"
| "category_rank CatWorkload = 1"
| "category_rank CatTelemetry = 2"
| "category_rank CatFault = 3"
| "category_rank CatDiagnostic = 4"
| "category_rank CatCorrectness = 5"
| "category_rank CatExecutionProvider = 6"
| "category_rank CatRoute = 7"

lemma category_rank_inject: "category_rank a = category_rank b \<Longrightarrow> a = b"
  by (cases a; cases b) simp_all

instantiation DriverCategory :: linorder
begin

definition less_eq_DriverCategory :: "DriverCategory \<Rightarrow> DriverCategory \<Rightarrow> bool" where
  "less_eq_DriverCategory a b \<longleftrightarrow> category_rank a \<le> category_rank b"

definition less_DriverCategory :: "DriverCategory \<Rightarrow> DriverCategory \<Rightarrow> bool" where
  "less_DriverCategory a b \<longleftrightarrow> category_rank a < category_rank b"

instance
  by standard (auto simp: less_eq_DriverCategory_def less_DriverCategory_def category_rank_inject)

end

datatype HttpVersion = Http10 | Http11 | Http2 | Http3

datatype Capability =
  CapHttpVersion HttpVersion
| CapLoadMode LoadMode
| CapCorrectedLatency
| CapProxyRouting
| CapFaultFamily Name
| CapTelemetryField Name
| CapExternalBinary
| CapNetworkPath
| CapStreamFaultPlan
| CapSemanticReplay
| CapHttpCorpus
| CapDiagnosticProbe DiagnosticProbe
| CapSecurityCheck Name

fun capability_key :: "Capability \<Rightarrow> nat \<times> nat \<times> string" where
  "capability_key (CapHttpVersion v) =
     (0, (case v of Http10 \<Rightarrow> 0 | Http11 \<Rightarrow> 1 | Http2 \<Rightarrow> 2 | Http3 \<Rightarrow> 3), [])"
| "capability_key (CapLoadMode m) = (1, (case m of ClosedLoopMode \<Rightarrow> 0 | OpenLoopMode \<Rightarrow> 1), [])"
| "capability_key CapCorrectedLatency = (2, 0, [])"
| "capability_key CapProxyRouting = (3, 0, [])"
| "capability_key (CapFaultFamily n) = (4, 0, as_str n)"
| "capability_key (CapTelemetryField n) = (5, 0, as_str n)"
| "capability_key CapExternalBinary = (6, 0, [])"
| "capability_key CapNetworkPath = (7, 0, [])"
| "capability_key CapStreamFaultPlan = (8, 0, [])"
| "capability_key CapSemanticReplay = (9, 0, [])"
| "capability_key CapHttpCorpus = (10, 0, [])"
| "capability_key (CapDiagnosticProbe p) =
     (11, (case p of Dns \<Rightarrow> 0 | Tcp \<Rightarrow> 1 | Tls \<Rightarrow> 2 | Http \<Rightarrow> 3), [])"
| "capability_key (CapSecurityCheck n) = (12, 0, as_str n)"

lemma capability_key_inject: "capability_key a = capability_key b \<Longrightarrow> a = b"
  by (cases a; cases b)
    (auto simp: Name.expand split: HttpVersion.splits LoadMode.splits DiagnosticProbe.splits)

instantiation Capability :: linorder
begin

definition less_eq_Capability :: "Capability \<Rightarrow> Capability \<Rightarrow> bool" where
  "less_eq_Capability a b \<longleftrightarrow> capability_key a \<le> capability_key b"

definition less_Capability :: "Capability \<Rightarrow> Capability \<Rightarrow> bool" where
  "less_Capability a b \<longleftrightarrow> capability_key a < capability_key b"

instance
  by standard (auto simp: less_eq_Capability_def less_Capability_def capability_key_inject
      simp del: less_eq_prod_def less_prod_def)

end

record DriverDescriptor =
  drv_name :: Name
  adapter_version :: string
  upstream_name :: string
  upstream_version :: "string option"
  drv_category :: DriverCategory
  drv_capabilities :: "Capability BTreeSet"
  supported_platforms :: "Name BTreeSet"
  machine_output_schema :: "SchemaVersion option"
  external_process :: bool
  drv_default :: bool
  compatible_service_types :: "Name BTreeSet"

datatype DefaultDriverPolicy = ExplicitOnly | Deterministic

record ResolutionOptions =
  selections :: "(DriverCategory, Name) BTreeMap"
  default_policy :: DefaultDriverPolicy
  platform :: Name
  executable_paths :: "(Name, string) BTreeMap"
  required_capabilities :: "(DriverCategory, Capability BTreeSet) BTreeMap"

record ResolvedDriver =
  descriptor :: DriverDescriptor
  executable_path :: "string option"

datatype ResolutionWarning = OptionalTelemetryOmitted Name "Name list"

record ResolvedStreamFaults =
  rsf_request :: StreamFaultPlanRequest
  rsf_fault_driver :: ResolvedDriver
  rsf_rng_version :: string

record ResolvedNetworkPath =
  rnp_route :: RouteRequest
  rnp_route_driver :: ResolvedDriver
  rnp_semantics_version :: string
  rnp_stream_faults :: "ResolvedStreamFaults option"

record ResolvedPairedDesign =
  rp_baseline :: PairedArm
  rp_candidate :: PairedArm
  rp_schedule :: string
  rp_pairs :: u32

record ResolvedDefaults =
  rd_platform :: Name
  rd_warmup_trials :: u32
  rd_measured_trials :: u32

record ResolvedPlan =
  rp_schema_version :: SchemaVersion
  rp_source_plan_schema_version :: SchemaVersion
  rp_experiment :: Name
  rp_drivers :: "(DriverCategory, ResolvedDriver) BTreeMap"
  rp_subject :: Subject
  rp_topology :: "Service list"
  rp_workload :: Workload
  rp_trials :: TrialPolicy
  rp_telemetry :: "TelemetryRequest list"
  rp_defaults :: ResolvedDefaults
  rp_environment_policy :: EnvironmentPolicy
  rp_metrics :: "MetricRequest list"
  rp_artifact_bounds :: ArtifactBounds
  rp_seed :: "u64 option"
  rp_paired :: "ResolvedPairedDesign option"
  rp_network_path :: "ResolvedNetworkPath option"
  rp_diagnostics :: "DiagnosticRequest list"
  rp_security_checks :: "SecurityCheckRequest list"
  rp_http_corpus_checks :: "HttpCorpusCheckRequest list"
  rp_warnings :: "ResolutionWarning list"

datatype ResolveError =
  ResolveInvalidPlan PlanError
| MissingDriver DriverCategory
| CategoryMismatch Name DriverCategory DriverCategory
| AmbiguousSelection DriverCategory "Name list"
| UnsupportedCapability Name Capability
| ResolveUnsupportedPlatform Name Name
| MissingExecutablePath Name
| IncompatibleService Name string
| DuplicateDriver Name

end
