(* ===== verification/Resolve.thy ===== *)
theory Resolve
  imports Resolved
begin

text \<open>
  \<open>resolve_plan\<close> of \<open>eggbench-core/src/resolved.rs\<close>: registry, required capabilities,
  selection and validation of one driver per category, the contracts of the correctness and
  network-path drivers, telemetry, service compatibility and the resolved plan itself.

  The lemmas show that every resolved driver has its category, the required capabilities,
  the platform and the executable it needs, and that the result does not depend on the
  order in which the descriptors are listed.
\<close>

section \<open>Registry and requirements\<close>

type_synonym registry = "(Name, DriverDescriptor) BTreeMap"
type_synonym requirements = "(DriverCategory, Capability BTreeSet) BTreeMap"
type_synonym resolved_drivers = "(DriverCategory, ResolvedDriver) BTreeMap"

fun register_all :: "registry \<Rightarrow> DriverDescriptor list \<Rightarrow> ResolveError + registry" where
  "register_all reg [] = Ok reg"
| "register_all reg (d # ds) =
    (if bt_contains reg (drv_name d) then Err (DuplicateDriver (drv_name d))
     else register_all (bt_insert (drv_name d) d reg) ds)"

definition require :: "DriverCategory \<Rightarrow> Capability list \<Rightarrow> requirements \<Rightarrow> requirements" where
  "require cat caps req = bt_insert cat (bs_extend caps (bt_get_or [] req cat)) req"

fun workload_mode :: "Workload \<Rightarrow> LoadMode" where
  "workload_mode (OpenLoop _ _ _ _) = OpenLoopMode"
| "workload_mode (TimeBounded _ _ mode _ _) = mode"
| "workload_mode (ClosedLoop _ _ _ _) = ClosedLoopMode"
| "workload_mode (FiniteCount _ _ _) = ClosedLoopMode"
| "workload_mode (SemanticReplay _ _) = ClosedLoopMode"
| "workload_mode (HttpCorpus _ _ _ _ _ _ _) = ClosedLoopMode"

definition workload_requirement :: "Workload \<Rightarrow> Capability list" where
  "workload_requirement w =
    (if is_semantic_replay w then [CapSemanticReplay]
     else if is_http_corpus w then [CapHttpCorpus, CapLoadMode ClosedLoopMode]
     else [CapLoadMode (workload_mode w)])"

definition path_requirements :: "NetworkPathRequest \<Rightarrow> requirements \<Rightarrow> requirements" where
  "path_requirements path req =
    (let base = require CatRoute [CapProxyRouting] (require CatWorkload [CapNetworkPath] req)
     in if path_stream_faults path \<noteq> None then require CatFault [CapStreamFaultPlan] base else base)"

definition requirements_of :: "ExperimentPlan \<Rightarrow> ResolutionOptions \<Rightarrow> requirements" where
  "requirements_of plan options =
    (let r0 = require CatWorkload (workload_requirement (workload plan)) [];
         r1 = (case network_path plan of None \<Rightarrow> r0 | Some path \<Rightarrow> path_requirements path r0);
         r2 = (if services plan \<noteq> [] \<or> (case subject plan of ManagedCommand _ _ _ _ \<Rightarrow> True | _ \<Rightarrow> False)
               then require CatService [] r1 else r1);
         r3 = (if unwrap_list (diagnostics plan) \<noteq> []
               then require CatDiagnostic
                 (map CapDiagnosticProbe (concat (map diag_probes (unwrap_list (diagnostics plan))))) r2
               else r2);
         r4 = (if unwrap_list (security_checks plan) \<noteq> []
               then require CatCorrectness [CapSecurityCheck (Name ''waf_bypass'')] r3 else r3)
     in fold (\<lambda>e. require (fst e) (bs_elems (snd e))) (required_capabilities options) r4)"

section \<open>Selection\<close>

definition provides :: "DriverDescriptor \<Rightarrow> Capability \<Rightarrow> bool" where
  "provides d cap \<longleftrightarrow> bs_contains (drv_capabilities d) cap"

definition select_candidates :: "DriverCategory \<Rightarrow> Capability BTreeSet \<Rightarrow> registry \<Rightarrow> DriverDescriptor list" where
  "select_candidates cat required reg =
    (let of_category = filter (\<lambda>d. drv_category d = cat) (map snd reg);
         capable = filter (\<lambda>d. list_all (provides d) (bs_elems required)) of_category
     in if cat = CatCorrectness \<and> capable \<noteq> [] then capable else of_category)"

definition select_driver ::
  "DriverCategory \<Rightarrow> Capability BTreeSet \<Rightarrow> registry \<Rightarrow> ResolutionOptions \<Rightarrow> ResolveError + DriverDescriptor" where
  "select_driver cat required reg options =
    (case bt_get (selections options) cat of
       Some name \<Rightarrow>
         (case bt_get reg name of
            None \<Rightarrow> Err (MissingDriver cat)
          | Some d \<Rightarrow>
              if drv_category d \<noteq> cat then Err (CategoryMismatch name (drv_category d) cat) else Ok d)
     | None \<Rightarrow>
         (let candidates = select_candidates cat required reg
          in if default_policy options = ExplicitOnly then Err (MissingDriver cat)
             else (case filter drv_default candidates of
                 [only] \<Rightarrow> Ok only
               | [] \<Rightarrow>
                   (case candidates of
                      [only] \<Rightarrow> Ok only
                    | [] \<Rightarrow> Err (MissingDriver cat)
                    | many \<Rightarrow> Err (AmbiguousSelection cat (map drv_name many)))
               | many \<Rightarrow> Err (AmbiguousSelection cat (map drv_name many)))))"

definition validate_driver ::
  "DriverDescriptor \<Rightarrow> Capability BTreeSet \<Rightarrow> ResolutionOptions \<Rightarrow> ResolveError + unit" where
  "validate_driver d required options = checks
    [reject_if (supported_platforms d \<noteq> [] \<and> \<not> bs_contains (supported_platforms d) (platform options))
       (ResolveUnsupportedPlatform (drv_name d) (platform options)),
     for_each (\<lambda>cap. reject_if (\<not> provides d cap) (UnsupportedCapability (drv_name d) cap))
       (bs_elems required),
     reject_if (external_process d \<and> \<not> provides d CapExternalBinary)
       (UnsupportedCapability (drv_name d) CapExternalBinary)]"

definition driver_path :: "DriverDescriptor \<Rightarrow> ResolutionOptions \<Rightarrow> string option" where
  "driver_path d options = (if external_process d then bt_get (executable_paths options) (drv_name d) else None)"

definition missing_path :: "DriverDescriptor \<Rightarrow> string option \<Rightarrow> bool" where
  "missing_path d path \<longleftrightarrow> external_process d \<and> (case path of None \<Rightarrow> True | Some s \<Rightarrow> s = [])"

text \<open>Validation of the selected descriptor and its executable path, as both uses have it.\<close>

definition freeze_driver ::
  "DriverDescriptor \<Rightarrow> Capability BTreeSet \<Rightarrow> ResolutionOptions \<Rightarrow> ResolveError + ResolvedDriver" where
  "freeze_driver d required options =
    (case validate_driver d required options of
       Err e \<Rightarrow> Err e
     | Ok _ \<Rightarrow>
         if missing_path d (driver_path d options) then Err (MissingExecutablePath (drv_name d))
         else Ok \<lparr>descriptor = d, executable_path = driver_path d options\<rparr>)"

fun select_all ::
  "registry \<Rightarrow> ResolutionOptions \<Rightarrow> (DriverCategory \<times> Capability BTreeSet) list \<Rightarrow> resolved_drivers
    \<Rightarrow> ResolveError + resolved_drivers" where
  "select_all reg options [] drivers = Ok drivers"
| "select_all reg options ((cat, required) # rest) drivers =
    (case select_driver cat required reg options of
       Err e \<Rightarrow> Err e
     | Ok d \<Rightarrow>
         (case freeze_driver d required options of
            Err e \<Rightarrow> Err e
          | Ok rd \<Rightarrow> select_all reg options rest (bt_insert cat rd drivers)))"

section \<open>Contracts of native and external drivers\<close>

definition bad_adapter_version :: "DriverDescriptor \<Rightarrow> bool" where
  "bad_adapter_version d \<longleftrightarrow> adapter_version d = [] \<or> 128 < length (adapter_version d)"

definition no_upstream_version :: "DriverDescriptor \<Rightarrow> bool" where
  "no_upstream_version d \<longleftrightarrow> (case upstream_version d of None \<Rightarrow> True | Some v \<Rightarrow> v = [])"

definition breaks_native_contract :: "string \<Rightarrow> string \<Rightarrow> Capability \<Rightarrow> ResolvedDriver \<Rightarrow> bool" where
  "breaks_native_contract name upstream cap rd \<longleftrightarrow>
    (let d = descriptor rd
     in as_str (drv_name d) \<noteq> name \<or> bad_adapter_version d \<or> upstream_name d \<noteq> upstream
        \<or> no_upstream_version d \<or> \<not> provides d cap \<or> external_process d \<or> executable_path rd \<noteq> None)"

abbreviation bad_path :: "ResolveError + unit" where
  "bad_path \<equiv> Err (ResolveInvalidPlan (Validation ''unsupported_network_path''))"

definition validate_path_drivers :: "NetworkPathRequest \<Rightarrow> resolved_drivers \<Rightarrow> ResolveError + unit" where
  "validate_path_drivers path drivers = checks
    [(case bt_get drivers CatWorkload of
        None \<Rightarrow> bad_path
      | Some rd \<Rightarrow>
          if breaks_native_contract ''eggfetch-http'' ''eggfetch-core'' CapNetworkPath rd
          then bad_path else Ok ()),
     (case bt_get drivers CatRoute of
        None \<Rightarrow> bad_path
      | Some rd \<Rightarrow>
          if route_driver (path_route path) \<noteq> drv_name (descriptor rd) then Err (MissingDriver CatRoute)
          else if breaks_native_contract ''eggress-route'' ''eggress-outbound'' CapProxyRouting rd
          then bad_path else Ok ()),
     (case path_stream_faults path of
        None \<Rightarrow> Ok ()
      | Some faults \<Rightarrow>
         (case bt_get drivers CatFault of
            None \<Rightarrow> bad_path
          | Some rd \<Rightarrow>
              if faults_driver faults \<noteq> drv_name (descriptor rd) then Err (MissingDriver CatFault)
              else if breaks_native_contract ''eggchaos-stream'' ''eggchaos-core'' CapStreamFaultPlan rd
              then bad_path else Ok ()))]"

definition validate_correctness_driver :: "resolved_drivers \<Rightarrow> ResolveError + unit" where
  "validate_correctness_driver drivers =
    (case bt_get drivers CatCorrectness of
       None \<Rightarrow> Err (ResolveInvalidPlan (Validation ''unsupported_correctness_driver''))
     | Some rd \<Rightarrow>
         (let d = descriptor rd
          in if as_str (drv_name d) \<noteq> ''eggsec-waf'' \<or> bad_adapter_version d
                \<or> upstream_name d \<noteq> ''eggsec''
                \<or> \<not> provides d (CapSecurityCheck (Name ''waf_bypass''))
                \<or> \<not> external_process d \<or> executable_path rd = None
             then Err (ResolveInvalidPlan (Validation ''unsupported_correctness_driver''))
             else if drv_category d \<noteq> CatCorrectness
             then Err (CategoryMismatch (drv_name d) (drv_category d) CatCorrectness)
             else Ok ()))"

section \<open>Telemetry\<close>

definition select_telemetry ::
  "ExperimentPlan \<Rightarrow> Capability BTreeSet \<Rightarrow> registry \<Rightarrow> ResolutionOptions \<Rightarrow> ResolveError + DriverDescriptor" where
  "select_telemetry plan required reg options =
    (case (bt_get (selections options) CatTelemetry,
           bs_elems (bs_extend (map telemetry_source (telemetry plan)) [])) of
       (None, [src]) \<Rightarrow>
         (case bt_get reg src of
            Some d \<Rightarrow>
              if drv_category d = CatTelemetry then Ok d
              else select_driver CatTelemetry required reg options
          | None \<Rightarrow> select_driver CatTelemetry required reg options)
     | _ \<Rightarrow> select_driver CatTelemetry required reg options)"

definition missing_fields :: "DriverDescriptor \<Rightarrow> TelemetryRequest \<Rightarrow> Name list" where
  "missing_fields d t = filter (\<lambda>f. \<not> provides d (CapTelemetryField f)) (telemetry_fields t)"

fun scan_telemetry ::
  "DriverDescriptor \<Rightarrow> TelemetryRequest list \<Rightarrow> ResolutionWarning list
    \<Rightarrow> ResolveError + ResolutionWarning list" where
  "scan_telemetry d [] ws = Ok ws"
| "scan_telemetry d (t # ts) ws =
    (if as_str (telemetry_source t) = ''prometheus-http'' then scan_telemetry d ts ws
     else if missing_fields d t \<noteq> [] \<and> telemetry_required t
     then Err (UnsupportedCapability (drv_name d) (CapTelemetryField (hd (missing_fields d t))))
     else if missing_fields d t \<noteq> []
     then scan_telemetry d ts (ws @ [OptionalTelemetryOmitted (telemetry_source t) (missing_fields d t)])
     else scan_telemetry d ts ws)"

definition resolve_telemetry ::
  "ExperimentPlan \<Rightarrow> requirements \<Rightarrow> registry \<Rightarrow> ResolutionOptions \<Rightarrow> resolved_drivers
    \<Rightarrow> ResolveError + (resolved_drivers \<times> ResolutionWarning list)" where
  "resolve_telemetry plan req reg options drivers =
    (if telemetry plan = [] then Ok (drivers, [])
     else if filter (\<lambda>d. drv_category d = CatTelemetry) (map snd reg) = [] then
       (if list_ex telemetry_required (telemetry plan) then Err (MissingDriver CatTelemetry)
        else Ok (drivers,
          map (\<lambda>t. OptionalTelemetryOmitted (telemetry_source t) (telemetry_fields t)) (telemetry plan)))
     else
       (let required = bt_get_or [] req CatTelemetry
        in case select_telemetry plan required reg options of
             Err e \<Rightarrow> Err e
           | Ok d \<Rightarrow>
               (case freeze_driver d required options of
                  Err e \<Rightarrow> Err e
                | Ok rd \<Rightarrow>
                    (case scan_telemetry d (telemetry plan) [] of
                       Err e \<Rightarrow> Err e
                     | Ok ws \<Rightarrow> Ok (bt_insert CatTelemetry rd drivers, ws)))))"

section \<open>Service compatibility and the network path\<close>

definition service_type_text :: "Service \<Rightarrow> string" where
  "service_type_text s = (case svc_kind s of Command _ \<Rightarrow> ''command'' | Named t \<Rightarrow> as_str t)"

definition services_to_check :: "ExperimentPlan \<Rightarrow> Name list" where
  "services_to_check plan = workload_target (workload plan) #
    (case paired plan of None \<Rightarrow> []
     | Some pd \<Rightarrow> [arm_service (baseline_arm pd), arm_service (candidate_arm pd)])"

definition check_service_type :: "ExperimentPlan \<Rightarrow> DriverDescriptor \<Rightarrow> Name \<Rightarrow> ResolveError + unit" where
  "check_service_type plan d n =
    (case find (\<lambda>s. svc_name s = n) (services plan) of
       None \<Rightarrow> Ok ()
     | Some s \<Rightarrow>
         reject_if (compatible_service_types d \<noteq> []
             \<and> \<not> list_ex (\<lambda>t. as_str t = service_type_text s) (bs_elems (compatible_service_types d)))
           (IncompatibleService (drv_name d) (service_type_text s)))"

definition check_workload_services :: "ExperimentPlan \<Rightarrow> resolved_drivers \<Rightarrow> ResolveError + unit" where
  "check_workload_services plan drivers =
    (case bt_get drivers CatWorkload of
       None \<Rightarrow> Ok ()
     | Some rd \<Rightarrow> for_each (check_service_type plan (descriptor rd)) (services_to_check plan))"

definition resolve_stream_faults ::
  "StreamFaultPlanRequest option \<Rightarrow> resolved_drivers \<Rightarrow> ResolveError + ResolvedStreamFaults option" where
  "resolve_stream_faults faults drivers =
    (case faults of
       None \<Rightarrow> Ok None
     | Some request \<Rightarrow>
         (case bt_get drivers CatFault of
            None \<Rightarrow> Err (MissingDriver CatFault)
          | Some rd \<Rightarrow>
              if drv_name (descriptor rd) \<noteq> faults_driver request then Err (MissingDriver CatFault)
              else Ok (Some \<lparr>rsf_request = request, rsf_fault_driver = rd,
                rsf_rng_version = NETWORK_PATH_RNG_VERSION\<rparr>)))"

definition resolve_network_path ::
  "NetworkPathRequest option \<Rightarrow> resolved_drivers \<Rightarrow> ResolveError + ResolvedNetworkPath option" where
  "resolve_network_path path drivers =
    (case path of
       None \<Rightarrow> Ok None
     | Some np \<Rightarrow>
         (case bt_get drivers CatRoute of
            None \<Rightarrow> Err (MissingDriver CatRoute)
          | Some rd \<Rightarrow>
              if drv_name (descriptor rd) \<noteq> route_driver (path_route np) then Err (MissingDriver CatRoute)
              else (case resolve_stream_faults (path_stream_faults np) drivers of
                  Err e \<Rightarrow> Err e
                | Ok sf \<Rightarrow> Ok (Some \<lparr>rnp_route = path_route np, rnp_route_driver = rd,
                    rnp_semantics_version = NETWORK_PATH_SEMANTICS_VERSION, rnp_stream_faults = sf\<rparr>))))"

section \<open>The resolution\<close>

definition PAIRED_SCHEDULE_V1 :: string where
  "PAIRED_SCHEDULE_V1 = ''alternating-baseline-first''"

definition resolve_paired :: "ExperimentPlan \<Rightarrow> ResolvedPairedDesign option" where
  "resolve_paired plan =
    map_option (\<lambda>pd. \<lparr>rp_baseline = baseline_arm pd, rp_candidate = candidate_arm pd,
      rp_schedule = PAIRED_SCHEDULE_V1, rp_pairs = count_get (measured (trials plan)) div 2\<rparr>) (paired plan)"

text \<open>Registry and drivers, up to the workload's compatibility with its services.\<close>

definition resolve_drivers ::
  "ExperimentPlan \<Rightarrow> registry \<Rightarrow> ResolutionOptions
    \<Rightarrow> ResolveError + (resolved_drivers \<times> ResolutionWarning list)" where
  "resolve_drivers plan reg options =
    (let req = requirements_of plan options
     in case select_all reg options req [] of
          Err e \<Rightarrow> Err e
        | Ok drivers \<Rightarrow>
            (case checks
               [(case network_path plan of None \<Rightarrow> Ok () | Some path \<Rightarrow> validate_path_drivers path drivers),
                (if unwrap_list (security_checks plan) \<noteq> [] then validate_correctness_driver drivers
                 else Ok ())] of
               Err e \<Rightarrow> Err e
             | Ok _ \<Rightarrow>
                 (case resolve_telemetry plan req reg options drivers of
                    Err e \<Rightarrow> Err e
                  | Ok (drivers', ws) \<Rightarrow>
                      (case check_workload_services plan drivers' of
                         Err e \<Rightarrow> Err e
                       | Ok _ \<Rightarrow> Ok (drivers', ws)))))"

definition resolved_plan ::
  "ExperimentPlan \<Rightarrow> ResolutionOptions \<Rightarrow> resolved_drivers \<Rightarrow> ResolvedNetworkPath option
    \<Rightarrow> ResolutionWarning list \<Rightarrow> ResolvedPlan" where
  "resolved_plan plan options drivers np ws =
    \<lparr>rp_schema_version = RESOLVED_PLAN_SCHEMA_VERSION,
     rp_source_plan_schema_version = schema_version plan,
     rp_experiment = experiment_name plan, rp_drivers = drivers, rp_subject = subject plan,
     rp_topology = services plan, rp_workload = workload plan, rp_trials = trials plan,
     rp_telemetry = telemetry plan,
     rp_defaults = \<lparr>rd_platform = platform options, rd_warmup_trials = warmup (trials plan),
       rd_measured_trials = count_get (measured (trials plan))\<rparr>,
     rp_environment_policy = environment_policy plan, rp_metrics = metrics plan,
     rp_artifact_bounds = bounds plan, rp_seed = seed plan, rp_paired = resolve_paired plan,
     rp_network_path = np, rp_diagnostics = unwrap_list (diagnostics plan),
     rp_security_checks = unwrap_list (security_checks plan),
     rp_http_corpus_checks = unwrap_list (http_corpus_checks plan), rp_warnings = ws\<rparr>"

definition resolve_plan ::
  "ExperimentPlan \<Rightarrow> DriverDescriptor list \<Rightarrow> ResolutionOptions \<Rightarrow> ResolveError + ResolvedPlan" where
  "resolve_plan plan descriptors options =
    (case validate plan of
       Err e \<Rightarrow> Err (ResolveInvalidPlan e)
     | Ok _ \<Rightarrow>
         (case register_all [] descriptors of
            Err e \<Rightarrow> Err e
          | Ok reg \<Rightarrow>
              if network_path plan \<noteq> None \<and> is_external_subject (subject plan)
              then Err (ResolveInvalidPlan (Validation ''workload_path_incompatible''))
              else
                (case resolve_drivers plan reg options of
                   Err e \<Rightarrow> Err e
                 | Ok (drivers, ws) \<Rightarrow>
                     (case resolve_network_path (network_path plan) drivers of
                        Err e \<Rightarrow> Err e
                      | Ok np \<Rightarrow> Ok (resolved_plan plan options drivers np ws)))))"

section \<open>The registry\<close>

lemma register_all_Ok:
  assumes "bt_ok reg" and "register_all reg ds = Ok reg'"
  shows "bt_ok reg'" and "snd ` set reg' = snd ` set reg \<union> set ds"
    and "bt_get reg' = bt_get reg ++ map_of (map (\<lambda>d. (drv_name d, d)) ds)"
    and "distinct (map drv_name ds)"
    and "drv_name ` set ds \<inter> fst ` set reg = {}"
  using assms
proof (induction ds arbitrary: reg)
  case (Cons d ds)
  {
    case 1
    with Cons.IH(1) [OF bt_ok_insert [OF 1(1), of "drv_name d" d]] show ?case
      by (auto split: if_splits)
  next
    case 2
    then have fresh: "bt_get reg (drv_name d) = None" by (auto simp: bt_contains_get split: if_splits)
    from 2 have "register_all (bt_insert (drv_name d) d reg) ds = Ok reg'" by (auto split: if_splits)
    from Cons.IH(2) [OF bt.invar_insert [OF 2(1)] this] bt_insert_fresh_set [OF 2(1) fresh]
    show ?case by auto
  next
    case 3
    then have reg: "register_all (bt_insert (drv_name d) d reg) ds = Ok reg'" by (auto split: if_splits)
    note ih = Cons.IH [OF bt.invar_insert [OF 3(1)] reg]
    have "drv_name d \<notin> drv_name ` set ds" using ih(5) by (auto simp: bt_insert_keys)
    then have "map_of (map (\<lambda>d. (drv_name d, d)) ds) (drv_name d) = None"
      by (auto simp: map_of_eq_None_iff image_iff)
    with ih(3) 3(1) show ?case by (auto simp: fun_eq_iff map_add_def bt.lookup_insert split: option.split)
  next
    case 4
    then have reg: "register_all (bt_insert (drv_name d) d reg) ds = Ok reg'" by (auto split: if_splits)
    note ih = Cons.IH [OF bt.invar_insert [OF 4(1)] reg]
    from ih(4,5) show ?case by (auto simp: bt_insert_keys)
  next
    case 5
    then have reg: "register_all (bt_insert (drv_name d) d reg) ds = Ok reg'"
      and "\<not> bt_contains reg (drv_name d)" by (auto split: if_splits)
    with Cons.IH(5) [OF bt.invar_insert [OF 5(1)] reg] show ?case
      by (auto simp: bt_insert_keys bt_contains_def)
  }
qed simp_all

lemma register_all_distinct:
  "distinct (map drv_name ds) \<Longrightarrow> drv_name ` set ds \<inter> fst ` set reg = {} \<Longrightarrow> bt_ok reg \<Longrightarrow>
     \<exists>reg'. register_all reg ds = Ok reg'"
proof (induction ds arbitrary: reg)
  case (Cons d ds)
  then have "\<not> bt_contains reg (drv_name d)" by (auto simp: bt_contains_def)
  moreover have "drv_name ` set ds \<inter> fst ` set (bt_insert (drv_name d) d reg) = {}"
    using Cons.prems(1,2) by (auto simp: bt_insert_keys)
  ultimately show ?case
    using Cons.IH [OF _ _ bt_ok_insert [OF Cons.prems(3)], of "drv_name d" d] Cons.prems(1) by simp
qed simp

lemma register_all_perm:
  assumes "distinct (map drv_name ds)" and "mset ds' = mset ds"
  shows "register_all [] ds' = register_all [] ds"
proof -
  have dist': "distinct (map drv_name ds')"
    using assms by (metis mset_eq_imp_distinct_iff mset_map)
  from register_all_distinct [of ds "[]"] register_all_distinct [of ds' "[]"] assms(1) dist'
  obtain r r' where r: "register_all [] ds = Ok r" "register_all [] ds' = Ok r'" by auto
  let ?kv = "\<lambda>d. (drv_name d, d)"
  have "map_of (map ?kv ds') = map_of (map ?kv ds)"
    using assms(1) dist' mset_eq_setD [OF assms(2)]
    by (subst map_of_inject_set) (simp_all add: comp_def)
  with register_all_Ok(1,3) [OF bt_ok_Nil r(1)] register_all_Ok(1,3) [OF bt_ok_Nil r(2)]
  have "r' = r" by (intro bt_eqI) simp_all
  with r show ?thesis by simp
qed


section \<open>Resolved drivers\<close>

text \<open>What a driver resolved for a category promises.\<close>

definition driver_ready ::
  "ResolutionOptions \<Rightarrow> DriverCategory \<Rightarrow> Capability BTreeSet \<Rightarrow> ResolvedDriver \<Rightarrow> bool" where
  "driver_ready options cat required rd \<longleftrightarrow>
     drv_category (descriptor rd) = cat
     \<and> (\<forall>cap \<in> set (bs_elems required). provides (descriptor rd) cap)
     \<and> (supported_platforms (descriptor rd) = []
        \<or> bs_contains (supported_platforms (descriptor rd)) (platform options))
     \<and> (if external_process (descriptor rd)
        then provides (descriptor rd) CapExternalBinary
          \<and> (\<exists>path. executable_path rd = Some path \<and> path \<noteq> []
               \<and> bt_get (executable_paths options) (drv_name (descriptor rd)) = Some path)
        else executable_path rd = None)"

lemma freeze_driver_Ok:
  "freeze_driver d required options = Ok rd \<Longrightarrow>
     descriptor rd = d \<and> driver_ready options (drv_category d) required rd"
  by (auto simp: freeze_driver_def validate_driver_def ok_simps driver_ready_def driver_path_def
      missing_path_def split: sum.splits if_splits option.splits)

lemma select_candidates_set:
  "d \<in> set (select_candidates cat required reg) \<Longrightarrow> d \<in> snd ` set reg \<and> drv_category d = cat"
  by (auto simp: select_candidates_def Let_def split: if_splits)

lemma select_driver_Ok:
  assumes "select_driver cat required reg options = Ok d"
  shows "d \<in> snd ` set reg \<and> drv_category d = cat"
proof (cases "bt_get (selections options) cat")
  case (Some name)
  with assms show ?thesis
    by (force simp: select_driver_def bt_get_def split: option.splits if_splits dest: map_of_SomeD)
next
  case None
  let ?c = "select_candidates cat required reg"
  from None assms have "d \<in> set ?c"
    unfolding select_driver_def Let_def
    by (cases "filter drv_default ?c"; cases "tl (filter drv_default ?c)"; cases ?c; cases "tl ?c")
      (auto split: if_splits dest!: arg_cong [where f = set])
  then show ?thesis by (rule select_candidates_set)
qed

text \<open>The drivers chosen so far are ready for the requirements \<open>req\<close> and come from the registry.\<close>

definition drivers_ready ::
  "registry \<Rightarrow> ResolutionOptions \<Rightarrow> requirements \<Rightarrow> resolved_drivers \<Rightarrow> bool" where
  "drivers_ready reg options req drivers \<longleftrightarrow> bt_ok drivers
     \<and> (\<forall>cat rd. bt_get drivers cat = Some rd \<longrightarrow>
          driver_ready options cat (bt_get_or [] req cat) rd \<and> descriptor rd \<in> snd ` set reg)"

lemma drivers_ready_insert:
  assumes "drivers_ready reg options req drivers"
    and "freeze_driver d (bt_get_or [] req (drv_category d)) options = Ok rd" and "d \<in> snd ` set reg"
  shows "drivers_ready reg options req (bt_insert (drv_category d) rd drivers)"
  using assms freeze_driver_Ok [OF assms(2)]
  by (auto simp: drivers_ready_def bt_ok_insert bt_get_insert)

lemma select_all_ready:
  assumes "select_all reg options entries drivers = Ok drivers'"
    and "drivers_ready reg options req drivers"
    and "\<forall>e \<in> set entries. bt_get_or [] req (fst e) = snd e"
  shows "drivers_ready reg options req drivers'
    \<and> dom (bt_get drivers') = dom (bt_get drivers) \<union> fst ` set entries"
  using assms
proof (induction reg options entries drivers rule: select_all.induct)
  case (1 reg options drivers)
  then show ?case by simp
next
  case (2 reg options cat required rest drivers)
  from "2.prems"(1) obtain d rd where d: "select_driver cat required reg options = Ok d"
    and rd: "freeze_driver d required options = Ok rd"
    and rest: "select_all reg options rest (bt_insert cat rd drivers) = Ok drivers'"
    by (auto split: sum.splits)
  from select_driver_Ok [OF d] have cat: "drv_category d = cat" and reg: "d \<in> snd ` set reg" by auto
  from "2.prems"(3) rd cat
  have "freeze_driver d (bt_get_or [] req (drv_category d)) options = Ok rd" by simp
  from drivers_ready_insert [OF "2.prems"(2) this reg] cat
  have ready: "drivers_ready reg options req (bt_insert cat rd drivers)" by simp
  from "2.prems"(2) have "dom (bt_get (bt_insert cat rd drivers)) = insert cat (dom (bt_get drivers))"
    by (simp add: drivers_ready_def bt_get_insert)
  with "2.IH" [OF d rd rest ready] "2.prems"(3) show ?case by simp
qed

lemma resolve_telemetry_ready:
  assumes "resolve_telemetry plan req reg options drivers = Ok (drivers', ws)"
    and "drivers_ready reg options req drivers"
  shows "drivers_ready reg options req drivers' \<and> dom (bt_get drivers) \<subseteq> dom (bt_get drivers')"
proof (cases "drivers' = drivers")
  case True
  with assms show ?thesis by simp
next
  case False
  let ?req = "bt_get_or [] req CatTelemetry"
  from assms(1) False obtain d rd where d: "select_telemetry plan ?req reg options = Ok d"
    and rd: "freeze_driver d ?req options = Ok rd" and new: "drivers' = bt_insert CatTelemetry rd drivers"
    by (auto simp: resolve_telemetry_def Let_def split: if_splits sum.splits)
  from d have "drv_category d = CatTelemetry \<and> d \<in> snd ` set reg"
    by (force simp: select_telemetry_def bt_get_def split: option.splits list.splits if_splits
        dest: select_driver_Ok map_of_SomeD)
  with drivers_ready_insert [OF assms(2), of d rd] rd new have "drivers_ready reg options req drivers'"
    by simp
  moreover from assms(2) new have "dom (bt_get drivers) \<subseteq> dom (bt_get drivers')"
    by (auto simp: drivers_ready_def bt_get_insert)
  ultimately show ?thesis ..
qed

lemma bt_ok_require: "bt_ok req \<Longrightarrow> bt_ok (require cat caps req)"
  by (simp add: require_def bt_ok_insert)

lemma bt_ok_requirements: "bt_ok (requirements_of plan options)"
proof -
  have "bt_ok req \<Longrightarrow> bt_ok (fold (\<lambda>e. require (fst e) (bs_elems (snd e))) es req)" for es req
    by (induction es arbitrary: req) (simp_all add: bt_ok_require)
  then show ?thesis
    by (simp add: requirements_of_def Let_def path_requirements_def bt_ok_require split: option.split)
qed

lemma resolve_drivers_ready:
  assumes "resolve_drivers plan reg options = Ok (drivers, ws)"
  shows "drivers_ready reg options (requirements_of plan options) drivers
    \<and> dom (bt_get (requirements_of plan options)) \<subseteq> dom (bt_get drivers)"
proof -
  let ?req = "requirements_of plan options"
  from assms obtain ds where sel: "select_all reg options ?req [] = Ok ds"
    and tele: "resolve_telemetry plan ?req reg options ds = Ok (drivers, ws)"
    by (auto simp: resolve_drivers_def Let_def split: sum.splits)
  have "\<forall>e \<in> set ?req. bt_get_or [] ?req (fst e) = snd e"
    using bt.entries_lookup [OF bt_ok_requirements] by (auto simp: bt_get_or_def)
  moreover have "drivers_ready reg options ?req []" by (simp add: drivers_ready_def)
  ultimately have "drivers_ready reg options ?req ds" "dom (bt_get ds) = fst ` set ?req"
    using select_all_ready [OF sel] by simp_all
  with resolve_telemetry_ready [OF tele] show ?thesis
    using bt.keys_dom [OF bt_ok_requirements [of plan options]] by simp
qed

lemma resolve_plan_Ok:
  assumes "resolve_plan plan ds options = Ok rp"
  obtains reg drivers ws np where "validate plan = Ok ()" and "register_all [] ds = Ok reg"
    and "resolve_drivers plan reg options = Ok (drivers, ws)"
    and "resolve_network_path (network_path plan) drivers = Ok np"
    and "rp = resolved_plan plan options drivers np ws"
  using assms by (auto simp: resolve_plan_def split: sum.splits if_splits)

text \<open>
  C14: Every driver of a resolved plan comes from the given descriptors and is ready for its
  category: it has that category, every capability required there (by the plan or by the
  caller), the caller's platform, and an executable path exactly when it is an external
  process; and every category with a requirement has a driver.
\<close>

theorem resolved_drivers_ready:
  assumes "resolve_plan plan ds options = Ok rp"
  shows "(\<forall>cat rd. bt_get (rp_drivers rp) cat = Some rd \<longrightarrow> descriptor rd \<in> set ds
      \<and> driver_ready options cat (bt_get_or [] (requirements_of plan options) cat) rd)
    \<and> dom (bt_get (requirements_of plan options)) \<subseteq> dom (bt_get (rp_drivers rp))"
proof -
  from assms obtain reg drivers ws np where reg: "register_all [] ds = Ok reg"
    and drv: "resolve_drivers plan reg options = Ok (drivers, ws)"
    and rp: "rp = resolved_plan plan options drivers np ws"
    by (rule resolve_plan_Ok)
  have "snd ` set reg = set ds" using register_all_Ok(2) [OF bt_ok_Nil reg] by simp
  with resolve_drivers_ready [OF drv] rp show ?thesis
    by (simp add: drivers_ready_def resolved_plan_def)
qed

section \<open>Default selection\<close>

text \<open>
  Without an explicit selection the deterministic policy chooses a driver exactly when
  the candidates have one marked default, or no marked default and one candidate; with the
  explicit-only policy it never chooses.
\<close>

theorem default_selection:
  assumes "bt_get (selections options) cat = None"
  shows "select_driver cat required reg options = Ok d \<longleftrightarrow>
    default_policy options = Deterministic
    \<and> (let cands = select_candidates cat required reg
       in filter drv_default cands = [d] \<or> (filter drv_default cands = [] \<and> cands = [d]))"
proof -
  let ?c = "select_candidates cat required reg"
  have [simp]: "default_policy options \<noteq> ExplicitOnly \<longleftrightarrow> default_policy options = Deterministic"
    by (cases "default_policy options") auto
  show ?thesis
    unfolding select_driver_def assms Let_def
    by (cases "filter drv_default ?c"; cases "tl (filter drv_default ?c)"; cases ?c; cases "tl ?c";
        cases "default_policy options") auto
qed

section \<open>Concrete resolutions\<close>

definition sample_driver :: "string \<Rightarrow> DriverCategory \<Rightarrow> Capability list \<Rightarrow> bool \<Rightarrow> DriverDescriptor" where
  "sample_driver name cat caps dflt = \<lparr>drv_name = Name name, adapter_version = ''1'',
     upstream_name = name, upstream_version = Some ''1'', drv_category = cat,
     drv_capabilities = bs_extend caps [], supported_platforms = [], machine_output_schema = None,
     external_process = False, drv_default = dflt, compatible_service_types = []\<rparr>"

definition sample_options :: ResolutionOptions where
  "sample_options = \<lparr>selections = [], default_policy = Deterministic, platform = Name ''linux'',
     executable_paths = [], required_capabilities = []\<rparr>"

definition sample_drivers :: "DriverDescriptor list" where
  "sample_drivers = [sample_driver ''wrk'' CatWorkload [CapLoadMode ClosedLoopMode] True,
     sample_driver ''alt'' CatWorkload [CapLoadMode ClosedLoopMode] False,
     sample_driver ''svc'' CatService [] False]"

definition bare_plan :: ExperimentPlan where
  "bare_plan = sample_plan \<lparr>diagnostics := None, security_checks := None, http_corpus_checks := None\<rparr>"

lemma bare_plan_valid: "validate bare_plan = Ok ()"
  using sample_plan_acyclic
  by (simp add: bare_plan_def sample_plan_def stage_simps plan_eval list_all_iff)

lemma bare_plan_fields:
  "services bare_plan = [sample_service ''web'' [''db''], sample_service ''db'' []]"
  "subject bare_plan = Label (Name ''demo'')"
  "workload bare_plan = FiniteCount (Name ''web'') (PositiveCount 10) (PositiveCount 2)"
  "telemetry bare_plan = []" "network_path bare_plan = None" "paired bare_plan = None"
  "diagnostics bare_plan = None" "security_checks bare_plan = None"
  by (simp_all add: bare_plan_def sample_plan_def)

lemmas resolve_eval = resolve_plan_def resolve_drivers_def requirements_of_def require_def
  workload_requirement_def resolve_telemetry_def check_workload_services_def check_service_type_def
  resolve_network_path_def select_driver_def select_candidates_def freeze_driver_def
  validate_driver_def driver_path_def missing_path_def provides_def bs_contains_def bs_elems_def
  bs_extend_def bs_insert_def bt_contains_def bt_get_def bt_get_or_def
  sample_driver_def sample_options_def sample_drivers_def unwrap_list_def
  less_Name_def less_DriverCategory_def less_Capability_def reject_if_def

lemma bare_plan_resolves:
  "\<exists>rp. resolve_plan bare_plan sample_drivers sample_options = Ok rp
     \<and> bt_get (rp_drivers rp) CatWorkload \<noteq> None"
  by (simp add: bare_plan_valid bare_plan_fields resolve_eval services_to_check_def
      resolved_plan_def sample_service_def)


theorem resolved_drivers_ready_witness:
  "\<exists>rp rd. resolve_plan bare_plan sample_drivers sample_options = Ok rp
     \<and> bt_get (rp_drivers rp) CatWorkload = Some rd \<and> descriptor rd \<in> set sample_drivers"
proof -
  from bare_plan_resolves obtain rp rd where
    "resolve_plan bare_plan sample_drivers sample_options = Ok rp"
    "bt_get (rp_drivers rp) CatWorkload = Some rd" by blast
  with resolved_drivers_ready [OF this(1)] show ?thesis by blast
qed

theorem default_selection_witness:
  "select_driver CatWorkload [] [(Name ''wrk'', sample_driver ''wrk'' CatWorkload [] False)] sample_options
     = Ok (sample_driver ''wrk'' CatWorkload [] False)"
  by (subst default_selection)
    (simp_all add: sample_options_def select_candidates_def sample_driver_def)

end
