(* ===== verification/SpawnPlan.thy ===== *)
theory SpawnPlan
  imports Resolve
begin

text \<open>
  Preparation of a run: \<open>prepare\<close> of \<open>eggbench-runner/src/spec.rs\<close>, which revalidates a
  resolved plan and lowers it to process and adapter specifications in launch order.

  What the code asks of its surroundings is the record \<open>PrepareOptions\<close>: the workspace
  root, the secret provider, the platform's capability, the registered service adapters,
  and the file system queries of the standard library (\<open>canonicalize\<close>, \<open>is_dir\<close>,
  \<open>is_file\<close>) as functions on path text, with the Unix separator.  \<open>None\<close> is a panic, as
  in \<open>topological_order\<close>.

  The lemmas show that preparation of a resolved plan never panics, that the launch order
  is the subject followed by the managed services with dependencies first, that the specs
  found by identity are those of the launch entries, and that every working directory lies
  inside the workspace root.
\<close>

section \<open>Specifications\<close>

definition DEFAULT_SUBJECT_LOG_LIMIT_BYTES :: u64 where
  "DEFAULT_SUBJECT_LOG_LIMIT_BYTES = 1048576"

definition DEFAULT_GRACE_MS :: u64 where
  "DEFAULT_GRACE_MS = 5000"

definition SUBJECT_IDENTITY :: string where
  "SUBJECT_IDENTITY = ''subject''"

record ProcessSpec =
  ps_identity :: string
  ps_argv :: "string list"
  ps_cwd :: string
  ps_env :: "(string, string) BTreeMap"
  ps_secret_references :: "string list"
  ps_log_limit_bytes :: u64
  ps_readiness :: "Readiness option"
  ps_shutdown :: "Shutdown option"
  ps_is_subject :: bool
  ps_http_url :: "string option"
  ps_static_bindings :: "(string, string) BTreeMap"
  ps_binding_args :: "RuntimeBindingArg list"
  ps_binding_env :: "(string, RuntimeBindingSource) BTreeMap"

record AdapterSpec =
  as_identity :: string
  as_service_type :: string
  as_config :: "(string, string) BTreeMap"
  as_http_url :: "string option"
  as_static_bindings :: "(string, string) BTreeMap"
  as_readiness :: "Readiness option"
  as_grace_ms :: u64

datatype LaunchKind = LaunchProcess | LaunchAdapter

record LaunchEntry =
  entry_identity :: string
  entry_kind :: LaunchKind

record SpawnPlan =
  specs :: "ProcessSpec list"
  adapters :: "AdapterSpec list"
  launch_order :: "LaunchEntry list"

definition redacted_env :: "(string, string) BTreeMap \<Rightarrow> (string, string) BTreeMap" where
  "redacted_env env = map (\<lambda>kv. (fst kv, ''[REDACTED]'')) env"

definition order :: "SpawnPlan \<Rightarrow> string list" where
  "order sp = map entry_identity (launch_order sp)"

definition teardown_order :: "SpawnPlan \<Rightarrow> string list" where
  "teardown_order sp = rev (order sp)"

definition adapter_of :: "SpawnPlan \<Rightarrow> string \<Rightarrow> AdapterSpec option" where
  "adapter_of sp identity = find (\<lambda>a. as_identity a = identity) (adapters sp)"

definition process_of :: "SpawnPlan \<Rightarrow> string \<Rightarrow> ProcessSpec option" where
  "process_of sp identity = find (\<lambda>p. ps_identity p = identity) (specs sp)"

datatype PlatformSupport = PlatformSupported | PlatformUnqualified | PlatformUnsupported

record PrepareOptions =
  workspace_root :: string
  secret_value :: "Name \<Rightarrow> string option"
  platform_support :: PlatformSupport
  adapter_registered :: "string \<Rightarrow> bool"
  fs_canonicalize :: "string \<Rightarrow> string option"
  fs_is_dir :: "string \<Rightarrow> bool"
  fs_is_file :: "string \<Rightarrow> bool"

section \<open>Paths\<close>

definition path_is_absolute :: "string \<Rightarrow> bool" where
  "path_is_absolute p \<longleftrightarrow> prefix ''/'' p"

definition path_components :: "string \<Rightarrow> string list" where
  "path_components p = filter (\<lambda>w. w \<noteq> [] \<and> w \<noteq> ''.'') (split_char CHR ''/'' p)"

definition path_starts_with :: "string \<Rightarrow> string \<Rightarrow> bool" where
  "path_starts_with p base \<longleftrightarrow>
     path_is_absolute p = path_is_absolute base \<and> prefix (path_components base) (path_components p)"

definition path_join :: "string \<Rightarrow> string \<Rightarrow> string" where
  "path_join base p =
    (if path_is_absolute p then p
     else if base = [] \<or> last base = CHR ''/'' then base @ p
     else base @ ''/'' @ p)"

definition normalize_workspace_root :: "PrepareOptions \<Rightarrow> RunnerError + string" where
  "normalize_workspace_root opts =
    (if \<not> path_is_absolute (workspace_root opts) then Err (InvalidWorkingDirectory ''<workspace>'')
     else (case fs_canonicalize opts (workspace_root opts) of
         None \<Rightarrow> Err (InvalidWorkingDirectory ''<workspace>'')
       | Some canonical \<Rightarrow>
           if \<not> fs_is_dir opts canonical then Err (InvalidWorkingDirectory ''<workspace>'')
           else Ok canonical))"

definition resolve_working_directory ::
  "PrepareOptions \<Rightarrow> string \<Rightarrow> string option \<Rightarrow> string \<Rightarrow> RunnerError + string" where
  "resolve_working_directory opts service requested root =
    (case requested of
       None \<Rightarrow> Ok root
     | Some req \<Rightarrow>
         if path_is_absolute req then Err (InvalidWorkingDirectory service)
         else (case fs_canonicalize opts (path_join root req) of
             None \<Rightarrow> Err (InvalidWorkingDirectory service)
           | Some resolved \<Rightarrow>
               if \<not> fs_is_dir opts resolved then Err (InvalidWorkingDirectory service)
               else if \<not> path_starts_with resolved root then Err (InvalidWorkingDirectory service)
               else Ok resolved))"

definition resolve_executable ::
  "PrepareOptions \<Rightarrow> string \<Rightarrow> string list \<Rightarrow> string \<Rightarrow> RunnerError + string list" where
  "resolve_executable opts service argv cwd =
    (case argv of
       [] \<Rightarrow> Err (EmptyArgv service)
     | program # rest \<Rightarrow>
         if \<not> path_is_absolute program \<and> CHR ''/'' \<notin> set program
         then Err (InvalidExecutablePath service)
         else (case fs_canonicalize opts
                 (if path_is_absolute program then program else path_join cwd program) of
             None \<Rightarrow> Err (InvalidExecutablePath service)
           | Some resolved \<Rightarrow>
               if \<not> fs_is_file opts resolved then Err (InvalidExecutablePath service)
               else Ok (resolved # rest)))"

section \<open>Preparation\<close>

definition needs_managed_spawn :: "ResolvedPlan \<Rightarrow> bool" where
  "needs_managed_spawn rp \<longleftrightarrow>
     (case rp_subject rp of ManagedCommand _ _ _ _ \<Rightarrow> True | _ \<Rightarrow> False)
     \<or> list_ex (\<lambda>s. svc_lifecycle s = Managed) (rp_topology rp)"

definition ensure_platform :: "ResolvedPlan \<Rightarrow> PrepareOptions \<Rightarrow> RunnerError + unit" where
  "ensure_platform rp opts =
     reject_if (needs_managed_spawn rp \<and> platform_support opts \<noteq> PlatformSupported) UnsupportedPlatform"

fun resolve_secrets ::
  "PrepareOptions \<Rightarrow> (string \<times> SecretRef) list \<Rightarrow> (string, string) BTreeMap \<Rightarrow> string list
    \<Rightarrow> RunnerError + ((string, string) BTreeMap \<times> string list)" where
  "resolve_secrets opts [] env refs = Ok (env, refs)"
| "resolve_secrets opts ((key, ref) # rest) env refs =
    (case secret_value opts (secret_reference ref) of
       None \<Rightarrow> Err (MissingSecret SUBJECT_IDENTITY (as_str (secret_reference ref)))
     | Some v \<Rightarrow> resolve_secrets opts rest (bt_insert key v env) (refs @ [as_str (secret_reference ref)]))"

definition subject_spec :: "PrepareOptions \<Rightarrow> string \<Rightarrow> Subject \<Rightarrow> RunnerError + ProcessSpec list" where
  "subject_spec opts root subj =
    (case subj of
       ManagedCommand argv environment _ _ \<Rightarrow>
         if no_program argv then Err (EmptyArgv SUBJECT_IDENTITY)
         else (case resolve_executable opts SUBJECT_IDENTITY argv root of
             Err e \<Rightarrow> Err e
           | Ok argv' \<Rightarrow>
               (case resolve_secrets opts environment [] [] of
                  Err e \<Rightarrow> Err e
                | Ok (env, refs) \<Rightarrow> Ok [\<lparr>ps_identity = SUBJECT_IDENTITY, ps_argv = argv', ps_cwd = root,
                    ps_env = env, ps_secret_references = sort refs,
                    ps_log_limit_bytes = DEFAULT_SUBJECT_LOG_LIMIT_BYTES, ps_readiness = None,
                    ps_shutdown = None, ps_is_subject = True, ps_http_url = None,
                    ps_static_bindings = [], ps_binding_args = [], ps_binding_env = []\<rparr>]))
     | _ \<Rightarrow> Ok [])"

definition service_spec :: "PrepareOptions \<Rightarrow> string \<Rightarrow> Service \<Rightarrow> string list \<Rightarrow> RunnerError + ProcessSpec" where
  "service_spec opts root s argv =
    (let name = as_str (svc_name s)
     in if no_program argv then Err (EmptyArgv name)
        else (case resolve_working_directory opts name (working_directory s) root of
            Err e \<Rightarrow> Err e
          | Ok cwd \<Rightarrow>
              (case resolve_executable opts name argv cwd of
                 Err e \<Rightarrow> Err e
               | Ok argv' \<Rightarrow> Ok \<lparr>ps_identity = name, ps_argv = argv', ps_cwd = cwd, ps_env = [],
                   ps_secret_references = [], ps_log_limit_bytes = log_limit_bytes s,
                   ps_readiness = readiness s, ps_shutdown = shutdown s, ps_is_subject = False,
                   ps_http_url = http_url s, ps_static_bindings = static_bindings s,
                   ps_binding_args = binding_args s, ps_binding_env = binding_env s\<rparr>)))"

definition adapter_spec :: "PrepareOptions \<Rightarrow> Service \<Rightarrow> Name \<Rightarrow> RunnerError + AdapterSpec" where
  "adapter_spec opts s service_type =
    (if \<not> adapter_registered opts (as_str service_type) then Err (UnsupportedService (as_str (svc_name s)))
     else Ok \<lparr>as_identity = as_str (svc_name s), as_service_type = as_str service_type,
       as_config = svc_config s, as_http_url = http_url s, as_static_bindings = static_bindings s,
       as_readiness = readiness s,
       as_grace_ms = (case shutdown s of None \<Rightarrow> DEFAULT_GRACE_MS
         | Some sd \<Rightarrow> duration_get (grace_ms sd))\<rparr>)"

fun lower_services ::
  "PrepareOptions \<Rightarrow> string \<Rightarrow> Service list \<Rightarrow> SpawnPlan \<Rightarrow> RunnerError + SpawnPlan" where
  "lower_services opts root [] sp = Ok sp"
| "lower_services opts root (s # ss) sp =
    (if svc_lifecycle s \<noteq> Managed then lower_services opts root ss sp
     else (case svc_kind s of
         Command argv \<Rightarrow>
           (case service_spec opts root s argv of
              Err e \<Rightarrow> Err e
            | Ok spec \<Rightarrow> lower_services opts root ss
                (sp \<lparr>specs := specs sp @ [spec],
                     launch_order := launch_order sp @
                       [\<lparr>entry_identity = as_str (svc_name s), entry_kind = LaunchProcess\<rparr>]\<rparr>))
       | Named service_type \<Rightarrow>
           (case adapter_spec opts s service_type of
              Err e \<Rightarrow> Err e
            | Ok spec \<Rightarrow> lower_services opts root ss
                (sp \<lparr>adapters := adapters sp @ [spec],
                     launch_order := launch_order sp @
                       [\<lparr>entry_identity = as_str (svc_name s), entry_kind = LaunchAdapter\<rparr>]\<rparr>))))"

definition prepare :: "ResolvedPlan \<Rightarrow> PrepareOptions \<Rightarrow> (RunnerError + SpawnPlan) option" where
  "prepare rp opts =
    (if rp_schema_version rp \<noteq> RESOLVED_PLAN_SCHEMA_VERSION then Some (Err InvalidPlan)
     else (case ensure_platform rp opts of
       Err e \<Rightarrow> Some (Err e)
     | Ok _ \<Rightarrow>
       (case normalize_workspace_root opts of
          Err e \<Rightarrow> Some (Err e)
        | Ok root \<Rightarrow>
          (case subject_spec opts root (rp_subject rp) of
             Err e \<Rightarrow> Some (Err e)
           | Ok subjects \<Rightarrow>
             (case topological_order (rp_topology rp) of
                None \<Rightarrow> None
              | Some (Err e) \<Rightarrow> Some (Err e)
              | Some (Ok ordered) \<Rightarrow> Some (lower_services opts root ordered
                  \<lparr>specs = subjects, adapters = [],
                   launch_order = map (\<lambda>p. \<lparr>entry_identity = ps_identity p, entry_kind = LaunchProcess\<rparr>)
                     subjects\<rparr>))))))"

section \<open>What preparation yields\<close>

definition is_managed :: "Service \<Rightarrow> bool" where
  "is_managed s \<longleftrightarrow> svc_lifecycle s = Managed"

definition is_command :: "Service \<Rightarrow> bool" where
  "is_command s \<longleftrightarrow> (case svc_kind s of Command _ \<Rightarrow> True | Named _ \<Rightarrow> False)"

definition launch_of :: "Service \<Rightarrow> LaunchEntry" where
  "launch_of s = \<lparr>entry_identity = as_str (svc_name s),
     entry_kind = (if is_command s then LaunchProcess else LaunchAdapter)\<rparr>"

definition spec_for :: "string \<Rightarrow> Service \<Rightarrow> ProcessSpec \<Rightarrow> bool" where
  "spec_for root s spec \<longleftrightarrow> ps_identity spec = as_str (svc_name s) \<and> \<not> ps_is_subject spec
     \<and> ps_env spec = [] \<and> ps_log_limit_bytes spec = log_limit_bytes s
     \<and> path_starts_with (ps_cwd spec) root"

lemma path_starts_with_refl [simp]: "path_starts_with p p"
  by (simp add: path_starts_with_def)

lemma service_spec_Ok: "service_spec opts root s argv = Ok spec \<Longrightarrow> spec_for root s spec"
  by (auto simp: service_spec_def spec_for_def Let_def resolve_working_directory_def
      split: if_splits sum.splits option.splits)

lemma adapter_spec_Ok: "adapter_spec opts s t = Ok a \<Longrightarrow> as_identity a = as_str (svc_name s)"
  by (auto simp: adapter_spec_def split: if_splits)

lemma lower_services_Ok:
  assumes "lower_services opts root ss sp = Ok sp'"
  shows "launch_order sp' = launch_order sp @ map launch_of (filter is_managed ss)
    \<and> (\<exists>new. specs sp' = specs sp @ new
         \<and> list_all2 (spec_for root) (filter (\<lambda>s. is_managed s \<and> is_command s) ss) new)
    \<and> map as_identity (adapters sp') = map as_identity (adapters sp)
         @ map (\<lambda>s. as_str (svc_name s)) (filter (\<lambda>s. is_managed s \<and> \<not> is_command s) ss)"
  using assms
proof (induction opts root ss sp rule: lower_services.induct)
  case (1 opts root sp)
  then show ?case by simp
next
  case (2 opts root s ss sp)
  show ?case
  proof (cases "is_managed s")
    case False
    with 2 show ?thesis by (simp add: is_managed_def)
  next
    case managed: True
    then have m: "svc_lifecycle s = Managed" by (simp add: is_managed_def)
    show ?thesis
    proof (cases "svc_kind s")
      case (Command argv)
      with "2.prems" m obtain spec where spec: "service_spec opts root s argv = Ok spec"
        by (auto split: sum.splits)
      with "2.prems" m Command "2.IH"(2) [OF _ Command spec] managed service_spec_Ok [OF spec]
      show ?thesis by (auto simp: is_command_def launch_of_def)
    next
      case (Named t)
      with "2.prems" m obtain a where a: "adapter_spec opts s t = Ok a"
        by (auto split: sum.splits)
      with "2.prems" m Named "2.IH"(3) [OF _ Named a] managed adapter_spec_Ok [OF a]
      show ?thesis by (auto simp: is_command_def launch_of_def)
    qed
  qed
qed

definition subject_identities :: "Subject \<Rightarrow> string list" where
  "subject_identities subj = (case subj of ManagedCommand _ _ _ _ \<Rightarrow> [SUBJECT_IDENTITY] | _ \<Rightarrow> [])"

lemma subject_spec_Ok:
  assumes "subject_spec opts root subj = Ok ps"
  shows "map ps_identity ps = subject_identities subj
    \<and> (\<forall>p \<in> set ps. ps_is_subject p \<and> ps_cwd p = root)"
  using assms by (auto simp: subject_spec_def subject_identities_def split: Subject.splits if_splits sum.splits)

lemma prepare_Ok:
  assumes "prepare rp opts = Some (Ok sp)"
  obtains root subjects os where "normalize_workspace_root opts = Ok root"
    and "subject_spec opts root (rp_subject rp) = Ok subjects"
    and "topological_order (rp_topology rp) = Some (Ok os)"
    and "ensure_platform rp opts = Ok ()"
    and "lower_services opts root os \<lparr>specs = subjects, adapters = [],
      launch_order = map (\<lambda>p. \<lparr>entry_identity = ps_identity p, entry_kind = LaunchProcess\<rparr>) subjects\<rparr> = Ok sp"
  using assms by (auto simp: prepare_def split: if_splits sum.splits option.splits)

lemma resolved_topology:
  assumes "resolve_plan plan ds options = Ok rp"
  shows "validate plan = Ok () \<and> rp_topology rp = services plan \<and> rp_subject rp = subject plan
    \<and> rp_schema_version rp = RESOLVED_PLAN_SCHEMA_VERSION"
  using assms by (auto simp: resolved_plan_def elim!: resolve_plan_Ok)

text \<open>
  C15: Preparing a resolved plan never panics; when it succeeds the launch order is the
  managed subject, if there is one, followed by exactly the managed services of the plan in
  an order in which every dependency comes first, and teardown is its reverse.
\<close>

theorem prepare_launch_order:
  assumes "resolve_plan plan ds options = Ok rp"
  shows "\<exists>r. prepare rp opts = Some r \<and> (\<forall>sp. r = Ok sp \<longrightarrow>
    (\<exists>os. mset os = mset (services plan) \<and> deps_first os
      \<and> order sp = subject_identities (subject plan)
          @ map (\<lambda>s. as_str (svc_name s)) (filter is_managed os)
      \<and> teardown_order sp = map (\<lambda>s. as_str (svc_name s)) (rev (filter is_managed os))
          @ subject_identities (subject plan)))"
proof -
  from resolved_topology [OF assms] have top: "rp_topology rp = services plan"
    and subj: "rp_subject rp = subject plan" and ok: "validate plan = Ok ()" by auto
  from accepted_start_order [OF ok] obtain os where
    os: "topological_order (services plan) = Some (Ok os)" "mset os = mset (services plan)" "deps_first os"
    by blast
  have single: "rev (subject_identities (subject plan)) = subject_identities (subject plan)"
    by (simp add: subject_identities_def split: Subject.split)
  have "prepare rp opts \<noteq> None"
    using os(1) by (auto simp: prepare_def top split: sum.splits)
  then obtain r where r: "prepare rp opts = Some r" by blast
  have "\<exists>os. mset os = mset (services plan) \<and> deps_first os
      \<and> order sp = subject_identities (subject plan) @ map (\<lambda>s. as_str (svc_name s)) (filter is_managed os)
      \<and> teardown_order sp = map (\<lambda>s. as_str (svc_name s)) (rev (filter is_managed os))
          @ subject_identities (subject plan)" if "r = Ok sp" for sp
  proof -
    from r that have "prepare rp opts = Some (Ok sp)" by simp
    then obtain root subjects os' where p: "subject_spec opts root (rp_subject rp) = Ok subjects"
      "topological_order (rp_topology rp) = Some (Ok os')"
      "lower_services opts root os' \<lparr>specs = subjects, adapters = [],
        launch_order = map (\<lambda>p. \<lparr>entry_identity = ps_identity p, entry_kind = LaunchProcess\<rparr>) subjects\<rparr> = Ok sp"
      by (rule prepare_Ok)
    from p(2) os(1) top have "os' = os" by simp
    with lower_services_Ok [OF p(3)] subject_spec_Ok [OF p(1)] subj
    have "order sp = subject_identities (subject plan) @ map (\<lambda>s. as_str (svc_name s)) (filter is_managed os)"
      by (simp add: order_def launch_of_def comp_def)
    moreover from this have "teardown_order sp =
        map (\<lambda>s. as_str (svc_name s)) (rev (filter is_managed os)) @ subject_identities (subject plan)"
      by (simp add: teardown_order_def single rev_map)
    ultimately show ?thesis using os by blast
  qed
  with r show ?thesis by blast
qed

text \<open>
  Every process of a prepared plan gets a working directory inside the canonical
  workspace root, an environment only if it is the subject, and exists only on a platform
  that supports process-tree cleanup.
\<close>

theorem prepared_processes_confined:
  assumes "prepare rp opts = Some (Ok sp)"
  shows "\<exists>root. normalize_workspace_root opts = Ok root
    \<and> (\<forall>spec \<in> set (specs sp). path_starts_with (ps_cwd spec) root
         \<and> (ps_is_subject spec \<or> ps_env spec = []) \<and> platform_support opts = PlatformSupported)"
proof -
  from assms obtain root subjects os where root: "normalize_workspace_root opts = Ok root"
    and subj: "subject_spec opts root (rp_subject rp) = Ok subjects"
    and os: "topological_order (rp_topology rp) = Some (Ok os)"
    and plat: "ensure_platform rp opts = Ok ()"
    and low: "lower_services opts root os \<lparr>specs = subjects, adapters = [],
        launch_order = map (\<lambda>p. \<lparr>entry_identity = ps_identity p, entry_kind = LaunchProcess\<rparr>) subjects\<rparr> = Ok sp"
    by (rule prepare_Ok)
  from lower_services_Ok [OF low] obtain new where all_specs: "specs sp = subjects @ new"
    and new: "list_all2 (spec_for root) (filter (\<lambda>s. is_managed s \<and> is_command s) os) new" by auto
  have services: "\<exists>s \<in> set os. is_managed s \<and> spec_for root s spec" if "spec \<in> set new" for spec
  proof -
    from that obtain i where i: "i < length new" "new ! i = spec" by (auto simp: in_set_conv_nth)
    let ?s = "filter (\<lambda>s. is_managed s \<and> is_command s) os ! i"
    from new i have "spec_for root ?s spec" by (auto simp: list_all2_conv_all_nth)
    moreover from new i have "?s \<in> set (filter (\<lambda>s. is_managed s \<and> is_command s) os)"
      by (intro nth_mem) (simp add: list_all2_conv_all_nth)
    ultimately show ?thesis by auto
  qed
  have os_set: "set os = set (rp_topology rp)"
    using os by (auto simp: topological_order_def Let_def split: sum.splits if_splits)
  have "platform_support opts = PlatformSupported" if "spec \<in> set (specs sp)" for spec
  proof -
    have "needs_managed_spawn rp"
    proof (cases "spec \<in> set subjects")
      case True
      with subj show ?thesis by (auto simp: subject_spec_def needs_managed_spawn_def split: Subject.splits)
    next
      case False
      with that all_specs services [of spec] os_set show ?thesis
        by (auto simp: needs_managed_spawn_def list_ex_iff is_managed_def)
    qed
    with plat show ?thesis by (auto simp: ensure_platform_def ok_simps)
  qed
  moreover have "path_starts_with (ps_cwd spec) root \<and> (ps_is_subject spec \<or> ps_env spec = [])"
    if "spec \<in> set (specs sp)" for spec
    using that all_specs services [of spec] subject_spec_Ok [OF subj] by (auto simp: spec_for_def)
  ultimately show ?thesis using root by blast
qed

section \<open>Looking a launch entry up\<close>

lemma find_append_fresh: "\<forall>x \<in> set xs. \<not> P x \<Longrightarrow> find P (xs @ ys) = find P ys"
  by (induction xs) auto

lemma find_spec_for:
  assumes "list_all2 (spec_for root) ss ps" and "distinct (map svc_name ss)" and "s \<in> set ss"
  shows "\<exists>spec. find (\<lambda>p. ps_identity p = as_str (svc_name s)) ps = Some spec \<and> spec_for root s spec"
  using assms
proof (induction rule: list_all2_induct)
  case (Cons t ts spec ps)
  show ?case
  proof (cases "s = t")
    case True
    with Cons show ?thesis by (auto simp: spec_for_def)
  next
    case False
    with Cons have "svc_name t \<noteq> svc_name s" by auto
    with Cons False show ?thesis by (auto simp: spec_for_def Name.expand)
  qed
qed simp

lemma prepared_specs:
  assumes "resolve_plan plan ds options = Ok rp" and "prepare rp opts = Some (Ok sp)"
  obtains root subjects new os where "specs sp = subjects @ new"
    and "list_all2 (spec_for root) (filter (\<lambda>s. is_managed s \<and> is_command s) os) new"
    and "map ps_identity subjects = subject_identities (subject plan)"
    and "\<forall>p \<in> set subjects. ps_is_subject p" and "set os = set (services plan)"
    and "distinct (map svc_name os)" and "order sp = subject_identities (subject plan)
      @ map (\<lambda>s. as_str (svc_name s)) (filter is_managed os)"
proof -
  from resolved_topology [OF assms(1)] have top: "rp_topology rp = services plan"
    and subj: "rp_subject rp = subject plan" and ok: "validate plan = Ok ()" by auto
  from assms(2) obtain root subjects os where p: "subject_spec opts root (rp_subject rp) = Ok subjects"
    "topological_order (rp_topology rp) = Some (Ok os)"
    "lower_services opts root os \<lparr>specs = subjects, adapters = [],
      launch_order = map (\<lambda>p. \<lparr>entry_identity = ps_identity p, entry_kind = LaunchProcess\<rparr>) subjects\<rparr> = Ok sp"
    by (rule prepare_Ok)
  from accepted_start_order [OF ok] p(2) top have "mset os = mset (services plan)" by auto
  then have "set os = set (services plan)" "distinct (map svc_name os)"
    using ok mset_eq_setD mset_eq_imp_distinct_iff [of "map svc_name os" "map svc_name (services plan)"]
    by (auto simp: validate_Ok validate_services_Ok)
  with that lower_services_Ok [OF p(3)] subject_spec_Ok [OF p(1)] subj show thesis
    by (auto simp: order_def launch_of_def comp_def)
qed

text \<open>
  Unless a managed service shares the name \<open>subject\<close> with a managed subject, the launch
  identities are distinct and looking up a managed command service finds the
  specification made from that service.
\<close>

theorem launch_lookup:
  assumes "resolve_plan plan ds options = Ok rp" and "prepare rp opts = Some (Ok sp)"
    and "subject_identities (subject plan) = []
      \<or> SUBJECT_IDENTITY \<notin> (\<lambda>s. as_str (svc_name s)) ` set (services plan)"
  shows "distinct (order sp)
    \<and> (\<forall>s \<in> set (services plan). is_managed s \<longrightarrow> is_command s \<longrightarrow>
         (\<exists>spec. process_of sp (as_str (svc_name s)) = Some spec
           \<and> ps_identity spec = as_str (svc_name s) \<and> \<not> ps_is_subject spec
           \<and> ps_log_limit_bytes spec = log_limit_bytes s))"
proof -
  obtain root subjects new os where p: "specs sp = subjects @ new"
    "list_all2 (spec_for root) (filter (\<lambda>s. is_managed s \<and> is_command s) os) new"
    "map ps_identity subjects = subject_identities (subject plan)"
    "\<forall>p \<in> set subjects. ps_is_subject p" "set os = set (services plan)"
    "distinct (map svc_name os)" "order sp = subject_identities (subject plan)
      @ map (\<lambda>s. as_str (svc_name s)) (filter is_managed os)"
    by (rule prepared_specs [OF assms(1,2)])
  have names: "distinct (map (\<lambda>s. as_str (svc_name s)) (filter is_managed os))"
    using p(6) by (auto simp: distinct_map inj_on_def Name.expand)
  have subj: "set (subject_identities (subject plan)) \<subseteq> {SUBJECT_IDENTITY}"
    "distinct (subject_identities (subject plan))"
    by (auto simp: subject_identities_def split: Subject.split)
  have disj: "set (subject_identities (subject plan)) \<inter> (\<lambda>s. as_str (svc_name s)) ` set os = {}"
  proof -
    have "x \<notin> (\<lambda>s. as_str (svc_name s)) ` set os" if "x \<in> set (subject_identities (subject plan))" for x
    proof -
      from that subj(1) have "x = SUBJECT_IDENTITY" "subject_identities (subject plan) \<noteq> []" by auto
      with assms(3) p(5) show ?thesis by simp
    qed
    then show ?thesis by blast
  qed
  have "distinct (order sp)" using names subj(2) disj p(7) by auto
  moreover have "\<exists>spec. process_of sp (as_str (svc_name s)) = Some spec
           \<and> ps_identity spec = as_str (svc_name s) \<and> \<not> ps_is_subject spec
           \<and> ps_log_limit_bytes spec = log_limit_bytes s"
    if "s \<in> set (services plan)" "is_managed s" "is_command s" for s
  proof -
    from that p(5) have s: "s \<in> set (filter (\<lambda>s. is_managed s \<and> is_command s) os)" by simp
    have "distinct (map svc_name (filter (\<lambda>s. is_managed s \<and> is_command s) os))"
      using p(6) by (simp add: distinct_map_filter)
    from find_spec_for [OF p(2) this s] obtain spec where
      spec: "find (\<lambda>q. ps_identity q = as_str (svc_name s)) new = Some spec" "spec_for root s spec" by blast
    have "as_str (svc_name s) \<notin> set (subject_identities (subject plan))"
      using disj that(1) p(5) by auto
    then have "\<forall>q \<in> set subjects. ps_identity q \<noteq> as_str (svc_name s)"
      using p(3) by (metis image_eqI list.set_map)
    with spec p(1) show ?thesis
      by (auto simp: process_of_def find_append_fresh spec_for_def)
  qed
  ultimately show ?thesis by blast
qed

text \<open>
  The reserved identity is not reserved: when a managed command service is called
  \<open>subject\<close> beside a managed subject, the launch order has the identity twice, and the
  lookup of either entry finds the subject's specification, so the service itself is never
  the one that is started.
\<close>

theorem subject_name_collision:
  assumes "resolve_plan plan ds options = Ok rp" and "prepare rp opts = Some (Ok sp)"
    and "subject_identities (subject plan) \<noteq> []"
    and "s \<in> set (services plan)" and "is_managed s" and "as_str (svc_name s) = SUBJECT_IDENTITY"
  shows "\<not> distinct (order sp)
    \<and> (\<exists>spec. process_of sp (as_str (svc_name s)) = Some spec \<and> ps_is_subject spec)"
proof -
  obtain root subjects new os where p: "specs sp = subjects @ new"
    "list_all2 (spec_for root) (filter (\<lambda>s. is_managed s \<and> is_command s) os) new"
    "map ps_identity subjects = subject_identities (subject plan)"
    "\<forall>p \<in> set subjects. ps_is_subject p" "set os = set (services plan)"
    "distinct (map svc_name os)" "order sp = subject_identities (subject plan)
      @ map (\<lambda>s. as_str (svc_name s)) (filter is_managed os)"
    by (rule prepared_specs [OF assms(1,2)])
  from assms(3) have subj: "subject_identities (subject plan) = [SUBJECT_IDENTITY]"
    by (simp add: subject_identities_def split: Subject.splits)
  with p(3) obtain q where q: "subjects = [q]" "ps_identity q = SUBJECT_IDENTITY" by auto
  have "SUBJECT_IDENTITY \<in> (\<lambda>s. as_str (svc_name s)) ` set (filter is_managed os)"
    using assms(4-6) p(5) by force
  with p(7) subj have "\<not> distinct (order sp)" by auto
  with p(1,4) q assms(6) show ?thesis by (simp add: process_of_def)
qed

section \<open>Concrete preparations\<close>

definition managed_plan :: "string \<Rightarrow> ExperimentPlan" where
  "managed_plan n = bare_plan \<lparr>subject := ManagedCommand [''/bin/app''] [] None None,
     services := [sample_service n [] \<lparr>svc_kind := Command [''/bin/svc''], svc_lifecycle := Managed\<rparr>],
     workload := FiniteCount (Name n) (PositiveCount 10) (PositiveCount 2),
     trials := trials bare_plan \<lparr>reset_policy := NoReset\<rparr>\<rparr>"

definition sample_prepare :: PrepareOptions where
  "sample_prepare = \<lparr>workspace_root = ''/ws'', secret_value = (\<lambda>_. None),
     platform_support = PlatformSupported, adapter_registered = (\<lambda>_. False),
     fs_canonicalize = Some, fs_is_dir = (\<lambda>_. True), fs_is_file = (\<lambda>_. True)\<rparr>"

lemma managed_plan_fields:
  "services (managed_plan n) =
     [sample_service n [] \<lparr>svc_kind := Command [''/bin/svc''], svc_lifecycle := Managed\<rparr>]"
  "subject (managed_plan n) = ManagedCommand [''/bin/app''] [] None None"
  "workload (managed_plan n) = FiniteCount (Name n) (PositiveCount 10) (PositiveCount 2)"
  "telemetry (managed_plan n) = []" "network_path (managed_plan n) = None"
  "paired (managed_plan n) = None" "diagnostics (managed_plan n) = None"
  "security_checks (managed_plan n) = None"
  by (simp_all add: managed_plan_def bare_plan_def sample_plan_def)

lemma program_text: "\<not> trim_is_empty ''/bin/app''" "\<not> trim_is_empty ''/bin/svc''"
  by (simp_all add: trim_is_empty_def is_whitespace_def byte_def)

lemma managed_plan_valid: "validate (managed_plan n) = Ok ()"
proof -
  have "ensure_acyclic (services (managed_plan n)) = Ok ()"
    by (subst ensure_acyclic_map, subst map_rel_services)
      (simp_all add: managed_plan_fields sample_service_def acyclic_def)
  then show ?thesis
    by (simp add: managed_plan_def bare_plan_def sample_plan_def stage_simps plan_eval list_all_iff
        no_program_def program_text)
qed

lemma managed_plan_resolves:
  "\<exists>rp. resolve_plan (managed_plan n) sample_drivers sample_options = Ok rp"
  by (simp add: managed_plan_valid managed_plan_fields resolve_eval services_to_check_def
      sample_service_def)

lemma managed_plan_prepares:
  assumes "resolve_plan (managed_plan n) sample_drivers sample_options = Ok rp"
  shows "\<exists>sp. prepare rp sample_prepare = Some (Ok sp)"
proof -
  from resolved_topology [OF assms] accepted_start_order [of "managed_plan n"] obtain os where
    os: "topological_order (rp_topology rp) = Some (Ok os)" "mset os = mset (services (managed_plan n))"
    by auto
  from os(2) have "os = services (managed_plan n)" by (simp add: managed_plan_fields)
  with os(1) resolved_topology [OF assms] show ?thesis
    by (simp add: prepare_def managed_plan_fields ensure_platform_def sample_prepare_def reject_if_def
        normalize_workspace_root_def path_is_absolute_def subject_spec_def no_program_def program_text
        resolve_executable_def service_spec_def resolve_working_directory_def sample_service_def Let_def)
qed

theorem prepare_launch_order_witness:
  "\<exists>rp sp os. prepare rp sample_prepare = Some (Ok sp) \<and> mset os = mset (services (managed_plan ''web''))
     \<and> order sp = ''subject'' # map (\<lambda>s. as_str (svc_name s)) (filter is_managed os)"
proof -
  obtain rp where rp: "resolve_plan (managed_plan ''web'') sample_drivers sample_options = Ok rp"
    using managed_plan_resolves by blast
  obtain sp where sp: "prepare rp sample_prepare = Some (Ok sp)"
    using managed_plan_prepares [OF rp] by blast
  with prepare_launch_order [OF rp, of sample_prepare] obtain os where
    "mset os = mset (services (managed_plan ''web''))"
    "order sp = subject_identities (subject (managed_plan ''web''))
       @ map (\<lambda>s. as_str (svc_name s)) (filter is_managed os)" by auto
  moreover have "subject_identities (subject (managed_plan ''web'')) = [''subject'']"
    by (simp add: subject_identities_def managed_plan_fields SUBJECT_IDENTITY_def)
  ultimately show ?thesis using sp by (metis append_Cons append_Nil)
qed

theorem prepared_processes_confined_witness:
  "\<exists>rp sp. prepare rp sample_prepare = Some (Ok sp)
     \<and> (\<forall>spec \<in> set (specs sp). path_starts_with (ps_cwd spec) ''/ws'')"
proof -
  obtain rp where rp: "resolve_plan (managed_plan ''web'') sample_drivers sample_options = Ok rp"
    using managed_plan_resolves by blast
  obtain sp where sp: "prepare rp sample_prepare = Some (Ok sp)"
    using managed_plan_prepares [OF rp] by blast
  have "normalize_workspace_root sample_prepare = Ok ''/ws''"
    by (simp add: normalize_workspace_root_def sample_prepare_def path_is_absolute_def)
  with sp prepared_processes_confined [OF sp] show ?thesis by auto
qed

theorem launch_lookup_witness:
  "\<exists>rp sp spec. prepare rp sample_prepare = Some (Ok sp) \<and> distinct (order sp)
     \<and> process_of sp ''web'' = Some spec \<and> \<not> ps_is_subject spec"
proof -
  obtain rp where rp: "resolve_plan (managed_plan ''web'') sample_drivers sample_options = Ok rp"
    using managed_plan_resolves by blast
  obtain sp where sp: "prepare rp sample_prepare = Some (Ok sp)"
    using managed_plan_prepares [OF rp] by blast
  with launch_lookup [OF rp sp] show ?thesis
    by (auto simp: managed_plan_fields sample_service_def SUBJECT_IDENTITY_def is_managed_def
        is_command_def)
qed

theorem subject_name_collision_witness:
  "\<exists>rp sp spec. prepare rp sample_prepare = Some (Ok sp) \<and> \<not> distinct (order sp)
     \<and> process_of sp ''subject'' = Some spec \<and> ps_is_subject spec"
proof -
  obtain rp where rp: "resolve_plan (managed_plan ''subject'') sample_drivers sample_options = Ok rp"
    using managed_plan_resolves by blast
  obtain sp where sp: "prepare rp sample_prepare = Some (Ok sp)"
    using managed_plan_prepares [OF rp] by blast
  with subject_name_collision [OF rp sp, of "hd (services (managed_plan ''subject''))"] show ?thesis
    by (auto simp: managed_plan_fields sample_service_def SUBJECT_IDENTITY_def is_managed_def
        subject_identities_def)
qed

end
