(* ===== verification/Manifest.thy ===== *)
theory Manifest
  imports ArtifactPaths SpawnPlan
begin

text \<open>
  The evidence manifest of \<open>eggbench-core/src/evidence.rs\<close>: its data, the view of a legacy
  version-1 manifest, the environment fingerprint, and \<open>validate_inner\<close> with its loops
  over artifacts and trials.  A run identity is opaque text (a UUID); the role counters of
  the source, a map that starts at zero, are a function.

  The lemmas show that the byte total cannot overflow, that an accepted manifest is
  complete, and that the rules for current manifests are the legacy rules and more.
\<close>

section \<open>Data\<close>

definition EVIDENCE_MANIFEST_SCHEMA_VERSION :: SchemaVersion where
  "EVIDENCE_MANIFEST_SCHEMA_VERSION = SchemaVersion 2"
definition ENVIRONMENT_FINGERPRINT_SCHEMA_VERSION :: SchemaVersion where
  "ENVIRONMENT_FINGERPRINT_SCHEMA_VERSION = SchemaVersion 1"
definition MAX_ARTIFACT_COUNT :: nat where
  "MAX_ARTIFACT_COUNT = 10000"
definition MAX_ARTIFACT_BYTES :: u64 where
  "MAX_ARTIFACT_BYTES = 268435456"
definition MAX_TOTAL_ARTIFACT_BYTES :: u64 where
  "MAX_TOTAL_ARTIFACT_BYTES = 2147483648"

datatype TrialId = TrialId (trial_get: u32)

definition TrialId_new :: "u32 \<Rightarrow> BundleError + TrialId" where
  "TrialId_new v = (if v = 0 then Err (InvalidManifest ''trial id must be positive'') else Ok (TrialId v))"

interpretation trial_id: validated_newtype TrialId_new trial_get "\<lambda>v. 1 \<le> v"
  by unfold_locales (auto simp: TrialId_new_def TrialId.expand word_ge_1_iff)

datatype LegacyRunStatus =
  LegacySucceeded | LegacyFailed | LegacyCancelled | LegacyInvalid | LegacyInconclusive

datatype ExecutionStatus = RunCompleted | RunFailed | RunCancelled | RunInvalid

datatype ComparisonVerdict = Pass | Fail | Inconclusive | Invalid

datatype ArtifactRole =
  RolePlan | RoleResolvedPlan | RoleEnvironment | RoleTopology | RoleSubject | RoleTrialResult
| RoleTelemetry | RoleStdout | RoleStderr | RoleTrialArtifact | RoleComparison | RoleReport
| RoleOther Name

datatype Sensitivity = Public | Redacted | Sensitive

record ArtifactRecord =
  rec_path :: ArtifactPath
  rec_role :: ArtifactRole
  rec_media_type :: string
  rec_sensitivity :: Sensitivity
  rec_byte_size :: u64
  rec_sha256 :: string

record TrialDescriptor =
  trial_ident :: TrialId
  trial_result :: ArtifactPath
  trial_artifacts :: "ArtifactPath list"

record PairedRunRecord =
  pr_schedule :: string
  pr_pairs :: u32
  pr_baseline_service :: Name
  pr_candidate_service :: Name
  pr_baseline_subject :: Subject
  pr_candidate_subject :: Subject

record BundleManifest =
  m_schema_version :: SchemaVersion
  m_run_id :: string
  m_execution_status :: "ExecutionStatus option"
  m_comparison_verdict :: "ComparisonVerdict option"
  m_subject :: Subject
  m_created_unix_ms :: "u64 option"
  m_finalized_unix_ms :: "u64 option"
  m_plan :: ArtifactPath
  m_resolved_plan :: ArtifactPath
  m_environment :: ArtifactPath
  m_trials :: "TrialDescriptor list"
  m_comparison :: "ArtifactPath option"
  m_paired :: "PairedRunRecord option"
  m_report :: "ArtifactPath option"
  m_drivers :: "DriverDescriptor list"
  m_limits :: ArtifactBounds
  m_artifacts :: "ArtifactRecord list"
  m_finalized :: bool

record LegacyManifestV1 =
  l_schema_version :: SchemaVersion
  l_run_id :: string
  l_status :: LegacyRunStatus
  l_subject :: Subject
  l_created_unix_ms :: "u64 option"
  l_finalized_unix_ms :: "u64 option"
  l_plan :: ArtifactPath
  l_resolved_plan :: ArtifactPath
  l_environment :: ArtifactPath
  l_trials :: "TrialDescriptor list"
  l_comparison :: "ArtifactPath option"
  l_report :: "ArtifactPath option"
  l_drivers :: "DriverDescriptor list"
  l_limits :: ArtifactBounds
  l_artifacts :: "ArtifactRecord list"
  l_finalized :: bool

fun legacy_execution_status :: "LegacyRunStatus \<Rightarrow> ExecutionStatus" where
  "legacy_execution_status LegacySucceeded = RunCompleted"
| "legacy_execution_status LegacyInconclusive = RunCompleted"
| "legacy_execution_status LegacyFailed = RunFailed"
| "legacy_execution_status LegacyCancelled = RunCancelled"
| "legacy_execution_status LegacyInvalid = RunInvalid"

definition into_current_view :: "LegacyManifestV1 \<Rightarrow> BundleManifest" where
  "into_current_view l = \<lparr>m_schema_version = EVIDENCE_MANIFEST_SCHEMA_VERSION, m_run_id = l_run_id l,
     m_execution_status = Some (legacy_execution_status (l_status l)), m_comparison_verdict = None,
     m_subject = l_subject l, m_created_unix_ms = l_created_unix_ms l,
     m_finalized_unix_ms = l_finalized_unix_ms l, m_plan = l_plan l,
     m_resolved_plan = l_resolved_plan l, m_environment = l_environment l, m_trials = l_trials l,
     m_comparison = l_comparison l, m_paired = None, m_report = l_report l, m_drivers = l_drivers l,
     m_limits = l_limits l, m_artifacts = l_artifacts l, m_finalized = l_finalized l\<rparr>"

section \<open>Validation\<close>

abbreviation bad_manifest :: "string \<Rightarrow> BundleError + unit" where
  "bad_manifest reason \<equiv> Err (InvalidManifest reason)"

definition status_rules :: "bool \<Rightarrow> BundleManifest \<Rightarrow> BundleError + unit" where
  "status_rules legacy m = checks
    [reject_if (m_schema_version m \<noteq> EVIDENCE_MANIFEST_SCHEMA_VERSION)
       (UnsupportedManifestVersion (version_number (m_schema_version m))),
     reject_if (m_execution_status m = None) (InvalidManifest ''execution status is required''),
     reject_if (\<not> legacy \<and> m_comparison m = None \<and> m_comparison_verdict m \<noteq> None)
       (InvalidManifest ''comparison verdict requires comparison artifact''),
     reject_if (\<not> legacy \<and> m_comparison m \<noteq> None \<and> m_comparison_verdict m = None)
       (InvalidManifest ''comparison artifact requires comparison verdict''),
     reject_if (\<not> legacy \<and> m_execution_status m \<in> {Some RunFailed, Some RunCancelled}
         \<and> m_comparison_verdict m \<noteq> None)
       (InvalidManifest ''failed or cancelled execution cannot have a comparison verdict''),
     reject_if (\<not> m_finalized m) IncompleteBundle]"

definition bounds_unsupported :: "ArtifactBounds \<Rightarrow> bool" where
  "bounds_unsupported b \<longleftrightarrow>
     artifact_bytes b = 0 \<or> total_bytes b < artifact_bytes b
     \<or> MAX_ARTIFACT_COUNT < unat (count_get (artifact_count b))
     \<or> MAX_ARTIFACT_BYTES < artifact_bytes b \<or> MAX_TOTAL_ARTIFACT_BYTES < total_bytes b"

definition lower_hex_digest :: "string \<Rightarrow> bool" where
  "lower_hex_digest s \<longleftrightarrow> length s = 64 \<and> list_all (\<lambda>c. is_ascii_hexdigit c \<and> \<not> is_ascii_uppercase c) s"

definition bad_media_type :: "string \<Rightarrow> bool" where
  "bad_media_type t \<longleftrightarrow> t = [] \<or> 255 < length t \<or> has_control t"

record artifact_scan =
  scan_paths :: "(ArtifactPath, ArtifactRecord) BTreeMap"
  scan_roles :: "ArtifactRole \<Rightarrow> nat"
  scan_total :: u64

fun scan_artifacts :: "u64 \<Rightarrow> ArtifactRecord list \<Rightarrow> artifact_scan \<Rightarrow> BundleError + artifact_scan" where
  "scan_artifacts limit [] st = Ok st"
| "scan_artifacts limit (a # as) st =
    (if bt_contains (scan_paths st) (rec_path a) then Err (InvalidManifest ''duplicate artifact path'')
     else if \<not> lower_hex_digest (rec_sha256 a) then Err (InvalidManifest ''invalid SHA-256 digest'')
     else if bad_media_type (rec_media_type a) then Err (InvalidManifest ''invalid media type'')
     else if limit < rec_byte_size a then Err (InvalidManifest ''artifact exceeds declared byte bound'')
     else (case checked_add (scan_total st) (rec_byte_size a) of
         None \<Rightarrow> Err (InvalidManifest ''artifact byte total overflow'')
       | Some acc \<Rightarrow> scan_artifacts limit as
           \<lparr>scan_paths = bt_insert (rec_path a) a (scan_paths st),
            scan_roles = (scan_roles st)(rec_role a := scan_roles st (rec_role a) + 1),
            scan_total = acc\<rparr>))"

type_synonym path_index = "(ArtifactPath, ArtifactRecord) BTreeMap"

definition has_role :: "path_index \<Rightarrow> ArtifactPath \<Rightarrow> ArtifactRole \<Rightarrow> bool" where
  "has_role paths p r \<longleftrightarrow> (case bt_get paths p of None \<Rightarrow> False | Some a \<Rightarrow> rec_role a = r)"

definition role_rules :: "(ArtifactRole \<Rightarrow> nat) \<Rightarrow> BundleError + unit" where
  "role_rules roles = checks
    [for_each (\<lambda>r. reject_if (roles r \<noteq> 1)
         (InvalidManifest ''required primary artifact role must occur exactly once''))
       [RolePlan, RoleResolvedPlan, RoleEnvironment],
     for_each (\<lambda>r. reject_if (1 < roles r)
         (InvalidManifest ''comparison/report artifact role occurs more than once''))
       [RoleComparison, RoleReport]]"

definition primary_rules :: "BundleManifest \<Rightarrow> path_index \<Rightarrow> BundleError + unit" where
  "primary_rules m paths = checks
    [for_each (\<lambda>p. reject_if (\<not> bt_contains paths p) (MissingArtifact p))
       [m_plan m, m_resolved_plan m, m_environment m],
     reject_if (\<not> has_role paths (m_plan m) RolePlan
         \<or> \<not> has_role paths (m_resolved_plan m) RoleResolvedPlan
         \<or> \<not> has_role paths (m_environment m) RoleEnvironment)
       (InvalidManifest ''primary artifact reference has the wrong logical role'')]"

fun scan_trial_paths :: "path_index \<Rightarrow> ArtifactPath set \<Rightarrow> ArtifactPath list \<Rightarrow> BundleError + unit" where
  "scan_trial_paths paths seen [] = Ok ()"
| "scan_trial_paths paths seen (p # ps) = checks
    [reject_if (p \<in> seen) (InvalidManifest ''duplicate artifact reference within a trial''),
     reject_if (\<not> bt_contains paths p) (MissingArtifact p),
     scan_trial_paths paths (insert p seen) ps]"

definition trial_body :: "path_index \<Rightarrow> TrialDescriptor \<Rightarrow> BundleError + unit" where
  "trial_body paths t = checks
    [reject_if (\<not> has_role paths (trial_result t) RoleTrialResult) (MissingArtifact (trial_result t)),
     scan_trial_paths paths {} (trial_artifacts t)]"

fun scan_trials :: "path_index \<Rightarrow> TrialId set \<Rightarrow> TrialDescriptor list \<Rightarrow> BundleError + unit" where
  "scan_trials paths seen [] = Ok ()"
| "scan_trials paths seen (t # ts) = checks
    [reject_if (trial_ident t \<in> seen) (InvalidManifest ''duplicate trial identity''),
     trial_body paths t,
     scan_trials paths (insert (trial_ident t) seen) ts]"

definition optional_rule :: "path_index \<Rightarrow> ArtifactPath option \<Rightarrow> ArtifactRole \<Rightarrow> BundleError + unit" where
  "optional_rule paths p r =
    (case p of None \<Rightarrow> Ok () | Some q \<Rightarrow> reject_if (\<not> has_role paths q r) (MissingArtifact q))"

definition inventory_rules :: "BundleManifest \<Rightarrow> BundleError + unit" where
  "inventory_rules m = checks
    [reject_if (MAX_ARTIFACT_COUNT < length (m_artifacts m) \<or> MAX_ARTIFACT_COUNT < length (m_trials m))
       (InvalidManifest ''artifact count exceeds hard limit''),
     reject_if (256 < length (m_drivers m)) (InvalidManifest ''driver inventory exceeds bound''),
     reject_if (\<not> distinct (map drv_name (m_drivers m))) (InvalidManifest ''duplicate driver identity''),
     reject_if (case (m_created_unix_ms m, m_finalized_unix_ms m) of
         (Some created, Some finalized) \<Rightarrow> finalized < created | _ \<Rightarrow> False)
       (InvalidManifest ''finalization time precedes creation time'')]"

definition empty_scan :: artifact_scan where
  "empty_scan = \<lparr>scan_paths = [], scan_roles = (\<lambda>_. 0), scan_total = 0\<rparr>"

definition validate_inner :: "bool \<Rightarrow> BundleManifest \<Rightarrow> BundleError + unit" where
  "validate_inner legacy m = checks
    [status_rules legacy m,
     reject_if (bounds_unsupported (m_limits m)
         \<or> unat (count_get (artifact_count (m_limits m))) < length (m_artifacts m))
       (InvalidManifest ''invalid artifact bounds''),
     (case scan_artifacts (artifact_bytes (m_limits m)) (m_artifacts m) empty_scan of
        Err e \<Rightarrow> Err e
      | Ok st \<Rightarrow> checks
         [reject_if (total_bytes (m_limits m) < scan_total st)
            (InvalidManifest ''artifacts exceed declared total byte bound''),
          role_rules (scan_roles st),
          primary_rules m (scan_paths st),
          scan_trials (scan_paths st) {} (m_trials m),
          optional_rule (scan_paths st) (m_comparison m) RoleComparison,
          optional_rule (scan_paths st) (m_report m) RoleReport,
          inventory_rules m])]"

definition validate_manifest :: "BundleManifest \<Rightarrow> BundleError + unit" where
  "validate_manifest m = validate_inner False m"

definition validate_legacy_view :: "BundleManifest \<Rightarrow> BundleError + unit" where
  "validate_legacy_view m = validate_inner True m"

definition validate_bounds :: "ArtifactBounds \<Rightarrow> BundleError + unit" where
  "validate_bounds b =
     reject_if (bounds_unsupported b) (InvalidManifest ''declared artifact bounds exceed supported limits'')"

section \<open>Environment fingerprint\<close>

datatype EnvironmentFieldClass = ComparisonCritical | WarningOnly | InformationalField

record EnvironmentField =
  env_value :: string
  env_class :: EnvironmentFieldClass

record EnvironmentFingerprint =
  fp_schema_version :: SchemaVersion
  fp_fields :: "(Name, EnvironmentField) BTreeMap"

definition EnvironmentFingerprint_new :: "(Name, EnvironmentField) BTreeMap \<Rightarrow> EnvironmentFingerprint" where
  "EnvironmentFingerprint_new fs =
     \<lparr>fp_schema_version = ENVIRONMENT_FINGERPRINT_SCHEMA_VERSION, fp_fields = fs\<rparr>"

definition validate_fingerprint :: "EnvironmentFingerprint \<Rightarrow> BundleError + unit" where
  "validate_fingerprint fp = checks
    [reject_if (fp_schema_version fp \<noteq> ENVIRONMENT_FINGERPRINT_SCHEMA_VERSION)
       (InvalidManifest ''unsupported environment-fingerprint schema version''),
     reject_if (128 < length (fp_fields fp)
         \<or> list_ex (\<lambda>f. 128 < length (as_str (fst f)) \<or> 4096 < length (env_value (snd f))
              \<or> has_control (env_value (snd f))) (fp_fields fp))
       (InvalidManifest ''environment fingerprint field exceeds bounds'')]"

section \<open>The artifact scan\<close>

definition artifact_ok :: "u64 \<Rightarrow> ArtifactRecord \<Rightarrow> bool" where
  "artifact_ok limit a \<longleftrightarrow> lower_hex_digest (rec_sha256 a) \<and> \<not> bad_media_type (rec_media_type a)
     \<and> rec_byte_size a \<le> limit"

definition byte_sum :: "ArtifactRecord list \<Rightarrow> nat" where
  "byte_sum as = (\<Sum>a \<leftarrow> as. unat (rec_byte_size a))"

definition count_role :: "ArtifactRole \<Rightarrow> ArtifactRecord list \<Rightarrow> nat" where
  "count_role r as = length (filter (\<lambda>a. rec_role a = r) as)"

lemma scan_artifacts_Ok:
  assumes "scan_artifacts limit as st = Ok st'" and "bt_ok (scan_paths st)"
  shows "(\<forall>a \<in> set as. artifact_ok limit a) \<and> distinct (map rec_path as)
    \<and> rec_path ` set as \<inter> fst ` set (scan_paths st) = {}
    \<and> bt_ok (scan_paths st')
    \<and> set (scan_paths st') = set (scan_paths st) \<union> (\<lambda>a. (rec_path a, a)) ` set as
    \<and> (\<forall>r. scan_roles st' r = scan_roles st r + count_role r as)
    \<and> unat (scan_total st') = unat (scan_total st) + byte_sum as"
  using assms
proof (induction limit as st rule: scan_artifacts.induct)
  case (1 limit st)
  then show ?case by (simp add: count_role_def byte_sum_def)
next
  case (2 limit a as st)
  from "2.prems"(1) obtain acc where ok: "\<not> bt_contains (scan_paths st) (rec_path a)"
      "lower_hex_digest (rec_sha256 a)" "\<not> bad_media_type (rec_media_type a)" "\<not> limit < rec_byte_size a"
    and acc: "checked_add (scan_total st) (rec_byte_size a) = Some acc"
    by (auto split: if_splits option.splits)
  from ok(2) have digest: "\<not> \<not> lower_hex_digest (rec_sha256 a)" by simp
  let ?st = "\<lparr>scan_paths = bt_insert (rec_path a) a (scan_paths st),
     scan_roles = (scan_roles st)(rec_role a := scan_roles st (rec_role a) + 1), scan_total = acc\<rparr>"
  from ok acc "2.prems"(1) have "scan_artifacts limit as ?st = Ok st'" by simp
  moreover have "bt_ok (scan_paths ?st)" using "2.prems"(2) by (simp add: bt_ok_insert)
  ultimately have ih: "(\<forall>a \<in> set as. artifact_ok limit a) \<and> distinct (map rec_path as)
    \<and> rec_path ` set as \<inter> fst ` set (scan_paths ?st) = {} \<and> bt_ok (scan_paths st')
    \<and> set (scan_paths st') = set (scan_paths ?st) \<union> (\<lambda>a. (rec_path a, a)) ` set as
    \<and> (\<forall>r. scan_roles st' r = scan_roles ?st r + count_role r as)
    \<and> unat (scan_total st') = unat (scan_total ?st) + byte_sum as"
    by (rule "2.IH" [OF ok(1) digest ok(3,4) acc])
  have fresh: "bt_get (scan_paths st) (rec_path a) = None" using ok(1) by (simp add: bt_contains_get)
  have "set (scan_paths ?st) = insert (rec_path a, a) (set (scan_paths st))"
    using bt_insert_fresh_set [OF "2.prems"(2) fresh] by simp
  with ih ok checked_add_Some [OF acc] show ?case
    by (auto simp: artifact_ok_def count_role_def byte_sum_def bt_contains_def bt_insert_keys)
qed

text \<open>Within the hard limits the total of the byte sizes cannot leave 64 bits.\<close>

lemma scan_artifacts_no_overflow:
  assumes "limit \<le> MAX_ARTIFACT_BYTES" and "unat (scan_total st) + length as * 268435456 < 2 ^ 64"
  shows "scan_artifacts limit as st \<noteq> Err (InvalidManifest ''artifact byte total overflow'')"
  using assms
proof (induction limit as st rule: scan_artifacts.induct)
  case (2 limit a as st)
  show ?case
  proof (cases "bt_contains (scan_paths st) (rec_path a) \<or> \<not> lower_hex_digest (rec_sha256 a)
      \<or> bad_media_type (rec_media_type a) \<or> limit < rec_byte_size a")
    case True
    then show ?thesis by auto
  next
    case False
    then have "rec_byte_size a \<le> MAX_ARTIFACT_BYTES" using "2.prems"(1) by auto
    then have size: "unat (rec_byte_size a) \<le> 268435456"
      by (simp add: MAX_ARTIFACT_BYTES_def word_le_nat_alt)
    with "2.prems"(2) have "checked_add (scan_total st) (rec_byte_size a) \<noteq> None"
      by (simp add: checked_add_def)
    then obtain acc where acc: "checked_add (scan_total st) (rec_byte_size a) = Some acc" by blast
    from False have f: "\<not> bt_contains (scan_paths st) (rec_path a)" "lower_hex_digest (rec_sha256 a)"
      "\<not> bad_media_type (rec_media_type a)" "\<not> limit < rec_byte_size a" by auto
    from f acc size checked_add_Some [OF acc] "2.prems" "2.IH" [OF f(1) _ f(3,4) acc] show ?thesis by simp
  qed
qed simp

lemma has_role_index:
  assumes "bt_ok paths" and "set paths = (\<lambda>a. (rec_path a, a)) ` set as"
  shows "has_role paths p r \<longleftrightarrow> (\<exists>a \<in> set as. rec_path a = p \<and> rec_role a = r)"
proof -
  have "bt_get paths p = Some a \<longleftrightarrow> a \<in> set as \<and> rec_path a = p" for a
    using bt.entries_lookup [OF assms(1), of p a] assms(2) by auto
  moreover have "has_role paths p r \<longleftrightarrow> (\<exists>a. bt_get paths p = Some a \<and> rec_role a = r)"
    by (simp add: has_role_def split: option.split)
  ultimately show ?thesis by blast
qed

interpretation trial_path_scan: unique_scan "\<lambda>p. p" "\<lambda>_. Ok ()"
    "\<lambda>_. InvalidManifest ''duplicate artifact reference within a trial''"
    "\<lambda>p. reject_if (\<not> bt_contains paths p) (MissingArtifact p)" "scan_trial_paths paths" for paths
  by unfold_locales simp_all

interpretation trial_scan: unique_scan trial_ident "\<lambda>_. Ok ()"
    "\<lambda>_. InvalidManifest ''duplicate trial identity''" "trial_body paths" "scan_trials paths" for paths
  by unfold_locales simp_all

lemma scan_artifacts_accepts:
  assumes "\<forall>a \<in> set as. artifact_ok limit a" and "distinct (map rec_path as)"
    and "rec_path ` set as \<inter> fst ` set (scan_paths st) = {}"
    and "unat (scan_total st) + byte_sum as < 2 ^ 64"
  shows "\<exists>st'. scan_artifacts limit as st = Ok st'"
  using assms
proof (induction limit as st rule: scan_artifacts.induct)
  case (2 limit a as st)
  from "2.prems"(3) have f1: "\<not> bt_contains (scan_paths st) (rec_path a)" by (simp add: bt_contains_def)
  from "2.prems"(1) have f: "\<not> \<not> lower_hex_digest (rec_sha256 a)" "\<not> bad_media_type (rec_media_type a)"
    "\<not> limit < rec_byte_size a" by (auto simp: artifact_ok_def)
  from "2.prems"(4) obtain acc where acc: "checked_add (scan_total st) (rec_byte_size a) = Some acc"
    by (auto simp: checked_add_def byte_sum_def)
  have "\<exists>st'. scan_artifacts limit as \<lparr>scan_paths = bt_insert (rec_path a) a (scan_paths st),
     scan_roles = (scan_roles st)(rec_role a := scan_roles st (rec_role a) + 1), scan_total = acc\<rparr> = Ok st'"
  proof (rule "2.IH" [OF f1 f acc])
    show "\<forall>a \<in> set as. artifact_ok limit a" "distinct (map rec_path as)" using "2.prems"(1,2) by simp_all
    show "rec_path ` set as \<inter> fst ` set (scan_paths \<lparr>scan_paths = bt_insert (rec_path a) a (scan_paths st),
     scan_roles = (scan_roles st)(rec_role a := scan_roles st (rec_role a) + 1), scan_total = acc\<rparr>) = {}"
      using "2.prems"(2,3) by (auto simp: bt_insert_keys)
    show "unat (scan_total \<lparr>scan_paths = bt_insert (rec_path a) a (scan_paths st),
     scan_roles = (scan_roles st)(rec_role a := scan_roles st (rec_role a) + 1), scan_total = acc\<rparr>)
       + byte_sum as < 2 ^ 64"
      using "2.prems"(4) checked_add_Some [OF acc] by (simp add: byte_sum_def)
  qed
  with f1 f acc show ?case by simp
qed simp

section \<open>Complete manifests\<close>

text \<open>The manifest as a closed inventory, without the order in which the code looks at it.\<close>

definition lists :: "BundleManifest \<Rightarrow> ArtifactPath \<Rightarrow> ArtifactRole \<Rightarrow> bool" where
  "lists m p r \<longleftrightarrow> (\<exists>a \<in> set (m_artifacts m). rec_path a = p \<and> rec_role a = r)"

definition manifest_complete :: "BundleManifest \<Rightarrow> bool" where
  "manifest_complete m \<longleftrightarrow>
     distinct (map rec_path (m_artifacts m))
     \<and> (\<forall>a \<in> set (m_artifacts m). artifact_ok (artifact_bytes (m_limits m)) a)
     \<and> byte_sum (m_artifacts m) \<le> unat (total_bytes (m_limits m))
     \<and> (\<forall>r \<in> {RolePlan, RoleResolvedPlan, RoleEnvironment}. count_role r (m_artifacts m) = 1)
     \<and> (\<forall>r \<in> {RoleComparison, RoleReport}. count_role r (m_artifacts m) \<le> 1)
     \<and> lists m (m_plan m) RolePlan \<and> lists m (m_resolved_plan m) RoleResolvedPlan
     \<and> lists m (m_environment m) RoleEnvironment
     \<and> distinct (map trial_ident (m_trials m))
     \<and> (\<forall>t \<in> set (m_trials m). lists m (trial_result t) RoleTrialResult
          \<and> distinct (trial_artifacts t)
          \<and> set (trial_artifacts t) \<subseteq> rec_path ` set (m_artifacts m))
     \<and> (\<forall>q. m_comparison m = Some q \<longrightarrow> lists m q RoleComparison)
     \<and> (\<forall>q. m_report m = Some q \<longrightarrow> lists m q RoleReport)"

lemma scan_rules_complete:
  assumes scan: "scan_artifacts (artifact_bytes (m_limits m)) (m_artifacts m) empty_scan = Ok st"
  shows "(\<not> total_bytes (m_limits m) < scan_total st \<and> role_rules (scan_roles st) = Ok ()
      \<and> primary_rules m (scan_paths st) = Ok () \<and> scan_trials (scan_paths st) {} (m_trials m) = Ok ()
      \<and> optional_rule (scan_paths st) (m_comparison m) RoleComparison = Ok ()
      \<and> optional_rule (scan_paths st) (m_report m) RoleReport = Ok ())
    \<longleftrightarrow> manifest_complete m"
proof -
  have "bt_ok (scan_paths empty_scan)" by (simp add: empty_scan_def)
  note facts = scan_artifacts_Ok [OF scan this]
  let ?as = "m_artifacts m"
  from facts have ok: "\<forall>a \<in> set ?as. artifact_ok (artifact_bytes (m_limits m)) a"
    and dist: "distinct (map rec_path ?as)" and paths: "bt_ok (scan_paths st)"
    and idx: "set (scan_paths st) = (\<lambda>a. (rec_path a, a)) ` set ?as"
    and roles: "\<And>r. scan_roles st r = count_role r ?as" and sum: "unat (scan_total st) = byte_sum ?as"
    by (simp_all add: empty_scan_def)
  have role: "has_role (scan_paths st) p r \<longleftrightarrow> lists m p r" for p r
    by (simp add: has_role_index [OF paths idx] lists_def)
  have known: "bt_contains (scan_paths st) p \<longleftrightarrow> p \<in> rec_path ` set ?as" for p
    using idx by (force simp: bt_contains_def)
  have listed: "lists m p r \<Longrightarrow> p \<in> rec_path ` set ?as" for p r by (auto simp: lists_def)
  have tot: "\<not> total_bytes (m_limits m) < scan_total st \<longleftrightarrow> byte_sum ?as \<le> unat (total_bytes (m_limits m))"
    by (simp add: word_less_nat_alt sum not_less)
  have prim: "primary_rules m (scan_paths st) = Ok () \<longleftrightarrow> lists m (m_plan m) RolePlan
      \<and> lists m (m_resolved_plan m) RoleResolvedPlan \<and> lists m (m_environment m) RoleEnvironment"
    using listed by (auto simp: primary_rules_def ok_simps role known simp del: for_each_simps)
  have trials: "scan_trials (scan_paths st) {} (m_trials m) = Ok () \<longleftrightarrow>
      distinct (map trial_ident (m_trials m))
      \<and> (\<forall>t \<in> set (m_trials m). lists m (trial_result t) RoleTrialResult
          \<and> distinct (trial_artifacts t) \<and> set (trial_artifacts t) \<subseteq> rec_path ` set ?as)"
    by (simp add: trial_scan.scan_Ok_iff trial_path_scan.scan_Ok_iff trial_body_def ok_simps role known
        subset_eq)
  have opt: "optional_rule (scan_paths st) p r = Ok () \<longleftrightarrow> (\<forall>q. p = Some q \<longrightarrow> lists m q r)" for p r
    by (simp add: optional_rule_def ok_simps role split: option.split)
  have rr: "role_rules (scan_roles st) = Ok () \<longleftrightarrow>
      (\<forall>r \<in> {RolePlan, RoleResolvedPlan, RoleEnvironment}. count_role r ?as = 1)
      \<and> (\<forall>r \<in> {RoleComparison, RoleReport}. count_role r ?as \<le> 1)"
    by (auto simp: role_rules_def ok_simps roles not_less simp del: for_each_simps)
  show ?thesis
    unfolding manifest_complete_def tot prim trials opt rr using ok dist by blast
qed

definition limits_ok :: "BundleManifest \<Rightarrow> bool" where
  "limits_ok m \<longleftrightarrow> \<not> bounds_unsupported (m_limits m)
     \<and> length (m_artifacts m) \<le> unat (count_get (artifact_count (m_limits m)))"

lemma limits_room:
  assumes "limits_ok m"
  shows "artifact_bytes (m_limits m) \<le> MAX_ARTIFACT_BYTES" and "length (m_artifacts m) \<le> 10000"
  using assms by (auto simp: limits_ok_def bounds_unsupported_def MAX_ARTIFACT_COUNT_def)

lemma complete_scans:
  assumes "limits_ok m" and "manifest_complete m"
  shows "\<exists>st. scan_artifacts (artifact_bytes (m_limits m)) (m_artifacts m) empty_scan = Ok st"
proof (rule scan_artifacts_accepts)
  have "unat (total_bytes (m_limits m)) < 2 ^ 64" using unsigned_less [of "total_bytes (m_limits m)"] by simp
  with assms(2) show "unat (scan_total empty_scan) + byte_sum (m_artifacts m) < 2 ^ 64"
    by (simp add: empty_scan_def manifest_complete_def)
qed (use assms(2) in \<open>simp_all add: manifest_complete_def empty_scan_def\<close>)

lemma validate_inner_Ok:
  "validate_inner legacy m = Ok () \<longleftrightarrow>
     status_rules legacy m = Ok () \<and> limits_ok m \<and> manifest_complete m \<and> inventory_rules m = Ok ()"
proof (cases "scan_artifacts (artifact_bytes (m_limits m)) (m_artifacts m) empty_scan")
  case (Inl e)
  then show ?thesis using complete_scans [of m] by (auto simp: validate_inner_def ok_simps)
next
  case (Inr st)
  then show ?thesis
    using scan_rules_complete [OF Inr]
    by (auto simp: validate_inner_def ok_simps limits_ok_def not_less)
qed


abbreviation other_errors :: "BundleError set" where
  "other_errors \<equiv> - {InvalidManifest ''artifact byte total overflow''}"

lemma rules_errs:
  "errs_in other_errors (status_rules legacy m)" "errs_in other_errors (role_rules roles)"
  "errs_in other_errors (primary_rules m paths)" "errs_in other_errors (optional_rule paths p r)"
  "errs_in other_errors (inventory_rules m)" "errs_in other_errors (scan_trials paths seen ts)"
  by (simp_all add: status_rules_def role_rules_def primary_rules_def optional_rule_def
      inventory_rules_def trial_body_def err_simps trial_scan.scan_errs trial_path_scan.scan_errs
      del: for_each_simps split: option.split)

text \<open>
  The overflow error of the artifact byte total is unreachable, for current and legacy
  manifests alike: the bounds checked before leave no room for it.
\<close>

theorem manifest_total_never_overflows:
  "validate_inner legacy m \<noteq> Err (InvalidManifest ''artifact byte total overflow'')"
proof (cases "limits_ok m")
  case True
  have scan: "scan_artifacts (artifact_bytes (m_limits m)) (m_artifacts m) empty_scan
      \<noteq> Err (InvalidManifest ''artifact byte total overflow'')"
    using limits_room [OF True] by (intro scan_artifacts_no_overflow) (simp_all add: empty_scan_def)
  have "errs_in other_errors (validate_inner legacy m)"
    using scan unfolding validate_inner_def
    by (intro errs_in_checks) (auto simp: rules_errs err_simps split: sum.split)
  then show ?thesis by (auto dest: errs_in_D)
next
  case False
  then have b: "bounds_unsupported (m_limits m)
      \<or> unat (count_get (artifact_count (m_limits m))) < length (m_artifacts m)"
    by (auto simp: limits_ok_def)
  have "errs_in other_errors (validate_inner legacy m)"
    using rules_errs(1) [of legacy m] unfolding validate_inner_def reject_if_def if_P [OF b]
    by (cases "status_rules legacy m") (simp_all add: err_simps)
  then show ?thesis by (auto dest: errs_in_D)
qed

text \<open>
  The relaxed rules for the view of a legacy manifest differ from the current rules in
  one thing only, a comparison artifact: version 1 carries no verdict to go with it.
\<close>

theorem legacy_view_rules:
  "validate_manifest (into_current_view l) = Ok () \<longleftrightarrow>
     validate_legacy_view (into_current_view l) = Ok () \<and> l_comparison l = None"
proof -
  have "status_rules False (into_current_view l) = Ok ()
      \<longleftrightarrow> status_rules True (into_current_view l) = Ok () \<and> l_comparison l = None"
    by (auto simp: status_rules_def ok_simps into_current_view_def)
  then show ?thesis by (auto simp: validate_manifest_def validate_legacy_view_def validate_inner_Ok)
qed

end
