(* ===== verification/BundleReader.thy ===== *)
theory BundleReader
  imports Manifest
begin

text \<open>
  The reader of an evidence bundle (\<open>BundleReader\<close> in \<open>eggbench-core/src/evidence.rs\<close>,
  Unix): opening a finalized directory, the choice of the manifest version, verification of
  the tree against the manifest, and bounded reads of listed artifacts.

  A bundle directory is the list of the non-directory entries below it, in the order the
  walk meets them: regular files, symbolic links and other nodes.  Directories are implied
  by the paths below them.  The tree does not change while it is read, and reading what was
  opened does not fail.  The JSON decoder and the hash function are parameters.
\<close>

section \<open>State\<close>

definition HASH_BUFFER_BYTES :: nat where
  "HASH_BUFFER_BYTES = 65536"
definition MAX_MANIFEST_BYTES :: nat where
  "MAX_MANIFEST_BYTES = 4194304"

type_synonym sha = "string \<Rightarrow> string"

datatype FileNode = Regular string | SymLink | SpecialFile string

type_synonym node_tree = "(string list \<times> FileNode) list"

record BundleDir =
  dir_path :: string
  dir_is_link :: bool
  dir_is_dir :: bool
  dir_tree :: node_tree

record ManifestCodec =
  peek_version :: "string \<Rightarrow> string + u64 option"
  parse_legacy :: "string \<Rightarrow> string + LegacyManifestV1"
  parse_current :: "string \<Rightarrow> string + BundleManifest"

record BundleReader =
  rd_root :: BundleDir
  rd_manifest :: BundleManifest
  rd_legacy_status :: "LegacyRunStatus option"

definition HEX :: string where
  "HEX = ''0123456789abcdef''"

definition to_hex :: "string \<Rightarrow> string" where
  "to_hex bytes = concat (map (\<lambda>b. [HEX ! (byte b div 16), HEX ! (byte b mod 16)]) bytes)"

definition to_path_buf :: "ArtifactPath \<Rightarrow> string list" where
  "to_path_buf p = split_char CHR ''/'' (path_text p)"

definition path_file_name :: "string \<Rightarrow> string option" where
  "path_file_name p =
    (let cs = path_components p in if cs = [] \<or> last cs = ''..'' then None else Some (last cs))"

definition path_extension :: "string \<Rightarrow> string option" where
  "path_extension p =
    (case path_file_name p of
       None \<Rightarrow> None
     | Some f \<Rightarrow> (case rsplit_once_char CHR ''.'' f of
         None \<Rightarrow> None
       | Some (stem, ext) \<Rightarrow> if stem = [] then None else Some ext))"

definition contains_str :: "string \<Rightarrow> string \<Rightarrow> bool" where
  "contains_str needle s \<longleftrightarrow> list_ex (prefix needle) (suffixes s)"

section \<open>Access to the tree\<close>

fun check_components :: "node_tree \<Rightarrow> string list \<Rightarrow> string list \<Rightarrow> BundleError + unit" where
  "check_components tree cursor [] = Ok ()"
| "check_components tree cursor (seg # segs) =
    (let cur = cursor @ [seg]
     in case map_of tree cur of
          Some SymLink \<Rightarrow> Err (SymlinkError (join_str ''/'' cur))
        | Some _ \<Rightarrow> if segs = [] then Ok () else Err (IoError ''not a directory'')
        | None \<Rightarrow> check_components tree cur segs)"

definition check_no_symlink_components :: "BundleDir \<Rightarrow> string list \<Rightarrow> BundleError + unit" where
  "check_no_symlink_components d relative =
    (if dir_is_link d then Err (SymlinkError (dir_path d)) else check_components (dir_tree d) [] relative)"

definition secure_open :: "node_tree \<Rightarrow> string list \<Rightarrow> BundleError + string" where
  "secure_open tree relative =
    (case map_of tree relative of
       Some (Regular bytes) \<Rightarrow> Ok bytes
     | Some (SpecialFile bytes) \<Rightarrow> Ok bytes
     | _ \<Rightarrow> Err (IoError ''open''))"

definition read_bounded :: "string \<Rightarrow> nat \<Rightarrow> string \<Rightarrow> BundleError + string" where
  "read_bounded bytes limit what =
    (let got = take (limit + 1) bytes in if limit < length got then Err (BoundExceeded what) else Ok got)"

section \<open>Verification\<close>

fun collect_files :: "node_tree \<Rightarrow> BundleError + string list list" where
  "collect_files [] = Ok []"
| "collect_files ((p, SymLink) # tree) = Err (SymlinkError (join_str ''/'' p))"
| "collect_files ((p, SpecialFile bytes) # tree) = Err (ExtraFile (join_str ''/'' p))"
| "collect_files ((p, Regular bytes) # tree) =
    (case collect_files tree of Err e \<Rightarrow> Err e | Ok ps \<Rightarrow> Ok (p # ps))"

definition verify_record :: "sha \<Rightarrow> node_tree \<Rightarrow> ArtifactRecord \<Rightarrow> BundleError + unit" where
  "verify_record sha tree a =
    (let path = to_path_buf (rec_path a)
     in case map_of tree path of
          None \<Rightarrow> Err (IoError ''metadata'')
        | Some SymLink \<Rightarrow> Err (SymlinkError (join_str ''/'' path))
        | Some (SpecialFile _) \<Rightarrow> Err (ArtifactVerification (rec_path a) ''not a regular file'')
        | Some (Regular bytes) \<Rightarrow>
            if of_nat (length bytes) \<noteq> rec_byte_size a then Err (ArtifactVerification (rec_path a) ''size mismatch'')
            else (case secure_open tree path of
                Err e \<Rightarrow> Err e
              | Ok content \<Rightarrow>
                  reject_if (to_hex (sha content) \<noteq> rec_sha256 a)
                    (ArtifactVerification (rec_path a) ''SHA-256 mismatch'')))"

definition verify_artifact_tree :: "sha \<Rightarrow> node_tree \<Rightarrow> ArtifactRecord list \<Rightarrow> bool \<Rightarrow> BundleError + unit" where
  "verify_artifact_tree sha tree artifacts manifest_present =
    (case collect_files tree of
       Err e \<Rightarrow> Err e
     | Ok found \<Rightarrow>
         (let expected = map (\<lambda>a. to_path_buf (rec_path a)) artifacts;
              actual = (if manifest_present then filter (\<lambda>f. f \<noteq> [''manifest.json'']) found else found)
          in case find (\<lambda>f. f \<notin> set expected) (sort actual) of
               Some extra \<Rightarrow> Err (ExtraFile (join_str ''/'' extra))
             | None \<Rightarrow>
                 (case find (\<lambda>f. f \<notin> set actual) (sort expected) of
                    Some missing \<Rightarrow>
                      (case ArtifactPath_new (join_str ''/'' missing) of
                         Err e \<Rightarrow> Err e
                       | Ok p \<Rightarrow> Err (MissingArtifact p))
                  | None \<Rightarrow> for_each (verify_record sha tree) artifacts)))"

definition validate_paths :: "BundleReader \<Rightarrow> BundleError + unit" where
  "validate_paths r =
    for_each (\<lambda>a. check_no_symlink_components (rd_root r) (to_path_buf (rec_path a))) (m_artifacts (rd_manifest r))"

definition verify :: "sha \<Rightarrow> BundleReader \<Rightarrow> BundleError + unit" where
  "verify sha r = checks
    [validate_paths r,
     verify_artifact_tree sha (dir_tree (rd_root r)) (m_artifacts (rd_manifest r)) True]"

section \<open>Opening\<close>

definition decode_manifest ::
  "ManifestCodec \<Rightarrow> string \<Rightarrow> BundleError + (BundleManifest \<times> LegacyRunStatus option)" where
  "decode_manifest codec bytes =
    (case peek_version codec bytes of
       Err e \<Rightarrow> Err (ManifestParse e)
     | Ok None \<Rightarrow> Err (ManifestParse ''missing schema_version'')
     | Ok (Some v) \<Rightarrow>
         if v = 1 then
           (case parse_legacy codec bytes of
              Err e \<Rightarrow> Err (ManifestParse e)
            | Ok l \<Rightarrow>
                if l_schema_version l \<noteq> SchemaVersion 1
                then Err (UnsupportedManifestVersion (version_number (l_schema_version l)))
                else Ok (into_current_view l, Some (l_status l)))
         else if v = 2 then
           (case parse_current codec bytes of
              Err e \<Rightarrow> Err (ManifestParse e)
            | Ok m \<Rightarrow> Ok (m, None))
         else Err (UnsupportedManifestVersion (if unat v < 2 ^ 32 then ucast v else - 1)))"

definition bundle_open :: "ManifestCodec \<Rightarrow> BundleDir \<Rightarrow> BundleError + BundleReader" where
  "bundle_open codec d =
    (let name = (case path_file_name (dir_path d) of None \<Rightarrow> [] | Some n \<Rightarrow> n)
     in if contains_str ''.staging-'' name \<or> path_extension (dir_path d) \<noteq> Some ''eggb''
        then Err IncompleteBundle
        else if dir_is_link d then Err (SymlinkError (dir_path d))
        else if \<not> dir_is_dir d then Err IncompleteBundle
        else (case map_of (dir_tree d) [''manifest.json''] of
            None \<Rightarrow> Err (IoError ''manifest metadata'')
          | Some SymLink \<Rightarrow> Err (SymlinkError ''manifest.json'')
          | Some node \<Rightarrow>
              if (case node of Regular bytes \<Rightarrow> MAX_MANIFEST_BYTES < length bytes | _ \<Rightarrow> False)
              then Err (BoundExceeded ''manifest bytes'')
              else (case secure_open (dir_tree d) [''manifest.json''] of
                  Err e \<Rightarrow> Err e
                | Ok content \<Rightarrow>
                    (case read_bounded content MAX_MANIFEST_BYTES ''manifest bytes'' of
                       Err e \<Rightarrow> Err e
                     | Ok bytes \<Rightarrow>
                         (case decode_manifest codec bytes of
                            Err e \<Rightarrow> Err e
                          | Ok (m, legacy) \<Rightarrow>
                              (let r = \<lparr>rd_root = d, rd_manifest = m, rd_legacy_status = legacy\<rparr>
                               in case checks
                                 [if legacy \<noteq> None then validate_legacy_view m else validate_manifest m,
                                  validate_paths r] of
                                    Err e \<Rightarrow> Err e
                                  | Ok _ \<Rightarrow> Ok r))))))"

definition open_artifact :: "BundleReader \<Rightarrow> ArtifactPath \<Rightarrow> BundleError + string" where
  "open_artifact r path =
    (if \<not> list_ex (\<lambda>a. rec_path a = path) (m_artifacts (rd_manifest r)) then Err (MissingArtifact path)
     else secure_open (dir_tree (rd_root r)) (to_path_buf path))"

definition manifest_bytes :: "BundleReader \<Rightarrow> BundleError + string" where
  "manifest_bytes r =
    (case secure_open (dir_tree (rd_root r)) [''manifest.json''] of
       Err e \<Rightarrow> Err e
     | Ok bytes \<Rightarrow> read_bounded bytes MAX_MANIFEST_BYTES ''manifest bytes'')"

section \<open>Facts on the tree\<close>

lemma to_path_buf_inject: "to_path_buf p = to_path_buf q \<longleftrightarrow> p = q"
proof
  assume "to_path_buf p = to_path_buf q"
  then have "join_str ''/'' (to_path_buf p) = join_str ''/'' (to_path_buf q)" by simp
  then show "p = q" by (simp add: to_path_buf_def join_split_char ArtifactPath.expand)
qed simp

lemma read_bounded_Ok: "read_bounded bytes limit what = Ok got \<longleftrightarrow> got = bytes \<and> length bytes \<le> limit"
  by (auto simp: read_bounded_def Let_def)

lemma collect_files_Ok:
  "collect_files tree = Ok ps \<longleftrightarrow> (\<forall>(p, n) \<in> set tree. \<exists>bytes. n = Regular bytes) \<and> ps = map fst tree"
  by (induction tree arbitrary: ps rule: collect_files.induct) (auto split: sum.splits, blast)

text \<open>
  A tree of a file system: no path occurs twice, and nothing lies below a node that is not a
  directory.
\<close>

definition tree_ok :: "node_tree \<Rightarrow> bool" where
  "tree_ok tree \<longleftrightarrow> distinct (map fst tree)
     \<and> (\<forall>p \<in> fst ` set tree. \<forall>q \<in> fst ` set tree. \<not> strict_prefix p q)"

lemma check_components_clean:
  assumes "tree_ok tree" and "map_of tree (cursor @ segs) = Some (Regular bytes)"
  shows "check_components tree cursor segs = Ok ()"
  using assms(2)
proof (induction segs arbitrary: cursor)
  case (Cons seg segs)
  show ?case
  proof (cases "segs = []")
    case True
    with Cons.prems show ?thesis by simp
  next
    case False
    then have strict: "strict_prefix (cursor @ [seg]) (cursor @ seg # segs)" by (auto simp: strict_prefix_def)
    have below: "cursor @ seg # segs \<in> fst ` set tree" using map_of_SomeD [OF Cons.prems] by force
    have "map_of tree (cursor @ [seg]) = None"
    proof (rule ccontr)
      assume "map_of tree (cursor @ [seg]) \<noteq> None"
      then have "cursor @ [seg] \<in> fst ` set tree" by (simp add: map_of_eq_None_iff)
      with below strict assms(1) show False unfolding tree_ok_def by blast
    qed
    with Cons show ?thesis by simp
  qed
qed simp

section \<open>What verification means\<close>

lemma find_reject_Ok:
  assumes "\<And>x. g x \<noteq> Ok ()"
  shows "(case find P xs of Some x \<Rightarrow> g x | None \<Rightarrow> r) = Ok () \<longleftrightarrow> (\<forall>x \<in> set xs. \<not> P x) \<and> r = Ok ()"
proof (cases "find P xs")
  case None
  with find_None_iff [of P xs] show ?thesis by simp
next
  case (Some x)
  then have "\<exists>x \<in> set xs. P x" by (auto simp: find_Some_iff)
  with Some assms show ?thesis by auto
qed

lemma verify_record_Ok:
  "verify_record sha tree a = Ok () \<longleftrightarrow>
     (\<exists>bytes. map_of tree (to_path_buf (rec_path a)) = Some (Regular bytes)
        \<and> of_nat (length bytes) = rec_byte_size a \<and> to_hex (sha bytes) = rec_sha256 a)"
  by (auto simp: verify_record_def Let_def secure_open_def reject_if_def split: option.splits FileNode.splits)

definition only_regular :: "node_tree \<Rightarrow> bool" where
  "only_regular tree \<longleftrightarrow> (\<forall>(p, n) \<in> set tree. \<exists>bytes. n = Regular bytes)"

lemma verify_tree_Ok:
  "verify_artifact_tree sha tree as present = Ok () \<longleftrightarrow>
     only_regular tree
     \<and> fst ` set tree - (if present then {[''manifest.json'']} else {}) = (\<lambda>a. to_path_buf (rec_path a)) ` set as
     \<and> (\<forall>a \<in> set as. verify_record sha tree a = Ok ())"
proof (cases "only_regular tree")
  case True
  then have "collect_files tree = Ok (map fst tree)" by (simp add: collect_files_Ok only_regular_def)
  moreover have "(case ArtifactPath_new x of Err e \<Rightarrow> Err e | Ok p \<Rightarrow> Err (MissingArtifact p)) \<noteq> Ok ()" for x
    by (simp split: sum.split)
  ultimately show ?thesis using True
    unfolding verify_artifact_tree_def Let_def
    by (simp add: find_reject_Ok ok_simps) auto
next
  case False
  then have "collect_files tree \<noteq> Ok ps" for ps by (simp add: collect_files_Ok only_regular_def)
  with False show ?thesis by (cases "collect_files tree") (auto simp: verify_artifact_tree_def)
qed

lemma bundle_open_Ok:
  assumes "bundle_open codec d = Ok r"
  shows "rd_root r = d" and "\<not> dir_is_link d" and "[''manifest.json''] \<in> fst ` set (dir_tree d)"
    and "limits_ok (rd_manifest r) \<and> manifest_complete (rd_manifest r)"
  using assms
  by (auto simp: bundle_open_def Let_def ok_simps validate_legacy_view_def validate_manifest_def validate_inner_Ok
      dest!: map_of_SomeD split: if_splits option.splits FileNode.splits sum.splits prod.splits
      intro: rev_image_eqI)

lemma validate_paths_verified:
  assumes "tree_ok (dir_tree (rd_root r))" and "\<not> dir_is_link (rd_root r)"
    and "\<forall>a \<in> set (m_artifacts (rd_manifest r)). verify_record sha (dir_tree (rd_root r)) a = Ok ()"
  shows "validate_paths r = Ok ()"
  using assms check_components_clean [OF assms(1), of "[]"]
  by (fastforce simp: validate_paths_def ok_simps check_no_symlink_components_def verify_record_Ok)


text \<open>
  In a verified bundle, an artifact can be read exactly when the manifest lists it, and
  then what is read has the size and the digest of its record; the manifest is within its
  bound, and so is the exact sum of the artifact sizes.
\<close>

theorem verified_artifacts_read_back:
  assumes "bundle_open codec d = Ok r" and "tree_ok (dir_tree d)" and "verify sha r = Ok ()"
  shows "(case open_artifact r p of
       Ok bytes \<Rightarrow> \<exists>a \<in> set (m_artifacts (rd_manifest r)). rec_path a = p
          \<and> rec_byte_size a = of_nat (length bytes) \<and> rec_sha256 a = to_hex (sha bytes)
     | Err e \<Rightarrow> e = MissingArtifact p \<and> p \<notin> rec_path ` set (m_artifacts (rd_manifest r)))
     \<and> byte_sum (m_artifacts (rd_manifest r)) \<le> unat (total_bytes (m_limits (rd_manifest r)))"
proof -
  note opened = bundle_open_Ok [OF assms(1)]
  from assms(3) opened(1) have rec: "verify_record sha (dir_tree d) a = Ok ()"
    if "a \<in> set (m_artifacts (rd_manifest r))" for a
    using that by (auto simp: verify_def ok_simps verify_tree_Ok)
  have "case open_artifact r p of
       Ok bytes \<Rightarrow> \<exists>a \<in> set (m_artifacts (rd_manifest r)). rec_path a = p
          \<and> rec_byte_size a = of_nat (length bytes) \<and> rec_sha256 a = to_hex (sha bytes)
     | Err e \<Rightarrow> e = MissingArtifact p \<and> p \<notin> rec_path ` set (m_artifacts (rd_manifest r))"
  proof (cases "\<exists>a \<in> set (m_artifacts (rd_manifest r)). rec_path a = p")
    case True
    then obtain a where a: "a \<in> set (m_artifacts (rd_manifest r))" "rec_path a = p" by auto
    with rec [OF a(1)] opened(1) show ?thesis
      by (auto simp: open_artifact_def list_ex_iff verify_record_Ok secure_open_def)
  next
    case False
    then show ?thesis by (auto simp: open_artifact_def list_ex_iff)
  qed
  with opened(4) show ?thesis by (simp add: manifest_complete_def)
qed

end
