(* ===== verification/BundleWriter.thy ===== *)
theory BundleWriter
  imports BundleReader
begin

text \<open>
  The writer of an evidence bundle (\<open>BundleWriter\<close> in \<open>eggbench-core/src/evidence.rs\<close>):
  creation, streaming of artifacts under byte and count bounds, verification of the staged
  tree and finalization.

  The staging directory is part of the state: its regular files as a \<open>BTreeMap\<close> from path
  components to contents, and its directories.  Nothing else writes there, as its name is
  fresh.  Failures of the operating system are inputs: the steps of the source, and the
  flags of the record \<open>WriterIo\<close>.  The hash function (\<open>sha2\<close>), the JSON encoder and the
  clock are parameters.

  The lemmas keep an invariant over every sequence of operations: the recorded artifacts are
  exactly the staged files with their sizes and digests, and all bounds hold.
\<close>

section \<open>State\<close>

type_synonym file_tree = "(string list, string) BTreeMap"

record BundleWriter =
  w_final_path :: string
  w_run_id :: string
  w_created_unix_ms :: u64
  w_bounds :: ArtifactBounds
  w_artifacts :: "(ArtifactPath, ArtifactRecord) BTreeMap"
  w_total_bytes :: u64
  w_paired_record :: "PairedRunRecord option"
  w_files :: file_tree
  w_dirs :: "string list set"

text \<open>One \<open>read\<close> of the source: it fails, or yields bytes that are then written or not.\<close>

datatype SourceStep = ReadFails | Chunk (chunk_bytes: string) (chunk_written: bool)

record WriterIo =
  io_mkdir :: "string list \<Rightarrow> bool"
  io_open :: bool
  io_sync :: bool

section \<open>Creation\<close>

record CreateEnv =
  env_exists :: "string \<Rightarrow> bool"
  env_parent_is_dir :: "string \<Rightarrow> bool"
  env_staging_created :: bool
  env_now_ms :: "u64 option"

text \<open>A destination that is a bare file name is placed under \<open>.\<close>.\<close>

definition place :: "string \<Rightarrow> string" where
  "place p = (if prefix ''./'' p \<or> path_is_absolute p \<or> length (path_components p) \<noteq> 1 then p else ''./'' @ p)"

definition create_writer :: "CreateEnv \<Rightarrow> string \<Rightarrow> string \<Rightarrow> ArtifactBounds \<Rightarrow> BundleError + BundleWriter" where
  "create_writer env final_path run_id b =
    (case checks
      [reject_if (path_extension final_path \<noteq> Some ''eggb'')
         (InvalidManifest ''bundle destination must end in .eggb''),
       reject_if (env_exists env (place final_path)) (DestinationExists (place final_path)),
       reject_if (\<not> env_parent_is_dir env (place final_path)) (IoError ''bundle parent directory does not exist''),
       validate_bounds b,
       reject_if (\<not> env_staging_created env) (IoError ''staging'')] of
       Err e \<Rightarrow> Err e
     | Ok _ \<Rightarrow>
         (case env_now_ms env of
            None \<Rightarrow> Err (IoError ''system clock'')
          | Some now \<Rightarrow> Ok \<lparr>w_final_path = place final_path, w_run_id = run_id, w_created_unix_ms = now,
              w_bounds = b, w_artifacts = [], w_total_bytes = 0, w_paired_record = None,
              w_files = [], w_dirs = {}\<rparr>))"

definition set_paired_record :: "PairedRunRecord \<Rightarrow> BundleWriter \<Rightarrow> BundleWriter" where
  "set_paired_record r w = w \<lparr>w_paired_record := Some r\<rparr>"

definition remaining_artifact_count :: "BundleWriter \<Rightarrow> nat" where
  "remaining_artifact_count w = unat (count_get (artifact_count (w_bounds w))) - length (w_artifacts w)"

definition remaining_total_bytes :: "BundleWriter \<Rightarrow> u64" where
  "remaining_total_bytes w = total_bytes (w_bounds w) - w_total_bytes w"

definition max_artifact_bytes :: "BundleWriter \<Rightarrow> u64" where
  "max_artifact_bytes w = artifact_bytes (w_bounds w)"

section \<open>Adding an artifact\<close>

fun create_safe_parents ::
  "WriterIo \<Rightarrow> file_tree \<Rightarrow> string list set \<Rightarrow> string list \<Rightarrow> string list
    \<Rightarrow> string list set \<times> (BundleError + unit)" where
  "create_safe_parents io files dirs cursor [] = (dirs, Ok ())"
| "create_safe_parents io files dirs cursor [leaf] = (dirs, Ok ())"
| "create_safe_parents io files dirs cursor (seg # segs) =
    (let cur = cursor @ [seg]
     in if cur \<in> dirs then create_safe_parents io files dirs cur segs
        else if bt_contains files cur then (dirs, Err (UnsafeArtifactPath (join_str ''/'' cur)))
        else if \<not> io_mkdir io cur then (dirs, Err (IoError ''create_dir''))
        else create_safe_parents io files (insert cur dirs) cur segs)"

fun copy_chunks ::
  "ArtifactBounds \<Rightarrow> u64 \<Rightarrow> u64 \<Rightarrow> string \<Rightarrow> SourceStep list \<Rightarrow> BundleError + (u64 \<times> u64 \<times> string)" where
  "copy_chunks b sz acc content [] = Ok (sz, acc, content)"
| "copy_chunks b sz acc content (ReadFails # steps) = Err (IoError ''read'')"
| "copy_chunks b sz acc content (Chunk bytes written # steps) =
    (if bytes = [] then Ok (sz, acc, content)
     else (case checked_add sz (of_nat (length bytes)) of
         None \<Rightarrow> Err (BoundExceeded ''artifact byte size'')
       | Some next_size \<Rightarrow>
           (case checked_add acc (of_nat (length bytes)) of
              None \<Rightarrow> Err (BoundExceeded ''total bytes'')
            | Some next_total \<Rightarrow>
                if artifact_bytes b < next_size then Err (BoundExceeded ''individual artifact bytes'')
                else if total_bytes b < next_total then Err (BoundExceeded ''total artifact bytes'')
                else if \<not> written then Err (IoError ''write'')
                else copy_chunks b next_size next_total (content @ bytes) steps)))"

definition admission :: "ArtifactPath \<Rightarrow> string \<Rightarrow> BundleWriter \<Rightarrow> BundleError + unit" where
  "admission path media_type w = checks
    [reject_if (bad_media_type media_type) (InvalidManifest ''invalid media type''),
     reject_if (bt_contains (w_artifacts w) path) (InvalidManifest ''duplicate artifact path''),
     reject_if (unat (count_get (artifact_count (w_bounds w))) \<le> length (w_artifacts w)
         \<or> MAX_ARTIFACT_COUNT \<le> length (w_artifacts w))
       (BoundExceeded ''artifact count'')]"

text \<open>
  The result and the writer afterwards.  A file that was created and not completed is
  removed again; directories made on the way stay.
\<close>

definition add_artifact ::
  "sha \<Rightarrow> WriterIo \<Rightarrow> ArtifactPath \<Rightarrow> ArtifactRole \<Rightarrow> string \<Rightarrow> Sensitivity \<Rightarrow> SourceStep list
    \<Rightarrow> BundleWriter \<Rightarrow> (BundleError + ArtifactRecord) \<times> BundleWriter" where
  "add_artifact sha io path role media_type sensitivity source w =
    (case admission path media_type w of
       Err e \<Rightarrow> (Err e, w)
     | Ok _ \<Rightarrow>
         (let dest = to_path_buf path;
              (dirs, made) = create_safe_parents io (w_files w) (w_dirs w) [] dest;
              w1 = w \<lparr>w_dirs := dirs\<rparr>
          in case made of
               Err e \<Rightarrow> (Err e, w1)
             | Ok _ \<Rightarrow>
                 if bt_contains (w_files w) dest \<or> dest \<in> dirs \<or> \<not> io_open io then (Err (IoError ''open''), w1)
                 else (case copy_chunks (w_bounds w) 0 (w_total_bytes w) [] source of
                     Err e \<Rightarrow> (Err e, w1)
                   | Ok (sz, acc, content) \<Rightarrow>
                       if \<not> io_sync io then (Err (IoError ''sync''), w1)
                       else
                         (let rec = \<lparr>rec_path = path, rec_role = role, rec_media_type = media_type,
                            rec_sensitivity = sensitivity, rec_byte_size = sz,
                            rec_sha256 = to_hex (sha content)\<rparr>
                          in (Ok rec, w1 \<lparr>w_total_bytes := acc,
                               w_artifacts := bt_insert path rec (w_artifacts w1),
                               w_files := bt_insert dest content (w_files w1)\<rparr>)))))"

section \<open>Verification and finalization\<close>

definition nodes :: "file_tree \<Rightarrow> node_tree" where
  "nodes files = map (\<lambda>(p, content). (p, Regular content)) files"

definition find_role :: "BundleWriter \<Rightarrow> ArtifactRole \<Rightarrow> ArtifactPath option" where
  "find_role w r = map_option rec_path (find (\<lambda>a. rec_role a = r) (map snd (w_artifacts w)))"

definition sorted_trial :: "TrialDescriptor \<Rightarrow> TrialDescriptor" where
  "sorted_trial t = t \<lparr>trial_artifacts := sort (trial_artifacts t)\<rparr>"

definition assemble_manifest ::
  "BundleWriter \<Rightarrow> ExecutionStatus \<Rightarrow> ComparisonVerdict option \<Rightarrow> Subject \<Rightarrow> DriverDescriptor list
    \<Rightarrow> TrialDescriptor list \<Rightarrow> ArtifactPath option \<Rightarrow> ArtifactPath option \<Rightarrow> u64
    \<Rightarrow> BundleError + BundleManifest" where
  "assemble_manifest w status verdict subj drivers ts comparison report now =
    (case (find_role w RolePlan, find_role w RoleResolvedPlan, find_role w RoleEnvironment) of
       (None, _, _) \<Rightarrow> Err (InvalidManifest ''required plan artifact is absent'')
     | (Some _, None, _) \<Rightarrow> Err (InvalidManifest ''required resolved-plan artifact is absent'')
     | (Some _, Some _, None) \<Rightarrow> Err (InvalidManifest ''required environment artifact is absent'')
     | (Some p, Some rp, Some env) \<Rightarrow> Ok
        \<lparr>m_schema_version = EVIDENCE_MANIFEST_SCHEMA_VERSION, m_run_id = w_run_id w,
         m_execution_status = Some status, m_comparison_verdict = verdict, m_subject = subj,
         m_created_unix_ms = Some (w_created_unix_ms w), m_finalized_unix_ms = Some now,
         m_plan = p, m_resolved_plan = rp, m_environment = env,
         m_trials = sort_key (\<lambda>t. trial_get (trial_ident t)) (map sorted_trial ts),
         m_comparison = comparison, m_paired = w_paired_record w, m_report = report,
         m_drivers = sort_key drv_name drivers, m_limits = w_bounds w,
         m_artifacts = map snd (w_artifacts w), m_finalized = True\<rparr>)"

text \<open>
  The published bundle, opened and verified again.  \<open>encode\<close> is the JSON encoder,
  \<open>published\<close> tells whether the manifest file could be written and the directory renamed.
\<close>

definition published_dir :: "BundleWriter \<Rightarrow> string \<Rightarrow> BundleDir" where
  "published_dir w bytes = \<lparr>dir_path = w_final_path w, dir_is_link = False, dir_is_dir = True,
     dir_tree = nodes (bt_insert [''manifest.json''] bytes (w_files w))\<rparr>"

definition finalize ::
  "sha \<Rightarrow> ManifestCodec \<Rightarrow> (BundleManifest \<Rightarrow> string option) \<Rightarrow> bool \<Rightarrow> BundleWriter \<Rightarrow> ExecutionStatus
    \<Rightarrow> ComparisonVerdict option \<Rightarrow> Subject \<Rightarrow> DriverDescriptor list \<Rightarrow> TrialDescriptor list
    \<Rightarrow> ArtifactPath option \<Rightarrow> ArtifactPath option \<Rightarrow> u64 \<Rightarrow> BundleError + BundleReader" where
  "finalize sha codec encode published w status verdict subj drivers ts comparison report now =
    (case assemble_manifest w status verdict subj drivers ts comparison report now of
       Err e \<Rightarrow> Err e
     | Ok m \<Rightarrow>
         (case checks [validate_manifest m, verify_artifact_tree sha (nodes (w_files w)) (m_artifacts m) False] of
            Err e \<Rightarrow> Err e
          | Ok _ \<Rightarrow>
              (case encode m of
                 None \<Rightarrow> Err (ManifestParse ''encode'')
               | Some bytes \<Rightarrow>
                   if MAX_MANIFEST_BYTES < length bytes then Err (BoundExceeded ''manifest bytes'')
                   else if bt_contains (w_files w) [''manifest.json''] \<or> [''manifest.json''] \<in> w_dirs w \<or> \<not> published then Err (IoError ''publish'')
                   else (case bundle_open codec (published_dir w bytes) of
                       Err e \<Rightarrow> Err e
                     | Ok r \<Rightarrow> (case verify sha r of Err e \<Rightarrow> Err e | Ok _ \<Rightarrow> Ok r)))))"

section \<open>Copying under the bounds\<close>

text \<open>A reader returns at most as many bytes as the buffer it is given.\<close>

definition source_ok :: "SourceStep list \<Rightarrow> bool" where
  "source_ok steps \<longleftrightarrow> (\<forall>st \<in> set steps. case st of ReadFails \<Rightarrow> True
     | Chunk bytes _ \<Rightarrow> length bytes \<le> HASH_BUFFER_BYTES)"

lemma copy_chunks_Ok:
  assumes "copy_chunks b sz acc content steps = Ok (sz', acc', content')" and "source_ok steps"
    and "unat sz = length content" and "sz \<le> artifact_bytes b" and "acc \<le> total_bytes b"
  shows "unat sz' = length content' \<and> unat acc' + length content = unat acc + length content'
    \<and> sz' \<le> artifact_bytes b \<and> acc' \<le> total_bytes b \<and> prefix content content'"
  using assms
proof (induction b sz acc content steps rule: copy_chunks.induct)
  case (3 b sz acc content bytes written steps)
  show ?case
  proof (cases "bytes = []")
    case True
    with 3 show ?thesis by simp
  next
    case False
    with "3.prems"(1) obtain s t where st: "checked_add sz (of_nat (length bytes)) = Some s"
      "checked_add acc (of_nat (length bytes)) = Some t" "\<not> artifact_bytes b < s"
      "\<not> total_bytes b < t" "\<not> \<not> written"
      and rest: "copy_chunks b s t (content @ bytes) steps = Ok (sz', acc', content')"
      by (auto split: option.splits if_splits)
    from "3.prems"(2) have len: "length bytes < 2 ^ 64" and ok: "source_ok steps"
      by (simp_all add: source_ok_def HASH_BUFFER_BYTES_def)
    from len have "unat (of_nat (length bytes) :: u64) = length bytes"
      by (simp add: unat_of_nat take_bit_nat_eq_self)
    with checked_add_Some [OF st(1)] checked_add_Some [OF st(2)] "3.prems"(3)
    have "unat s = length (content @ bytes)" "unat t = unat acc + length bytes" by simp_all
    moreover from st(3,4) have "s \<le> artifact_bytes b" "t \<le> total_bytes b" by simp_all
    ultimately have "unat sz' = length content' \<and> unat acc' + length (content @ bytes) = unat t + length content'
      \<and> sz' \<le> artifact_bytes b \<and> acc' \<le> total_bytes b \<and> prefix (content @ bytes) content'"
      using "3.IH" [OF False st rest ok] by simp
    with \<open>unat t = unat acc + length bytes\<close> show ?thesis
      by (auto dest: append_prefixD)
  qed
qed auto

lemma byte_sum_insert:
  "\<not> bt_contains m p \<Longrightarrow> byte_sum (map snd (bt_insert p a m)) = byte_sum (map snd m) + unat (rec_byte_size a)"
  by (induction m) (auto simp: byte_sum_def bt_contains_def)

lemma length_bt_insert: "\<not> bt_contains m k \<Longrightarrow> length (bt_insert k v m) = Suc (length m)"
  by (induction m) (auto simp: bt_contains_def)

section \<open>The invariant of the writer\<close>

definition staged :: "sha \<Rightarrow> BundleWriter \<Rightarrow> ArtifactPath \<Rightarrow> ArtifactRecord \<Rightarrow> bool" where
  "staged sha w p a \<longleftrightarrow> rec_path a = p \<and> \<not> bad_media_type (rec_media_type a)
     \<and> rec_byte_size a \<le> artifact_bytes (w_bounds w)
     \<and> (\<exists>content. bt_get (w_files w) (to_path_buf p) = Some content
          \<and> unat (rec_byte_size a) = length content \<and> rec_sha256 a = to_hex (sha content))"

text \<open>Every directory above a file is known as one, and no path is both.\<close>

definition layout_ok :: "file_tree \<Rightarrow> string list set \<Rightarrow> bool" where
  "layout_ok files dirs \<longleftrightarrow> \<not> bt_contains files [] \<and> (\<forall>p. bt_contains files p \<longrightarrow> p \<notin> dirs)
     \<and> (\<forall>p q. bt_contains files q \<longrightarrow> strict_prefix p q \<longrightarrow> p \<noteq> [] \<longrightarrow> p \<in> dirs)"

lemma strict_prefix_singleton: "strict_prefix p [x] \<longleftrightarrow> p = []"
  by (cases p) auto

lemma create_safe_parents_dirs:
  assumes "create_safe_parents io files dirs cursor segs = (dirs', r)"
    and "\<forall>p. bt_contains files p \<longrightarrow> p \<notin> dirs"
  shows "dirs \<subseteq> dirs' \<and> (\<forall>p. bt_contains files p \<longrightarrow> p \<notin> dirs')
     \<and> (r = Ok () \<longrightarrow> (\<forall>p. p \<noteq> [] \<longrightarrow> strict_prefix p segs \<longrightarrow> cursor @ p \<in> dirs'))"
  using assms
proof (induction io files dirs cursor segs rule: create_safe_parents.induct)
  case (3 io files dirs cursor seg s segs)
  have below: "p \<noteq> [] \<Longrightarrow> strict_prefix p (seg # s # segs) \<Longrightarrow> p = [seg] \<or>
      (\<exists>p'. p = seg # p' \<and> p' \<noteq> [] \<and> strict_prefix p' (s # segs))" for p
    by (cases p) auto
  have extend: "\<forall>p. p \<noteq> [] \<longrightarrow> strict_prefix p (seg # s # segs) \<longrightarrow> cursor @ p \<in> dirs'"
    if "\<forall>p. p \<noteq> [] \<longrightarrow> strict_prefix p (s # segs) \<longrightarrow> (cursor @ [seg]) @ p \<in> dirs'" "cursor @ [seg] \<in> dirs'"
  proof (intro allI impI)
    fix p
    assume "p \<noteq> []" "strict_prefix p (seg # s # segs)"
    from below [OF this] that show "cursor @ p \<in> dirs'" by auto
  qed
  show ?case
  proof (cases "cursor @ [seg] \<in> dirs")
    case True
    with 3(3) have rest: "create_safe_parents io files dirs (cursor @ [seg]) (s # segs) = (dirs', r)"
      by (simp add: Let_def)
    note ih = 3(1) [OF refl True rest 3(4)]
    with True extend show ?thesis by blast
  next
    case False
    show ?thesis
    proof (cases "bt_contains files (cursor @ [seg]) \<or> \<not> io_mkdir io (cursor @ [seg])")
      case True
      with False 3 show ?thesis by (auto simp: Let_def split: if_splits)
    next
      case 2: False
      from 2 False 3(3) have rest: "create_safe_parents io files (insert (cursor @ [seg]) dirs) (cursor @ [seg]) (s # segs) = (dirs', r)"
        by (simp add: Let_def)
      from 2 3(4) have "\<forall>p. bt_contains files p \<longrightarrow> p \<notin> insert (cursor @ [seg]) dirs" by auto
      note ih = 3(2) [OF refl False _ _ rest this]
      with 2 extend show ?thesis by blast
    qed
  qed
qed (auto simp: strict_prefix_singleton)

definition writer_inv :: "sha \<Rightarrow> BundleWriter \<Rightarrow> bool" where
  "writer_inv sha w \<longleftrightarrow>
     \<not> bounds_unsupported (w_bounds w) \<and> bt_ok (w_artifacts w) \<and> bt_ok (w_files w)
     \<and> length (w_artifacts w) \<le> unat (count_get (artifact_count (w_bounds w)))
     \<and> (\<forall>(p, a) \<in> set (w_artifacts w). staged sha w p a)
     \<and> dom (bt_get (w_files w)) = to_path_buf ` fst ` set (w_artifacts w)
     \<and> unat (w_total_bytes w) = byte_sum (map snd (w_artifacts w))
     \<and> w_total_bytes w \<le> total_bytes (w_bounds w)
     \<and> layout_ok (w_files w) (w_dirs w)"

lemma create_writer_inv: "create_writer env path run b = Ok w \<Longrightarrow> writer_inv sha w \<and> w_artifacts w = []"
  by (auto simp: create_writer_def validate_bounds_def ok_simps writer_inv_def byte_sum_def layout_ok_def
      bt_contains_def split: sum.splits option.splits)

lemma add_artifact_cases:
  assumes "add_artifact sha io path role mt sens source w = (r, w')"
  obtains (failed) e where "r = Err e" and "w_artifacts w' = w_artifacts w"
      and "w_total_bytes w' = w_total_bytes w" and "w_files w' = w_files w"
      and "w_bounds w' = w_bounds w"
      and "w_dirs w' = w_dirs w \<or> w_dirs w' = fst (create_safe_parents io (w_files w) (w_dirs w) [] (to_path_buf path))"
  | (added) sz acc content a where "r = Ok a" and "admission path mt w = Ok ()"
      and "copy_chunks (w_bounds w) 0 (w_total_bytes w) [] source = Ok (sz, acc, content)"
      and "a = \<lparr>rec_path = path, rec_role = role, rec_media_type = mt, rec_sensitivity = sens,
        rec_byte_size = sz, rec_sha256 = to_hex (sha content)\<rparr>"
      and "w_artifacts w' = bt_insert path a (w_artifacts w)" and "w_total_bytes w' = acc"
      and "w_files w' = bt_insert (to_path_buf path) content (w_files w)"
      and "\<not> bt_contains (w_files w) (to_path_buf path)" and "w_bounds w' = w_bounds w"
      and "create_safe_parents io (w_files w) (w_dirs w) [] (to_path_buf path) = (w_dirs w', Ok ())"
      and "to_path_buf path \<notin> w_dirs w'"
  using assms
  by (auto simp: add_artifact_def Let_def split: sum.splits prod.splits if_splits)

lemma bt_contains_keys: "bt_contains m k \<longleftrightarrow> k \<in> fst ` set m"
  by (auto simp: bt_contains_def)

lemma bt_contains_insert: "bt_contains (bt_insert k v m) p \<longleftrightarrow> p = k \<or> bt_contains m p"
  by (simp add: bt_contains_keys bt_insert_keys)

lemma add_artifact_layout:
  assumes "add_artifact sha io path role mt sens source w = (r, w')"
    and "layout_ok (w_files w) (w_dirs w)"
  shows "layout_ok (w_files w') (w_dirs w')"
  using assms(1)
proof (cases rule: add_artifact_cases)
  case (failed e)
  let ?c = "create_safe_parents io (w_files w) (w_dirs w) [] (to_path_buf path)"
  have "w_dirs w \<subseteq> fst ?c \<and> (\<forall>p. bt_contains (w_files w) p \<longrightarrow> p \<notin> fst ?c)"
    using create_safe_parents_dirs [of io "w_files w" "w_dirs w" "[]" "to_path_buf path" "fst ?c" "snd ?c"] assms(2)
    by (simp add: layout_ok_def)
  with failed(6) have "w_dirs w \<subseteq> w_dirs w' \<and> (\<forall>p. bt_contains (w_files w) p \<longrightarrow> p \<notin> w_dirs w')"
    using assms(2) by (auto simp: layout_ok_def)
  with failed(4) assms(2) show ?thesis unfolding layout_ok_def by (simp add: subset_iff)
next
  case (added sz acc content a)
  have "w_dirs w \<subseteq> w_dirs w' \<and> (\<forall>p. bt_contains (w_files w) p \<longrightarrow> p \<notin> w_dirs w')
      \<and> (\<forall>p. p \<noteq> [] \<longrightarrow> strict_prefix p (to_path_buf path) \<longrightarrow> p \<in> w_dirs w')"
    using create_safe_parents_dirs [OF added(10)] assms(2) by (simp add: layout_ok_def)
  moreover have "to_path_buf path \<noteq> []" by (simp add: to_path_buf_def)
  ultimately show ?thesis using added(7,11) assms(2)
    unfolding layout_ok_def by (simp add: bt_contains_insert) blast
qed

lemma add_artifact_inv:
  assumes add: "add_artifact sha io path role mt sens source w = (r, w')"
    and inv: "writer_inv sha w" and src: "source_ok source"
  shows "writer_inv sha w'"
  using add
proof (cases rule: add_artifact_cases)
  case (failed e)
  have "layout_ok (w_files w') (w_dirs w')" using add_artifact_layout [OF add] inv by (simp add: writer_inv_def)
  with failed inv show ?thesis by (simp add: writer_inv_def staged_def)
next
  case (added sz acc content a)
  from inv have ok: "bt_ok (w_artifacts w)" "bt_ok (w_files w)" by (auto simp: writer_inv_def)
  from inv have "copy_chunks (w_bounds w) 0 (w_total_bytes w) [] source = Ok (sz, acc, content) \<Longrightarrow>
      unat sz = length content \<and> unat acc = unat (w_total_bytes w) + length content
      \<and> sz \<le> artifact_bytes (w_bounds w) \<and> acc \<le> total_bytes (w_bounds w)"
    using copy_chunks_Ok [of "w_bounds w" 0 "w_total_bytes w" "[]" source sz acc content] src
    by (auto simp: writer_inv_def)
  with added(3) have copied: "unat sz = length content" "unat acc = unat (w_total_bytes w) + length content"
    "sz \<le> artifact_bytes (w_bounds w)" "acc \<le> total_bytes (w_bounds w)" by auto
  from added(2) have fresh: "\<not> bt_contains (w_artifacts w) path" and mt: "\<not> bad_media_type mt"
    and count: "length (w_artifacts w) < unat (count_get (artifact_count (w_bounds w)))"
    by (auto simp: admission_def ok_simps)
  then have fresh': "bt_get (w_artifacts w) path = None" by (simp add: bt_contains_get)
  have "staged sha w' q c" if "(q, c) \<in> set (w_artifacts w')" for q c
  proof (cases "q = path")
    case True
    with that added(5) ok bt_insert_fresh_set [OF ok(1) fresh'] fresh have "c = a"
      by (auto simp: bt_contains_def image_iff)
    with True added copied mt ok show ?thesis by (simp add: staged_def bt_get_insert)
  next
    case False
    with that added(5) bt_insert_fresh_set [OF ok(1) fresh'] have "(q, c) \<in> set (w_artifacts w)" by auto
    with inv have "staged sha w q c" by (auto simp: writer_inv_def)
    with False added ok show ?thesis by (auto simp: staged_def bt_get_insert to_path_buf_inject)
  qed
  moreover have "dom (bt_get (w_files w')) = to_path_buf ` fst ` set (w_artifacts w')"
    using inv added ok by (simp add: writer_inv_def bt_get_insert bt_insert_keys)
  moreover have "unat (w_total_bytes w') = byte_sum (map snd (w_artifacts w'))"
    using inv added copied byte_sum_insert [OF fresh, of a] by (simp add: writer_inv_def)
  moreover have "length (w_artifacts w') \<le> unat (count_get (artifact_count (w_bounds w')))"
    using added count length_bt_insert [OF fresh, of a] by simp
  moreover have "layout_ok (w_files w') (w_dirs w')" using add_artifact_layout [OF add] inv by (simp add: writer_inv_def)
  ultimately show ?thesis
    using inv added ok copied by (auto simp: writer_inv_def bt_ok_insert)
qed

section \<open>Every sequence of operations\<close>

text \<open>An \<open>ArtifactPath\<close> exists only as a value its constructor returned.\<close>

inductive writer_reachable :: "sha \<Rightarrow> BundleWriter \<Rightarrow> bool" for sha where
  created: "create_writer env path run b = Ok w \<Longrightarrow> writer_reachable sha w"
| artifact: "writer_reachable sha w \<Longrightarrow> \<not> unsafe_path (path_text path) \<Longrightarrow> source_ok source \<Longrightarrow>
    add_artifact sha io path role mt sens source w = (r, w') \<Longrightarrow> writer_reachable sha w'"
| paired_record: "writer_reachable sha w \<Longrightarrow> writer_reachable sha (set_paired_record pr w)"

lemma reachable_inv: "writer_reachable sha w \<Longrightarrow> writer_inv sha w"
proof (induction rule: writer_reachable.induct)
  case (created env path run b w)
  then show ?case by (simp add: create_writer_inv)
next
  case (artifact w path source io role mt sens r w')
  then show ?case by (auto intro: add_artifact_inv)
next
  case (paired_record w pr)
  then show ?case by (simp add: writer_inv_def set_paired_record_def staged_def)
qed

lemma reachable_paths:
  "writer_reachable sha w \<Longrightarrow> (p, a) \<in> set (w_artifacts w) \<Longrightarrow> \<not> unsafe_path (path_text p)"
proof (induction arbitrary: p a rule: writer_reachable.induct)
  case (created env path run b w)
  then show ?case using create_writer_inv by fastforce
next
  case (artifact w path source io role mt sens r w')
  from artifact.hyps(4) show ?case
  proof (cases rule: add_artifact_cases)
    case (failed e)
    with artifact show ?thesis by auto
  next
    case (added sz acc content b)
    with artifact show ?thesis by (auto dest: bt_insert_entry)
  qed
next
  case (paired_record w pr)
  then show ?case by (simp add: set_paired_record_def)
qed

text \<open>
  C10: Whatever sequence of operations a bundle writer went through, its artifacts are within
  the declared count, each within the individual bound, their sizes add up to the recorded
  total without overflow, the total is within its bound, and the two \<open>remaining\<close> queries are
  the exact differences (their saturating subtractions never saturate).
\<close>

theorem writer_within_bounds:
  assumes "writer_reachable sha w"
  shows "length (w_artifacts w) + remaining_artifact_count w = unat (count_get (artifact_count (w_bounds w)))
    \<and> byte_sum (map snd (w_artifacts w)) = unat (w_total_bytes w)
    \<and> byte_sum (map snd (w_artifacts w)) + unat (remaining_total_bytes w) = unat (total_bytes (w_bounds w))
    \<and> list_all (\<lambda>(p, a). rec_path a = p \<and> rec_byte_size a \<le> max_artifact_bytes w) (w_artifacts w)"
proof -
  from reachable_inv [OF assms] show ?thesis
    by (auto simp: writer_inv_def remaining_artifact_count_def remaining_total_bytes_def
        max_artifact_bytes_def staged_def list_all_iff unat_sub word_le_nat_alt)
qed

fun source_bytes :: "SourceStep list \<Rightarrow> string" where
  "source_bytes (Chunk bytes written # steps) = (if bytes = [] then [] else bytes @ source_bytes steps)"
| "source_bytes _ = []"

lemma copy_chunks_content:
  "copy_chunks b sz acc content steps = Ok (sz', acc', content') \<Longrightarrow> content' = content @ source_bytes steps"
proof (induction b sz acc content steps rule: copy_chunks.induct)
  case (3 b sz acc content bytes written steps)
  then show ?case by (cases "bytes = []") (auto split: option.splits if_splits)
qed auto


section \<open>The published bundle\<close>

lemma nodes_keys: "map fst (nodes files) = map fst files"
  by (auto simp: nodes_def)

lemma nodes_set: "fst ` set (nodes files) = fst ` set files"
  by (force simp: nodes_def)

lemma nodes_get: "map_of (nodes files) p = map_option Regular (bt_get files p)"
  by (induction files) (auto simp: nodes_def bt_get_def)

lemma reachable_record:
  assumes "writer_reachable sha w" and "a \<in> set (map snd (w_artifacts w))"
  shows "verify_record sha (nodes (w_files w)) a = Ok ()" and "to_path_buf (rec_path a) \<noteq> [''manifest.json'']"
proof -
  note inv = reachable_inv [OF assms(1), unfolded writer_inv_def]
  from assms(2) inv obtain p where p: "(p, a) \<in> set (w_artifacts w)" and st: "staged sha w p a" by force
  from st obtain content where content: "bt_get (w_files w) (to_path_buf (rec_path a)) = Some content"
      "unat (rec_byte_size a) = length content" "rec_sha256 a = to_hex (sha content)"
    by (auto simp: staged_def)
  then show "verify_record sha (nodes (w_files w)) a = Ok ()"
    by (simp add: verify_record_Ok nodes_get flip: content(2))
  show "to_path_buf (rec_path a) \<noteq> [''manifest.json'']"
  proof
    assume "to_path_buf (rec_path a) = [''manifest.json'']"
    moreover have "join_str ''/'' (to_path_buf (rec_path a)) = path_text (rec_path a)"
      by (simp add: to_path_buf_def join_split_char)
    ultimately have "path_text (rec_path a) = ''manifest.json''" by simp
    with reachable_paths [OF assms(1) p] st show False
      by (auto simp: unsafe_path_def eq_ignore_ascii_case_def staged_def)
  qed
qed

lemma reachable_not_manifest:
  assumes "writer_reachable sha w"
  shows "[''manifest.json''] \<notin> (\<lambda>a. to_path_buf (rec_path a)) ` set (map snd (w_artifacts w))"
proof
  assume "[''manifest.json''] \<in> (\<lambda>a. to_path_buf (rec_path a)) ` set (map snd (w_artifacts w))"
  then obtain a where "a \<in> set (map snd (w_artifacts w))" "to_path_buf (rec_path a) = [''manifest.json'']"
    by (elim imageE) simp
  with reachable_record(2) [OF assms] show False by blast
qed

lemma reachable_keys:
  assumes "writer_reachable sha w"
  shows "fst ` set (w_files w) = (\<lambda>a. to_path_buf (rec_path a)) ` set (map snd (w_artifacts w))"
proof -
  note inv = reachable_inv [OF assms, unfolded writer_inv_def]
  have "fst ` set (w_files w) = dom (bt_get (w_files w))" using inv by (simp add: bt.keys_dom)
  also have "\<dots> = to_path_buf ` fst ` set (w_artifacts w)" using inv by simp
  also have "\<dots> = (\<lambda>a. to_path_buf (rec_path a)) ` set (map snd (w_artifacts w))"
    unfolding image_image set_map
  proof (rule image_cong [OF refl])
    fix e
    assume "e \<in> set (w_artifacts w)"
    with inv show "to_path_buf (fst e) = to_path_buf (rec_path (snd e))"
      by (cases e) (auto simp: staged_def)
  qed
  finally show ?thesis .
qed

lemma published_nodes:
  assumes "writer_reachable sha w"
  shows "only_regular (nodes files)"
    and "fst ` set (nodes (bt_insert [''manifest.json''] bytes (w_files w)))
      = insert [''manifest.json''] ((\<lambda>a. to_path_buf (rec_path a)) ` set (map snd (w_artifacts w)))"
    and "a \<in> set (map snd (w_artifacts w)) \<Longrightarrow>
      verify_record sha (nodes (bt_insert [''manifest.json''] bytes (w_files w))) a = Ok ()"
proof -
  note inv = reachable_inv [OF assms, unfolded writer_inv_def]
  show "only_regular (nodes files)" by (auto simp: only_regular_def nodes_def)
  from reachable_keys [OF assms] show "fst ` set (nodes (bt_insert [''manifest.json''] bytes (w_files w)))
      = insert [''manifest.json''] ((\<lambda>a. to_path_buf (rec_path a)) ` set (map snd (w_artifacts w)))"
    by (simp add: nodes_set bt_insert_keys)
  assume "a \<in> set (map snd (w_artifacts w))"
  from reachable_record [OF assms this] inv
  show "verify_record sha (nodes (bt_insert [''manifest.json''] bytes (w_files w))) a = Ok ()"
    by (simp add: verify_record_Ok nodes_get bt_get_insert)
qed

lemma staging_verifies:
  assumes "writer_reachable sha w"
  shows "verify_artifact_tree sha (nodes (w_files w)) (map snd (w_artifacts w)) False = Ok ()"
proof -
  from reachable_record(1) [OF assms] reachable_keys [OF assms] published_nodes(1) [OF assms]
  show ?thesis by (simp add: verify_tree_Ok nodes_set)
qed

lemma published_tree_ok:
  assumes "writer_reachable sha w" and "[''manifest.json''] \<notin> w_dirs w"
  shows "tree_ok (nodes (bt_insert [''manifest.json''] bytes (w_files w)))"
proof -
  note inv = reachable_inv [OF assms(1), unfolded writer_inv_def]
  let ?t = "bt_insert [''manifest.json''] bytes (w_files w)"
  have dist: "distinct (map fst (nodes ?t))"
    using inv by (simp add: nodes_keys bt_ok_distinct bt_ok_insert)
  have keys: "p \<in> fst ` set (nodes ?t) \<longleftrightarrow> p = [''manifest.json''] \<or> bt_contains (w_files w) p" for p
    by (simp add: nodes_set bt_insert_keys bt_contains_keys)
  have apart: "\<not> strict_prefix p q" if "p = [''manifest.json''] \<or> bt_contains (w_files w) p"
    "q = [''manifest.json''] \<or> bt_contains (w_files w) q" for p q
  proof
    assume less: "strict_prefix p q"
    have lay: "layout_ok (w_files w) (w_dirs w)" using inv by simp
    from that(1) lay have "p \<noteq> []" unfolding layout_ok_def by blast
    with less have "q \<noteq> [''manifest.json'']" by (cases p) auto
    with that(2) less \<open>p \<noteq> []\<close> lay have "p \<in> w_dirs w" unfolding layout_ok_def by blast
    with that(1) assms(2) lay show False unfolding layout_ok_def by blast
  qed
  show ?thesis unfolding tree_ok_def
  proof (intro conjI dist ballI)
    fix p q
    assume "p \<in> fst ` set (nodes ?t)" "q \<in> fst ` set (nodes ?t)"
    then show "\<not> strict_prefix p q" by (intro apart) (simp_all only: keys)
  qed
qed

lemma assemble_artifacts:
  "assemble_manifest w st v subj drivers ts cmp rep now = Ok m \<Longrightarrow> m_artifacts m = map snd (w_artifacts w)"
  by (auto simp: assemble_manifest_def split: option.splits)

text \<open>The JSON encoder and decoder agree, as \<open>serde\<close> derives them for the same type.\<close>

definition codec_agrees :: "ManifestCodec \<Rightarrow> (BundleManifest \<Rightarrow> string option) \<Rightarrow> bool" where
  "codec_agrees codec encode \<longleftrightarrow> (\<forall>m bytes. encode m = Some bytes \<and> m_schema_version m = SchemaVersion 2 \<longrightarrow>
     peek_version codec bytes = Ok (Some 2) \<and> parse_current codec bytes = Ok m)"

definition published_reader :: "BundleWriter \<Rightarrow> string \<Rightarrow> BundleManifest \<Rightarrow> BundleReader" where
  "published_reader w bytes m = \<lparr>rd_root = published_dir w bytes, rd_manifest = m, rd_legacy_status = None\<rparr>"

lemma published_verifies:
  assumes "writer_reachable sha w" and "m_artifacts m = map snd (w_artifacts w)" and "[''manifest.json''] \<notin> w_dirs w"
  shows "validate_paths (published_reader w bytes m) = Ok ()" and "verify sha (published_reader w bytes m) = Ok ()"
proof -
  note nodes = published_nodes [OF assms(1)]
  have ok: "tree_ok (nodes (bt_insert [''manifest.json''] bytes (w_files w)))"
    by (rule published_tree_ok [OF assms(1,3)])
  show paths: "validate_paths (published_reader w bytes m) = Ok ()"
    by (rule validate_paths_verified [where sha = sha])
      (use ok nodes(3) assms(2) in \<open>simp_all add: published_reader_def published_dir_def\<close>)
  have "verify_artifact_tree sha (nodes (bt_insert [''manifest.json''] bytes (w_files w))) (m_artifacts m) True = Ok ()"
    using nodes assms(2) reachable_not_manifest [OF assms(1)] by (simp add: verify_tree_Ok)
  with paths show "verify sha (published_reader w bytes m) = Ok ()"
    by (simp add: verify_def ok_simps) (simp add: published_reader_def published_dir_def)
qed

lemma published_opens:
  assumes "writer_reachable sha w" and "m_artifacts m = map snd (w_artifacts w)" and "[''manifest.json''] \<notin> w_dirs w"
    and "peek_version codec bytes = Ok (Some 2)" and "parse_current codec bytes = Ok m"
    and "path_extension (w_final_path w) = Some ''eggb''" and "path_file_name (w_final_path w) = Some name"
    and "validate_manifest m = Ok ()" and "length bytes \<le> MAX_MANIFEST_BYTES"
  shows "bundle_open codec (published_dir w bytes) =
      (if contains_str ''.staging-'' name then Err IncompleteBundle else Ok (published_reader w bytes m))"
proof -
  have "bt_ok (w_files w)" using reachable_inv [OF assms(1)] by (simp add: writer_inv_def)
  then have "map_of (dir_tree (published_dir w bytes)) [''manifest.json''] = Some (Regular bytes)"
    by (simp add: published_dir_def nodes_get bt_get_insert)
  moreover have "decode_manifest codec bytes = Ok (m, None)"
    using assms(4,5) by (simp add: decode_manifest_def)
  moreover have "read_bounded bytes MAX_MANIFEST_BYTES ''manifest bytes'' = Ok bytes"
    using assms(9) by (simp add: read_bounded_Ok)
  moreover have "\<lparr>rd_root = published_dir w bytes, rd_manifest = m, rd_legacy_status = None\<rparr> = published_reader w bytes m"
    by (simp add: published_reader_def)
  moreover have "dir_path (published_dir w bytes) = w_final_path w" "\<not> dir_is_link (published_dir w bytes)"
    "dir_is_dir (published_dir w bytes)" by (simp_all add: published_dir_def)
  ultimately show ?thesis
    using assms(6-9) published_verifies(1) [OF assms(1-3), of bytes]
    by (simp add: bundle_open_def Let_def secure_open_def)
qed


section \<open>A concrete bundle\<close>

definition zero_sha :: sha where
  "zero_sha bytes = replicate 32 (CHR 0x00)"

definition calm_io :: WriterIo where
  "calm_io = \<lparr>io_mkdir = (\<lambda>_. True), io_open = True, io_sync = True\<rparr>"

definition start_writer :: BundleWriter where
  "start_writer = \<lparr>w_final_path = ''./run.eggb'', w_run_id = ''r1'', w_created_unix_ms = 5,
     w_bounds = \<lparr>artifact_count = PositiveCount 3, artifact_bytes = 8, total_bytes = 16\<rparr>,
     w_artifacts = [], w_total_bytes = 0, w_paired_record = None, w_files = [], w_dirs = {}\<rparr>"

definition put :: "string \<Rightarrow> ArtifactRole \<Rightarrow> string \<Rightarrow> BundleWriter \<Rightarrow> BundleWriter" where
  "put p r bytes w = snd (add_artifact zero_sha calm_io (ArtifactPath p) r ''text/plain'' Public [Chunk bytes True] w)"

definition three_writer :: BundleWriter where
  "three_writer = put ''2'' RolePlan ''pp'' (put ''3'' RoleResolvedPlan ''rrr''
     (put ''1'' RoleEnvironment ''e'' start_writer))"

lemma start_writer_created:
  "create_writer \<lparr>env_exists = (\<lambda>_. False), env_parent_is_dir = (\<lambda>_. True), env_staging_created = True,
     env_now_ms = Some 5\<rparr> ''run.eggb'' ''r1'' (w_bounds start_writer) = Ok start_writer"
  by (simp add: create_writer_def start_writer_def place_def path_is_absolute_def path_extension_def path_file_name_def
      path_components_def rsplit_once_char_def validate_bounds_def bounds_unsupported_def
      MAX_ARTIFACT_COUNT_def MAX_ARTIFACT_BYTES_def MAX_TOTAL_ARTIFACT_BYTES_def Let_def reject_if_def)

lemma short_paths: "\<not> unsafe_path ''1''" "\<not> unsafe_path ''2''" "\<not> unsafe_path ''3''"
  by (simp_all add: unsafe_path_def has_control_plain byte_def MAX_PATH_BYTES_def MAX_PATH_DEPTH_def
        unsafe_segment_def is_windows_device_name_def to_ascii_uppercase_def ascii_upper_def
        eq_ignore_ascii_case_def to_ascii_lowercase_def ascii_lower_def ascii_defs suffix_def Let_def)

lemma put_reachable:
  assumes "writer_reachable zero_sha w" and "\<not> unsafe_path p" and "length bytes \<le> HASH_BUFFER_BYTES"
  shows "writer_reachable zero_sha (put p r bytes w)"
proof (rule writer_reachable.artifact [OF assms(1), of "ArtifactPath p" "[Chunk bytes True]"])
  show "add_artifact zero_sha calm_io (ArtifactPath p) r ''text/plain'' Public [Chunk bytes True] w
     = (fst (add_artifact zero_sha calm_io (ArtifactPath p) r ''text/plain'' Public [Chunk bytes True] w), put p r bytes w)"
    by (simp add: put_def)
qed (use assms in \<open>simp_all add: source_ok_def\<close>)

lemma three_reachable: "writer_reachable zero_sha three_writer"
  unfolding three_writer_def
  by (intro put_reachable short_paths writer_reachable.created [OF start_writer_created])
    (simp_all add: HASH_BUFFER_BYTES_def)

definition zero_digest :: string where
  "zero_digest = concat (replicate 32 ''00'')"

lemma zero_digest: "to_hex (zero_sha bytes) = zero_digest" "lower_hex_digest zero_digest"
  by (auto simp: to_hex_def zero_sha_def zero_digest_def HEX_def byte_def map_replicate
      lower_hex_digest_def ascii_defs list_all_iff length_concat sum_list_replicate)

lemma text_plain: "\<not> bad_media_type ''text/plain''"
  by (simp add: bad_media_type_def has_control_plain byte_def)

lemma put_flat:
  assumes "CHR ''/'' \<notin> set p" and "[p] \<notin> w_dirs w"
    and "\<not> bt_contains (w_artifacts w) (ArtifactPath p)" and "\<not> bt_contains (w_files w) [p]"
    and "length (w_artifacts w) < unat (count_get (artifact_count (w_bounds w)))"
    and "length (w_artifacts w) < MAX_ARTIFACT_COUNT"
    and "copy_chunks (w_bounds w) 0 (w_total_bytes w) [] [Chunk bytes True] = Ok (sz, acc, bytes)"
  shows "put p r bytes w = w \<lparr>w_total_bytes := acc,
     w_artifacts := bt_insert (ArtifactPath p) \<lparr>rec_path = ArtifactPath p, rec_role = r, rec_media_type = ''text/plain'',
       rec_sensitivity = Public, rec_byte_size = sz, rec_sha256 = zero_digest\<rparr> (w_artifacts w),
     w_files := bt_insert [p] bytes (w_files w)\<rparr>"
proof -
  from assms(1) have "split_char CHR ''/'' p = [p]" by (induction p) auto
  with assms show ?thesis
    by (simp add: put_def add_artifact_def admission_def text_plain reject_if_def calm_io_def
        to_path_buf_def zero_digest Let_def)
qed

lemma three_writer_eval:
  "three_writer = start_writer \<lparr>w_total_bytes := 6,
     w_artifacts :=
       [(ArtifactPath ''1'', \<lparr>rec_path = ArtifactPath ''1'', rec_role = RoleEnvironment,
          rec_media_type = ''text/plain'', rec_sensitivity = Public, rec_byte_size = 1, rec_sha256 = zero_digest\<rparr>),
        (ArtifactPath ''2'', \<lparr>rec_path = ArtifactPath ''2'', rec_role = RolePlan,
          rec_media_type = ''text/plain'', rec_sensitivity = Public, rec_byte_size = 2, rec_sha256 = zero_digest\<rparr>),
        (ArtifactPath ''3'', \<lparr>rec_path = ArtifactPath ''3'', rec_role = RoleResolvedPlan,
          rec_media_type = ''text/plain'', rec_sensitivity = Public, rec_byte_size = 3, rec_sha256 = zero_digest\<rparr>)],
     w_files := [([''1''], ''e''), ([''2''], ''pp''), ([''3''], ''rrr'')]\<rparr>"
proof -
  have m: "MAX_ARTIFACT_COUNT = 10000" by (simp add: MAX_ARTIFACT_COUNT_def)
  show ?thesis
    unfolding three_writer_def
    by (subst put_flat [where p = "''1''" and sz = 1 and acc = 1],
        simp_all add: start_writer_def checked_add_def bt_contains_def m,
        subst put_flat [where p = "''3''" and sz = 3 and acc = 4],
        simp_all add: checked_add_def bt_contains_def m less_ArtifactPath_def less_eq_ArtifactPath_def,
        subst put_flat [where p = "''2''" and sz = 2 and acc = 6],
        simp_all add: checked_add_def bt_contains_def m less_ArtifactPath_def less_eq_ArtifactPath_def)
qed

theorem writer_within_bounds_witness:
  "byte_sum (map snd (w_artifacts three_writer)) = 6 \<and> remaining_total_bytes three_writer = 10
     \<and> remaining_artifact_count three_writer = 0"
  using writer_within_bounds [OF three_reachable]
  by (simp add: three_writer_eval start_writer_def remaining_total_bytes_def)


definition three_manifest :: BundleManifest where
  "three_manifest = \<lparr>m_schema_version = EVIDENCE_MANIFEST_SCHEMA_VERSION, m_run_id = ''r1'',
     m_execution_status = Some RunCompleted, m_comparison_verdict = None,
     m_subject = Label (Name ''s''), m_created_unix_ms = Some 5, m_finalized_unix_ms = Some 9,
     m_plan = ArtifactPath ''2'', m_resolved_plan = ArtifactPath ''3'', m_environment = ArtifactPath ''1'',
     m_trials = [], m_comparison = None, m_paired = None, m_report = None, m_drivers = [],
     m_limits = w_bounds start_writer, m_artifacts = map snd (w_artifacts three_writer), m_finalized = True\<rparr>"

lemma three_manifest_valid: "validate_manifest three_manifest = Ok ()"
proof -
  have arts: "artifact_ok 8 a" if "a \<in> set (m_artifacts three_manifest)" for a
    using that text_plain zero_digest(2)
    by (auto simp: three_manifest_def three_writer_eval start_writer_def artifact_ok_def)
  have "status_rules False three_manifest = Ok ()" "inventory_rules three_manifest = Ok ()"
    by (simp_all add: three_manifest_def status_rules_def inventory_rules_def reject_if_def
        three_writer_eval start_writer_def MAX_ARTIFACT_COUNT_def)
  moreover have "limits_ok three_manifest"
    by (simp add: limits_ok_def three_manifest_def three_writer_eval start_writer_def bounds_unsupported_def
        MAX_ARTIFACT_COUNT_def MAX_ARTIFACT_BYTES_def MAX_TOTAL_ARTIFACT_BYTES_def)
  moreover have "manifest_complete three_manifest"
    using arts
    by (simp add: manifest_complete_def three_manifest_def three_writer_eval start_writer_def byte_sum_def
        count_role_def lists_def)
  ultimately show ?thesis by (simp add: validate_manifest_def validate_inner_Ok)
qed

definition tag_codec :: ManifestCodec where
  "tag_codec = \<lparr>peek_version = (\<lambda>_. Ok (Some 2)), parse_legacy = (\<lambda>_. Err []),
     parse_current = (\<lambda>_. Ok three_manifest)\<rparr>"

definition tag_encode :: "BundleManifest \<Rightarrow> string option" where
  "tag_encode m = (if m = three_manifest then Some ''{}'' else None)"


section \<open>Reading the concrete bundle\<close>

lemma three_open:
  "bundle_open tag_codec (published_dir three_writer ''{}'') = Ok (published_reader three_writer ''{}'' three_manifest)"
  "tree_ok (dir_tree (published_dir three_writer ''{}''))"
  "verify zero_sha (published_reader three_writer ''{}'' three_manifest) = Ok ()"
proof -
  have name: "path_extension (w_final_path three_writer) = Some ''eggb''"
    "path_file_name (w_final_path three_writer) = Some ''run.eggb''"
    by (simp_all add: three_writer_eval start_writer_def path_extension_def path_file_name_def
        path_components_def rsplit_once_char_def)
  have dirs: "[''manifest.json''] \<notin> w_dirs three_writer" by (simp add: three_writer_eval start_writer_def)
  have arts: "m_artifacts three_manifest = map snd (w_artifacts three_writer)" by (simp add: three_manifest_def)
  show "tree_ok (dir_tree (published_dir three_writer ''{}''))"
    by (simp add: published_dir_def published_tree_ok [OF three_reachable dirs])
  show "verify zero_sha (published_reader three_writer ''{}'' three_manifest) = Ok ()"
    by (rule published_verifies(2) [OF three_reachable arts dirs])
  show "bundle_open tag_codec (published_dir three_writer ''{}'') = Ok (published_reader three_writer ''{}'' three_manifest)"
    using published_opens [OF three_reachable arts dirs _ _ name three_manifest_valid, of tag_codec "''{}''"]
    by (simp add: tag_codec_def contains_str_def MAX_MANIFEST_BYTES_def)
qed


theorem verified_artifacts_read_back_witness:
  "\<exists>bytes. open_artifact (published_reader three_writer ''{}'' three_manifest) (ArtifactPath ''2'') = Ok bytes
     \<and> length bytes = 2 \<and> byte_sum (m_artifacts three_manifest) \<le> 16"
proof -
  have "\<not> (\<exists>e. open_artifact (published_reader three_writer ''{}'' three_manifest) (ArtifactPath ''2'') = Err e)"
    "open_artifact (published_reader three_writer ''{}'' three_manifest) (ArtifactPath ''2'') = Ok ''pp''"
    by (simp_all add: open_artifact_def published_reader_def three_manifest_def three_writer_eval start_writer_def
        secure_open_def published_dir_def nodes_get bt_get_def to_path_buf_def)
  with verified_artifacts_read_back [OF three_open, of "ArtifactPath ''2''"] show ?thesis
    by (simp add: published_reader_def three_manifest_def start_writer_def)
qed

end
