(* ===== verification/DebugText.thy ===== *)
theory DebugText
  imports BundleReader
begin

text \<open>
  The \<open>{:?}\<close> text of the types that the comparison puts into its summaries: derived \<open>Debug\<close>
  of structs, tuples and options, and \<open>Debug\<close> of strings with its escapes.  Which code points
  beyond ASCII count as printable is a Unicode table, the parameter \<open>printable\<close>.
\<close>

fun show_hex :: "nat \<Rightarrow> string" where
  "show_hex n = (if n < 16 then [HEX ! n] else show_hex (n div 16) @ [HEX ! (n mod 16)])"

declare show_hex.simps [simp del]

definition backslash :: char where
  "backslash = CHR 0x5C"

text \<open>One scalar value with its bytes, as \<open>char::escape_debug\<close> prints it inside double quotes.\<close>

definition escape_scalar :: "(nat \<Rightarrow> bool) \<Rightarrow> nat \<Rightarrow> string \<Rightarrow> string" where
  "escape_scalar printable cp bytes =
    (if cp = 0 then [backslash, CHR ''0'']
     else if cp = 9 then [backslash, CHR ''t'']
     else if cp = 10 then [backslash, CHR ''n'']
     else if cp = 13 then [backslash, CHR ''r'']
     else if cp = 34 \<or> cp = 92 then backslash # bytes
     else if cp < 32 \<or> cp = 127 \<or> (128 \<le> cp \<and> \<not> printable cp)
     then backslash # ''u{'' @ show_hex cp @ ''}''
     else bytes)"

definition scalar_tail :: "char \<Rightarrow> nat" where
  "scalar_tail a = (if byte a < 128 then 0 else if byte a < 224 then 1 else if byte a < 240 then 2 else 3)"

function escape_debug :: "(nat \<Rightarrow> bool) \<Rightarrow> string \<Rightarrow> string" where
  "escape_debug printable [] = []"
| "escape_debug printable (a # s) =
    escape_scalar printable (hd (chars (a # s))) (a # take (scalar_tail a) s)
      @ escape_debug printable (drop (scalar_tail a) s)"
  by pat_completeness auto
termination
  by (relation "measure (\<lambda>(p, s). length s)") auto

definition debug_str :: "(nat \<Rightarrow> bool) \<Rightarrow> string \<Rightarrow> string" where
  "debug_str printable s = CHR 0x22 # escape_debug printable s @ [CHR 0x22]"

definition debug_option :: "('a \<Rightarrow> string) \<Rightarrow> 'a option \<Rightarrow> string" where
  "debug_option show v = (case v of None \<Rightarrow> ''None'' | Some a \<Rightarrow> ''Some('' @ show a @ '')'')"

definition debug_list :: "('a \<Rightarrow> string) \<Rightarrow> 'a list \<Rightarrow> string" where
  "debug_list show xs = ''['' @ join_str '', '' (map show xs) @ '']''"

definition show_u32 :: "u32 \<Rightarrow> string" where
  "show_u32 n = show_dec (unat n)"

definition show_u64 :: "u64 \<Rightarrow> string" where
  "show_u64 n = show_dec (unat n)"

definition debug_name :: "(nat \<Rightarrow> bool) \<Rightarrow> Name \<Rightarrow> string" where
  "debug_name printable n = ''Name('' @ debug_str printable (as_str n) @ '')''"

definition debug_count :: "PositiveCount \<Rightarrow> string" where
  "debug_count n = ''PositiveCount('' @ show_u32 (count_get n) @ '')''"

fun debug_load_mode :: "LoadMode \<Rightarrow> string" where
  "debug_load_mode ClosedLoopMode = ''ClosedLoop''"
| "debug_load_mode OpenLoopMode = ''OpenLoop''"

fun debug_connection_policy :: "HttpConnectionPolicy \<Rightarrow> string" where
  "debug_connection_policy Pooled = ''Pooled''"
| "debug_connection_policy FreshPerRequest = ''FreshPerRequest''"

definition debug_schedule_entry :: "(nat \<Rightarrow> bool) \<Rightarrow> HttpCorpusScheduleEntry \<Rightarrow> string" where
  "debug_schedule_entry printable e =
    ''HttpCorpusScheduleEntry { case_id: '' @ debug_str printable (case_id e)
      @ '', count: '' @ debug_count (case_count e) @ '' }''"

fun debug_http_version :: "HttpVersion \<Rightarrow> string" where
  "debug_http_version Http10 = ''Http10''"
| "debug_http_version Http11 = ''Http11''"
| "debug_http_version Http2 = ''Http2''"
| "debug_http_version Http3 = ''Http3''"

fun debug_probe :: "DiagnosticProbe \<Rightarrow> string" where
  "debug_probe Dns = ''Dns''"
| "debug_probe Tcp = ''Tcp''"
| "debug_probe Tls = ''Tls''"
| "debug_probe Http = ''Http''"

fun debug_capability :: "(nat \<Rightarrow> bool) \<Rightarrow> Capability \<Rightarrow> string" where
  "debug_capability pr (CapHttpVersion v) = ''HttpVersion { version: '' @ debug_http_version v @ '' }''"
| "debug_capability pr (CapLoadMode m) = ''LoadMode { mode: '' @ debug_load_mode m @ '' }''"
| "debug_capability pr CapCorrectedLatency = ''CorrectedLatency''"
| "debug_capability pr CapProxyRouting = ''ProxyRouting''"
| "debug_capability pr (CapFaultFamily n) = ''FaultFamily { family: '' @ debug_name pr n @ '' }''"
| "debug_capability pr (CapTelemetryField n) = ''TelemetryField { field: '' @ debug_name pr n @ '' }''"
| "debug_capability pr CapExternalBinary = ''ExternalBinary''"
| "debug_capability pr CapNetworkPath = ''NetworkPath''"
| "debug_capability pr CapStreamFaultPlan = ''StreamFaultPlan''"
| "debug_capability pr CapSemanticReplay = ''SemanticReplay''"
| "debug_capability pr CapHttpCorpus = ''HttpCorpus''"
| "debug_capability pr (CapDiagnosticProbe p) = ''DiagnosticProbe { probe: '' @ debug_probe p @ '' }''"
| "debug_capability pr (CapSecurityCheck n) = ''SecurityCheck { family: '' @ debug_name pr n @ '' }''"

section \<open>Texts determine their parts\<close>

text \<open>The last occurrence of a separator splits a text in one way.\<close>

lemma split_last_char:
  "a @ c # u = b @ c # v \<Longrightarrow> c \<notin> set u \<Longrightarrow> c \<notin> set v \<Longrightarrow> a = b \<and> u = v"
proof (induction a arbitrary: b)
  case Nil
  then show ?case by (cases b) auto
next
  case (Cons x a)
  then show ?case by (cases b) auto
qed

lemma show_dec_inject: "show_dec m = show_dec n \<longleftrightarrow> m = n"
  by (metis dec_value_show)

lemma show_u32_inject [simp]: "show_u32 m = show_u32 n \<longleftrightarrow> m = n"
  by (simp add: show_u32_def show_dec_inject word_unat_eq_iff)

lemma show_u64_inject [simp]: "show_u64 m = show_u64 n \<longleftrightarrow> m = n"
  by (simp add: show_u64_def show_dec_inject word_unat_eq_iff)

lemma debug_option_inject:
  assumes "\<And>a b. show a = show b \<longleftrightarrow> a = b"
  shows "debug_option show v = debug_option show w \<longleftrightarrow> v = w"
  by (cases v; cases w) (simp_all add: debug_option_def assms)

text \<open>A text followed by fields that contain no space is determined field by field.\<close>

definition with_fields :: "string \<Rightarrow> string list \<Rightarrow> string" where
  "with_fields t fs = t @ concat (map (\<lambda>f. CHR '' '' # f) fs)"

definition plain_field :: "string \<Rightarrow> bool" where
  "plain_field f \<longleftrightarrow> CHR '' '' \<notin> set f"

lemma with_fields_inject:
  assumes "length fs = length gs" and "list_all plain_field fs" and "list_all plain_field gs"
  shows "with_fields t fs = with_fields u gs \<longleftrightarrow> t = u \<and> fs = gs"
proof -
  have "with_fields t fs = with_fields u gs \<Longrightarrow> t = u \<and> fs = gs"
    using assms
  proof (induction fs arbitrary: gs rule: rev_induct)
    case Nil
    then show ?case by (simp add: with_fields_def)
  next
    case (snoc f fs)
    from snoc.prems(2) obtain g gs' where gs: "gs = gs' @ [g]" by (cases gs rule: rev_cases) auto
    have "with_fields t fs @ CHR '' '' # f = with_fields u gs' @ CHR '' '' # g"
      using snoc.prems(1) by (simp add: with_fields_def gs)
    then have "with_fields t fs = with_fields u gs' \<and> f = g"
      using snoc.prems(3,4) gs by (intro split_last_char) (auto simp: plain_field_def)
    with snoc gs show ?case by simp
  qed
  then show ?thesis by blast
qed

lemma plain_field_append [simp]: "plain_field (a @ b) \<longleftrightarrow> plain_field a \<and> plain_field b"
  by (simp add: plain_field_def)

lemma plain_field_Cons [simp]: "plain_field (c # b) \<longleftrightarrow> c \<noteq> CHR '' '' \<and> plain_field b"
  by (auto simp: plain_field_def)

lemma plain_field_Nil [simp]: "plain_field []"
  by (simp add: plain_field_def)

lemma plain_field_dec [simp]: "plain_field (show_dec n)"
proof -
  have "\<not> is_ascii_digit CHR '' ''" by (simp add: ascii_defs)
  then show ?thesis using show_dec_digits [of n] by (auto simp: plain_field_def list_all_iff)
qed

lemma plain_field_numbers [simp]: "plain_field (show_u32 m)" "plain_field (show_u64 n)"
  by (simp_all add: show_u32_def show_u64_def)

lemma plain_field_option [simp]: "(\<And>a. plain_field (show a)) \<Longrightarrow> plain_field (debug_option show v)"
  by (simp add: debug_option_def split: option.split)

end
