(* ===== verification/Metrics.thy ===== *)
theory Metrics
  imports BundleReader
begin

text \<open>
  The normalized metrics of one trial (\<open>eggbench-core/src/metrics.rs\<close>): the vocabulary, the
  validation of the staged artifact, and the normalization of raw driver observations.

  The lemmas show that normalization never imputes: an observed value is the value of the
  only raw observation with the requested name and unit, and there is exactly one record per
  requested metric.
\<close>

section \<open>Constants\<close>

definition METRIC_VOCABULARY_VERSION :: u32 where
  "METRIC_VOCABULARY_VERSION = 1"
definition TRIAL_METRICS_SCHEMA_VERSION :: SchemaVersion where
  "TRIAL_METRICS_SCHEMA_VERSION = SchemaVersion 1"
definition NORMALIZATION_METHOD_V1 :: string where
  "NORMALIZATION_METHOD_V1 = ''eggbench-normalize-v1''"
definition MAX_NORMALIZED_METRICS_PER_TRIAL :: nat where
  "MAX_NORMALIZED_METRICS_PER_TRIAL = 256"
definition MAX_RAW_OBSERVATIONS_PER_INVOCATION :: nat where
  "MAX_RAW_OBSERVATIONS_PER_INVOCATION = 256"
definition MAX_HISTOGRAM_REFERENCES_PER_TRIAL :: nat where
  "MAX_HISTOGRAM_REFERENCES_PER_TRIAL = 16"
definition MAX_RAW_ARTIFACT_REFS_PER_METRIC :: nat where
  "MAX_RAW_ARTIFACT_REFS_PER_METRIC = 8"
definition MAX_ERROR_CATEGORIES_PER_TRIAL :: nat where
  "MAX_ERROR_CATEGORIES_PER_TRIAL = 32"
definition MAX_METRIC_WARNINGS_PER_TRIAL :: nat where
  "MAX_METRIC_WARNINGS_PER_TRIAL = 16"
definition MAX_PROVENANCE_FIELD_LEN :: nat where
  "MAX_PROVENANCE_FIELD_LEN = 128"
definition MAX_METRIC_DETAIL_LEN :: nat where
  "MAX_METRIC_DETAIL_LEN = 512"
definition MAX_HISTOGRAM_FORMAT_LEN :: nat where
  "MAX_HISTOGRAM_FORMAT_LEN = 64"

section \<open>Data\<close>

datatype TrialArm = Baseline | Candidate

datatype TrialExecutionStatus = TrialCompleted | TrialFailed | TrialTimedOut | TrialCancelled

datatype TrialExecutionFailure = FailWorkload | FailTelemetry | FailTimedOut | FailCancelled

record TrialExecutionResult =
  tr_schema_version :: SchemaVersion
  tr_trial_id :: TrialId
  tr_start_offset_ns :: u64
  tr_elapsed_ns :: u64
  tr_terminal_status :: TrialExecutionStatus
  tr_failure_category :: "TrialExecutionFailure option"
  tr_arm :: "TrialArm option"
  tr_pair_id :: "u32 option"

datatype Aggregation =
  AggDirect | AggMinimum | AggMaximum | AggMean | AggSum | AggRate | AggRatio | AggPercentile u16

datatype MissingReason = SourceNotProvided | UnsupportedByDriver | TrialNotCompleted

datatype InvalidReason =
  NonFinite | UnitMismatch | DuplicateObservation | AggregationMismatch | MalformedSourceReference
| DomainError

datatype ObservationState =
  Observed f64
| Missing MissingReason
| InvalidObservation InvalidReason "string option"

record MetricProvenance =
  pv_producer :: Name
  pv_producer_version :: "string option"
  pv_source_field :: "string option"
  pv_normalization :: string
  pv_raw_artifacts :: "ArtifactPath list"

record NormalizedObservation =
  no_name :: Name
  no_unit :: Name
  no_direction :: MetricDirection
  no_intent :: MetricIntent
  no_aggregation :: Aggregation
  no_state :: ObservationState
  no_provenance :: MetricProvenance

record HistogramReference =
  hr_metric :: Name
  hr_path :: ArtifactPath
  hr_format :: string
  hr_unit :: Name
  hr_method :: "string option"
  hr_source_metric :: "Name option"

record ErrorCategoryCount =
  ec_category :: Name
  ec_count :: u64

record MetricWarning =
  mw_category :: string
  mw_detail :: string

record TrialMetrics =
  tm_schema_version :: SchemaVersion
  tm_vocabulary_version :: u32
  tm_trial_id :: TrialId
  tm_observations :: "NormalizedObservation list"
  tm_histograms :: "HistogramReference list"
  tm_error_distribution :: "ErrorCategoryCount list"
  tm_warnings :: "MetricWarning list"

record RawMetricObservation =
  raw_name :: string
  raw_unit :: string
  raw_value :: f64
  raw_aggregation :: Aggregation
  raw_source_field :: "string option"
  raw_producer :: "string option"
  raw_producer_version :: "string option"
  raw_artifacts :: "string list"

record RawHistogramInput =
  rh_metric :: string
  rh_artifact_name :: string
  rh_format :: string
  rh_unit :: string
  rh_method :: "string option"

record NormalizationInput =
  ni_trial_id :: TrialId
  ni_metrics :: "MetricRequest list"
  ni_terminal_status :: TrialExecutionStatus
  ni_observations :: "RawMetricObservation list"
  ni_histograms :: "RawHistogramInput list"
  ni_error_counts :: "(string \<times> u64) list"
  ni_artifact_map :: "(string, ArtifactPath) BTreeMap"
  ni_producer :: string
  ni_producer_version :: "string option"

section \<open>Vocabulary\<close>

datatype MetricDirectionKind = KindHigherIsBetter | KindLowerIsBetter

record BuiltinMetric =
  bi_unit :: string
  bi_aggregation :: "Aggregation option"
  bi_direction :: "MetricDirectionKind option"

abbreviation builtin :: "string \<Rightarrow> Aggregation \<Rightarrow> MetricDirectionKind option \<Rightarrow> BuiltinMetric" where
  "builtin u a d \<equiv> \<lparr>bi_unit = u, bi_aggregation = Some a, bi_direction = d\<rparr>"

definition builtin_metric :: "string \<Rightarrow> BuiltinMetric option" where
  "builtin_metric name =
    (if name = ''throughput'' then Some (builtin ''rps'' AggRate (Some KindHigherIsBetter))
     else if name = ''latency_min'' then Some (builtin ''ms'' AggMinimum (Some KindLowerIsBetter))
     else if name = ''latency_mean'' then Some (builtin ''ms'' AggMean (Some KindLowerIsBetter))
     else if name = ''latency_p50'' then Some (builtin ''ms'' (AggPercentile 5000) (Some KindLowerIsBetter))
     else if name = ''latency_p90'' then Some (builtin ''ms'' (AggPercentile 9000) (Some KindLowerIsBetter))
     else if name = ''latency_p95'' then Some (builtin ''ms'' (AggPercentile 9500) (Some KindLowerIsBetter))
     else if name = ''latency_p99'' then Some (builtin ''ms'' (AggPercentile 9900) (Some KindLowerIsBetter))
     else if name = ''latency_p999'' then Some (builtin ''ms'' (AggPercentile 9990) (Some KindLowerIsBetter))
     else if name = ''error_rate'' \<or> name = ''timeout_rate''
       then Some (builtin ''ratio'' AggRatio (Some KindLowerIsBetter))
     else if name = ''bytes_sent'' \<or> name = ''bytes_received'' then Some (builtin ''bytes'' AggSum None)
     else if name = ''cpu_percent'' then Some (builtin ''percent'' AggMean None)
     else if name = ''rss_bytes'' then Some (builtin ''bytes'' AggMaximum None)
     else None)"

fun direction_matches :: "MetricDirectionKind \<Rightarrow> MetricDirection \<Rightarrow> bool" where
  "direction_matches KindHigherIsBetter HigherIsBetter = True"
| "direction_matches KindLowerIsBetter LowerIsBetter = True"
| "direction_matches _ _ = False"

fun aggregation_matches :: "Aggregation \<Rightarrow> Aggregation \<Rightarrow> bool" where
  "aggregation_matches (AggPercentile _) (AggPercentile _) = True"
| "aggregation_matches l r = (l = r)"

definition is_ratio_metric :: "string \<Rightarrow> bool" where
  "is_ratio_metric name \<longleftrightarrow> name = ''error_rate'' \<or> name = ''timeout_rate''"

definition f64_one :: f64 where
  "f64_one = 0x3FF0000000000000"

definition in_unit_interval :: "f64 \<Rightarrow> bool" where
  "in_unit_interval v \<longleftrightarrow> f64_le f64_zero v \<and> f64_le v f64_one"

section \<open>Validation of the artifact\<close>

fun validate_aggregation :: "Aggregation \<Rightarrow> BundleError + unit" where
  "validate_aggregation (AggPercentile bp) =
     reject_if (bp < 1 \<or> 10000 < bp)
       (ManifestParse (''percentile basis points out of range: '' @ show_dec (unat bp)))"
| "validate_aggregation _ = Ok ()"

definition validate_provenance :: "MetricProvenance \<Rightarrow> BundleError + unit" where
  "validate_provenance pv = checks
    [reject_if (MAX_PROVENANCE_FIELD_LEN < length (pv_normalization pv) \<or> pv_normalization pv = [])
       (InvalidManifest ''provenance normalization label out of bounds''),
     reject_if (case pv_producer_version pv of None \<Rightarrow> False | Some v \<Rightarrow> MAX_PROVENANCE_FIELD_LEN < length v)
       (BoundExceeded ''producer version''),
     reject_if (case pv_source_field pv of None \<Rightarrow> False | Some f \<Rightarrow> f = [] \<or> MAX_PROVENANCE_FIELD_LEN < length f)
       (InvalidManifest ''provenance source field out of bounds''),
     reject_if (MAX_RAW_ARTIFACT_REFS_PER_METRIC < length (pv_raw_artifacts pv))
       (BoundExceeded ''raw artifact reference count'')]"

definition validate_observation :: "NormalizedObservation \<Rightarrow> BundleError + unit" where
  "validate_observation ob = checks
    [validate_aggregation (no_aggregation ob),
     (case no_state ob of
        Observed v \<Rightarrow> checks
          [reject_if (\<not> f64_is_finite v)
             (ManifestParse (''nonfinite observed value for metric '' @ as_str (no_name ob))),
           reject_if (is_ratio_metric (as_str (no_name ob)) \<and> \<not> in_unit_interval v)
             (ManifestParse (''ratio metric '' @ as_str (no_name ob) @ '' outside [0,1]''))]
      | InvalidObservation _ (Some detail) \<Rightarrow>
          reject_if (MAX_METRIC_DETAIL_LEN < length detail) (BoundExceeded ''invalid observation detail'')
      | _ \<Rightarrow> Ok ()),
     validate_provenance (no_provenance ob)]"

definition validate_histogram :: "HistogramReference \<Rightarrow> BundleError + unit" where
  "validate_histogram h = checks
    [reject_if (hr_format h = [] \<or> MAX_HISTOGRAM_FORMAT_LEN < length (hr_format h))
       (InvalidManifest ''histogram format label out of bounds''),
     reject_if (case hr_method h of None \<Rightarrow> False | Some m \<Rightarrow> m = [] \<or> MAX_PROVENANCE_FIELD_LEN < length m)
       (InvalidManifest ''histogram method label out of bounds'')]"

definition validate_warning :: "MetricWarning \<Rightarrow> BundleError + unit" where
  "validate_warning w = checks
    [reject_if (mw_category w = [] \<or> MAX_PROVENANCE_FIELD_LEN < length (mw_category w))
       (InvalidManifest ''metric warning category out of bounds''),
     reject_if (MAX_METRIC_DETAIL_LEN < length (mw_detail w)) (BoundExceeded ''metric warning detail'')]"

fun scan_observations :: "string set \<Rightarrow> string option \<Rightarrow> NormalizedObservation list \<Rightarrow> BundleError + unit" where
  "scan_observations names previous [] = Ok ()"
| "scan_observations names previous (ob # obs) =
    (let name = as_str (no_name ob) in checks
      [reject_if (name \<in> names) (ManifestParse (''duplicate normalized metric name: '' @ name)),
       reject_if (case previous of None \<Rightarrow> False | Some prev \<Rightarrow> name \<le> prev)
         (InvalidManifest ''normalized observations must be sorted by metric name''),
       validate_observation ob,
       scan_observations (insert name names) (Some name) obs])"

fun scan_histograms :: "(string \<times> string) option \<Rightarrow> HistogramReference list \<Rightarrow> BundleError + unit" where
  "scan_histograms previous [] = Ok ()"
| "scan_histograms previous (h # hs) =
    (let key = (as_str (hr_metric h), path_text (hr_path h)) in checks
      [validate_histogram h,
       reject_if (case previous of None \<Rightarrow> False | Some prev \<Rightarrow> key \<le> prev)
         (InvalidManifest ''histogram references must be sorted by (metric, path)''),
       scan_histograms (Some key) hs])"

fun scan_categories :: "string option \<Rightarrow> ErrorCategoryCount list \<Rightarrow> BundleError + unit" where
  "scan_categories previous [] = Ok ()"
| "scan_categories previous (e # es) = checks
    [reject_if (case previous of None \<Rightarrow> False | Some prev \<Rightarrow> as_str (ec_category e) \<le> prev)
       (InvalidManifest ''error distribution must be sorted by category''),
     scan_categories (Some (as_str (ec_category e))) es]"

definition validate_trial_metrics :: "TrialMetrics \<Rightarrow> BundleError + unit" where
  "validate_trial_metrics m = checks
    [reject_if (tm_schema_version m \<noteq> TRIAL_METRICS_SCHEMA_VERSION)
       (UnsupportedManifestVersion (version_number (tm_schema_version m))),
     reject_if (tm_vocabulary_version m \<noteq> METRIC_VOCABULARY_VERSION)
       (ManifestParse (''unsupported metric vocabulary version '' @ show_dec (unat (tm_vocabulary_version m)))),
     reject_if (MAX_NORMALIZED_METRICS_PER_TRIAL < length (tm_observations m))
       (BoundExceeded ''normalized metric count''),
     reject_if (MAX_HISTOGRAM_REFERENCES_PER_TRIAL < length (tm_histograms m))
       (BoundExceeded ''histogram reference count''),
     reject_if (MAX_ERROR_CATEGORIES_PER_TRIAL < length (tm_error_distribution m))
       (BoundExceeded ''error category count''),
     reject_if (MAX_METRIC_WARNINGS_PER_TRIAL < length (tm_warnings m))
       (BoundExceeded ''metric warning count''),
     scan_observations {} None (tm_observations m),
     scan_histograms None (tm_histograms m),
     scan_categories None (tm_error_distribution m),
     for_each validate_warning (tm_warnings m)]"

section \<open>Normalization\<close>

fun name_error_text :: "NameError \<Rightarrow> string" where
  "name_error_text NameEmpty = ''name must not be empty''"
| "name_error_text NameTooLong = ''name exceeds the maximum length of 128 bytes''"
| "name_error_text NameControlCharacter = ''name contains a control character''"

definition label_name :: "string \<Rightarrow> string \<Rightarrow> BundleError + Name" where
  "label_name what label = map_err (\<lambda>e. ManifestParse (what @ name_error_text e)) (Name_new label)"

text \<open>\<open>chars().take(n).collect()\<close> on UTF-8 bytes.\<close>

fun take_chars :: "nat \<Rightarrow> string \<Rightarrow> string" where
  "take_chars n [] = []"
| "take_chars n (c # cs) =
    (if 128 \<le> byte c \<and> byte c < 192 then c # take_chars n cs
     else (case n of 0 \<Rightarrow> [] | Suc m \<Rightarrow> c # take_chars m cs))"

definition push_warning :: "MetricWarning list \<Rightarrow> string \<Rightarrow> string \<Rightarrow> BundleError + MetricWarning list" where
  "push_warning ws kind detail =
    (if MAX_METRIC_WARNINGS_PER_TRIAL \<le> length ws then Err (BoundExceeded ''metric warning count'')
     else
       (let w = \<lparr>mw_category = kind, mw_detail = take_chars MAX_METRIC_DETAIL_LEN detail\<rparr>
        in case validate_warning w of Err e \<Rightarrow> Err e | Ok _ \<Rightarrow> Ok (ws @ [w])))"

definition raw_observation_rules :: "RawMetricObservation \<Rightarrow> BundleError + unit" where
  "raw_observation_rules ob = checks
    [reject_if (MAX_NAME_LEN < length (raw_name ob) \<or> MAX_NAME_LEN < length (raw_unit ob)
         \<or> MAX_RAW_ARTIFACT_REFS_PER_METRIC < length (raw_artifacts ob))
       (BoundExceeded ''raw metric observation''),
     reject_if (case raw_source_field ob of None \<Rightarrow> False | Some f \<Rightarrow> MAX_PROVENANCE_FIELD_LEN < length f)
       (BoundExceeded ''raw source field'')]"

type_synonym raw_groups = "(string, RawMetricObservation list) BTreeMap"

fun group_observations :: "raw_groups \<Rightarrow> RawMetricObservation list \<Rightarrow> BundleError + raw_groups" where
  "group_observations m [] = Ok m"
| "group_observations m (ob # obs) =
    (case raw_observation_rules ob of
       Err e \<Rightarrow> Err e
     | Ok _ \<Rightarrow> group_observations (bt_insert (raw_name ob) (bt_get_or [] m (raw_name ob) @ [ob]) m) obs)"

definition request_aggregation_fallback :: "MetricRequest \<Rightarrow> Aggregation" where
  "request_aggregation_fallback r =
    (case builtin_metric (as_str (metric_name r)) of
       Some b \<Rightarrow> (case bi_aggregation b of Some a \<Rightarrow> a | None \<Rightarrow> AggDirect)
     | None \<Rightarrow> AggDirect)"

definition base_provenance ::
  "Name \<Rightarrow> NormalizationInput \<Rightarrow> string option \<Rightarrow> ArtifactPath list \<Rightarrow> MetricProvenance" where
  "base_provenance producer input field arts =
     \<lparr>pv_producer = producer, pv_producer_version = ni_producer_version input, pv_source_field = field,
      pv_normalization = NORMALIZATION_METHOD_V1, pv_raw_artifacts = arts\<rparr>"

definition observation_provenance ::
  "Name \<Rightarrow> NormalizationInput \<Rightarrow> RawMetricObservation \<Rightarrow> ArtifactPath list \<Rightarrow> BundleError + MetricProvenance" where
  "observation_provenance producer input raw arts =
    (case raw_producer raw of
       None \<Rightarrow> Ok (base_provenance producer input (raw_source_field raw) arts)
     | Some label \<Rightarrow>
         (case label_name ''invalid observation producer label: '' label of
            Err e \<Rightarrow> Err e
          | Ok n \<Rightarrow> Ok \<lparr>pv_producer = n, pv_producer_version = raw_producer_version raw,
              pv_source_field = raw_source_field raw, pv_normalization = NORMALIZATION_METHOD_V1,
              pv_raw_artifacts = arts\<rparr>))"

fun resolve_artifacts :: "(string, ArtifactPath) BTreeMap \<Rightarrow> string list \<Rightarrow> string + ArtifactPath list" where
  "resolve_artifacts m [] = Ok []"
| "resolve_artifacts m (n # ns) =
    (case bt_get m n of
       None \<Rightarrow> Err n
     | Some p \<Rightarrow> (case resolve_artifacts m ns of Err e \<Rightarrow> Err e | Ok ps \<Rightarrow> Ok (p # ps)))"

fun debug_aggregation :: "Aggregation \<Rightarrow> string" where
  "debug_aggregation AggDirect = ''Direct''"
| "debug_aggregation AggMinimum = ''Minimum''"
| "debug_aggregation AggMaximum = ''Maximum''"
| "debug_aggregation AggMean = ''Mean''"
| "debug_aggregation AggSum = ''Sum''"
| "debug_aggregation AggRate = ''Rate''"
| "debug_aggregation AggRatio = ''Ratio''"
| "debug_aggregation (AggPercentile bp) = ''Percentile { basis_points: '' @ show_dec (unat bp) @ '' }''"

type_synonym normalized = "ObservationState \<times> Aggregation \<times> MetricProvenance"

definition invalid_with ::
  "InvalidReason \<Rightarrow> string option \<Rightarrow> Aggregation \<Rightarrow> BundleError + MetricProvenance \<Rightarrow> BundleError + normalized" where
  "invalid_with reason detail agg pv =
    (case pv of Err e \<Rightarrow> Err e | Ok p \<Rightarrow> Ok (InvalidObservation reason detail, agg, p))"

text \<open>The plan against the vocabulary, then the number of raw observations, then the one there is.\<close>

definition vocabulary_conflict :: "MetricRequest \<Rightarrow> (InvalidReason \<times> string) option" where
  "vocabulary_conflict r =
    (case builtin_metric (as_str (metric_name r)) of
       None \<Rightarrow> None
     | Some b \<Rightarrow>
         if as_str (metric_unit r) \<noteq> bi_unit b
         then Some (UnitMismatch, ''plan unit '' @ as_str (metric_unit r) @ '' contradicts vocabulary unit '' @ bi_unit b)
         else (case bi_direction b of
             None \<Rightarrow> None
           | Some k \<Rightarrow>
               if direction_matches k (metric_direction r) then None
               else Some (DomainError, ''plan direction contradicts vocabulary for '' @ as_str (metric_name r))))"

definition expected_aggregation :: "MetricRequest \<Rightarrow> Aggregation option" where
  "expected_aggregation r =
    (case builtin_metric (as_str (metric_name r)) of None \<Rightarrow> None | Some b \<Rightarrow> bi_aggregation b)"

definition normalize_single ::
  "Name \<Rightarrow> NormalizationInput \<Rightarrow> MetricRequest \<Rightarrow> RawMetricObservation \<Rightarrow> BundleError + normalized" where
  "normalize_single producer input r raw =
    (case validate_aggregation (raw_aggregation raw) of
       Err e \<Rightarrow> Err e
     | Ok _ \<Rightarrow>
         (let invalid = (\<lambda>reason detail.
                invalid_with reason detail (raw_aggregation raw) (observation_provenance producer input raw []))
          in if raw_unit raw \<noteq> as_str (metric_unit r)
             then invalid UnitMismatch (Some (''raw unit '' @ raw_unit raw @ '' does not equal requested unit ''
               @ as_str (metric_unit r)))
             else if \<not> f64_is_finite (raw_value raw) then invalid NonFinite None
             else if is_ratio_metric (as_str (metric_name r)) \<and> \<not> in_unit_interval (raw_value raw)
             then invalid DomainError (Some (''ratio metric '' @ as_str (metric_name r) @ '' outside [0,1]''))
             else if (case expected_aggregation r of
                 None \<Rightarrow> False | Some a \<Rightarrow> \<not> aggregation_matches a (raw_aggregation raw))
             then invalid AggregationMismatch (Some (''raw aggregation '' @ debug_aggregation (raw_aggregation raw)
               @ '' contradicts vocabulary '' @ debug_aggregation (the (expected_aggregation r))))
             else (case resolve_artifacts (ni_artifact_map input) (raw_artifacts raw) of
                 Err n \<Rightarrow> invalid MalformedSourceReference (Some (''unknown raw artifact '' @ n))
               | Ok arts \<Rightarrow>
                   (case observation_provenance producer input raw arts of
                      Err e \<Rightarrow> Err e
                    | Ok pv \<Rightarrow> Ok (Observed (raw_value raw), raw_aggregation raw, pv)))))"

definition first_field :: "RawMetricObservation list \<Rightarrow> string option" where
  "first_field raws = (case raws of [] \<Rightarrow> None | raw # _ \<Rightarrow> raw_source_field raw)"

definition normalize_one_request ::
  "MetricRequest \<Rightarrow> RawMetricObservation list option \<Rightarrow> NormalizationInput \<Rightarrow> BundleError + normalized" where
  "normalize_one_request r found input =
    (case label_name ''invalid producer label: '' (ni_producer input) of
       Err e \<Rightarrow> Err e
     | Ok producer \<Rightarrow>
         (case found of
            None \<Rightarrow> Ok (Missing SourceNotProvided, request_aggregation_fallback r, base_provenance producer input None [])
          | Some raws \<Rightarrow>
              (case vocabulary_conflict r of
                 Some (reason, detail) \<Rightarrow>
                   Ok (InvalidObservation reason (Some detail), request_aggregation_fallback r,
                       base_provenance producer input (first_field raws) [])
               | None \<Rightarrow>
                   if length raws \<noteq> 1
                   then invalid_with DuplicateObservation
                     (Some (show_dec (length raws) @ '' raw observations for '' @ as_str (metric_name r)))
                     (request_aggregation_fallback r)
                     (case find (\<lambda>raw. raw_producer raw \<noteq> None) raws of
                        Some first \<Rightarrow> observation_provenance producer input first []
                      | None \<Rightarrow> Ok (base_provenance producer input (first_field raws) []))
                   else normalize_single producer input r (raws ! 0))))"

definition finish_observation :: "MetricRequest \<Rightarrow> normalized \<Rightarrow> NormalizedObservation" where
  "finish_observation r n =
    (case n of (state, agg, pv) \<Rightarrow>
       \<lparr>no_name = metric_name r, no_unit = metric_unit r, no_direction = metric_direction r,
        no_intent = metric_intent r, no_aggregation = agg, no_state = state, no_provenance = pv\<rparr>)"

fun normalize_requests ::
  "Name \<Rightarrow> NormalizationInput \<Rightarrow> raw_groups \<Rightarrow> string set \<Rightarrow> MetricRequest list
    \<Rightarrow> BundleError + NormalizedObservation list" where
  "normalize_requests producer input groups seen [] = Ok []"
| "normalize_requests producer input groups seen (r # rs) =
    (let name = as_str (metric_name r)
     in if name \<in> seen then Err (ManifestParse (''duplicate requested metric name: '' @ name))
        else
          (case (if ni_terminal_status input = TrialCompleted
                 then normalize_one_request r (bt_get groups name) input
                 else Ok (Missing TrialNotCompleted, request_aggregation_fallback r,
                        base_provenance producer input None [])) of
             Err e \<Rightarrow> Err e
           | Ok n \<Rightarrow>
               (case normalize_requests producer input groups (insert name seen) rs of
                  Err e \<Rightarrow> Err e
                | Ok obs \<Rightarrow> Ok (finish_observation r n # obs))))"

definition histogram_rules :: "RawHistogramInput \<Rightarrow> BundleError + unit" where
  "histogram_rules h = checks
    [reject_if (MAX_NAME_LEN < length (rh_metric h) \<or> MAX_NAME_LEN < length (rh_artifact_name h)
         \<or> MAX_NAME_LEN < length (rh_unit h))
       (BoundExceeded ''raw histogram''),
     reject_if (rh_format h = [] \<or> MAX_HISTOGRAM_FORMAT_LEN < length (rh_format h))
       (BoundExceeded ''raw histogram format''),
     reject_if (case rh_method h of None \<Rightarrow> False | Some m \<Rightarrow> MAX_PROVENANCE_FIELD_LEN < length m)
       (BoundExceeded ''raw histogram method'')]"

fun collect_histograms ::
  "(string, ArtifactPath) BTreeMap \<Rightarrow> RawHistogramInput list \<Rightarrow> BundleError + HistogramReference list" where
  "collect_histograms m [] = Ok []"
| "collect_histograms m (h # hs) =
    (case histogram_rules h of
       Err e \<Rightarrow> Err e
     | Ok _ \<Rightarrow>
         (case bt_get m (rh_artifact_name h) of
            None \<Rightarrow> collect_histograms m hs
          | Some p \<Rightarrow>
              (case label_name ''invalid histogram metric: '' (rh_metric h) of
                 Err e \<Rightarrow> Err e
               | Ok metric \<Rightarrow>
                   (case label_name ''invalid histogram unit: '' (rh_unit h) of
                      Err e \<Rightarrow> Err e
                    | Ok u \<Rightarrow>
                        (case collect_histograms m hs of
                           Err e \<Rightarrow> Err e
                         | Ok refs \<Rightarrow> Ok (\<lparr>hr_metric = metric, hr_path = p, hr_format = rh_format h,
                             hr_unit = u, hr_method = rh_method h, hr_source_metric = None\<rparr> # refs))))))"

definition normalize_histograms :: "NormalizationInput \<Rightarrow> BundleError + HistogramReference list" where
  "normalize_histograms input =
    (case collect_histograms (ni_artifact_map input) (ni_histograms input) of
       Err e \<Rightarrow> Err e
     | Ok refs \<Rightarrow> Ok (sort_key (\<lambda>h. (as_str (hr_metric h), path_text (hr_path h))) refs))"

fun collect_categories :: "(Name, u64) BTreeMap \<Rightarrow> (string \<times> u64) list \<Rightarrow> BundleError + (Name, u64) BTreeMap" where
  "collect_categories m [] = Ok m"
| "collect_categories m ((label, n) # rest) =
    (case label_name ''invalid error category: '' label of
       Err e \<Rightarrow> Err e
     | Ok name \<Rightarrow> collect_categories (bt_insert name n m) rest)"

definition normalize_error_counts :: "(string \<times> u64) list \<Rightarrow> BundleError + ErrorCategoryCount list" where
  "normalize_error_counts counts =
    (case collect_categories [] counts of
       Err e \<Rightarrow> Err e
     | Ok m \<Rightarrow> Ok (map (\<lambda>(c, n). \<lparr>ec_category = c, ec_count = n\<rparr>) m))"

fun collect_warnings :: "string set \<Rightarrow> MetricWarning list \<Rightarrow> raw_groups \<Rightarrow> BundleError + MetricWarning list" where
  "collect_warnings seen ws [] = Ok ws"
| "collect_warnings seen ws ((name, raws) # groups) =
    (case (if name \<notin> seen
           then push_warning ws ''unrequested_raw_metric''
             (''raw observation for unrequested metric '' @ name @ '' ignored'')
           else if 1 < length raws
           then push_warning ws ''duplicate_raw_observation''
             (''duplicate raw observations for metric '' @ name @ '' marked invalid'')
           else Ok ws) of
       Err e \<Rightarrow> Err e
     | Ok ws' \<Rightarrow> collect_warnings seen ws' groups)"

definition input_rules :: "NormalizationInput \<Rightarrow> BundleError + unit" where
  "input_rules input = checks
    [reject_if (MAX_NORMALIZED_METRICS_PER_TRIAL < length (ni_metrics input)) (BoundExceeded ''requested metric count''),
     reject_if (MAX_RAW_OBSERVATIONS_PER_INVOCATION < length (ni_observations input))
       (BoundExceeded ''raw metric observation count''),
     reject_if (MAX_HISTOGRAM_REFERENCES_PER_TRIAL < length (ni_histograms input)) (BoundExceeded ''raw histogram count''),
     reject_if (MAX_ERROR_CATEGORIES_PER_TRIAL < length (ni_error_counts input))
       (BoundExceeded ''raw error category count'')]"

definition normalize_trial_metrics :: "NormalizationInput \<Rightarrow> BundleError + TrialMetrics" where
  "normalize_trial_metrics input =
    (case input_rules input of Err e \<Rightarrow> Err e | Ok _ \<Rightarrow>
    (case label_name ''invalid producer label: '' (ni_producer input) of Err e \<Rightarrow> Err e | Ok producer \<Rightarrow>
    (case reject_if (case ni_producer_version input of None \<Rightarrow> False | Some v \<Rightarrow> MAX_PROVENANCE_FIELD_LEN < length v)
         (BoundExceeded ''producer version'') of Err e \<Rightarrow> Err e | Ok _ \<Rightarrow>
    (case group_observations [] (ni_observations input) of Err e \<Rightarrow> Err e | Ok groups \<Rightarrow>
    (case normalize_requests producer input groups {} (ni_metrics input) of Err e \<Rightarrow> Err e | Ok obs \<Rightarrow>
    (case normalize_histograms input of Err e \<Rightarrow> Err e | Ok hists \<Rightarrow>
    (case normalize_error_counts (ni_error_counts input) of Err e \<Rightarrow> Err e | Ok errs \<Rightarrow>
    (case collect_warnings ((\<lambda>r. as_str (metric_name r)) ` set (ni_metrics input)) [] groups of
       Err e \<Rightarrow> Err e
     | Ok ws \<Rightarrow>
         (let m = \<lparr>tm_schema_version = TRIAL_METRICS_SCHEMA_VERSION,
                tm_vocabulary_version = METRIC_VOCABULARY_VERSION, tm_trial_id = ni_trial_id input,
                tm_observations = sort_key (\<lambda>ob. as_str (no_name ob)) obs, tm_histograms = hists,
                tm_error_distribution = errs, tm_warnings = ws\<rparr>
          in case validate_trial_metrics m of Err e \<Rightarrow> Err e | Ok _ \<Rightarrow> Ok m)))))))))"

section \<open>The staged artifact\<close>

definition pad3 :: "nat \<Rightarrow> string" where
  "pad3 n = replicate (3 - length (show_dec n)) CHR ''0'' @ show_dec n"

definition trial_metrics_path :: "TrialId \<Rightarrow> BundleError + ArtifactPath" where
  "trial_metrics_path t = ArtifactPath_new (''trials/'' @ pad3 (unat (trial_get t)) @ ''/metrics.json'')"

text \<open>\<open>BundleReader::trial_metrics\<close>; \<open>parse\<close> is the JSON decoder.\<close>

definition read_trial_metrics ::
  "(string \<Rightarrow> string + TrialMetrics) \<Rightarrow> BundleReader \<Rightarrow> TrialId \<Rightarrow> BundleError + TrialMetrics option" where
  "read_trial_metrics parse r t =
    (case find (\<lambda>d. trial_ident d = t) (m_trials (rd_manifest r)) of
       None \<Rightarrow> Ok None
     | Some d \<Rightarrow>
         (case trial_metrics_path t of
            Err e \<Rightarrow> Err e
          | Ok expected \<Rightarrow>
              if expected \<notin> set (trial_artifacts d) then Ok None
              else (case open_artifact r expected of
                  Err e \<Rightarrow> Err e
                | Ok content \<Rightarrow>
                    (case read_bounded content (unat MAX_ARTIFACT_BYTES) ''trial metrics bytes'' of
                       Err e \<Rightarrow> Err e
                     | Ok bytes \<Rightarrow>
                         (case parse bytes of
                            Err e \<Rightarrow> Err (ManifestParse e)
                          | Ok m \<Rightarrow>
                              (case checks
                                [reject_if (tm_trial_id m \<noteq> t)
                                   (ManifestParse (''trial metrics identity mismatch: expected trial ''
                                     @ show_dec (unat (trial_get t)))),
                                 validate_trial_metrics m] of
                                 Err e \<Rightarrow> Err e
                               | Ok _ \<Rightarrow> Ok (Some m)))))))"

section \<open>Grouping\<close>

definition named :: "RawMetricObservation list \<Rightarrow> string \<Rightarrow> RawMetricObservation list" where
  "named obs n = filter (\<lambda>raw. raw_name raw = n) obs"

lemma group_observations_get:
  assumes "group_observations m obs = Ok g" and "bt_ok m"
  shows "bt_get g n = (if bt_get m n = None \<and> named obs n = [] then None
    else Some (bt_get_or [] m n @ named obs n))"
  using assms
proof (induction obs arbitrary: m)
  case Nil
  then show ?case by (auto simp: named_def bt_get_or_def split: option.splits)
next
  case (Cons ob obs)
  let ?m = "bt_insert (raw_name ob) (bt_get_or [] m (raw_name ob) @ [ob]) m"
  from Cons.prems have "group_observations ?m obs = Ok g" by (auto split: sum.splits)
  moreover from Cons.prems(2) have "bt_ok ?m" by (simp add: bt_ok_insert)
  ultimately have ih: "bt_get g n = (if bt_get ?m n = None \<and> named obs n = [] then None
      else Some (bt_get_or [] ?m n @ named obs n))" by (rule Cons.IH)
  show ?case
  proof (cases "raw_name ob = n")
    case True
    then have "named (ob # obs) n = ob # named obs n" by (simp add: named_def)
    with True Cons.prems(2) ih show ?thesis by (simp add: bt_get_insert bt_get_or_def)
  next
    case False
    then have "named (ob # obs) n = named obs n" by (simp add: named_def)
    with False Cons.prems(2) ih show ?thesis by (simp add: bt_get_insert bt_get_or_def)
  qed
qed

lemma grouped:
  assumes "group_observations [] obs = Ok g"
  shows "bt_get g n = (if named obs n = [] then None else Some (named obs n))"
  using group_observations_get [OF assms, of n] by (simp add: bt_get_or_def)

section \<open>One request\<close>

text \<open>The state a request may get, given the raw observations with its name.\<close>

fun state_justified ::
  "TrialExecutionStatus \<Rightarrow> MetricRequest \<Rightarrow> RawMetricObservation list \<Rightarrow> Aggregation \<Rightarrow> ObservationState \<Rightarrow> bool" where
  "state_justified t r raws agg (Observed v) \<longleftrightarrow> t = TrialCompleted
     \<and> (\<exists>raw. raws = [raw] \<and> raw_value raw = v \<and> raw_unit raw = as_str (metric_unit r)
          \<and> raw_aggregation raw = agg \<and> f64_is_finite v)
     \<and> vocabulary_conflict r = None
     \<and> (is_ratio_metric (as_str (metric_name r)) \<longrightarrow> in_unit_interval v)
     \<and> (\<forall>a. expected_aggregation r = Some a \<longrightarrow> aggregation_matches a agg)"
| "state_justified t r raws agg (Missing SourceNotProvided) \<longleftrightarrow> t = TrialCompleted \<and> raws = []"
| "state_justified t r raws agg (Missing TrialNotCompleted) \<longleftrightarrow> t \<noteq> TrialCompleted"
| "state_justified t r raws agg (Missing UnsupportedByDriver) \<longleftrightarrow> False"
| "state_justified t r raws agg (InvalidObservation reason d) \<longleftrightarrow> t = TrialCompleted \<and> raws \<noteq> []
     \<and> (reason = DuplicateObservation \<longleftrightarrow> vocabulary_conflict r = None \<and> length raws \<noteq> 1)"

lemma invalid_with_Ok:
  "invalid_with reason d agg pv = Ok n \<longleftrightarrow> (\<exists>p. pv = Ok p \<and> n = (InvalidObservation reason d, agg, p))"
  by (auto simp: invalid_with_def split: sum.splits)

lemma vocabulary_conflict_reason: "vocabulary_conflict r = Some (reason, d) \<Longrightarrow> reason \<noteq> DuplicateObservation"
  by (auto simp: vocabulary_conflict_def split: option.splits if_splits)

lemma normalize_single_justified:
  assumes "normalize_single producer input r raw = Ok (state, agg, pv)" and "vocabulary_conflict r = None"
  shows "state_justified TrialCompleted r [raw] agg state"
  using assms
  by (auto simp: normalize_single_def Let_def invalid_with_Ok split: sum.splits if_splits option.splits)

lemma normalize_one_request_justified:
  assumes "normalize_one_request r (if raws = [] then None else Some raws) input = Ok (state, agg, pv)"
  shows "state_justified TrialCompleted r raws agg state"
proof (cases "raws = []")
  case True
  with assms show ?thesis by (auto simp: normalize_one_request_def split: sum.splits)
next
  case False
  show ?thesis
  proof (cases "vocabulary_conflict r")
    case None
    show ?thesis
    proof (cases "length raws = 1")
      case True
      then obtain raw where "raws = [raw]" by (cases raws) auto
      with assms None show ?thesis
        by (auto simp: normalize_one_request_def intro!: normalize_single_justified split: sum.splits)
    next
      case False
      with \<open>raws \<noteq> []\<close> assms None show ?thesis
        by (auto simp: normalize_one_request_def invalid_with_Ok split: sum.splits)
    qed
  next
    case (Some c)
    with False assms vocabulary_conflict_reason [of r] show ?thesis
      by (cases c) (auto simp: normalize_one_request_def split: sum.splits)
  qed
qed

definition answers :: "NormalizationInput \<Rightarrow> MetricRequest \<Rightarrow> NormalizedObservation \<Rightarrow> bool" where
  "answers input r ob \<longleftrightarrow> no_name ob = metric_name r \<and> no_unit ob = metric_unit r
     \<and> no_direction ob = metric_direction r \<and> no_intent ob = metric_intent r
     \<and> state_justified (ni_terminal_status input) r (named (ni_observations input) (as_str (metric_name r)))
         (no_aggregation ob) (no_state ob)"

lemma normalize_requests_Ok:
  assumes "normalize_requests producer input groups seen rs = Ok obs"
    and groups: "\<And>n. bt_get groups n
      = (if named (ni_observations input) n = [] then None else Some (named (ni_observations input) n))"
  shows "list_all2 (answers input) rs obs \<and> distinct (map metric_name rs)
     \<and> (\<forall>r \<in> set rs. as_str (metric_name r) \<notin> seen)"
  using assms(1)
proof (induction rs arbitrary: obs seen)
  case (Cons r rs)
  let ?name = "as_str (metric_name r)"
  from Cons.prems obtain n obs' where fresh: "?name \<notin> seen"
    and n: "(if ni_terminal_status input = TrialCompleted
        then normalize_one_request r (bt_get groups ?name) input
        else Ok (Missing TrialNotCompleted, request_aggregation_fallback r, base_provenance producer input None [])) = Ok n"
    and rest: "normalize_requests producer input groups (insert ?name seen) rs = Ok obs'"
    and obs: "obs = finish_observation r n # obs'"
    by (auto simp: Let_def split: if_splits sum.splits)
  obtain state agg pv where npv: "n = (state, agg, pv)" by (cases n)
  have "state_justified (ni_terminal_status input) r (named (ni_observations input) ?name) agg state"
  proof (cases "ni_terminal_status input = TrialCompleted")
    case True
    with n npv show ?thesis using normalize_one_request_justified by (simp add: groups)
  next
    case False
    with n npv show ?thesis by auto
  qed
  then have "answers input r (finish_observation r n)" by (simp add: npv finish_observation_def answers_def)
  with Cons.IH [OF rest] fresh obs show ?case by (auto simp: image_iff)
qed simp

text \<open>
  C24: Normalization never imputes.  It yields exactly one record for each requested metric,
  with the unit, direction and intent of the plan, in strictly increasing order of names; a
  value is observed only in a completed trial and only if it is the finite value of the
  single raw observation with that name, in the requested unit and with the recorded
  aggregation; the missing states are used exactly for incomplete trials and for metrics
  without a raw observation.
\<close>

theorem normalize_never_imputes:
  assumes "normalize_trial_metrics input = Ok m"
  shows "sorted_wrt (<) (map no_name (tm_observations m))
    \<and> mset (map no_name (tm_observations m)) = mset (map metric_name (ni_metrics input))
    \<and> (\<forall>ob \<in> set (tm_observations m). \<exists>r \<in> set (ni_metrics input). answers input r ob)"
proof -
  from assms obtain producer g obs where g: "group_observations [] (ni_observations input) = Ok g"
    and obs: "normalize_requests producer input g {} (ni_metrics input) = Ok obs"
    and m: "tm_observations m = sort_key (\<lambda>ob. as_str (no_name ob)) obs"
    by (auto simp: normalize_trial_metrics_def Let_def split: sum.splits)
  from normalize_requests_Ok [OF obs grouped [OF g]]
  have all: "list_all2 (answers input) (ni_metrics input) obs" and dist: "distinct (map metric_name (ni_metrics input))"
    by auto
  have names: "map no_name obs = map metric_name (ni_metrics input)"
    using all by (induction rule: list_all2_induct) (auto simp: answers_def)
  have "mset (map no_name (tm_observations m)) = mset (map no_name obs)"
    by (simp add: m)
  with names have mset: "mset (map no_name (tm_observations m)) = mset (map metric_name (ni_metrics input))" by simp
  then have "distinct (map no_name (tm_observations m))" using dist by (metis mset_eq_imp_distinct_iff)
  moreover have "sorted (map no_name (tm_observations m))"
  proof -
    have "sorted (map as_str (map no_name (tm_observations m)))"
      using sorted_sort_key [of "\<lambda>ob. as_str (no_name ob)" obs] by (simp add: m comp_def)
    then show ?thesis by (simp add: sorted_wrt_map less_eq_Name_def)
  qed
  ultimately have "sorted_wrt (<) (map no_name (tm_observations m))" by (simp add: strict_sorted_iff)
  moreover have "\<exists>r \<in> set (ni_metrics input). answers input r ob" if "ob \<in> set (tm_observations m)" for ob
  proof -
    from that m have "ob \<in> set obs" by simp
    with all show ?thesis by (fastforce simp: list_all2_conv_all_nth in_set_conv_nth)
  qed
  ultimately show ?thesis using mset by blast
qed

section \<open>A concrete trial\<close>

definition latency_request :: MetricRequest where
  "latency_request = \<lparr>metric_name = Name ''latency_p99'', metric_unit = Name ''ms'',
     metric_direction = LowerIsBetter, metric_intent = Primary, metric_gate = None\<rparr>"

definition latency_raw :: RawMetricObservation where
  "latency_raw = \<lparr>raw_name = ''latency_p99'', raw_unit = ''ms'', raw_value = 0x4008000000000000,
     raw_aggregation = AggPercentile 9900, raw_source_field = None, raw_producer = None,
     raw_producer_version = None, raw_artifacts = []\<rparr>"

definition latency_input :: NormalizationInput where
  "latency_input = \<lparr>ni_trial_id = TrialId 1, ni_metrics = [latency_request], ni_terminal_status = TrialCompleted,
     ni_observations = [latency_raw], ni_histograms = [], ni_error_counts = [], ni_artifact_map = [],
     ni_producer = ''1'', ni_producer_version = None\<rparr>"

lemma three_finite: "f64_is_finite 0x4008000000000000"
  by (simp add: f64_defs)

lemma latency_normalized:
  "\<exists>m. normalize_trial_metrics latency_input = Ok m \<and> map no_state (tm_observations m) = [Observed 0x4008000000000000]"
proof -
  have "Name_new ''1'' = Ok (Name ''1'')"
    by (simp add: Name_new_def trim_is_empty_def has_control_def byte_def is_whitespace_def
        is_control_def MAX_NAME_LEN_def)
  then show ?thesis
    using three_finite
    by (simp add: normalize_trial_metrics_def latency_input_def input_rules_def reject_if_def label_name_def map_err_def
        raw_observation_rules_def latency_raw_def MAX_NORMALIZED_METRICS_PER_TRIAL_def
        MAX_RAW_OBSERVATIONS_PER_INVOCATION_def MAX_RAW_ARTIFACT_REFS_PER_METRIC_def MAX_NAME_LEN_def
        latency_request_def bt_get_def normalize_one_request_def vocabulary_conflict_def builtin_metric_def
        normalize_single_def expected_aggregation_def is_ratio_metric_def observation_provenance_def
        base_provenance_def finish_observation_def normalize_histograms_def normalize_error_counts_def
        validate_trial_metrics_def validate_observation_def validate_provenance_def NORMALIZATION_METHOD_V1_def
        MAX_PROVENANCE_FIELD_LEN_def)
qed

theorem normalize_never_imputes_witness:
  "\<exists>m. normalize_trial_metrics latency_input = Ok m \<and> map no_state (tm_observations m) = [Observed 0x4008000000000000]
     \<and> mset (map no_name (tm_observations m)) = {#Name ''latency_p99''#}"
proof -
  from latency_normalized obtain m where m: "normalize_trial_metrics latency_input = Ok m"
    "map no_state (tm_observations m) = [Observed 0x4008000000000000]" by auto
  from normalize_never_imputes [OF m(1)] m show ?thesis
    by (auto simp: latency_input_def latency_request_def)
qed

end
