(* ===== verification/Seeds.thy ===== *)
theory Seeds
  imports Metrics
begin

text \<open>
  Deterministic seeds and the paired schedule: \<open>mix64\<close>, \<open>derive_seed\<close>,
  \<open>derive_schedule_seed\<close>, \<open>paired_assignment\<close> and \<open>warmup_arm\<close> of
  \<open>eggbench-runner/src/orchestration.rs\<close>, and \<open>SplitMix64\<close> and \<open>fnv1a64\<close> of
  \<open>eggbench-core/src/comparison.rs\<close>.

  The lemmas show that the mixer is a permutation of the 64-bit words, so distinct
  invocations get distinct seeds, and that a paired run alternates complete pairs.
\<close>

section \<open>Mixing\<close>

definition xorshift :: "nat \<Rightarrow> u64 \<Rightarrow> u64" where
  "xorshift k v = v XOR drop_bit k v"

definition mix64 :: "u64 \<Rightarrow> u64" where
  "mix64 v =
    (let a = v + 0x9E3779B97F4A7C15;
         b = xorshift 30 a * 0xBF58476D1CE4E5B9;
         c = xorshift 27 b * 0x94D049BB133111EB
     in xorshift 31 c)"

datatype SplitMix64 = SplitMix64 (rng_state: u64)

definition rng_next :: "SplitMix64 \<Rightarrow> u64 \<times> SplitMix64" where
  "rng_next r =
    (let s = rng_state r + 0x9E3779B97F4A7C15;
         b = xorshift 30 s * 0xBF58476D1CE4E5B9;
         c = xorshift 27 b * 0x94D049BB133111EB
     in (xorshift 31 c, SplitMix64 s))"

fun fnv_step :: "u64 \<Rightarrow> string \<Rightarrow> u64" where
  "fnv_step h [] = h"
| "fnv_step h (b # bs) = fnv_step ((h XOR of_nat (byte b)) * 0x100000001B3) bs"

definition fnv1a64 :: "string \<Rightarrow> u64" where
  "fnv1a64 bytes = fnv_step 0xCBF29CE484222325 bytes"

definition to_le_bytes :: "u64 \<Rightarrow> string" where
  "to_le_bytes v = map (\<lambda>i. char_of (unat (take_bit 8 (drop_bit (8 * i) v)))) [0..<8]"

definition derive_metric_seed :: "u64 \<Rightarrow> string \<Rightarrow> u64" where
  "derive_metric_seed base metric = fnv1a64 (to_le_bytes base @ ''|'' @ metric)"

section \<open>Invocations\<close>

datatype InvocationKind = Warmup u32 | Measured TrialId "TrialArm option"

definition seed_namespace :: "InvocationKind \<Rightarrow> u64" where
  "seed_namespace k =
    (case k of
       Warmup ordinal \<Rightarrow> 0x5741524D00000000 OR ucast ordinal
     | Measured t arm \<Rightarrow>
         (let arm_bit = (case arm of Some Candidate \<Rightarrow> 0x100000000 | _ \<Rightarrow> 0)
          in 0x5452494100000000 OR arm_bit OR ucast (trial_get t)))"

definition derive_seed :: "u64 \<Rightarrow> InvocationKind \<Rightarrow> u64" where
  "derive_seed base k = mix64 (base XOR seed_namespace k)"

definition div_ceil2 :: "u32 \<Rightarrow> u32" where
  "div_ceil2 n = of_nat ((unat n + 1) div 2)"

definition schedule_namespace :: "InvocationKind \<Rightarrow> u64" where
  "schedule_namespace k =
    (case k of
       Warmup ordinal \<Rightarrow> 0x5741524D00000000 OR ucast ordinal
     | Measured t arm \<Rightarrow>
         0x5343484400000000 OR ucast (if arm = None then trial_get t else div_ceil2 (trial_get t)))"

definition derive_schedule_seed :: "u64 \<Rightarrow> InvocationKind \<Rightarrow> u64" where
  "derive_schedule_seed base k = mix64 (base XOR schedule_namespace k)"

definition paired_assignment :: "u32 \<Rightarrow> TrialArm \<times> u32" where
  "paired_assignment n = (if unat n mod 2 = 0 then Candidate else Baseline, div_ceil2 n)"

definition warmup_arm :: "u32 \<Rightarrow> TrialArm" where
  "warmup_arm ordinal = (if unat ordinal mod 2 = 0 then Candidate else Baseline)"

definition effective_workload :: "ResolvedPlan \<Rightarrow> TrialArm \<Rightarrow> Workload" where
  "effective_workload rp arm =
    (case rp_paired rp of
       Some design \<Rightarrow> with_target (rp_workload rp)
         (case arm of Baseline \<Rightarrow> arm_service (rp_baseline design) | Candidate \<Rightarrow> arm_service (rp_candidate design))
     | None \<Rightarrow> rp_workload rp)"

section \<open>The mixer is a permutation\<close>

lemma xorshift_inject:
  assumes "0 < k" and "xorshift k v = xorshift k w"
  shows "v = w"
proof -
  have bits: "bit v n = bit w n" for n
  proof (induction "64 - n" arbitrary: n rule: less_induct)
    case less
    show ?case
    proof (cases "n < 64")
      case True
      then have "bit v (n + k) = bit w (n + k)" using less assms(1) by simp
      moreover have "bit (xorshift k v) n = bit (xorshift k w) n" using assms(2) by simp
      ultimately show ?thesis
        by (auto simp: xorshift_def bit_xor_iff bit_drop_bit_eq add.commute)
    next
      case False
      then show ?thesis using bit_imp_le_length [of v n] bit_imp_le_length [of w n] by auto
    qed
  qed
  then show ?thesis by (rule bit_eqI)
qed

lemma times_inject:
  fixes a b c d :: u64
  assumes "c * d = 1"
  shows "a * c = b * c \<longleftrightarrow> a = b"
proof
  assume "a * c = b * c"
  then have "a * c * d = b * c * d" by simp
  with assms show "a = b" by (simp add: mult.assoc)
qed simp

lemma mix64_inject: "mix64 v = mix64 w \<longleftrightarrow> v = w"
proof
  have a: "0xBF58476D1CE4E5B9 * (0x96DE1B173F119089 :: u64) = 1" by simp
  have b: "0x94D049BB133111EB * (0x319642B2D24D8EC3 :: u64) = 1" by simp
  assume "mix64 v = mix64 w"
  then show "v = w"
    by (auto simp: mix64_def Let_def times_inject [OF a] times_inject [OF b] dest!: xorshift_inject [rotated])
qed simp

lemma rng_next_mix64: "rng_next r = (mix64 (rng_state r), SplitMix64 (rng_state r + 0x9E3779B97F4A7C15))"
  by (simp add: rng_next_def mix64_def Let_def)

section \<open>Namespaces\<close>

lemma word_bit_bound: "bit (x :: u32) n \<Longrightarrow> n < 32"
  using bit_imp_le_length [of x n] by simp

lemma ucast_u64_inject:
  assumes "(ucast (x :: u32) :: u64) = ucast y"
  shows "x = y"
proof (rule bit_word_eqI)
  fix n
  have "bit (ucast x :: u64) n = bit (ucast y :: u64) n" using assms by simp
  then show "bit x n = bit y n" using word_bit_bound [of x n] word_bit_bound [of y n] by (auto simp: bit_ucast_iff)
qed

lemma tag_parts:
  fixes x :: u32 and t :: u64
  assumes "take_bit 32 t = 0"
  shows "take_bit 32 (t OR ucast x) = ucast x" and "drop_bit 32 (t OR ucast x) = drop_bit 32 t"
proof -
  have "take_bit 32 (ucast x :: u64) = ucast x" "drop_bit 32 (ucast x :: u64) = 0"
    by (auto intro!: bit_word_eqI simp: bit_take_bit_iff bit_drop_bit_eq bit_ucast_iff dest: word_bit_bound)
  with assms show "take_bit 32 (t OR ucast x) = ucast x" "drop_bit 32 (t OR ucast x) = drop_bit 32 t"
    by simp_all
qed

lemma tag_inject:
  fixes x y :: u32 and s t :: u64
  assumes "take_bit 32 s = 0" and "take_bit 32 t = 0"
  shows "s OR ucast x = t OR ucast y \<longleftrightarrow> drop_bit 32 s = drop_bit 32 t \<and> x = y"
proof
  assume eq: "s OR ucast x = t OR ucast y"
  have "(ucast x :: u64) = ucast y"
    using tag_parts(1) [OF assms(1), of x] tag_parts(1) [OF assms(2), of y] eq by simp
  then have "x = y" by (rule ucast_u64_inject)
  moreover have "drop_bit 32 s = drop_bit 32 t"
    using tag_parts(2) [OF assms(1), of x] tag_parts(2) [OF assms(2), of y] eq by simp
  ultimately show "drop_bit 32 s = drop_bit 32 t \<and> x = y" by simp
next
  assume "drop_bit 32 s = drop_bit 32 t \<and> x = y"
  moreover have "v = push_bit 32 (drop_bit 32 v)" if "take_bit 32 v = 0" for v :: u64
    using bits_ident [of 32 v] that by simp
  ultimately show "s OR ucast x = t OR ucast y" using assms by metis
qed

text \<open>The identity a seed is for: the arm of a trial does not take part.\<close>

fun seed_identity :: "InvocationKind \<Rightarrow> bool \<times> u32" where
  "seed_identity (Warmup ordinal) = (True, ordinal)"
| "seed_identity (Measured t arm) = (False, trial_get t)"

lemma seed_namespace_eq: "seed_namespace k = seed_namespace l \<longleftrightarrow> seed_identity k = seed_identity l"
proof -
  have arm: "0x5452494100000000 OR (case a of Some Candidate \<Rightarrow> 0x100000000 | _ \<Rightarrow> 0) = (0x5452494100000000 :: u64)"
    for a by (cases a) (auto split: TrialArm.split)
  have "seed_namespace k = (if fst (seed_identity k) then 0x5741524D00000000 else 0x5452494100000000)
      OR ucast (snd (seed_identity k))" for k
    using arm by (cases k) (simp_all add: seed_namespace_def or.assoc [symmetric])
  then show ?thesis
    by (cases "seed_identity k"; cases "seed_identity l") (auto simp: tag_inject)
qed

fun schedule_identity :: "InvocationKind \<Rightarrow> bool \<times> u32" where
  "schedule_identity (Warmup ordinal) = (True, ordinal)"
| "schedule_identity (Measured t arm) = (False, if arm = None then trial_get t else div_ceil2 (trial_get t))"

lemma schedule_namespace_eq:
  "schedule_namespace k = schedule_namespace l \<longleftrightarrow> schedule_identity k = schedule_identity l"
proof -
  have "schedule_namespace k = (if fst (schedule_identity k) then 0x5741524D00000000 else 0x5343484400000000)
      OR ucast (snd (schedule_identity k))" for k
    by (cases k) (simp_all add: schedule_namespace_def)
  then show ?thesis
    by (cases "schedule_identity k"; cases "schedule_identity l") (auto simp: tag_inject)
qed

lemma seed_xor_inject: "(s :: u64) XOR a = s XOR b \<longleftrightarrow> a = b"
proof
  assume "s XOR a = s XOR b"
  then have "s XOR (s XOR a) = s XOR (s XOR b)" by simp
  then show "a = b" by (simp add: xor.assoc [symmetric])
qed simp


section \<open>The paired schedule\<close>

lemma unat_div_ceil2: "unat (div_ceil2 n) = (unat n + 1) div 2"
proof -
  have "unat n < 2 ^ 32" using unsigned_less [of n] by simp
  then show ?thesis by (simp add: div_ceil2_def unat_of_nat take_bit_nat_eq_self)
qed

lemma paired_assignment_eq:
  "paired_assignment n = (arm, q) \<longleftrightarrow>
     unat q = (unat n + 1) div 2 \<and> (arm = Candidate \<longleftrightarrow> unat n mod 2 = 0)"
  by (cases arm) (auto simp: paired_assignment_def unat_div_ceil2 word_unat_eq_iff split: if_splits)

lemma single_solution: "A a \<Longrightarrow> B a \<Longrightarrow> {n. A n \<and> B n \<and> n = a} = {a}"
  by auto

text \<open>
  C26: A run of \<open>2 * q\<close> paired trials measures every pair from 1 to \<open>q\<close> exactly once in each
  arm, the baseline immediately before the candidate; the two trials of a pair share their
  schedule seed, and trials of different pairs do not.
\<close>

theorem paired_schedule_balanced:
  fixes q pairs :: u32
  assumes "1 \<le> q" and "unat q \<le> unat pairs" and "2 * unat pairs < 2 ^ 32"
  shows "{n. 1 \<le> unat n \<and> unat n \<le> 2 * unat pairs \<and> paired_assignment n = (Baseline, q)} = {2 * q - 1}
    \<and> {n. 1 \<le> unat n \<and> unat n \<le> 2 * unat pairs \<and> paired_assignment n = (Candidate, q)} = {2 * q}
    \<and> (\<forall>m n a b. derive_schedule_seed s (Measured (TrialId m) (Some a)) = derive_schedule_seed s (Measured (TrialId n) (Some b))
         \<longleftrightarrow> snd (paired_assignment m) = snd (paired_assignment n))"
proof -
  from assms have q: "1 \<le> unat q" by (simp add: word_le_nat_alt)
  have double: "unat (2 * q) = 2 * unat q" using assms by (simp add: unat_word_ariths)
  have pred: "unat (2 * q - 1) = 2 * unat q - 1"
    using double q by (subst unat_sub) (simp_all add: word_le_nat_alt)
  have odd: "unat q = (unat n + 1) div 2 \<and> unat n mod 2 \<noteq> 0 \<longleftrightarrow> unat n = 2 * unat q - 1" for n :: u32
    using q by presburger
  have even: "unat q = (unat n + 1) div 2 \<and> unat n mod 2 = 0 \<longleftrightarrow> unat n = 2 * unat q" for n :: u32
    using q by presburger
  have base: "paired_assignment n = (Baseline, q) \<longleftrightarrow> n = 2 * q - 1" for n
    unfolding paired_assignment_eq word_unat_eq_iff [of n] pred odd [symmetric]
    by (simp only: TrialArm.distinct simp_thms)
  have cand: "paired_assignment n = (Candidate, q) \<longleftrightarrow> n = 2 * q" for n
    unfolding paired_assignment_eq word_unat_eq_iff [of n] double even [symmetric]
    by (simp only: simp_thms)
  have range: "1 \<le> unat (2 * q - 1)" "unat (2 * q - 1) \<le> 2 * unat pairs" "1 \<le> unat (2 * q)" "unat (2 * q) \<le> 2 * unat pairs"
    using q assms(2) by (simp_all add: pred double)
  have "derive_schedule_seed s (Measured (TrialId m) (Some a)) = derive_schedule_seed s (Measured (TrialId n) (Some b))
      \<longleftrightarrow> snd (paired_assignment m) = snd (paired_assignment n)" for m n a b
    by (simp add: derive_schedule_seed_def mix64_inject seed_xor_inject schedule_namespace_eq paired_assignment_def)
  moreover have "{n. 1 \<le> unat n \<and> unat n \<le> 2 * unat pairs \<and> paired_assignment n = (Baseline, q)} = {2 * q - 1}"
    unfolding base by (rule single_solution) (use range in simp_all)
  moreover have "{n. 1 \<le> unat n \<and> unat n \<le> 2 * unat pairs \<and> paired_assignment n = (Candidate, q)} = {2 * q}"
    unfolding cand by (rule single_solution) (use range in simp_all)
  ultimately show ?thesis by blast
qed

theorem paired_schedule_balanced_witness:
  "{n. 1 \<le> unat n \<and> unat n \<le> 6 \<and> paired_assignment n = (Candidate, 2)} = {4}"
  using paired_schedule_balanced [of 2 3 0] by simp

section \<open>The stream of the generator\<close>

fun rng_stream :: "nat \<Rightarrow> SplitMix64 \<Rightarrow> u64 list" where
  "rng_stream 0 r = []"
| "rng_stream (Suc n) r = fst (rng_next r) # rng_stream n (snd (rng_next r))"

lemma rng_stream_nth:
  "rng_stream n (SplitMix64 s) = map (\<lambda>i. mix64 (s + of_nat i * 0x9E3779B97F4A7C15)) [0..<n]"
proof (induction n arbitrary: s)
  case (Suc n)
  have "[0..<Suc n] = 0 # map Suc [0..<n]" by (simp add: map_Suc_upt upt_conv_Cons del: upt_Suc)
  then show ?case by (simp add: rng_next_mix64 Suc algebra_simps del: upt_Suc)
qed simp

text \<open>
  The bootstrap generator of the comparison is the runner's mixer applied to an
  arithmetic progression of states, and its period is the full one: the first \<open>n\<close> values
  it draws are distinct for every seed and every \<open>n \<le> 2\<^sup>6\<^sup>4\<close>.
\<close>

theorem bootstrap_stream_distinct:
  assumes "n \<le> 2 ^ 64"
  shows "rng_stream n (SplitMix64 s) = map (\<lambda>i. mix64 (s + of_nat i * 0x9E3779B97F4A7C15)) [0..<n]
    \<and> distinct (rng_stream n (SplitMix64 s))"
proof -
  have c: "0x9E3779B97F4A7C15 * (0xF1DE83E19937733D :: u64) = 1" by simp
  have "i = j" if "i < n" "j < n" "mix64 (s + of_nat i * 0x9E3779B97F4A7C15) = mix64 (s + of_nat j * 0x9E3779B97F4A7C15)" for i j
  proof -
    from that(3) have "(of_nat i :: u64) = of_nat j" by (simp add: mix64_inject times_inject [OF c])
    then have "unat (of_nat i :: u64) = unat (of_nat j :: u64)" by simp
    with that(1,2) assms show "i = j" by (simp add: unat_of_nat take_bit_nat_eq_self)
  qed
  then show ?thesis by (auto simp: rng_stream_nth distinct_map intro!: inj_onI)
qed

theorem bootstrap_stream_distinct_witness: "distinct (rng_stream 10000 (SplitMix64 42))"
  by (rule conjunct2 [OF bootstrap_stream_distinct]) simp

end
