(* ===== verification/Verdicts.thy ===== *)
theory Verdicts
  imports Seeds
begin

text \<open>
  Dispositions and verdicts of \<open>eggbench-core/src/comparison.rs\<close>: the records of a comparison
  receipt, the aggregation of gated metrics, the aggregation of correctness checks and the
  combination of the two.

  Verdicts form a chain from \<open>Pass\<close> to \<open>Invalid\<close>.  The locale \<open>severity_join\<close> states what
  the combination promises; its consequences for lists give that both aggregations and the
  combination are the worst verdict of their inputs, in any order.
\<close>

section \<open>Data\<close>

datatype GateDisposition = GatePass | GateFail | GateInconclusive | GateInvalid | GateDescriptive

datatype AggregateVerdict = VerdictInvalid | VerdictFail | VerdictInconclusive | VerdictPass

record ExcludedTrial =
  ex_trial_id :: u32
  ex_reason :: string

record MetricComparison =
  mc_name :: Name
  mc_unit :: Name
  mc_direction :: MetricDirection
  mc_intent :: MetricIntent
  mc_gate :: "Gate option"
  mc_candidate_included :: "u32 list"
  mc_candidate_excluded :: "ExcludedTrial list"
  mc_baseline_included :: "u32 list"
  mc_baseline_excluded :: "ExcludedTrial list"
  mc_candidate_estimate :: "f64 option"
  mc_baseline_estimate :: "f64 option"
  mc_degradation :: "f64 option"
  mc_confidence_low :: "f64 option"
  mc_confidence_high :: "f64 option"
  mc_threshold :: "f64 option"
  mc_statistical_method :: "string option"
  mc_resamples :: "nat option"
  mc_effective_seed :: "u64 option"
  mc_disposition :: "GateDisposition option"
  mc_reason :: "string option"

record ComparisonWarning =
  cw_category :: string
  cw_detail :: string

datatype CorrectnessDisposition = CheckPass | CheckFail | CheckInvalid

datatype CorrectnessObserved =
  WafBypass u32 u32
| HttpCorpusObserved u32 u32 u32 u32

datatype CorrectnessExpectation = MaxSuccessfulBypasses u32 | AllCasesMatch

record CorrectnessCheckRecord =
  cc_id :: Name
  cc_source :: Name
  cc_family :: Name
  cc_target :: Name
  cc_disposition :: CorrectnessDisposition
  cc_observed :: CorrectnessObserved
  cc_expectation :: CorrectnessExpectation
  cc_evidence_path :: ArtifactPath
  cc_evidence_sha256 :: string
  cc_producer_version :: string
  cc_producer_sha256 :: string
  cc_reason :: "string option"

record CorrectnessComparisonSection =
  cs_policy_id :: string
  cs_checks :: "CorrectnessCheckRecord list"
  cs_aggregate_verdict :: AggregateVerdict

section \<open>Aggregation\<close>

record saw_flags =
  saw_pass :: bool
  saw_inconclusive :: bool
  saw_fail :: bool
  saw_invalid :: bool

definition saw_metric :: "MetricComparison \<Rightarrow> saw_flags \<Rightarrow> saw_flags" where
  "saw_metric m st =
    (if mc_intent m \<noteq> Primary then st
     else (case mc_disposition m of
         Some GateInvalid \<Rightarrow> st \<lparr>saw_invalid := True\<rparr>
       | Some GateFail \<Rightarrow> st \<lparr>saw_fail := True\<rparr>
       | Some GateInconclusive \<Rightarrow> st \<lparr>saw_inconclusive := True\<rparr>
       | Some GatePass \<Rightarrow> st \<lparr>saw_pass := True\<rparr>
       | Some GateDescriptive \<Rightarrow> st
       | None \<Rightarrow> st))"

definition aggregate_flags :: "saw_flags \<Rightarrow> AggregateVerdict option" where
  "aggregate_flags st =
    (if saw_invalid st then Some VerdictInvalid
     else if saw_fail st then Some VerdictFail
     else if saw_inconclusive st then Some VerdictInconclusive
     else if saw_pass st then Some VerdictPass
     else None)"

definition aggregate :: "MetricComparison list \<Rightarrow> AggregateVerdict option" where
  "aggregate ms = aggregate_flags (fold saw_metric ms
     \<lparr>saw_pass = False, saw_inconclusive = False, saw_fail = False, saw_invalid = False\<rparr>)"

definition aggregate_correctness :: "CorrectnessCheckRecord list \<Rightarrow> AggregateVerdict" where
  "aggregate_correctness records =
    (if records = [] \<or> list_ex (\<lambda>r. cc_disposition r = CheckInvalid) records then VerdictInvalid
     else if list_ex (\<lambda>r. cc_disposition r = CheckFail) records then VerdictFail
     else VerdictPass)"

definition combine_verdicts ::
  "AggregateVerdict option \<Rightarrow> AggregateVerdict option \<Rightarrow> AggregateVerdict option" where
  "combine_verdicts performance correctness =
    (if performance = Some VerdictInvalid \<or> correctness = Some VerdictInvalid then Some VerdictInvalid
     else if performance = Some VerdictFail \<or> correctness = Some VerdictFail then Some VerdictFail
     else if performance = Some VerdictInconclusive \<or> correctness = Some VerdictInconclusive
       then Some VerdictInconclusive
     else if performance = Some VerdictPass \<or> correctness = Some VerdictPass then Some VerdictPass
     else None)"

definition SECURITY_CORRECTNESS_POLICY_V1 :: string where
  "SECURITY_CORRECTNESS_POLICY_V1 = ''eggbench.security-correctness.v1''"
definition SECURITY_CORRECTNESS_POLICY_V2 :: string where
  "SECURITY_CORRECTNESS_POLICY_V2 = ''eggbench.security-correctness.v2''"
definition SECURITY_CORRECTNESS_FAMILY_HTTP_OBSERVABLE :: string where
  "SECURITY_CORRECTNESS_FAMILY_HTTP_OBSERVABLE = ''http_observable''"

definition correctness_section :: "CorrectnessCheckRecord list option \<Rightarrow> CorrectnessComparisonSection option" where
  "correctness_section security_records =
    (case security_records of
       None \<Rightarrow> None
     | Some records \<Rightarrow> Some
        \<lparr>cs_policy_id =
           (if list_ex (\<lambda>r. as_str (cc_family r) = SECURITY_CORRECTNESS_FAMILY_HTTP_OBSERVABLE) records
            then SECURITY_CORRECTNESS_POLICY_V2 else SECURITY_CORRECTNESS_POLICY_V1),
         cs_checks = records,
         cs_aggregate_verdict = aggregate_correctness records\<rparr>)"

section \<open>Severity\<close>

text \<open>
  What the combination of two verdicts promises: it ignores order, grouping and repetition,
  and an absent verdict changes nothing.
\<close>

locale severity_join =
  fixes join :: "'v option \<Rightarrow> 'v option \<Rightarrow> 'v option"
  assumes assoc: "join (join a b) c = join a (join b c)"
    and commute: "join a b = join b a"
    and idem: "join a a = a"
    and neutral: "join None a = a"
begin

definition join_list :: "'v option list \<Rightarrow> 'v option" where
  "join_list vs = fold join vs None"

lemma fold_start: "fold join vs a = join a (join_list vs)"
proof (induction vs arbitrary: a)
  case Nil
  then show ?case by (simp add: join_list_def commute [of a] neutral)
next
  case (Cons v vs)
  have "fold join (v # vs) a = join (join v a) (join_list vs)" by (simp add: Cons)
  also have "\<dots> = join a (join v (join_list vs))" by (metis assoc commute)
  also have "join v (join_list vs) = join_list (v # vs)"
    using Cons [of "join v None"] by (simp add: join_list_def commute [of v] neutral)
  finally show ?case .
qed

lemma join_list_simps: "join_list [] = None" "join_list (v # vs) = join v (join_list vs)"
  using fold_start [of vs "join v None"] by (simp_all add: join_list_def commute [of v] neutral)

lemma join_list_append: "join_list (vs @ ws) = join (join_list vs) (join_list ws)"
  by (induction vs) (simp_all add: join_list_simps neutral assoc)

lemma absorb: "v \<in> set vs \<Longrightarrow> join v (join_list vs) = join_list vs"
proof (induction vs)
  case (Cons w vs)
  then show ?case
    by (cases "v = w") (metis assoc idem join_list_simps(2), metis (no_types) assoc commute join_list_simps(2) set_ConsD)
qed simp

lemma join_list_subset: "set vs \<subseteq> set ws \<Longrightarrow> join (join_list vs) (join_list ws) = join_list ws"
proof (induction vs)
  case Nil
  then show ?case by (simp add: join_list_simps neutral)
next
  case (Cons v vs)
  then show ?case by (simp add: join_list_simps assoc absorb)
qed

lemma join_list_set: "set vs = set ws \<Longrightarrow> join_list vs = join_list ws"
  by (metis commute join_list_subset order_refl)

end

interpretation verdict: severity_join combine_verdicts
  by unfold_locales (auto simp: combine_verdicts_def; metis AggregateVerdict.exhaust option.exhaust)+

section \<open>Aggregates as joins\<close>

fun disposition_verdict :: "GateDisposition option \<Rightarrow> AggregateVerdict option" where
  "disposition_verdict (Some GateInvalid) = Some VerdictInvalid"
| "disposition_verdict (Some GateFail) = Some VerdictFail"
| "disposition_verdict (Some GateInconclusive) = Some VerdictInconclusive"
| "disposition_verdict (Some GatePass) = Some VerdictPass"
| "disposition_verdict _ = None"

definition gate_verdict :: "MetricComparison \<Rightarrow> AggregateVerdict option" where
  "gate_verdict m = (if mc_intent m = Primary then disposition_verdict (mc_disposition m) else None)"

fun check_verdict :: "CorrectnessDisposition \<Rightarrow> AggregateVerdict" where
  "check_verdict CheckPass = VerdictPass"
| "check_verdict CheckFail = VerdictFail"
| "check_verdict CheckInvalid = VerdictInvalid"

lemma aggregate_step: "aggregate_flags (saw_metric m st) = combine_verdicts (gate_verdict m) (aggregate_flags st)"
  by (auto simp: saw_metric_def gate_verdict_def aggregate_flags_def combine_verdicts_def
      split: option.splits GateDisposition.splits)

lemma aggregate_fold:
  "aggregate_flags (fold saw_metric ms st) = fold combine_verdicts (map gate_verdict ms) (aggregate_flags st)"
  by (induction ms arbitrary: st) (simp_all add: aggregate_step)

lemma join_is: "verdict.join_list vs =
    (if Some VerdictInvalid \<in> set vs then Some VerdictInvalid
     else if Some VerdictFail \<in> set vs then Some VerdictFail
     else if Some VerdictInconclusive \<in> set vs then Some VerdictInconclusive
     else if Some VerdictPass \<in> set vs then Some VerdictPass
     else None)"
proof (induction vs)
  case Nil
  then show ?case by (simp add: verdict.join_list_simps)
next
  case (Cons v vs)
  show ?case
    unfolding verdict.join_list_simps Cons by (cases v; auto simp: combine_verdicts_def; metis AggregateVerdict.exhaust)
qed

lemma some_in_image: "Some x \<in> f ` S \<longleftrightarrow> (\<exists>m \<in> S. f m = Some x)"
  by (auto simp: image_iff eq_commute)

text \<open>
  The aggregate of a list of metrics, computed with four flags, is the join of the
  verdicts of its gated primary metrics under the same combination that joins performance
  and correctness: the worst verdict there is.  It depends on the set of these verdicts
  only, so neither order nor repetition nor descriptive metrics matter, and adding metrics
  never improves it.
\<close>

theorem aggregate_is_worst:
  "aggregate ms = verdict.join_list (map gate_verdict ms)
   \<and> (gate_verdict ` set ms \<subseteq> gate_verdict ` set ns \<longrightarrow> combine_verdicts (aggregate ms) (aggregate ns) = aggregate ns)"
proof -
  have agg: "aggregate ms = verdict.join_list (map gate_verdict ms)" for ms
    by (simp add: aggregate_def aggregate_fold verdict.join_list_def) (simp add: aggregate_flags_def)
  then show ?thesis using verdict.join_list_subset [of "map gate_verdict ms" "map gate_verdict ns"] by simp
qed

definition passed_metric :: MetricComparison where
  "passed_metric = \<lparr>mc_name = Name ''a'', mc_unit = Name ''ms'', mc_direction = LowerIsBetter, mc_intent = Primary,
     mc_gate = None, mc_candidate_included = [], mc_candidate_excluded = [], mc_baseline_included = [],
     mc_baseline_excluded = [], mc_candidate_estimate = None, mc_baseline_estimate = None, mc_degradation = None,
     mc_confidence_low = None, mc_confidence_high = None, mc_threshold = None, mc_statistical_method = None,
     mc_resamples = None, mc_effective_seed = None, mc_disposition = Some GatePass, mc_reason = None\<rparr>"

definition failed_metric :: MetricComparison where
  "failed_metric = passed_metric \<lparr>mc_disposition := Some GateFail\<rparr>"

definition passed_check :: CorrectnessCheckRecord where
  "passed_check = \<lparr>cc_id = Name ''c'', cc_source = Name ''s'', cc_family = Name ''waf_bypass'', cc_target = Name ''t'',
     cc_disposition = CheckPass, cc_observed = WafBypass 3 0, cc_expectation = MaxSuccessfulBypasses 0,
     cc_evidence_path = ArtifactPath ''security/c.json'', cc_evidence_sha256 = [], cc_producer_version = ''1'',
     cc_producer_sha256 = [], cc_reason = None\<rparr>"

theorem aggregate_is_worst_witness:
  "combine_verdicts (aggregate [passed_metric]) (aggregate [failed_metric, passed_metric])
     = aggregate [failed_metric, passed_metric] \<and> aggregate [failed_metric, passed_metric] = Some VerdictFail"
proof -
  have "aggregate [failed_metric, passed_metric] = Some VerdictFail"
    by (simp add: aggregate_def saw_metric_def aggregate_flags_def passed_metric_def failed_metric_def)
  with conjunct2 [OF aggregate_is_worst [of "[passed_metric]" "[failed_metric, passed_metric]"]] show ?thesis by simp
qed

lemma correctness_aggregate:
  "records \<noteq> [] \<Longrightarrow> Some (aggregate_correctness records)
     = verdict.join_list (map (\<lambda>r. Some (check_verdict (cc_disposition r))) records)"
proof -
  assume ne: "records \<noteq> []"
  have vd: "check_verdict d = VerdictInvalid \<longleftrightarrow> d = CheckInvalid" "check_verdict d = VerdictFail \<longleftrightarrow> d = CheckFail"
    "check_verdict d \<noteq> VerdictInconclusive" "check_verdict d = VerdictPass \<longleftrightarrow> d = CheckPass" for d
    by (cases d; simp)+
  have "\<exists>r \<in> set records. cc_disposition r = CheckPass"
    if "\<forall>r \<in> set records. cc_disposition r \<noteq> CheckInvalid" "\<forall>r \<in> set records. cc_disposition r \<noteq> CheckFail"
    using ne that by (cases records) (auto, metis CorrectnessDisposition.exhaust)
  with ne show ?thesis
    by (auto simp: join_is aggregate_correctness_def list_ex_iff image_iff vd) (metis vd)+
qed

text \<open>
  The combined verdict of a receipt is \<open>Pass\<close> exactly when no gated primary metric is
  invalid, failed or inconclusive, every correctness check of a requested section passed
  (and the section is not empty), and at least one of the two sides has a verdict: a
  passing performance never hides a failing or invalid correctness check.
\<close>

lemma combined_pass_iff:
  "combine_verdicts (aggregate ms) (map_option cs_aggregate_verdict (correctness_section recs)) = Some VerdictPass
   \<longleftrightarrow> (\<forall>m \<in> set ms. gate_verdict m \<in> {None, Some VerdictPass})
     \<and> (case recs of None \<Rightarrow> \<exists>m \<in> set ms. gate_verdict m = Some VerdictPass
        | Some rs \<Rightarrow> rs \<noteq> [] \<and> (\<forall>r \<in> set rs. cc_disposition r = CheckPass))"
proof -
  have agg: "aggregate ms = verdict.join_list (map gate_verdict ms)"
    by (simp add: aggregate_def aggregate_fold verdict.join_list_def) (simp add: aggregate_flags_def)
  have v: "gate_verdict m \<in> {None, Some VerdictPass} \<longleftrightarrow> gate_verdict m \<noteq> Some VerdictInvalid
      \<and> gate_verdict m \<noteq> Some VerdictFail \<and> gate_verdict m \<noteq> Some VerdictInconclusive" for m
    by (cases "gate_verdict m") (auto, metis AggregateVerdict.exhaust)
  have none: "aggregate ms \<in> {None, Some VerdictPass} \<longleftrightarrow> (\<forall>m \<in> set ms. gate_verdict m \<in> {None, Some VerdictPass})"
    unfolding agg join_is v by (auto simp: some_in_image)
  have some: "aggregate ms = Some VerdictPass \<longleftrightarrow> (\<forall>m \<in> set ms. gate_verdict m \<in> {None, Some VerdictPass})
      \<and> (\<exists>m \<in> set ms. gate_verdict m = Some VerdictPass)"
    unfolding agg join_is v by (auto simp: some_in_image)
  have d: "(d \<noteq> CheckInvalid \<and> d \<noteq> CheckFail) = (d = CheckPass)" for d by (cases d) simp_all
  have corr: "aggregate_correctness rs = VerdictPass \<longleftrightarrow> rs \<noteq> [] \<and> (\<forall>r \<in> set rs. cc_disposition r = CheckPass)" for rs
    using d by (auto simp: aggregate_correctness_def list_ex_iff)
  have comb: "combine_verdicts p (Some c) = Some VerdictPass \<longleftrightarrow> p \<in> {None, Some VerdictPass} \<and> c = VerdictPass" for p c
    by (auto simp: combine_verdicts_def) (metis AggregateVerdict.exhaust option.exhaust)+
  have comb0: "combine_verdicts p None = p" for p by (metis verdict.commute verdict.neutral)
  show ?thesis
  proof (cases recs)
    case None
    then show ?thesis using some by (simp add: correctness_section_def comb0)
  next
    case (Some rs)
    then show ?thesis using none corr by (simp add: correctness_section_def comb)
  qed
qed

end
