(* ===== verification/Gates.thy ===== *)
theory Gates
  imports Verdicts
begin

text \<open>
  Gate evaluation of \<open>eggbench-core/src/comparison.rs\<close>: selection of trials, the estimates, the
  bootstrap interval and the evaluation of absolute, relative and statistical gates.

  Floating-point arithmetic and the elementary functions of the platform are a parameter,
  the record \<open>Fpu\<close>; comparisons of \<open>f64\<close> are exact.  A function that can panic yields an
  option.
\<close>

section \<open>Inputs\<close>

record Fpu =
  fp_sum :: "f64 list \<Rightarrow> f64"
  fp_add :: "f64 \<Rightarrow> f64 \<Rightarrow> f64"
  fp_sub :: "f64 \<Rightarrow> f64 \<Rightarrow> f64"
  fp_div :: "f64 \<Rightarrow> f64 \<Rightarrow> f64"
  fp_ln :: "f64 \<Rightarrow> f64"
  fp_exp :: "f64 \<Rightarrow> f64"
  fp_of_nat :: "nat \<Rightarrow> f64"

definition f64_ten_thousand :: f64 where
  "f64_ten_thousand = 0x40C3880000000000"

record BundleIdentity =
  id_manifest_schema_version :: SchemaVersion
  id_run_id :: string
  id_manifest_sha256 :: string
  id_subject_revision :: "string option"
  id_subject_digest :: "string option"

record SemanticReplayEvidenceIdentity =
  sr_fixture_digest :: string
  sr_fixture_session_schema :: u32
  sr_envelope_schema :: u32
  sr_report_schema :: u32
  sr_executable_version :: string
  sr_executable_sha256 :: string

record DiagnosticsEvidenceIdentity =
  de_requests :: "string list"
  de_executable_version :: string
  de_executable_sha256 :: string
  de_machine_schema :: string

record SecurityEvidenceIdentity =
  se_checks :: "string list"
  se_executable_version :: string
  se_executable_sha256 :: string
  se_scope_sha256 :: string
  se_adapter_semantic_version :: string

record NetworkPathEvidenceIdentity =
  ne_chain_config_digest :: "string option"
  ne_eggress_uri_version :: string

record PairedRunSummary =
  prs_schedule :: string
  prs_pairs :: u32

record InputTrial =
  it_id :: TrialId
  it_terminal :: TrialExecutionStatus
  it_arm :: "TrialArm option"
  it_pair_id :: "u32 option"
  it_metrics :: "TrialMetrics option"

record ComparisonInput =
  ci_identity :: BundleIdentity
  ci_resolved :: ResolvedPlan
  ci_environment :: EnvironmentFingerprint
  ci_trials :: "InputTrial list"
  ci_paired :: "PairedRunSummary option"
  ci_network_path_evidence :: "NetworkPathEvidenceIdentity option"
  ci_semantic_replay_evidence :: "SemanticReplayEvidenceIdentity option"
  ci_diagnostics_evidence :: "DiagnosticsEvidenceIdentity option"
  ci_security_evidence :: "SecurityEvidenceIdentity option"
  ci_security_records :: "CorrectnessCheckRecord list option"

datatype FieldOutcome = FieldEqual | MissingCandidate | MissingBaseline | FieldUnequal | WarningMismatch

record FieldComparison =
  fc_field :: string
  fc_candidate :: "string option"
  fc_baseline :: "string option"
  fc_outcome :: FieldOutcome

record ComparabilityReport =
  cr_testbed :: "FieldComparison list"
  cr_workload_match :: bool
  cr_workload_detail :: string
  cr_driver_match :: bool
  cr_driver_detail :: string
  cr_topology_match :: bool
  cr_topology_detail :: string
  cr_critical_mismatch :: bool

section \<open>Constants\<close>

definition BOOTSTRAP_RESAMPLES :: nat where
  "BOOTSTRAP_RESAMPLES = 10000"
definition MIN_OBSERVATIONS_PER_SIDE :: nat where
  "MIN_OBSERVATIONS_PER_SIDE = 5"
definition RECOMMENDED_OBSERVATIONS_PER_SIDE :: nat where
  "RECOMMENDED_OBSERVATIONS_PER_SIDE = 7"
definition STATISTICAL_METHOD_V1 :: string where
  "STATISTICAL_METHOD_V1 = ''unpaired-trial-bootstrap-percentile-95''"
definition STATISTICAL_METHOD_V2 :: string where
  "STATISTICAL_METHOD_V2 = ''paired-trial-bootstrap-percentile-95''"

section \<open>Trial selection\<close>

fun missing_reason_str :: "MissingReason \<Rightarrow> string" where
  "missing_reason_str SourceNotProvided = ''source_not_provided''"
| "missing_reason_str UnsupportedByDriver = ''unsupported_by_driver''"
| "missing_reason_str TrialNotCompleted = ''trial_not_completed''"

fun invalid_reason_str :: "InvalidReason \<Rightarrow> string" where
  "invalid_reason_str NonFinite = ''non_finite''"
| "invalid_reason_str UnitMismatch = ''unit_mismatch''"
| "invalid_reason_str DuplicateObservation = ''duplicate_observation''"
| "invalid_reason_str AggregationMismatch = ''aggregation_mismatch''"
| "invalid_reason_str MalformedSourceReference = ''malformed_source_reference''"
| "invalid_reason_str DomainError = ''domain_error''"

definition find_observation :: "TrialMetrics \<Rightarrow> Name \<Rightarrow> NormalizedObservation option" where
  "find_observation m n = find (\<lambda>ob. no_name ob = n) (tm_observations m)"

text \<open>The value one trial contributes, or the reason why it contributes none.\<close>

definition trial_value :: "InputTrial \<Rightarrow> Name \<Rightarrow> string + f64" where
  "trial_value t metric =
    (case it_metrics t of
       None \<Rightarrow> Err ''no_normalized_metrics''
     | Some m \<Rightarrow>
         (case find_observation m metric of
            None \<Rightarrow> Err ''metric_not_requested''
          | Some ob \<Rightarrow>
              if it_terminal t \<noteq> TrialCompleted then Err ''trial_not_completed''
              else (case no_state ob of
                  Observed v \<Rightarrow> Ok v
                | Missing reason \<Rightarrow> Err (missing_reason_str reason)
                | InvalidObservation reason _ \<Rightarrow> Err (invalid_reason_str reason))))"

definition excluded :: "InputTrial \<Rightarrow> string \<Rightarrow> ExcludedTrial" where
  "excluded t reason = \<lparr>ex_trial_id = trial_get (it_id t), ex_reason = reason\<rparr>"

fun select_from :: "InputTrial list \<Rightarrow> Name \<Rightarrow> f64 list \<times> u32 list \<times> ExcludedTrial list" where
  "select_from [] metric = ([], [], [])"
| "select_from (t # ts) metric =
    (case select_from ts metric of
       (values, included, exs) \<Rightarrow>
         (case trial_value t metric of
            Ok v \<Rightarrow> (v # values, trial_get (it_id t) # included, exs)
          | Err reason \<Rightarrow> (values, included, excluded t reason # exs)))"

definition select_trials :: "ComparisonInput \<Rightarrow> Name \<Rightarrow> f64 list \<times> u32 list \<times> ExcludedTrial list" where
  "select_trials input metric = select_from (ci_trials input) metric"

fun scan_semantics ::
  "MetricRequest \<Rightarrow> NormalizedObservation option \<Rightarrow> InputTrial list \<Rightarrow> string + NormalizedObservation option" where
  "scan_semantics r reference [] = Ok reference"
| "scan_semantics r reference (t # ts) =
    (case it_metrics t of
       None \<Rightarrow> scan_semantics r reference ts
     | Some m \<Rightarrow>
         (case find_observation m (metric_name r) of
            None \<Rightarrow> scan_semantics r reference ts
          | Some ob \<Rightarrow>
              if no_unit ob \<noteq> metric_unit r \<or> no_direction ob \<noteq> metric_direction r
              then Err ''metric_semantics_mismatch''
              else (case reference of
                  None \<Rightarrow> scan_semantics r (Some ob) ts
                | Some first \<Rightarrow>
                    if no_unit ob \<noteq> no_unit first \<or> no_direction ob \<noteq> no_direction first
                       \<or> no_aggregation ob \<noteq> no_aggregation first
                    then Err ''baseline_metric_semantics_divergent''
                    else scan_semantics r reference ts)))"

definition check_metric_semantics :: "MetricRequest \<Rightarrow> ComparisonInput \<Rightarrow> string + unit" where
  "check_metric_semantics r baseline =
    (case scan_semantics r None (ci_trials baseline) of
       Err e \<Rightarrow> Err e
     | Ok None \<Rightarrow> Err ''baseline_metric_absent''
     | Ok (Some _) \<Rightarrow> Ok ())"

section \<open>Estimates\<close>

definition finite_or_none :: "f64 \<Rightarrow> f64 option" where
  "finite_or_none v = (if f64_is_finite v then Some v else None)"

definition arithmetic_mean :: "Fpu \<Rightarrow> f64 list \<Rightarrow> f64 option" where
  "arithmetic_mean fp vs =
    (if vs = [] then None else finite_or_none (fp_div fp (fp_sum fp vs) (fp_of_nat fp (length vs))))"

definition strictly_positive :: "f64 \<Rightarrow> bool" where
  "strictly_positive v \<longleftrightarrow> f64_is_finite v \<and> f64_lt f64_zero v"

definition all_strictly_positive :: "f64 list \<Rightarrow> bool" where
  "all_strictly_positive vs \<longleftrightarrow> vs \<noteq> [] \<and> list_all strictly_positive vs"

definition geometric_mean :: "Fpu \<Rightarrow> f64 list \<Rightarrow> f64 option" where
  "geometric_mean fp vs =
    (if vs = [] \<or> \<not> all_strictly_positive vs then None
     else finite_or_none (fp_exp fp (fp_div fp (fp_sum fp (map (fp_ln fp) vs)) (fp_of_nat fp (length vs)))))"

definition oriented_degradation :: "Fpu \<Rightarrow> f64 option \<Rightarrow> f64 option \<Rightarrow> MetricDirection \<Rightarrow> f64 option" where
  "oriented_degradation fp c b direction =
    (case (c, b) of
       (Some candidate, Some baseline) \<Rightarrow>
         if \<not> f64_is_finite candidate \<or> \<not> f64_is_finite baseline then None
         else (case direction of
             LowerIsBetter \<Rightarrow> finite_or_none (fp_sub fp (fp_div fp candidate baseline) f64_one)
           | HigherIsBetter \<Rightarrow> finite_or_none (fp_sub fp (fp_div fp baseline candidate) f64_one)
           | _ \<Rightarrow> None)
     | _ \<Rightarrow> None)"

definition allowance_fraction :: "Fpu \<Rightarrow> Gate \<Rightarrow> f64 option" where
  "allowance_fraction fp g =
    (case g of
       Absolute v \<Rightarrow> None
     | RelativeRegression a \<Rightarrow> Some (fp_div fp (fp_of_nat fp (unat (bps_get a))) f64_ten_thousand)
     | StatisticalRelative a _ \<Rightarrow> Some (fp_div fp (fp_of_nat fp (unat (bps_get a))) f64_ten_thousand))"

definition min_observations :: "u32 \<Rightarrow> nat" where
  "min_observations plan_min_trials = max MIN_OBSERVATIONS_PER_SIDE (unat plan_min_trials)"

section \<open>Bootstrap\<close>

text \<open>\<open>f64::total_cmp\<close>: the order of the sign-magnitude representation, with \<open>-0 < +0\<close>.\<close>

definition f64_total_key :: "f64 \<Rightarrow> int" where
  "f64_total_key v = (if f64_negative v then - f64_magnitude v - 1 else f64_magnitude v)"

definition percentile_interval :: "f64 list \<Rightarrow> (f64 \<times> f64) option" where
  "percentile_interval effects =
    (let sorted_effects = sort_key f64_total_key effects;
         count = length sorted_effects;
         low_index = min (25 * count div 1000) (count - 1);
         high_index = min ((975 * count + 999) div 1000 - 1) (count - 1)
     in if count = 0 then None else Some (sorted_effects ! low_index, sorted_effects ! high_index))"

fun resample_sum :: "Fpu \<Rightarrow> f64 list \<Rightarrow> nat \<Rightarrow> f64 \<Rightarrow> SplitMix64 \<Rightarrow> f64 \<times> SplitMix64" where
  "resample_sum fp logs 0 acc rng = (acc, rng)"
| "resample_sum fp logs (Suc n) acc rng =
    (case rng_next rng of
       (drawn, rng') \<Rightarrow>
         resample_sum fp logs n
           (fp_add fp acc (logs ! min (unat (drawn mod of_nat (length logs))) (length logs - 1))) rng')"

definition resampled_mean_log :: "Fpu \<Rightarrow> f64 list \<Rightarrow> SplitMix64 \<Rightarrow> f64 \<times> SplitMix64" where
  "resampled_mean_log fp logs rng =
    (case resample_sum fp logs (length logs) f64_zero rng of
       (acc, rng') \<Rightarrow> (fp_div fp acc (fp_of_nat fp (length logs)), rng'))"

fun bootstrap_effects ::
  "Fpu \<Rightarrow> f64 list \<Rightarrow> f64 list \<Rightarrow> MetricDirection \<Rightarrow> nat \<Rightarrow> SplitMix64 \<Rightarrow> f64 list" where
  "bootstrap_effects fp cs bs direction 0 rng = []"
| "bootstrap_effects fp cs bs direction (Suc n) rng =
    (case resampled_mean_log fp cs rng of
       (c, rng1) \<Rightarrow>
         (case resampled_mean_log fp bs rng1 of
            (b, rng2) \<Rightarrow>
              fp_sub fp (fp_exp fp (case direction of
                  LowerIsBetter \<Rightarrow> fp_sub fp c b
                | HigherIsBetter \<Rightarrow> fp_sub fp b c
                | _ \<Rightarrow> f64_zero)) f64_one
              # bootstrap_effects fp cs bs direction n rng2))"

definition bootstrap_interval ::
  "Fpu \<Rightarrow> f64 list \<Rightarrow> f64 list \<Rightarrow> MetricDirection \<Rightarrow> nat \<Rightarrow> u64 \<Rightarrow> (f64 \<times> f64) option" where
  "bootstrap_interval fp candidate baseline direction resamples s =
    percentile_interval (bootstrap_effects fp (map (fp_ln fp) candidate) (map (fp_ln fp) baseline) direction
      resamples (SplitMix64 s))"

fun paired_effects :: "Fpu \<Rightarrow> f64 list \<Rightarrow> nat \<Rightarrow> SplitMix64 \<Rightarrow> f64 list" where
  "paired_effects fp ds 0 rng = []"
| "paired_effects fp ds (Suc n) rng =
    (case resampled_mean_log fp ds rng of
       (m, rng1) \<Rightarrow> fp_sub fp (fp_exp fp m) f64_one # paired_effects fp ds n rng1)"

definition paired_bootstrap_interval :: "Fpu \<Rightarrow> f64 list \<Rightarrow> nat \<Rightarrow> u64 \<Rightarrow> (f64 \<times> f64) option" where
  "paired_bootstrap_interval fp differences resamples s =
    percentile_interval (paired_effects fp differences resamples (SplitMix64 s))"

section \<open>Gates\<close>

definition dispose :: "GateDisposition \<Rightarrow> MetricComparison \<Rightarrow> MetricComparison" where
  "dispose d rec = rec \<lparr>mc_disposition := Some d\<rparr>"

definition dispose_with :: "GateDisposition \<Rightarrow> string \<Rightarrow> MetricComparison \<Rightarrow> MetricComparison" where
  "dispose_with d reason rec = rec \<lparr>mc_disposition := Some d, mc_reason := Some reason\<rparr>"

definition threshold_gate :: "f64 \<Rightarrow> f64 \<Rightarrow> GateDisposition" where
  "threshold_gate degradation threshold = (if f64_le degradation threshold then GatePass else GateFail)"

definition interval_gate :: "f64 \<Rightarrow> f64 \<Rightarrow> f64 \<Rightarrow> GateDisposition" where
  "interval_gate low high threshold =
    (if f64_lt threshold low then GateFail else if f64_le high threshold then GatePass else GateInconclusive)"

definition evaluate_absolute :: "f64 list \<Rightarrow> MetricDirection \<Rightarrow> f64 \<Rightarrow> MetricComparison \<Rightarrow> MetricComparison" where
  "evaluate_absolute candidate_values direction v rec =
    (case mc_candidate_estimate rec of
       None \<Rightarrow> dispose_with GateInvalid ''no_valid_candidate_observations'' rec
     | Some estimate \<Rightarrow>
         if list_ex (\<lambda>x. \<not> f64_is_finite x) candidate_values
         then dispose_with GateInvalid ''nonfinite_candidate_value'' rec
         else (case direction of
             LowerIsBetter \<Rightarrow> dispose (threshold_gate estimate v) rec
           | HigherIsBetter \<Rightarrow> dispose (threshold_gate v estimate) rec
           | TargetRange _ _ \<Rightarrow> dispose_with GateInvalid ''target_range_absolute_unsupported'' rec
           | Informational \<Rightarrow> dispose_with GateInvalid ''informational_metric_cannot_gate'' rec))"

datatype BaselineUse = Gated | DescriptiveOnly

definition baseline_use :: "EnvironmentPolicy \<Rightarrow> ComparabilityReport \<Rightarrow> BaselineUse" where
  "baseline_use policy comparability =
    (if policy = CrossTestbedDescriptive \<or> cr_critical_mismatch comparability then DescriptiveOnly else Gated)"

text \<open>The strict arm is a panic, \<open>unreachable!\<close>.\<close>

definition descriptive_reason :: "EnvironmentPolicy \<Rightarrow> string option" where
  "descriptive_reason policy =
    (case policy of
       CrossTestbedDescriptive \<Rightarrow> Some ''cross_testbed_descriptive''
     | WarnOnMismatch \<Rightarrow> Some ''comparability_mismatch_descriptive''
     | StrictSameTestbed \<Rightarrow> None)"

definition trial_count_warning :: "Name \<Rightarrow> nat \<Rightarrow> nat \<Rightarrow> ComparisonWarning" where
  "trial_count_warning n c b =
     \<lparr>cw_category = ''below_recommended_trial_count'',
      cw_detail = ''metric '' @ as_str n @ '' has '' @ show_dec c @ '' candidate and '' @ show_dec b
        @ '' baseline trials; 7+ per side recommended''\<rparr>"

type_synonym evaluated = "MetricComparison \<times> ComparisonWarning list"

text \<open>The last step of a relative gate, once all preconditions hold.\<close>

definition conclude_relative ::
  "Fpu \<Rightarrow> MetricRequest \<Rightarrow> f64 list \<Rightarrow> f64 list \<Rightarrow> u64 \<Rightarrow> ComparisonWarning list \<Rightarrow> MetricComparison
    \<Rightarrow> evaluated option" where
  "conclude_relative fp r cs bs effective_seed ws rec =
    (case metric_gate r of
       Some (RelativeRegression _) \<Rightarrow>
         (case (mc_threshold rec, mc_degradation rec) of
            (Some threshold, Some degradation) \<Rightarrow> Some (dispose (threshold_gate degradation threshold) rec, ws)
          | _ \<Rightarrow> None)
     | Some (StatisticalRelative _ min_trials) \<Rightarrow>
         (let required = min_observations (count_get min_trials)
          in if length cs < required \<or> length bs < required
             then Some (dispose_with GateInvalid ''insufficient_trials'' rec, ws)
             else
               (let ws' = (if length cs < RECOMMENDED_OBSERVATIONS_PER_SIDE \<or> length bs < RECOMMENDED_OBSERVATIONS_PER_SIDE
                           then ws @ [trial_count_warning (metric_name r) (length cs) (length bs)] else ws)
                in case (mc_threshold rec,
                     bootstrap_interval fp cs bs (metric_direction r) BOOTSTRAP_RESAMPLES effective_seed) of
                     (Some threshold, Some (low, high)) \<Rightarrow>
                       Some (rec \<lparr>mc_confidence_low := Some low, mc_confidence_high := Some high,
                         mc_statistical_method := Some STATISTICAL_METHOD_V1,
                         mc_resamples := Some BOOTSTRAP_RESAMPLES, mc_effective_seed := Some effective_seed,
                         mc_disposition := Some (interval_gate low high threshold)\<rparr>, ws')
                   | _ \<Rightarrow> None))
     | _ \<Rightarrow> Some (rec, ws))"

definition evaluate_relative ::
  "Fpu \<Rightarrow> MetricRequest \<Rightarrow> f64 list \<Rightarrow> ComparisonInput option \<Rightarrow> EnvironmentPolicy \<Rightarrow> ComparabilityReport \<Rightarrow> u64
    \<Rightarrow> ComparisonWarning list \<Rightarrow> MetricComparison \<Rightarrow> evaluated option" where
  "evaluate_relative fp r cs baseline policy comparability effective_seed ws rec =
    (case baseline of
       None \<Rightarrow> Some (dispose_with GateInvalid ''baseline_required'' rec, ws)
     | Some baseline_input \<Rightarrow>
         (case select_trials baseline_input (metric_name r) of
            (bs, included, exs) \<Rightarrow>
              (let rec1 = rec \<lparr>mc_baseline_included := included, mc_baseline_excluded := exs\<rparr>
               in case check_metric_semantics r baseline_input of
                    Err reason \<Rightarrow> Some (dispose_with GateInvalid reason rec1, ws)
                  | Ok _ \<Rightarrow>
                      if \<not> all_strictly_positive cs \<or> \<not> all_strictly_positive bs
                      then Some (dispose_with GateInvalid ''nonpositive_relative_value'' rec1, ws)
                      else if metric_direction r \<noteq> HigherIsBetter \<and> metric_direction r \<noteq> LowerIsBetter
                      then Some (dispose_with GateInvalid ''unsupported_direction_for_relative_gate'' rec1, ws)
                      else
                        (let cg = geometric_mean fp cs; bg = geometric_mean fp bs;
                             rec2 = rec1 \<lparr>mc_baseline_estimate := bg,
                               mc_degradation := oriented_degradation fp cg bg (metric_direction r)\<rparr>
                         in if baseline_use policy comparability = DescriptiveOnly
                            then (if policy = StrictSameTestbed
                              then Some (dispose_with GateInvalid ''comparability_mismatch'' rec2, ws)
                              else (case descriptive_reason policy of
                                  None \<Rightarrow> None
                                | Some reason \<Rightarrow> Some (dispose_with GateDescriptive reason rec2, ws)))
                            else conclude_relative fp r cs bs effective_seed ws rec2))))"

definition fresh_record ::
  "Fpu \<Rightarrow> MetricRequest \<Rightarrow> f64 list \<times> u32 list \<times> ExcludedTrial list \<Rightarrow> MetricComparison" where
  "fresh_record fp r selected =
    (case selected of
       (values, included, exs) \<Rightarrow>
         \<lparr>mc_name = metric_name r, mc_unit = metric_unit r, mc_direction = metric_direction r,
          mc_intent = metric_intent r, mc_gate = metric_gate r, mc_candidate_included = included,
          mc_candidate_excluded = exs, mc_baseline_included = [], mc_baseline_excluded = [],
          mc_candidate_estimate = arithmetic_mean fp values, mc_baseline_estimate = None,
          mc_degradation = None, mc_confidence_low = None, mc_confidence_high = None,
          mc_threshold = (case metric_gate r of None \<Rightarrow> None | Some g \<Rightarrow> allowance_fraction fp g),
          mc_statistical_method = None, mc_resamples = None, mc_effective_seed = None,
          mc_disposition = None, mc_reason = None\<rparr>)"

definition evaluate_metric ::
  "Fpu \<Rightarrow> MetricRequest \<Rightarrow> ComparisonInput \<Rightarrow> ComparisonInput option \<Rightarrow> EnvironmentPolicy \<Rightarrow> ComparabilityReport
    \<Rightarrow> u64 \<Rightarrow> ComparisonWarning list \<Rightarrow> evaluated option" where
  "evaluate_metric fp r candidate baseline policy comparability effective_seed ws =
    (let selected = select_trials candidate (metric_name r);
         rec = fresh_record fp r selected
     in case metric_gate r of
          None \<Rightarrow> Some (rec, ws)
        | Some g \<Rightarrow>
            if metric_intent r \<noteq> Primary
            then Some (dispose_with GateInvalid ''diagnostic_metric_cannot_gate'' rec, ws)
            else (case g of
                Absolute v \<Rightarrow> Some (evaluate_absolute (fst selected) (metric_direction r) v rec, ws)
              | _ \<Rightarrow> evaluate_relative fp r (fst selected) baseline policy comparability effective_seed ws rec))"

section \<open>Selection neither drops nor invents\<close>

definition observes :: "InputTrial \<Rightarrow> Name \<Rightarrow> f64 \<Rightarrow> bool" where
  "observes t metric v \<longleftrightarrow> it_terminal t = TrialCompleted
     \<and> (\<exists>m ob. it_metrics t = Some m \<and> find_observation m metric = Some ob \<and> no_state ob = Observed v)"

lemma trial_value_Ok: "trial_value t metric = Ok v \<longleftrightarrow> observes t metric v"
  by (auto simp: trial_value_def observes_def split: option.splits ObservationState.splits)

text \<open>
  Selection partitions the trials: every trial is either included once or excluded once
  with a reason, in order; the values pair up with the included trials, and they are exactly
  the values the completed trials observed for the metric, none of them imputed.
\<close>

theorem select_trials_partition:
  "case select_trials input metric of (vs, included, exs) \<Rightarrow>
     length vs = length included
     \<and> mset included + mset (map ex_trial_id exs) = mset (map (\<lambda>t. trial_get (it_id t)) (ci_trials input))
     \<and> set (zip included vs) = {(trial_get (it_id t), v) | t v. t \<in> set (ci_trials input) \<and> observes t metric v}"
proof -
  have "case select_from ts metric of (vs, included, exs) \<Rightarrow>
     length vs = length included
     \<and> mset included + mset (map ex_trial_id exs) = mset (map (\<lambda>t. trial_get (it_id t)) ts)
     \<and> set (zip included vs) = {(trial_get (it_id t), v) | t v. t \<in> set ts \<and> observes t metric v}" for ts
  proof (induction ts)
    case (Cons t ts)
    have split: "{(trial_get (it_id u), v) | u v. u \<in> set (t # ts) \<and> observes u metric v}
        = {(trial_get (it_id t), v) | v. observes t metric v}
          \<union> {(trial_get (it_id u), v) | u v. u \<in> set ts \<and> observes u metric v}" by auto
    show ?case
    proof (cases "trial_value t metric")
      case (Inl e)
      then have "\<not> observes t metric v" for v by (metis trial_value_Ok sum.distinct(1))
      with Inl Cons show ?thesis unfolding split by (auto simp: excluded_def split: prod.splits)
    next
      case (Inr w)
      then have "observes t metric v \<longleftrightarrow> v = w" for v by (metis trial_value_Ok sum.inject(2))
      with Inr Cons show ?thesis unfolding split by (auto split: prod.splits)
    qed
  qed simp
  then show ?thesis by (simp add: select_trials_def)
qed

section \<open>The interval\<close>

lemma bootstrap_effects_length: "length (bootstrap_effects fp cs bs d n rng) = n"
  by (induction n arbitrary: rng) (simp_all split: prod.splits)

lemma paired_effects_length: "length (paired_effects fp ds n rng) = n"
  by (induction n arbitrary: rng) (simp_all split: prod.splits)

lemma percentile_interval_None: "percentile_interval es = None \<longleftrightarrow> es = []"
  by (simp add: percentile_interval_def Let_def del: length_0_conv) simp

lemma bootstrap_interval_Some: "\<exists>low high. bootstrap_interval fp cs bs d BOOTSTRAP_RESAMPLES s = Some (low, high)"
proof -
  have "bootstrap_effects fp cs' bs' d BOOTSTRAP_RESAMPLES r \<noteq> []" for cs' bs' r
    using bootstrap_effects_length [of fp cs' bs' d BOOTSTRAP_RESAMPLES r] by (auto simp: BOOTSTRAP_RESAMPLES_def)
  then show ?thesis unfolding bootstrap_interval_def by (metis percentile_interval_None option.exhaust surj_pair)
qed

text \<open>
  The percentile interval exists exactly for a non-empty list of effects.  Its ends are
  the order statistics of rank \<open>n div 40\<close> and \<open>\<lceil>39 n / 40\<rceil> - 1\<close> (from zero, cut to the list) in
  the total order of floating-point numbers, so the lower end never exceeds the upper one;
  for the ten thousand production resamples they are those of rank 250 and 9749.
\<close>

theorem percentile_interval_ranks:
  "case percentile_interval es of
     None \<Rightarrow> es = []
   | Some (low, high) \<Rightarrow>
       (\<exists>ss. mset ss = mset es \<and> sorted (map f64_total_key ss)
          \<and> low = ss ! min (length es div 40) (length es - 1)
          \<and> high = ss ! min ((39 * length es + 39) div 40 - 1) (length es - 1)
          \<and> (length es = 10000 \<longrightarrow> low = ss ! 250 \<and> high = ss ! 9749))
       \<and> f64_total_key low \<le> f64_total_key high \<and> low \<in> set es \<and> high \<in> set es"
proof (cases "es = []")
  case True
  then show ?thesis by (simp add: percentile_interval_def)
next
  case False
  define n where "n = length es"
  define ss where "ss = sort_key f64_total_key es"
  define i where "i = min (n div 40) (n - 1)"
  define j where "j = min ((39 * n + 39) div 40 - 1) (n - 1)"
  have n: "0 < n" "length ss = n" using False by (simp_all add: n_def ss_def)
  have low: "25 * n div 1000 = n div 40" using div_mult_mult1 [of 25 n 40] by simp
  have "(975 * n + 999) div 1000 = (975 * n + 999) div 25 div 40" by (simp add: div_mult2_eq [symmetric])
  also have "(975 * n + 999) div 25 = 39 * n + 39"
  proof -
    have "975 * n + 999 = 24 + 25 * (39 * n + 39)" by simp
    then show ?thesis by simp
  qed
  finally have high: "(975 * n + 999) div 1000 = (39 * n + 39) div 40" .
  have interval: "percentile_interval es = Some (ss ! i, ss ! j)"
    using n by (auto simp: percentile_interval_def Let_def i_def j_def low high simp flip: ss_def)
  have ij: "i \<le> j" "i < n" "j < n" using n(1) unfolding i_def j_def by linarith+
  have sorted: "sorted (map f64_total_key ss)" by (simp add: ss_def)
  have "f64_total_key (ss ! i) \<le> f64_total_key (ss ! j)"
    using sorted_nth_mono [OF sorted ij(1)] ij n by simp
  moreover have "ss ! i \<in> set es" "ss ! j \<in> set es"
    using ij n by (metis nth_mem set_sort ss_def)+
  moreover have "mset ss = mset es" by (simp add: ss_def)
  ultimately show ?thesis using sorted interval
    by (auto simp: i_def j_def n_def [symmetric] intro!: exI [of _ ss])
qed

theorem percentile_interval_ranks_witness:
  "percentile_interval [0x4000000000000000, 0x3FF0000000000000] = Some (0x3FF0000000000000, 0x4000000000000000)"
  using percentile_interval_ranks [of "[0x4000000000000000, 0x3FF0000000000000]"]
  by (simp add: percentile_interval_def f64_total_key_def f64_defs)

section \<open>Decisive verdicts are earned\<close>

definition decisive :: "GateDisposition option \<Rightarrow> bool" where
  "decisive d \<longleftrightarrow> d \<in> {Some GatePass, Some GateFail, Some GateInconclusive}"

text \<open>What a baseline-dependent gate needs before it may decide anything.\<close>

definition eligible ::
  "MetricRequest \<Rightarrow> f64 list \<Rightarrow> ComparisonInput option \<Rightarrow> EnvironmentPolicy \<Rightarrow> ComparabilityReport \<Rightarrow> f64 list \<Rightarrow> bool" where
  "eligible r cs baseline policy comparability bs \<longleftrightarrow>
     (\<exists>b. baseline = Some b \<and> bs = fst (select_trials b (metric_name r)) \<and> check_metric_semantics r b = Ok ())
     \<and> all_strictly_positive cs \<and> all_strictly_positive bs
     \<and> metric_direction r \<in> {HigherIsBetter, LowerIsBetter}
     \<and> policy \<noteq> CrossTestbedDescriptive \<and> \<not> cr_critical_mismatch comparability"

definition relative_verdict ::
  "Fpu \<Rightarrow> MetricRequest \<Rightarrow> Gate \<Rightarrow> f64 list \<Rightarrow> f64 list \<Rightarrow> u64 \<Rightarrow> GateDisposition option" where
  "relative_verdict fp r g cs bs effective_seed =
    (case g of
       RelativeRegression a \<Rightarrow>
         map_option (\<lambda>d. threshold_gate d (the (allowance_fraction fp g)))
           (oriented_degradation fp (geometric_mean fp cs) (geometric_mean fp bs) (metric_direction r))
     | StatisticalRelative a n \<Rightarrow>
         if min_observations (count_get n) \<le> length cs \<and> min_observations (count_get n) \<le> length bs
         then map_option (\<lambda>(low, high). interval_gate low high (the (allowance_fraction fp g)))
           (bootstrap_interval fp cs bs (metric_direction r) BOOTSTRAP_RESAMPLES effective_seed)
         else None
     | Absolute v \<Rightarrow> None)"

lemma gate_results: "threshold_gate d t \<in> {GatePass, GateFail}"
    "interval_gate l h t \<in> {GatePass, GateFail, GateInconclusive}"
  by (simp_all add: threshold_gate_def interval_gate_def)

lemma allowance_Some: "allowance_fraction fp g = None \<longleftrightarrow> (\<exists>v. g = Absolute v)"
  by (cases g) (simp_all add: allowance_fraction_def)

lemma conclude_relative_cases:
  assumes "metric_gate r = Some g" and "mc_threshold rec = allowance_fraction fp g" and "mc_disposition rec = None"
    and "mc_degradation rec = oriented_degradation fp (geometric_mean fp cs) (geometric_mean fp bs) (metric_direction r)"
  shows "(conclude_relative fp r cs bs es ws rec = None \<longleftrightarrow> (\<exists>a. g = RelativeRegression a) \<and> mc_degradation rec = None)
    \<and> (conclude_relative fp r cs bs es ws rec = Some (rec', ws') \<longrightarrow> decisive (mc_disposition rec') \<longrightarrow>
         mc_disposition rec' = relative_verdict fp r g cs bs es)"
proof (cases g)
  case (Absolute v)
  with assms show ?thesis by (auto simp: conclude_relative_def decisive_def)
next
  case (RelativeRegression a)
  with assms show ?thesis
    by (auto simp: conclude_relative_def relative_verdict_def dispose_def allowance_fraction_def split: option.splits)
next
  case (StatisticalRelative a n)
  obtain low high where "bootstrap_interval fp cs bs (metric_direction r) BOOTSTRAP_RESAMPLES es = Some (low, high)"
    using bootstrap_interval_Some by blast
  with StatisticalRelative assms show ?thesis
    by (auto simp: conclude_relative_def relative_verdict_def dispose_with_def decisive_def allowance_fraction_def Let_def)
qed

lemma evaluate_relative_cases:
  assumes "metric_gate r = Some g" and "mc_threshold rec = allowance_fraction fp g" and "mc_disposition rec = None"
  shows "(evaluate_relative fp r cs baseline policy comparability es ws rec = None \<longleftrightarrow>
       (\<exists>a bs. g = RelativeRegression a \<and> eligible r cs baseline policy comparability bs
          \<and> oriented_degradation fp (geometric_mean fp cs) (geometric_mean fp bs) (metric_direction r) = None))
    \<and> (evaluate_relative fp r cs baseline policy comparability es ws rec = Some (rec', ws') \<longrightarrow>
         decisive (mc_disposition rec') \<longrightarrow>
         (\<exists>bs. eligible r cs baseline policy comparability bs \<and> mc_disposition rec' = relative_verdict fp r g cs bs es))"
proof (cases baseline)
  case None
  then show ?thesis by (auto simp: evaluate_relative_def dispose_with_def decisive_def eligible_def)
next
  case (Some b)
  obtain bs included exs where sel: "select_trials b (metric_name r) = (bs, included, exs)" by (metis surj_pair)
  have el: "eligible r cs baseline policy comparability bs' \<longleftrightarrow> bs' = bs \<and> check_metric_semantics r b = Ok ()
      \<and> all_strictly_positive cs \<and> all_strictly_positive bs
      \<and> metric_direction r \<in> {HigherIsBetter, LowerIsBetter} \<and> baseline_use policy comparability = Gated" for bs'
    by (auto simp: eligible_def Some sel baseline_use_def)
  define rec2 where "rec2 = rec \<lparr>mc_baseline_included := included, mc_baseline_excluded := exs,
     mc_baseline_estimate := geometric_mean fp bs,
     mc_degradation := oriented_degradation fp (geometric_mean fp cs) (geometric_mean fp bs) (metric_direction r)\<rparr>"
  have rec2: "mc_threshold rec2 = allowance_fraction fp g" "mc_disposition rec2 = None"
    "mc_degradation rec2 = oriented_degradation fp (geometric_mean fp cs) (geometric_mean fp bs) (metric_direction r)"
    using assms by (simp_all add: rec2_def)
  show ?thesis
  proof (cases "eligible r cs baseline policy comparability bs")
    case True
    then have "evaluate_relative fp r cs baseline policy comparability es ws rec = conclude_relative fp r cs bs es ws rec2"
      unfolding el by (auto simp: evaluate_relative_def Some sel rec2_def Let_def)
    with conclude_relative_cases [OF assms(1) rec2, of es ws rec' ws'] True rec2(3) el show ?thesis by auto
  next
    case False
    have "mc_disposition rec1 = Some d \<Longrightarrow> d \<in> {GateInvalid, GateDescriptive} \<Longrightarrow> \<not> decisive (mc_disposition rec1)" for rec1 d
      by (auto simp: decisive_def)
    have "\<exists>rec1. evaluate_relative fp r cs baseline policy comparability es ws rec = Some (rec1, ws)
        \<and> mc_disposition rec1 \<in> {Some GateInvalid, Some GateDescriptive}"
      using False unfolding el
      by (cases policy) (auto simp: evaluate_relative_def Some sel Let_def dispose_with_def descriptive_reason_def
          baseline_use_def split: sum.splits)
    then obtain rec1 where e: "evaluate_relative fp r cs baseline policy comparability es ws rec = Some (rec1, ws)"
      and d: "mc_disposition rec1 \<in> {Some GateInvalid, Some GateDescriptive}" by blast
    have "\<not> decisive (mc_disposition rec1)" using d by (auto simp: decisive_def)
    with e False el show ?thesis by auto
  qed
qed

text \<open>
  C23: A decisive verdict of a metric (pass, fail or inconclusive) is earned.  The metric is
  primary and gated.  An absolute gate compares the finite mean of finite observations with
  its value in the declared direction.  A relative gate decides only with a baseline of
  coherent semantics, strictly positive finite observations on both sides, a direction, no
  comparison-critical mismatch and a policy that gates; its verdict is then exactly the
  comparison of the degradation, or of both ends of the bootstrap interval over at least
  \<open>max(5, min_trials)\<close> observations per side, with the allowance.
\<close>

theorem decisive_verdict_earned:
  assumes "evaluate_metric fp r candidate baseline policy comparability es ws = Some (rec, ws')"
    and "decisive (mc_disposition rec)" and "cs = fst (select_trials candidate (metric_name r))"
  shows "metric_intent r = Primary \<and>
    (case metric_gate r of
       None \<Rightarrow> False
     | Some (Absolute v) \<Rightarrow>
         (\<exists>mean. arithmetic_mean fp cs = Some mean \<and> list_all f64_is_finite cs
            \<and> (metric_direction r = LowerIsBetter \<and> mc_disposition rec = Some (threshold_gate mean v)
               \<or> metric_direction r = HigherIsBetter \<and> mc_disposition rec = Some (threshold_gate v mean)))
     | Some g \<Rightarrow>
         (\<exists>bs. eligible r cs baseline policy comparability bs
            \<and> mc_disposition rec = relative_verdict fp r g cs bs es))"
proof -
  obtain vs included exs where sel: "select_trials candidate (metric_name r) = (vs, included, exs)" by (metis surj_pair)
  then have cs: "cs = vs" using assms(3) by simp
  define rec0 where "rec0 = fresh_record fp r (vs, included, exs)"
  have rec0: "mc_disposition rec0 = None" "mc_candidate_estimate rec0 = arithmetic_mean fp vs"
    by (simp_all add: rec0_def fresh_record_def)
  obtain g where g: "metric_gate r = Some g"
    using assms(1,2) rec0 sel by (cases "metric_gate r") (auto simp: evaluate_metric_def rec0_def decisive_def)
  have primary: "metric_intent r = Primary"
    using assms(1,2) sel g by (cases "metric_intent r") (auto simp: evaluate_metric_def decisive_def dispose_with_def)
  show ?thesis
  proof (cases "\<exists>v. g = Absolute v")
    case True
    then obtain v where v: "g = Absolute v" by blast
    with assms(1) g primary sel have "rec = evaluate_absolute vs (metric_direction r) v rec0"
      by (simp add: evaluate_metric_def rec0_def)
    with assms(2) show ?thesis
      by (cases "metric_direction r")
        (auto simp: g v cs primary evaluate_absolute_def rec0 dispose_def dispose_with_def decisive_def
          list_ex_iff list_all_iff split: option.splits if_splits)
  next
    case False
    then have "evaluate_metric fp r candidate baseline policy comparability es ws
        = evaluate_relative fp r vs baseline policy comparability es ws rec0"
      using g primary sel by (cases g) (auto simp: evaluate_metric_def rec0_def)
    moreover have "mc_threshold rec0 = allowance_fraction fp g" by (simp add: rec0_def fresh_record_def g)
    ultimately have "\<exists>bs. eligible r vs baseline policy comparability bs \<and> mc_disposition rec = relative_verdict fp r g vs bs es"
      using evaluate_relative_cases [OF g _ rec0(1), where fp = fp and cs = vs and baseline = baseline and policy = policy
          and comparability = comparability and es = es and ws = ws and rec' = rec and ws' = ws'] assms(1,2) by simp
    with False show ?thesis by (cases g) (auto simp: g cs primary)
  qed
qed

text \<open>
  Evaluating a metric panics in exactly one situation, and input data can bring it about:
  a plain relative gate that is eligible in every respect, whose degradation is not a finite
  number (the ratio of the two geometric means overflows).  The statistical gate never
  panics.
\<close>

lemma evaluate_panics_iff:
  "evaluate_metric fp r candidate baseline policy comparability es ws = None \<longleftrightarrow>
     metric_intent r = Primary
     \<and> (\<exists>a bs. metric_gate r = Some (RelativeRegression a)
          \<and> eligible r (fst (select_trials candidate (metric_name r))) baseline policy comparability bs
          \<and> oriented_degradation fp (geometric_mean fp (fst (select_trials candidate (metric_name r))))
              (geometric_mean fp bs) (metric_direction r) = None)"
proof (cases "metric_gate r")
  case None
  then show ?thesis by (simp add: evaluate_metric_def Let_def)
next
  case (Some g)
  obtain vs included exs where sel: "select_trials candidate (metric_name r) = (vs, included, exs)" by (metis surj_pair)
  define rec0 where "rec0 = fresh_record fp r (vs, included, exs)"
  have rec0: "mc_threshold rec0 = allowance_fraction fp g" "mc_disposition rec0 = None"
    by (simp_all add: rec0_def fresh_record_def Some)
  show ?thesis
  proof (cases "metric_intent r = Primary \<and> (\<forall>v. g \<noteq> Absolute v)")
    case True
    then have "evaluate_metric fp r candidate baseline policy comparability es ws
        = evaluate_relative fp r vs baseline policy comparability es ws rec0"
      using Some sel by (cases g) (auto simp: evaluate_metric_def rec0_def)
    then show ?thesis
      using evaluate_relative_cases [OF Some rec0, where cs = vs and baseline = baseline and policy = policy
          and comparability = comparability and es = es and ws = ws] True sel Some by auto
  next
    case False
    then show ?thesis using Some sel by (auto simp: evaluate_metric_def Let_def)
  qed
qed

section \<open>A concrete comparison\<close>

definition sample_resolved :: ResolvedPlan where
  "sample_resolved = \<lparr>rp_schema_version = SchemaVersion 1, rp_source_plan_schema_version = SchemaVersion 1,
     rp_experiment = Name ''demo'', rp_drivers = [], rp_subject = Label (Name ''demo''), rp_topology = [],
     rp_workload = FiniteCount (Name ''web'') (PositiveCount 10) (PositiveCount 2), rp_trials = trials bare_plan,
     rp_telemetry = [], rp_defaults = \<lparr>rd_platform = Name ''linux'', rd_warmup_trials = 0, rd_measured_trials = 2\<rparr>,
     rp_environment_policy = StrictSameTestbed, rp_metrics = [], rp_artifact_bounds = bounds bare_plan,
     rp_seed = None, rp_paired = None, rp_network_path = None, rp_diagnostics = [], rp_security_checks = [],
     rp_http_corpus_checks = [], rp_warnings = []\<rparr>"

definition sample_trial :: "u32 \<Rightarrow> f64 \<Rightarrow> InputTrial" where
  "sample_trial n v = \<lparr>it_id = TrialId n, it_terminal = TrialCompleted, it_arm = None, it_pair_id = None,
     it_metrics = Some \<lparr>tm_schema_version = TRIAL_METRICS_SCHEMA_VERSION, tm_vocabulary_version = 1,
       tm_trial_id = TrialId n,
       tm_observations = [\<lparr>no_name = Name ''latency'', no_unit = Name ''ms'', no_direction = LowerIsBetter,
         no_intent = Primary, no_aggregation = AggMean, no_state = Observed v,
         no_provenance = \<lparr>pv_producer = Name ''p'', pv_producer_version = None, pv_source_field = None,
           pv_normalization = NORMALIZATION_METHOD_V1, pv_raw_artifacts = []\<rparr>\<rparr>],
       tm_histograms = [], tm_error_distribution = [], tm_warnings = []\<rparr>\<rparr>"

definition sample_input :: "InputTrial list \<Rightarrow> ComparisonInput" where
  "sample_input ts = \<lparr>ci_identity = \<lparr>id_manifest_schema_version = SchemaVersion 2, id_run_id = ''r'',
       id_manifest_sha256 = ''00'', id_subject_revision = None, id_subject_digest = None\<rparr>,
     ci_resolved = sample_resolved, ci_environment = EnvironmentFingerprint_new [], ci_trials = ts,
     ci_paired = None, ci_network_path_evidence = None, ci_semantic_replay_evidence = None,
     ci_diagnostics_evidence = None, ci_security_evidence = None, ci_security_records = None\<rparr>"

definition absolute_latency :: "f64 \<Rightarrow> MetricRequest" where
  "absolute_latency v = \<lparr>metric_name = Name ''latency'', metric_unit = Name ''ms'', metric_direction = LowerIsBetter,
     metric_intent = Primary, metric_gate = Some (Absolute v)\<rparr>"

definition matching_report :: ComparabilityReport where
  "matching_report = \<lparr>cr_testbed = [], cr_workload_match = True, cr_workload_detail = [], cr_driver_match = True,
     cr_driver_detail = [], cr_topology_match = True, cr_topology_detail = [], cr_critical_mismatch = False\<rparr>"

text \<open>An arithmetic in which every sum is its first summand and division by one trial is exact.\<close>

definition first_fpu :: Fpu where
  "first_fpu = \<lparr>fp_sum = hd, fp_add = (\<lambda>a b. b), fp_sub = (\<lambda>a b. a), fp_div = (\<lambda>a b. a), fp_ln = (\<lambda>a. a),
     fp_exp = (\<lambda>a. a), fp_of_nat = (\<lambda>n. f64_one)\<rparr>"

theorem decisive_verdict_earned_witness:
  "\<exists>rec ws. evaluate_metric first_fpu (absolute_latency 0x4010000000000000)
       (sample_input [sample_trial 1 0x4008000000000000]) None StrictSameTestbed matching_report 0 [] = Some (rec, ws)
     \<and> mc_disposition rec = Some (threshold_gate 0x4008000000000000 0x4010000000000000)"
proof -
  have sel: "select_trials (sample_input [sample_trial 1 0x4008000000000000]) (Name ''latency'')
      = ([0x4008000000000000], [1], [])"
    by (simp add: select_trials_def sample_input_def sample_trial_def trial_value_def find_observation_def)
  obtain rec ws where e: "evaluate_metric first_fpu (absolute_latency 0x4010000000000000)
       (sample_input [sample_trial 1 0x4008000000000000]) None StrictSameTestbed matching_report 0 [] = Some (rec, ws)"
    by (auto simp: evaluate_metric_def absolute_latency_def Let_def)
  have d: "decisive (mc_disposition rec)"
    using e gate_results(1) [of "0x4008000000000000" "0x4010000000000000"]
    by (auto simp: evaluate_metric_def absolute_latency_def sel fresh_record_def arithmetic_mean_def first_fpu_def
        finite_or_none_def three_finite evaluate_absolute_def dispose_def decisive_def)
  show ?thesis using decisive_verdict_earned [OF e d refl] e
    by (auto simp: absolute_latency_def sel arithmetic_mean_def first_fpu_def finite_or_none_def three_finite)
qed

end
