(* ===== verification/Paired.thy ===== *)
theory Paired
  imports Gates
begin

text \<open>
  The paired comparison of \<open>eggbench-core/src/comparison.rs\<close>: the join of arm-classified trials
  into pairs (\<open>select_pairs\<close>), the drift diagnostics and the evaluation of one metric over
  complete pairs.

  The join walks the trials in manifest order with the state \<open>PairScan\<close>.  The source writes
  the classification of one trial a second time; it is the one of \<open>select_trials\<close>, so the
  model shares \<open>trial_value\<close>.
\<close>

section \<open>Data\<close>

record CompletePair =
  cp_pair_id :: u32
  cp_candidate_trial :: u32
  cp_baseline_trial :: u32
  cp_candidate_value :: f64
  cp_baseline_value :: f64

record ExcludedPair =
  xp_pair_id :: u32
  xp_reason :: string

record PairSelection =
  sel_complete :: "CompletePair list"
  sel_excluded_pairs :: "ExcludedPair list"
  sel_candidate_included :: "u32 list"
  sel_candidate_excluded :: "ExcludedTrial list"
  sel_baseline_included :: "u32 list"
  sel_baseline_excluded :: "ExcludedTrial list"

record PairedEffect =
  pe_pair_id :: u32
  pe_effect :: f64

datatype DriftTrend = TrendUp | TrendDown | TrendFlat | TrendInsufficient

record DriftDiagnostics =
  dd_first_half_mean :: "f64 option"
  dd_second_half_mean :: "f64 option"
  dd_trend :: DriftTrend

record PairedMetricRecord =
  pm_name :: Name
  pm_pairs_complete :: "u32 list"
  pm_pairs_excluded :: "ExcludedPair list"
  pm_pair_effects :: "PairedEffect list"
  pm_drift :: DriftDiagnostics
  pm_effective_seed :: "u64 option"

section \<open>The join\<close>

type_synonym arm_values = "(u32, u32 \<times> f64) BTreeMap"

record PairScan =
  ps_candidate :: arm_values
  ps_baseline :: arm_values
  ps_candidate_excluded :: "ExcludedTrial list"
  ps_baseline_excluded :: "ExcludedTrial list"
  ps_seen :: "(TrialArm \<times> u32) set"

definition empty_pair_scan :: PairScan where
  "empty_pair_scan = \<lparr>ps_candidate = [], ps_baseline = [], ps_candidate_excluded = [],
     ps_baseline_excluded = [], ps_seen = {}\<rparr>"

fun exclude_arm :: "TrialArm \<Rightarrow> ExcludedTrial \<Rightarrow> PairScan \<Rightarrow> PairScan" where
  "exclude_arm Baseline x st = st \<lparr>ps_baseline_excluded := ps_baseline_excluded st @ [x]\<rparr>"
| "exclude_arm Candidate x st = st \<lparr>ps_candidate_excluded := ps_candidate_excluded st @ [x]\<rparr>"

fun observe_arm :: "TrialArm \<Rightarrow> u32 \<Rightarrow> u32 \<times> f64 \<Rightarrow> PairScan \<Rightarrow> PairScan" where
  "observe_arm Baseline p tv st = st \<lparr>ps_baseline := bt_insert p tv (ps_baseline st)\<rparr>"
| "observe_arm Candidate p tv st = st \<lparr>ps_candidate := bt_insert p tv (ps_candidate st)\<rparr>"

text \<open>Of the map \<open>seen\<close> the source reads only whether a key was present.\<close>

definition scan_trial :: "Name \<Rightarrow> InputTrial \<Rightarrow> PairScan \<Rightarrow> PairScan" where
  "scan_trial metric t st =
    (case (it_arm t, it_pair_id t) of
       (Some arm, Some p) \<Rightarrow>
         (let st1 = st \<lparr>ps_seen := insert (arm, p) (ps_seen st)\<rparr>
          in if (arm, p) \<in> ps_seen st then exclude_arm arm (excluded t ''duplicate_pair_identity'') st1
             else (case trial_value t metric of
                 Err reason \<Rightarrow> exclude_arm arm (excluded t reason) st1
               | Ok v \<Rightarrow> observe_arm arm p (trial_get (it_id t), v) st1))
     | _ \<Rightarrow> exclude_arm Baseline (excluded t ''trial_missing_pair_identity'')
              (exclude_arm Candidate (excluded t ''trial_missing_pair_identity'') st))"

definition scan_pairs :: "Name \<Rightarrow> InputTrial list \<Rightarrow> PairScan" where
  "scan_pairs metric ts = fold (scan_trial metric) ts empty_pair_scan"

definition pair_ids_of :: "PairScan \<Rightarrow> u32 list" where
  "pair_ids_of st = bs_elems (bs_extend (map fst (ps_baseline st)) (bs_extend (map fst (ps_candidate st)) []))"

fun join_pairs :: "arm_values \<Rightarrow> arm_values \<Rightarrow> u32 list \<Rightarrow> CompletePair list \<times> ExcludedPair list" where
  "join_pairs cs bs [] = ([], [])"
| "join_pairs cs bs (p # ps) =
    (case join_pairs cs bs ps of
       (complete, exs) \<Rightarrow>
         (case (bt_get cs p, bt_get bs p) of
            (Some (ct, cv), Some (bt, bv)) \<Rightarrow>
              (\<lparr>cp_pair_id = p, cp_candidate_trial = ct, cp_baseline_trial = bt, cp_candidate_value = cv,
                 cp_baseline_value = bv\<rparr> # complete, exs)
          | _ \<Rightarrow> (complete, \<lparr>xp_pair_id = p, xp_reason = ''pair_incomplete''\<rparr> # exs)))"

definition select_pairs :: "ComparisonInput \<Rightarrow> Name \<Rightarrow> PairSelection" where
  "select_pairs input metric =
    (let st = scan_pairs metric (ci_trials input)
     in case join_pairs (ps_candidate st) (ps_baseline st) (pair_ids_of st) of
          (complete, exs) \<Rightarrow>
            \<lparr>sel_complete = complete, sel_excluded_pairs = exs,
             sel_candidate_included = map cp_candidate_trial complete,
             sel_candidate_excluded = ps_candidate_excluded st,
             sel_baseline_included = map cp_baseline_trial complete,
             sel_baseline_excluded = ps_baseline_excluded st\<rparr>)"

section \<open>Effects and drift\<close>

definition complete_pairs_domain_valid :: "CompletePair list \<Rightarrow> bool" where
  "complete_pairs_domain_valid ps \<longleftrightarrow> ps \<noteq> []
     \<and> list_all (\<lambda>p. f64_is_finite (cp_candidate_value p) \<and> f64_is_finite (cp_baseline_value p)
          \<and> f64_lt f64_zero (cp_candidate_value p) \<and> f64_lt f64_zero (cp_baseline_value p)) ps"

definition oriented_log_difference :: "Fpu \<Rightarrow> f64 \<Rightarrow> f64 \<Rightarrow> MetricDirection \<Rightarrow> f64" where
  "oriented_log_difference fp candidate baseline direction =
    (case direction of
       LowerIsBetter \<Rightarrow> fp_sub fp (fp_ln fp candidate) (fp_ln fp baseline)
     | HigherIsBetter \<Rightarrow> fp_sub fp (fp_ln fp baseline) (fp_ln fp candidate)
     | _ \<Rightarrow> f64_zero)"

definition drift_trend :: "f64 option \<Rightarrow> f64 option \<Rightarrow> DriftTrend" where
  "drift_trend a b =
    (case (a, b) of
       (Some first, Some second) \<Rightarrow>
         if f64_lt first second then TrendUp else if f64_lt second first then TrendDown else TrendFlat
     | _ \<Rightarrow> TrendInsufficient)"

definition drift_diagnostics :: "Fpu \<Rightarrow> PairedEffect list \<Rightarrow> DriftDiagnostics" where
  "drift_diagnostics fp effects =
    (if length effects < 2
     then \<lparr>dd_first_half_mean = None, dd_second_half_mean = None, dd_trend = TrendInsufficient\<rparr>
     else (let half = length effects div 2;
               first = arithmetic_mean fp (map pe_effect (take half effects));
               second = arithmetic_mean fp (map pe_effect (drop half effects))
           in \<lparr>dd_first_half_mean = first, dd_second_half_mean = second, dd_trend = drift_trend first second\<rparr>))"

definition pair_differences :: "Fpu \<Rightarrow> MetricDirection \<Rightarrow> CompletePair list \<Rightarrow> f64 list" where
  "pair_differences fp direction ps =
    map (\<lambda>p. oriented_log_difference fp (cp_candidate_value p) (cp_baseline_value p) direction) ps"

definition pair_effects :: "Fpu \<Rightarrow> MetricDirection \<Rightarrow> CompletePair list \<Rightarrow> PairedEffect list" where
  "pair_effects fp direction ps =
    filter (\<lambda>e. f64_is_finite (pe_effect e))
      (map (\<lambda>p. \<lparr>pe_pair_id = cp_pair_id p,
         pe_effect = fp_sub fp (fp_exp fp
           (oriented_log_difference fp (cp_candidate_value p) (cp_baseline_value p) direction)) f64_one\<rparr>) ps)"

section \<open>Evaluation\<close>

definition directed :: "MetricRequest \<Rightarrow> bool" where
  "directed r \<longleftrightarrow> metric_direction r = HigherIsBetter \<or> metric_direction r = LowerIsBetter"

definition fresh_paired :: "Fpu \<Rightarrow> MetricRequest \<Rightarrow> PairSelection \<Rightarrow> MetricComparison" where
  "fresh_paired fp r s =
    \<lparr>mc_name = metric_name r, mc_unit = metric_unit r, mc_direction = metric_direction r,
     mc_intent = metric_intent r, mc_gate = metric_gate r,
     mc_candidate_included = sel_candidate_included s, mc_candidate_excluded = sel_candidate_excluded s,
     mc_baseline_included = sel_baseline_included s, mc_baseline_excluded = sel_baseline_excluded s,
     mc_candidate_estimate = arithmetic_mean fp (map cp_candidate_value (sel_complete s)),
     mc_baseline_estimate = geometric_mean fp (map cp_baseline_value (sel_complete s)),
     mc_degradation = None, mc_confidence_low = None, mc_confidence_high = None,
     mc_threshold = (case metric_gate r of None \<Rightarrow> None | Some g \<Rightarrow> allowance_fraction fp g),
     mc_statistical_method = None, mc_resamples = None, mc_effective_seed = None,
     mc_disposition = None, mc_reason = None\<rparr>"

definition fresh_paired_record :: "Fpu \<Rightarrow> MetricRequest \<Rightarrow> PairSelection \<Rightarrow> PairedMetricRecord" where
  "fresh_paired_record fp r s =
    (let effects = (if directed r \<and> complete_pairs_domain_valid (sel_complete s)
                    then pair_effects fp (metric_direction r) (sel_complete s) else [])
     in \<lparr>pm_name = metric_name r, pm_pairs_complete = map cp_pair_id (sel_complete s),
         pm_pairs_excluded = sel_excluded_pairs s, pm_pair_effects = effects,
         pm_drift = drift_diagnostics fp effects, pm_effective_seed = None\<rparr>)"

definition pair_count_warning :: "Name \<Rightarrow> nat \<Rightarrow> ComparisonWarning" where
  "pair_count_warning n pairs = \<lparr>cw_category = ''below_recommended_pair_count'',
     cw_detail = ''metric '' @ as_str n @ '' has '' @ show_dec pairs @ '' complete pairs; 7+ recommended''\<rparr>"

type_synonym paired_evaluated = "(MetricComparison \<times> PairedMetricRecord) \<times> ComparisonWarning list"

text \<open>The statistical gate over at least the required number of complete pairs.\<close>

definition conclude_paired ::
  "MetricRequest \<Rightarrow> nat \<Rightarrow> (f64 \<times> f64) option \<Rightarrow> u64 \<Rightarrow> ComparisonWarning list \<Rightarrow> MetricComparison
    \<Rightarrow> PairedMetricRecord \<Rightarrow> paired_evaluated option" where
  "conclude_paired r pairs interval effective_seed ws rec pm =
    (let ws' = (if pairs < RECOMMENDED_OBSERVATIONS_PER_SIDE
                then ws @ [pair_count_warning (metric_name r) pairs] else ws)
     in case (mc_threshold rec, interval) of
          (Some threshold, Some (low, high)) \<Rightarrow>
            if \<not> f64_is_finite low \<or> \<not> f64_is_finite high
            then Some ((dispose_with GateInvalid ''nonfinite_paired_effect'' rec, pm), ws')
            else Some ((rec \<lparr>mc_confidence_low := Some low, mc_confidence_high := Some high,
                   mc_statistical_method := Some STATISTICAL_METHOD_V2,
                   mc_resamples := Some BOOTSTRAP_RESAMPLES, mc_effective_seed := Some effective_seed,
                   mc_disposition := Some (interval_gate low high threshold)\<rparr>,
                 pm \<lparr>pm_effective_seed := Some effective_seed\<rparr>), ws')
        | _ \<Rightarrow> None)"

definition gate_pairs ::
  "Fpu \<Rightarrow> MetricRequest \<Rightarrow> Gate \<Rightarrow> CompletePair list \<Rightarrow> u64 \<Rightarrow> ComparisonWarning list \<Rightarrow> MetricComparison
    \<Rightarrow> PairedMetricRecord \<Rightarrow> paired_evaluated option" where
  "gate_pairs fp r g complete effective_seed ws rec pm =
    (let differences = pair_differences fp (metric_direction r) complete
     in case arithmetic_mean fp differences of
          None \<Rightarrow> None
        | Some mean \<Rightarrow>
            (let degradation = fp_sub fp (fp_exp fp mean) f64_one;
                 rec1 = rec \<lparr>mc_degradation := Some degradation\<rparr>
             in case g of
                  RelativeRegression _ \<Rightarrow>
                    (case mc_threshold rec1 of
                       None \<Rightarrow> None
                     | Some threshold \<Rightarrow>
                         if \<not> f64_is_finite degradation
                         then Some ((dispose_with GateInvalid ''nonfinite_paired_effect'' rec1, pm), ws)
                         else Some ((dispose (threshold_gate degradation threshold) rec1, pm), ws))
                | StatisticalRelative _ min_trials \<Rightarrow>
                    if length complete < min_observations (count_get min_trials)
                    then Some ((dispose_with GateInvalid ''insufficient_pairs'' rec1, pm), ws)
                    else conclude_paired r (length complete)
                           (paired_bootstrap_interval fp differences BOOTSTRAP_RESAMPLES effective_seed)
                           effective_seed ws rec1 pm
                | Absolute _ \<Rightarrow>
                    Some ((dispose_with GateInvalid ''absolute_gate_unsupported_for_paired_evidence'' rec1, pm), ws)))"

definition evaluate_paired_metric ::
  "Fpu \<Rightarrow> MetricRequest \<Rightarrow> ComparisonInput \<Rightarrow> u64 \<Rightarrow> ComparisonWarning list \<Rightarrow> paired_evaluated option" where
  "evaluate_paired_metric fp r input effective_seed ws =
    (let s = select_pairs input (metric_name r);
         rec = fresh_paired fp r s;
         pm = fresh_paired_record fp r s
     in case metric_gate r of
          None \<Rightarrow> Some ((rec, pm), ws)
        | Some g \<Rightarrow>
            if metric_intent r \<noteq> Primary
            then Some ((dispose_with GateInvalid ''diagnostic_metric_cannot_gate'' rec, pm), ws)
            else if (case g of Absolute _ \<Rightarrow> True | _ \<Rightarrow> False)
            then Some ((dispose_with GateInvalid ''absolute_gate_unsupported_for_paired_evidence'' rec, pm), ws)
            else (case check_metric_semantics r input of
                Err reason \<Rightarrow> Some ((dispose_with GateInvalid reason rec, pm), ws)
              | Ok _ \<Rightarrow>
                  if \<not> directed r
                  then Some ((dispose_with GateInvalid ''unsupported_direction_for_relative_gate'' rec, pm), ws)
                  else if \<not> complete_pairs_domain_valid (sel_complete s)
                  then Some ((dispose_with GateInvalid ''nonpositive_relative_value'' rec, pm), ws)
                  else gate_pairs fp r g (sel_complete s) effective_seed ws rec pm))"

definition paired_rejection_record :: "Fpu \<Rightarrow> MetricRequest \<Rightarrow> MetricComparison" where
  "paired_rejection_record fp r =
    \<lparr>mc_name = metric_name r, mc_unit = metric_unit r, mc_direction = metric_direction r,
     mc_intent = metric_intent r, mc_gate = metric_gate r, mc_candidate_included = [],
     mc_candidate_excluded = [], mc_baseline_included = [], mc_baseline_excluded = [],
     mc_candidate_estimate = None, mc_baseline_estimate = None, mc_degradation = None,
     mc_confidence_low = None, mc_confidence_high = None,
     mc_threshold = (case metric_gate r of None \<Rightarrow> None | Some g \<Rightarrow> allowance_fraction fp g),
     mc_statistical_method = None, mc_resamples = None, mc_effective_seed = None,
     mc_disposition = Some GateInvalid,
     mc_reason = Some ''paired_evidence_requires_paired_comparison''\<rparr>"

definition invalid_paired_record :: "Fpu \<Rightarrow> MetricRequest \<Rightarrow> string \<Rightarrow> MetricComparison" where
  "invalid_paired_record fp r reason =
    (paired_rejection_record fp r)
      \<lparr>mc_threshold := (case metric_gate r of None \<Rightarrow> None | Some g \<Rightarrow> allowance_fraction fp g),
       mc_reason := Some reason\<rparr>"

section \<open>The join is exact\<close>

definition holds_pair :: "TrialArm \<Rightarrow> u32 \<Rightarrow> InputTrial \<Rightarrow> bool" where
  "holds_pair arm p t \<longleftrightarrow> it_arm t = Some arm \<and> it_pair_id t = Some p"

text \<open>What an arm contributes to a pair: the reading of the first trial with that identity.\<close>

definition arm_reading :: "Name \<Rightarrow> InputTrial list \<Rightarrow> TrialArm \<Rightarrow> u32 \<Rightarrow> (u32 \<times> f64) option" where
  "arm_reading metric ts arm p =
    (case find (holds_pair arm p) ts of
       None \<Rightarrow> None
     | Some t \<Rightarrow> (case trial_value t metric of Ok v \<Rightarrow> Some (trial_get (it_id t), v) | Err _ \<Rightarrow> None))"

fun arm_map :: "TrialArm \<Rightarrow> PairScan \<Rightarrow> arm_values" where
  "arm_map Baseline st = ps_baseline st"
| "arm_map Candidate st = ps_candidate st"

fun arm_excluded :: "TrialArm \<Rightarrow> PairScan \<Rightarrow> ExcludedTrial list" where
  "arm_excluded Baseline st = ps_baseline_excluded st"
| "arm_excluded Candidate st = ps_candidate_excluded st"

lemma exclude_arm_simps [simp]:
  "arm_map a (exclude_arm b x st) = arm_map a st"
  "ps_seen (exclude_arm b x st) = ps_seen st"
  "arm_excluded a (exclude_arm b x st) = arm_excluded a st @ (if a = b then [x] else [])"
  by (cases a; cases b; simp)+

lemma observe_arm_simps [simp]:
  "arm_map a (observe_arm b p tv st) = (if a = b then bt_insert p tv (arm_map a st) else arm_map a st)"
  "ps_seen (observe_arm b p tv st) = ps_seen st"
  "arm_excluded a (observe_arm b p tv st) = arm_excluded a st"
  by (cases a; cases b; simp)+

declare exclude_arm.simps [simp del] observe_arm.simps [simp del]

lemma seen_update_simps [simp]:
  "arm_map a (st \<lparr>ps_seen := s\<rparr>) = arm_map a st" "arm_excluded a (st \<lparr>ps_seen := s\<rparr>) = arm_excluded a st"
  by (cases a; simp)+

lemma scan_pairs_snoc: "scan_pairs metric (ts @ [t]) = scan_trial metric t (scan_pairs metric ts)"
  by (simp add: scan_pairs_def)

lemma find_snoc: "find P (xs @ [x]) = (case find P xs of None \<Rightarrow> if P x then Some x else None | Some y \<Rightarrow> Some y)"
  by (induction xs) simp_all

lemma arm_reading_snoc:
  "arm_reading metric (ts @ [t]) arm p =
    (if find (holds_pair arm p) ts = None \<and> holds_pair arm p t
     then (case trial_value t metric of Ok v \<Rightarrow> Some (trial_get (it_id t), v) | Err _ \<Rightarrow> None)
     else arm_reading metric ts arm p)"
  by (auto simp: arm_reading_def find_snoc split: option.splits)

lemma scan_pairs_seen: "(arm, p) \<in> ps_seen (scan_pairs metric ts) \<longleftrightarrow> find (holds_pair arm p) ts \<noteq> None"
proof (induction ts rule: rev_induct)
  case Nil
  then show ?case by (simp add: scan_pairs_def empty_pair_scan_def)
next
  case (snoc t ts)
  then show ?case
    by (auto simp: scan_pairs_snoc scan_trial_def find_snoc holds_pair_def Let_def split: option.splits sum.splits)
qed

lemma scan_pairs_map:
  "bt_ok (arm_map arm (scan_pairs metric ts))
    \<and> bt_get (arm_map arm (scan_pairs metric ts)) = arm_reading metric ts arm"
proof (induction ts rule: rev_induct)
  case Nil
  then show ?case
    by (cases arm) (simp_all add: scan_pairs_def empty_pair_scan_def arm_reading_def fun_eq_iff)
next
  case (snoc t ts)
  have seen: "(a, p) \<in> ps_seen (scan_pairs metric ts) \<longleftrightarrow> find (holds_pair a p) ts \<noteq> None" for a p
    by (rule scan_pairs_seen)
  show ?case
  proof (cases "\<exists>a p. it_arm t = Some a \<and> it_pair_id t = Some p")
    case False
    then have "scan_trial metric t st = exclude_arm Baseline (excluded t ''trial_missing_pair_identity'')
        (exclude_arm Candidate (excluded t ''trial_missing_pair_identity'') st)" for st
      by (cases "it_arm t"; cases "it_pair_id t") (auto simp: scan_trial_def)
    moreover have "\<not> holds_pair arm p t" for p using False by (auto simp: holds_pair_def)
    ultimately show ?thesis using snoc by (simp add: scan_pairs_snoc arm_reading_snoc fun_eq_iff)
  next
    case True
    then obtain a p where t: "it_arm t = Some a" "it_pair_id t = Some p" by blast
    have h: "holds_pair b q t \<longleftrightarrow> b = a \<and> q = p" for b q using t by (auto simp: holds_pair_def)
    have new: "arm_reading metric ts b q = None" if "find (holds_pair b q) ts = None" for b q
      using that by (simp add: arm_reading_def)
    show ?thesis
      using snoc
      by (auto simp: scan_pairs_snoc scan_trial_def t Let_def seen bt_ok_insert bt_get_insert fun_eq_iff
          arm_reading_snoc h new split: sum.splits)
  qed
qed

lemma bt_insert_mset: "bt_get m k = None \<Longrightarrow> mset (bt_insert k v m) = add_mset (k, v) (mset m)"
  by (induction m) (auto simp: bt_get_def)

lemma scan_pairs_excluded:
  "mset (map ex_trial_id (arm_excluded arm (scan_pairs metric ts)))
      + image_mset (\<lambda>e. fst (snd e)) (mset (arm_map arm (scan_pairs metric ts)))
    = mset (map (\<lambda>t. trial_get (it_id t)) (filter (\<lambda>t. it_arm t = None \<or> it_pair_id t = None \<or> it_arm t = Some arm) ts))"
proof (induction ts rule: rev_induct)
  case Nil
  then show ?case by (cases arm) (simp_all add: scan_pairs_def empty_pair_scan_def)
next
  case (snoc t ts)
  let ?st = "scan_pairs metric ts"
  have fresh: "image_mset f (mset (bt_insert p v (arm_map a ?st))) = add_mset (f (p, v)) (image_mset f (mset (arm_map a ?st)))"
    if "(a, p) \<notin> ps_seen ?st" for f :: "u32 \<times> u32 \<times> f64 \<Rightarrow> u32" and p a v
  proof -
    have "bt_get (arm_map a ?st) p = None"
      using that scan_pairs_map [of a metric ts] by (simp add: scan_pairs_seen arm_reading_def)
    then show ?thesis by (simp add: bt_insert_mset)
  qed
  show ?case
  proof (cases "\<exists>a p. it_arm t = Some a \<and> it_pair_id t = Some p")
    case False
    then have "scan_trial metric t st = exclude_arm Baseline (excluded t ''trial_missing_pair_identity'')
        (exclude_arm Candidate (excluded t ''trial_missing_pair_identity'') st)" for st
      by (cases "it_arm t"; cases "it_pair_id t") (auto simp: scan_trial_def)
    moreover have "it_arm t = None \<or> it_pair_id t = None" using False by auto
    ultimately show ?thesis using snoc by (cases arm) (auto simp: scan_pairs_snoc excluded_def)
  next
    case True
    then obtain a p where t: "it_arm t = Some a" "it_pair_id t = Some p" by blast
    show ?thesis
      using snoc fresh [of a p "\<lambda>e. fst (snd e)"]
      by (cases "a = arm") (auto simp: scan_pairs_snoc scan_trial_def t Let_def excluded_def split: sum.splits)
  qed
qed

definition joined :: "u32 \<Rightarrow> u32 \<times> f64 \<Rightarrow> u32 \<times> f64 \<Rightarrow> CompletePair" where
  "joined p c b = \<lparr>cp_pair_id = p, cp_candidate_trial = fst c, cp_baseline_trial = fst b,
     cp_candidate_value = snd c, cp_baseline_value = snd b\<rparr>"

lemma joined_inject [simp]: "joined p c b = joined p' c' b' \<longleftrightarrow> p = p' \<and> c = c' \<and> b = b'"
  by (auto simp: joined_def prod_eq_iff)

lemma cp_pair_id_joined [simp]: "cp_pair_id (joined p c b) = p"
  by (simp add: joined_def)

lemma join_pairs_eq:
  "join_pairs cs bs ps =
    (map (\<lambda>p. joined p (the (bt_get cs p)) (the (bt_get bs p)))
       (filter (\<lambda>p. bt_get cs p \<noteq> None \<and> bt_get bs p \<noteq> None) ps),
     map (\<lambda>p. \<lparr>xp_pair_id = p, xp_reason = ''pair_incomplete''\<rparr>)
       (filter (\<lambda>p. bt_get cs p = None \<or> bt_get bs p = None) ps))"
  by (induction ps) (auto simp: joined_def split: option.splits)

lemma bs_extend_ok: "bt_ok s \<Longrightarrow> bt_ok (bs_extend as s) \<and> fst ` set (bs_extend as s) = fst ` set s \<union> set as"
  unfolding bs_extend_def bs_insert_def
  by (induction as arbitrary: s) (auto simp: bt_ok_insert bt_insert_keys)

lemma pair_ids_of:
  "sorted_wrt (<) (pair_ids_of st) \<and> set (pair_ids_of st) = fst ` set (ps_candidate st) \<union> fst ` set (ps_baseline st)"
  using bs_extend_ok [of "[]" "map fst (ps_candidate st)"]
    bs_extend_ok [of "bs_extend (map fst (ps_candidate st)) []" "map fst (ps_baseline st)"]
  by (auto simp: pair_ids_of_def bs_elems_def bt_ok_def)

lemma scan_pairs_get:
  "bt_get (ps_candidate (scan_pairs metric ts)) = arm_reading metric ts Candidate"
  "bt_get (ps_baseline (scan_pairs metric ts)) = arm_reading metric ts Baseline"
  using scan_pairs_map [of Candidate metric ts] scan_pairs_map [of Baseline metric ts] by simp_all

lemma bt_keys: "fst ` set m = {p. bt_get m p \<noteq> None}"
  by (simp add: set_eq_iff bt_get_def map_of_eq_None_iff del: not_None_eq)

lemma some_arm: "(\<exists>arm. Q arm) \<longleftrightarrow> Q Candidate \<or> Q Baseline"
  by (metis TrialArm.exhaust)

lemma scan_pairs_ids:
  "set (pair_ids_of (scan_pairs metric ts)) = {p. \<exists>arm. arm_reading metric ts arm p \<noteq> None}"
proof -
  show ?thesis
    unfolding some_arm using pair_ids_of [of "scan_pairs metric ts"] by (auto simp only: bt_keys scan_pairs_get)
qed

lemma arm_map_numbers:
  assumes "bt_ok m \<and> bt_get m = f"
  shows "image_mset (\<lambda>e. fst (snd e)) (mset m) = image_mset fst (image_mset (the \<circ> f) (mset_set {p. f p \<noteq> None}))"
proof -
  have d: "distinct (map fst m)" using assms by (simp add: bt_ok_distinct)
  have keys: "{p. f p \<noteq> None} = set (map fst m)"
    using assms by (simp add: bt_keys del: not_None_eq)
  have "the (f (fst e)) = snd e" if "e \<in> set m" for e
    using map_of_is_SomeI [OF d, of "fst e" "snd e"] that assms by (auto simp: bt_get_def)
  then have "map (\<lambda>e. the (f (fst e))) m = map snd m" by simp
  then have "image_mset (the \<circ> f) (mset (map fst m)) = image_mset snd (mset m)"
    unfolding mset_map [symmetric] map_map comp_def by (rule arg_cong)
  moreover have "mset_set {p. f p \<noteq> None} = mset (map fst m)" unfolding keys by (rule mset_set_set [OF d])
  ultimately show ?thesis by (simp only: multiset.map_comp comp_def)
qed

text \<open>The numbers of the trials an arm has to account for: its own and those without identity.\<close>

definition accountable :: "TrialArm \<Rightarrow> InputTrial list \<Rightarrow> u32 list" where
  "accountable arm ts =
    map (\<lambda>t. trial_get (it_id t)) (filter (\<lambda>t. it_arm t = None \<or> it_pair_id t = None \<or> it_arm t = Some arm) ts)"

text \<open>
  C20: The join of the arms is exact.  Pairs come in increasing order; the complete ones are
  exactly those for which the first trial of each arm with that identity completed and
  observed the metric, with these two trials and values; the excluded ones are exactly those
  for which one arm has such a reading and the other has not, so no pair is split and
  nothing is imputed.  Every trial number is accounted for in its arm (in both when it has no
  identity): excluded with a reason, or read into a pair.
\<close>

theorem pair_join_exact:
  fixes input metric
  defines "s \<equiv> select_pairs input metric" and "reading \<equiv> arm_reading metric (ci_trials input)"
  shows "sorted_wrt (<) (map cp_pair_id (sel_complete s))
    \<and> set (sel_complete s) = {joined p c b | p c b. reading Candidate p = Some c \<and> reading Baseline p = Some b}
    \<and> sorted_wrt (<) (map xp_pair_id (sel_excluded_pairs s))
    \<and> xp_pair_id ` set (sel_excluded_pairs s) = {p. (reading Candidate p = None) \<noteq> (reading Baseline p = None)}
    \<and> mset (map ex_trial_id (sel_candidate_excluded s)) + image_mset fst (image_mset (the \<circ> reading Candidate)
          (mset_set {p. reading Candidate p \<noteq> None})) = mset (accountable Candidate (ci_trials input))
    \<and> mset (map ex_trial_id (sel_baseline_excluded s)) + image_mset fst (image_mset (the \<circ> reading Baseline)
          (mset_set {p. reading Baseline p \<noteq> None})) = mset (accountable Baseline (ci_trials input))"
proof -
  let ?st = "scan_pairs metric (ci_trials input)"
  have get: "bt_get (ps_candidate ?st) = reading Candidate" "bt_get (ps_baseline ?st) = reading Baseline"
    by (simp_all add: scan_pairs_get reading_def)
  have ids: "set (pair_ids_of ?st) = {p. \<exists>arm. reading arm p \<noteq> None}"
    by (simp add: scan_pairs_ids reading_def)
  have order: "sorted_wrt (<) (pair_ids_of ?st)" using pair_ids_of by blast
  have numbers: "image_mset (\<lambda>e. fst (snd e)) (mset (arm_map arm ?st))
      = image_mset fst (image_mset (the \<circ> reading arm) (mset_set {p. reading arm p \<noteq> None}))" for arm
    unfolding reading_def using scan_pairs_map [of arm metric "ci_trials input"] by (metis arm_map_numbers)
  have s: "sel_complete s = map (\<lambda>p. joined p (the (reading Candidate p)) (the (reading Baseline p)))
        (filter (\<lambda>p. reading Candidate p \<noteq> None \<and> reading Baseline p \<noteq> None) (pair_ids_of ?st))"
      "sel_excluded_pairs s = map (\<lambda>p. \<lparr>xp_pair_id = p, xp_reason = ''pair_incomplete''\<rparr>)
        (filter (\<lambda>p. reading Candidate p = None \<or> reading Baseline p = None) (pair_ids_of ?st))"
      "sel_candidate_excluded s = arm_excluded Candidate ?st" "sel_baseline_excluded s = arm_excluded Baseline ?st"
    by (simp_all add: s_def select_pairs_def Let_def join_pairs_eq get)
  have complete: "set (sel_complete s) = {joined p c b | p c b. reading Candidate p = Some c \<and> reading Baseline p = Some b}"
    unfolding s(1) set_map set_filter ids by (force simp: image_iff)
  have incomplete: "xp_pair_id ` set (sel_excluded_pairs s) = {p. (reading Candidate p = None) \<noteq> (reading Baseline p = None)}"
    unfolding s(2) set_map set_filter ids some_arm by (auto simp: image_iff simp del: not_None_eq)
  have account: "mset (map ex_trial_id (arm_excluded arm ?st)) + image_mset fst (image_mset (the \<circ> reading arm)
      (mset_set {p. reading arm p \<noteq> None})) = mset (accountable arm (ci_trials input))" for arm
    using scan_pairs_excluded [of arm metric "ci_trials input"] by (simp only: numbers accountable_def)
  show ?thesis
    using account [of Candidate] account [of Baseline] complete incomplete order
    by (simp add: s comp_def sorted_wrt_filter)
qed

section \<open>The runner's schedule joins completely\<close>

definition follows_schedule :: "InputTrial list \<Rightarrow> bool" where
  "follows_schedule ts \<longleftrightarrow>
     (\<forall>i < length ts. it_id (ts ! i) = TrialId (of_nat (Suc i))
        \<and> it_arm (ts ! i) = Some (fst (paired_assignment (of_nat (Suc i))))
        \<and> it_pair_id (ts ! i) = Some (snd (paired_assignment (of_nat (Suc i)))))"

lemma scheduled_number:
  assumes "Suc i < 2 ^ 32"
  shows "paired_assignment (of_nat (Suc i)) = (arm, p) \<longleftrightarrow>
    (if arm = Candidate then Suc i = 2 * unat p else Suc (Suc i) = 2 * unat p)"
proof -
  have "unat (of_nat (Suc i) :: u32) = Suc i"
    using assms by (simp add: unat_of_nat take_bit_nat_eq_self del: of_nat_Suc)
  then show ?thesis by (auto simp only: paired_assignment_eq split: if_splits; presburger)
qed

lemma scheduled_reading:
  assumes "follows_schedule ts" and "length ts < 2 ^ 32" and "\<forall>i < length ts. observes (ts ! i) metric (v i)"
  shows "arm_reading metric ts arm p =
    (let i = (if arm = Candidate then 2 * unat p - 1 else 2 * unat p - 2)
     in if 1 \<le> unat p \<and> i < length ts then Some (of_nat (Suc i), v i) else None)"
proof -
  define i where "i = (if arm = Candidate then 2 * unat p - 1 else 2 * unat p - 2)"
  have holds: "holds_pair arm p (ts ! j) \<longleftrightarrow> 1 \<le> unat p \<and> j = i" if "j < length ts" for j
  proof -
    have "holds_pair arm p (ts ! j) \<longleftrightarrow> paired_assignment (of_nat (Suc j)) = (arm, p)"
      using assms(1) that by (auto simp: follows_schedule_def holds_pair_def prod_eq_iff)
    also have "\<dots> \<longleftrightarrow> 1 \<le> unat p \<and> j = i"
      using that assms(2) by (subst scheduled_number) (auto simp: i_def)
    finally show ?thesis .
  qed
  show ?thesis
  proof (cases "1 \<le> unat p \<and> i < length ts")
    case True
    then have "find (holds_pair arm p) ts = Some (ts ! i)"
      by (auto simp: find_Some_iff holds intro!: exI [of _ i])
    moreover have "trial_value (ts ! i) metric = Ok (v i)" using assms(3) True by (simp add: trial_value_Ok)
    ultimately show ?thesis
      using True assms(1) by (simp add: arm_reading_def follows_schedule_def Let_def i_def [symmetric])
  next
    case False
    then have "find (holds_pair arm p) ts = None"
      using holds by (auto simp: find_None_iff in_set_conv_nth)
    with False show ?thesis by (auto simp: arm_reading_def Let_def i_def [symmetric])
  qed
qed

lemma trial_value_is_ok: "is_ok (trial_value t metric) \<longleftrightarrow> (\<exists>v. observes t metric v)"
  unfolding trial_value_Ok [symmetric] by (cases "trial_value t metric") simp_all

lemma distinct_identities:
  assumes "follows_schedule ts" and "length ts < 2 ^ 32"
  shows "distinct (map (\<lambda>t. (it_arm t, it_pair_id t)) ts)"
proof -
  have "i = j" if "i < length ts" "j < length ts"
    "it_arm (ts ! i) = it_arm (ts ! j)" "it_pair_id (ts ! i) = it_pair_id (ts ! j)" for i j
  proof -
    obtain arm p where a: "paired_assignment (of_nat (Suc i)) = (arm, p)" by (metis surj_pair)
    then have "paired_assignment (of_nat (Suc j)) = (arm, p)"
      using that assms(1) by (auto simp: follows_schedule_def prod_eq_iff)
    with a show "i = j"
      using scheduled_number [of i arm p] scheduled_number [of j arm p] that assms(2) by (auto split: if_splits)
  qed
  then show ?thesis by (auto simp: distinct_conv_nth)
qed

lemma scan_nothing_excluded:
  assumes "\<forall>t \<in> set ts. it_arm t \<noteq> None \<and> it_pair_id t \<noteq> None \<and> is_ok (trial_value t metric)"
    and "distinct (map (\<lambda>t. (it_arm t, it_pair_id t)) ts)"
  shows "arm_excluded arm (scan_pairs metric ts) = []"
  using assms
proof (induction ts rule: rev_induct)
  case Nil
  then show ?case by (cases arm) (simp_all add: scan_pairs_def empty_pair_scan_def)
next
  case (snoc t ts)
  then obtain a p v where t: "it_arm t = Some a" "it_pair_id t = Some p" "trial_value t metric = Ok v"
    by (auto simp: is_ok_def split: sum.splits)
  have "find (holds_pair a p) ts = None"
    using snoc.prems(2) t by (force simp: find_None_iff holds_pair_def)
  then have "(a, p) \<notin> ps_seen (scan_pairs metric ts)" by (simp add: scan_pairs_seen)
  with snoc t show ?case by (simp add: scan_pairs_snoc scan_trial_def Let_def)
qed

lemma strict_sorted_eq:
  "sorted_wrt (<) xs \<Longrightarrow> sorted_wrt (<) ys \<Longrightarrow> set xs = set ys \<Longrightarrow> xs = (ys :: 'a::linorder list)"
  by (simp add: strict_sorted_equal)

text \<open>
  On the trials of a complete paired run, numbered, armed and paired as the runner
  assigns them, the join is total: pair \<open>k\<close> joins trials \<open>2 k\<close> (candidate) and
  \<open>2 k - 1\<close> (baseline), in execution order, and nothing is excluded.
\<close>

theorem scheduled_run_joins:
  assumes "follows_schedule (ci_trials input)" and "length (ci_trials input) = 2 * pairs" and "2 * pairs < 2 ^ 32"
    and "\<forall>i < 2 * pairs. observes (ci_trials input ! i) metric (v i)"
  shows "sel_complete (select_pairs input metric) =
      map (\<lambda>k. joined (of_nat k) (of_nat (2 * k), v (2 * k - 1)) (of_nat (2 * k - 1), v (2 * k - 2))) [1..<Suc pairs]
    \<and> sel_excluded_pairs (select_pairs input metric) = []
    \<and> sel_candidate_excluded (select_pairs input metric) = []
    \<and> sel_baseline_excluded (select_pairs input metric) = []"
proof -
  let ?ts = "ci_trials input" and ?st = "scan_pairs metric (ci_trials input)"
  have reading: "arm_reading metric ?ts Candidate p = (if 1 \<le> unat p \<and> unat p \<le> pairs
        then Some (of_nat (2 * unat p), v (2 * unat p - 1)) else None)"
      "arm_reading metric ?ts Baseline p = (if 1 \<le> unat p \<and> unat p \<le> pairs
        then Some (of_nat (2 * unat p - 1), v (2 * unat p - 2)) else None)" for p
    using scheduled_reading [OF assms(1), of metric v _ p] assms(2-4) by (auto simp: Let_def Suc_diff_le)
  have unat: "unat (of_nat k :: u32) = k" if "k \<le> pairs" for k
    using that assms(3) by (simp add: unat_of_nat take_bit_nat_eq_self)
  have ids: "pair_ids_of ?st = map of_nat [1..<Suc pairs]"
  proof (rule strict_sorted_eq)
    show "sorted_wrt (<) (pair_ids_of ?st)" using pair_ids_of by blast
    show "sorted_wrt (<) (map (of_nat :: nat \<Rightarrow> u32) [1..<Suc pairs])"
      unfolding sorted_wrt_map
      by (rule sorted_wrt_mono_rel [OF _ sorted_wrt_upt]) (simp add: word_less_nat_alt unat del: upt_Suc)
    have "(p :: u32) \<in> of_nat ` {1..pairs} \<longleftrightarrow> 1 \<le> unat p \<and> unat p \<le> pairs" for p
      using unat by (auto intro!: image_eqI [of _ _ "unat p"])
    moreover have "(\<exists>arm. arm_reading metric ?ts arm p \<noteq> None) \<longleftrightarrow> 1 \<le> unat p \<and> unat p \<le> pairs" for p
      unfolding some_arm reading by simp
    ultimately show "set (pair_ids_of ?st) = set (map of_nat [1..<Suc pairs])"
      unfolding scan_pairs_ids set_map set_upt atLeastLessThanSuc_atLeastAtMost by (intro set_eqI) simp
  qed
  have total: "\<forall>t \<in> set ?ts. it_arm t \<noteq> None \<and> it_pair_id t \<noteq> None \<and> is_ok (trial_value t metric)"
    unfolding trial_value_is_ok all_set_conv_all_nth using assms(1,2,4) by (metis follows_schedule_def option.distinct(1))
  have "arm_excluded arm ?st = []" for arm
    using total distinct_identities [OF assms(1)] assms(2,3) by (simp add: scan_nothing_excluded)
  from this [of Candidate] this [of Baseline] show ?thesis
    using unat by (auto simp: select_pairs_def Let_def join_pairs_eq scan_pairs_get reading ids)
qed

section \<open>Paired verdicts\<close>

lemma paired_interval_Some:
  "\<exists>low high. paired_bootstrap_interval fp ds BOOTSTRAP_RESAMPLES s = Some (low, high)"
proof -
  have "paired_effects fp ds BOOTSTRAP_RESAMPLES r \<noteq> []" for r
    using paired_effects_length [of fp ds BOOTSTRAP_RESAMPLES r] by (auto simp: BOOTSTRAP_RESAMPLES_def)
  then show ?thesis unfolding paired_bootstrap_interval_def by (metis percentile_interval_None option.exhaust surj_pair)
qed

definition gates_pairs :: "Gate \<Rightarrow> bool" where
  "gates_pairs g \<longleftrightarrow> (case g of Absolute _ \<Rightarrow> False | _ \<Rightarrow> True)"

text \<open>What a gate over pairs needs before it may decide anything.\<close>

definition pairs_eligible :: "MetricRequest \<Rightarrow> ComparisonInput \<Rightarrow> Gate \<Rightarrow> bool" where
  "pairs_eligible r input g \<longleftrightarrow> metric_gate r = Some g \<and> metric_intent r = Primary \<and> gates_pairs g
     \<and> check_metric_semantics r input = Ok () \<and> directed r
     \<and> complete_pairs_domain_valid (sel_complete (select_pairs input (metric_name r)))"

text \<open>The verdict of a relative gate over pairs with the differences \<open>ds\<close> of mean \<open>mean\<close>.\<close>

definition paired_verdict :: "Fpu \<Rightarrow> Gate \<Rightarrow> f64 list \<Rightarrow> f64 \<Rightarrow> u64 \<Rightarrow> GateDisposition option" where
  "paired_verdict fp g ds mean es =
    (case g of
       RelativeRegression a \<Rightarrow>
         (let degradation = fp_sub fp (fp_exp fp mean) f64_one
          in if f64_is_finite degradation then Some (threshold_gate degradation (the (allowance_fraction fp g))) else None)
     | StatisticalRelative a n \<Rightarrow>
         (if length ds < min_observations (count_get n) then None
          else (case paired_bootstrap_interval fp ds BOOTSTRAP_RESAMPLES es of
              None \<Rightarrow> None
            | Some (low, high) \<Rightarrow>
                if f64_is_finite low \<and> f64_is_finite high
                then Some (interval_gate low high (the (allowance_fraction fp g))) else None))
     | Absolute v \<Rightarrow> None)"

lemma length_pair_differences [simp]: "length (pair_differences fp d ps) = length ps"
  by (simp add: pair_differences_def)

lemma gate_pairs_cases:
  assumes "gates_pairs g" and "mc_threshold rec = allowance_fraction fp g" and "mc_disposition rec = None"
    and "ds = pair_differences fp (metric_direction r) ps"
  shows "(gate_pairs fp r g ps es ws rec pm = None \<longleftrightarrow> arithmetic_mean fp ds = None)
    \<and> (gate_pairs fp r g ps es ws rec pm = Some ((rec', pm'), ws') \<longrightarrow> decisive (mc_disposition rec') \<longrightarrow>
         mc_disposition rec' = paired_verdict fp g ds (the (arithmetic_mean fp ds)) es)"
proof (cases g)
  case (Absolute v)
  with assms(1) show ?thesis by (simp add: gates_pairs_def)
next
  case (RelativeRegression a)
  with assms show ?thesis
    by (auto simp: gate_pairs_def Let_def paired_verdict_def allowance_fraction_def dispose_def dispose_with_def
        decisive_def split: option.splits)
next
  case (StatisticalRelative a n)
  obtain low high where "paired_bootstrap_interval fp ds BOOTSTRAP_RESAMPLES es = Some (low, high)"
    using paired_interval_Some by blast
  with StatisticalRelative assms show ?thesis
    by (auto simp: gate_pairs_def conclude_paired_def Let_def paired_verdict_def allowance_fraction_def dispose_with_def
        decisive_def split: option.splits if_splits)
qed

lemma evaluate_paired_cases:
  fixes fp r input
  defines "ps \<equiv> sel_complete (select_pairs input (metric_name r))"
  defines "ds \<equiv> pair_differences fp (metric_direction r) ps"
  shows "(evaluate_paired_metric fp r input es ws = None \<longleftrightarrow> (\<exists>g. pairs_eligible r input g) \<and> arithmetic_mean fp ds = None)
    \<and> (evaluate_paired_metric fp r input es ws = Some ((rec, pm), ws') \<longrightarrow> decisive (mc_disposition rec) \<longrightarrow>
        (\<exists>g. pairs_eligible r input g \<and> mc_disposition rec = paired_verdict fp g ds (the (arithmetic_mean fp ds)) es))"
proof (cases "\<exists>g. pairs_eligible r input g")
  case True
  then obtain g where g: "pairs_eligible r input g" by blast
  define rec0 where "rec0 = fresh_paired fp r (select_pairs input (metric_name r))"
  define pm0 where "pm0 = fresh_paired_record fp r (select_pairs input (metric_name r))"
  have rec0: "mc_threshold rec0 = allowance_fraction fp g" "mc_disposition rec0 = None"
    using g by (simp_all add: rec0_def fresh_paired_def pairs_eligible_def)
  have "evaluate_paired_metric fp r input es ws = gate_pairs fp r g ps es ws rec0 pm0"
    using g by (cases g)
      (simp_all add: evaluate_paired_metric_def Let_def pairs_eligible_def gates_pairs_def ps_def rec0_def pm0_def)
  moreover have "gates_pairs g" using g by (simp add: pairs_eligible_def)
  ultimately show ?thesis
    using gate_pairs_cases [OF _ rec0 refl, where r = r and ps = ps and es = es and ws = ws and pm = pm0
        and rec' = rec and pm' = pm and ws' = ws'] g
    unfolding ds_def by auto
next
  case False
  have "\<exists>rec1 pm1. evaluate_paired_metric fp r input es ws = Some ((rec1, pm1), ws) \<and> \<not> decisive (mc_disposition rec1)"
    using False
    by (auto simp: evaluate_paired_metric_def Let_def pairs_eligible_def gates_pairs_def dispose_with_def decisive_def
        fresh_paired_def split: option.splits sum.splits Gate.splits)
  with False show ?thesis by auto
qed

text \<open>
  C21: A decisive verdict over pairs is earned: the metric is primary with a relative gate, the
  trials describe it coherently, it has a direction and every complete pair has finite,
  strictly positive values in both arms.  The verdict is then exactly the comparison of the
  finite mean effect, or of both finite ends of the bootstrap interval over at least
  \<open>max(5, min_trials)\<close> complete pairs, with the allowance.
\<close>

theorem paired_verdict_earned:
  fixes fp r input
  defines "ps \<equiv> sel_complete (select_pairs input (metric_name r))"
  defines "ds \<equiv> pair_differences fp (metric_direction r) ps"
  assumes "evaluate_paired_metric fp r input es ws = Some ((rec, pm), ws')" and "decisive (mc_disposition rec)"
  shows "\<exists>g mean. pairs_eligible r input g \<and> arithmetic_mean fp ds = Some mean
    \<and> mc_disposition rec = paired_verdict fp g ds mean es"
proof -
  note cases = evaluate_paired_cases [where fp = fp and r = r and input = input and es = es and ws = ws
      and rec = rec and pm = pm and ws' = ws', folded ps_def, folded ds_def]
  obtain g where g: "pairs_eligible r input g" "mc_disposition rec = paired_verdict fp g ds (the (arithmetic_mean fp ds)) es"
    using cases assms(3,4) by blast
  moreover have "arithmetic_mean fp ds \<noteq> None" using cases g(1) assms(3) by auto
  ultimately show ?thesis by auto
qed

section \<open>A concrete paired run\<close>

definition paired_sample :: ComparisonInput where
  "paired_sample = sample_input
     [(sample_trial 1 0x4010000000000000) \<lparr>it_arm := Some Baseline, it_pair_id := Some 1\<rparr>,
      (sample_trial 2 0x4008000000000000) \<lparr>it_arm := Some Candidate, it_pair_id := Some 1\<rparr>]"

definition relative_latency :: MetricRequest where
  "relative_latency = \<lparr>metric_name = Name ''latency'', metric_unit = Name ''ms'', metric_direction = LowerIsBetter,
     metric_intent = Primary, metric_gate = Some (RelativeRegression (BasisPoints 500))\<rparr>"

lemma paired_sample_observes:
  "\<forall>i < 2 * 1. observes (ci_trials paired_sample ! i) (Name ''latency'') (if i = 0 then 0x4010000000000000 else 0x4008000000000000)"
  by (simp add: numeral_2_eq_2 All_less_Suc paired_sample_def sample_input_def observes_def sample_trial_def find_observation_def)

lemma paired_sample_scheduled: "follows_schedule (ci_trials paired_sample)"
  by (simp add: follows_schedule_def paired_sample_def sample_input_def sample_trial_def All_less_Suc
      paired_assignment_def div_ceil2_def)

theorem scheduled_run_joins_witness:
  "sel_complete (select_pairs paired_sample (Name ''latency'')) = [joined 1 (2, 0x4008000000000000) (1, 0x4010000000000000)]"
proof -
  have "length (ci_trials paired_sample) = 2 * 1" by (simp add: paired_sample_def sample_input_def)
  from scheduled_run_joins [OF paired_sample_scheduled this _ paired_sample_observes] show ?thesis by simp
qed

lemma paired_sample_complete:
  "sel_complete (select_pairs paired_sample (Name ''latency'')) = [joined 1 (2, 0x4008000000000000) (1, 0x4010000000000000)]"
  by (simp add: select_pairs_def paired_sample_def sample_input_def scan_pairs_def scan_trial_def empty_pair_scan_def
      sample_trial_def trial_value_def find_observation_def exclude_arm.simps observe_arm.simps pair_ids_of_def
      bs_extend_def bs_insert_def bs_elems_def bt_get_def joined_def)

theorem paired_verdict_earned_witness:
  "\<exists>rec pm ws. evaluate_paired_metric first_fpu relative_latency paired_sample 0 [] = Some ((rec, pm), ws)
    \<and> mc_disposition rec = paired_verdict first_fpu (RelativeRegression (BasisPoints 500)) [0x4008000000000000] 0x4008000000000000 0"
proof -
  have semantics: "check_metric_semantics relative_latency paired_sample = Ok ()"
    by (simp add: check_metric_semantics_def paired_sample_def sample_input_def sample_trial_def relative_latency_def
        find_observation_def)
  have finite: "f64_is_finite 0x4010000000000000" "f64_lt f64_zero 0x4010000000000000" "f64_lt f64_zero 0x4008000000000000"
    by (simp_all add: f64_is_finite_def f64_magnitude_def f64_lt_def f64_zero_def f64_is_nan_def f64_rank_def f64_negative_def)
  have el: "pairs_eligible relative_latency paired_sample (RelativeRegression (BasisPoints 500))"
    using semantics
    by (simp add: pairs_eligible_def relative_latency_def gates_pairs_def directed_def paired_sample_complete
        complete_pairs_domain_valid_def joined_def three_finite finite)
  have diffs: "pair_differences first_fpu LowerIsBetter (sel_complete (select_pairs paired_sample (Name ''latency'')))
      = [0x4008000000000000]"
    by (simp add: paired_sample_complete pair_differences_def oriented_log_difference_def joined_def first_fpu_def)
  then have mean: "arithmetic_mean first_fpu (pair_differences first_fpu LowerIsBetter
      (sel_complete (select_pairs paired_sample (Name ''latency'')))) = Some 0x4008000000000000"
    by (simp add: arithmetic_mean_def finite_or_none_def three_finite) (simp add: first_fpu_def three_finite)
  have "\<exists>rec pm. evaluate_paired_metric first_fpu relative_latency paired_sample 0 [] = Some ((rec, pm), [])
      \<and> decisive (mc_disposition rec)"
    using el mean semantics gate_results(1)
    by (simp add: evaluate_paired_metric_def pairs_eligible_def relative_latency_def Let_def gate_pairs_def
        fresh_paired_def allowance_fraction_def first_fpu_def three_finite dispose_def decisive_def) blast
  then obtain rec pm where e: "evaluate_paired_metric first_fpu relative_latency paired_sample 0 [] = Some ((rec, pm), [])"
    and d: "decisive (mc_disposition rec)" by blast
  from paired_verdict_earned [OF e d] show ?thesis
    using e mean el diffs by (auto simp: relative_latency_def pairs_eligible_def)
qed

end
