(* ===== verification/Comparability.thy ===== *)
theory Comparability
  imports DebugText Paired
begin

text \<open>
  Comparability of two inputs, \<open>evaluate_comparability\<close> of \<open>eggbench-core/src/comparison.rs\<close>
  with the summaries it compares: testbed fields, workload, drivers and topology.

  The record \<open>Ambient\<close> collects what is outside the repository: the Unicode table behind
  \<open>Debug\<close> of strings and the SHA-256 digests of JSON renderings.  A digest of a route whose
  serialisation is refused panics in the source; the summary is \<open>None\<close> then.
\<close>

section \<open>Summaries\<close>

record Ambient =
  am_printable :: "nat \<Rightarrow> bool"
  am_headers_digest :: "(string \<times> string) list \<Rightarrow> string"
  am_route_digest :: "Name \<Rightarrow> (string \<times> string) list \<Rightarrow> string"
  am_faults_digest :: "StreamFaultPlanRequest \<Rightarrow> string"

definition termination_summary :: "u32 option \<Rightarrow> u64 option \<Rightarrow> string" where
  "termination_summary requests duration_ms =
    (case (requests, duration_ms) of
       (Some n, None) \<Rightarrow> ''requests='' @ show_u32 n
     | (None, Some ms) \<Rightarrow> ''duration_ms='' @ show_u64 ms
     | _ \<Rightarrow> ''invalid-termination=('' @ debug_option show_u32 requests @ '', ''
              @ debug_option show_u64 duration_ms @ '')'')"

fun workload_summary :: "Ambient \<Rightarrow> Workload \<Rightarrow> string" where
  "workload_summary am (ClosedLoop t c r d) =
     ''closed_loop target='' @ as_str t @ '' concurrency='' @ show_u32 (count_get c)
       @ '' termination='' @ termination_summary (map_option count_get r) (map_option duration_get d)"
| "workload_summary am (OpenLoop t x r d) =
     ''open_loop target='' @ as_str t @ '' rate_milli_rps='' @ show_u64 (rate_get x)
       @ '' termination='' @ termination_summary (map_option count_get r) (map_option duration_get d)"
| "workload_summary am (FiniteCount t r c) =
     ''finite_count target='' @ as_str t @ '' requests='' @ show_u32 (count_get r)
       @ '' concurrency='' @ show_u32 (count_get c)"
| "workload_summary am (TimeBounded t d m c r) =
     ''time_bounded target='' @ as_str t @ '' duration_ms='' @ show_u64 (duration_get d)
       @ '' mode='' @ debug_load_mode m @ '' concurrency='' @ debug_option show_u32 (map_option count_get c)
       @ '' rate='' @ debug_option show_u64 (map_option rate_get r)"
| "workload_summary am (SemanticReplay t f) = ''semantic_replay target='' @ as_str t"
| "workload_summary am (HttpCorpus t cr sha sch c p h) =
     ''http_corpus target='' @ as_str t @ '' corpus_sha256='' @ sha
       @ '' schedule='' @ debug_list (debug_schedule_entry (am_printable am)) sch
       @ '' concurrency='' @ show_u32 (count_get c) @ '' connection_policy='' @ debug_connection_policy p
       @ '' default_headers_sha256='' @ am_headers_digest am h"

definition semantic_replay_summary :: "ComparisonInput \<Rightarrow> string" where
  "semantic_replay_summary input =
    (if \<not> is_semantic_replay (rp_workload (ci_resolved input)) then ''absent''
     else (case ci_semantic_replay_evidence input of
         None \<Rightarrow> ''missing-evidence''
       | Some e \<Rightarrow> ''digest='' @ sr_fixture_digest e @ '' session='' @ show_u32 (sr_fixture_session_schema e)
           @ '' envelope='' @ show_u32 (sr_envelope_schema e) @ '' report='' @ show_u32 (sr_report_schema e)
           @ '' tool='' @ sr_executable_version e @ '':'' @ sr_executable_sha256 e))"

definition diagnostics_summary :: "ComparisonInput \<Rightarrow> string" where
  "diagnostics_summary input =
    (if rp_diagnostics (ci_resolved input) = [] then ''absent''
     else (case ci_diagnostics_evidence input of
         None \<Rightarrow> ''missing-evidence''
       | Some e \<Rightarrow> ''requests=['' @ join_str '' | '' (de_requests e) @ ''] tool='' @ de_executable_version e
           @ '':'' @ de_executable_sha256 e @ '' schema='' @ de_machine_schema e))"

definition waf_part :: "ComparisonInput \<Rightarrow> string" where
  "waf_part input = ''waf '' @
    (case ci_security_evidence input of
       None \<Rightarrow> ''missing-evidence''
     | Some e \<Rightarrow> ''checks=['' @ join_str '' | '' (se_checks e) @ ''] tool='' @ se_executable_version e
         @ '':'' @ se_executable_sha256 e @ '' scope='' @ se_scope_sha256 e
         @ '' adapter='' @ se_adapter_semantic_version e)"

definition corpus_check_text :: "HttpCorpusCheckRequest \<Rightarrow> string" where
  "corpus_check_text c = as_str (corpus_id c) @ '':'' @ as_str (corpus_target c) @ '':'' @ check_corpus_sha256 c
     @ '':'' @ show_u64 (duration_get (corpus_timeout_ms c)) @ '':'' @ show_u64 (duration_get (case_timeout_ms c))"

definition corpus_part :: "ComparisonInput \<Rightarrow> string" where
  "corpus_part input =
    (let records = (case ci_security_records input of None \<Rightarrow> [] | Some rs \<Rightarrow> rs)
     in ''http-corpus checks=['' @ join_str '' | '' (map corpus_check_text (rp_http_corpus_checks (ci_resolved input)))
        @ ''] producers=['' @ join_str '' | '' (map (\<lambda>r. cc_producer_version r @ '':'' @ cc_producer_sha256 r)
             (filter (\<lambda>r. as_str (cc_family r) = SECURITY_CORRECTNESS_FAMILY_HTTP_OBSERVABLE) records)) @ '']'')"

definition security_summary :: "ComparisonInput \<Rightarrow> string" where
  "security_summary input =
    (let waf = rp_security_checks (ci_resolved input); corpus = rp_http_corpus_checks (ci_resolved input)
     in if waf = [] \<and> corpus = [] then ''absent''
        else join_str ''; '' ((if waf \<noteq> [] then [waf_part input] else [])
               @ (if corpus \<noteq> [] then [corpus_part input] else [])))"

definition descriptor_summary :: "Ambient \<Rightarrow> DriverDescriptor \<Rightarrow> string" where
  "descriptor_summary am d =
    ''name='' @ as_str (drv_name d) @ '' adapter='' @ adapter_version d @ '' upstream='' @ upstream_name d
      @ '':'' @ debug_option (debug_str (am_printable am)) (upstream_version d) @ '' capabilities=[''
      @ join_str '','' (sort (map (debug_capability (am_printable am)) (bs_elems (drv_capabilities d)))) @ '']''"

definition route_stable_digest :: "Ambient \<Rightarrow> RouteRequest \<Rightarrow> string option" where
  "route_stable_digest am r =
    (case serialize_route_mode (route_mode r) of
       Err _ \<Rightarrow> None
     | Ok entries \<Rightarrow> Some (am_route_digest am (route_driver r) entries))"

definition faults_summary :: "Ambient \<Rightarrow> u64 option \<Rightarrow> ResolvedStreamFaults option \<Rightarrow> string" where
  "faults_summary am plan_seed faults =
    (case faults of
       None \<Rightarrow> ''absent''
     | Some fs \<Rightarrow>
         (let active = faults_upstream (rsf_request fs) \<noteq> [] \<or> faults_downstream (rsf_request fs) \<noteq> [];
              s = (if active then (case plan_seed of None \<Rightarrow> 0 | Some v \<Rightarrow> v) else 0)
          in ''request='' @ am_faults_digest am (rsf_request fs)
             @ '' driver='' @ descriptor_summary am (descriptor (rsf_fault_driver fs))
             @ '' rng='' @ rsf_rng_version fs @ '' seed='' @ show_u64 s))"

definition network_path_summary :: "Ambient \<Rightarrow> ComparisonInput \<Rightarrow> string option" where
  "network_path_summary am input =
    (case rp_network_path (ci_resolved input) of
       None \<Rightarrow> Some ''absent''
     | Some path \<Rightarrow>
         (let evidence = ci_network_path_evidence input;
              digest = (case evidence of None \<Rightarrow> None | Some e \<Rightarrow> ne_chain_config_digest e)
          in case (case digest of Some d \<Rightarrow> Some d | None \<Rightarrow> route_stable_digest am (rnp_route path)) of
               None \<Rightarrow> None
             | Some route \<Rightarrow> Some (''route='' @ route
                 @ '' route_driver='' @ descriptor_summary am (descriptor (rnp_route_driver path))
                 @ '' eggress_uri='' @ (case evidence of None \<Rightarrow> ''unverified'' | Some e \<Rightarrow> ne_eggress_uri_version e)
                 @ '' semantics='' @ rnp_semantics_version path
                 @ '' faults='' @ faults_summary am (rp_seed (ci_resolved input)) (rnp_stream_faults path))))"

fun subject_summary :: "Subject \<Rightarrow> string" where
  "subject_summary (ManagedCommand _ _ _ _) = ''managed_command''"
| "subject_summary (External t _ _) = ''external target='' @ as_str t"
| "subject_summary (Label l) = ''label '' @ as_str l"

fun subject_revision :: "Subject \<Rightarrow> string option" where
  "subject_revision (External _ revision _) = revision"
| "subject_revision _ = None"

fun subject_digest :: "Subject \<Rightarrow> string option" where
  "subject_digest (External _ _ digest) = digest"
| "subject_digest _ = None"

section \<open>Comparisons\<close>

type_synonym dimension = "bool \<times> string"

text \<open>Two summaries match when they are equal.\<close>

definition compare_summary :: "string \<Rightarrow> string \<Rightarrow> string \<Rightarrow> string \<Rightarrow> dimension" where
  "compare_summary same differ left right =
    (if left = right then (True, same @ '' ('' @ left @ '')'')
     else (False, differ @ '': candidate '' @ left @ '' vs baseline '' @ right))"

definition compare_semantic_replay :: "ComparisonInput \<Rightarrow> ComparisonInput \<Rightarrow> dimension" where
  "compare_semantic_replay candidate baseline =
    (if \<not> is_semantic_replay (rp_workload (ci_resolved candidate))
        \<and> \<not> is_semantic_replay (rp_workload (ci_resolved baseline))
     then (True, ''semantic replay absent on both sides'')
     else compare_summary ''semantic replay semantics match'' ''semantic replay differs''
            (semantic_replay_summary candidate) (semantic_replay_summary baseline))"

definition compare_workload :: "Ambient \<Rightarrow> ComparisonInput \<Rightarrow> ComparisonInput \<Rightarrow> dimension" where
  "compare_workload am candidate baseline =
    (let left = workload_summary am (rp_workload (ci_resolved candidate));
         right = workload_summary am (rp_workload (ci_resolved baseline))
     in if left \<noteq> right
        then (False, ''workload semantics differ: candidate '' @ left @ '' vs baseline '' @ right)
        else (case compare_semantic_replay candidate baseline of
            (replay_match, replay_detail) \<Rightarrow>
              if \<not> replay_match
              then (False, ''workload semantics match ('' @ left @ ''); '' @ replay_detail)
              else if contains_str ''semantic_replay'' left
              then (True, ''workload semantics match ('' @ left @ ''); '' @ replay_detail)
              else (True, ''workload semantics match ('' @ left @ '')'')))"

definition compare_diagnostics :: "ComparisonInput \<Rightarrow> ComparisonInput \<Rightarrow> dimension" where
  "compare_diagnostics candidate baseline =
    compare_summary ''diagnostics match'' ''diagnostics differ'' (diagnostics_summary candidate) (diagnostics_summary baseline)"

definition compare_security :: "ComparisonInput \<Rightarrow> ComparisonInput \<Rightarrow> dimension" where
  "compare_security candidate baseline =
    compare_summary ''security checks match'' ''security checks differ'' (security_summary candidate) (security_summary baseline)"

definition compare_workload_driver :: "Ambient \<Rightarrow> ResolvedPlan \<Rightarrow> ResolvedPlan \<Rightarrow> dimension" where
  "compare_workload_driver am candidate baseline =
    (case (bt_get (rp_drivers candidate) CatWorkload, bt_get (rp_drivers baseline) CatWorkload) of
       (None, None) \<Rightarrow> (True, ''no workload driver on either side'')
     | (Some left, Some right) \<Rightarrow>
         compare_summary ''workload driver semantics match'' ''workload driver differs''
           (descriptor_summary am (descriptor left)) (descriptor_summary am (descriptor right))
     | _ \<Rightarrow> (False, ''workload driver present on one side only''))"

definition compare_network_path :: "Ambient \<Rightarrow> ComparisonInput \<Rightarrow> ComparisonInput \<Rightarrow> dimension option" where
  "compare_network_path am candidate baseline =
    (case (network_path_summary am candidate, network_path_summary am baseline) of
       (Some left, Some right) \<Rightarrow>
         Some (compare_summary ''network path semantics match'' ''network path differs'' left right)
     | _ \<Rightarrow> None)"

definition compare_driver :: "Ambient \<Rightarrow> ComparisonInput \<Rightarrow> ComparisonInput \<Rightarrow> dimension option" where
  "compare_driver am candidate baseline =
    (case (compare_workload_driver am (ci_resolved candidate) (ci_resolved baseline),
           compare_diagnostics candidate baseline, compare_security candidate baseline) of
       ((wm, wd), (dm, dd), (sm, sd)) \<Rightarrow>
         if rp_network_path (ci_resolved candidate) = None \<and> rp_network_path (ci_resolved baseline) = None
         then Some (wm \<and> dm \<and> sm, wd @ ''; '' @ dd @ ''; '' @ sd)
         else (case compare_network_path am candidate baseline of
             None \<Rightarrow> None
           | Some (pm, pd) \<Rightarrow>
               Some (wm \<and> pm \<and> dm \<and> sm, wd @ ''; '' @ pd @ ''; '' @ dd @ ''; '' @ sd)))"

definition compare_topology :: "ResolvedPlan \<Rightarrow> ResolvedPlan \<Rightarrow> dimension" where
  "compare_topology candidate baseline =
    (if rp_topology candidate \<noteq> rp_topology baseline
     then (False, ''service topology differs ('' @ show_dec (length (rp_topology candidate)) @ '' vs ''
             @ show_dec (length (rp_topology baseline)) @ '' services)'')
     else (let left = subject_summary (rp_subject candidate); right = subject_summary (rp_subject baseline)
           in if left = right then (True, ''service topology and subject kind match'')
              else (False, ''subject kind differs: candidate '' @ left @ '' vs baseline '' @ right)))"

section \<open>The report\<close>

text \<open>
  The outcome of one field, or \<open>None\<close> when it is not reported (an informational difference).
  The class is the one the candidate recorded, the baseline's only when the candidate lacks
  the field.
\<close>

definition field_outcome :: "EnvironmentField option \<Rightarrow> EnvironmentField option \<Rightarrow> FieldOutcome option" where
  "field_outcome c b =
    (let cls = (case c of Some e \<Rightarrow> Some (env_class e) | None \<Rightarrow> map_option env_class b);
         mismatch = (\<lambda>critical. case cls of
             Some WarningOnly \<Rightarrow> Some WarningMismatch
           | Some InformationalField \<Rightarrow> None
           | _ \<Rightarrow> Some critical)
     in case (c, b) of
          (Some left, Some right) \<Rightarrow> if env_value left = env_value right then Some FieldEqual else mismatch FieldUnequal
        | (None, Some _) \<Rightarrow> mismatch MissingCandidate
        | (Some _, None) \<Rightarrow> mismatch MissingBaseline
        | (None, None) \<Rightarrow> None)"

definition critical_outcome :: "FieldOutcome \<Rightarrow> bool" where
  "critical_outcome f \<longleftrightarrow> f \<in> {FieldUnequal, MissingCandidate, MissingBaseline}"

fun compare_fields ::
  "(Name, EnvironmentField) BTreeMap \<Rightarrow> (Name, EnvironmentField) BTreeMap \<Rightarrow> Name list \<Rightarrow> FieldComparison list \<times> bool" where
  "compare_fields cf bf [] = ([], False)"
| "compare_fields cf bf (n # ns) =
    (case compare_fields cf bf ns of
       (testbed, critical) \<Rightarrow>
         (case field_outcome (bt_get cf n) (bt_get bf n) of
            None \<Rightarrow> (testbed, critical)
          | Some f \<Rightarrow>
              (\<lparr>fc_field = as_str n, fc_candidate = map_option env_value (bt_get cf n),
                 fc_baseline = map_option env_value (bt_get bf n), fc_outcome = f\<rparr> # testbed,
               critical_outcome f \<or> critical)))"

definition evaluate_comparability :: "Ambient \<Rightarrow> ComparisonInput \<Rightarrow> ComparisonInput \<Rightarrow> ComparabilityReport option" where
  "evaluate_comparability am candidate baseline =
    (let cf = fp_fields (ci_environment candidate); bf = fp_fields (ci_environment baseline);
         names = bs_elems (bs_extend (map fst bf) (bs_extend (map fst cf) []))
     in case (compare_fields cf bf names, compare_workload am candidate baseline,
              compare_topology (ci_resolved candidate) (ci_resolved baseline)) of
          ((testbed, critical), (wm, wd), (tm, td)) \<Rightarrow>
            (case compare_driver am candidate baseline of
               None \<Rightarrow> None
             | Some (dm, dd) \<Rightarrow>
                 Some \<lparr>cr_testbed = testbed, cr_workload_match = wm, cr_workload_detail = wd,
                       cr_driver_match = dm, cr_driver_detail = dd, cr_topology_match = tm,
                       cr_topology_detail = td,
                       cr_critical_mismatch = (critical \<or> \<not> wm \<or> \<not> dm \<or> \<not> tm)\<rparr>))"

section \<open>The workload summary is faithful\<close>

text \<open>What plan validation grants a looping workload: one of the two ends.\<close>

fun one_end :: "Workload \<Rightarrow> bool" where
  "one_end (ClosedLoop t c r d) \<longleftrightarrow> (r = None) \<noteq> (d = None)"
| "one_end (OpenLoop t x r d) \<longleftrightarrow> (r = None) \<noteq> (d = None)"
| "one_end _ \<longleftrightarrow> True"

text \<open>Equality of workloads up to the local path of a replayed fixture.\<close>

fun same_workload :: "Workload \<Rightarrow> Workload \<Rightarrow> bool" where
  "same_workload (SemanticReplay t f) (SemanticReplay u g) \<longleftrightarrow> t = u"
| "same_workload v w \<longleftrightarrow> v = w"

fun summary_fields :: "Workload \<Rightarrow> string list" where
  "summary_fields (ClosedLoop t c r d) = [''concurrency='' @ show_u32 (count_get c),
     ''termination='' @ termination_summary (map_option count_get r) (map_option duration_get d)]"
| "summary_fields (OpenLoop t x r d) = [''rate_milli_rps='' @ show_u64 (rate_get x),
     ''termination='' @ termination_summary (map_option count_get r) (map_option duration_get d)]"
| "summary_fields (FiniteCount t r c) = [''requests='' @ show_u32 (count_get r),
     ''concurrency='' @ show_u32 (count_get c)]"
| "summary_fields (TimeBounded t d m c r) = [''duration_ms='' @ show_u64 (duration_get d),
     ''mode='' @ debug_load_mode m, ''concurrency='' @ debug_option show_u32 (map_option count_get c),
     ''rate='' @ debug_option show_u64 (map_option rate_get r)]"
| "summary_fields _ = []"

fun summary_kind :: "Workload \<Rightarrow> string" where
  "summary_kind (ClosedLoop t c r d) = ''closed_loop target=''"
| "summary_kind (OpenLoop t x r d) = ''open_loop target=''"
| "summary_kind (FiniteCount t r c) = ''finite_count target=''"
| "summary_kind (TimeBounded t d m c r) = ''time_bounded target=''"
| "summary_kind (SemanticReplay t f) = ''semantic_replay target=''"
| "summary_kind (HttpCorpus t cr sha sch c p h) = ''http_corpus target=''"

lemma summary_parts:
  "\<not> is_http_corpus w \<Longrightarrow>
    workload_summary am w = summary_kind w @ with_fields (as_str (workload_target w)) (summary_fields w)"
  by (cases w) (simp_all add: with_fields_def)

lemma termination_plain: "(r = None) \<noteq> (d = None) \<Longrightarrow> plain_field (termination_summary r d)"
  by (auto simp: termination_summary_def)

lemma termination_inject:
  "(r = None) \<noteq> (d = None) \<Longrightarrow> (r' = None) \<noteq> (d' = None) \<Longrightarrow>
    termination_summary r d = termination_summary r' d' \<longleftrightarrow> r = r' \<and> d = d'"
  by (auto simp: termination_summary_def)

lemma summary_fields_plain: "one_end w \<Longrightarrow> list_all plain_field (summary_fields w)"
proof (cases w)
  case (TimeBounded t d m c r)
  then show ?thesis by (cases m) simp_all
qed (auto simp: termination_plain)

lemma map_get_inject [simp]:
  "map_option count_get a = map_option count_get b \<longleftrightarrow> a = b"
  "map_option duration_get d = map_option duration_get e \<longleftrightarrow> d = e"
  "map_option rate_get x = map_option rate_get y \<longleftrightarrow> x = y"
  by (auto simp: PositiveCount.expand DurationMs.expand RateMilliRps.expand intro: option.expand elim!: option.inj_map_strong [rotated])

lemma summary_fields_inject:
  assumes "one_end v" and "one_end w" and "summary_kind v = summary_kind w"
    and "\<not> is_http_corpus v" and "workload_target v = workload_target w"
  shows "summary_fields v = summary_fields w \<longleftrightarrow> same_workload v w"
proof (cases v)
  case (TimeBounded t d m c r)
  with assms obtain d' m' c' r' where "w = TimeBounded t d' m' c' r'" by (cases w) auto
  with TimeBounded show ?thesis
    by (cases m; cases m') (auto simp: debug_option_inject DurationMs.expand)
qed (use assms in \<open>cases w; auto simp: termination_inject PositiveCount.expand RateMilliRps.expand\<close>)+

lemma valid_one_end: "validate_workload w = Ok () \<Longrightarrow> one_end w"
  by (cases w) (auto simp: ok_simps)

lemma summary_kind_differs:
  "summary_kind v \<noteq> summary_kind w \<Longrightarrow> workload_summary am v \<noteq> workload_summary am w"
  by (cases v; cases w) simp_all

lemma summary_kind_same:
  "summary_kind v = summary_kind w \<Longrightarrow> length (summary_fields v) = length (summary_fields w)
    \<and> is_http_corpus v = is_http_corpus w \<and> is_semantic_replay v = is_semantic_replay w"
  by (cases v; cases w) simp_all

lemma same_workload_parts: "same_workload v w \<Longrightarrow> summary_kind v = summary_kind w \<and> workload_target v = workload_target w"
  by (cases v; cases w) simp_all

text \<open>
  For workloads that plan validation accepts, the text that the comparison compares is
  faithful: two summaries are equal exactly when the workloads have the same kind, target and
  load parameters.  Only the local path of a replayed fixture does not matter.  (A corpus
  workload is identified through two digests and is left out.)
\<close>

theorem workload_summary_exact:
  assumes "validate_workload v = Ok ()" and "validate_workload w = Ok ()" and "\<not> is_http_corpus v"
  shows "workload_summary am v = workload_summary am w \<longleftrightarrow> same_workload v w"
proof (cases "summary_kind v = summary_kind w")
  case False
  then show ?thesis using summary_kind_differs same_workload_parts by blast
next
  case True
  note same = summary_kind_same [OF True]
  have ends: "one_end v" "one_end w" using assms by (simp_all add: valid_one_end)
  have "workload_summary am v = workload_summary am w \<longleftrightarrow>
      as_str (workload_target v) = as_str (workload_target w) \<and> summary_fields v = summary_fields w"
    using same assms(3) True ends
    by (simp add: summary_parts with_fields_inject summary_fields_plain)
  also have "\<dots> \<longleftrightarrow> same_workload v w"
    using summary_fields_inject [OF ends True assms(3)] same_workload_parts [of v w]
    by (metis Name.expand)
  finally show ?thesis .
qed

definition plain_ambient :: Ambient where
  "plain_ambient = \<lparr>am_printable = (\<lambda>_. True), am_headers_digest = (\<lambda>_. ''00''),
     am_route_digest = (\<lambda>_ _. ''00''), am_faults_digest = (\<lambda>_. ''00'')\<rparr>"

theorem workload_summary_exact_witness:
  "workload_summary plain_ambient (ClosedLoop (Name ''web concurrency=1'') (PositiveCount 2) (Some (PositiveCount 5)) None)
    \<noteq> workload_summary plain_ambient (ClosedLoop (Name ''web'') (PositiveCount 1) (Some (PositiveCount 5)) None)"
  using workload_summary_exact [of "ClosedLoop (Name ''web concurrency=1'') (PositiveCount 2) (Some (PositiveCount 5)) None"
      "ClosedLoop (Name ''web'') (PositiveCount 1) (Some (PositiveCount 5)) None" plain_ambient]
  by (simp add: reject_if_def)

section \<open>What the report says\<close>

lemma compare_fields_report:
  "compare_fields cf bf ns = (testbed, critical) \<Longrightarrow>
     (critical \<longleftrightarrow> (\<exists>n \<in> set ns. \<exists>f. field_outcome (bt_get cf n) (bt_get bf n) = Some f \<and> critical_outcome f))
     \<and> map (\<lambda>e. (fc_field e, fc_outcome e)) testbed
       = List.map_filter (\<lambda>n. map_option (Pair (as_str n)) (field_outcome (bt_get cf n) (bt_get bf n))) ns"
proof (induction ns arbitrary: testbed critical)
  case Nil
  then show ?case by (simp add: List.map_filter_def)
next
  case (Cons n ns)
  then show ?case
    by (cases "compare_fields cf bf ns")
      (auto simp: List.map_filter_simps split: option.splits)
qed

definition all_fields :: "ComparisonInput \<Rightarrow> ComparisonInput \<Rightarrow> Name list" where
  "all_fields c b = bs_elems (bs_extend (map fst (fp_fields (ci_environment b)))
     (bs_extend (map fst (fp_fields (ci_environment c))) []))"

lemma all_fields_set:
  "set (all_fields c b) = dom (bt_get (fp_fields (ci_environment c))) \<union> dom (bt_get (fp_fields (ci_environment b)))"
  using bs_extend_ok [of "[]" "map fst (fp_fields (ci_environment c))"]
    bs_extend_ok [of "bs_extend (map fst (fp_fields (ci_environment c))) []" "map fst (fp_fields (ci_environment b))"]
  by (simp add: all_fields_def bs_elems_def bt_keys dom_def)

definition field_of :: "ComparisonInput \<Rightarrow> Name \<Rightarrow> EnvironmentField option" where
  "field_of x n = bt_get (fp_fields (ci_environment x)) n"

text \<open>The fields by which two inputs may not be compared.\<close>

definition critical_difference :: "ComparisonInput \<Rightarrow> ComparisonInput \<Rightarrow> Name \<Rightarrow> bool" where
  "critical_difference c b n \<longleftrightarrow>
     map_option env_value (field_of c n) \<noteq> map_option env_value (field_of b n)
     \<and> (case field_of c n of Some e \<Rightarrow> env_class e | None \<Rightarrow> env_class (the (field_of b n))) = ComparisonCritical"

lemma critical_field:
  "(\<exists>f. field_outcome (field_of c n) (field_of b n) = Some f \<and> critical_outcome f) \<longleftrightarrow> critical_difference c b n"
  by (cases "field_of c n"; cases "field_of b n"; cases "env_class (the (field_of c n))"; cases "env_class (the (field_of b n))")
    (auto simp: field_outcome_def critical_outcome_def critical_difference_def)

lemma evaluate_comparability_Some:
  assumes "evaluate_comparability am c b = Some rep"
  shows "(cr_critical_mismatch rep \<longleftrightarrow> (\<exists>n. critical_difference c b n) \<or> \<not> cr_workload_match rep
      \<or> \<not> cr_driver_match rep \<or> \<not> cr_topology_match rep)
    \<and> map (\<lambda>e. (fc_field e, fc_outcome e)) (cr_testbed rep)
       = List.map_filter (\<lambda>n. map_option (Pair (as_str n)) (field_outcome (field_of c n) (field_of b n))) (all_fields c b)
    \<and> cr_workload_match rep = fst (compare_workload am c b)
    \<and> Some (cr_driver_match rep) = map_option fst (compare_driver am c b)
    \<and> cr_topology_match rep = fst (compare_topology (ci_resolved c) (ci_resolved b))"
proof -
  obtain testbed critical where f: "compare_fields (fp_fields (ci_environment c)) (fp_fields (ci_environment b))
      (all_fields c b) = (testbed, critical)" by (metis surj_pair)
  have "n \<in> set (all_fields c b)" if "critical_difference c b n" for n
    using that unfolding all_fields_set by (auto simp: critical_difference_def field_of_def)
  then have "critical \<longleftrightarrow> (\<exists>n. critical_difference c b n)"
    using compare_fields_report [OF f] critical_field by (auto simp: field_of_def)
  with assms compare_fields_report [OF f] show ?thesis
    by (auto simp: evaluate_comparability_def all_fields_def [symmetric] f field_of_def Let_def
        split: prod.splits option.splits)
qed

lemma evaluate_comparability_None: "evaluate_comparability am c b = None \<longleftrightarrow> compare_driver am c b = None"
  by (auto simp: evaluate_comparability_def Let_def split: prod.splits option.splits)

definition workload_driver_text :: "Ambient \<Rightarrow> ComparisonInput \<Rightarrow> string option" where
  "workload_driver_text am x =
    map_option (\<lambda>rd. descriptor_summary am (descriptor rd)) (bt_get (rp_drivers (ci_resolved x)) CatWorkload)"

lemma fst_compare_summary [simp]: "fst (compare_summary a d l r) \<longleftrightarrow> l = r"
  by (simp add: compare_summary_def)

lemma fst_compare_workload:
  "fst (compare_workload am c b) \<longleftrightarrow>
     workload_summary am (rp_workload (ci_resolved c)) = workload_summary am (rp_workload (ci_resolved b))
     \<and> semantic_replay_summary c = semantic_replay_summary b"
proof -
  have "fst (compare_semantic_replay c b) \<longleftrightarrow> semantic_replay_summary c = semantic_replay_summary b"
    by (simp add: compare_semantic_replay_def) (simp add: semantic_replay_summary_def)
  then show ?thesis by (auto simp: compare_workload_def Let_def split: prod.splits)
qed

lemma fst_compare_workload_driver:
  "fst (compare_workload_driver am (ci_resolved c) (ci_resolved b)) \<longleftrightarrow>
     workload_driver_text am c = workload_driver_text am b"
  by (auto simp: compare_workload_driver_def workload_driver_text_def split: option.splits)

lemma compare_driver_cases:
  "compare_driver am c b = None \<longleftrightarrow> network_path_summary am c = None \<or> network_path_summary am b = None"
  "compare_driver am c b = Some d \<Longrightarrow> fst d \<longleftrightarrow> workload_driver_text am c = workload_driver_text am b
     \<and> diagnostics_summary c = diagnostics_summary b \<and> security_summary c = security_summary b
     \<and> network_path_summary am c = network_path_summary am b"
proof -
  obtain wm wd where w: "compare_workload_driver am (ci_resolved c) (ci_resolved b) = (wm, wd)" by (metis surj_pair)
  have wm: "wm \<longleftrightarrow> workload_driver_text am c = workload_driver_text am b"
    using fst_compare_workload_driver [of am c b] w by simp
  show "compare_driver am c b = None \<longleftrightarrow> network_path_summary am c = None \<or> network_path_summary am b = None"
    by (auto simp: compare_driver_def compare_network_path_def network_path_summary_def
        split: prod.splits option.splits)
  show "compare_driver am c b = Some d \<Longrightarrow> fst d \<longleftrightarrow> workload_driver_text am c = workload_driver_text am b
     \<and> diagnostics_summary c = diagnostics_summary b \<and> security_summary c = security_summary b
     \<and> network_path_summary am c = network_path_summary am b"
    unfolding wm [symmetric]
    by (auto simp: compare_driver_def compare_network_path_def compare_diagnostics_def compare_security_def
        compare_summary_def w network_path_summary_def split: prod.splits option.splits if_splits)
qed

lemma fst_compare_topology:
  "fst (compare_topology rc rb) \<longleftrightarrow> rp_topology rc = rp_topology rb
     \<and> subject_summary (rp_subject rc) = subject_summary (rp_subject rb)"
  by (simp add: compare_topology_def Let_def)

text \<open>
  C22: A report has a critical mismatch exactly when the two inputs differ in something that
  makes them incomparable: the value or presence of a testbed field that is
  comparison-critical, the workload summary, the replay evidence, the workload driver, the
  diagnostics or security configuration, the network path, the service topology or the kind
  of the subject.  The class of a field is the one the candidate recorded.  The testbed lists,
  in name order, every field of either side except informational differences.
\<close>

theorem critical_mismatch_iff:
  assumes "evaluate_comparability am c b = Some rep"
  shows "(cr_critical_mismatch rep \<longleftrightarrow> (\<exists>n. critical_difference c b n)
      \<or> workload_summary am (rp_workload (ci_resolved c)) \<noteq> workload_summary am (rp_workload (ci_resolved b))
      \<or> semantic_replay_summary c \<noteq> semantic_replay_summary b
      \<or> workload_driver_text am c \<noteq> workload_driver_text am b
      \<or> diagnostics_summary c \<noteq> diagnostics_summary b \<or> security_summary c \<noteq> security_summary b
      \<or> network_path_summary am c \<noteq> network_path_summary am b
      \<or> rp_topology (ci_resolved c) \<noteq> rp_topology (ci_resolved b)
      \<or> subject_summary (rp_subject (ci_resolved c)) \<noteq> subject_summary (rp_subject (ci_resolved b)))
    \<and> map (\<lambda>e. (fc_field e, fc_outcome e)) (cr_testbed rep)
       = List.map_filter (\<lambda>n. map_option (Pair (as_str n)) (field_outcome (field_of c n) (field_of b n))) (all_fields c b)"
proof -
  note rep = evaluate_comparability_Some [OF assms]
  then have "Some (cr_driver_match rep) = map_option fst (compare_driver am c b)" by blast
  then obtain d where d: "compare_driver am c b = Some d" "cr_driver_match rep = fst d"
    by (cases "compare_driver am c b") auto
  show ?thesis
    using rep unfolding d(2) compare_driver_cases(2) [OF d(1)] fst_compare_workload fst_compare_topology by blast
qed

lemma self_report:
  assumes "evaluate_comparability am x x = Some rep"
  shows "\<not> cr_critical_mismatch rep \<and> cr_workload_match rep \<and> cr_driver_match rep \<and> cr_topology_match rep
    \<and> fc_outcome ` set (cr_testbed rep) \<subseteq> {FieldEqual}"
proof -
  note rep = evaluate_comparability_Some [OF assms]
  then have "Some (cr_driver_match rep) = map_option fst (compare_driver am x x)" by blast
  then obtain d where d: "compare_driver am x x = Some d" "cr_driver_match rep = fst d"
    by (cases "compare_driver am x x") auto
  have "fst d" using compare_driver_cases(2) [OF d(1)] by simp
  moreover have "\<not> critical_difference x x n" for n by (simp add: critical_difference_def)
  moreover have "fc_outcome e = FieldEqual" if "e \<in> set (cr_testbed rep)" for e
  proof -
    have "(fc_field e, fc_outcome e) \<in> set (map (\<lambda>e. (fc_field e, fc_outcome e)) (cr_testbed rep))" using that by force
    then have "(fc_field e, fc_outcome e) \<in> set (List.map_filter
        (\<lambda>n. map_option (Pair (as_str n)) (field_outcome (field_of x n) (field_of x n))) (all_fields x x))"
      using rep by simp
    then show ?thesis
      by (auto simp: List.map_filter_def field_outcome_def Let_def split: option.splits)
  qed
  ultimately show ?thesis
    using rep d(2) by (auto simp: fst_compare_workload fst_compare_topology)
qed

text \<open>
  A bundle is comparable with itself, which the paired comparison relies on: comparing an
  input with itself reports no critical mismatch and only equal fields.  It can fail only by
  the panic on a route that does not serialise.
\<close>

theorem self_comparable:
  "case evaluate_comparability am x x of
     None \<Rightarrow> network_path_summary am x = None
   | Some rep \<Rightarrow> \<not> cr_critical_mismatch rep \<and> cr_workload_match rep \<and> cr_driver_match rep \<and> cr_topology_match rep
       \<and> fc_outcome ` set (cr_testbed rep) \<subseteq> {FieldEqual}"
proof (cases "evaluate_comparability am x x")
  case None
  then show ?thesis
    using compare_driver_cases(1) [of am x x] evaluate_comparability_None [of am x x] by simp
next
  case (Some rep)
  then show ?thesis using self_report [OF Some] by simp
qed

text \<open>
  Comparing runs of resolved plans never panics: a plan that \<open>resolve_plan\<close> accepted has a
  serialisable route, so every summary of the comparison exists.
\<close>

theorem resolved_plans_compare:
  assumes "resolve_plan p ds options = Ok (ci_resolved c)" and "resolve_plan q es options' = Ok (ci_resolved b)"
  shows "evaluate_comparability am c b \<noteq> None"
proof -
  have "network_path_summary am x \<noteq> None" if "resolve_plan r fs opts = Ok (ci_resolved x)" for x r fs opts
  proof (cases "rp_network_path (ci_resolved x)")
    case None
    then show ?thesis by (simp add: network_path_summary_def)
  next
    case (Some path)
    from that obtain reg drivers ws np where v: "validate r = Ok ()"
      and np: "resolve_network_path (network_path r) drivers = Ok np"
      and x: "ci_resolved x = resolved_plan r opts drivers np ws" by (rule resolve_plan_Ok)
    have "np = Some path" using Some x by (simp add: resolved_plan_def)
    with np obtain request where request: "network_path r = Some request" "rnp_route path = path_route request"
      by (auto simp: resolve_network_path_def split: option.splits if_splits sum.splits)
    have "validate_path_composition r = Ok ()" using v by (simp add: validate_Ok)
    with request(1) have "validate_route_mode (route_mode (path_route request)) = Ok ()"
      by (simp add: validate_path_composition_def validate_network_path_contract_def ok_simps)
    then obtain entries where "serialize_route_mode (route_mode (rnp_route path)) = Ok entries"
      using serialize_route_iff_valid request(2) by metis
    then show ?thesis
      by (simp add: network_path_summary_def Some route_stable_digest_def Let_def split: option.splits)
  qed
  then have "network_path_summary am c \<noteq> None" "network_path_summary am b \<noteq> None"
    using assms by blast+
  then show ?thesis
    using compare_driver_cases(1) [of am c b] by (simp add: evaluate_comparability_None)
qed

definition os_input :: "string \<Rightarrow> ComparisonInput" where
  "os_input os = (sample_input []) \<lparr>ci_environment :=
     EnvironmentFingerprint_new [(Name ''os'', \<lparr>env_value = os, env_class = ComparisonCritical\<rparr>)]\<rparr>"

theorem critical_mismatch_iff_witness:
  "\<exists>rep. evaluate_comparability plain_ambient (os_input ''linux'') (os_input ''darwin'') = Some rep
    \<and> cr_critical_mismatch rep"
proof -
  have "network_path_summary plain_ambient (os_input os) \<noteq> None" for os
    by (simp add: network_path_summary_def os_input_def sample_input_def sample_resolved_def)
  then have "compare_driver plain_ambient (os_input ''linux'') (os_input ''darwin'') \<noteq> None"
    by (simp only: compare_driver_cases(1) simp_thms)
  then obtain rep where rep: "evaluate_comparability plain_ambient (os_input ''linux'') (os_input ''darwin'') = Some rep"
    using evaluate_comparability_None by (metis option.exhaust)
  have "critical_difference (os_input ''linux'') (os_input ''darwin'') (Name ''os'')"
    by (simp add: critical_difference_def field_of_def os_input_def EnvironmentFingerprint_new_def bt_get_def)
  with critical_mismatch_iff [OF rep] rep show ?thesis by blast
qed

theorem resolved_plans_compare_witness:
  "\<exists>rp. resolve_plan bare_plan sample_drivers sample_options = Ok rp
    \<and> evaluate_comparability plain_ambient ((sample_input []) \<lparr>ci_resolved := rp\<rparr>) ((sample_input []) \<lparr>ci_resolved := rp\<rparr>) \<noteq> None"
proof -
  obtain rp where rp: "resolve_plan bare_plan sample_drivers sample_options = Ok rp" using bare_plan_resolves by blast
  then have "resolve_plan bare_plan sample_drivers sample_options = Ok (ci_resolved ((sample_input []) \<lparr>ci_resolved := rp\<rparr>))"
    by simp
  from resolved_plans_compare [OF this this] rp show ?thesis by blast
qed

end
