(* ===== verification/Compare.thy ===== *)
theory Compare
  imports Comparability
begin

text \<open>
  The two comparison passes of \<open>eggbench-core/src/comparison.rs\<close> and the receipt they emit:
  \<open>compare\<close> (a candidate against an optional baseline) and \<open>compare_paired\<close> (the two arms of
  one bundle).

  A pass is a function of the inputs, the options, the arithmetic and the \<open>Ambient\<close>
  parameters; \<open>None\<close> is a panic.  Paths are their displayed text.
\<close>

section \<open>Receipts\<close>

definition COMPARISON_RECEIPT_SCHEMA_VERSION :: SchemaVersion where
  "COMPARISON_RECEIPT_SCHEMA_VERSION = SchemaVersion 4"
definition COMPARISON_POLICY_V1 :: string where
  "COMPARISON_POLICY_V1 = ''eggbench.trial-bootstrap.v1''"
definition COMPARISON_POLICY_NETWORK_PATH_V1 :: string where
  "COMPARISON_POLICY_NETWORK_PATH_V1 = ''eggbench.trial-bootstrap-network-path.v1''"
definition COMPARISON_POLICY_V2 :: string where
  "COMPARISON_POLICY_V2 = ''eggbench.trial-bootstrap-paired.v1''"
definition MAX_RECEIPT_METRICS :: nat where
  "MAX_RECEIPT_METRICS = 256"
definition CARGO_PKG_VERSION :: string where
  "CARGO_PKG_VERSION = ''0.1.0''"

datatype BaselineReference =
  BundleReference BundleIdentity string
| AliasReference string string BundleIdentity string

record PairedComparisonSection =
  pcs_schedule :: string
  pcs_pairs_declared :: u32
  pcs_baseline_service :: Name
  pcs_candidate_service :: Name
  pcs_baseline_subject :: Subject
  pcs_candidate_subject :: Subject
  pcs_metrics :: "PairedMetricRecord list"
  pcs_statistical_method :: string
  pcs_resamples :: nat
  pcs_base_seed :: u64

record ComparisonReceipt =
  rc_schema_version :: SchemaVersion
  rc_policy_id :: string
  rc_created_by_version :: string
  rc_candidate_identity :: BundleIdentity
  rc_baseline_reference :: "BaselineReference option"
  rc_baseline_identity :: "BundleIdentity option"
  rc_environment_policy :: EnvironmentPolicy
  rc_comparability :: ComparabilityReport
  rc_base_seed :: u64
  rc_metrics :: "MetricComparison list"
  rc_aggregate_verdict :: "AggregateVerdict option"
  rc_performance_verdict :: "AggregateVerdict option"
  rc_correctness :: "CorrectnessComparisonSection option"
  rc_paired :: "PairedComparisonSection option"
  rc_warnings :: "ComparisonWarning list"

record ComparisonOptions =
  co_seed :: "u64 option"

record BaselineSide =
  bs_reference :: BaselineReference
  bs_input :: ComparisonInput

record ComparisonRequest =
  cq_candidate :: ComparisonInput
  cq_baseline :: "BaselineSide option"

definition baseline_input :: "ComparisonRequest \<Rightarrow> ComparisonInput option" where
  "baseline_input q = map_option bs_input (cq_baseline q)"

section \<open>Seeds and policy\<close>

definition has_path :: "ComparisonInput \<Rightarrow> bool" where
  "has_path x \<longleftrightarrow> ci_network_path_evidence x \<noteq> None \<or> rp_network_path (ci_resolved x) \<noteq> None"

definition unpaired_policy_id :: "ComparisonInput \<Rightarrow> ComparisonInput option \<Rightarrow> string" where
  "unpaired_policy_id candidate baseline =
    (if has_path candidate \<or> (case baseline of None \<Rightarrow> False | Some b \<Rightarrow> has_path b)
     then COMPARISON_POLICY_NETWORK_PATH_V1 else COMPARISON_POLICY_V1)"

definition derive_base_seed :: "ComparisonInput \<Rightarrow> ComparisonInput option \<Rightarrow> string \<Rightarrow> u64" where
  "derive_base_seed candidate baseline policy_id =
    fnv1a64 (id_manifest_sha256 (ci_identity candidate) @ ''|''
      @ (case baseline of None \<Rightarrow> ''absolute-only'' | Some b \<Rightarrow> id_manifest_sha256 (ci_identity b))
      @ ''|'' @ policy_id)"

definition derive_paired_base_seed :: "ComparisonInput \<Rightarrow> u64" where
  "derive_paired_base_seed input =
    fnv1a64 (id_manifest_sha256 (ci_identity input) @ ''|'' @ COMPARISON_POLICY_V2)"

section \<open>Warnings\<close>

definition push_metric_truncation_warning :: "ComparisonWarning list \<Rightarrow> nat \<Rightarrow> nat \<Rightarrow> ComparisonWarning list" where
  "push_metric_truncation_warning ws n retained =
    (if n \<le> MAX_RECEIPT_METRICS then ws
     else ws @ [\<lparr>cw_category = ''metric_receipt_truncated'',
       cw_detail = show_dec n @ '' resolved metrics exceed the '' @ show_dec MAX_RECEIPT_METRICS
         @ ''-metric receipt bound; '' @ show_dec retained @ '' evaluated, '' @ show_dec (n - retained)
         @ '' omitted''\<rparr>])"

definition testbed_warnings :: "Ambient \<Rightarrow> FieldComparison list \<Rightarrow> ComparisonWarning list" where
  "testbed_warnings am testbed =
    map (\<lambda>f. \<lparr>cw_category = ''environment_warning_mismatch'',
        cw_detail = ''warning-only environment field '' @ fc_field f @ '' differs (candidate ''
          @ debug_option (debug_str (am_printable am)) (fc_candidate f) @ '' vs baseline ''
          @ debug_option (debug_str (am_printable am)) (fc_baseline f) @ '')''\<rparr>)
      (filter (\<lambda>f. fc_outcome f = WarningMismatch) testbed)"

section \<open>The metric loop\<close>

text \<open>Metrics in name order, each request the first of its name; the loop stops at the bound.\<close>

definition metric_names :: "MetricRequest list \<Rightarrow> Name list" where
  "metric_names ms = bs_elems (bs_extend (map metric_name ms) [])"

definition request_named :: "MetricRequest list \<Rightarrow> Name \<Rightarrow> MetricRequest option" where
  "request_named ms n = find (\<lambda>m. metric_name m = n) ms"

fun metric_loop ::
  "(MetricRequest \<Rightarrow> ComparisonWarning list \<Rightarrow> ('m \<times> ComparisonWarning list) option) \<Rightarrow> MetricRequest list
    \<Rightarrow> Name list \<Rightarrow> 'm list \<Rightarrow> ComparisonWarning list \<Rightarrow> ('m list \<times> ComparisonWarning list) option" where
  "metric_loop evaluate requests [] done ws = Some (done, ws)"
| "metric_loop evaluate requests (n # ns) done ws =
    (case request_named requests n of
       None \<Rightarrow> None
     | Some r \<Rightarrow>
         (case evaluate r ws of
            None \<Rightarrow> None
          | Some (m, ws') \<Rightarrow>
              if MAX_RECEIPT_METRICS \<le> length (done @ [m]) then Some (done @ [m], ws')
              else metric_loop evaluate requests ns (done @ [m]) ws'))"

section \<open>The unpaired pass\<close>

definition absolute_only_report :: ComparabilityReport where
  "absolute_only_report =
    (let detail = ''absolute-only comparison uses no baseline''
     in \<lparr>cr_testbed = [], cr_workload_match = True, cr_workload_detail = detail, cr_driver_match = True,
         cr_driver_detail = detail, cr_topology_match = True, cr_topology_detail = detail,
         cr_critical_mismatch = False\<rparr>)"

definition initial_warnings :: "Ambient \<Rightarrow> ComparisonInput \<Rightarrow> ComparabilityReport \<Rightarrow> ComparisonWarning list" where
  "initial_warnings am candidate rep =
    testbed_warnings am (cr_testbed rep)
    @ (if cr_critical_mismatch rep
       then [\<lparr>cw_category = ''environment_critical_mismatch'',
         cw_detail = ''comparison-critical testbed/workload/driver/topology mismatch''\<rparr>] else [])
    @ (if ci_paired candidate \<noteq> None
       then [\<lparr>cw_category = ''paired_bundle_requires_paired_comparison'',
         cw_detail = ''candidate bundle contains paired trials; use paired comparison''\<rparr>] else [])"

definition unpaired_step ::
  "Fpu \<Rightarrow> ComparisonRequest \<Rightarrow> ComparabilityReport \<Rightarrow> u64 \<Rightarrow> MetricRequest \<Rightarrow> ComparisonWarning list \<Rightarrow> evaluated option" where
  "unpaired_step fp q rep base_seed r ws =
    (if ci_paired (cq_candidate q) \<noteq> None then Some (paired_rejection_record fp r, ws)
     else evaluate_metric fp r (cq_candidate q) (baseline_input q)
            (rp_environment_policy (ci_resolved (cq_candidate q))) rep
            (derive_metric_seed base_seed (as_str (metric_name r))) ws)"

definition compare :: "Ambient \<Rightarrow> Fpu \<Rightarrow> ComparisonRequest \<Rightarrow> ComparisonOptions \<Rightarrow> ComparisonReceipt option" where
  "compare am fp q options =
    (let candidate = cq_candidate q; baseline = baseline_input q;
         policy_id = unpaired_policy_id candidate baseline;
         base_seed = (case co_seed options of
             Some s \<Rightarrow> s | None \<Rightarrow> derive_base_seed candidate baseline policy_id);
         requests = rp_metrics (ci_resolved candidate);
         names = metric_names requests
     in case (case baseline of
                Some b \<Rightarrow> evaluate_comparability am candidate b
              | None \<Rightarrow> Some absolute_only_report) of
          None \<Rightarrow> None
        | Some rep \<Rightarrow>
            (case metric_loop (unpaired_step fp q rep base_seed) requests names []
                    (initial_warnings am candidate rep) of
               None \<Rightarrow> None
             | Some (recs, ws) \<Rightarrow>
                 (let performance = aggregate recs;
                      correctness = correctness_section (ci_security_records candidate)
                  in Some
                   \<lparr>rc_schema_version = COMPARISON_RECEIPT_SCHEMA_VERSION, rc_policy_id = policy_id,
                    rc_created_by_version = CARGO_PKG_VERSION, rc_candidate_identity = ci_identity candidate,
                    rc_baseline_reference = map_option bs_reference (cq_baseline q),
                    rc_baseline_identity = map_option ci_identity baseline,
                    rc_environment_policy = rp_environment_policy (ci_resolved candidate),
                    rc_comparability = rep, rc_base_seed = base_seed, rc_metrics = recs,
                    rc_aggregate_verdict = combine_verdicts performance (map_option cs_aggregate_verdict correctness),
                    rc_performance_verdict = performance, rc_correctness = correctness, rc_paired = None,
                    rc_warnings = push_metric_truncation_warning ws (length names) (length recs)\<rparr>)))"

section \<open>The paired pass\<close>

text \<open>The design the pass evaluates, present only when the manifest has a paired record too.\<close>

definition paired_design_of :: "ComparisonInput \<Rightarrow> ResolvedPairedDesign option" where
  "paired_design_of input = (case ci_paired input of None \<Rightarrow> None | Some _ \<Rightarrow> rp_paired (ci_resolved input))"

definition absent_design :: "ComparisonInput \<Rightarrow> string \<times> string" where
  "absent_design input =
    (if ci_paired input = None then (''paired_design_absent'', ''bundle carries no paired-run record'')
     else (''paired_design_absent_from_resolved_plan'', ''paired manifest record has no resolved paired design''))"

definition paired_step ::
  "Fpu \<Rightarrow> ComparisonInput \<Rightarrow> u64 \<Rightarrow> MetricRequest \<Rightarrow> ComparisonWarning list
    \<Rightarrow> ((MetricComparison \<times> PairedMetricRecord option) \<times> ComparisonWarning list) option" where
  "paired_step fp input base_seed r ws =
    (case paired_design_of input of
       Some _ \<Rightarrow>
         (case evaluate_paired_metric fp r input (derive_metric_seed base_seed (as_str (metric_name r))) ws of
            None \<Rightarrow> None
          | Some ((rec, pm), ws') \<Rightarrow> Some ((rec, Some pm), ws'))
     | None \<Rightarrow> Some ((invalid_paired_record fp r (fst (absent_design input)), None), ws))"

definition compare_paired ::
  "Ambient \<Rightarrow> Fpu \<Rightarrow> string \<Rightarrow> ComparisonInput \<Rightarrow> ComparisonOptions \<Rightarrow> ComparisonReceipt option" where
  "compare_paired am fp bundle_path input options =
    (let base_seed = (case co_seed options of Some s \<Rightarrow> s | None \<Rightarrow> derive_paired_base_seed input);
         requests = rp_metrics (ci_resolved input);
         names = metric_names requests
     in case evaluate_comparability am input input of
          None \<Rightarrow> None
        | Some rep \<Rightarrow>
            (case metric_loop (paired_step fp input base_seed) requests names []
                    (testbed_warnings am (cr_testbed rep)
                     @ (if paired_design_of input = None
                        then [\<lparr>cw_category = fst (absent_design input), cw_detail = snd (absent_design input)\<rparr>] else [])) of
               None \<Rightarrow> None
             | Some (records, ws) \<Rightarrow>
                 (let recs = map fst records; performance = aggregate recs;
                      correctness = correctness_section (ci_security_records input)
                  in Some
                   \<lparr>rc_schema_version = COMPARISON_RECEIPT_SCHEMA_VERSION, rc_policy_id = COMPARISON_POLICY_V2,
                    rc_created_by_version = CARGO_PKG_VERSION, rc_candidate_identity = ci_identity input,
                    rc_baseline_reference = Some (BundleReference (ci_identity input) bundle_path),
                    rc_baseline_identity = Some (ci_identity input),
                    rc_environment_policy = rp_environment_policy (ci_resolved input),
                    rc_comparability = rep, rc_base_seed = base_seed, rc_metrics = recs,
                    rc_aggregate_verdict = combine_verdicts performance (map_option cs_aggregate_verdict correctness),
                    rc_performance_verdict = performance, rc_correctness = correctness,
                    rc_paired =
                      (case (ci_paired input, rp_paired (ci_resolved input)) of
                         (Some summary, Some design) \<Rightarrow> Some
                          \<lparr>pcs_schedule = prs_schedule summary, pcs_pairs_declared = prs_pairs summary,
                           pcs_baseline_service = arm_service (rp_baseline design),
                           pcs_candidate_service = arm_service (rp_candidate design),
                           pcs_baseline_subject = arm_subject (rp_baseline design),
                           pcs_candidate_subject = arm_subject (rp_candidate design),
                           pcs_metrics = List.map_filter snd records,
                           pcs_statistical_method = STATISTICAL_METHOD_V2,
                           pcs_resamples = BOOTSTRAP_RESAMPLES, pcs_base_seed = base_seed\<rparr>
                       | _ \<Rightarrow> None),
                    rc_warnings = push_metric_truncation_warning ws (length names) (length recs)\<rparr>)))"

section \<open>The metric loop evaluates every name once\<close>

lemma metric_names: "sorted_wrt (<) (metric_names ms) \<and> set (metric_names ms) = metric_name ` set ms"
  using bs_extend_ok [of "[]" "map metric_name ms"] by (simp add: metric_names_def bs_elems_def bt_ok_def)

lemma request_named_name: "request_named ms n = Some r \<Longrightarrow> metric_name r = n \<and> r \<in> set ms"
  by (auto simp: request_named_def find_Some_iff)

lemma request_named_Some: "n \<in> set (metric_names ms) \<Longrightarrow> request_named ms n \<noteq> None"
  using metric_names [of ms] by (auto simp: request_named_def find_None_iff)

lemma metric_loop_Some:
  assumes "metric_loop evaluate requests ns acc ws = Some (ms, ws')" and "length acc < MAX_RECEIPT_METRICS"
  obtains ms' where "ms = acc @ ms'"
    and "list_all2 (\<lambda>n m. \<exists>r w w'. request_named requests n = Some r \<and> evaluate r w = Some (m, w'))
      (take (MAX_RECEIPT_METRICS - length acc) ns) ms'"
proof -
  have "\<exists>ms'. ms = acc @ ms' \<and> list_all2 (\<lambda>n m. \<exists>r w w'. request_named requests n = Some r \<and> evaluate r w = Some (m, w'))
      (take (MAX_RECEIPT_METRICS - length acc) ns) ms'"
    using assms
  proof (induction ns arbitrary: acc ws)
    case (Cons n ns)
    obtain r m w where r: "request_named requests n = Some r" "evaluate r ws = Some (m, w)"
      using Cons.prems by (auto split: option.splits)
    have step: "take (MAX_RECEIPT_METRICS - length acc) (n # ns) = n # take (MAX_RECEIPT_METRICS - length (acc @ [m])) ns"
      using Cons.prems(2) by (simp add: take_Cons' Suc_diff_Suc)
    show ?case
    proof (cases "MAX_RECEIPT_METRICS \<le> length (acc @ [m])")
      case True
      with Cons.prems r have "ms = acc @ [m]" by simp
      with True r step show ?thesis by (intro exI [of _ "[m]"]) auto
    next
      case False
      with Cons.prems r have "metric_loop evaluate requests ns (acc @ [m]) w = Some (ms, ws')" by simp
      from Cons.IH [OF this] False obtain ms' where ms': "ms = acc @ m # ms'"
        "list_all2 (\<lambda>n m. \<exists>r w w'. request_named requests n = Some r \<and> evaluate r w = Some (m, w'))
          (take (MAX_RECEIPT_METRICS - length (acc @ [m])) ns) ms'" by auto
      with r show ?thesis unfolding step by (intro exI [of _ "m # ms'"]) auto
    qed
  qed simp
  then show ?thesis using that by blast
qed

lemma metric_loop_None:
  assumes "\<And>r w. evaluate r w = None \<longleftrightarrow> panics r" and "length acc < MAX_RECEIPT_METRICS"
    and "\<forall>n \<in> set ns. request_named requests n \<noteq> None"
  shows "metric_loop evaluate requests ns acc ws = None \<longleftrightarrow>
    (\<exists>n \<in> set (take (MAX_RECEIPT_METRICS - length acc) ns). \<exists>r. request_named requests n = Some r \<and> panics r)"
  using assms(2,3)
proof (induction ns arbitrary: acc ws)
  case (Cons n ns)
  then obtain r where r: "request_named requests n = Some r" by auto
  have step: "take (MAX_RECEIPT_METRICS - length acc) (n # ns) = n # take (MAX_RECEIPT_METRICS - Suc (length acc)) ns"
    using Cons.prems(1) by (simp add: take_Cons' Suc_diff_Suc)
  show ?case
  proof (cases "evaluate r ws")
    case None
    then have "panics r" using assms(1) by blast
    with None r step show ?thesis by simp
  next
    case (Some e)
    obtain m w where e: "e = (m, w)" by (cases e)
    have "\<not> panics r" using assms(1) [of r ws] Some by simp
    then show ?thesis
      using Some e r step Cons.IH [of "acc @ [m]" w] Cons.prems by auto
  qed
qed simp

lemma metric_loop_warnings:
  assumes "metric_loop evaluate requests ns acc ws = Some (ms, ws')" and "\<forall>w \<in> set ws. P w"
    and "\<And>r w m w'. evaluate r w = Some (m, w') \<Longrightarrow> \<forall>x \<in> set w. P x \<Longrightarrow> \<forall>x \<in> set w'. P x"
  shows "\<forall>w \<in> set ws'. P w"
  using assms(1,2)
proof (induction ns arbitrary: acc ws)
  case (Cons n ns)
  then obtain r m w where r: "request_named requests n = Some r" "evaluate r ws = Some (m, w)"
    by (auto split: option.splits)
  then have "\<forall>x \<in> set w. P x" using assms(3) Cons.prems(2) by blast
  with r Cons show ?case by (auto split: if_splits)
qed simp

section \<open>Records keep their request\<close>

definition records_request :: "MetricRequest \<Rightarrow> MetricComparison \<Rightarrow> bool" where
  "records_request r m \<longleftrightarrow> mc_name m = metric_name r \<and> mc_unit m = metric_unit r
     \<and> mc_direction m = metric_direction r \<and> mc_intent m = metric_intent r \<and> mc_gate m = metric_gate r"

lemma records_request_update [simp]:
  "records_request r (dispose d m) = records_request r m"
  "records_request r (dispose_with d reason m) = records_request r m"
  "records_request r (m \<lparr>mc_disposition := d'\<rparr>) = records_request r m"
  "records_request r (m \<lparr>mc_baseline_included := bi\<rparr>) = records_request r m"
  "records_request r (m \<lparr>mc_baseline_excluded := be\<rparr>) = records_request r m"
  "records_request r (m \<lparr>mc_baseline_estimate := e\<rparr>) = records_request r m"
  "records_request r (m \<lparr>mc_degradation := e\<rparr>) = records_request r m"
  "records_request r (m \<lparr>mc_confidence_low := e\<rparr>) = records_request r m"
  "records_request r (m \<lparr>mc_confidence_high := e\<rparr>) = records_request r m"
  "records_request r (m \<lparr>mc_statistical_method := t\<rparr>) = records_request r m"
  "records_request r (m \<lparr>mc_resamples := n\<rparr>) = records_request r m"
  "records_request r (m \<lparr>mc_effective_seed := s\<rparr>) = records_request r m"
  "records_request r (m \<lparr>mc_threshold := e\<rparr>) = records_request r m"
  "records_request r (m \<lparr>mc_reason := t\<rparr>) = records_request r m"
  by (auto simp: records_request_def dispose_def dispose_with_def)

text \<open>A metric adds at most its own advice on trial counts to the warnings.\<close>

definition no_truncation :: "ComparisonWarning \<Rightarrow> bool" where
  "no_truncation w \<longleftrightarrow> cw_category w \<noteq> ''metric_receipt_truncated''"

lemma advice_no_truncation [simp]: "no_truncation (trial_count_warning n a b)" "no_truncation (pair_count_warning n a)"
  by (simp_all add: no_truncation_def trial_count_warning_def pair_count_warning_def)

lemma conclude_relative_records:
  "conclude_relative fp r cs bs es ws rec = Some (m, ws') \<Longrightarrow> records_request r rec \<Longrightarrow>
    records_request r m \<and> (list_all no_truncation ws \<longrightarrow> list_all no_truncation ws')"
  by (auto simp: conclude_relative_def Let_def split: option.splits Gate.splits if_splits prod.splits)

lemma evaluate_metric_records:
  assumes "evaluate_metric fp r c b policy rep es ws = Some (m, ws')"
  shows "records_request r m \<and> (list_all no_truncation ws \<longrightarrow> list_all no_truncation ws')"
proof -
  define rec0 where "rec0 = fresh_record fp r (select_trials c (metric_name r))"
  have rec0: "records_request r rec0" by (simp add: rec0_def fresh_record_def records_request_def split: prod.splits)
  have relative: "records_request r m \<and> (list_all no_truncation ws \<longrightarrow> list_all no_truncation ws')"
    if "evaluate_relative fp r cs b policy rep es ws rec0 = Some (m, ws')" for cs
    using that rec0
    by (auto simp: evaluate_relative_def Let_def split: option.splits prod.splits sum.splits if_splits
        dest!: conclude_relative_records)
  have absolute: "records_request r (evaluate_absolute cs d v rec0)" for cs d v
    using rec0 by (simp add: evaluate_absolute_def split: option.splits MetricDirection.splits)
  show ?thesis
    using assms rec0 relative absolute
    by (auto simp: evaluate_metric_def Let_def rec0_def [symmetric] split: option.splits if_splits Gate.splits)
qed

lemma paired_rejection_records [simp]:
  "records_request r (paired_rejection_record fp r)" "records_request r (invalid_paired_record fp r reason)"
  by (simp_all add: records_request_def paired_rejection_record_def invalid_paired_record_def)

lemma evaluate_paired_records:
  assumes "evaluate_paired_metric fp r input es ws = Some ((m, pm), ws')"
  shows "records_request r m \<and> (list_all no_truncation ws \<longrightarrow> list_all no_truncation ws')"
proof -
  define rec0 where "rec0 = fresh_paired fp r (select_pairs input (metric_name r))"
  have rec0: "records_request r rec0" by (simp add: rec0_def fresh_paired_def records_request_def)
  have concluded: "records_request r m \<and> (list_all no_truncation ws \<longrightarrow> list_all no_truncation ws')"
    if "gate_pairs fp r g ps es ws rec0 pm0 = Some ((m, pm), ws')" for g ps pm0
    using that rec0
    by (auto simp: gate_pairs_def conclude_paired_def Let_def split: option.splits Gate.splits if_splits prod.splits)
  show ?thesis
    using assms rec0 concluded
    by (auto simp: evaluate_paired_metric_def Let_def rec0_def [symmetric] split: option.splits if_splits sum.splits)
qed

section \<open>The unpaired receipt\<close>

abbreviation candidate_metrics :: "ComparisonRequest \<Rightarrow> MetricRequest list" where
  "candidate_metrics q \<equiv> rp_metrics (ci_resolved (cq_candidate q))"

definition report_of :: "Ambient \<Rightarrow> ComparisonRequest \<Rightarrow> ComparabilityReport option" where
  "report_of am q = (case baseline_input q of
     Some b \<Rightarrow> evaluate_comparability am (cq_candidate q) b | None \<Rightarrow> Some absolute_only_report)"

definition base_seed_of :: "ComparisonRequest \<Rightarrow> ComparisonOptions \<Rightarrow> u64" where
  "base_seed_of q options = (case co_seed options of Some s \<Rightarrow> s
     | None \<Rightarrow> derive_base_seed (cq_candidate q) (baseline_input q) (unpaired_policy_id (cq_candidate q) (baseline_input q)))"

lemma compare_Some:
  assumes "compare am fp q options = Some rc"
  obtains rep ws where "report_of am q = Some rep"
    and "metric_loop (unpaired_step fp q rep (base_seed_of q options)) (candidate_metrics q) (metric_names (candidate_metrics q)) []
        (initial_warnings am (cq_candidate q) rep) = Some (rc_metrics rc, ws)"
    and "rc_warnings rc = push_metric_truncation_warning ws (length (metric_names (candidate_metrics q))) (length (rc_metrics rc))"
    and "rc_correctness rc = correctness_section (ci_security_records (cq_candidate q))"
    and "rc_aggregate_verdict rc = combine_verdicts (aggregate (rc_metrics rc)) (map_option cs_aggregate_verdict (rc_correctness rc))"
    and "rc_performance_verdict rc = aggregate (rc_metrics rc)" and "rc_comparability rc = rep"
  using assms
  by (auto simp: compare_def Let_def report_of_def base_seed_of_def split: option.splits prod.splits)

lemma truncation_warning:
  assumes "list_all no_truncation ws"
  shows "(\<exists>w \<in> set (push_metric_truncation_warning ws n k). cw_category w = ''metric_receipt_truncated'') \<longleftrightarrow> 256 < n"
  using assms by (auto simp: push_metric_truncation_warning_def no_truncation_def list_all_iff MAX_RECEIPT_METRICS_def)

lemma initial_no_truncation: "list_all no_truncation (initial_warnings am c rep)"
  by (auto simp: initial_warnings_def testbed_warnings_def no_truncation_def list_all_iff)

lemma unpaired_step_records:
  "unpaired_step fp q rep s r ws = Some (m, ws') \<Longrightarrow>
    records_request r m \<and> (list_all no_truncation ws \<longrightarrow> list_all no_truncation ws')
    \<and> (ci_paired (cq_candidate q) \<noteq> None \<longrightarrow> mc_disposition m = Some GateInvalid)"
  using evaluate_metric_records
  by (fastforce simp: unpaired_step_def paired_rejection_record_def records_request_def split: if_splits)

lemma list_all2_names:
  assumes "list_all2 P ns ms" and "\<And>n m. P n m \<Longrightarrow> f m = n"
  shows "map f ms = ns"
  using assms(1) by (induction rule: list_all2_induct) (auto simp: assms(2))

lemma receipt_metrics:
  assumes "compare am fp q options = Some rc"
  shows "map mc_name (rc_metrics rc) = take 256 (metric_names (candidate_metrics q))
    \<and> ((\<exists>w \<in> set (rc_warnings rc). cw_category w = ''metric_receipt_truncated'')
         \<longleftrightarrow> 256 < length (metric_names (candidate_metrics q)))
    \<and> (\<forall>m \<in> set (rc_metrics rc). \<exists>r. request_named (candidate_metrics q) (mc_name m) = Some r \<and> records_request r m
         \<and> (ci_paired (cq_candidate q) \<noteq> None \<longrightarrow> mc_disposition m = Some GateInvalid))"
proof -
  obtain rep ws where loop: "metric_loop (unpaired_step fp q rep (base_seed_of q options)) (candidate_metrics q)
      (metric_names (candidate_metrics q)) [] (initial_warnings am (cq_candidate q) rep) = Some (rc_metrics rc, ws)"
    and ws: "rc_warnings rc = push_metric_truncation_warning ws (length (metric_names (candidate_metrics q))) (length (rc_metrics rc))"
    using assms by (rule compare_Some)
  let ?P = "\<lambda>n m. request_named (candidate_metrics q) n \<noteq> None \<and> records_request (the (request_named (candidate_metrics q) n)) m
      \<and> (ci_paired (cq_candidate q) \<noteq> None \<longrightarrow> mc_disposition m = Some GateInvalid)"
  have paired: "list_all2 ?P (take 256 (metric_names (candidate_metrics q))) (rc_metrics rc)"
  proof (rule metric_loop_Some [OF loop])
    show "length ([] :: MetricComparison list) < MAX_RECEIPT_METRICS" by (simp add: MAX_RECEIPT_METRICS_def)
    fix ms'
    assume ms': "rc_metrics rc = [] @ ms'" and "list_all2 (\<lambda>n m. \<exists>r w w'. request_named (candidate_metrics q) n = Some r
        \<and> unpaired_step fp q rep (base_seed_of q options) r w = Some (m, w'))
      (take (MAX_RECEIPT_METRICS - length ([] :: MetricComparison list)) (metric_names (candidate_metrics q))) ms'"
    from this(2) have "list_all2 ?P (take (MAX_RECEIPT_METRICS - length ([] :: MetricComparison list))
        (metric_names (candidate_metrics q))) ms'"
      by (rule list_all2_mono) (auto dest!: unpaired_step_records)
    with ms' show ?thesis by (simp add: MAX_RECEIPT_METRICS_def)
  qed
  have "mc_name m = n" if "?P n m" for n m
    using that request_named_name by (auto simp: records_request_def)
  then have names: "map mc_name (rc_metrics rc) = take 256 (metric_names (candidate_metrics q))"
    by (rule list_all2_names [OF paired])
  have each: "\<forall>m \<in> set (rc_metrics rc). ?P (mc_name m) m"
    using paired unfolding names [symmetric] list_all2_map1 list_all2_same by blast
  have "list_all no_truncation ws"
    using metric_loop_warnings [OF loop, of no_truncation] initial_no_truncation unpaired_step_records
    unfolding list_all_iff by blast
  then have "(\<exists>w \<in> set (rc_warnings rc). cw_category w = ''metric_receipt_truncated'')
      \<longleftrightarrow> 256 < length (metric_names (candidate_metrics q))"
    unfolding ws by (rule truncation_warning)
  with names each show ?thesis by auto
qed

lemma accepted_metric_names:
  assumes "resolve_plan p ds options = Ok rp"
  shows "length (metric_names (rp_metrics rp)) \<le> 256
    \<and> mset (metric_names (rp_metrics rp)) = mset (map metric_name (metrics p))"
proof -
  from assms have v: "validate p = Ok ()" and rp: "rp_metrics rp = metrics p"
    by (auto elim!: resolve_plan_Ok simp: resolved_plan_def)
  from v have len: "length (metrics p) \<le> 256" and d: "distinct (map metric_name (metrics p))"
    by (auto simp: validate_Ok validate_metrics_def ok_simps metric_scan.scan_Ok_iff)
  have "distinct (metric_names (metrics p))" using metric_names [of "metrics p"] by (simp add: strict_sorted_iff)
  with d metric_names [of "metrics p"] have "mset (metric_names (metrics p)) = mset (map metric_name (metrics p))"
    by (metis set_eq_iff_mset_eq_distinct set_map)
  with len rp show ?thesis by (metis length_map mset_eq_length)
qed

text \<open>
  A receipt covers the candidate's plan: its records answer the requested metrics in name
  order, each once and with the unit, direction, intent and gate of the request, up to the
  bound of 256; it carries the truncation warning exactly when there are more.  A plan that
  was accepted and resolved has at most 256 distinct ones, so its receipt is complete.
  Against a paired bundle every record is invalid.
\<close>

theorem receipt_covers_plan:
  assumes "compare am fp q options = Some rc"
  shows "map mc_name (rc_metrics rc) = take 256 (metric_names (candidate_metrics q))
    \<and> ((\<exists>w \<in> set (rc_warnings rc). cw_category w = ''metric_receipt_truncated'')
         \<longleftrightarrow> 256 < length (metric_names (candidate_metrics q)))
    \<and> (\<forall>m \<in> set (rc_metrics rc). \<exists>r. request_named (candidate_metrics q) (mc_name m) = Some r \<and> records_request r m
         \<and> (ci_paired (cq_candidate q) \<noteq> None \<longrightarrow> mc_disposition m = Some GateInvalid))
    \<and> (\<forall>p ds opts. resolve_plan p ds opts = Ok (ci_resolved (cq_candidate q)) \<longrightarrow>
         mset (map mc_name (rc_metrics rc)) = mset (map metric_name (metrics p)))"
proof -
  have "mset (map mc_name (rc_metrics rc)) = mset (map metric_name (metrics p))"
    if "resolve_plan p ds opts = Ok (ci_resolved (cq_candidate q))" for p ds opts
    using accepted_metric_names [OF that] receipt_metrics [OF assms] by simp
  with receipt_metrics [OF assms] show ?thesis by blast
qed

text \<open>
  C17: A receipt passes exactly when no gated primary metric is invalid, failed or
  inconclusive, every correctness check of a requested section passed (and the section is
  not empty), and at least one of the two sides has a verdict: passing performance never
  hides a failing or invalid correctness check.
\<close>

theorem receipt_pass_iff:
  assumes "compare am fp q options = Some rc"
  shows "rc_aggregate_verdict rc = Some VerdictPass \<longleftrightarrow>
    (\<forall>m \<in> set (rc_metrics rc). gate_verdict m \<in> {None, Some VerdictPass})
    \<and> (case ci_security_records (cq_candidate q) of
         None \<Rightarrow> \<exists>m \<in> set (rc_metrics rc). gate_verdict m = Some VerdictPass
       | Some rs \<Rightarrow> rs \<noteq> [] \<and> (\<forall>r \<in> set rs. cc_disposition r = CheckPass))"
proof -
  from assms obtain "rc_correctness rc = correctness_section (ci_security_records (cq_candidate q))"
    and "rc_aggregate_verdict rc = combine_verdicts (aggregate (rc_metrics rc)) (map_option cs_aggregate_verdict (rc_correctness rc))"
    by (rule compare_Some)
  then show ?thesis using combined_pass_iff by simp
qed

lemma list_all2_origin: "list_all2 P xs ys \<Longrightarrow> y \<in> set ys \<Longrightarrow> \<exists>x \<in> set xs. P x y"
  by (induction rule: list_all2_induct) auto

lemma receipt_steps:
  assumes "compare am fp q options = Some rc" and "m \<in> set (rc_metrics rc)"
  obtains r w w' where "unpaired_step fp q (rc_comparability rc) (base_seed_of q options) r w = Some (m, w')"
proof -
  obtain rep ws where rep: "rc_comparability rc = rep"
    and loop: "metric_loop (unpaired_step fp q rep (base_seed_of q options)) (candidate_metrics q)
      (metric_names (candidate_metrics q)) [] (initial_warnings am (cq_candidate q) rep) = Some (rc_metrics rc, ws)"
    using assms(1) by (rule compare_Some)
  obtain ms' where "rc_metrics rc = ms'" and "list_all2 (\<lambda>n m. \<exists>r w w'. request_named (candidate_metrics q) n = Some r
      \<and> unpaired_step fp q rep (base_seed_of q options) r w = Some (m, w')) (take 256 (metric_names (candidate_metrics q))) ms'"
    by (rule metric_loop_Some [OF loop]) (simp_all add: MAX_RECEIPT_METRICS_def)
  with assms(2) have "\<exists>r w w'. unpaired_step fp q rep (base_seed_of q options) r w = Some (m, w')"
    by (fastforce dest: list_all2_origin)
  with rep that show ?thesis by blast
qed

text \<open>
  C18: Evidence from different conditions never decides: in a receipt whose comparability has
  a critical mismatch, or under the descriptive policy, a pass, fail or inconclusive of a
  metric can only come from an absolute gate.  Without a baseline the same holds.
\<close>

theorem mismatch_never_gates:
  assumes "compare am fp q options = Some rc" and "m \<in> set (rc_metrics rc)" and "decisive (mc_disposition m)"
    and "cr_critical_mismatch (rc_comparability rc) \<or> cq_baseline q = None
      \<or> rp_environment_policy (ci_resolved (cq_candidate q)) = CrossTestbedDescriptive"
  shows "\<exists>v. mc_gate m = Some (Absolute v)"
proof -
  let ?c = "cq_candidate q" and ?rep = "rc_comparability rc"
  let ?policy = "rp_environment_policy (ci_resolved ?c)"
  obtain r w w' where step: "unpaired_step fp q ?rep (base_seed_of q options) r w = Some (m, w')"
    using assms(1,2) by (rule receipt_steps)
  then have "ci_paired ?c = None"
    using assms(3) unpaired_step_records [OF step] by (auto simp: decisive_def)
  with step obtain es where ev: "evaluate_metric fp r ?c (baseline_input q) ?policy ?rep es w = Some (m, w')"
    by (auto simp: unpaired_step_def)
  define rec0 where "rec0 = fresh_record fp r (select_trials ?c (metric_name r))"
  have rec0: "mc_disposition rec0 = None"
    "metric_gate r = Some g \<Longrightarrow> mc_threshold rec0 = allowance_fraction fp g" for g
    by (simp_all add: rec0_def fresh_record_def split: prod.splits)
  obtain g where g: "metric_gate r = Some g"
    using ev assms(3) rec0(1) by (cases "metric_gate r") (auto simp: evaluate_metric_def rec0_def Let_def decisive_def)
  have "\<exists>v. g = Absolute v"
  proof (rule ccontr)
    assume relative: "\<nexists>v. g = Absolute v"
    then have "evaluate_relative fp r (fst (select_trials ?c (metric_name r))) (baseline_input q) ?policy ?rep es w rec0 = Some (m, w')"
      using ev g assms(3) by (cases g) (auto simp: evaluate_metric_def rec0_def Let_def decisive_def dispose_with_def split: if_splits)
    then have "\<exists>bs. eligible r (fst (select_trials ?c (metric_name r))) (baseline_input q) ?policy ?rep bs"
      using evaluate_relative_cases [OF g rec0(2) [OF g] rec0(1), where rec' = m and ws' = w' and ws = w and es = es
          and cs = "fst (select_trials ?c (metric_name r))" and baseline = "baseline_input q" and policy = ?policy
          and comparability = ?rep] assms(3) by auto
    then show False using assms(4) by (auto simp: eligible_def baseline_input_def)
  qed
  then show ?thesis using evaluate_metric_records [OF ev] g by (auto simp: records_request_def)
qed


section \<open>The paired receipt\<close>

lemma evaluate_paired_name:
  "evaluate_paired_metric fp r input es ws = Some ((m, pm), ws') \<Longrightarrow> pm_name pm = metric_name r"
  by (auto simp: evaluate_paired_metric_def gate_pairs_def conclude_paired_def fresh_paired_record_def Let_def
      split: option.splits if_splits sum.splits Gate.splits prod.splits)

lemma paired_step_records:
  assumes "paired_step fp x s r ws = Some ((m, pm), ws')"
  shows "records_request r m \<and> (case paired_design_of x of
      None \<Rightarrow> pm = None \<and> mc_disposition m = Some GateInvalid
    | Some _ \<Rightarrow> (\<exists>rec. pm = Some rec \<and> pm_name rec = metric_name r)
        \<and> (decisive (mc_disposition m) \<longrightarrow> (\<exists>g. metric_gate r = Some g \<and> gates_pairs g)))"
proof (cases "paired_design_of x")
  case None
  with assms show ?thesis by (auto simp: paired_step_def invalid_paired_record_def paired_rejection_record_def records_request_def)
next
  case (Some d)
  with assms obtain rec where ev: "evaluate_paired_metric fp r x (derive_metric_seed s (as_str (metric_name r))) ws
      = Some ((m, rec), ws')" and pm: "pm = Some rec"
    by (auto simp: paired_step_def split: option.splits prod.splits)
  have "\<exists>g. metric_gate r = Some g \<and> gates_pairs g" if "decisive (mc_disposition m)"
    using evaluate_paired_cases [where fp = fp and r = r and input = x and rec = m and pm = rec and ws' = ws' and ws = ws
        and es = "derive_metric_seed s (as_str (metric_name r))"] ev that
    by (auto simp: pairs_eligible_def)
  with ev pm Some evaluate_paired_name [OF ev] evaluate_paired_records [OF ev] show ?thesis by auto
qed

text \<open>
  The receipt of a paired comparison never reports a critical mismatch and has one record
  per requested metric in name order, up to the bound.  Without a paired design (in the
  manifest and in the plan) every record is invalid and there is no paired section; with one
  the section has the paired evidence of exactly the recorded metrics, and only relative
  gates decide.
\<close>

theorem paired_receipt:
  assumes "compare_paired am fp path x options = Some rc"
  shows "\<not> cr_critical_mismatch (rc_comparability rc)
    \<and> map mc_name (rc_metrics rc) = take 256 (metric_names (rp_metrics (ci_resolved x)))
    \<and> (case paired_design_of x of
         None \<Rightarrow> rc_paired rc = None \<and> mc_disposition ` set (rc_metrics rc) \<subseteq> {Some GateInvalid}
       | Some design \<Rightarrow>
           map_option (\<lambda>sec. map pm_name (pcs_metrics sec)) (rc_paired rc) = Some (map mc_name (rc_metrics rc))
           \<and> {m \<in> set (rc_metrics rc). decisive (mc_disposition m)} \<subseteq> {m. \<exists>g. mc_gate m = Some g \<and> gates_pairs g})"
proof -
  let ?ms = "rp_metrics (ci_resolved x)"
  obtain rep records ws ws0 s where rep: "evaluate_comparability am x x = Some rep"
    and loop: "metric_loop (paired_step fp x s) ?ms (metric_names ?ms) [] ws0 = Some (records, ws)"
    and rc: "rc_comparability rc = rep" "rc_metrics rc = map fst records"
      "map_option pcs_metrics (rc_paired rc) = (if paired_design_of x = None then None else Some (List.map_filter snd records))"
    using assms
    by (auto simp: compare_paired_def Let_def paired_design_of_def split: option.splits prod.splits)
  obtain records' where "records = records'" and "list_all2 (\<lambda>n m. \<exists>r w w'. request_named ?ms n = Some r
      \<and> paired_step fp x s r w = Some (m, w')) (take 256 (metric_names ?ms)) records'"
    by (rule metric_loop_Some [OF loop]) (simp_all add: MAX_RECEIPT_METRICS_def)
  then have "list_all2 (\<lambda>n m. \<exists>r w w'. metric_name r = n \<and> paired_step fp x s r w = Some (m, w'))
      (take 256 (metric_names ?ms)) records"
    by (auto elim!: list_all2_mono dest: request_named_name)
  then have pairs: "list_all2 (\<lambda>n m. mc_name (fst m) = n \<and> (case paired_design_of x of
      None \<Rightarrow> snd m = None \<and> mc_disposition (fst m) = Some GateInvalid
    | Some _ \<Rightarrow> (\<exists>rec. snd m = Some rec \<and> pm_name rec = n)
        \<and> (decisive (mc_disposition (fst m)) \<longrightarrow> (\<exists>g. mc_gate (fst m) = Some g \<and> gates_pairs g))))
      (take 256 (metric_names ?ms)) records" (is "list_all2 ?Q _ _")
    by (rule list_all2_mono)
      (auto dest!: paired_step_records simp: records_request_def split: option.splits)
  have "map (mc_name \<circ> fst) records = take 256 (metric_names ?ms)"
    by (rule list_all2_names [OF pairs]) auto
  moreover have "paired_design_of x = None \<Longrightarrow> mc_disposition ` set (rc_metrics rc) \<subseteq> {Some GateInvalid}"
    using pairs by (auto simp: rc dest: list_all2_origin)
  moreover have "map pm_name (List.map_filter snd records) = take 256 (metric_names ?ms)" if "paired_design_of x = Some d" for d
    using pairs that by (induction rule: list_all2_induct) (auto simp: List.map_filter_simps)
  moreover have "{m \<in> set (rc_metrics rc). decisive (mc_disposition m)} \<subseteq> {m. \<exists>g. mc_gate m = Some g \<and> gates_pairs g}"
    if "paired_design_of x = Some d" for d
    using pairs that by (auto simp: rc dest: list_all2_origin)
  moreover have "\<not> cr_critical_mismatch rep"
    using self_report [OF rep] by blast
  ultimately show ?thesis
    using rc by (auto split: option.splits if_splits simp: option.map_comp comp_def)
qed

section \<open>A concrete receipt\<close>

definition sample_request :: ComparisonRequest where
  "sample_request = \<lparr>cq_candidate = (sample_input [sample_trial 1 0x4008000000000000])
       \<lparr>ci_resolved := sample_resolved \<lparr>rp_metrics := [absolute_latency 0x4010000000000000]\<rparr>\<rparr>,
     cq_baseline = None\<rparr>"

lemma sample_names: "metric_names [absolute_latency v] = [Name ''latency'']"
  by (simp add: metric_names_def absolute_latency_def bs_extend_def bs_insert_def bs_elems_def)

lemma sample_compare:
  "\<exists>rc m. compare plain_ambient first_fpu sample_request \<lparr>co_seed = Some 0\<rparr> = Some rc \<and> rc_metrics rc = [m]
     \<and> mc_disposition m = Some GatePass \<and> mc_intent m = Primary"
proof -
  have sel: "fst (select_trials (cq_candidate sample_request) (Name ''latency'')) = [0x4008000000000000]"
    by (simp add: sample_request_def select_trials_def sample_input_def sample_trial_def trial_value_def find_observation_def)
  have le: "f64_le 0x4008000000000000 0x4010000000000000"
    by (simp add: f64_le_def f64_is_nan_def f64_magnitude_def f64_rank_def f64_negative_def)
  define m where "m = evaluate_absolute [0x4008000000000000] LowerIsBetter 0x4010000000000000
     (fresh_record first_fpu (absolute_latency 0x4010000000000000) (select_trials (cq_candidate sample_request) (Name ''latency'')))"
  have ev: "evaluate_metric first_fpu (absolute_latency 0x4010000000000000) (cq_candidate sample_request) None policy rep es ws
      = Some (m, ws)" for policy rep es ws
    by (simp add: evaluate_metric_def absolute_latency_def Let_def sel m_def)
  have m: "mc_disposition m = Some GatePass" "mc_intent m = Primary"
    using sel le
    by (auto simp: m_def evaluate_absolute_def fresh_record_def arithmetic_mean_def first_fpu_def finite_or_none_def
        three_finite dispose_def threshold_gate_def absolute_latency_def split: prod.splits)
  have "\<exists>rc. compare plain_ambient first_fpu sample_request \<lparr>co_seed = Some 0\<rparr> = Some rc \<and> rc_metrics rc = [m]"
  proof -
    have req: "candidate_metrics sample_request = [absolute_latency 0x4010000000000000]"
      "baseline_input sample_request = None" "ci_paired (cq_candidate sample_request) = None"
      by (simp_all add: sample_request_def baseline_input_def sample_input_def)
    have named: "request_named [absolute_latency 0x4010000000000000] (Name ''latency'') = Some (absolute_latency 0x4010000000000000)"
      by (simp add: request_named_def absolute_latency_def)
    show ?thesis
      by (simp add: compare_def Let_def req sample_names named unpaired_step_def ev MAX_RECEIPT_METRICS_def)
  qed
  with m show ?thesis by blast
qed

theorem receipt_covers_plan_witness:
  "\<exists>rc. compare plain_ambient first_fpu sample_request \<lparr>co_seed = Some 0\<rparr> = Some rc
     \<and> map mc_name (rc_metrics rc) = [Name ''latency'']"
proof -
  obtain rc where "compare plain_ambient first_fpu sample_request \<lparr>co_seed = Some 0\<rparr> = Some rc"
    using sample_compare by blast
  moreover from receipt_covers_plan [OF this] have "map mc_name (rc_metrics rc) = take 256 (metric_names (candidate_metrics sample_request))"
    by blast
  ultimately show ?thesis by (simp add: sample_request_def sample_names)
qed

theorem receipt_pass_iff_witness:
  "\<exists>rc. compare plain_ambient first_fpu sample_request \<lparr>co_seed = Some 0\<rparr> = Some rc
     \<and> rc_aggregate_verdict rc = Some VerdictPass"
proof -
  obtain rc m where rc: "compare plain_ambient first_fpu sample_request \<lparr>co_seed = Some 0\<rparr> = Some rc"
    and m: "rc_metrics rc = [m]" "mc_disposition m = Some GatePass" "mc_intent m = Primary"
    using sample_compare by blast
  have "gate_verdict m = Some VerdictPass" using m by (simp add: gate_verdict_def)
  then have "rc_aggregate_verdict rc = Some VerdictPass"
    using receipt_pass_iff [OF rc] m by (simp add: sample_request_def sample_input_def)
  with rc show ?thesis by blast
qed

theorem mismatch_never_gates_witness:
  "\<exists>rc m v. compare plain_ambient first_fpu sample_request \<lparr>co_seed = Some 0\<rparr> = Some rc
     \<and> rc_metrics rc = [m] \<and> decisive (mc_disposition m) \<and> mc_gate m = Some (Absolute v)"
proof -
  obtain rc m where rc: "compare plain_ambient first_fpu sample_request \<lparr>co_seed = Some 0\<rparr> = Some rc"
    and m: "rc_metrics rc = [m]" "mc_disposition m = Some GatePass"
    using sample_compare by blast
  have d: "decisive (mc_disposition m)" using m by (simp add: decisive_def)
  have "m \<in> set (rc_metrics rc)" "cq_baseline sample_request = None" using m by (simp_all add: sample_request_def)
  with mismatch_never_gates [OF rc _ d] rc m d show ?thesis by blast
qed

theorem paired_receipt_witness:
  "\<exists>rc. compare_paired plain_ambient first_fpu ''run.eggb'' (cq_candidate sample_request) \<lparr>co_seed = None\<rparr> = Some rc
     \<and> map mc_name (rc_metrics rc) = [Name ''latency''] \<and> mc_disposition ` set (rc_metrics rc) \<subseteq> {Some GateInvalid}"
proof -
  let ?x = "cq_candidate sample_request"
  have "network_path_summary plain_ambient ?x \<noteq> None"
    by (simp add: network_path_summary_def sample_request_def sample_resolved_def)
  then obtain rep where rep: "evaluate_comparability plain_ambient ?x ?x = Some rep"
    using evaluate_comparability_None compare_driver_cases(1) by (metis option.exhaust)
  have req: "rp_metrics (ci_resolved ?x) = [absolute_latency 0x4010000000000000]" "paired_design_of ?x = None"
    by (simp_all add: sample_request_def paired_design_of_def sample_input_def)
  have named: "request_named [absolute_latency 0x4010000000000000] (Name ''latency'') = Some (absolute_latency 0x4010000000000000)"
    by (simp add: request_named_def absolute_latency_def)
  have "compare_paired plain_ambient first_fpu ''run.eggb'' ?x \<lparr>co_seed = None\<rparr> \<noteq> None"
    by (simp add: compare_paired_def Let_def rep req sample_names named paired_step_def MAX_RECEIPT_METRICS_def)
  then obtain rc where rc: "compare_paired plain_ambient first_fpu ''run.eggb'' ?x \<lparr>co_seed = None\<rparr> = Some rc" by blast
  from paired_receipt [OF rc] rc show ?thesis by (auto simp: req sample_names)
qed

end
