(* ===== verification/Host.thy ===== *)
theory Host
  imports BTree
begin

text \<open>
  Effects of the runner.  The runner is asynchronous code over processes, clocks and
  cancellation tokens.  An effectful computation takes a state of the outside world and gives
  its result with the next state; \<open>None\<close> means that the code panics or never returns, so that
  returning is a theorem and not a convention.  The type of worlds is a parameter
  throughout: whatever the outside answers, including in which order a \<open>select!\<close> resolves, is
  what some world answers.

  \<open>always P m\<close> holds when every result of \<open>m\<close>, from every world, satisfies \<open>P\<close>; its rules
  follow the structure of a computation.  \<open>returns m\<close> holds when \<open>m\<close> gives a result from every
  world.
\<close>

type_synonym ('w, 'a) io = "'w \<Rightarrow> ('a \<times> 'w) option"

definition yields :: "'a \<Rightarrow> ('w, 'a) io" where
  "yields x w = Some (x, w)"

definition andthen :: "('w, 'a) io \<Rightarrow> ('a \<Rightarrow> ('w, 'b) io) \<Rightarrow> ('w, 'b) io" where
  "andthen m f w = (case m w of None \<Rightarrow> None | Some (x, w') \<Rightarrow> f x w')"

definition ask :: "('w \<Rightarrow> 'a \<times> 'w) \<Rightarrow> ('w, 'a) io" where
  "ask f w = Some (f w)"

definition panics :: "('w, 'a) io" where
  "panics w = None"

definition always :: "('a \<Rightarrow> bool) \<Rightarrow> ('w, 'a) io \<Rightarrow> bool" where
  "always P m \<longleftrightarrow> (\<forall>w a w'. m w = Some (a, w') \<longrightarrow> P a)"

definition returns :: "('w, 'a) io \<Rightarrow> bool" where
  "returns m \<longleftrightarrow> (\<forall>w. \<exists>r. m w = Some r)"

named_theorems io_rules "rules of always, by the structure of the computation"

lemma always_yields [io_rules]: "always P (yields x) \<longleftrightarrow> P x"
  by (simp add: always_def yields_def)

lemma always_panics [io_rules]: "always P panics"
  by (simp add: always_def panics_def)

lemma always_True [io_rules]: "always (\<lambda>x. True) m"
  by (simp add: always_def)

lemma always_ask: "(\<And>x. P x) \<Longrightarrow> always P (ask f)"
  by (simp add: always_def ask_def)

lemma always_andthen: "always Q m \<Longrightarrow> (\<And>x. Q x \<Longrightarrow> always P (f x)) \<Longrightarrow> always P (andthen m f)"
  by (fastforce simp: always_def andthen_def split: option.splits)

lemma always_andthen_all: "(\<And>x. always P (f x)) \<Longrightarrow> always P (andthen m f)"
  by (fastforce simp: always_def andthen_def split: option.splits)

lemma always_mono: "always Q m \<Longrightarrow> (\<And>x. Q x \<Longrightarrow> P x) \<Longrightarrow> always P m"
  by (auto simp: always_def)

lemma always_conj: "always P m \<Longrightarrow> always Q m \<Longrightarrow> always (\<lambda>x. P x \<and> Q x) m"
  by (auto simp: always_def)

lemma always_D: "always P m \<Longrightarrow> m w = Some (x, w') \<Longrightarrow> P x"
  by (auto simp: always_def)

lemma andthen_yields [simp]: "andthen (yields x) f = f x"
  by (rule ext) (simp add: andthen_def yields_def)

lemma returns_yields [io_rules]: "returns (yields x)"
  by (simp add: returns_def yields_def)

lemma returns_ask [io_rules]: "returns (ask f)"
  by (simp add: returns_def ask_def)

lemma returns_andthen [io_rules]: "returns m \<Longrightarrow> (\<And>x. returns (f x)) \<Longrightarrow> returns (andthen m f)"
  by (fastforce simp: returns_def andthen_def split: option.splits)

lemma returns_andthen_where:
  "returns m \<Longrightarrow> always Q m \<Longrightarrow> (\<And>x. Q x \<Longrightarrow> returns (f x)) \<Longrightarrow> returns (andthen m f)"
  unfolding returns_def always_def andthen_def
  by (metis (mono_tags, lifting) case_prod_conv option.simps(5) surj_pair)

lemma returns_D: "returns m \<Longrightarrow> \<exists>x w'. m w = Some (x, w')"
  unfolding returns_def by (metis surj_pair)

end
