(* ===== verification/Bindings.thy ===== *)
theory Bindings
  imports SpawnPlan
begin

text \<open>
  The runtime bindings of \<open>eggbench-runner/src/service.rs\<close>: connection facts that services
  publish once they are ready, and the entries of the runtime topology evidence.
\<close>

record RuntimeBindings =
  bound_services :: "(string, (string, string) BTreeMap) BTreeMap"

definition no_bindings :: RuntimeBindings where
  "no_bindings = \<lparr>bound_services = []\<rparr>"

definition service_bindings :: "RuntimeBindings \<Rightarrow> string \<Rightarrow> (string, string) BTreeMap option" where
  "service_bindings b service = bt_get (bound_services b) service"

definition binding_get :: "RuntimeBindings \<Rightarrow> string \<Rightarrow> string \<Rightarrow> string option" where
  "binding_get b service key =
    (case bt_get (bound_services b) service of None \<Rightarrow> None | Some m \<Rightarrow> bt_get m key)"

definition binding_iter :: "RuntimeBindings \<Rightarrow> (string \<times> string \<times> string) list" where
  "binding_iter b = concat (map (\<lambda>(service, m). map (\<lambda>(key, v). (service, key, v)) m) (bound_services b))"

definition bindings_is_empty :: "RuntimeBindings \<Rightarrow> bool" where
  "bindings_is_empty b = list_all (\<lambda>m. snd m = []) (bound_services b)"

definition well_formed_key :: "string \<Rightarrow> bool" where
  "well_formed_key key \<longleftrightarrow> is_ok (Name_new key) \<and> \<not> has_whitespace key \<and> CHR ''/'' \<notin> set key"

definition well_formed_value :: "string \<Rightarrow> bool" where
  "well_formed_value v \<longleftrightarrow> length v \<le> 4096 \<and> \<not> has_control v"

definition bound_map :: "RuntimeBindings \<Rightarrow> string \<Rightarrow> (string, string) BTreeMap" where
  "bound_map b service = (case bt_get (bound_services b) service of None \<Rightarrow> [] | Some m \<Rightarrow> m)"

definition put_binding :: "string \<Rightarrow> string \<Rightarrow> string \<Rightarrow> RuntimeBindings \<Rightarrow> RuntimeBindings" where
  "put_binding service key v b =
     b \<lparr>bound_services := bt_insert service (bt_insert key v (bound_map b service)) (bound_services b)\<rparr>"

definition binding_insert ::
  "string \<Rightarrow> string \<Rightarrow> string \<Rightarrow> RuntimeBindings \<Rightarrow> string + RuntimeBindings" where
  "binding_insert service key v b =
    (if \<not> is_ok (Name_new service) then Err ''binding service name is not well-formed''
     else if \<not> well_formed_key key then Err ''binding key is not well-formed''
     else if \<not> well_formed_value v then Err ''binding value is not well-formed''
     else if (case bt_get (bound_services b) service of None \<Rightarrow> False
         | Some m \<Rightarrow> 64 \<le> length m \<and> \<not> bt_contains m key)
       then Err ''service runtime binding count exceeds limit''
     else Ok (put_binding service key v b))"

fun merge_entries :: "(string \<times> string \<times> string) list \<Rightarrow> RuntimeBindings \<Rightarrow> RuntimeBindings" where
  "merge_entries [] b = b"
| "merge_entries ((service, key, v) # es) b =
    merge_entries es (if bt_contains (bound_map b service) key
      then b \<lparr>bound_services := bt_insert service (bound_map b service) (bound_services b)\<rparr>
      else put_binding service key v b)"

definition merge_bindings :: "RuntimeBindings \<Rightarrow> RuntimeBindings \<Rightarrow> RuntimeBindings" where
  "merge_bindings b other = merge_entries (binding_iter other) b"

fun merge_checked_entries ::
  "(string \<times> string \<times> string) list \<Rightarrow> RuntimeBindings \<Rightarrow> (string + unit) \<times> RuntimeBindings" where
  "merge_checked_entries [] b = (Ok (), b)"
| "merge_checked_entries ((service, key, v) # es) b =
    (case binding_get b service key of
       Some existing \<Rightarrow>
         if existing \<noteq> v then (Err (''conflicting runtime binding '' @ service @ ''.'' @ key), b)
         else merge_checked_entries es b
     | None \<Rightarrow>
         (case binding_insert service key v b of
            Err e \<Rightarrow> (Err e, b)
          | Ok b' \<Rightarrow> merge_checked_entries es b'))"

text \<open>The map is changed in place: the entries before a conflict stay merged.\<close>

definition merge_checked :: "RuntimeBindings \<Rightarrow> RuntimeBindings \<Rightarrow> (string + unit) \<times> RuntimeBindings" where
  "merge_checked b other = merge_checked_entries (binding_iter other) b"

fun publish_entries :: "string \<Rightarrow> (string \<times> string) list \<Rightarrow> RuntimeBindings \<Rightarrow>
    (RunnerError + unit) \<times> RuntimeBindings" where
  "publish_entries identity [] b = (Ok (), b)"
| "publish_entries identity ((key, v) # es) b =
    (case binding_insert identity key v b of
       Err _ \<Rightarrow> (Err InvalidPlan, b)
     | Ok b' \<Rightarrow> publish_entries identity es b')"

definition publish_spec_bindings ::
  "string \<Rightarrow> string option \<Rightarrow> (string, string) BTreeMap \<Rightarrow> RuntimeBindings \<Rightarrow>
     (RunnerError + unit) \<times> RuntimeBindings" where
  "publish_spec_bindings identity legacy bs b =
     publish_entries identity ((case legacy of None \<Rightarrow> [] | Some url \<Rightarrow> [(''http_url'', url)]) @ bs) b"

definition declare_service_bindings ::
  "Service \<Rightarrow> RuntimeBindings \<Rightarrow> (RunnerError + unit) \<times> RuntimeBindings" where
  "declare_service_bindings s b =
     publish_spec_bindings (as_str (svc_name s)) (http_url s) (static_bindings s) b"

section \<open>Topology evidence\<close>

datatype ServiceOwnership = OwnedProcess | OwnedAdapter | ObservedExternal

record ServiceTopologyEntry =
  topo_identity :: string
  topo_ownership :: ServiceOwnership
  topo_service_type :: "string option"
  topo_bindings :: "(string, string) BTreeMap"

record BindingConsumption =
  consumer :: string
  destination_kind :: string
  destination :: string
  source_service :: string
  source_key :: string
  value_sha256 :: string
  value_in_public_topology :: bool

definition RUNTIME_TOPOLOGY_SCHEMA_VERSION :: SchemaVersion where
  "RUNTIME_TOPOLOGY_SCHEMA_VERSION = SchemaVersion 2"

record RuntimeTopology =
  topo_schema_version :: SchemaVersion
  topo_services :: "ServiceTopologyEntry list"
  topo_binding_consumptions :: "BindingConsumption list"

section \<open>What the bindings satisfy\<close>

text \<open>Every published binding has a well-formed name and a bounded value, and no service has
  more than 64.\<close>

definition entry_ok :: "(string, string) BTreeMap \<Rightarrow> bool" where
  "entry_ok m \<longleftrightarrow> bt_ok m \<and> length m \<le> 64
     \<and> (\<forall>e \<in> set m. well_formed_key (fst e) \<and> well_formed_value (snd e))"

definition bindings_ok :: "RuntimeBindings \<Rightarrow> bool" where
  "bindings_ok b \<longleftrightarrow> bt_ok (bound_services b)
     \<and> (\<forall>e \<in> set (bound_services b). is_ok (Name_new (fst e)) \<and> entry_ok (snd e))"

lemma bindings_ok_empty [simp]: "bindings_ok no_bindings"
  by (simp add: bindings_ok_def no_bindings_def)

lemma length_bt_insert_le:
  "bt_ok m \<Longrightarrow> length (bt_insert k v m) = (if bt_contains m k then length m else Suc (length m))"
proof (induction m)
  case (Cons e m)
  then show ?case by (fastforce simp: bt_contains_def bt_ok_Cons)
qed (simp add: bt_contains_def)

lemma bindings_ok_map: "bindings_ok b \<Longrightarrow> entry_ok (bound_map b service)"
  by (fastforce simp: bindings_ok_def bound_map_def bt_get_def entry_ok_def [of "[]"] split: option.splits dest: map_of_SomeD)

lemma binding_insert_Ok:
  assumes "binding_insert service key v b = Ok b'"
  shows "b' = put_binding service key v b \<and> is_ok (Name_new service) \<and> well_formed_key key
    \<and> well_formed_value v \<and> (bt_contains (bound_map b service) key \<or> length (bound_map b service) < 64)"
  using assms by (auto simp: binding_insert_def bound_map_def split: if_splits option.splits)

lemma entry_ok_insert:
  assumes "entry_ok m" and "well_formed_key key" and "well_formed_value v"
    and "bt_contains m key \<or> length m < 64"
  shows "entry_ok (bt_insert key v m)"
  using assms
  by (auto simp: entry_ok_def bt_ok_insert length_bt_insert_le dest: bt_insert_entry)

lemma binding_insert_keeps_ok:
  assumes ok: "bindings_ok b" and ins: "binding_insert service key v b = Ok b'"
  shows "bindings_ok b'"
  using ok binding_insert_Ok [OF ins] entry_ok_insert [OF bindings_ok_map [OF ok, of service]]
  by (auto simp: bindings_ok_def put_binding_def bt_ok_insert dest!: bt_insert_entry)

lemma binding_get_put:
  assumes "bindings_ok b"
  shows "binding_get (put_binding service key v b) s k =
    (if s = service \<and> k = key then Some v else binding_get b s k)"
proof -
  have "bt_ok (bound_services b)" "bt_ok (bound_map b service)"
    using assms bindings_ok_map [OF assms] by (auto simp: bindings_ok_def entry_ok_def)
  then show ?thesis
    by (auto simp: binding_get_def put_binding_def bt_get_insert bound_map_def split: option.splits)
qed

lemma merge_checked_entries_keeps:
  assumes "bindings_ok b" and "merge_checked_entries es b = (r, b')"
  shows "bindings_ok b' \<and> (\<forall>s k v. binding_get b s k = Some v \<longrightarrow> binding_get b' s k = Some v)
    \<and> (r = Ok () \<longrightarrow> (\<forall>(s, k, v) \<in> set es. binding_get b' s k = Some v))"
  using assms
proof (induction es arbitrary: b)
  case Nil
  then show ?case by simp
next
  case (Cons e es)
  obtain s k v where e: "e = (s, k, v)" by (cases e)
  show ?case
  proof (cases "binding_get b s k")
    case (Some existing)
    with Cons e show ?thesis by (auto split: if_splits)
  next
    case None
    show ?thesis
    proof (cases "binding_insert s k v b")
      case (Inl m)
      with Cons.prems None e show ?thesis by auto
    next
      case (Inr b1)
      have ok1: "bindings_ok b1" using binding_insert_keeps_ok [OF Cons.prems(1) Inr] .
      have get1: "binding_get b1 s' k' = (if s' = s \<and> k' = k then Some v else binding_get b s' k')" for s' k'
        using binding_insert_Ok [OF Inr] binding_get_put [OF Cons.prems(1)] by simp
      from Cons.prems(2) None Inr e have "merge_checked_entries es b1 = (r, b')" by simp
      from Cons.IH [OF ok1 this] have ih: "bindings_ok b'"
        "\<And>s' k' u. binding_get b1 s' k' = Some u \<Longrightarrow> binding_get b' s' k' = Some u"
        "r = Ok () \<Longrightarrow> \<forall>(s', k', u) \<in> set es. binding_get b' s' k' = Some u"
        by auto
      have "binding_get b' s' k' = Some u" if "binding_get b s' k' = Some u" for s' k' u
        by (rule ih(2), cases "s' = s \<and> k' = k") (use that None in \<open>auto simp: get1\<close>)
      moreover have "binding_get b' s k = Some v" using ih(2) [of s k v] by (simp add: get1)
      ultimately show ?thesis using ih(1,3) e by auto
    qed
  qed
qed

lemma publish_entries_ok: "bindings_ok b \<Longrightarrow> bindings_ok (snd (publish_entries i es b))"
  by (induction i es b rule: publish_entries.induct)
    (auto split: sum.splits dest: binding_insert_keeps_ok)

lemma publish_spec_bindings_ok: "bindings_ok b \<Longrightarrow> bindings_ok (snd (publish_spec_bindings i l bs b))"
  by (simp add: publish_spec_bindings_def publish_entries_ok)

lemma merge_checked_ok: "bindings_ok b \<Longrightarrow> bindings_ok (snd (merge_checked b other))"
  using merge_checked_entries_keeps [of b "binding_iter other" "fst (merge_checked b other)"
      "snd (merge_checked b other)"]
  by (simp add: merge_checked_def)

end
