(* ===== verification/Session.thy ===== *)
theory Session
  imports Host Bindings BundleReader
begin

text \<open>
  \<open>LocalSession\<close> of \<open>eggbench-runner/src/session.rs\<close>: start managed services in launch
  order, wait for readiness, record events and publish bindings; stop them in reverse order.

  The outside is the record \<open>Host\<close>: the cancellation token, the monotonic clock and the
  timer of tokio, child processes, the \<open>PlatformAdapter\<close>, readiness probes and the registered
  service adapters, each a function on worlds.  A \<open>tokio::select!\<close> is one request whose reply
  says which branch won.  Times are nanoseconds.  A child process is known by a handle.

  Message texts of the standard library and of the host are the reply's text.
\<close>

section \<open>Constants and data\<close>

definition millis :: "nat \<Rightarrow> nat" where
  "millis n = n * 1000000"

definition POLL_INTERVAL :: nat where
  "POLL_INTERVAL = millis 10"

definition KILL_WAIT_LIMIT :: nat where
  "KILL_WAIT_LIMIT = millis 5000"

definition DRAIN_JOIN_LIMIT :: nat where
  "DRAIN_JOIN_LIMIT = millis 5000"

definition DRAIN_CHUNK_BYTES :: nat where
  "DRAIN_CHUNK_BYTES = 8 * 1024"

datatype LifecycleEventKind = Spawned | Ready | Stopping | Stopped

record LifecycleEvent =
  event_seq :: u64
  event_identity :: string
  event_kind :: LifecycleEventKind
  event_pid :: "u32 option"
  event_elapsed_ms :: u64

subsection \<open>Bounded output\<close>

record BoundedOutput =
  out_data :: string
  truncated :: bool
  retained_bytes :: u64
  dropped_bytes :: u64
  total_bytes :: u64

record ServiceLogs =
  log_stdout :: BoundedOutput
  log_stderr :: BoundedOutput

record SpoolState =
  spool_retained :: string
  spool_cap :: u64
  spool_dropped :: u64
  spool_total :: u64

definition spool_new :: "u64 \<Rightarrow> SpoolState" where
  "spool_new cap = \<lparr>spool_retained = [], spool_cap = cap, spool_dropped = 0, spool_total = 0\<rparr>"

definition spool_push :: "string \<Rightarrow> SpoolState \<Rightarrow> SpoolState" where
  "spool_push chunk s0 =
    (let s = s0 \<lparr>spool_total := spool_total s0 + of_nat (length chunk)\<rparr>;
         retained_so_far = of_nat (length (spool_retained s)) :: u64
     in if spool_cap s \<le> retained_so_far
        then s \<lparr>spool_dropped := spool_dropped s + of_nat (length chunk)\<rparr>
        else (let room = unat (spool_cap s - retained_so_far)
              in if length chunk \<le> room
                 then s \<lparr>spool_retained := spool_retained s @ chunk\<rparr>
                 else s \<lparr>spool_retained := spool_retained s @ take room chunk,
                         spool_dropped := spool_dropped s + of_nat (length chunk - room)\<rparr>))"

definition spool_snapshot :: "SpoolState \<Rightarrow> BoundedOutput" where
  "spool_snapshot s = \<lparr>out_data = spool_retained s, truncated = (0 < spool_dropped s),
     retained_bytes = of_nat (length (spool_retained s)), dropped_bytes = spool_dropped s,
     total_bytes = spool_total s\<rparr>"

text \<open>The drain task pushes every chunk that the pipe gives.\<close>

definition drained :: "string list \<Rightarrow> u64 \<Rightarrow> SpoolState" where
  "drained chunks cap = foldl (\<lambda>s c. spool_push c s) (spool_new cap) chunks"

subsection \<open>The host\<close>

datatype SpawnReply =
  SpawnRefused string
| SpawnedChild (child_handle: nat) (child_id: "u32 option") (has_stdout: bool) (has_stderr: bool)

datatype WaitReply = WaitError | StillRunning | ExitedWith string

datatype AdapterReply =
  AdapterCancelled
| AdapterFailed string
| AdapterStarted (adapter_handle: nat) (adapter_bindings: RuntimeBindings)

datatype ProbeReply = ProbeCancelled | ProbeReady | ProbeNotReady

record ProbeContext =
  ctx_service :: string
  ctx_pid :: "u32 option"
  ctx_alive :: bool
  ctx_http_url :: "string option"

record ServiceStartRequest =
  req_service :: string
  req_service_type :: string
  req_config :: "(string, string) BTreeMap"
  req_grace :: nat

record 'w Host =
  h_cancelled :: "'w \<Rightarrow> bool \<times> 'w"
  h_now :: "'w \<Rightarrow> nat \<times> 'w"
  h_sleep :: "nat \<Rightarrow> 'w \<Rightarrow> 'w"
  h_sleep_or_cancel :: "nat \<Rightarrow> 'w \<Rightarrow> bool \<times> 'w"
  h_spawn :: "ProcessSpec \<Rightarrow> 'w \<Rightarrow> SpawnReply \<times> 'w"
  h_try_wait :: "nat \<Rightarrow> 'w \<Rightarrow> WaitReply \<times> 'w"
  h_join_drain :: "nat \<Rightarrow> bool \<Rightarrow> nat \<Rightarrow> 'w \<Rightarrow> unit \<times> 'w"
  h_chunks :: "nat \<Rightarrow> bool \<Rightarrow> 'w \<Rightarrow> string list \<times> 'w"
  h_support :: PlatformSupport
  h_is_alive :: "u32 \<Rightarrow> 'w \<Rightarrow> bool \<times> 'w"
  h_terminate_group :: "u32 \<Rightarrow> 'w \<Rightarrow> (string + unit) \<times> 'w"
  h_kill_group :: "u32 \<Rightarrow> 'w \<Rightarrow> (string + unit) \<times> 'w"
  h_probe_registered :: "Name \<Rightarrow> bool"
  h_probe :: "Name \<Rightarrow> ProbeContext \<Rightarrow> nat \<Rightarrow> 'w \<Rightarrow> ProbeReply \<times> 'w"
  h_adapter_registered :: "string \<Rightarrow> bool"
  h_adapter_start :: "ServiceStartRequest \<Rightarrow> 'w \<Rightarrow> AdapterReply \<times> 'w"
  h_adapter_shutdown :: "nat \<Rightarrow> nat \<Rightarrow> 'w \<Rightarrow> (string + unit) \<times> 'w"
  h_sha256 :: "string \<Rightarrow> string"

subsection \<open>The session\<close>

record RunningProcess =
  run_spec :: ProcessSpec
  run_child :: nat
  run_pid :: u32
  run_drains :: "bool list"

record RunningAdapter =
  adp_identity :: string
  adp_service_type :: string
  adp_handle :: nat
  adp_bindings :: RuntimeBindings
  adp_grace :: nat

datatype RunningManagedService = ProcessService RunningProcess | AdapterService RunningAdapter

definition running_identity :: "RunningManagedService \<Rightarrow> string" where
  "running_identity s = (case s of ProcessService p \<Rightarrow> ps_identity (run_spec p) | AdapterService a \<Rightarrow> adp_identity a)"

definition running_pid :: "RunningManagedService \<Rightarrow> u32 option" where
  "running_pid s = (case s of ProcessService p \<Rightarrow> Some (run_pid p) | AdapterService a \<Rightarrow> None)"

record RetainedLogs =
  ret_identity :: string
  ret_child :: nat
  ret_cap :: u64

record LocalSession =
  spawn_plan :: SpawnPlan
  external :: "string list"
  running :: "RunningManagedService list"
  retained :: "RetainedLogs list"
  events :: "LifecycleEvent list"
  prepared_at :: nat
  next_seq :: u64
  bindings :: RuntimeBindings
  binding_consumptions :: "BindingConsumption list"

section \<open>Preparation and inspection\<close>

fun declare_external :: "Service list \<Rightarrow> RuntimeBindings \<Rightarrow> RunnerError + RuntimeBindings" where
  "declare_external [] b = Ok b"
| "declare_external (s # ss) b =
    (if svc_lifecycle s \<noteq> ExternalService then declare_external ss b
     else (case declare_service_bindings s b of
         (Err e, _) \<Rightarrow> Err e
       | (Ok _, b') \<Rightarrow> declare_external ss b'))"

definition session_prepare ::
  "ResolvedPlan \<Rightarrow> PrepareOptions \<Rightarrow> nat \<Rightarrow> (RunnerError + LocalSession) option" where
  "session_prepare rp opts now =
    (case prepare rp opts of
       None \<Rightarrow> None
     | Some (Err e) \<Rightarrow> Some (Err e)
     | Some (Ok sp) \<Rightarrow>
         (case declare_external (rp_topology rp) no_bindings of
            Err e \<Rightarrow> Some (Err e)
          | Ok b \<Rightarrow> Some (Ok \<lparr>spawn_plan = sp,
              external = map (\<lambda>s. as_str (svc_name s))
                (filter (\<lambda>s. svc_lifecycle s = ExternalService) (rp_topology rp)),
              running = [], retained = [], events = [], prepared_at = now, next_seq = 0,
              bindings = b, binding_consumptions = []\<rparr>)))"

definition spawn_order :: "LocalSession \<Rightarrow> string list" where
  "spawn_order s = order (spawn_plan s)"

definition session_teardown_order :: "LocalSession \<Rightarrow> string list" where
  "session_teardown_order s = teardown_order (spawn_plan s)"

definition is_running :: "LocalSession \<Rightarrow> bool" where
  "is_running s \<longleftrightarrow> running s \<noteq> []"

definition is_process_named :: "string \<Rightarrow> RunningManagedService \<Rightarrow> bool" where
  "is_process_named identity svc \<longleftrightarrow>
     (case svc of ProcessService p \<Rightarrow> ps_identity (run_spec p) = identity | AdapterService _ \<Rightarrow> False)"

definition is_adapter_named :: "string \<Rightarrow> RunningManagedService \<Rightarrow> bool" where
  "is_adapter_named identity svc \<longleftrightarrow>
     (case svc of AdapterService a \<Rightarrow> adp_identity a = identity | ProcessService _ \<Rightarrow> False)"

definition snapshot_of :: "'w Host \<Rightarrow> nat \<Rightarrow> u64 \<Rightarrow> ('w, ServiceLogs) io" where
  "snapshot_of h child cap =
     andthen (ask (h_chunks h child True)) (\<lambda>out.
     andthen (ask (h_chunks h child False)) (\<lambda>err.
       yields \<lparr>log_stdout = spool_snapshot (drained out cap), log_stderr = spool_snapshot (drained err cap)\<rparr>))"

definition logs :: "'w Host \<Rightarrow> string \<Rightarrow> LocalSession \<Rightarrow> ('w, ServiceLogs option) io" where
  "logs h identity s =
    (case find (is_process_named identity) (running s) of
       Some (ProcessService p) \<Rightarrow>
         andthen (snapshot_of h (run_child p) (ps_log_limit_bytes (run_spec p))) (\<lambda>l. yields (Some l))
     | _ \<Rightarrow>
         (case find (\<lambda>r. ret_identity r = identity) (retained s) of
            Some r \<Rightarrow> andthen (snapshot_of h (ret_child r) (ret_cap r)) (\<lambda>l. yields (Some l))
          | None \<Rightarrow> yields None))"

definition adapter_entry :: "LocalSession \<Rightarrow> string \<Rightarrow> ServiceTopologyEntry" where
  "adapter_entry s identity =
    (let live = (case find (is_adapter_named identity) (running s) of
           Some (AdapterService a) \<Rightarrow> Some a | _ \<Rightarrow> None)
     in \<lparr>topo_identity = identity, topo_ownership = OwnedAdapter,
         topo_service_type = (case adapter_of (spawn_plan s) identity of
             Some spec \<Rightarrow> Some (as_service_type spec)
           | None \<Rightarrow> map_option adp_service_type live),
         topo_bindings = (case Option.bind live (\<lambda>a. service_bindings (adp_bindings a) identity) of
             Some b \<Rightarrow> b
           | None \<Rightarrow> bound_map (bindings s) identity)\<rparr>)"

definition topology_entry :: "LocalSession \<Rightarrow> LaunchEntry \<Rightarrow> ServiceTopologyEntry" where
  "topology_entry s e =
    (case entry_kind e of
       LaunchProcess \<Rightarrow> \<lparr>topo_identity = entry_identity e, topo_ownership = OwnedProcess,
         topo_service_type = None, topo_bindings = bound_map (bindings s) (entry_identity e)\<rparr>
     | LaunchAdapter \<Rightarrow> adapter_entry s (entry_identity e))"

definition runtime_topology :: "LocalSession \<Rightarrow> RuntimeTopology" where
  "runtime_topology s =
    \<lparr>topo_schema_version = RUNTIME_TOPOLOGY_SCHEMA_VERSION,
     topo_services = map (topology_entry s) (launch_order (spawn_plan s))
       @ map (\<lambda>i. \<lparr>topo_identity = i, topo_ownership = ObservedExternal, topo_service_type = None,
           topo_bindings = bound_map (bindings s) i\<rparr>) (external s),
     topo_binding_consumptions = binding_consumptions s\<rparr>"

section \<open>Events\<close>

definition event_of :: "string \<Rightarrow> LifecycleEventKind \<Rightarrow> u32 option \<Rightarrow> nat \<Rightarrow> LocalSession \<Rightarrow> LifecycleEvent" where
  "event_of identity kind pid now s = \<lparr>event_seq = next_seq s, event_identity = identity,
     event_kind = kind, event_pid = pid,
     event_elapsed_ms = (let ms = (now - prepared_at s) div 1000000
       in if ms < 2 ^ 64 then of_nat ms else - 1)\<rparr>"

definition push_event ::
  "'w Host \<Rightarrow> string \<Rightarrow> LifecycleEventKind \<Rightarrow> u32 option \<Rightarrow> LocalSession \<Rightarrow> ('w, LocalSession) io" where
  "push_event h identity kind pid s =
     andthen (ask (h_now h)) (\<lambda>now.
       yields (s \<lparr>events := events s @ [event_of identity kind pid now s], next_seq := next_seq s + 1\<rparr>))"

section \<open>Stopping\<close>

partial_function (option) wait_for_child_exit ::
  "'w Host \<Rightarrow> nat \<Rightarrow> nat \<Rightarrow> nat \<Rightarrow> 'w \<Rightarrow> (bool \<times> 'w) option" where
  "wait_for_child_exit h child start limit w =
    (case h_try_wait h child w of (reply, w1) \<Rightarrow>
      (case reply of
         ExitedWith _ \<Rightarrow> Some (True, w1)
       | WaitError \<Rightarrow> Some (False, w1)
       | StillRunning \<Rightarrow>
           (case h_now h w1 of (now, w2) \<Rightarrow>
             if limit \<le> now - start then Some (False, w2)
             else wait_for_child_exit h child start limit (h_sleep h POLL_INTERVAL w2))))"

definition wait_child :: "'w Host \<Rightarrow> nat \<Rightarrow> nat \<Rightarrow> ('w, bool) io" where
  "wait_child h child limit =
     andthen (ask (h_now h)) (\<lambda>start. wait_for_child_exit h child start limit)"

fun join_drains :: "'w Host \<Rightarrow> nat \<Rightarrow> bool list \<Rightarrow> ('w, unit) io" where
  "join_drains h child [] = yields ()"
| "join_drains h child (d # ds) =
     andthen (ask (h_join_drain h child d DRAIN_JOIN_LIMIT)) (\<lambda>_. join_drains h child ds)"

definition stop_process :: "'w Host \<Rightarrow> RunningProcess \<Rightarrow> nat \<Rightarrow> ('w, string + unit) io" where
  "stop_process h p grace =
    (if h_support h = PlatformUnsupported
     then yields (Err ''managed descendant cleanup is unsupported on this platform'')
     else
       andthen (ask (h_terminate_group h (run_pid p))) (\<lambda>_.
       andthen (wait_child h (run_child p) grace) (\<lambda>exited.
         if exited then andthen (join_drains h (run_child p) (run_drains p)) (\<lambda>_. yields (Ok ()))
         else
           andthen (ask (h_kill_group h (run_pid p))) (\<lambda>killed.
             case killed of
               Err reason \<Rightarrow> yields (Err (''forced process-tree cleanup failed: '' @ reason))
             | Ok _ \<Rightarrow>
                 andthen (wait_child h (run_child p) KILL_WAIT_LIMIT) (\<lambda>exited.
                   if exited then andthen (join_drains h (run_child p) (run_drains p)) (\<lambda>_. yields (Ok ()))
                   else yields (Err (''process '' @ show_dec (unat (run_pid p))
                     @ '' did not exit after forced cleanup'')))))))"

definition shutdown_grace :: "ProcessSpec \<Rightarrow> nat" where
  "shutdown_grace spec = (case ps_shutdown spec of
     None \<Rightarrow> millis (unat DEFAULT_GRACE_MS)
   | Some sd \<Rightarrow> millis (unat (duration_get (grace_ms sd))))"

definition retain_logs :: "RunningManagedService \<Rightarrow> LocalSession \<Rightarrow> LocalSession" where
  "retain_logs svc s = (case svc of
     ProcessService p \<Rightarrow> s \<lparr>retained := retained s @ [\<lparr>ret_identity = ps_identity (run_spec p),
       ret_child = run_child p, ret_cap = ps_log_limit_bytes (run_spec p)\<rparr>]\<rparr>
   | AdapterService _ \<Rightarrow> s)"

definition stop_service :: "'w Host \<Rightarrow> RunningManagedService \<Rightarrow> ('w, string + unit) io" where
  "stop_service h svc = (case svc of
     ProcessService p \<Rightarrow> stop_process h p (shutdown_grace (run_spec p))
   | AdapterService a \<Rightarrow> ask (h_adapter_shutdown h (adp_handle a) (adp_grace a)))"

record ShutdownReport =
  stopped_order :: "string list"
  shutdown_failures :: "CleanupFailure list"

text \<open>The services of the list are popped one after the other; the list is \<open>running\<close> from
  its end.\<close>

fun stop_all ::
  "'w Host \<Rightarrow> RunningManagedService list \<Rightarrow> ShutdownReport \<Rightarrow> LocalSession
    \<Rightarrow> ('w, ShutdownReport \<times> LocalSession) io" where
  "stop_all h [] rep s = yields (rep, s)"
| "stop_all h (svc # rest) rep s =
    (let identity = running_identity svc; pid = running_pid svc
     in andthen (push_event h identity Stopping pid (s \<lparr>running := rev rest\<rparr>)) (\<lambda>s1.
        andthen (stop_service h svc) (\<lambda>result.
        andthen (push_event h identity Stopped pid s1) (\<lambda>s2.
          stop_all h rest
            \<lparr>stopped_order = stopped_order rep @ [identity],
             shutdown_failures = shutdown_failures rep @ (case result of
               Err reason \<Rightarrow> [\<lparr>cleanup_service = identity, cleanup_reason = reason\<rparr>] | Ok _ \<Rightarrow> [])\<rparr>
            (retain_logs svc s2)))))"

definition session_shutdown :: "'w Host \<Rightarrow> LocalSession \<Rightarrow> ('w, ShutdownReport \<times> LocalSession) io" where
  "session_shutdown h s =
     stop_all h (rev (running s)) \<lparr>stopped_order = [], shutdown_failures = []\<rparr> s"

definition teardown_running :: "'w Host \<Rightarrow> LocalSession \<Rightarrow> ('w, CleanupFailure list \<times> LocalSession) io" where
  "teardown_running h s =
     andthen (stop_all h (rev (running s)) \<lparr>stopped_order = [], shutdown_failures = []\<rparr> s)
       (\<lambda>(rep, s'). yields (shutdown_failures rep, s'))"

end
