(* ===== verification/Contracts.thy ===== *)
theory Contracts
  imports Metrics Seeds Session Verdicts
begin

text \<open>
  What the one-shot executors hand to the runner and what is kept of it: the sanitized
  security result and its index (\<open>eggbench-core/src/security.rs\<close>), diagnostic and correctness
  outputs and records (\<open>diagnostics.rs\<close>, \<open>correctness.rs\<close> of \<open>eggbench-runner\<close>) and the
  telemetry seam (\<open>telemetry.rs\<close>).  Registries are lists of source labels, since what an
  executor does is the outside's reply.
\<close>

section \<open>Security results\<close>

definition SECURITY_CHECKS_INDEX_SCHEMA :: u32 where
  "SECURITY_CHECKS_INDEX_SCHEMA = 1"
definition SECURITY_CHECK_RESULT_SCHEMA :: u32 where
  "SECURITY_CHECK_RESULT_SCHEMA = 1"
definition EGGSEC_WAF_DRIVER_NAME :: string where
  "EGGSEC_WAF_DRIVER_NAME = ''eggsec-waf''"
definition CORRECTNESS_ADAPTER_SEMANTIC_VERSION :: string where
  "CORRECTNESS_ADAPTER_SEMANTIC_VERSION = ''1''"

datatype SecurityDisposition = SecurityPass | SecurityFail | SecurityInvalid

fun disposition_str :: "SecurityDisposition \<Rightarrow> string" where
  "disposition_str SecurityPass = ''pass''"
| "disposition_str SecurityFail = ''fail''"
| "disposition_str SecurityInvalid = ''invalid''"

record SanitizedSecurityCase =
  sc_technique :: string
  sc_severity_label :: string
  sc_response_status :: u16
  sc_bypass_successful :: bool
  sc_payload_sha256 :: string

record SecurityCheckResultV1 =
  sr_schema_version :: SchemaVersion
  sr_id :: Name
  sr_source :: Name
  sr_target :: Name
  sr_test_type :: string
  sr_disposition :: SecurityDisposition
  sr_evaluated_cases :: u32
  sr_successful_bypasses :: u32
  sr_allowed_successful_bypasses :: u32
  sr_producer_version :: string
  sr_producer_sha256 :: string
  sr_scope_sha256 :: string
  sr_sanitized_cases :: "SanitizedSecurityCase list"

definition recomputed_disposition :: "u32 \<Rightarrow> u32 \<Rightarrow> u32 \<Rightarrow> SecurityDisposition" where
  "recomputed_disposition evaluated bypasses allowed =
    (if evaluated = 0 \<or> evaluated < bypasses then SecurityInvalid
     else if bypasses \<le> allowed then SecurityPass else SecurityFail)"

definition recomputed :: "SecurityCheckResultV1 \<Rightarrow> SecurityDisposition" where
  "recomputed r = recomputed_disposition (sr_evaluated_cases r) (sr_successful_bypasses r)
     (sr_allowed_successful_bypasses r)"

definition hex_digest :: "string \<Rightarrow> bool" where
  "hex_digest s \<longleftrightarrow> length s = 64 \<and> list_all is_ascii_hexdigit s"

definition bounded_text :: "nat \<Rightarrow> string \<Rightarrow> bool" where
  "bounded_text n s \<longleftrightarrow> s \<noteq> [] \<and> length s \<le> n"

definition validate_security_case :: "SanitizedSecurityCase \<Rightarrow> string + unit" where
  "validate_security_case c = checks
    [reject_if (\<not> bounded_text 128 (sc_technique c)) ''security result case technique is invalid'',
     reject_if (\<not> bounded_text 32 (sc_severity_label c)) ''security result case severity is invalid'',
     reject_if (\<not> hex_digest (sc_payload_sha256 c)) ''security result case payload digest is invalid'']"

definition validate_security_result :: "SecurityCheckResultV1 \<Rightarrow> string + unit" where
  "validate_security_result r = checks
    [reject_if (sr_schema_version r \<noteq> SchemaVersion SECURITY_CHECK_RESULT_SCHEMA)
       ''security result schema mismatch'',
     reject_if (as_str (sr_source r) \<noteq> SECURITY_SOURCE_EGGSEC_WAF) ''security result source mismatch'',
     reject_if (\<not> bounded_text 32 (sr_test_type r)
         \<or> \<not> list_all (\<lambda>c. is_ascii_lowercase c \<or> c = CHR ''_'') (sr_test_type r))
       ''security result test type is invalid'',
     reject_if (sr_evaluated_cases r = 0 \<or> MAX_SECURITY_CASES < sr_evaluated_cases r)
       ''security result evaluated case count is invalid'',
     reject_if (sr_evaluated_cases r < sr_successful_bypasses r)
       ''security result bypass count exceeds evaluated cases'',
     reject_if (MAX_SECURITY_CASES < sr_allowed_successful_bypasses r)
       ''security result allowance exceeds bound'',
     reject_if (length (sr_sanitized_cases r) \<noteq> unat (sr_evaluated_cases r))
       ''security result case projection length mismatch'',
     reject_if (recomputed r \<noteq> sr_disposition r)
       ''security result disposition disagrees with recomputation'',
     reject_if (\<not> bounded_text 128 (sr_producer_version r)) ''security result producer version is invalid'',
     reject_if (\<not> hex_digest (sr_producer_sha256 r)) ''security result producer digest is invalid'',
     reject_if (\<not> hex_digest (sr_scope_sha256 r)) ''security result scope digest is invalid'',
     for_each validate_security_case (sr_sanitized_cases r)]"

record SecurityCheckIndexRecord =
  si_id :: Name
  si_source :: Name
  si_target :: Name
  si_test_type :: string
  si_disposition :: string
  si_evaluated_cases :: u32
  si_successful_bypasses :: u32
  si_allowed_successful_bypasses :: u32
  si_artifact :: string
  si_artifact_sha256 :: string

record SecurityChecksIndex =
  sx_schema_version :: SchemaVersion
  sx_driver :: string
  sx_adapter_version :: string
  sx_executable_version :: string
  sx_executable_sha256 :: string
  sx_operation :: string
  sx_scope_sha256 :: string
  sx_lifecycle_placement :: string
  sx_checks :: "SecurityCheckIndexRecord list"

definition validate_security_index :: "SecurityChecksIndex \<Rightarrow> string + unit" where
  "validate_security_index x = checks
    [reject_if (sx_schema_version x \<noteq> SchemaVersion SECURITY_CHECKS_INDEX_SCHEMA)
       ''security index schema mismatch'',
     reject_if (sx_driver x \<noteq> EGGSEC_WAF_DRIVER_NAME) ''security index driver mismatch'',
     reject_if (\<not> bounded_text 128 (sx_adapter_version x)) ''security index adapter version is invalid'',
     reject_if (\<not> bounded_text 128 (sx_executable_version x)) ''security index executable version is invalid'',
     reject_if (length (sx_executable_sha256 x) \<noteq> 64) ''security index executable digest is invalid'',
     reject_if (\<not> bounded_text 256 (sx_operation x)) ''security index operation is invalid'',
     reject_if (length (sx_scope_sha256 x) \<noteq> 64) ''security index scope digest is invalid'',
     reject_if (\<not> bounded_text 128 (sx_lifecycle_placement x)) ''security index lifecycle placement is invalid'',
     reject_if (MAX_SECURITY_CHECKS < length (sx_checks x)) ''security index check count exceeds bound'']"

section \<open>Diagnostics\<close>

datatype FailureCategory =
  WorkloadFailed | TimedOut | CancelledByUser | ResetFailed | DrainFailed | StartupFailed
| TeardownFailed | TelemetryFailed | DiagnosticFailed | CorrectnessFailed

record DiagnosticContext =
  dc_diagnostic_id :: string
  dc_phase :: DiagnosticPhase
  dc_target :: string
  dc_probes :: "DiagnosticProbe list"
  dc_required :: bool
  dc_bindings :: RuntimeBindings
  dc_timeout :: nat

datatype DiagnosticDisposition = DiagPositive | DiagNegative | DiagFailed | DiagSkipped

record DiagnosticOutput =
  do_raw_report :: string
  do_disposition :: DiagnosticDisposition
  do_producer :: string
  do_producer_version :: string
  do_executable_sha256 :: string
  do_machine_schema :: string
  do_report_status :: string
  do_probe_statuses :: "(string \<times> string) list"
  do_warnings :: "string list"
  do_skipped_reason :: "string option"

record DiagnosticExecutionRecord =
  dr_id :: string
  dr_phase :: string
  dr_required :: bool
  dr_target :: string
  dr_probes :: "string list"
  dr_timeout_ms :: u64
  dr_disposition :: string
  dr_report_status :: string
  dr_artifact :: string
  dr_artifact_sha256 :: string
  dr_producer_version :: string
  dr_executable_sha256 :: string
  dr_machine_schema :: string
  dr_warnings :: "string list"
  dr_skipped_reason :: "string option"

record DiagnosticsIndex =
  dx_schema_version :: SchemaVersion
  dx_driver :: string
  dx_adapter_version :: string
  dx_executable_version :: string
  dx_executable_sha256 :: string
  dx_machine_schema :: string
  dx_executions :: "DiagnosticExecutionRecord list"

definition all_skipped :: "DiagnosticsIndex \<Rightarrow> bool" where
  "all_skipped x \<longleftrightarrow> dx_executions x \<noteq> [] \<and> list_all (\<lambda>e. dr_disposition e = ''skipped'') (dx_executions x)"

definition provenance_ok :: "DiagnosticsIndex \<Rightarrow> bool" where
  "provenance_ok x =
    (if all_skipped x
     then length (dx_executable_version x) \<le> 128
       \<and> (dx_executable_sha256 x = [] \<or> length (dx_executable_sha256 x) = 64)
     else dx_executable_version x \<noteq> [] \<and> length (dx_executable_version x) \<le> 128
       \<and> length (dx_executable_sha256 x) = 64)"

definition validate_diagnostics_index :: "DiagnosticsIndex \<Rightarrow> BundleError + unit" where
  "validate_diagnostics_index x = checks
    [reject_if (dx_schema_version x \<noteq> SchemaVersion 1) (InvalidManifest ''diagnostics index schema mismatch''),
     reject_if (dx_driver x \<noteq> ''eggprobe'' \<or> dx_adapter_version x = [] \<or> 128 < length (dx_adapter_version x)
         \<or> \<not> provenance_ok x \<or> dx_machine_schema x \<noteq> ''0.3'' \<or> 64 < length (dx_executions x))
       (InvalidManifest ''diagnostics index contract is invalid'')]"

definition diagnostics_role_label :: Name where
  "diagnostics_role_label = Name ''diagnostics''"

section \<open>Correctness checks\<close>

record CorrectnessContext =
  cc_check_id :: string
  cc_source :: string
  cc_target :: string
  cc_test_type :: string
  cc_max_successful_bypasses :: u32
  cc_concurrency :: u32
  cc_timeout_ms :: u64
  cc_bindings :: RuntimeBindings
  cc_timeout :: nat
  cc_http_corpus_request :: "HttpCorpusCheckRequest option"

datatype ObservedDisposition = ObservedPass | ObservedFail

record CorrectnessOutput =
  co_disposition :: ObservedDisposition
  co_sanitized_result :: string
  co_producer :: string
  co_producer_version :: string
  co_executable_sha256 :: string
  co_scope_sha256 :: string
  co_evaluated_cases :: u32
  co_successful_bypasses :: u32

record CorrectnessExecutionRecord =
  cr_id :: string
  cr_source :: string
  cr_target :: string
  cr_test_type :: string
  cr_disposition :: string
  cr_evaluated_cases :: u32
  cr_successful_bypasses :: u32
  cr_allowed_successful_bypasses :: u32
  cr_artifact :: string
  cr_artifact_sha256 :: string
  cr_producer_version :: string
  cr_executable_sha256 :: string
  cr_scope_sha256 :: string

definition correctness_timing_label :: string where
  "correctness_timing_label = ''correctness after readiness, outside measured intervals (not a benchmark metric)''"

definition security_role_label :: Name where
  "security_role_label = Name ''security''"

definition security_operation_label :: string where
  "security_operation_label = ''waf --json --bypass''"

section \<open>Telemetry\<close>

definition MAX_TELEMETRY_DETAIL_LEN :: nat where
  "MAX_TELEMETRY_DETAIL_LEN = 512"

datatype TelemetryError = TelemetryError (error_category: string) (error_detail: string)

definition TelemetryError_new :: "string \<Rightarrow> string \<Rightarrow> TelemetryError" where
  "TelemetryError_new kind text = TelemetryError kind (take_chars MAX_TELEMETRY_DETAIL_LEN text)"

definition telemetry_display :: "TelemetryError \<Rightarrow> string" where
  "telemetry_display e = error_category e @ '': '' @ error_detail e"

record WorkloadArtifact =
  wa_name :: string
  wa_media_type :: string
  wa_bytes :: string

record TelemetryOutput =
  to_artifacts :: "WorkloadArtifact list"
  to_metrics :: "RawMetricObservation list"
  to_warnings :: "MetricWarning list"

datatype TelemetryPreflightTiming = BeforeStartup | AfterReadiness

section \<open>Registries\<close>

text \<open>Executors and collectors in a registry, by their source label; a second one with the
  label of another is refused.\<close>

definition register :: "string \<Rightarrow> string \<Rightarrow> string list \<Rightarrow> string + string list" where
  "register what source known =
    (if source \<in> set known then Err (''duplicate '' @ what @ '' '' @ source) else Ok (known @ [source]))"

definition register_diagnostic :: "string \<Rightarrow> string list \<Rightarrow> string + string list" where
  "register_diagnostic = register ''diagnostic executor''"

definition register_correctness :: "string \<Rightarrow> string list \<Rightarrow> string + string list" where
  "register_correctness = register ''correctness executor''"

definition register_collector :: "string \<Rightarrow> string list \<Rightarrow> string + string list" where
  "register_collector = register ''telemetry collector''"

lemma register_distinct: "register what source known = Ok known' \<Longrightarrow> distinct known \<Longrightarrow> distinct known'"
  by (auto simp: register_def split: if_splits)

section \<open>What a valid security result promises\<close>

definition bypass_count :: "SecurityCheckResultV1 \<Rightarrow> nat" where
  "bypass_count r = length (filter sc_bypass_successful (sr_sanitized_cases r))"

text \<open>
  C33: A sanitized security result that passes its contract is never \<open>Invalid\<close>, has between one
  and 1024 cases with exactly one projected case for each, and its stored disposition is
  \<open>Pass\<close> exactly when the reported bypasses are within the allowance of the plan.
\<close>

theorem valid_security_result:
  assumes "validate_security_result r = Ok ()"
  shows "sr_disposition r \<noteq> SecurityInvalid
    \<and> 1 \<le> length (sr_sanitized_cases r) \<and> length (sr_sanitized_cases r) \<le> 1024
    \<and> length (sr_sanitized_cases r) = unat (sr_evaluated_cases r)
    \<and> sr_successful_bypasses r \<le> sr_evaluated_cases r
    \<and> (sr_disposition r = SecurityPass \<longleftrightarrow> sr_successful_bypasses r \<le> sr_allowed_successful_bypasses r)"
proof -
  have ok: "sr_evaluated_cases r \<noteq> 0" "sr_evaluated_cases r \<le> 1024"
    "sr_successful_bypasses r \<le> sr_evaluated_cases r"
    "length (sr_sanitized_cases r) = unat (sr_evaluated_cases r)"
    "recomputed r = sr_disposition r"
    using assms by (auto simp: validate_security_result_def ok_simps MAX_SECURITY_CASES_def)
  have "unat (sr_evaluated_cases r) \<le> 1024"
    using ok(2) by (simp add: word_le_nat_alt)
  moreover have "1 \<le> unat (sr_evaluated_cases r)"
    using ok(1) by (simp add: unat_gt_0 Suc_le_eq)
  ultimately show ?thesis
    using ok by (auto simp: recomputed_def recomputed_disposition_def split: if_splits)
qed

definition sample_case :: SanitizedSecurityCase where
  "sample_case = \<lparr>sc_technique = ''encoding'', sc_severity_label = ''high'', sc_response_status = 200,
     sc_bypass_successful = True, sc_payload_sha256 = replicate 64 (CHR ''a'')\<rparr>"

definition sample_security_result :: SecurityCheckResultV1 where
  "sample_security_result = \<lparr>sr_schema_version = SchemaVersion 1, sr_id = Name ''waf'',
     sr_source = Name ''eggsec-waf'', sr_target = Name ''edge'', sr_test_type = ''sqli'',
     sr_disposition = SecurityPass, sr_evaluated_cases = 1, sr_successful_bypasses = 0,
     sr_allowed_successful_bypasses = 0, sr_producer_version = ''1.0'',
     sr_producer_sha256 = replicate 64 (CHR ''b''), sr_scope_sha256 = replicate 64 (CHR ''c''),
     sr_sanitized_cases = [sample_case]\<rparr>"

lemmas security_result_eval = validate_security_result_def validate_security_case_def
  sample_security_result_def sample_case_def ok_simps SECURITY_CHECK_RESULT_SCHEMA_def
  SECURITY_SOURCE_EGGSEC_WAF_def MAX_SECURITY_CASES_def bounded_text_def hex_digest_def
  recomputed_def recomputed_disposition_def list_all_length is_ascii_lowercase_def byte_def
  is_ascii_hexdigit_def is_ascii_digit_def

lemma sample_security_result_valid: "validate_security_result sample_security_result = Ok ()"
  by (simp add: security_result_eval nth_Cons' less_Suc_eq del: for_each_simps)

theorem valid_security_result_witness:
  "sr_disposition sample_security_result \<noteq> SecurityInvalid"
  using valid_security_result [OF sample_security_result_valid] by blast

text \<open>
  The contract does not tie the reported bypass count to the projected cases: a result that
  reports no bypass and the disposition \<open>Pass\<close>, while the only case it projects is a successful
  bypass, is valid.
\<close>

theorem security_result_count_unchecked:
  "\<exists>r. validate_security_result r = Ok () \<and> sr_disposition r = SecurityPass
     \<and> sr_successful_bypasses r = 0 \<and> sr_allowed_successful_bypasses r = 0 \<and> 0 < bypass_count r"
  by (rule exI [of _ sample_security_result])
    (simp add: sample_security_result_valid, simp add: sample_security_result_def sample_case_def bypass_count_def)

end
