(* ===== verification/Qualification.thy ===== *)
theory Qualification
  imports Contracts PlanValidate Gates "HOL-Library.Multiset"
begin

text \<open>
  The inputs and results of a security qualification
  (\<open>eggbench-core/src/qualification.rs\<close>): profiles, HTTP corpora and their validation, the
  sanitized corpus result, and the aggregation of scenario verdicts.  Paths and contents are in
  \<open>ContentTrees\<close>.
\<close>

section \<open>Limits\<close>

definition CONTENT_TREE_MAX_FILES :: nat where
  "CONTENT_TREE_MAX_FILES = 1024"
definition CONTENT_TREE_MAX_FILE_BYTES :: u64 where
  "CONTENT_TREE_MAX_FILE_BYTES = 8 * 1024 * 1024"
definition CONTENT_TREE_MAX_TOTAL_BYTES :: u64 where
  "CONTENT_TREE_MAX_TOTAL_BYTES = 64 * 1024 * 1024"
definition MAX_PROFILE_BYTES :: u64 where
  "MAX_PROFILE_BYTES = 1024 * 1024"
definition MAX_CORPUS_BYTES :: u64 where
  "MAX_CORPUS_BYTES = 8 * 1024 * 1024"
definition MAX_PLAN_BYTES :: u64 where
  "MAX_PLAN_BYTES = 4 * 1024 * 1024"

section \<open>Profiles and corpora\<close>

record QualificationScenarioRef =
  qs_id :: string
  qs_plan :: string
  qs_baseline_bundle :: "string option"
  qs_workload_driver :: "string option"

record SecurityQualificationProfileV1 =
  qp_schema_version :: u32
  qp_id :: string
  qp_owner :: string
  qp_scenarios :: "QualificationScenarioRef list"
  qp_corpus :: string
  qp_target_config :: string

datatype HttpCaseBodyV1 = NoBody | InlineUtf8 string | BodyFile string

datatype HttpObservableExpectationV1 = ExactStatus u16 | AnyOfStatus "u16 list"

record HttpCaseRequestV1 =
  hq_method :: string
  hq_path_and_query :: string
  hq_headers :: "(string \<times> string) list"
  hq_body :: HttpCaseBodyV1

record HttpSecurityCaseV1 =
  hc_id :: string
  hc_category :: "string option"
  hc_request :: HttpCaseRequestV1
  hc_expectation :: HttpObservableExpectationV1

record HttpSecurityCorpusV1 =
  hs_schema_version :: u32
  hs_owner :: string
  hs_corpus_id :: string
  hs_cases :: "HttpSecurityCaseV1 list"

fun expectation_matches :: "HttpObservableExpectationV1 \<Rightarrow> u16 \<Rightarrow> bool" where
  "expectation_matches (ExactStatus e) status \<longleftrightarrow> status = e"
| "expectation_matches (AnyOfStatus es) status \<longleftrightarrow> status \<in> set es"

definition http_status :: "u16 \<Rightarrow> bool" where
  "http_status s \<longleftrightarrow> 100 \<le> s \<and> s \<le> 599"

fun expectation_valid :: "HttpObservableExpectationV1 \<Rightarrow> bool" where
  "expectation_valid (ExactStatus e) \<longleftrightarrow> http_status e"
| "expectation_valid (AnyOfStatus es) \<longleftrightarrow> es \<noteq> [] \<and> length es \<le> 32 \<and> list_all http_status es"

section \<open>Small validators\<close>

datatype QualificationInputError =
  InputInvalid string | InputUnsafePath string | InputBound string | InputIo
| InputPlan PlanError | InputJson

text \<open>The components are all normal when the path does not start at the root or with \<open>.\<close> and
  none is \<open>..\<close>.\<close>

definition relative_path :: "string \<Rightarrow> bool" where
  "relative_path s \<longleftrightarrow> s \<noteq> [] \<and> \<not> path_is_absolute s \<and> length s \<le> 512
     \<and> hd (split_char CHR ''/'' s) \<noteq> ''.'' \<and> ''..'' \<notin> set (path_components s)"

definition validate_relative :: "string \<Rightarrow> QualificationInputError + unit" where
  "validate_relative s = reject_if (\<not> relative_path s) (InputUnsafePath s)"

definition validate_name :: "string \<Rightarrow> QualificationInputError + unit" where
  "validate_name s = reject_if (s = [] \<or> 64 < length s
     \<or> \<not> list_all (\<lambda>b. is_ascii_alphanumeric b \<or> b = CHR ''-'' \<or> b = CHR ''_'' \<or> b = CHR ''.'') s)
     (InputInvalid ''invalid name'')"

definition validate_text :: "string \<Rightarrow> nat \<Rightarrow> string \<Rightarrow> QualificationInputError + unit" where
  "validate_text s limit label = reject_if (s = [] \<or> limit < length s \<or> has_control s)
     (InputInvalid (''invalid '' @ label))"

definition is_token :: "char \<Rightarrow> bool" where
  "is_token b \<longleftrightarrow> is_ascii_alphanumeric b
     \<or> b \<in> set (''!#$%&'' @ [CHR 39] @ ''*+-.^_'' @ [CHR 96] @ ''|~'')"

section \<open>Validation\<close>

definition profile_scenario :: "u32 \<Rightarrow> QualificationScenarioRef \<Rightarrow> QualificationInputError + unit" where
  "profile_scenario version s = checks
    [validate_name (qs_id s), validate_relative (qs_plan s),
     reject_if (version = 1 \<and> qs_workload_driver s \<noteq> None)
       (InputInvalid ''workload_driver requires profile schema version 2''),
     (case qs_workload_driver s of None \<Rightarrow> Ok ()
      | Some d \<Rightarrow> map_err (\<lambda>_. InputInvalid ''invalid workload driver name'') (validate_name d))]"

fun profile_scan :: "u32 \<Rightarrow> string set \<Rightarrow> string set \<Rightarrow> QualificationScenarioRef list
    \<Rightarrow> QualificationInputError + unit" where
  "profile_scan version ids paths [] = Ok ()"
| "profile_scan version ids paths (s # ss) = checks
    [profile_scenario version s,
     reject_if (qs_id s \<in> ids) (InputInvalid ''duplicate scenario ID''),
     reject_if (qs_plan s \<in> paths) (InputInvalid ''duplicate scenario plan''),
     profile_scan version (insert (qs_id s) ids) (insert (qs_plan s) paths) ss]"

definition validate_profile :: "SecurityQualificationProfileV1 \<Rightarrow> QualificationInputError + unit" where
  "validate_profile p = checks
    [reject_if (qp_schema_version p \<noteq> 1 \<and> qp_schema_version p \<noteq> 2) (InputInvalid ''unsupported profile schema''),
     validate_name (qp_id p),
     validate_text (qp_owner p) 256 ''owner'',
     reject_if (qp_scenarios p = [] \<or> 32 < length (qp_scenarios p)) (InputBound ''scenario count must be 1..=32''),
     profile_scan (qp_schema_version p) {} {} (qp_scenarios p),
     validate_relative (qp_corpus p),
     validate_relative (qp_target_config p)]"

definition bad_method :: "string \<Rightarrow> bool" where
  "bad_method m \<longleftrightarrow> m = [] \<or> 32 < length m \<or> \<not> list_all is_token m"

definition bad_request_target :: "string \<Rightarrow> bool" where
  "bad_request_target p \<longleftrightarrow> p = [] \<or> 8192 < length p \<or> \<not> prefix ''/'' p \<or> prefix ''//'' p
     \<or> list_ex (\<lambda>b. byte b \<le> 32 \<or> byte b = 127 \<or> b = CHR ''#'' \<or> byte b = 92) p"

definition corpus_forbidden_headers :: "string list" where
  "corpus_forbidden_headers = [''authorization'', ''proxy-authorization'', ''cookie'', ''set-cookie'', ''host'',
     ''connection'', ''proxy-connection'', ''transfer-encoding'', ''content-length'']"

definition check_case_header :: "string \<times> string \<Rightarrow> QualificationInputError + unit" where
  "check_case_header h = checks
    [reject_if (\<not> list_all is_token (fst h) \<or> list_ex (\<lambda>b. byte b = 13 \<or> byte b = 10 \<or> byte b = 0) (snd h))
       (InputInvalid ''invalid HTTP header''),
     reject_if (to_ascii_lowercase (fst h) \<in> set corpus_forbidden_headers)
       (InputInvalid ''credential-bearing header is forbidden'')]"

definition header_bytes :: "(string \<times> string) list \<Rightarrow> nat" where
  "header_bytes hs = sum_list (map (\<lambda>h. length (fst h) + length (snd h)) hs)"

definition check_case_body :: "HttpCaseBodyV1 \<Rightarrow> QualificationInputError + unit" where
  "check_case_body b = (case b of
     NoBody \<Rightarrow> Ok ()
   | InlineUtf8 s \<Rightarrow> reject_if (unat CONTENT_TREE_MAX_FILE_BYTES < length s) (InputBound ''inline body bytes'')
   | BodyFile p \<Rightarrow> validate_relative p)"

definition check_case_expectation :: "HttpObservableExpectationV1 \<Rightarrow> QualificationInputError + unit" where
  "check_case_expectation e = (case e of
     ExactStatus s \<Rightarrow> reject_if (\<not> http_status s) (InputInvalid ''invalid exact status'')
   | AnyOfStatus ss \<Rightarrow> reject_if (\<not> expectation_valid (AnyOfStatus ss)) (InputInvalid ''invalid status set''))"

definition corpus_case_body :: "HttpSecurityCaseV1 \<Rightarrow> QualificationInputError + unit" where
  "corpus_case_body c = (let r = hc_request c in checks
    [(case hc_category c of None \<Rightarrow> Ok () | Some t \<Rightarrow> validate_text t 256 ''category''),
     reject_if (bad_method (hq_method r)) (InputInvalid ''invalid HTTP method''),
     reject_if (bad_request_target (hq_path_and_query r))
       (InputInvalid ''request target must be a bounded relative origin-form path''),
     reject_if (64 < length (hq_headers r)) (InputBound ''header count''),
     for_each check_case_header (hq_headers r),
     reject_if (16 * 1024 < header_bytes (hq_headers r)) (InputBound ''header bytes''),
     check_case_body (hq_body r),
     check_case_expectation (hc_expectation c)])"

fun corpus_scan :: "string set \<Rightarrow> HttpSecurityCaseV1 list \<Rightarrow> QualificationInputError + unit" where
  "corpus_scan ids [] = Ok ()"
| "corpus_scan ids (c # cs) = checks
    [validate_name (hc_id c), reject_if (hc_id c \<in> ids) (InputInvalid ''duplicate case ID''),
     corpus_case_body c, corpus_scan (insert (hc_id c) ids) cs]"

interpretation corpus_scan: unique_scan hc_id "\<lambda>c. validate_name (hc_id c)"
  "\<lambda>c. InputInvalid ''duplicate case ID''" corpus_case_body corpus_scan
  by unfold_locales simp_all

definition validate_corpus :: "HttpSecurityCorpusV1 \<Rightarrow> QualificationInputError + unit" where
  "validate_corpus c = checks
    [reject_if (hs_schema_version c \<noteq> 1) (InputInvalid ''unsupported corpus schema''),
     validate_text (hs_owner c) 256 ''owner'',
     validate_name (hs_corpus_id c),
     reject_if (hs_cases c = [] \<or> 1024 < length (hs_cases c)) (InputBound ''case count must be 1..=1024''),
     corpus_scan {} (hs_cases c)]"

text \<open>The two parsers: \<open>decode\<close> is the JSON decoder.\<close>

definition profile_from_json ::
  "(string \<Rightarrow> SecurityQualificationProfileV1 option) \<Rightarrow> string
    \<Rightarrow> QualificationInputError + SecurityQualificationProfileV1" where
  "profile_from_json decode input = (case decode input of
     None \<Rightarrow> Err InputJson
   | Some p \<Rightarrow> (case validate_profile p of Err e \<Rightarrow> Err e | Ok _ \<Rightarrow> Ok p))"

definition corpus_from_json ::
  "(string \<Rightarrow> HttpSecurityCorpusV1 option) \<Rightarrow> string \<Rightarrow> QualificationInputError + HttpSecurityCorpusV1" where
  "corpus_from_json decode input = (case decode input of
     None \<Rightarrow> Err InputJson
   | Some c \<Rightarrow> (case validate_corpus c of Err e \<Rightarrow> Err e | Ok _ \<Rightarrow> Ok c))"

section \<open>The sanitized corpus result\<close>

datatype HttpCorpusCaseDisposition = CasePass | CaseFail | CaseInvalid

record HttpCorpusCaseResultV1 =
  hr_id :: string
  hr_case_sha256 :: string
  hr_expectation :: HttpObservableExpectationV1
  hr_observed_status :: "u16 option"
  hr_disposition :: HttpCorpusCaseDisposition
  hr_reason :: "string option"

record HttpCorpusCheckResultV1 =
  hx_schema_version :: u32
  hx_id :: string
  hx_source :: string
  hx_family :: string
  hx_target :: string
  hx_corpus_id :: string
  hx_corpus_sha256 :: string
  hx_adapter_semantic_version :: string
  hx_eggfetch_version :: string
  hx_cases :: "HttpCorpusCaseResultV1 list"

definition failure_reasons :: "string list" where
  "failure_reasons = [''transport_failure'', ''invalid_input'', ''unsupported_protocol'', ''check_timeout'']"

definition bad_case_record :: "HttpCorpusCaseResultV1 \<Rightarrow> bool" where
  "bad_case_record c \<longleftrightarrow> \<not> hex_digest (hr_case_sha256 c)
     \<or> (case hr_reason c of None \<Rightarrow> False | Some r \<Rightarrow> r \<notin> set failure_reasons)
     \<or> \<not> expectation_valid (hr_expectation c)"

definition check_case_result :: "HttpCorpusCaseResultV1 \<Rightarrow> string + unit" where
  "check_case_result c = checks
    [reject_if (bad_case_record c) ''invalid_case_record'',
     reject_if (hr_disposition c = CaseInvalid \<and> hr_observed_status c \<noteq> None) ''invalid_case_has_status'',
     reject_if ((hr_disposition c = CaseInvalid) \<noteq> (hr_reason c \<noteq> None)) ''invalid_case_reason_mismatch'',
     reject_if (hr_disposition c \<noteq> CaseInvalid \<and> hr_observed_status c = None) ''observed_case_missing_status'',
     (case hr_observed_status c of None \<Rightarrow> Ok ()
      | Some status \<Rightarrow> checks
          [reject_if (\<not> http_status status) ''invalid_observed_status'',
           reject_if ((hr_disposition c = CasePass) \<noteq> expectation_matches (hr_expectation c) status
               \<or> hr_disposition c = CaseInvalid) ''case_disposition_mismatch''])]"

fun case_result_scan :: "string set \<Rightarrow> HttpCorpusCaseResultV1 list \<Rightarrow> string + unit" where
  "case_result_scan seen [] = Ok ()"
| "case_result_scan seen (c # cs) = checks
    [map_err (\<lambda>_. ''invalid_case_id'') (validate_name (hr_id c)),
     reject_if (hr_id c \<in> seen) ''invalid_case_record'',
     check_case_result c, case_result_scan (insert (hr_id c) seen) cs]"

interpretation case_results: unique_scan hr_id "\<lambda>c. map_err (\<lambda>_. ''invalid_case_id'') (validate_name (hr_id c))"
  "\<lambda>c. ''invalid_case_record''" check_case_result case_result_scan
  by unfold_locales simp_all

definition validate_corpus_result :: "HttpCorpusCheckResultV1 \<Rightarrow> string + unit" where
  "validate_corpus_result r = checks
    [reject_if (hx_schema_version r \<noteq> 1 \<or> hx_cases r = [] \<or> 1024 < length (hx_cases r))
       ''invalid_schema_or_case_count'',
     reject_if (\<not> is_ok (validate_name (hx_id r)) \<or> hx_source r \<noteq> ''eggbench-http-corpus''
         \<or> hx_family r \<noteq> ''http_observable'' \<or> \<not> is_ok (validate_name (hx_target r))
         \<or> \<not> is_ok (validate_name (hx_corpus_id r))) ''invalid_result_identity'',
     reject_if (\<not> hex_digest (hx_corpus_sha256 r)) ''invalid_corpus_digest'',
     reject_if (\<not> bounded_text 128 (hx_adapter_semantic_version r) \<or> \<not> bounded_text 128 (hx_eggfetch_version r)
         \<or> has_control (hx_adapter_semantic_version r) \<or> has_control (hx_eggfetch_version r))
       ''invalid_producer_identity'',
     case_result_scan {} (hx_cases r)]"

fun count_case :: "HttpCorpusCaseDisposition \<Rightarrow> u32 \<times> u32 \<times> u32 \<Rightarrow> u32 \<times> u32 \<times> u32" where
  "count_case CasePass (p, f, i) = (p + 1, f, i)"
| "count_case CaseFail (p, f, i) = (p, f + 1, i)"
| "count_case CaseInvalid (p, f, i) = (p, f, i + 1)"

definition case_counts :: "HttpCorpusCheckResultV1 \<Rightarrow> u32 \<times> u32 \<times> u32 \<times> u32" where
  "case_counts r =
     ((if length (hx_cases r) < 2 ^ 32 then of_nat (length (hx_cases r)) else - 1),
      fold (\<lambda>c. count_case (hr_disposition c)) (hx_cases r) (0, 0, 0))"

section \<open>Aggregation\<close>

datatype QualificationScenarioStatus = ScenarioCompleted | ScenarioInvalid | ScenarioCancelled | ScenarioNotRun

record QualificationScenarioRecordV1 =
  qr_id :: string
  qr_source_plan_sha256 :: string
  qr_workload_driver :: "string option"
  qr_status :: QualificationScenarioStatus
  qr_candidate_bundle_path :: "string option"
  qr_candidate_bundle_identity :: "BundleIdentity option"
  qr_baseline_bundle_identity :: "BundleIdentity option"
  qr_comparison_receipt_path :: "string option"
  qr_comparison_receipt_sha256 :: "string option"
  qr_performance_verdict :: "AggregateVerdict option"
  qr_correctness_verdict :: "AggregateVerdict option"
  qr_combined_verdict :: "AggregateVerdict option"
  qr_reason :: "string option"

definition worse_verdict :: "AggregateVerdict \<Rightarrow> AggregateVerdict \<Rightarrow> AggregateVerdict" where
  "worse_verdict a b =
    (if a = VerdictInvalid \<or> b = VerdictInvalid then VerdictInvalid
     else if a = VerdictFail \<or> b = VerdictFail then VerdictFail
     else if a = VerdictInconclusive \<or> b = VerdictInconclusive then VerdictInconclusive
     else VerdictPass)"

definition aggregate_qualification_verdicts :: "AggregateVerdict list \<Rightarrow> AggregateVerdict" where
  "aggregate_qualification_verdicts vs = foldl worse_verdict VerdictPass vs"

definition aggregate_qualification_scenarios :: "QualificationScenarioRecordV1 list \<Rightarrow> AggregateVerdict" where
  "aggregate_qualification_scenarios rs =
    (if rs = [] \<or> list_ex (\<lambda>r. qr_status r \<noteq> ScenarioCompleted \<or> qr_combined_verdict r = None) rs
     then VerdictInvalid
     else aggregate_qualification_verdicts (List.map_filter qr_combined_verdict rs))"

section \<open>What aggregation and validation promise\<close>

lemma worse_verdict_table:
  "worse_verdict VerdictInvalid b = VerdictInvalid" "worse_verdict a VerdictInvalid = VerdictInvalid"
  "worse_verdict VerdictPass b = b" "worse_verdict a VerdictPass = a"
  "worse_verdict VerdictFail VerdictFail = VerdictFail"
  "worse_verdict VerdictFail VerdictInconclusive = VerdictFail"
  "worse_verdict VerdictInconclusive VerdictFail = VerdictFail"
  "worse_verdict VerdictInconclusive VerdictInconclusive = VerdictInconclusive"
  by (cases a; cases b; simp add: worse_verdict_def)+

lemma foldl_worse: "foldl worse_verdict a vs =
    (if VerdictInvalid \<in> set (a # vs) then VerdictInvalid
     else if VerdictFail \<in> set (a # vs) then VerdictFail
     else if VerdictInconclusive \<in> set (a # vs) then VerdictInconclusive else VerdictPass)"
proof (induction vs arbitrary: a)
  case Nil
  then show ?case by (cases a) simp_all
next
  case (Cons v vs)
  have "foldl worse_verdict a (v # vs) = foldl worse_verdict (worse_verdict a v) vs" by simp
  also have "\<dots> = (if VerdictInvalid \<in> set (worse_verdict a v # vs) then VerdictInvalid
    else if VerdictFail \<in> set (worse_verdict a v # vs) then VerdictFail
    else if VerdictInconclusive \<in> set (worse_verdict a v # vs) then VerdictInconclusive else VerdictPass)"
    by (rule Cons)
  finally show ?case by (cases a; cases v; simp add: worse_verdict_table)
qed

lemma foldl_worse_Pass: "foldl worse_verdict VerdictPass vs = VerdictPass \<longleftrightarrow> (\<forall>v \<in> set vs. v = VerdictPass)"
proof (induction vs)
  case (Cons v vs)
  then show ?case
    by (cases v) (simp_all add: worse_verdict_table foldl_worse [of VerdictInvalid]
        foldl_worse [of VerdictFail] foldl_worse [of VerdictInconclusive])
qed simp

text \<open>
  A qualification passes exactly when there is at least one scenario and every scenario
  completed with the combined verdict \<open>Pass\<close>; a scenario that was cancelled, invalid, not run or
  left without a verdict makes the whole qualification \<open>Invalid\<close>, whatever the others say.
\<close>

theorem qualification_passes_iff:
  "(aggregate_qualification_scenarios rs = VerdictPass \<longleftrightarrow>
      rs \<noteq> [] \<and> (\<forall>r \<in> set rs. qr_status r = ScenarioCompleted \<and> qr_combined_verdict r = Some VerdictPass))
   \<and> ((\<exists>r \<in> set rs. qr_status r \<noteq> ScenarioCompleted \<or> qr_combined_verdict r = None)
      \<longrightarrow> aggregate_qualification_scenarios rs = VerdictInvalid)"
proof (cases "rs = [] \<or> (\<exists>r \<in> set rs. qr_status r \<noteq> ScenarioCompleted \<or> qr_combined_verdict r = None)")
  case True
  then show ?thesis by (auto simp: aggregate_qualification_scenarios_def list_ex_iff)
next
  case False
  then have eq: "aggregate_qualification_scenarios rs
      = foldl worse_verdict VerdictPass (List.map_filter qr_combined_verdict rs)"
    by (auto simp: aggregate_qualification_scenarios_def list_ex_iff aggregate_qualification_verdicts_def)
  have "set (List.map_filter qr_combined_verdict rs) = {v. \<exists>r \<in> set rs. qr_combined_verdict r = Some v}"
    by (force simp: List.map_filter_def)
  then have "aggregate_qualification_scenarios rs = VerdictPass \<longleftrightarrow>
      (\<forall>r \<in> set rs. \<forall>v. qr_combined_verdict r = Some v \<longrightarrow> v = VerdictPass)"
    unfolding eq foldl_worse_Pass by blast
  with False show ?thesis by force
qed

lemma fold_counts:
  "fold (\<lambda>c. count_case (hr_disposition c)) cs (p, f, i) =
     (p + of_nat (count_list (map hr_disposition cs) CasePass),
      f + of_nat (count_list (map hr_disposition cs) CaseFail),
      i + of_nat (count_list (map hr_disposition cs) CaseInvalid))"
proof (induction cs arbitrary: p f i)
  case (Cons c cs)
  show ?case by (cases "hr_disposition c") (simp_all add: Cons algebra_simps)
qed simp

lemma count_dispositions:
  "count_list ds CasePass + count_list ds CaseFail + count_list ds CaseInvalid = length ds"
proof (induction ds)
  case (Cons d ds)
  then show ?case by (cases d) simp_all
qed simp

text \<open>
  A corpus result that passes its contract has distinct cases; a case passes exactly when it
  has an observed status and that status meets the expectation, and is \<open>Invalid\<close> exactly when no
  status was observed; and the counts it reports are the exact numbers of cases of each kind.
\<close>

theorem valid_corpus_result:
  assumes "validate_corpus_result r = Ok ()"
  shows "distinct (map hr_id (hx_cases r))
    \<and> (\<forall>c \<in> set (hx_cases r).
        (hr_disposition c = CasePass \<longleftrightarrow> (\<exists>s. hr_observed_status c = Some s \<and> expectation_matches (hr_expectation c) s))
        \<and> (hr_disposition c = CaseInvalid \<longleftrightarrow> hr_observed_status c = None))
    \<and> (case case_counts r of (n, p, f, i) \<Rightarrow>
        unat n = length (hx_cases r)
        \<and> unat p = count_list (map hr_disposition (hx_cases r)) CasePass
        \<and> unat f = count_list (map hr_disposition (hx_cases r)) CaseFail
        \<and> unat i = count_list (map hr_disposition (hx_cases r)) CaseInvalid
        \<and> unat p + unat f + unat i = unat n)"
proof -
  have scan: "case_result_scan {} (hx_cases r) = Ok ()" and len: "length (hx_cases r) \<le> 1024"
    using assms by (auto simp: validate_corpus_result_def ok_simps)
  have each: "(hr_disposition c = CasePass \<longleftrightarrow> (\<exists>s. hr_observed_status c = Some s \<and> expectation_matches (hr_expectation c) s))
        \<and> (hr_disposition c = CaseInvalid \<longleftrightarrow> hr_observed_status c = None)" if "c \<in> set (hx_cases r)" for c
  proof -
    have "check_case_result c = Ok ()"
      using scan that by (simp add: case_results.scan_Ok_iff)
    then show ?thesis
      by (cases "hr_observed_status c") (auto simp: check_case_result_def ok_simps)
  qed
  define ds where "ds = map hr_disposition (hx_cases r)"
  have total: "count_list ds CasePass + count_list ds CaseFail + count_list ds CaseInvalid = length ds"
    by (rule count_dispositions)
  have small: "unat (of_nat n :: u32) = n" if "n \<le> 1024" for n
    using that by (simp add: unat_of_nat take_bit_nat_eq_self)
  have bound: "length ds \<le> 1024" using len by (simp add: ds_def)
  have "(case case_counts r of (n, p, f, i) \<Rightarrow> unat n = length ds \<and> unat p = count_list ds CasePass
        \<and> unat f = count_list ds CaseFail \<and> unat i = count_list ds CaseInvalid \<and> unat p + unat f + unat i = unat n)"
    using total bound
    by (simp add: case_counts_def fold_counts ds_def [symmetric] small)
      (simp add: ds_def small)
  then show ?thesis
    using case_results.scan_distinct [OF scan] each by (simp add: ds_def)
qed

definition sample_case_result :: HttpCorpusCaseResultV1 where
  "sample_case_result = \<lparr>hr_id = ''c1'', hr_case_sha256 = replicate 64 (CHR ''a''),
     hr_expectation = ExactStatus 403, hr_observed_status = Some 403, hr_disposition = CasePass,
     hr_reason = None\<rparr>"

definition sample_corpus_result :: HttpCorpusCheckResultV1 where
  "sample_corpus_result = \<lparr>hx_schema_version = 1, hx_id = ''check'', hx_source = ''eggbench-http-corpus'',
     hx_family = ''http_observable'', hx_target = ''edge'', hx_corpus_id = ''basic'',
     hx_corpus_sha256 = replicate 64 (CHR ''b''), hx_adapter_semantic_version = ''1'',
     hx_eggfetch_version = ''0.1'', hx_cases = [sample_case_result]\<rparr>"

lemmas small_text_eval = validate_name_def hex_digest_def bounded_text_def is_ascii_alphanumeric_def
  is_ascii_lowercase_def is_ascii_uppercase_def is_ascii_digit_def is_ascii_hexdigit_def byte_def
  list_all_length nth_Cons' less_Suc_eq

lemma sample_corpus_result_valid: "validate_corpus_result sample_corpus_result = Ok ()"
  by (simp add: validate_corpus_result_def sample_corpus_result_def sample_case_result_def ok_simps
      check_case_result_def bad_case_record_def http_status_def small_text_eval has_control_def
      chars_ascii is_control_def del: chars.simps)

theorem valid_corpus_result_witness:
  "unat (fst (case_counts sample_corpus_result)) = 1"
  using valid_corpus_result [OF sample_corpus_result_valid]
  by (auto simp: sample_corpus_result_def split: prod.splits)

text \<open>
  C0: The corpus contract accepts a case that sends a header with an empty name, which no HTTP
  request can carry: the name is only required to consist of token characters.
\<close>

definition empty_header_case :: HttpSecurityCaseV1 where
  "empty_header_case = \<lparr>hc_id = ''c1'', hc_category = None,
     hc_request = \<lparr>hq_method = ''GET'', hq_path_and_query = ''/'', hq_headers = [([], ''v'')], hq_body = NoBody\<rparr>,
     hc_expectation = ExactStatus 403\<rparr>"

theorem empty_header_name_accepted:
  "validate_corpus \<lparr>hs_schema_version = 1, hs_owner = ''team'', hs_corpus_id = ''basic'',
     hs_cases = [empty_header_case]\<rparr> = Ok ()"
  by (simp add: validate_corpus_def empty_header_case_def ok_simps corpus_case_body_def bad_method_def
      bad_request_target_def is_token_def check_case_header_def check_case_body_def check_case_expectation_def
      http_status_def small_text_eval header_bytes_def validate_text_def corpus_forbidden_headers_def
      to_ascii_lowercase_def has_control_def chars_ascii is_control_def del: chars.simps for_each_simps)

end
