(* ===== verification/ContentTrees.thy ===== *)
theory ContentTrees
  imports Qualification BundleReader
begin

text \<open>
  Content identities of \<open>eggbench-core/src/qualification.rs\<close>: confined paths, the bounded walk
  of a content tree, loading of an HTTP corpus with its body files and the expansion of a
  profile.  The file system is a record of functions that does not change during one call.
  \<open>cf_symlink_metadata\<close> does not follow links and \<open>cf_metadata\<close> does; both decoders, the plan
  parsers and the loader of baseline bundles are parameters.
\<close>

section \<open>Files\<close>

datatype PathKind = KindFile | KindDir | KindLink | KindSpecial

record ContentFs =
  cf_canonicalize :: "string \<Rightarrow> string option"
  cf_symlink_metadata :: "string \<Rightarrow> PathKind option"
  cf_metadata :: "string \<Rightarrow> (bool \<times> u64) option"
  cf_read_dir :: "string \<Rightarrow> string option list option"
  cf_read :: "string \<Rightarrow> string option"
  cf_lossy :: "string \<Rightarrow> string"

record ContentFileIdentity =
  fi_path :: string
  fi_length :: u64
  fi_sha256 :: string

record ContentTreeIdentity =
  ti_aggregate_sha256 :: string
  ti_file_count :: nat
  ti_total_bytes :: u64
  ti_files :: "ContentFileIdentity list"

definition to_be_bytes :: "u64 \<Rightarrow> string" where
  "to_be_bytes x = rev (to_le_bytes x)"

definition aggregate_content_files :: "sha \<Rightarrow> ContentFileIdentity list \<Rightarrow> string" where
  "aggregate_content_files sha files = to_hex (sha (concat (map (\<lambda>f.
     fi_path f @ [CHR 0x00] @ to_be_bytes (fi_length f) @ [CHR 0x00] @ fi_sha256 f @ [CHR 0x00]) files)))"

definition read_input :: "ContentFs \<Rightarrow> string \<Rightarrow> u64 \<Rightarrow> QualificationInputError + string" where
  "read_input fs path limit = (case cf_metadata fs path of
     None \<Rightarrow> Err InputIo
   | Some (_, len) \<Rightarrow>
       if limit < len then Err (InputBound ''input file bytes'')
       else (case cf_read fs path of None \<Rightarrow> Err InputIo | Some bytes \<Rightarrow> Ok bytes))"

definition slashes :: "string \<Rightarrow> string" where
  "slashes s = map (\<lambda>c. if byte c = 92 then CHR ''/'' else c) s"

text \<open>The components are walked from the root; a link on the way is refused.\<close>

fun walk_components :: "ContentFs \<Rightarrow> string \<Rightarrow> string list \<Rightarrow> QualificationInputError + string" where
  "walk_components fs cursor [] = Ok cursor"
| "walk_components fs cursor (part # parts) =
    (let next = path_join cursor part
     in case cf_symlink_metadata fs next of
          None \<Rightarrow> Err InputIo
        | Some k \<Rightarrow> if k = KindLink then Err (InputUnsafePath ''symlink path components are not accepted'')
                    else walk_components fs next parts)"

definition canonical_confined_path ::
  "ContentFs \<Rightarrow> string \<Rightarrow> string \<Rightarrow> QualificationInputError + string" where
  "canonical_confined_path fs root relative =
    (case validate_relative relative of Err e \<Rightarrow> Err e | Ok _ \<Rightarrow>
     (case walk_components fs root (path_components relative) of Err e \<Rightarrow> Err e | Ok cursor \<Rightarrow>
     (case cf_canonicalize fs cursor of
        None \<Rightarrow> Err (InputUnsafePath relative)
      | Some canonical \<Rightarrow>
          if \<not> path_starts_with canonical root then Err (InputUnsafePath relative) else Ok canonical)))"

section \<open>Walking a tree\<close>

type_synonym hashed = "ContentFileIdentity list \<times> u64"

definition file_identity :: "sha \<Rightarrow> string \<Rightarrow> string \<Rightarrow> ContentFileIdentity" where
  "file_identity sha rel bytes =
     \<lparr>fi_path = rel, fi_length = of_nat (length bytes), fi_sha256 = to_hex (sha bytes)\<rparr>"

definition hash_file ::
  "ContentFs \<Rightarrow> sha \<Rightarrow> string \<Rightarrow> string \<Rightarrow> hashed \<Rightarrow> QualificationInputError + hashed" where
  "hash_file fs sha path rel acc =
    (if CONTENT_TREE_MAX_FILES \<le> length (fst acc) then Err (InputBound ''file count'')
     else (case cf_read fs path of
         None \<Rightarrow> Err InputIo
       | Some bytes \<Rightarrow>
           if unat CONTENT_TREE_MAX_FILE_BYTES < length bytes then Err (InputBound ''per-file bytes'')
           else (let total = snd acc + of_nat (length bytes)
             in if CONTENT_TREE_MAX_TOTAL_BYTES < total then Err (InputBound ''aggregate bytes'')
                else Ok (fst acc @ [file_identity sha rel bytes], total))))"

definition relative_to :: "ContentFs \<Rightarrow> string \<Rightarrow> string \<Rightarrow> string option" where
  "relative_to fs root p =
    (if path_starts_with p root
     then Some (slashes (cf_lossy fs (join_str ''/'' (drop (length (path_components root)) (path_components p)))))
     else None)"

fun scan_entries ::
  "ContentFs \<Rightarrow> sha \<Rightarrow> string \<Rightarrow> string \<Rightarrow> nat \<Rightarrow> string option list \<Rightarrow> hashed \<Rightarrow> (string \<times> nat) list
    \<Rightarrow> QualificationInputError + (hashed \<times> (string \<times> nat) list)" where
  "scan_entries fs sha root dir depth [] acc pushed = Ok (acc, pushed)"
| "scan_entries fs sha root dir depth (None # es) acc pushed = Err InputIo"
| "scan_entries fs sha root dir depth (Some name # es) acc pushed =
    (let p = path_join dir name
     in case cf_symlink_metadata fs p of
          None \<Rightarrow> Err InputIo
        | Some KindLink \<Rightarrow> Err (InputUnsafePath ''tree contains symlink'')
        | Some KindDir \<Rightarrow> scan_entries fs sha root dir depth es acc ((p, depth + 1) # pushed)
        | Some KindSpecial \<Rightarrow> Err (InputUnsafePath ''special file'')
        | Some KindFile \<Rightarrow>
            (case relative_to fs root p of
               None \<Rightarrow> Err (InputUnsafePath ''path escaped tree'')
             | Some rel \<Rightarrow>
                 if 512 < length rel then Err (InputBound ''relative path length'')
                 else (case hash_file fs sha p rel acc of
                     Err e \<Rightarrow> Err e
                   | Ok acc' \<Rightarrow> scan_entries fs sha root dir depth es acc' pushed)))"

lemma scan_entries_depth:
  "scan_entries fs sha root dir depth es acc pushed = Ok (acc', pushed') \<Longrightarrow>
    \<forall>q \<in> set pushed. snd q = Suc depth \<Longrightarrow> \<forall>q \<in> set pushed'. snd q = Suc depth"
  by (induction fs sha root dir depth es acc pushed rule: scan_entries.induct)
    (auto simp: Let_def split: option.splits PathKind.splits if_splits sum.splits)

text \<open>The stack of directories; its first entry is on top.\<close>

function walk_tree ::
  "ContentFs \<Rightarrow> sha \<Rightarrow> string \<Rightarrow> (string \<times> nat) list \<Rightarrow> hashed \<Rightarrow> QualificationInputError + hashed" where
  "walk_tree fs sha root [] acc = Ok acc"
| "walk_tree fs sha root ((dir, depth) # stack) acc =
    (if 16 < depth then Err (InputBound ''directory depth'')
     else (case cf_read_dir fs dir of
         None \<Rightarrow> Err InputIo
       | Some es \<Rightarrow>
           (case scan_entries fs sha root dir depth es acc [] of
              Err e \<Rightarrow> Err e
            | Ok (acc', pushed) \<Rightarrow> walk_tree fs sha root (pushed @ stack) acc')))"
  by pat_completeness auto

termination
proof (relation "inv_image (mult less_than) (\<lambda>(fs, sha, root, stack, acc). image_mset (\<lambda>q. 17 - snd q) (mset stack))")
  show "wf (inv_image (mult less_than) (\<lambda>(fs, sha, root, stack, acc). image_mset (\<lambda>q. 17 - snd q) (mset stack)))"
    by (intro wf_inv_image wf_mult) simp
next
  fix fs :: ContentFs and sha root dir depth and stack :: "(string \<times> nat) list" and acc :: hashed and es r acc' pushed
  assume depth: "\<not> 16 < depth" and r: "scan_entries fs sha root dir depth es acc [] = Ok r"
    and r': "(acc', pushed) = r"
  have pushed: "\<forall>q \<in> set pushed. snd q = Suc depth"
    using scan_entries_depth r r' by fastforce
  have "(image_mset (\<lambda>q. 17 - snd q) (mset stack) + image_mset (\<lambda>q. 17 - snd q) (mset pushed),
      image_mset (\<lambda>q. 17 - snd q) (mset stack) + {#17 - depth#}) \<in> mult less_than"
    by (rule one_step_implies_mult) (use pushed depth in auto)
  then show "((fs, sha, root, pushed @ stack, acc'), fs, sha, root, (dir, depth) # stack, acc)
    \<in> inv_image (mult less_than) (\<lambda>(fs, sha, root, stack, acc). image_mset (\<lambda>q. 17 - snd q) (mset stack))"
    by (simp add: add.commute)
qed

definition tree_identity :: "sha \<Rightarrow> hashed \<Rightarrow> ContentTreeIdentity" where
  "tree_identity sha acc = (let records = sort_key fi_path (fst acc) in
     \<lparr>ti_aggregate_sha256 = aggregate_content_files sha records, ti_file_count = length records,
      ti_total_bytes = snd acc, ti_files = records\<rparr>)"

definition content_tree_identity ::
  "ContentFs \<Rightarrow> sha \<Rightarrow> string \<Rightarrow> string \<Rightarrow> QualificationInputError + ContentTreeIdentity" where
  "content_tree_identity fs sha workspace requested =
    (case validate_relative requested of Err e \<Rightarrow> Err e | Ok _ \<Rightarrow>
     (case cf_canonicalize fs workspace of None \<Rightarrow> Err InputIo | Some root \<Rightarrow>
     (case walk_components fs root (path_components requested) of Err e \<Rightarrow> Err e | Ok _ \<Rightarrow>
     (case canonical_confined_path fs root requested of Err e \<Rightarrow> Err e | Ok canonical \<Rightarrow>
      let requested_path = path_join root requested in
      if \<not> path_starts_with canonical root then Err (InputUnsafePath requested)
      else (case cf_symlink_metadata fs requested_path of
         None \<Rightarrow> Err InputIo
       | Some KindLink \<Rightarrow> Err (InputUnsafePath ''symlinks are not accepted'')
       | Some KindSpecial \<Rightarrow> Err (InputInvalid ''input must be a regular file or directory'')
       | Some KindFile \<Rightarrow>
           map_sum id (tree_identity sha)
             (hash_file fs sha requested_path
               (cf_lossy fs (case path_file_name canonical of None \<Rightarrow> [] | Some n \<Rightarrow> n)) ([], 0))
       | Some KindDir \<Rightarrow>
           map_sum id (tree_identity sha) (walk_tree fs sha canonical [(canonical, 0)] ([], 0)))))))"

section \<open>Corpora and profiles\<close>

fun utf8_tail :: "nat list \<Rightarrow> bool" where
  "utf8_tail [] \<longleftrightarrow> True"
| "utf8_tail (a # s) \<longleftrightarrow>
    (let cont = (\<lambda>b. 128 \<le> b \<and> b < 192) in
     if a < 128 then utf8_tail s
     else if 194 \<le> a \<and> a < 224 then (case s of b # s' \<Rightarrow> cont b \<and> utf8_tail s' | _ \<Rightarrow> False)
     else if 224 \<le> a \<and> a < 240 then
       (case s of b # c # s' \<Rightarrow> cont b \<and> cont c \<and> (a = 224 \<longrightarrow> 160 \<le> b) \<and> (a = 237 \<longrightarrow> b < 160) \<and> utf8_tail s'
        | _ \<Rightarrow> False)
     else if 240 \<le> a \<and> a < 245 then
       (case s of b # c # d # s' \<Rightarrow> cont b \<and> cont c \<and> cont d \<and> (a = 240 \<longrightarrow> 144 \<le> b) \<and> (a = 244 \<longrightarrow> b < 144)
          \<and> utf8_tail s'
        | _ \<Rightarrow> False)
     else False)"

definition valid_utf8 :: "string \<Rightarrow> bool" where
  "valid_utf8 s = utf8_tail (map byte s)"

definition path_parent :: "string \<Rightarrow> string" where
  "path_parent p = join_str ''/'' (butlast (path_components p))"

definition body_record :: "HttpSecurityCaseV1 \<Rightarrow> ContentFileIdentity \<Rightarrow> ContentFileIdentity" where
  "body_record c f = f \<lparr>fi_path := ''body/'' @ hc_id c @ ''/'' @ fi_path f\<rparr>"

definition saturating_add :: "u64 \<Rightarrow> u64 \<Rightarrow> u64" where
  "saturating_add a b = (case checked_add a b of None \<Rightarrow> - 1 | Some c \<Rightarrow> c)"

fun add_body_files ::
  "ContentFs \<Rightarrow> sha \<Rightarrow> string \<Rightarrow> string \<Rightarrow> string \<Rightarrow> HttpSecurityCaseV1 list \<Rightarrow> ContentFileIdentity list \<times> u64
    \<Rightarrow> QualificationInputError + ContentFileIdentity list \<times> u64" where
  "add_body_files fs sha workspace body_root parent [] acc = Ok acc"
| "add_body_files fs sha workspace body_root parent (c # cs) acc =
    (case hq_body (hc_request c) of
       BodyFile body_path \<Rightarrow>
         (case canonical_confined_path fs body_root body_path of Err e \<Rightarrow> Err e | Ok body \<Rightarrow>
         (case cf_metadata fs body of None \<Rightarrow> Err InputIo | Some (is_file, len) \<Rightarrow>
          if \<not> is_file then Err (InputInvalid ''corpus request body reference must name a regular file'')
          else if CONTENT_TREE_MAX_FILE_BYTES < len
            then Err (InputBound ''corpus request body exceeds per-file limit'')
          else (case content_tree_identity fs sha workspace (slashes (cf_lossy fs (path_join parent body_path))) of
              Err e \<Rightarrow> Err e
            | Ok t \<Rightarrow> add_body_files fs sha workspace body_root parent cs
                (fst acc @ map (body_record c) (ti_files t), saturating_add (snd acc) (ti_total_bytes t)))))
     | _ \<Rightarrow> add_body_files fs sha workspace body_root parent cs acc)"

definition load_http_security_corpus ::
  "ContentFs \<Rightarrow> sha \<Rightarrow> (string \<Rightarrow> HttpSecurityCorpusV1 option) \<Rightarrow> string \<Rightarrow> string \<Rightarrow> string
    \<Rightarrow> QualificationInputError + (HttpSecurityCorpusV1 \<times> string)" where
  "load_http_security_corpus fs sha decode workspace relative expected_sha256 =
    (case cf_canonicalize fs workspace of None \<Rightarrow> Err InputIo | Some root \<Rightarrow>
     (case canonical_confined_path fs root relative of Err e \<Rightarrow> Err e | Ok corpus_path \<Rightarrow>
     (case read_input fs corpus_path MAX_CORPUS_BYTES of Err e \<Rightarrow> Err e | Ok bytes \<Rightarrow>
      if \<not> valid_utf8 bytes then Err (InputInvalid ''utf-8'')
      else (case corpus_from_json decode bytes of Err e \<Rightarrow> Err e | Ok corpus \<Rightarrow>
      if path_components corpus_path = [] then Err (InputUnsafePath relative)
      else (case content_tree_identity fs sha workspace relative of Err e \<Rightarrow> Err e | Ok ident \<Rightarrow>
        let body_root = ''/'' @ path_parent corpus_path in
        (case add_body_files fs sha workspace body_root (path_parent relative) (hs_cases corpus)
            (ti_files ident, ti_total_bytes ident) of
           Err e \<Rightarrow> Err e
         | Ok (files, acc_bytes) \<Rightarrow>
             (let sorted = sort_key fi_path files; digest = aggregate_content_files sha sorted
              in if CONTENT_TREE_MAX_TOTAL_BYTES < acc_bytes \<or> CONTENT_TREE_MAX_FILES < length sorted
                 then Err (InputBound ''corpus plus body aggregate limit'')
                 else if \<not> eq_ignore_ascii_case digest expected_sha256
                 then Err (InputInvalid ''corpus digest differs from the declared identity'')
                 else Ok (corpus, body_root))))))))"

record ExpandedScenarioV1 =
  xs_id :: string
  xs_source_plan_sha256 :: string
  xs_source_plan_schema :: u32
  xs_source_plan_path_context :: string
  xs_workload_driver :: "string option"
  xs_baseline_identity :: "BundleIdentity option"
  xs_baseline_path_context :: "string option"

record QualificationExpansionV1 =
  xp_schema_version :: u32
  xp_expansion_policy :: string
  xp_profile_id :: string
  xp_profile_sha256 :: string
  xp_corpus_identity :: ContentTreeIdentity
  xp_target_config_identity :: ContentTreeIdentity
  xp_scenarios :: "ExpandedScenarioV1 list"

record QualificationCodec =
  qc_profile :: "string \<Rightarrow> SecurityQualificationProfileV1 option"
  qc_corpus :: "string \<Rightarrow> HttpSecurityCorpusV1 option"
  qc_from_toml :: "string \<Rightarrow> PlanError + ExperimentPlan"
  qc_from_json :: "string \<Rightarrow> PlanError + ExperimentPlan"
  qc_baseline :: "string \<Rightarrow> string + BundleIdentity"

fun expand_bodies ::
  "ContentFs \<Rightarrow> sha \<Rightarrow> string \<Rightarrow> string \<Rightarrow> HttpSecurityCaseV1 list \<Rightarrow> ContentTreeIdentity
    \<Rightarrow> QualificationInputError + ContentTreeIdentity" where
  "expand_bodies fs sha workspace parent [] t = Ok t"
| "expand_bodies fs sha workspace parent (c # cs) t =
    (case hq_body (hc_request c) of
       BodyFile body \<Rightarrow>
         (case content_tree_identity fs sha workspace (slashes (cf_lossy fs (path_join parent body))) of
            Err e \<Rightarrow> Err e
          | Ok ident \<Rightarrow> expand_bodies fs sha workspace parent cs
              (t \<lparr>ti_total_bytes := foldl (\<lambda>n f. n + fi_length f) (ti_total_bytes t) (ti_files ident),
                  ti_files := ti_files t @ map (body_record c) (ti_files ident)\<rparr>))
     | _ \<Rightarrow> expand_bodies fs sha workspace parent cs t)"

definition expand_corpus ::
  "ContentFs \<Rightarrow> sha \<Rightarrow> QualificationCodec \<Rightarrow> string \<Rightarrow> string \<Rightarrow> string
    \<Rightarrow> QualificationInputError + ContentTreeIdentity" where
  "expand_corpus fs sha codec workspace root path =
    (case content_tree_identity fs sha workspace path of Err e \<Rightarrow> Err e | Ok t \<Rightarrow>
     if \<not> (case cf_metadata fs (path_join root path) of None \<Rightarrow> False | Some (is_file, _) \<Rightarrow> is_file) then Ok t
     else (case read_input fs (path_join root path) MAX_CORPUS_BYTES of Err e \<Rightarrow> Err e | Ok bytes \<Rightarrow>
     (case qc_corpus codec bytes of None \<Rightarrow> Err InputJson | Some corpus \<Rightarrow>
     (case validate_corpus corpus of Err e \<Rightarrow> Err e | Ok _ \<Rightarrow>
     (case expand_bodies fs sha workspace (path_parent path) (hs_cases corpus) t of Err e \<Rightarrow> Err e | Ok t' \<Rightarrow>
      let files = sort_key fi_path (ti_files t') in
      if CONTENT_TREE_MAX_TOTAL_BYTES < ti_total_bytes t'
      then Err (InputBound ''corpus plus body aggregate bytes'')
      else if CONTENT_TREE_MAX_FILES < length files then Err (InputBound ''corpus plus body file count'')
      else Ok (t' \<lparr>ti_files := files, ti_file_count := length files,
             ti_aggregate_sha256 := aggregate_content_files sha files\<rparr>))))))"

definition expand_baseline ::
  "ContentFs \<Rightarrow> QualificationCodec \<Rightarrow> string \<Rightarrow> string option \<Rightarrow> QualificationInputError + BundleIdentity option" where
  "expand_baseline fs codec root p = (case p of None \<Rightarrow> Ok None | Some path \<Rightarrow>
     (case validate_relative path of Err e \<Rightarrow> Err e | Ok _ \<Rightarrow>
     (case canonical_confined_path fs root path of Err e \<Rightarrow> Err e | Ok baseline \<Rightarrow>
     (case qc_baseline codec baseline of
        Err e \<Rightarrow> Err (InputInvalid (''baseline is invalid: '' @ e))
      | Ok ident \<Rightarrow> Ok (Some ident)))))"

definition expand_scenario ::
  "ContentFs \<Rightarrow> sha \<Rightarrow> QualificationCodec \<Rightarrow> string \<Rightarrow> QualificationScenarioRef
    \<Rightarrow> QualificationInputError + ExpandedScenarioV1" where
  "expand_scenario fs sha codec root s =
    (case canonical_confined_path fs root (qs_plan s) of Err e \<Rightarrow> Err e | Ok real \<Rightarrow>
     (case read_input fs real MAX_PLAN_BYTES of Err e \<Rightarrow> Err e | Ok data \<Rightarrow>
      if \<not> valid_utf8 data then Err (InputInvalid ''utf-8'')
      else (case (if path_extension real = Some ''toml'' then qc_from_toml codec data else qc_from_json codec data) of
         Err e \<Rightarrow> Err (InputPlan e)
       | Ok plan \<Rightarrow>
           (case validate plan of Err e \<Rightarrow> Err (InputPlan e) | Ok _ \<Rightarrow>
           (case expand_baseline fs codec root (qs_baseline_bundle s) of Err e \<Rightarrow> Err e | Ok base \<Rightarrow>
            Ok \<lparr>xs_id = qs_id s, xs_source_plan_sha256 = to_hex (sha data),
              xs_source_plan_schema = version_number (schema_version plan),
              xs_source_plan_path_context = qs_plan s, xs_workload_driver = qs_workload_driver s,
              xs_baseline_identity = base, xs_baseline_path_context = qs_baseline_bundle s\<rparr>)))))"

fun expand_scenarios ::
  "ContentFs \<Rightarrow> sha \<Rightarrow> QualificationCodec \<Rightarrow> string \<Rightarrow> QualificationScenarioRef list
    \<Rightarrow> QualificationInputError + ExpandedScenarioV1 list" where
  "expand_scenarios fs sha codec root [] = Ok []"
| "expand_scenarios fs sha codec root (s # ss) =
    (case expand_scenario fs sha codec root s of Err e \<Rightarrow> Err e | Ok x \<Rightarrow>
     (case expand_scenarios fs sha codec root ss of Err e \<Rightarrow> Err e | Ok xs \<Rightarrow> Ok (x # xs)))"

definition expand_qualification_profile ::
  "ContentFs \<Rightarrow> sha \<Rightarrow> QualificationCodec \<Rightarrow> string \<Rightarrow> string
    \<Rightarrow> QualificationInputError + QualificationExpansionV1" where
  "expand_qualification_profile fs sha codec workspace profile_path =
    (case validate_relative profile_path of Err e \<Rightarrow> Err e | Ok _ \<Rightarrow>
     (case cf_canonicalize fs workspace of None \<Rightarrow> Err InputIo | Some root \<Rightarrow>
     (case canonical_confined_path fs root profile_path of Err e \<Rightarrow> Err e | Ok canonical \<Rightarrow>
     (case read_input fs canonical MAX_PROFILE_BYTES of Err e \<Rightarrow> Err e | Ok bytes \<Rightarrow>
     (case profile_from_json (qc_profile codec) bytes of Err e \<Rightarrow> Err e | Ok profile \<Rightarrow>
     (case expand_corpus fs sha codec workspace root (qp_corpus profile) of Err e \<Rightarrow> Err e | Ok corpus \<Rightarrow>
     (case content_tree_identity fs sha workspace (qp_target_config profile) of Err e \<Rightarrow> Err e | Ok config \<Rightarrow>
     (case expand_scenarios fs sha codec root (qp_scenarios profile) of Err e \<Rightarrow> Err e | Ok scenarios \<Rightarrow>
      Ok \<lparr>xp_schema_version = 1,
        xp_expansion_policy = (if qp_schema_version profile = 1 then ''eggbench.security-profile-expansion.v1''
          else ''eggbench.security-profile-expansion.v2''),
        xp_profile_id = qp_id profile, xp_profile_sha256 = to_hex (sha bytes),
        xp_corpus_identity = corpus, xp_target_config_identity = config, xp_scenarios = scenarios\<rparr>))))))))"

section \<open>Confinement and bounds\<close>

lemma walk_components_no_link:
  "walk_components fs cursor parts = Ok out \<Longrightarrow> i < length parts \<Longrightarrow>
    \<exists>k. cf_symlink_metadata fs (foldl path_join cursor (take (Suc i) parts)) = Some k \<and> k \<noteq> KindLink"
proof (induction fs cursor parts arbitrary: i rule: walk_components.induct)
  case (2 fs cursor part parts)
  then obtain k where k: "cf_symlink_metadata fs (path_join cursor part) = Some k" "k \<noteq> KindLink"
    and rest: "walk_components fs (path_join cursor part) parts = Ok out"
    by (auto simp: Let_def split: option.splits if_splits)
  show ?case
  proof (cases i)
    case 0
    with k show ?thesis by simp
  next
    case (Suc j)
    with "2.IH" [OF refl k(1) k(2) rest, of j] "2.prems"(2) show ?thesis by simp
  qed
qed simp

text \<open>
  A path that is accepted as confined is relative without a \<open>..\<close> component, no component on
  the way from the workspace root is a symbolic link, and its canonical form lies under the root.
\<close>

theorem confined_path_stays_inside:
  assumes "canonical_confined_path fs root relative = Ok canonical"
  shows "path_starts_with canonical root \<and> \<not> path_is_absolute relative
    \<and> ''..'' \<notin> set (path_components relative)
    \<and> (\<forall>i < length (path_components relative).
        cf_symlink_metadata fs (foldl path_join root (take (Suc i) (path_components relative))) \<noteq> Some KindLink)"
proof -
  from assms obtain cursor where "relative_path relative"
    "walk_components fs root (path_components relative) = Ok cursor" "path_starts_with canonical root"
    by (auto simp: canonical_confined_path_def validate_relative_def reject_if_def
        split: sum.splits option.splits if_splits)
  then show ?thesis
    using walk_components_no_link by (fastforce simp: relative_path_def)
qed

definition hashed_ok :: "hashed \<Rightarrow> bool" where
  "hashed_ok acc \<longleftrightarrow> length (fst acc) \<le> CONTENT_TREE_MAX_FILES
     \<and> unat (snd acc) = sum_mset (image_mset (\<lambda>f. unat (fi_length f)) (mset (fst acc)))
     \<and> snd acc \<le> CONTENT_TREE_MAX_TOTAL_BYTES
     \<and> (\<forall>f \<in> set (fst acc). fi_length f \<le> CONTENT_TREE_MAX_FILE_BYTES)"

definition file_at :: "ContentFs \<Rightarrow> sha \<Rightarrow> string \<Rightarrow> string \<Rightarrow> ContentFileIdentity option" where
  "file_at fs sha rel p = (case cf_read fs p of None \<Rightarrow> None | Some bytes \<Rightarrow>
     if length bytes \<le> unat CONTENT_TREE_MAX_FILE_BYTES then Some (file_identity sha rel bytes) else None)"

abbreviation bytes_of :: "ContentFileIdentity \<Rightarrow> nat" where
  "bytes_of f \<equiv> unat (fi_length f)"

lemma file_at_length:
  assumes "file_at fs sha rel p = Some f"
  shows "bytes_of f \<le> 8 * 1024 * 1024"
    and "\<exists>bytes. cf_read fs p = Some bytes \<and> f = file_identity sha rel bytes \<and> bytes_of f = length bytes"
proof -
  from assms obtain bytes where b: "cf_read fs p = Some bytes" "f = file_identity sha rel bytes"
    "length bytes \<le> 8 * 1024 * 1024"
    by (auto simp: file_at_def CONTENT_TREE_MAX_FILE_BYTES_def split: option.splits if_splits)
  then have "bytes_of f = length bytes"
    by (simp add: file_identity_def unat_of_nat take_bit_nat_eq_self)
  with b show "bytes_of f \<le> 8 * 1024 * 1024"
    and "\<exists>bytes. cf_read fs p = Some bytes \<and> f = file_identity sha rel bytes \<and> bytes_of f = length bytes" by auto
qed

lemma total_add:
  assumes "unat (a :: u64) \<le> 64 * 1024 * 1024" and "n \<le> 8 * 1024 * 1024"
  shows "unat (a + of_nat n) = unat a + n"
proof -
  have "unat (of_nat n :: u64) = n" using assms(2) by (simp add: unat_of_nat take_bit_nat_eq_self)
  then show ?thesis using assms by (subst unat_add_lem [THEN iffD1]) simp_all
qed

lemma hash_file_iff:
  assumes ok: "hashed_ok acc"
  shows "hash_file fs sha p rel acc = Ok acc' \<longleftrightarrow>
    (\<exists>f. file_at fs sha rel p = Some f \<and> length (fst acc) < 1024
       \<and> unat (snd acc) + bytes_of f \<le> 64 * 1024 * 1024
       \<and> acc' = (fst acc @ [f], snd acc + fi_length f))"
proof (cases "file_at fs sha rel p")
  case None
  then show ?thesis by (auto simp: hash_file_def file_at_def split: option.splits if_splits)
next
  case (Some f)
  from file_at_length [OF Some] obtain bytes where b: "cf_read fs p = Some bytes"
    "f = file_identity sha rel bytes" "bytes_of f = length bytes" "length bytes \<le> 8 * 1024 * 1024" by auto
  have len: "fi_length f = of_nat (length bytes)" using b by (simp add: file_identity_def)
  have "unat (snd acc) \<le> 64 * 1024 * 1024"
    using ok by (simp add: hashed_ok_def CONTENT_TREE_MAX_TOTAL_BYTES_def word_le_nat_alt)
  then have "unat (snd acc + of_nat (length bytes)) = unat (snd acc) + length bytes"
    by (rule total_add [OF _ b(4)])
  then have "CONTENT_TREE_MAX_TOTAL_BYTES < snd acc + of_nat (length bytes) \<longleftrightarrow>
      64 * 1024 * 1024 < unat (snd acc) + length bytes"
    by (simp add: CONTENT_TREE_MAX_TOTAL_BYTES_def word_less_nat_alt)
  with b Some len show ?thesis
    by (auto simp: hash_file_def CONTENT_TREE_MAX_FILES_def CONTENT_TREE_MAX_FILE_BYTES_def Let_def)
qed

lemma hashed_ok_push:
  assumes "hashed_ok acc" and "bytes_of f \<le> 8 * 1024 * 1024" and "length (fst acc) < 1024"
    and "unat (snd acc) + bytes_of f \<le> 64 * 1024 * 1024"
  shows "hashed_ok (fst acc @ [f], snd acc + fi_length f)"
proof -
  have "unat (snd acc + of_nat (bytes_of f)) = unat (snd acc) + bytes_of f"
    by (rule total_add) (use assms in simp_all)
  then have "unat (snd acc + fi_length f) = unat (snd acc) + bytes_of f" by simp
  with assms show ?thesis
    by (auto simp: hashed_ok_def CONTENT_TREE_MAX_FILES_def CONTENT_TREE_MAX_FILE_BYTES_def
        CONTENT_TREE_MAX_TOTAL_BYTES_def word_le_nat_alt)
qed

section \<open>The files of a tree\<close>

text \<open>The files below a directory as a multiset, or nothing when an entry is unusable.  Sums of
  such values over a list do not depend on its order.\<close>

definition psum :: "'a multiset option list \<Rightarrow> 'a multiset option" where
  "psum xs = (if None \<in> set xs then None else Some (sum_mset (image_mset the (mset xs))))"

definition padd :: "'a multiset option \<Rightarrow> 'a multiset option \<Rightarrow> 'a multiset option" where
  "padd x y = psum [x, y]"

lemma psum_Nil [simp]: "psum [] = Some {#}"
  by (simp add: psum_def)

lemma psum_Cons: "psum (x # xs) = padd x (psum xs)"
  by (cases x) (auto simp: psum_def padd_def)

lemma padd_simps [simp]: "padd (Some a) (Some b) = Some (a + b)" "padd None y = None" "padd x None = None"
  "padd (Some {#}) y = y" "padd x (Some {#}) = x"
  by (cases x; cases y; simp add: padd_def psum_def)+

lemma padd_assoc: "padd (padd x y) z = padd x (padd y z)"
  by (cases x; cases y; cases z) (simp_all add: add.assoc)

lemma padd_commute: "padd x y = padd y x"
  by (cases x; cases y) (simp_all add: add.commute)

lemma padd_left_commute: "padd x (padd y z) = padd y (padd x z)"
  by (metis padd_assoc padd_commute)

lemma padd_Some: "padd x y = Some m \<longleftrightarrow> (\<exists>a b. x = Some a \<and> y = Some b \<and> m = a + b)"
  by (cases x; cases y) auto

lemma psum_append: "psum (xs @ ys) = padd (psum xs) (psum ys)"
  by (induction xs) (simp_all add: psum_Cons padd_assoc)

lemma psum_perm: "mset xs = mset ys \<Longrightarrow> psum xs = psum ys"
  by (simp add: psum_def) (metis set_mset_mset)

definition entry_files ::
  "ContentFs \<Rightarrow> sha \<Rightarrow> string \<Rightarrow> (string \<Rightarrow> ContentFileIdentity multiset option) \<Rightarrow> string \<Rightarrow> string option
    \<Rightarrow> ContentFileIdentity multiset option" where
  "entry_files fs sha root below dir e = (case e of None \<Rightarrow> None | Some name \<Rightarrow>
     (let p = path_join dir name in case cf_symlink_metadata fs p of
        Some KindDir \<Rightarrow> below p
      | Some KindFile \<Rightarrow> (case relative_to fs root p of None \<Rightarrow> None | Some rel \<Rightarrow>
          if 512 < length rel then None else map_option (\<lambda>f. {#f#}) (file_at fs sha rel p))
      | _ \<Rightarrow> None))"

primrec tree_files :: "ContentFs \<Rightarrow> sha \<Rightarrow> string \<Rightarrow> nat \<Rightarrow> string \<Rightarrow> ContentFileIdentity multiset option" where
  "tree_files fs sha root 0 = (\<lambda>dir. None)"
| "tree_files fs sha root (Suc k) = (\<lambda>dir. case cf_read_dir fs dir of None \<Rightarrow> None
     | Some es \<Rightarrow> psum (map (entry_files fs sha root (tree_files fs sha root k) dir) es))"

definition node_files :: "ContentFs \<Rightarrow> sha \<Rightarrow> string \<Rightarrow> string \<times> nat \<Rightarrow> ContentFileIdentity multiset option" where
  "node_files fs sha root q = tree_files fs sha root (17 - snd q) (fst q)"

lemma scan_entries_files:
  assumes "scan_entries fs sha root dir depth es acc pushed = Ok (acc', pushed')" and "hashed_ok acc"
  shows "hashed_ok acc' \<and> (\<exists>F. mset (fst acc') = mset (fst acc) + F
    \<and> padd (psum (map (entry_files fs sha root (\<lambda>p. node_files fs sha root (p, Suc depth)) dir) es))
           (psum (map (node_files fs sha root) pushed))
      = padd (Some F) (psum (map (node_files fs sha root) pushed')))"
  using assms
proof (induction fs sha root dir depth es acc pushed rule: scan_entries.induct)
  case (3 fs sha root dir depth name es acc pushed)
  define p where "p = path_join dir name"
  from "3.prems"(1) consider (is_dir) "cf_symlink_metadata fs p = Some KindDir"
    | (is_file) "cf_symlink_metadata fs p = Some KindFile"
    by (auto simp: p_def Let_def split: option.splits PathKind.splits)
  then show ?case
  proof cases
    case is_dir
    with "3.prems" have "scan_entries fs sha root dir depth es acc ((p, depth + 1) # pushed) = Ok (acc', pushed')"
      by (simp add: p_def [symmetric] Let_def)
    from "3.IH"(2) [OF p_def is_dir refl this "3.prems"(2)] is_dir show ?thesis
      by (auto simp: psum_Cons entry_files_def p_def [symmetric] padd_assoc padd_left_commute padd_commute)
  next
    case is_file
    with "3.prems" obtain rel where rel: "relative_to fs root p = Some rel" "\<not> 512 < length rel"
      by (auto simp: p_def [symmetric] Let_def split: option.splits if_splits)
    with is_file "3.prems"(1) obtain acc1 where h: "hash_file fs sha p rel acc = Ok acc1"
      and rest: "scan_entries fs sha root dir depth es acc1 pushed = Ok (acc', pushed')"
      by (auto simp: p_def [symmetric] Let_def split: sum.splits)
    from h hash_file_iff [OF "3.prems"(2)] obtain f where f: "file_at fs sha rel p = Some f"
      "length (fst acc) < 1024" "unat (snd acc) + bytes_of f \<le> 64 * 1024 * 1024"
      "acc1 = (fst acc @ [f], snd acc + fi_length f)" by blast
    have ok1: "hashed_ok acc1"
      using hashed_ok_push [OF "3.prems"(2) file_at_length(1) [OF f(1)] f(2,3)] f(4) by simp
    from "3.IH"(1) [OF p_def is_file refl rel(1) rel(2) h rest ok1] obtain F where F: "hashed_ok acc'"
      "mset (fst acc') = mset (fst acc1) + F"
      "padd (psum (map (entry_files fs sha root (\<lambda>p. node_files fs sha root (p, Suc depth)) dir) es))
           (psum (map (node_files fs sha root) pushed))
      = padd (Some F) (psum (map (node_files fs sha root) pushed'))" by blast
    have "entry_files fs sha root (\<lambda>p. node_files fs sha root (p, Suc depth)) dir (Some name) = Some {#f#}"
      using is_file rel f(1) by (simp add: entry_files_def p_def [symmetric] Let_def)
    moreover have "padd (Some {#f#}) (padd (Some F) y) = padd (Some ({#f#} + F)) y" for y :: "ContentFileIdentity multiset option"
      by (metis padd_assoc padd_simps(1))
    ultimately show ?thesis
      using F f(4) by (intro conjI exI [of _ "{#f#} + F"]) (simp_all add: psum_Cons padd_assoc)
  qed
qed auto

lemma scan_entries_complete:
  assumes "psum (map (entry_files fs sha root (\<lambda>p. node_files fs sha root (p, Suc depth)) dir) es) = Some E"
    and "hashed_ok acc" and "length (fst acc) + size E \<le> 1024"
    and "unat (snd acc) + sum_mset (image_mset bytes_of E) \<le> 64 * 1024 * 1024"
  shows "\<exists>r. scan_entries fs sha root dir depth es acc pushed = Ok r"
  using assms
proof (induction fs sha root dir depth es acc pushed arbitrary: E rule: scan_entries.induct)
  case (2 fs sha root dir depth es acc pushed)
  then show ?case by (simp add: psum_Cons entry_files_def)
next
  case (3 fs sha root dir depth name es acc pushed)
  define p where "p = path_join dir name"
  from "3.prems"(1) obtain A B where AB:
    "entry_files fs sha root (\<lambda>p. node_files fs sha root (p, Suc depth)) dir (Some name) = Some A"
    "psum (map (entry_files fs sha root (\<lambda>p. node_files fs sha root (p, Suc depth)) dir) es) = Some B"
    "E = A + B"
    by (auto simp: psum_Cons padd_Some)
  from AB(1) consider (is_dir) "cf_symlink_metadata fs p = Some KindDir"
    | (is_file) rel f where "cf_symlink_metadata fs p = Some KindFile" "relative_to fs root p = Some rel"
        "\<not> 512 < length rel" "file_at fs sha rel p = Some f" "A = {#f#}"
    by (auto simp: p_def entry_files_def Let_def split: option.splits PathKind.splits if_splits)
  then show ?case
  proof cases
    case is_dir
    have "length (fst acc) + size B \<le> 1024"
      "unat (snd acc) + sum_mset (image_mset bytes_of B) \<le> 64 * 1024 * 1024"
      using "3.prems" AB(3) by auto
    from "3.IH"(2) [OF p_def is_dir refl AB(2) "3.prems"(2) this] is_dir show ?thesis
      by (simp add: p_def [symmetric] Let_def)
  next
    case is_file
    have small: "length (fst acc) < 1024" "unat (snd acc) + bytes_of f \<le> 64 * 1024 * 1024"
      using "3.prems"(3,4) AB(3) is_file(5) by auto
    let ?acc1 = "(fst acc @ [f], snd acc + fi_length f)"
    have h: "hash_file fs sha p rel acc = Ok ?acc1"
      using hash_file_iff [OF "3.prems"(2)] is_file(4) small by blast
    have ok1: "hashed_ok ?acc1"
      by (rule hashed_ok_push [OF "3.prems"(2) file_at_length(1) [OF is_file(4)] small])
    have sum1: "unat (snd acc + fi_length f) = unat (snd acc) + bytes_of f"
      using ok1 "3.prems"(2) by (simp add: hashed_ok_def)
    have "length (fst ?acc1) + size B \<le> 1024"
      "unat (snd ?acc1) + sum_mset (image_mset bytes_of B) \<le> 64 * 1024 * 1024"
      using "3.prems"(3,4) AB(3) is_file(5) sum1 by simp_all
    from "3.IH"(1) [OF p_def is_file(1) refl is_file(2,3) h AB(2) ok1 this] is_file(1,2,3) h show ?thesis
      by (simp add: p_def [symmetric] Let_def)
  qed
qed simp

lemma tree_files_step:
  "\<not> 16 < depth \<Longrightarrow> node_files fs sha root (dir, depth) = (case cf_read_dir fs dir of None \<Rightarrow> None
     | Some es \<Rightarrow> psum (map (entry_files fs sha root (\<lambda>p. node_files fs sha root (p, Suc depth)) dir) es))"
  by (subgoal_tac "17 - depth = Suc (16 - depth)") (simp_all add: node_files_def cong: option.case_cong)

lemma walk_tree_files:
  "walk_tree fs sha root stack acc = Ok acc' \<Longrightarrow> hashed_ok acc \<Longrightarrow>
    hashed_ok acc' \<and> (\<exists>M. psum (map (node_files fs sha root) stack) = Some M \<and> mset (fst acc') = mset (fst acc) + M)"
proof (induction fs sha root stack acc rule: walk_tree.induct)
  case (2 fs sha root dir depth stack acc)
  from "2.prems"(1) obtain es acc1 pushed where s: "\<not> 16 < depth" "cf_read_dir fs dir = Some es"
    "scan_entries fs sha root dir depth es acc [] = Ok (acc1, pushed)"
    "walk_tree fs sha root (pushed @ stack) acc1 = Ok acc'"
    by (auto split: if_splits option.splits sum.splits)
  from scan_entries_files [OF s(3) "2.prems"(2)] obtain F where F: "hashed_ok acc1"
    "mset (fst acc1) = mset (fst acc) + F"
    "psum (map (entry_files fs sha root (\<lambda>p. node_files fs sha root (p, Suc depth)) dir) es)
      = padd (Some F) (psum (map (node_files fs sha root) pushed))" by auto
  from "2.IH" [OF s(1,2,3) refl s(4) F(1)] obtain M where M: "hashed_ok acc'"
    "psum (map (node_files fs sha root) (pushed @ stack)) = Some M" "mset (fst acc') = mset (fst acc1) + M" by auto
  have "psum (map (node_files fs sha root) ((dir, depth) # stack)) = padd (Some F) (Some M)"
    using M(2) F(3) s(2) by (simp add: psum_Cons tree_files_step [OF s(1)] psum_append padd_assoc)
  with M F(2) show ?case by simp
qed simp

lemma walk_tree_complete:
  "psum (map (node_files fs sha root) stack) = Some M \<Longrightarrow> hashed_ok acc \<Longrightarrow>
    length (fst acc) + size M \<le> 1024 \<Longrightarrow>
    unat (snd acc) + sum_mset (image_mset bytes_of M) \<le> 64 * 1024 * 1024 \<Longrightarrow>
    \<exists>acc'. walk_tree fs sha root stack acc = Ok acc'"
proof (induction fs sha root stack acc arbitrary: M rule: walk_tree.induct)
  case (2 fs sha root dir depth stack acc)
  from "2.prems"(1) obtain A B where AB: "node_files fs sha root (dir, depth) = Some A"
    "psum (map (node_files fs sha root) stack) = Some B" "M = A + B"
    by (auto simp: psum_Cons padd_Some)
  have depth: "\<not> 16 < depth" using AB(1) by (auto simp: node_files_def)
  with AB(1) obtain es where es: "cf_read_dir fs dir = Some es"
    "psum (map (entry_files fs sha root (\<lambda>p. node_files fs sha root (p, Suc depth)) dir) es) = Some A"
    by (auto simp: tree_files_step split: option.splits)
  have bounds: "length (fst acc) + size A \<le> 1024"
    "unat (snd acc) + sum_mset (image_mset bytes_of A) \<le> 64 * 1024 * 1024"
    using "2.prems"(3,4) AB(3) by auto
  from scan_entries_complete [OF es(2) "2.prems"(2) bounds, of "[]"] obtain acc1 pushed where
    s: "scan_entries fs sha root dir depth es acc [] = Ok (acc1, pushed)" by (metis surj_pair)
  from scan_entries_files [OF s "2.prems"(2)] es(2) obtain F where F: "hashed_ok acc1"
    "mset (fst acc1) = mset (fst acc) + F" "padd (Some F) (psum (map (node_files fs sha root) pushed)) = Some A"
    by auto
  then obtain P where P: "psum (map (node_files fs sha root) pushed) = Some P" "A = F + P"
    by (auto simp: padd_Some)
  have len: "length (fst acc1) = length (fst acc) + size F"
    using F(2) by (metis size_mset size_union)
  have "unat (snd acc1) = unat (snd acc) + sum_mset (image_mset bytes_of F)"
    using F(1,2) "2.prems"(2) by (simp add: hashed_ok_def)
  with len "2.prems"(3,4) AB(3) P(2)
  have "length (fst acc1) + size (P + B) \<le> 1024"
    "unat (snd acc1) + sum_mset (image_mset bytes_of (P + B)) \<le> 64 * 1024 * 1024" by simp_all
  moreover have "psum (map (node_files fs sha root) (pushed @ stack)) = Some (P + B)"
    using P(1) AB(2) by (simp add: psum_append)
  ultimately show ?case
    using "2.IH" [OF depth es(1) s refl _ F(1)] depth es(1) s by simp
qed simp

section \<open>The identity of a tree\<close>

lemma hashed_ok_empty: "hashed_ok ([], 0)"
  by (simp add: hashed_ok_def)

text \<open>The files found by a successful identity, as the walk or the single hash gives them.\<close>

lemma content_tree_identity_Ok:
  assumes "content_tree_identity fs sha workspace requested = Ok t"
  obtains root canonical acc where "cf_canonicalize fs workspace = Some root"
    and "canonical_confined_path fs root requested = Ok canonical"
    and "t = tree_identity sha acc" and "hashed_ok acc"
    and "(cf_symlink_metadata fs (path_join root requested) = Some KindDir
          \<and> walk_tree fs sha canonical [(canonical, 0)] ([], 0) = Ok acc)
       \<or> cf_symlink_metadata fs (path_join root requested) = Some KindFile"
proof -
  from assms obtain root canonical where rc: "cf_canonicalize fs workspace = Some root"
    "canonical_confined_path fs root requested = Ok canonical"
    by (auto simp: content_tree_identity_def split: sum.splits option.splits)
  from assms rc consider
    (tree) acc where "cf_symlink_metadata fs (path_join root requested) = Some KindDir"
      "walk_tree fs sha canonical [(canonical, 0)] ([], 0) = Ok acc" "t = tree_identity sha acc"
  | (single) rel acc where "cf_symlink_metadata fs (path_join root requested) = Some KindFile"
      "hash_file fs sha (path_join root requested) rel ([], 0) = Ok acc" "t = tree_identity sha acc"
    by (auto simp: content_tree_identity_def Let_def map_sum_def split: sum.splits option.splits if_splits PathKind.splits)
  then show ?thesis
  proof cases
    case tree
    show ?thesis
      using that [OF rc tree(3)] walk_tree_files [OF tree(2) hashed_ok_empty] tree(1,2) by blast
  next
    case single
    from single(2) hash_file_iff [OF hashed_ok_empty] obtain f where
      "file_at fs sha rel (path_join root requested) = Some f" "acc = ([f], fi_length f)"
      by fastforce
    then have "hashed_ok acc"
      using hashed_ok_push [OF hashed_ok_empty file_at_length(1)] by (fastforce dest: file_at_length(1))
    then show ?thesis using that [OF rc single(3)] single(1) by blast
  qed
qed

text \<open>
  C32: The identity of a content tree lists its files in the order of their paths, at most 1024 of
  them and none above 8 MiB, and its byte total is their exact sum, at most 64 MiB: the running
  \<open>u64\<close> total never wraps.
\<close>

theorem content_identity_bounded:
  assumes "content_tree_identity fs sha workspace requested = Ok t"
  shows "sorted (map fi_path (ti_files t)) \<and> ti_file_count t = length (ti_files t)
    \<and> ti_file_count t \<le> 1024
    \<and> (\<forall>f \<in> set (ti_files t). unat (fi_length f) \<le> 8 * 1024 * 1024)
    \<and> unat (ti_total_bytes t) = sum_list (map (\<lambda>f. unat (fi_length f)) (ti_files t))
    \<and> unat (ti_total_bytes t) \<le> 64 * 1024 * 1024
    \<and> ti_aggregate_sha256 t = aggregate_content_files sha (ti_files t)"
proof -
  obtain acc where acc: "t = tree_identity sha acc" "hashed_ok acc"
    using content_tree_identity_Ok [OF assms] by metis
  have "sum_list (map bytes_of (sort_key fi_path (fst acc))) = sum_mset (image_mset bytes_of (mset (fst acc)))"
    by (metis mset_map mset_sort sum_mset_sum_list)
  with acc show ?thesis
    by (auto simp: tree_identity_def Let_def hashed_ok_def CONTENT_TREE_MAX_FILES_def
        CONTENT_TREE_MAX_FILE_BYTES_def CONTENT_TREE_MAX_TOTAL_BYTES_def word_le_nat_alt)
qed

abbreviation relisted :: "ContentFs \<Rightarrow> (string \<Rightarrow> string option list option) \<Rightarrow> ContentFs" where
  "relisted fs listing \<equiv> fs \<lparr>cf_read_dir := listing\<rparr>"

lemma relisted_walk: "walk_components (relisted fs listing) cursor parts = walk_components fs cursor parts"
  by (induction fs cursor parts rule: walk_components.induct) (auto simp: Let_def split: option.splits)

lemma relisted_path: "canonical_confined_path (relisted fs listing) root p = canonical_confined_path fs root p"
  by (simp add: canonical_confined_path_def relisted_walk split: sum.split option.split)

lemma relisted_files:
  assumes perm: "\<forall>d. map_option mset (listing d) = map_option mset (cf_read_dir fs d)"
  shows "tree_files (relisted fs listing) sha root k = tree_files fs sha root k"
proof (induction k)
  case (Suc k)
  have same: "entry_files (relisted fs listing) sha root below dir = entry_files fs sha root below dir" for below dir
    by (rule ext) (simp add: entry_files_def relative_to_def file_at_def Let_def split: option.split PathKind.split)
  show ?case
  proof (rule ext)
    fix dir
    have "map_option mset (listing dir) = map_option mset (cf_read_dir fs dir)" using perm by blast
    then show "tree_files (relisted fs listing) sha root (Suc k) dir = tree_files fs sha root (Suc k) dir"
      by (auto simp: Suc same split: option.splits intro!: psum_perm)
  qed
qed simp

text \<open>
  C31: The identity of a content tree does not depend on the order in which the operating system
  lists its directories: when every directory lists the same entries in another order and the
  files found have different relative paths, the walk succeeds again with the same identity.
\<close>

theorem content_identity_order_independent:
  assumes perm: "\<forall>d. map_option mset (listing d) = map_option mset (cf_read_dir fs d)"
    and t: "content_tree_identity fs sha workspace requested = Ok t"
    and inj: "distinct (map fi_path (ti_files t))"
  shows "content_tree_identity (fs \<lparr>cf_read_dir := listing\<rparr>) sha workspace requested = Ok t"
proof -
  obtain root canonical acc where o: "cf_canonicalize fs workspace = Some root"
    "canonical_confined_path fs root requested = Ok canonical" "t = tree_identity sha acc" "hashed_ok acc"
    and kind: "(cf_symlink_metadata fs (path_join root requested) = Some KindDir
          \<and> walk_tree fs sha canonical [(canonical, 0)] ([], 0) = Ok acc)
       \<or> cf_symlink_metadata fs (path_join root requested) = Some KindFile"
    by (rule content_tree_identity_Ok [OF t])
  obtain c where conf: "path_starts_with canonical root" "validate_relative requested = Ok ()"
    and walk: "walk_components fs root (path_components requested) = Ok c"
    using o(2) by (auto simp: canonical_confined_path_def split: sum.splits option.splits if_splits)
  have pre: "content_tree_identity (relisted fs listing) sha workspace requested = content_tree_identity fs sha workspace requested"
    if "cf_symlink_metadata fs (path_join root requested) = Some KindFile"
    using that o(1,2) conf walk by (simp add: content_tree_identity_def relisted_path relisted_walk hash_file_def)
  from kind show ?thesis
  proof
    assume "cf_symlink_metadata fs (path_join root requested) = Some KindFile"
    with pre t show ?thesis by simp
  next
    assume dir: "cf_symlink_metadata fs (path_join root requested) = Some KindDir
      \<and> walk_tree fs sha canonical [(canonical, 0)] ([], 0) = Ok acc"
    then obtain M where M: "psum (map (node_files fs sha canonical) [(canonical, 0)]) = Some M"
      "mset (fst acc) = M"
      using walk_tree_files [of fs sha canonical "[(canonical, 0)]" "([], 0)" acc] hashed_ok_empty by auto
    have M': "psum (map (node_files (relisted fs listing) sha canonical) [(canonical, 0)]) = Some M"
      using M(1) by (simp add: node_files_def relisted_files [OF perm] psum_Cons)
    have size: "length (fst ([], 0 :: u64)) + size M \<le> 1024"
      "unat (snd ([] :: ContentFileIdentity list, 0 :: u64)) + sum_mset (image_mset bytes_of M) \<le> 64 * 1024 * 1024"
      using o(4) M(2) by (auto simp: hashed_ok_def CONTENT_TREE_MAX_FILES_def CONTENT_TREE_MAX_TOTAL_BYTES_def word_le_nat_alt)
    from walk_tree_complete [OF M' hashed_ok_empty size]
    obtain acc2 where walk2: "walk_tree (relisted fs listing) sha canonical [(canonical, 0)] ([], 0) = Ok acc2" by blast
    then have acc2: "hashed_ok acc2" "mset (fst acc2) = mset (fst acc)"
      using walk_tree_files [OF walk2 hashed_ok_empty] M' M(2) by auto
    have "snd acc2 = snd acc" using acc2 o(4) by (simp add: hashed_ok_def word_unat_eq_iff)
    moreover have "sort_key fi_path (fst acc2) = sort_key fi_path (fst acc)"
    proof (rule sort_key_inj_key_eq)
      show "mset (fst acc2) = mset (sort_key fi_path (fst acc))" using acc2(2) by simp
      have "distinct (map fi_path (sort_key fi_path (fst acc)))" using inj o(3) by (simp add: tree_identity_def Let_def)
      then have "inj_on fi_path (set (fst acc))" by (simp add: distinct_map)
      then show "inj_on fi_path (set (fst acc2))" using acc2(2) by (metis set_mset_mset)
    qed simp
    ultimately have "tree_identity sha acc2 = t" using o(3) by (simp add: tree_identity_def Let_def)
    then show ?thesis
      using dir walk2 o(1,2) conf walk by (auto simp: content_tree_identity_def relisted_path relisted_walk)
  qed
qed

text \<open>A workspace with one directory of two files.\<close>

definition sample_fs :: ContentFs where
  "sample_fs = \<lparr>cf_canonicalize = (\<lambda>p. Some p),
     cf_symlink_metadata = (\<lambda>p. if p = ''/w/c'' then Some KindDir else Some KindFile),
     cf_metadata = (\<lambda>p. Some (True, 1)),
     cf_read_dir = (\<lambda>p. Some [Some ''b'', Some ''a'']), cf_read = (\<lambda>p. Some ''x''), cf_lossy = id\<rparr>"

definition sample_tree :: ContentTreeIdentity where
  "sample_tree = tree_identity id ([file_identity id ''b'' ''x'', file_identity id ''a'' ''x''], 2)"

lemmas path_eval = relative_path_def path_is_absolute_def path_components_def path_starts_with_def path_join_def

lemma sample_tree_identity: "content_tree_identity sample_fs id ''/w'' ''c'' = Ok sample_tree"
  by (simp add: content_tree_identity_def sample_fs_def canonical_confined_path_def validate_relative_def
      reject_if_def path_eval sample_tree_def Let_def hash_file_def relative_to_def slashes_def byte_def
      CONTENT_TREE_MAX_FILES_def CONTENT_TREE_MAX_FILE_BYTES_def CONTENT_TREE_MAX_TOTAL_BYTES_def)

lemma sample_tree_paths: "map fi_path (ti_files sample_tree) = [''a'', ''b'']"
  by (simp add: sample_tree_def tree_identity_def Let_def file_identity_def)

theorem content_identity_bounded_witness: "ti_file_count sample_tree = 2 \<and> unat (ti_total_bytes sample_tree) = 2"
  using content_identity_bounded [OF sample_tree_identity]
  by (simp add: sample_tree_def tree_identity_def Let_def file_identity_def)

theorem content_identity_order_independent_witness:
  "content_tree_identity (sample_fs \<lparr>cf_read_dir := \<lambda>p. Some [Some ''a'', Some ''b'']\<rparr>) id ''/w'' ''c'' = Ok sample_tree"
  by (rule content_identity_order_independent [OF _ sample_tree_identity])
    (simp_all add: sample_fs_def sample_tree_paths)

theorem confined_path_stays_inside_witness: "path_starts_with ''/w/c'' ''/w''"
proof -
  have "canonical_confined_path sample_fs ''/w'' ''c'' = Ok ''/w/c''"
    by (simp add: sample_fs_def canonical_confined_path_def validate_relative_def reject_if_def path_eval Let_def)
  from confined_path_stays_inside [OF this] show ?thesis by blast
qed

section \<open>Loading a corpus\<close>

text \<open>
  A corpus that loads satisfies the corpus contract, and the digest of the file and of every
  body file it names, with their paths and lengths, is the digest declared in the plan; together
  they are at most 1024 files.
\<close>

theorem loaded_corpus_is_declared:
  assumes "load_http_security_corpus fs sha decode workspace relative expected = Ok (corpus, body_root)"
  shows "validate_corpus corpus = Ok ()
    \<and> (\<exists>files. length files \<le> 1024 \<and> sorted (map fi_path files)
        \<and> eq_ignore_ascii_case (aggregate_content_files sha files) expected
        \<and> (\<exists>t. content_tree_identity fs sha workspace relative = Ok t \<and> set (ti_files t) \<subseteq> set files))"
proof -
  from assms obtain bytes ident files acc_bytes where l:
    "corpus_from_json decode bytes = Ok corpus"
    "content_tree_identity fs sha workspace relative = Ok ident"
    "add_body_files fs sha workspace body_root (path_parent relative) (hs_cases corpus)
       (ti_files ident, ti_total_bytes ident) = Ok (files, acc_bytes)"
    "\<not> CONTENT_TREE_MAX_FILES < length (sort_key fi_path files)"
    "eq_ignore_ascii_case (aggregate_content_files sha (sort_key fi_path files)) expected"
    by (auto simp: load_http_security_corpus_def Let_def split: option.splits sum.splits if_splits prod.splits)
  have "set (fst acc) \<subseteq> set files'" if "add_body_files fs sha workspace body_root parent cs acc = Ok (files', n)"
    for parent cs acc files' n
    using that
    by (induction fs sha workspace body_root parent cs acc rule: add_body_files.induct)
      (auto split: HttpCaseBodyV1.splits sum.splits option.splits if_splits prod.splits)
  from this [OF l(3)] have "set (ti_files ident) \<subseteq> set (sort_key fi_path files)" by simp
  moreover have "validate_corpus corpus = Ok ()"
    using l(1) by (auto simp: corpus_from_json_def split: option.splits sum.splits)
  ultimately show ?thesis
    using l(2,4,5) by (auto simp: CONTENT_TREE_MAX_FILES_def intro!: exI [of _ "sort_key fi_path files"])
qed

end
