(* ===== verification/SessionStart.thy ===== *)
theory SessionStart
  imports Session
begin

text \<open>
  \<open>LocalSession::startup\<close>: binding resolution, spawning, readiness and publication of each
  launch entry, and the teardown of what runs already when one of them fails.
\<close>

section \<open>Readiness\<close>

definition find_process :: "string \<Rightarrow> LocalSession \<Rightarrow> RunningProcess option" where
  "find_process identity s =
    (case find (is_process_named identity) (rev (running s)) of
       Some (ProcessService p) \<Rightarrow> Some p | _ \<Rightarrow> None)"

definition alive_or_exited :: "'w Host \<Rightarrow> ProcessSpec \<Rightarrow> u32 \<Rightarrow> ('w, RunnerError + unit) io" where
  "alive_or_exited h spec pid =
     andthen (ask (h_is_alive h pid)) (\<lambda>alive.
       yields (if alive then Ok ()
         else Err (ProcessExitedEarly (ps_identity spec) ''process is not alive'' [])))"

definition check_alive :: "'w Host \<Rightarrow> ProcessSpec \<Rightarrow> u32 \<Rightarrow> LocalSession \<Rightarrow> ('w, RunnerError + unit) io" where
  "check_alive h spec pid s =
    (case find_process (ps_identity spec) s of
       None \<Rightarrow> alive_or_exited h spec pid
     | Some p \<Rightarrow>
         andthen (ask (h_try_wait h (run_child p))) (\<lambda>reply.
           case reply of
             ExitedWith status \<Rightarrow>
               yields (Err (ProcessExitedEarly (ps_identity spec) (''exited with status '' @ status) []))
           | _ \<Rightarrow> alive_or_exited h spec pid))"

datatype WaitOutcome = WaitExited string | WaitCancelled | WaitElapsed

partial_function (option) wait_for_exit_cancel ::
  "'w Host \<Rightarrow> nat \<Rightarrow> nat \<Rightarrow> nat \<Rightarrow> 'w \<Rightarrow> (WaitOutcome \<times> 'w) option" where
  "wait_for_exit_cancel h child start deadline w =
    (case h_cancelled h w of (cancelled, w1) \<Rightarrow>
      if cancelled then Some (WaitCancelled, w1)
      else (case h_try_wait h child w1 of (reply, w2) \<Rightarrow>
        (case reply of
           ExitedWith status \<Rightarrow> Some (WaitExited status, w2)
         | WaitError \<Rightarrow> Some (WaitElapsed, w2)
         | StillRunning \<Rightarrow>
             (case h_now h w2 of (now, w3) \<Rightarrow>
               if deadline \<le> now - start then Some (WaitElapsed, w3)
               else (case h_sleep_or_cancel h POLL_INTERVAL w3 of (cancelled, w4) \<Rightarrow>
                 if cancelled then Some (WaitCancelled, w4)
                 else wait_for_exit_cancel h child start deadline w4)))))"

definition PROBE_ATTEMPT_CAP :: nat where
  "PROBE_ATTEMPT_CAP = millis 250"

definition probe_context :: "ProcessSpec \<Rightarrow> u32 \<Rightarrow> bool \<Rightarrow> ProbeContext" where
  "probe_context spec pid alive = \<lparr>ctx_service = ps_identity spec, ctx_pid = Some pid,
     ctx_alive = alive, ctx_http_url = ps_http_url spec\<rparr>"

partial_function (option) probe_until ::
  "'w Host \<Rightarrow> ProcessSpec \<Rightarrow> u32 \<Rightarrow> Name \<Rightarrow> u64 \<Rightarrow> nat \<Rightarrow> 'w \<Rightarrow> ((RunnerError + unit) \<times> 'w) option" where
  "probe_until h spec pid probe timeout_ms deadline w =
    (case h_is_alive h pid w of (alive, w1) \<Rightarrow>
    (case h_now h w1 of (now, w2) \<Rightarrow>
      if deadline \<le> now then Some (Err (ReadinessTimeout (ps_identity spec) timeout_ms []), w2)
      else (case h_probe h probe (probe_context spec pid alive) (min (deadline - now) PROBE_ATTEMPT_CAP) w2
        of (reply, w3) \<Rightarrow>
          (case reply of
             ProbeCancelled \<Rightarrow> Some (Err (Cancelled []), w3)
           | ProbeReady \<Rightarrow> Some (Ok (), w3)
           | ProbeNotReady \<Rightarrow>
               (case h_now h w3 of (now2, w4) \<Rightarrow>
                 if deadline \<le> now2 then Some (Err (ReadinessTimeout (ps_identity spec) timeout_ms []), w4)
                 else (case h_sleep_or_cancel h (min (deadline - now2) PROBE_ATTEMPT_CAP) w4 of (cancelled, w5) \<Rightarrow>
                   if cancelled then Some (Err (Cancelled []), w5)
                   else probe_until h spec pid probe timeout_ms deadline w5))))))"

fun attach_cleanup :: "RunnerError \<Rightarrow> CleanupFailure list \<Rightarrow> RunnerError" where
  "attach_cleanup (SpawnFailed service message _) cleanup = SpawnFailed service message cleanup"
| "attach_cleanup (ReadinessFailed service message _) cleanup = ReadinessFailed service message cleanup"
| "attach_cleanup (ReadinessTimeout service timeout_ms _) cleanup = ReadinessTimeout service timeout_ms cleanup"
| "attach_cleanup (ProcessExitedEarly service message _) cleanup = ProcessExitedEarly service message cleanup"
| "attach_cleanup (Cancelled _) cleanup = Cancelled cleanup"
| "attach_cleanup other cleanup = other"

definition cleanup_after ::
  "'w Host \<Rightarrow> RunnerError \<Rightarrow> LocalSession \<Rightarrow> ('w, (RunnerError + 'a) \<times> LocalSession) io" where
  "cleanup_after h e s =
     andthen (teardown_running h s) (\<lambda>(cleanup, s'). yields (Err (attach_cleanup e cleanup), s'))"

definition missing_handle :: "ProcessSpec \<Rightarrow> RunnerError" where
  "missing_handle spec = ProcessExitedEarly (ps_identity spec) ''owned process handle is missing'' []"

definition delay_outcome ::
  "'w Host \<Rightarrow> ProcessSpec \<Rightarrow> u32 \<Rightarrow> LocalSession \<Rightarrow> WaitOutcome \<Rightarrow> ('w, RunnerError + unit) io" where
  "delay_outcome h spec pid s outcome =
    (case outcome of
       WaitCancelled \<Rightarrow> yields (Err (Cancelled []))
     | WaitExited status \<Rightarrow> yields (Err (ProcessExitedEarly (ps_identity spec)
         (''exited before delay elapsed: '' @ status) []))
     | WaitElapsed \<Rightarrow> check_alive h spec pid s)"

definition keep :: "LocalSession \<Rightarrow> ('w, RunnerError + unit) io \<Rightarrow> ('w, (RunnerError + unit) \<times> LocalSession) io" where
  "keep s m = andthen m (\<lambda>r. yields (r, s))"

definition probe_then_alive ::
  "'w Host \<Rightarrow> ProcessSpec \<Rightarrow> u32 \<Rightarrow> Name \<Rightarrow> DurationMs \<Rightarrow> LocalSession \<Rightarrow> ('w, RunnerError + unit) io" where
  "probe_then_alive h spec pid probe timeout_ms s =
     andthen (ask (h_now h)) (\<lambda>now.
     andthen (probe_until h spec pid probe (duration_get timeout_ms)
         (now + millis (unat (duration_get timeout_ms)))) (\<lambda>r.
       case r of Err e \<Rightarrow> yields (Err e) | Ok _ \<Rightarrow> check_alive h spec pid s))"

definition apply_readiness ::
  "'w Host \<Rightarrow> ProcessSpec \<Rightarrow> u32 \<Rightarrow> LocalSession \<Rightarrow> ('w, (RunnerError + unit) \<times> LocalSession) io" where
  "apply_readiness h spec pid s =
    (case ps_readiness spec of
       None \<Rightarrow> keep s (check_alive h spec pid s)
     | Some (Delay after_ms) \<Rightarrow>
         (case find_process (ps_identity spec) s of
            None \<Rightarrow> cleanup_after h (missing_handle spec) s
          | Some p \<Rightarrow>
              keep s (andthen (ask (h_now h)) (\<lambda>start.
                andthen (wait_for_exit_cancel h (run_child p) start (millis (unat (duration_get after_ms))))
                  (delay_outcome h spec pid s))))
     | Some (Probe probe timeout_ms) \<Rightarrow>
         if \<not> h_probe_registered h probe
         then yields (Err (UnsupportedProbe (ps_identity spec) (as_str probe)), s)
         else keep s (probe_then_alive h spec pid probe timeout_ms s))"

definition apply_adapter_readiness :: "'w Host \<Rightarrow> AdapterSpec \<Rightarrow> ('w, RunnerError + unit) io" where
  "apply_adapter_readiness h spec =
    (case as_readiness spec of
       None \<Rightarrow> yields (Ok ())
     | Some (Delay after_ms) \<Rightarrow>
         andthen (ask (h_sleep_or_cancel h (millis (unat (duration_get after_ms))))) (\<lambda>cancelled.
           yields (if cancelled then Err (Cancelled []) else Ok ()))
     | Some (Probe probe _) \<Rightarrow> yields (Err (UnsupportedProbe (as_identity spec) (as_str probe))))"

section \<open>Starting one service\<close>

definition binding_consumption ::
  "'w Host \<Rightarrow> string \<Rightarrow> string \<Rightarrow> string \<Rightarrow> string \<Rightarrow> string \<Rightarrow> string \<Rightarrow> BindingConsumption" where
  "binding_consumption h c kind dest service key v = \<lparr>consumer = c, destination_kind = kind,
     destination = dest, source_service = service, source_key = key, value_sha256 = h_sha256 h v,
     value_in_public_topology = True\<rparr>"

definition consumed_value :: "RuntimeBindings \<Rightarrow> string \<Rightarrow> string \<Rightarrow> RunnerError + string" where
  "consumed_value b service key =
    (case binding_get b service key of
       None \<Rightarrow> Err InvalidPlan
     | Some v \<Rightarrow> if 2048 < length v \<or> has_control v then Err InvalidPlan else Ok v)"

text \<open>An argument index outside of \<open>argv\<close> panics.\<close>

fun bind_arguments ::
  "'w Host \<Rightarrow> RuntimeBindings \<Rightarrow> RuntimeBindingArg list \<Rightarrow> ProcessSpec \<Rightarrow> BindingConsumption list
    \<Rightarrow> (RunnerError + ProcessSpec \<times> BindingConsumption list) option" where
  "bind_arguments h b [] spec ev = Some (Ok (spec, ev))"
| "bind_arguments h b (r # rs) spec ev =
    (case consumed_value b (as_str (arg_source_service r)) (arg_source_key r) of
       Err e \<Rightarrow> Some (Err e)
     | Ok v \<Rightarrow>
         if length (ps_argv spec) \<le> arg_index r then None
         else bind_arguments h b rs (spec \<lparr>ps_argv := (ps_argv spec)[arg_index r := v]\<rparr>)
           (ev @ [binding_consumption h (ps_identity spec) ''argv'' (show_dec (arg_index r))
              (as_str (arg_source_service r)) (arg_source_key r) v]))"

fun bind_environment ::
  "'w Host \<Rightarrow> RuntimeBindings \<Rightarrow> (string \<times> RuntimeBindingSource) list \<Rightarrow> ProcessSpec
    \<Rightarrow> BindingConsumption list \<Rightarrow> RunnerError + ProcessSpec \<times> BindingConsumption list" where
  "bind_environment h b [] spec ev = Ok (spec, ev)"
| "bind_environment h b ((key, r) # rs) spec ev =
    (case consumed_value b (as_str (env_source_service r)) (env_source_key r) of
       Err e \<Rightarrow> Err e
     | Ok v \<Rightarrow> bind_environment h b rs (spec \<lparr>ps_env := bt_insert key v (ps_env spec)\<rparr>)
         (ev @ [binding_consumption h (ps_identity spec) ''environment'' key
            (as_str (env_source_service r)) (env_source_key r) v]))"

definition resolve_binding_inputs ::
  "'w Host \<Rightarrow> RuntimeBindings \<Rightarrow> ProcessSpec
    \<Rightarrow> (RunnerError + ProcessSpec \<times> BindingConsumption list) option" where
  "resolve_binding_inputs h b spec =
    (case bind_arguments h b (ps_binding_args spec) spec [] of
       None \<Rightarrow> None
     | Some (Err e) \<Rightarrow> Some (Err e)
     | Some (Ok (spec', ev)) \<Rightarrow> Some (bind_environment h b (ps_binding_env spec) spec' ev))"

definition spawn_one :: "'w Host \<Rightarrow> ProcessSpec \<Rightarrow> ('w, string + RunningProcess) io" where
  "spawn_one h spec =
    (if ps_argv spec = [] then panics
     else andthen (ask (h_spawn h spec)) (\<lambda>reply. yields (case reply of
       SpawnRefused message \<Rightarrow> Err message
     | SpawnedChild child pid out err \<Rightarrow>
         (case pid of
            None \<Rightarrow> Err ''spawned process has no identifier''
          | Some pid \<Rightarrow>
              if \<not> out then Err ''spawned process has no stdout pipe''
              else if \<not> err then Err ''spawned process has no stderr pipe''
              else Ok \<lparr>run_spec = spec, run_child = child, run_pid = pid, run_drains = [True, False]\<rparr>))))"

definition cancel_after_start :: "'w Host \<Rightarrow> LocalSession \<Rightarrow> ('w, (RunnerError + 'a) \<times> LocalSession) io" where
  "cancel_after_start h s =
    (if running s = [] then yields (Err CancelledBeforeSpawn, s)
     else andthen (teardown_running h s) (\<lambda>(cleanup, s'). yields (Err (Cancelled cleanup), s')))"

definition ready_process ::
  "'w Host \<Rightarrow> ProcessSpec \<Rightarrow> u32 \<Rightarrow> LocalSession \<Rightarrow> ('w, (RunnerError + unit) \<times> LocalSession) io" where
  "ready_process h spec pid s =
     andthen (apply_readiness h spec pid s) (\<lambda>(r, s1).
       case r of
         Err e \<Rightarrow> cleanup_after h e s1
       | Ok _ \<Rightarrow>
           andthen (push_event h (ps_identity spec) Ready (Some pid) s1) (\<lambda>s2.
             (case publish_spec_bindings (ps_identity spec) (ps_http_url spec) (ps_static_bindings spec) (bindings s2)
              of (r, b) \<Rightarrow> yields (r, s2 \<lparr>bindings := b\<rparr>))))"

definition launch_process ::
  "'w Host \<Rightarrow> ProcessSpec \<Rightarrow> ProcessSpec \<Rightarrow> LocalSession \<Rightarrow> ('w, (RunnerError + unit) \<times> LocalSession) io" where
  "launch_process h spec resolved s =
     andthen (spawn_one h resolved) (\<lambda>r.
       case r of
         Err message \<Rightarrow>
           andthen (teardown_running h s) (\<lambda>(cleanup, s').
             yields (Err (SpawnFailed (ps_identity spec) message cleanup), s'))
       | Ok p \<Rightarrow>
           andthen (push_event h (ps_identity spec) Spawned (Some (run_pid p)) s) (\<lambda>s1.
             ready_process h spec (run_pid p) (s1 \<lparr>running := running s1 @ [ProcessService p]\<rparr>)))"

definition start_process ::
  "'w Host \<Rightarrow> ProcessSpec \<Rightarrow> LocalSession \<Rightarrow> ('w, (RunnerError + unit) \<times> LocalSession) io" where
  "start_process h spec s =
    (case resolve_binding_inputs h (bindings s) spec of
       None \<Rightarrow> panics
     | Some (Err e) \<Rightarrow> cleanup_after h e s
     | Some (Ok (resolved, ev)) \<Rightarrow>
         (let s1 = s \<lparr>binding_consumptions := binding_consumptions s @ ev\<rparr>
          in andthen (ask (h_cancelled h)) (\<lambda>cancelled.
               if cancelled then cancel_after_start h s1 else launch_process h spec resolved s1)))"

definition declared_bindings :: "AdapterSpec \<Rightarrow> (RunnerError + unit) \<times> RuntimeBindings" where
  "declared_bindings spec =
     publish_spec_bindings (as_identity spec) (as_http_url spec) (as_static_bindings spec) no_bindings"

definition add_adapter :: "AdapterSpec \<Rightarrow> nat \<Rightarrow> RuntimeBindings \<Rightarrow> LocalSession \<Rightarrow> LocalSession" where
  "add_adapter spec handle b s = s \<lparr>running := running s @ [AdapterService \<lparr>adp_identity = as_identity spec,
     adp_service_type = as_service_type spec, adp_handle = handle, adp_bindings = b,
     adp_grace = millis (unat (as_grace_ms spec))\<rparr>]\<rparr>"

definition admit_adapter ::
  "'w Host \<Rightarrow> AdapterSpec \<Rightarrow> nat \<Rightarrow> RuntimeBindings \<Rightarrow> LocalSession
    \<Rightarrow> ('w, (RunnerError + RuntimeBindings) \<times> LocalSession) io" where
  "admit_adapter h spec handle b s =
    (if as_http_url spec = None \<and> as_static_bindings spec = []
     then yields (Ok b, add_adapter spec handle b s)
     else (case declared_bindings spec of
         (Err e, _) \<Rightarrow> yields (Err e, s)
       | (Ok _, declared) \<Rightarrow>
           (case merge_checked b declared of
              (Err _, _) \<Rightarrow>
                andthen (ask (h_adapter_shutdown h handle (millis (unat (as_grace_ms spec))))) (\<lambda>_.
                  yields (Err (UnsupportedService (as_identity spec)), s))
            | (Ok _, merged) \<Rightarrow> yields (Ok merged, add_adapter spec handle merged s))))"

definition start_adapter ::
  "'w Host \<Rightarrow> AdapterSpec \<Rightarrow> LocalSession \<Rightarrow> ('w, (RunnerError + RuntimeBindings) \<times> LocalSession) io" where
  "start_adapter h spec s =
    (if \<not> h_adapter_registered h (as_service_type spec)
     then yields (Err (UnsupportedService (as_identity spec)), s)
     else andthen (ask (h_adapter_start h \<lparr>req_service = as_identity spec,
         req_service_type = as_service_type spec, req_config = as_config spec,
         req_grace = millis (unat (as_grace_ms spec))\<rparr>)) (\<lambda>reply.
       case reply of
         AdapterCancelled \<Rightarrow> yields (Err (Cancelled []), s)
       | AdapterFailed message \<Rightarrow> yields (Err (SpawnFailed (as_identity spec) message []), s)
       | AdapterStarted handle b \<Rightarrow> admit_adapter h spec handle b s))"

definition ready_adapter ::
  "'w Host \<Rightarrow> AdapterSpec \<Rightarrow> RuntimeBindings \<Rightarrow> LocalSession \<Rightarrow> ('w, (RunnerError + unit) \<times> LocalSession) io" where
  "ready_adapter h spec b s =
     andthen (apply_adapter_readiness h spec) (\<lambda>r.
       case r of
         Err e \<Rightarrow> cleanup_after h e s
       | Ok _ \<Rightarrow>
           (case merge_checked (bindings s) b of
              (Err _, b') \<Rightarrow> yields (Err InvalidPlan, s \<lparr>bindings := b'\<rparr>)
            | (Ok _, b') \<Rightarrow>
                andthen (push_event h (as_identity spec) Ready None (s \<lparr>bindings := b'\<rparr>))
                  (\<lambda>s2. yields (Ok (), s2))))"

definition launch_adapter ::
  "'w Host \<Rightarrow> AdapterSpec \<Rightarrow> LocalSession \<Rightarrow> ('w, (RunnerError + unit) \<times> LocalSession) io" where
  "launch_adapter h spec s =
     andthen (start_adapter h spec s) (\<lambda>(r, s1).
       case r of
         Ok b \<Rightarrow>
           andthen (push_event h (as_identity spec) Spawned None s1) (\<lambda>s2. ready_adapter h spec b s2)
       | Err e \<Rightarrow>
           andthen (ask (h_cancelled h)) (\<lambda>cancelled.
             if cancelled then cancel_after_start h s1 else cleanup_after h e s1))"

section \<open>Startup\<close>

definition launch ::
  "'w Host \<Rightarrow> LaunchEntry \<Rightarrow> LocalSession \<Rightarrow> ('w, (RunnerError + unit) \<times> LocalSession) io" where
  "launch h e s =
    (case entry_kind e of
       LaunchProcess \<Rightarrow>
         (case process_of (spawn_plan s) (entry_identity e) of
            None \<Rightarrow> yields (Err InvalidPlan, s)
          | Some spec \<Rightarrow> start_process h spec s)
     | LaunchAdapter \<Rightarrow>
         (case adapter_of (spawn_plan s) (entry_identity e) of
            None \<Rightarrow> yields (Err InvalidPlan, s)
          | Some spec \<Rightarrow> launch_adapter h spec s))"

fun startup_from ::
  "'w Host \<Rightarrow> LaunchEntry list \<Rightarrow> string list \<Rightarrow> LocalSession
    \<Rightarrow> ('w, (RunnerError + string list) \<times> LocalSession) io" where
  "startup_from h [] started s = yields (Ok started, s)"
| "startup_from h (e # es) started s =
     andthen (ask (h_cancelled h)) (\<lambda>cancelled.
       if cancelled then cancel_after_start h s
       else andthen (launch h e s) (\<lambda>(r, s1).
         case r of
           Err err \<Rightarrow> yields (Err err, s1)
         | Ok _ \<Rightarrow> startup_from h es (started @ [entry_identity e]) s1))"

definition unregistered_probe :: "'w Host \<Rightarrow> ProcessSpec \<Rightarrow> RunnerError + unit" where
  "unregistered_probe h spec =
    (case ps_readiness spec of
       Some (Probe probe _) \<Rightarrow>
         reject_if (\<not> h_probe_registered h probe) (UnsupportedProbe (ps_identity spec) (as_str probe))
     | _ \<Rightarrow> Ok ())"

definition check_probes_registered :: "'w Host \<Rightarrow> LocalSession \<Rightarrow> RunnerError + unit" where
  "check_probes_registered h s = for_each (unregistered_probe h) (specs (spawn_plan s))"

definition startup ::
  "'w Host \<Rightarrow> LocalSession \<Rightarrow> ('w, (RunnerError + string list) \<times> LocalSession) io" where
  "startup h s =
    (case check_probes_registered h s of
       Err e \<Rightarrow> yields (Err e, s)
     | Ok _ \<Rightarrow> startup_from h (launch_order (spawn_plan s)) [] s)"

record LifecycleOutcome =
  outcome_started :: "string list"
  outcome_stopped_order :: "string list"
  outcome_cleanup :: "CleanupFailure list"

definition session_run ::
  "'w Host \<Rightarrow> LocalSession \<Rightarrow> ('w, (RunnerError + LifecycleOutcome) \<times> LocalSession) io" where
  "session_run h s =
     andthen (startup h s) (\<lambda>(r, s1).
       case r of
         Err e \<Rightarrow> yields (Err e, s1)
       | Ok started \<Rightarrow>
           andthen (session_shutdown h s1) (\<lambda>(rep, s2).
             yields (Ok \<lparr>outcome_started = started, outcome_stopped_order = stopped_order rep,
               outcome_cleanup = shutdown_failures rep\<rparr>, s2)))"

end
