(* ===== verification/SessionProps.thy ===== *)
theory SessionProps
  imports SessionStart
begin

text \<open>
  What a session guarantees.  The abstract specification is a stack machine: a service is
  opened by \<open>Spawned\<close>, may become \<open>Ready\<close> while it is on top, and is closed by \<open>Stopping\<close> and
  \<open>Stopped\<close> only when it is on top.  Every operation of the session refines it: its event log
  is a run of the machine, and the machine's stack is the list of running services.
\<close>

section \<open>Bounded output\<close>

lemma drained_snoc: "drained (chunks @ [c]) cap = spool_push c (drained chunks cap)"
  by (simp add: drained_def)

lemma drained_state:
  assumes "length (concat chunks) < 2 ^ 64"
  shows "spool_retained (drained chunks cap) = take (unat cap) (concat chunks)
    \<and> spool_cap (drained chunks cap) = cap
    \<and> unat (spool_total (drained chunks cap)) = length (concat chunks)
    \<and> unat (spool_dropped (drained chunks cap)) = length (concat chunks) - unat cap"
  using assms
proof (induction chunks rule: rev_induct)
  case Nil
  then show ?case by (simp add: drained_def spool_new_def)
next
  case (snoc c chunks)
  let ?all = "concat chunks" and ?s = "drained chunks cap"
  have small: "length ?all + length c < 2 ^ 64" using snoc.prems by simp
  with snoc.IH have ih: "spool_retained ?s = take (unat cap) ?all" "spool_cap ?s = cap"
    "unat (spool_total ?s) = length ?all" "unat (spool_dropped ?s) = length ?all - unat cap"
    by simp_all
  have len [simp]: "unat (of_nat n :: u64) = n" if "n < 2 ^ 64" for n
    using that by (simp add: unat_of_nat)
  have plus: "unat (a + of_nat n :: u64) = unat a + n" if "unat a + n < 2 ^ 64" for a :: u64 and n
    using that by (simp add: unat_word_ariths unat_of_nat)
  have total: "unat (spool_total ?s + of_nat (length c)) = length ?all + length c"
    using plus [of "spool_total ?s" "length c"] ih(3) small by simp
  have kept: "length (spool_retained ?s) = min (length ?all) (unat cap)" using ih(1) by simp
  have kept_small: "length (spool_retained ?s) < 2 ^ 64" using kept small by simp
  have full: "cap \<le> of_nat (length (spool_retained ?s)) \<longleftrightarrow> unat cap \<le> length ?all"
    using kept kept_small by (simp add: word_le_nat_alt)
  show ?case
  proof (cases "unat cap \<le> length ?all")
    case True
    have "unat (spool_dropped ?s + of_nat (length c)) = length ?all - unat cap + length c"
      using plus [of "spool_dropped ?s" "length c"] ih(4) small by simp
    with True full ih total show ?thesis
      by (simp add: drained_snoc spool_push_def Let_def)
  next
    case False
    then have less: "length ?all < unat cap" by simp
    have "(of_nat (length (spool_retained ?s)) :: u64) \<le> cap"
      using full less by (simp add: not_le)
    then have room: "unat (cap - of_nat (length (spool_retained ?s))) = unat cap - length ?all"
      using kept kept_small less by (simp add: unat_sub)
    have dropped: "unat (spool_dropped ?s) = 0" using ih(4) less by simp
    have "unat (spool_dropped ?s + of_nat (length c - (unat cap - length ?all)))
        = length c - (unat cap - length ?all)"
      using plus [of "spool_dropped ?s" "length c - (unat cap - length ?all)"] dropped small by simp
    with False full room ih total less dropped show ?thesis
      by (auto simp: drained_snoc spool_push_def Let_def)
  qed
qed

text \<open>
  A service's log is the leading part of its output up to the declared limit; the report
  says exactly whether and how many bytes were dropped, and retained and dropped bytes add up
  to everything the pipe gave.
\<close>

theorem bounded_log_exact:
  assumes "length (concat chunks) < 2 ^ 64"
  shows "out_data (spool_snapshot (drained chunks cap)) = take (unat cap) (concat chunks)
    \<and> (truncated (spool_snapshot (drained chunks cap)) \<longleftrightarrow> unat cap < length (concat chunks))
    \<and> unat (total_bytes (spool_snapshot (drained chunks cap))) = length (concat chunks)
    \<and> unat (retained_bytes (spool_snapshot (drained chunks cap)))
        + unat (dropped_bytes (spool_snapshot (drained chunks cap))) = length (concat chunks)"
proof -
  note d = drained_state [OF assms, of cap]
  have "unat (of_nat (min (length (concat chunks)) (unat cap)) :: u64) = min (length (concat chunks)) (unat cap)"
    using assms by (simp add: unat_of_nat)
  with d show ?thesis
    by (auto simp: spool_snapshot_def word_less_nat_alt min.commute)
qed

theorem bounded_log_exact_witness:
  "out_data (spool_snapshot (drained [''ab'', ''cd''] 3)) = ''abc''
    \<and> truncated (spool_snapshot (drained [''ab'', ''cd''] 3))"
  using bounded_log_exact [of "[''ab'', ''cd'']" 3] by simp

section \<open>The stack machine of a lifecycle\<close>

type_synonym machine = "string list \<times> string option"

inductive lifecycle_step :: "machine \<Rightarrow> string \<times> LifecycleEventKind \<Rightarrow> machine \<Rightarrow> bool" where
  opened: "lifecycle_step (stack, None) (i, Spawned) (i # stack, None)"
| became_ready: "lifecycle_step (i # stack, None) (i, Ready) (i # stack, None)"
| closing: "lifecycle_step (i # stack, None) (i, Stopping) (stack, Some i)"
| closed: "lifecycle_step (stack, Some i) (i, Stopped) (stack, None)"

inductive lifecycle_run :: "(string \<times> LifecycleEventKind) list \<Rightarrow> machine \<Rightarrow> bool" where
  start: "lifecycle_run [] ([], None)"
| extend: "lifecycle_run es m \<Longrightarrow> lifecycle_step m e m' \<Longrightarrow> lifecycle_run (es @ [e]) m'"

definition log_of :: "LocalSession \<Rightarrow> (string \<times> LifecycleEventKind) list" where
  "log_of s = map (\<lambda>e. (event_identity e, event_kind e)) (events s)"

definition stack_of :: "LocalSession \<Rightarrow> string list" where
  "stack_of s = rev (map running_identity (running s))"

definition numbered :: "LocalSession \<Rightarrow> bool" where
  "numbered s \<longleftrightarrow> map event_seq (events s) = map of_nat [0..<length (events s)]
     \<and> next_seq s = of_nat (length (events s))"

definition session_inv :: "SpawnPlan \<Rightarrow> LocalSession \<Rightarrow> bool" where
  "session_inv sp s \<longleftrightarrow> spawn_plan s = sp \<and> numbered s \<and> bindings_ok (bindings s)
     \<and> lifecycle_run (log_of s) (stack_of s, None)"

text \<open>One event appended: the rest of the session is untouched.\<close>

definition logged :: "string \<Rightarrow> LifecycleEventKind \<Rightarrow> LocalSession \<Rightarrow> LocalSession \<Rightarrow> bool" where
  "logged i k s s' \<longleftrightarrow> (\<exists>e. s' = s \<lparr>events := events s @ [e], next_seq := next_seq s + 1\<rparr>
     \<and> event_identity e = i \<and> event_kind e = k \<and> event_seq e = next_seq s)"

lemma push_event_logged: "always (logged i k s) (push_event h i k pid s)"
  unfolding push_event_def
  by (rule always_andthen_all) (auto simp: always_yields logged_def event_of_def)

lemma logged_simps:
  assumes "logged i k s s'"
  shows "spawn_plan s' = spawn_plan s" and "running s' = running s" and "bindings s' = bindings s"
    and "retained s' = retained s" and "binding_consumptions s' = binding_consumptions s"
    and "stack_of s' = stack_of s" and "log_of s' = log_of s @ [(i, k)]" and "external s' = external s"
    and "numbered s \<Longrightarrow> numbered s'"
  using assms by (auto simp: logged_def log_of_def stack_of_def numbered_def)

lemma field_updates [simp]:
  "log_of (s \<lparr>running := r\<rparr>) = log_of s" "log_of (s \<lparr>bindings := b\<rparr>) = log_of s"
  "log_of (s \<lparr>binding_consumptions := c\<rparr>) = log_of s" "log_of (s \<lparr>retained := l\<rparr>) = log_of s"
  "stack_of (s \<lparr>bindings := b\<rparr>) = stack_of s" "stack_of (s \<lparr>binding_consumptions := c\<rparr>) = stack_of s"
  "stack_of (s \<lparr>retained := l\<rparr>) = stack_of s"
  "stack_of (s \<lparr>running := r\<rparr>) = rev (map running_identity r)"
  "numbered (s \<lparr>running := r\<rparr>) = numbered s" "numbered (s \<lparr>bindings := b\<rparr>) = numbered s"
  "numbered (s \<lparr>binding_consumptions := c\<rparr>) = numbered s" "numbered (s \<lparr>retained := l\<rparr>) = numbered s"
  by (simp_all add: log_of_def stack_of_def numbered_def)

lemma retain_logs_fields [simp]:
  "spawn_plan (retain_logs svc s) = spawn_plan s" "running (retain_logs svc s) = running s"
  "bindings (retain_logs svc s) = bindings s" "log_of (retain_logs svc s) = log_of s"
  "stack_of (retain_logs svc s) = stack_of s" "numbered (retain_logs svc s) = numbered s"
  by (simp_all add: retain_logs_def stack_of_def log_of_def numbered_def split: RunningManagedService.split)

lemma session_inv_logged:
  assumes "session_inv sp s" and "logged i k s s'" and "lifecycle_step (stack_of s, None) (i, k) (stack_of s, None)"
  shows "session_inv sp s'"
  using assms(1) logged_simps [OF assms(2)] lifecycle_run.extend [OF _ assms(3)]
  by (simp add: session_inv_def)

section \<open>Stopping\<close>

lemma stop_all_stops:
  assumes "session_inv sp s" and "running s = rev svcs"
  shows "always (\<lambda>(rep', s'). session_inv sp s' \<and> running s' = []
      \<and> stopped_order rep' = stopped_order rep @ map running_identity svcs
      \<and> set (map cleanup_service (shutdown_failures rep'))
          \<subseteq> set (map cleanup_service (shutdown_failures rep)) \<union> set (map running_identity svcs))
    (stop_all h svcs rep s)"
  using assms
proof (induction svcs arbitrary: rep s)
  case Nil
  then show ?case by (simp add: always_yields)
next
  case (Cons svc rest)
  let ?i = "running_identity svc" and ?s0 = "s \<lparr>running := rev rest\<rparr>"
  have run: "lifecycle_run (log_of s) (?i # map running_identity rest, None)"
    using Cons.prems by (simp add: session_inv_def stack_of_def rev_map)
  show ?case
    unfolding stop_all.simps Let_def
  proof (rule always_andthen [OF push_event_logged], rule always_andthen_all,
      rule always_andthen [OF push_event_logged])
    fix s1 s2 and result :: "string + unit"
    assume l1: "logged ?i Stopping ?s0 s1" and l2: "logged ?i Stopped s1 s2"
    have "lifecycle_run (log_of s @ [(?i, Stopping)]) (map running_identity rest, Some ?i)"
      by (rule lifecycle_run.extend [OF run closing])
    then have "lifecycle_run ((log_of s @ [(?i, Stopping)]) @ [(?i, Stopped)]) (map running_identity rest, None)"
      by (rule lifecycle_run.extend [OF _ closed])
    then have "session_inv sp (retain_logs svc s2)"
      using Cons.prems(1) logged_simps [OF l1] logged_simps [OF l2]
      by (simp add: session_inv_def rev_map)
    moreover have "running (retain_logs svc s2) = rev rest"
      using logged_simps(2) [OF l1] logged_simps(2) [OF l2] by simp
    ultimately show "always (\<lambda>(rep', s'). session_inv sp s' \<and> running s' = []
        \<and> stopped_order rep' = stopped_order rep @ map running_identity (svc # rest)
        \<and> set (map cleanup_service (shutdown_failures rep'))
            \<subseteq> set (map cleanup_service (shutdown_failures rep)) \<union> set (map running_identity (svc # rest)))
      (stop_all h rest \<lparr>stopped_order = stopped_order rep @ [?i],
         shutdown_failures = shutdown_failures rep @ (case result of
           Err reason \<Rightarrow> [\<lparr>cleanup_service = ?i, cleanup_reason = reason\<rparr>] | Ok _ \<Rightarrow> [])\<rparr> (retain_logs svc s2))"
      by (rule always_mono [OF Cons.IH]) (auto split: sum.splits)
  qed
qed

lemma teardown_running_stops:
  "session_inv sp s \<Longrightarrow> always (\<lambda>(cs, s'). session_inv sp s' \<and> running s' = []) (teardown_running h s)"
  unfolding teardown_running_def
  by (rule always_andthen [OF stop_all_stops]) (auto simp: always_yields)

text \<open>What a failing step leaves: nothing runs, or the error says that the plan is invalid.\<close>

definition fails_cleanly :: "SpawnPlan \<Rightarrow> (RunnerError + 'a) \<times> LocalSession \<Rightarrow> bool" where
  "fails_cleanly sp = (\<lambda>(r, s'). session_inv sp s' \<and> (\<forall>e. r = Err e \<longrightarrow> running s' = [] \<or> e = InvalidPlan))"

lemma cleanup_after_clean:
  "session_inv sp s \<Longrightarrow> always (\<lambda>(r, s'). session_inv sp s' \<and> running s' = [] \<and> \<not> is_ok r) (cleanup_after h e s)"
  unfolding cleanup_after_def
  by (rule always_andthen [OF teardown_running_stops]) (auto simp: always_yields)

lemma cancel_after_start_clean:
  assumes "session_inv sp s"
  shows "always (\<lambda>(r, s'). session_inv sp s' \<and> running s' = [] \<and> \<not> is_ok r) (cancel_after_start h s)"
proof (cases "running s = []")
  case True
  with assms show ?thesis by (simp add: cancel_after_start_def always_yields)
next
  case False
  have "always (\<lambda>(r, s'). session_inv sp s' \<and> running s' = [] \<and> \<not> is_ok r)
      (andthen (teardown_running h s) (\<lambda>(cleanup, s'). yields (Err (Cancelled cleanup), s')))"
    by (rule always_andthen [OF teardown_running_stops [OF assms]]) (auto simp: always_yields)
  with False show ?thesis by (simp only: cancel_after_start_def if_False)
qed

text \<open>What a step that may fail leaves: on success the services that ran still run, plus
  \<open>new\<close>; on failure nothing runs, or the error is \<open>InvalidPlan\<close>.\<close>

definition step_ok :: "SpawnPlan \<Rightarrow> string list \<Rightarrow> (RunnerError + 'a) \<times> LocalSession \<Rightarrow> bool" where
  "step_ok sp names = (\<lambda>(r, s'). session_inv sp s' \<and> (case r of
     Ok _ \<Rightarrow> map running_identity (running s') = names
   | Err e \<Rightarrow> running s' = [] \<or> e = InvalidPlan))"

lemma failed_step_ok:
  "always (\<lambda>(r, s'). session_inv sp s' \<and> running s' = [] \<and> \<not> is_ok r) m \<Longrightarrow> always (step_ok sp names) m"
  by (erule always_mono) (auto simp: step_ok_def split: sum.splits)

lemmas cleanup_after_step_ok = failed_step_ok [OF cleanup_after_clean]
lemmas cancel_after_start_step_ok = failed_step_ok [OF cancel_after_start_clean]

lemma keep_same: "always (\<lambda>(r, s'). s' = s) (keep s m)"
  unfolding keep_def by (rule always_andthen_all) (simp add: always_yields)

lemma publish_entries_error: "fst (publish_entries i es b) = Err e \<Longrightarrow> e = InvalidPlan"
  by (induction i es b rule: publish_entries.induct) (auto split: sum.splits)

lemma publish_error: "publish_spec_bindings i l bs b = (Err e, b') \<Longrightarrow> e = InvalidPlan"
  using publish_entries_error by (metis fst_conv publish_spec_bindings_def)

section \<open>Starting\<close>

lemma apply_readiness_keeps:
  assumes "session_inv sp s"
  shows "always (\<lambda>(r, s'). session_inv sp s' \<and> (is_ok r \<longrightarrow> s' = s)) (apply_readiness h spec pid s)"
proof -
  have kept: "always (\<lambda>(r, s'). session_inv sp s' \<and> (is_ok r \<longrightarrow> s' = s)) (keep s m)" for m
    by (rule always_mono [OF keep_same]) (use assms in auto)
  have cleaned: "always (\<lambda>(r, s'). session_inv sp s' \<and> (is_ok r \<longrightarrow> s' = s)) (cleanup_after h e s)" for e
    by (rule always_mono [OF cleanup_after_clean [OF assms]]) auto
  show ?thesis
    using assms
    by (auto simp: apply_readiness_def kept cleaned always_yields split: option.splits Readiness.splits)
qed

lemma ready_process_step_ok:
  assumes inv: "session_inv sp s" and top: "stack_of s = ps_identity spec # stack"
  shows "always (step_ok sp (map running_identity (running s))) (ready_process h spec pid s)"
  unfolding ready_process_def
proof (rule always_andthen [OF apply_readiness_keeps [OF inv]], clarify)
  fix r :: "RunnerError + unit" and s1
  assume inv1: "session_inv sp s1" and ok: "is_ok r \<longrightarrow> s1 = s"
  show "always (step_ok sp (map running_identity (running s)))
    (case r of Err e \<Rightarrow> cleanup_after h e s1
     | Ok _ \<Rightarrow> andthen (push_event h (ps_identity spec) Ready (Some pid) s1) (\<lambda>s2.
         (case publish_spec_bindings (ps_identity spec) (ps_http_url spec) (ps_static_bindings spec) (bindings s2)
          of (r, b) \<Rightarrow> yields (r, s2 \<lparr>bindings := b\<rparr>))))"
  proof (cases r)
    case (Inl e)
    then show ?thesis using cleanup_after_step_ok [OF inv1] by simp
  next
    case (Inr u)
    with ok have s1: "s1 = s" by simp
    have "always (step_ok sp (map running_identity (running s)))
        (case publish_spec_bindings (ps_identity spec) (ps_http_url spec) (ps_static_bindings spec) (bindings s2)
         of (r, b) \<Rightarrow> yields (r, s2 \<lparr>bindings := b\<rparr>))"
      if l: "logged (ps_identity spec) Ready s s2" for s2
    proof -
      have "session_inv sp s2"
        by (rule session_inv_logged [OF inv l]) (simp add: top became_ready)
      moreover obtain r' b where p: "publish_spec_bindings (ps_identity spec) (ps_http_url spec)
          (ps_static_bindings spec) (bindings s2) = (r', b)" by fastforce
      ultimately have "session_inv sp (s2 \<lparr>bindings := b\<rparr>)"
        using publish_spec_bindings_ok [of "bindings s2" "ps_identity spec" "ps_http_url spec"
            "ps_static_bindings spec"]
        by (simp add: session_inv_def)
      then show ?thesis
        using p logged_simps(2) [OF l]
        by (auto simp: always_yields step_ok_def split: sum.splits dest: publish_error)
    qed
    then show ?thesis
      using Inr s1 by (simp, intro always_andthen [OF push_event_logged])
  qed
qed

lemma session_inv_spawned:
  assumes "session_inv sp s" and l: "logged i Spawned s s1" and "running_identity svc = i"
  shows "session_inv sp (s1 \<lparr>running := running s1 @ [svc]\<rparr>)"
  using assms(1,3) logged_simps [OF l] lifecycle_run.extend [OF _ opened, of "log_of s" "stack_of s" i]
  by (simp add: session_inv_def stack_of_def)

lemma spawn_one_spec:
  "always (\<lambda>r. case r of Err _ \<Rightarrow> True | Ok p \<Rightarrow> run_spec p = spec) (spawn_one h spec)"
  unfolding spawn_one_def
  by (auto simp: always_panics always_yields intro!: always_andthen_all split: SpawnReply.splits option.splits)

lemma launch_process_step_ok:
  assumes inv: "session_inv sp s" and same: "ps_identity resolved = ps_identity spec"
  shows "always (step_ok sp (map running_identity (running s) @ [ps_identity spec]))
    (launch_process h spec resolved s)"
  unfolding launch_process_def
proof (rule always_andthen [OF spawn_one_spec])
  fix r :: "string + RunningProcess"
  assume r: "case r of Err _ \<Rightarrow> True | Ok p \<Rightarrow> run_spec p = resolved"
  show "always (step_ok sp (map running_identity (running s) @ [ps_identity spec])) (case r of
      Err message \<Rightarrow> andthen (teardown_running h s) (\<lambda>(cleanup, s').
        yields (Err (SpawnFailed (ps_identity spec) message cleanup), s'))
    | Ok p \<Rightarrow> andthen (push_event h (ps_identity spec) Spawned (Some (run_pid p)) s) (\<lambda>s1.
        ready_process h spec (run_pid p) (s1 \<lparr>running := running s1 @ [ProcessService p]\<rparr>)))"
  proof (cases r)
    case (Inl m)
    have "always (step_ok sp (map running_identity (running s) @ [ps_identity spec]))
        (andthen (teardown_running h s) (\<lambda>(cleanup, s'). yields (Err (SpawnFailed (ps_identity spec) m cleanup), s')))"
      by (rule always_andthen [OF teardown_running_stops [OF inv]]) (auto simp: always_yields step_ok_def)
    with Inl show ?thesis by simp
  next
    case (Inr p)
    have id: "running_identity (ProcessService p) = ps_identity spec"
      using r Inr same by (simp add: running_identity_def)
    have "always (step_ok sp (map running_identity (running s) @ [ps_identity spec]))
        (ready_process h spec (run_pid p) (s1 \<lparr>running := running s1 @ [ProcessService p]\<rparr>))"
      if l: "logged (ps_identity spec) Spawned s s1" for s1
      using ready_process_step_ok [OF session_inv_spawned [OF inv l id], of spec "stack_of s"]
      by (simp add: id logged_simps(2) [OF l] stack_of_def)
    with Inr show ?thesis by (simp, intro always_andthen [OF push_event_logged])
  qed
qed

lemma bind_arguments_identity:
  "bind_arguments h b rs spec ev = Some (Ok (spec', ev')) \<Longrightarrow> ps_identity spec' = ps_identity spec"
  by (induction h b rs spec ev rule: bind_arguments.induct) (auto split: sum.splits if_splits)

lemma bind_environment_identity:
  "bind_environment h b rs spec ev = Ok (spec', ev') \<Longrightarrow> ps_identity spec' = ps_identity spec"
  by (induction h b rs spec ev rule: bind_environment.induct) (auto split: sum.splits)

lemma resolve_binding_inputs_identity:
  "resolve_binding_inputs h b spec = Some (Ok (spec', ev)) \<Longrightarrow> ps_identity spec' = ps_identity spec"
  by (auto simp: resolve_binding_inputs_def split: option.splits sum.splits
      dest!: bind_arguments_identity bind_environment_identity)

lemma start_process_step_ok:
  assumes inv: "session_inv sp s"
  shows "always (step_ok sp (map running_identity (running s) @ [ps_identity spec])) (start_process h spec s)"
proof (cases "resolve_binding_inputs h (bindings s) spec")
  case None
  then show ?thesis by (simp add: start_process_def always_panics)
next
  case (Some r)
  show ?thesis
  proof (cases r)
    case (Inl e)
    with Some cleanup_after_step_ok [OF inv] show ?thesis by (simp add: start_process_def)
  next
    case (Inr p)
    obtain resolved ev where p: "p = (resolved, ev)" by fastforce
    let ?s = "s \<lparr>binding_consumptions := binding_consumptions s @ ev\<rparr>"
    have inv': "session_inv sp ?s" using inv by (simp add: session_inv_def)
    have same: "ps_identity resolved = ps_identity spec"
      using resolve_binding_inputs_identity Some Inr p by blast
    have "always (step_ok sp (map running_identity (running s) @ [ps_identity spec]))
        (if cancelled then cancel_after_start h ?s else launch_process h spec resolved ?s)" for cancelled
      by (cases cancelled)
        (simp_all add: cancel_after_start_step_ok [OF inv'] launch_process_step_ok [OF inv' same, simplified])
    with Some Inr p show ?thesis
      by (auto simp add: start_process_def Let_def simp del: if_split intro!: always_andthen_all)
  qed
qed

lemma merge_checked_error: "merge_checked b other = (Err m, b') \<Longrightarrow> bindings_ok b \<Longrightarrow> bindings_ok b'"
  using merge_checked_ok [of b other] by simp

lemma ready_adapter_step_ok:
  assumes inv: "session_inv sp s" and top: "stack_of s = as_identity spec # stack"
  shows "always (step_ok sp (map running_identity (running s))) (ready_adapter h spec b s)"
  unfolding ready_adapter_def
proof (rule always_andthen_all)
  fix r :: "RunnerError + unit"
  obtain m b' where m: "merge_checked (bindings s) b = (m, b')" by fastforce
  have inv': "session_inv sp (s \<lparr>bindings := b'\<rparr>)"
    using inv m merge_checked_ok [of "bindings s" b] by (simp add: session_inv_def)
  have "step_ok sp (map running_identity (running s)) (Ok (), s2)"
    if l: "logged (as_identity spec) Ready (s \<lparr>bindings := b'\<rparr>) s2" for s2
    using session_inv_logged [OF inv' l] top became_ready logged_simps(2) [OF l]
    by (simp add: step_ok_def)
  moreover have "step_ok sp (map running_identity (running s)) (Err InvalidPlan, s \<lparr>bindings := b'\<rparr>)"
    using inv' by (simp add: step_ok_def)
  ultimately show "always (step_ok sp (map running_identity (running s))) (case r of
      Err e \<Rightarrow> cleanup_after h e s
    | Ok _ \<Rightarrow> (case merge_checked (bindings s) b of
         (Err _, b') \<Rightarrow> yields (Err InvalidPlan, s \<lparr>bindings := b'\<rparr>)
       | (Ok _, b') \<Rightarrow> andthen (push_event h (as_identity spec) Ready None (s \<lparr>bindings := b'\<rparr>))
           (\<lambda>s2. yields (Ok (), s2))))"
    using m
    by (auto simp: cleanup_after_step_ok [OF inv] always_yields split: sum.split
        intro!: always_andthen [OF push_event_logged])
qed

definition adapter_added :: "AdapterSpec \<Rightarrow> LocalSession \<Rightarrow> (RunnerError + RuntimeBindings) \<times> LocalSession \<Rightarrow> bool" where
  "adapter_added spec s = (\<lambda>(r, s'). case r of
     Ok _ \<Rightarrow> (\<exists>handle b. s' = add_adapter spec handle b s) | Err _ \<Rightarrow> s' = s)"

lemma admit_adapter_added: "always (adapter_added spec s) (admit_adapter h spec handle b s)"
  by (auto simp: admit_adapter_def adapter_added_def always_yields
      split: prod.split sum.split intro!: always_andthen_all)

lemma start_adapter_added: "always (adapter_added spec s) (start_adapter h spec s)"
  by (auto simp: start_adapter_def admit_adapter_added always_yields
      split: AdapterReply.split intro!: always_andthen_all) (auto simp: adapter_added_def)

lemma launch_adapter_step_ok:
  assumes inv: "session_inv sp s"
  shows "always (step_ok sp (map running_identity (running s) @ [as_identity spec])) (launch_adapter h spec s)"
  unfolding launch_adapter_def
proof (rule always_andthen [OF start_adapter_added], clarify)
  fix r :: "RunnerError + RuntimeBindings" and s1
  assume added: "adapter_added spec s (r, s1)"
  let ?P = "step_ok sp (map running_identity (running s) @ [as_identity spec])"
  show "always ?P (case r of
      Ok b \<Rightarrow> andthen (push_event h (as_identity spec) Spawned None s1) (\<lambda>s2. ready_adapter h spec b s2)
    | Err e \<Rightarrow> andthen (ask (h_cancelled h)) (\<lambda>cancelled.
        if cancelled then cancel_after_start h s1 else cleanup_after h e s1))"
  proof (cases r)
    case (Inl e)
    with added have "s1 = s" by (simp add: adapter_added_def)
    moreover have "always ?P (if c then cancel_after_start h s else cleanup_after h e s)" for c
      by (cases c) (simp_all add: cancel_after_start_step_ok [OF inv, simplified] cleanup_after_step_ok [OF inv, simplified])
    ultimately show ?thesis using Inl by (auto simp del: if_split intro!: always_andthen_all)
  next
    case (Inr b)
    with added obtain handle b' where s1: "s1 = add_adapter spec handle b' s"
      by (auto simp: adapter_added_def)
    have "always ?P (ready_adapter h spec b s2)" if l: "logged (as_identity spec) Spawned s1 s2" for s2
    proof -
      have id: "map running_identity (running s2) = map running_identity (running s) @ [as_identity spec]"
        using logged_simps(2) [OF l] s1 by (simp add: add_adapter_def running_identity_def)
      have "lifecycle_run (log_of s @ [(as_identity spec, Spawned)]) (as_identity spec # stack_of s, None)"
        using inv by (auto simp: session_inv_def intro: lifecycle_run.extend opened)
      moreover have "log_of s1 = log_of s" "numbered s1 = numbered s" "spawn_plan s1 = spawn_plan s"
        "bindings s1 = bindings s"
        using s1 by (simp_all add: add_adapter_def)
      ultimately have "session_inv sp s2"
        using inv logged_simps [OF l] id by (simp add: session_inv_def stack_of_def)
      from ready_adapter_step_ok [OF this, of spec "stack_of s"] id show ?thesis
        by (simp add: stack_of_def)
    qed
    with Inr show ?thesis by (simp, intro always_andthen [OF push_event_logged])
  qed
qed

lemma launch_step_ok:
  assumes inv: "session_inv sp s"
  shows "always (step_ok sp (map running_identity (running s) @ [entry_identity e])) (launch h e s)"
proof (cases "entry_kind e")
  case LaunchProcess
  show ?thesis
  proof (cases "process_of (spawn_plan s) (entry_identity e)")
    case None
    with LaunchProcess inv show ?thesis by (simp add: launch_def always_yields step_ok_def)
  next
    case (Some spec)
    then have "ps_identity spec = entry_identity e"
      by (auto simp: process_of_def find_Some_iff)
    with Some LaunchProcess start_process_step_ok [OF inv, of spec h] show ?thesis by (simp add: launch_def)
  qed
next
  case LaunchAdapter
  show ?thesis
  proof (cases "adapter_of (spawn_plan s) (entry_identity e)")
    case None
    with LaunchAdapter inv show ?thesis by (simp add: launch_def always_yields step_ok_def)
  next
    case (Some spec)
    then have "as_identity spec = entry_identity e"
      by (auto simp: adapter_of_def find_Some_iff)
    with Some LaunchAdapter launch_adapter_step_ok [OF inv, of spec h] show ?thesis by (simp add: launch_def)
  qed
qed

definition startup_ok :: "SpawnPlan \<Rightarrow> string list \<Rightarrow> (RunnerError + string list) \<times> LocalSession \<Rightarrow> bool" where
  "startup_ok sp names = (\<lambda>(r, s'). session_inv sp s' \<and> (case r of
     Ok started \<Rightarrow> started = names \<and> map running_identity (running s') = names
   | Err e \<Rightarrow> running s' = [] \<or> e = InvalidPlan))"

lemma startup_from_ok:
  assumes "session_inv sp s" and "started = map running_identity (running s)"
  shows "always (startup_ok sp (started @ map entry_identity es)) (startup_from h es started s)"
  using assms
proof (induction es arbitrary: started s)
  case Nil
  then show ?case by (simp add: always_yields startup_ok_def)
next
  case (Cons e es)
  let ?P = "startup_ok sp (started @ map entry_identity (e # es))"
  have cancelled: "always ?P (cancel_after_start h s)"
    by (rule always_mono [OF cancel_after_start_clean [OF Cons.prems(1)]])
      (auto simp: startup_ok_def split: sum.split)
  have "always ?P (case r of Err err \<Rightarrow> yields (Err err, s1)
      | Ok _ \<Rightarrow> startup_from h es (started @ [entry_identity e]) s1)"
    if ok: "step_ok sp (map running_identity (running s) @ [entry_identity e]) (r, s1)"
    for r :: "RunnerError + unit" and s1
  proof (cases r)
    case (Inl err)
    with ok show ?thesis by (simp add: always_yields step_ok_def startup_ok_def)
  next
    case (Inr u)
    with ok have "session_inv sp s1" "map running_identity (running s1) = started @ [entry_identity e]"
      using Cons.prems(2) by (simp_all add: step_ok_def)
    with Cons.IH [of s1 "started @ [entry_identity e]"] Inr show ?thesis by simp
  qed
  then have launched: "always ?P (andthen (launch h e s) (\<lambda>(r, s1). case r of Err err \<Rightarrow> yields (Err err, s1)
      | Ok _ \<Rightarrow> startup_from h es (started @ [entry_identity e]) s1))"
    by (intro always_andthen [OF launch_step_ok [OF Cons.prems(1)]]) auto
  show ?case
    unfolding startup_from.simps
    by (rule always_andthen_all) (use cancelled launched in \<open>simp split: if_split\<close>)
qed

lemma startup_all:
  assumes "session_inv sp s" and "running s = []"
  shows "always (startup_ok sp (order sp)) (startup h s)"
proof (cases "check_probes_registered h s")
  case (Inl e)
  with assms show ?thesis by (simp add: startup_def always_yields startup_ok_def)
next
  case (Inr u)
  from assms(1) have "spawn_plan s = sp" by (simp add: session_inv_def)
  with Inr startup_from_ok [OF assms(1), of "[]" "launch_order sp" h] assms(2)
  show ?thesis by (simp add: startup_def order_def)
qed

section \<open>A whole session\<close>

lemma declare_external_ok:
  "declare_external ss b = Ok b' \<Longrightarrow> bindings_ok b \<Longrightarrow> bindings_ok b'"
proof (induction ss arbitrary: b)
  case (Cons s ss)
  obtain r b1 where d: "declare_service_bindings s b = (r, b1)" by fastforce
  then have "bindings_ok b1"
    using Cons.prems(2) publish_spec_bindings_ok [of b] by (metis declare_service_bindings_def snd_conv)
  with Cons d show ?case by (auto split: if_splits sum.splits)
qed simp

lemma session_prepare_inv:
  assumes "session_prepare rp opts now = Some (Ok s)"
  shows "session_inv (spawn_plan s) s \<and> running s = [] \<and> prepare rp opts = Some (Ok (spawn_plan s))"
proof -
  from assms obtain sp b where p: "prepare rp opts = Some (Ok sp)"
    and b: "declare_external (rp_topology rp) no_bindings = Ok b"
    and s: "s = \<lparr>spawn_plan = sp, external = map (\<lambda>s. as_str (svc_name s))
                (filter (\<lambda>s. svc_lifecycle s = ExternalService) (rp_topology rp)),
              running = [], retained = [], events = [], prepared_at = now, next_seq = 0,
              bindings = b, binding_consumptions = []\<rparr>"
    by (auto simp: session_prepare_def split: option.splits sum.splits)
  have "bindings_ok b" using declare_external_ok [OF b] by simp
  with p s show ?thesis
    by (simp add: session_inv_def numbered_def log_of_def stack_of_def lifecycle_run.start)
qed

lemma session_run_inv:
  assumes "session_inv sp s" and "running s = []"
  shows "always (\<lambda>(r, s'). session_inv sp s' \<and> (case r of
      Ok out \<Rightarrow> running s' = [] \<and> outcome_started out = order sp
        \<and> outcome_stopped_order out = teardown_order sp
        \<and> cleanup_service ` set (outcome_cleanup out) \<subseteq> set (order sp)
    | Err e \<Rightarrow> running s' = [] \<or> e = InvalidPlan)) (session_run h s)"
  unfolding session_run_def
proof (rule always_andthen [OF startup_all [OF assms]], clarify)
  fix r :: "RunnerError + string list" and s1
  assume ok: "startup_ok sp (order sp) (r, s1)"
  show "always (\<lambda>(r, s'). session_inv sp s' \<and> (case r of
      Ok out \<Rightarrow> running s' = [] \<and> outcome_started out = order sp
        \<and> outcome_stopped_order out = teardown_order sp
        \<and> cleanup_service ` set (outcome_cleanup out) \<subseteq> set (order sp)
    | Err e \<Rightarrow> running s' = [] \<or> e = InvalidPlan)) (case r of
      Err e \<Rightarrow> yields (Err e, s1)
    | Ok started \<Rightarrow> andthen (session_shutdown h s1) (\<lambda>(rep, s2).
        yields (Ok \<lparr>outcome_started = started, outcome_stopped_order = stopped_order rep,
               outcome_cleanup = shutdown_failures rep\<rparr>, s2)))"
  proof (cases r)
    case (Inl e)
    with ok show ?thesis by (simp add: always_yields startup_ok_def)
  next
    case (Inr started)
    with ok have inv: "session_inv sp s1" and started: "started = order sp"
      and names: "map running_identity (running s1) = order sp"
      by (auto simp: startup_ok_def)
    have rn: "running s1 = rev (rev (running s1))" by simp
    have td: "map running_identity (rev (running s1)) = teardown_order sp"
      by (simp add: names rev_map [symmetric] teardown_order_def)
    have "set (teardown_order sp) = set (order sp)" by (simp add: teardown_order_def)
    with Inr started td show ?thesis
      unfolding session_shutdown_def
      by simp (rule always_andthen [OF stop_all_stops [OF inv rn]], auto simp: always_yields image_image)
  qed
qed

text \<open>
  C28: The event log of a session is numbered without gaps and is, after a startup and after a
  whole start and stop pass and whatever the host does, a run of the stack machine whose
  stack is the list of services still running, the latest first.
\<close>

theorem session_log_refines_stack:
  assumes "session_prepare rp opts now = Some (Ok s)"
  shows "always (\<lambda>(r, s'). lifecycle_run (log_of s') (stack_of s', None) \<and> numbered s') (startup h s)
    \<and> always (\<lambda>(r, s'). lifecycle_run (log_of s') (stack_of s', None) \<and> numbered s') (session_run h s)"
proof -
  note p = session_prepare_inv [OF assms]
  have "always (startup_ok (spawn_plan s) (order (spawn_plan s))) (startup h s)"
    using startup_all p by blast
  moreover have "always (\<lambda>(r, s'). session_inv (spawn_plan s) s') (session_run h s)"
    by (rule always_mono [OF session_run_inv]) (use p in auto)
  ultimately show ?thesis
    by (auto elim!: always_mono simp: startup_ok_def session_inv_def)
qed

text \<open>
  A start and stop pass that succeeds has started everything in launch order, stopped
  everything in the reverse order, reports cleanup failures of those services only, and
  leaves nothing running.  A pass that fails leaves nothing running either, except when it
  fails with \<open>InvalidPlan\<close>.
\<close>

theorem session_stops_in_reverse:
  assumes "session_prepare rp opts now = Some (Ok s)"
  shows "always (\<lambda>(r, s'). case r of
      Ok out \<Rightarrow> running s' = [] \<and> outcome_started out = order (spawn_plan s)
        \<and> outcome_stopped_order out = teardown_order (spawn_plan s)
        \<and> cleanup_service ` set (outcome_cleanup out) \<subseteq> set (order (spawn_plan s))
    | Err e \<Rightarrow> running s' = [] \<or> e = InvalidPlan) (session_run h s)"
proof -
  have "always (\<lambda>(r, s'). session_inv (spawn_plan s) s' \<and> (case r of
      Ok out \<Rightarrow> running s' = [] \<and> outcome_started out = order (spawn_plan s)
        \<and> outcome_stopped_order out = teardown_order (spawn_plan s)
        \<and> cleanup_service ` set (outcome_cleanup out) \<subseteq> set (order (spawn_plan s))
    | Err e \<Rightarrow> running s' = [] \<or> e = InvalidPlan)) (session_run h s)"
    using session_run_inv session_prepare_inv [OF assms] by blast
  then show ?thesis by (rule always_mono) auto
qed

section \<open>Returning\<close>

text \<open>What the code relies on in the clock and the timers: readings never go back, and a sleep
  that is not cancelled lasts at least as long as asked.\<close>

definition ticking :: "'w Host \<Rightarrow> ('w \<Rightarrow> nat) \<Rightarrow> bool" where
  "ticking h clock \<longleftrightarrow>
     (\<forall>w. fst (h_now h w) = clock w \<and> clock w \<le> clock (snd (h_now h w)))
     \<and> (\<forall>d w. clock w + d \<le> clock (h_sleep h d w))
     \<and> (\<forall>d w. clock w + (if fst (h_sleep_or_cancel h d w) then 0 else d) \<le> clock (snd (h_sleep_or_cancel h d w)))
     \<and> (\<forall>c w. clock w \<le> clock (snd (h_try_wait h c w)))
     \<and> (\<forall>w. clock w \<le> clock (snd (h_cancelled h w)))
     \<and> (\<forall>p w. clock w \<le> clock (snd (h_is_alive h p w)))
     \<and> (\<forall>n c d w. clock w \<le> clock (snd (h_probe h n c d w)))"

lemma tickingD:
  assumes "ticking h clock"
  shows "h_now h w = (t, w') \<Longrightarrow> t = clock w \<and> clock w \<le> clock w'"
    and "clock w + d \<le> clock (h_sleep h d w)"
    and "h_sleep_or_cancel h d w = (False, w') \<Longrightarrow> clock w + d \<le> clock w'"
    and "h_try_wait h c w = (x, w') \<Longrightarrow> clock w \<le> clock w'"
    and "h_cancelled h w = (b, w') \<Longrightarrow> clock w \<le> clock w'"
    and "h_is_alive h p w = (b, w') \<Longrightarrow> clock w \<le> clock w'"
    and "h_probe h n ctx d w = (y, w') \<Longrightarrow> clock w \<le> clock w'"
  using assms unfolding ticking_def
  by (metis fst_conv snd_conv add_0_right)+

lemma poll_positive: "0 < POLL_INTERVAL" "0 < PROBE_ATTEMPT_CAP"
  by (simp_all add: POLL_INTERVAL_def PROBE_ATTEMPT_CAP_def millis_def)

lemma wait_for_child_exit_returns:
  assumes t: "ticking h clock"
  shows "\<exists>r. wait_for_child_exit h child start limit w = Some r"
proof (induction "start + limit - clock w" arbitrary: w rule: less_induct)
  case less
  obtain reply w1 where e1: "h_try_wait h child w = (reply, w1)" by fastforce
  obtain now w2 where e2: "h_now h w1 = (now, w2)" by fastforce
  let ?w3 = "h_sleep h POLL_INTERVAL w2"
  have c: "clock w \<le> now" "now + POLL_INTERVAL \<le> clock ?w3"
    using tickingD(4) [OF t e1] tickingD(1) [OF t e2] tickingD(2) [OF t, of w2 POLL_INTERVAL] by auto
  have "\<exists>r. wait_for_child_exit h child start limit ?w3 = Some r" if "\<not> limit \<le> now - start"
    using less [of ?w3] c that poll_positive(1) by simp
  then show ?case
    by (subst wait_for_child_exit.simps) (auto simp: e1 e2 split: WaitReply.split)
qed

lemma wait_for_exit_cancel_returns:
  assumes t: "ticking h clock"
  shows "\<exists>r. wait_for_exit_cancel h child start deadline w = Some r"
proof (induction "start + deadline - clock w" arbitrary: w rule: less_induct)
  case less
  obtain b w1 where e0: "h_cancelled h w = (b, w1)" by fastforce
  obtain reply w2 where e1: "h_try_wait h child w1 = (reply, w2)" by fastforce
  obtain now w3 where e2: "h_now h w2 = (now, w3)" by fastforce
  obtain cancelled w4 where e3: "h_sleep_or_cancel h POLL_INTERVAL w3 = (cancelled, w4)" by fastforce
  have c: "clock w \<le> now" "clock w \<le> clock w3" "now \<le> clock w3"
    using tickingD(5) [OF t e0] tickingD(4) [OF t e1] tickingD(1) [OF t e2] by auto
  have "\<exists>r. wait_for_exit_cancel h child start deadline w4 = Some r"
    if "\<not> deadline \<le> now - start" and "\<not> cancelled"
    using less [of w4] tickingD(3) [OF t, of POLL_INTERVAL w3 w4] e3 c that poll_positive(1) by simp
  then show ?case
    by (subst wait_for_exit_cancel.simps) (simp add: e0 e1 e2 e3 split: WaitReply.split)
qed

lemma probe_until_returns:
  assumes t: "ticking h clock"
  shows "\<exists>r. probe_until h spec pid probe timeout_ms deadline w = Some r"
proof (induction "deadline - clock w" arbitrary: w rule: less_induct)
  case less
  obtain alive w1 where e0: "h_is_alive h pid w = (alive, w1)" by fastforce
  obtain now w2 where e1: "h_now h w1 = (now, w2)" by fastforce
  obtain reply w3 where e2: "h_probe h probe (probe_context spec pid alive)
      (min (deadline - now) PROBE_ATTEMPT_CAP) w2 = (reply, w3)" by fastforce
  obtain now2 w4 where e3: "h_now h w3 = (now2, w4)" by fastforce
  obtain cancelled w5 where e4: "h_sleep_or_cancel h (min (deadline - now2) PROBE_ATTEMPT_CAP) w4 = (cancelled, w5)"
    by fastforce
  have c: "clock w \<le> now2" "now2 \<le> clock w4"
    using tickingD(6) [OF t e0] tickingD(1) [OF t e1] tickingD(7) [OF t e2] tickingD(1) [OF t e3] by auto
  have "\<exists>r. probe_until h spec pid probe timeout_ms deadline w5 = Some r"
    if "\<not> deadline \<le> now2" and "\<not> cancelled"
    using less [of w5] tickingD(3) [OF t, of "min (deadline - now2) PROBE_ATTEMPT_CAP" w4 w5] e4 c that
      poll_positive(2) by simp
  then show ?case
    by (subst probe_until.simps) (simp add: e0 e1 e2 e3 e4 split: ProbeReply.split)
qed

lemma loops_return:
  assumes "ticking h clock"
  shows "returns (wait_for_child_exit h child start limit)"
    and "returns (wait_for_exit_cancel h child start deadline)"
    and "returns (probe_until h spec pid probe timeout_ms d)"
  using wait_for_child_exit_returns [OF assms] wait_for_exit_cancel_returns [OF assms]
    probe_until_returns [OF assms]
  by (simp_all add: returns_def)

lemma join_drains_returns: "returns (join_drains h child ds)"
  by (induction ds) (auto intro: io_rules)

lemma push_event_returns: "returns (push_event h i k pid s)"
  by (auto simp: push_event_def intro!: io_rules)

lemma stop_service_returns: "ticking h clock \<Longrightarrow> returns (stop_service h svc)"
  by (auto simp: stop_service_def stop_process_def wait_child_def loops_return join_drains_returns
      split: RunningManagedService.split sum.split intro!: io_rules)

lemma stop_all_returns: "ticking h clock \<Longrightarrow> returns (stop_all h svcs rep s)"
  by (induction svcs arbitrary: rep s)
    (auto simp: Let_def push_event_returns stop_service_returns intro!: io_rules)

lemma teardown_running_returns: "ticking h clock \<Longrightarrow> returns (teardown_running h s)"
  by (auto simp: teardown_running_def stop_all_returns intro!: io_rules)

lemma cleanup_returns:
  "ticking h clock \<Longrightarrow> returns (cleanup_after h e s)"
  "ticking h clock \<Longrightarrow> returns (cancel_after_start h s)"
  by (auto simp: cleanup_after_def cancel_after_start_def teardown_running_returns intro!: io_rules)

lemma check_alive_returns: "returns (check_alive h spec pid s)"
  by (auto simp: check_alive_def alive_or_exited_def split: option.split WaitReply.split intro!: io_rules)

lemma apply_readiness_returns: "ticking h clock \<Longrightarrow> returns (apply_readiness h spec pid s)"
  by (auto simp: apply_readiness_def keep_def delay_outcome_def probe_then_alive_def cleanup_returns
      check_alive_returns loops_return split: option.split Readiness.split WaitOutcome.split sum.split
      intro!: io_rules)

lemma ready_process_returns: "ticking h clock \<Longrightarrow> returns (ready_process h spec pid s)"
  by (auto simp: ready_process_def apply_readiness_returns cleanup_returns push_event_returns
      split: sum.split prod.split intro!: io_rules)

text \<open>What the validator guarantees of a specification: a program, and destinations of bindings
  inside of the argument vector.\<close>

definition launchable :: "ProcessSpec \<Rightarrow> bool" where
  "launchable p \<longleftrightarrow> ps_argv p \<noteq> [] \<and> (\<forall>r \<in> set (ps_binding_args p). arg_index r < length (ps_argv p))"

lemma bind_arguments_some:
  assumes "\<forall>r \<in> set rs. arg_index r < length (ps_argv spec)"
  shows "\<exists>q. bind_arguments h b rs spec ev = Some q
    \<and> (\<forall>spec' ev'. q = Ok (spec', ev') \<longrightarrow> length (ps_argv spec') = length (ps_argv spec))"
  using assms
  by (induction h b rs spec ev rule: bind_arguments.induct) (auto split: sum.split)

lemma bind_environment_argv:
  "bind_environment h b rs spec ev = Ok (spec', ev') \<Longrightarrow> ps_argv spec' = ps_argv spec"
  by (induction h b rs spec ev rule: bind_environment.induct) (auto split: sum.splits)

lemma resolve_binding_inputs_some:
  assumes "launchable spec"
  shows "\<exists>q. resolve_binding_inputs h b spec = Some q \<and> (\<forall>p. q = Ok p \<longrightarrow> ps_argv (fst p) \<noteq> [])"
proof -
  obtain q where q: "bind_arguments h b (ps_binding_args spec) spec [] = Some q"
    "\<forall>spec' ev'. q = Ok (spec', ev') \<longrightarrow> length (ps_argv spec') = length (ps_argv spec)"
    using assms bind_arguments_some [of "ps_binding_args spec" spec h b "[]"] by (auto simp: launchable_def)
  have "ps_argv spec \<noteq> []" using assms by (simp add: launchable_def)
  with q show ?thesis
    by (auto simp: resolve_binding_inputs_def split: sum.split dest!: bind_environment_argv)
qed

lemma launch_process_returns:
  "ticking h clock \<Longrightarrow> ps_argv resolved \<noteq> [] \<Longrightarrow> returns (launch_process h spec resolved s)"
  by (auto simp: launch_process_def spawn_one_def teardown_running_returns push_event_returns
      ready_process_returns split: sum.split intro!: io_rules)

lemma start_process_returns:
  assumes t: "ticking h clock" and l: "launchable spec"
  shows "returns (start_process h spec s)"
proof -
  obtain q where q: "resolve_binding_inputs h (bindings s) spec = Some q"
    "\<forall>p. q = Ok p \<longrightarrow> ps_argv (fst p) \<noteq> []"
    using resolve_binding_inputs_some [OF l, of h "bindings s"] by blast
  show ?thesis
  proof (cases q)
    case (Inl e)
    with q(1) cleanup_returns(1) [OF t] show ?thesis by (simp add: start_process_def)
  next
    case (Inr p)
    with q have "ps_argv (fst p) \<noteq> []" by simp
    with Inr q(1) show ?thesis
      by (cases p) (auto simp: start_process_def Let_def cleanup_returns(2) [OF t]
          launch_process_returns [OF t] intro!: io_rules)
  qed
qed

lemma launch_adapter_returns: "ticking h clock \<Longrightarrow> returns (launch_adapter h spec s)"
  by (auto simp: launch_adapter_def start_adapter_def admit_adapter_def ready_adapter_def
      apply_adapter_readiness_def cleanup_returns push_event_returns
      split: sum.split prod.split AdapterReply.split option.split Readiness.split intro!: io_rules)

lemma launch_returns:
  assumes "ticking h clock" and "\<forall>p \<in> set (specs (spawn_plan s)). launchable p"
  shows "returns (launch h e s)"
  using assms
  by (auto simp: launch_def start_process_returns launch_adapter_returns process_of_def find_Some_iff
      split: LaunchKind.split option.split intro!: io_rules)

lemma startup_from_returns:
  assumes t: "ticking h clock" and l: "\<forall>p \<in> set (specs sp). launchable p" and "session_inv sp s"
  shows "returns (startup_from h es started s)"
  using assms(3)
proof (induction es arbitrary: started s)
  case Nil
  then show ?case by (simp add: returns_yields)
next
  case (Cons e es)
  have "returns (launch h e s)"
    using launch_returns [OF t] l Cons.prems by (simp add: session_inv_def)
  moreover have "returns (case r of Err err \<Rightarrow> yields (Err err, s1)
      | Ok _ \<Rightarrow> startup_from h es (started @ [entry_identity e]) s1)"
    if "session_inv sp s1" for r :: "RunnerError + unit" and s1
    using Cons.IH [OF that] by (cases r) (simp_all add: returns_yields)
  ultimately have "returns (andthen (launch h e s) (\<lambda>(r, s1). case r of Err err \<Rightarrow> yields (Err err, s1)
      | Ok _ \<Rightarrow> startup_from h es (started @ [entry_identity e]) s1))"
    by (intro returns_andthen_where [OF _ launch_step_ok [OF Cons.prems]]) (auto simp: step_ok_def)
  then show ?case
    unfolding startup_from.simps
    by (intro returns_andthen [OF returns_ask]) (simp add: cleanup_returns(2) [OF t])
qed


end
