(* ===== verification/SessionSamples.thy ===== *)
theory SessionSamples
  imports SessionProps
begin

text \<open>
  Concrete sessions: a host on which processes start and stay alive, and the sessions of two
  accepted plans, one of them with a static URL that cannot be published.
\<close>

section \<open>A calm host\<close>

text \<open>Its world is the clock.\<close>

definition calm_host :: "nat Host" where
  "calm_host = \<lparr>h_cancelled = (\<lambda>w. (False, w)), h_now = (\<lambda>w. (w, w)), h_sleep = (\<lambda>d w. w + d),
     h_sleep_or_cancel = (\<lambda>d w. (False, w + d)), h_spawn = (\<lambda>spec w. (SpawnedChild w (Some 7) True True, w)),
     h_try_wait = (\<lambda>c w. (StillRunning, w)), h_join_drain = (\<lambda>c out d w. ((), w)),
     h_chunks = (\<lambda>c out w. ([], w)), h_support = PlatformSupported, h_is_alive = (\<lambda>p w. (True, w)),
     h_terminate_group = (\<lambda>p w. (Ok (), w)), h_kill_group = (\<lambda>p w. (Err ''denied'', w)),
     h_probe_registered = (\<lambda>n. False), h_probe = (\<lambda>n ctx d w. (ProbeNotReady, w + d)),
     h_adapter_registered = (\<lambda>t. False), h_adapter_start = (\<lambda>r w. (AdapterCancelled, w)),
     h_adapter_shutdown = (\<lambda>a d w. (Ok (), w)), h_sha256 = (\<lambda>s. s)\<rparr>"

lemma calm_host_ticking: "ticking calm_host (\<lambda>w. w)"
  by (simp add: ticking_def calm_host_def)

definition spawned_spec :: "string \<Rightarrow> string \<Rightarrow> string option \<Rightarrow> bool \<Rightarrow> ProcessSpec" where
  "spawned_spec name program url subj = \<lparr>ps_identity = name, ps_argv = [program], ps_cwd = ''/ws'',
     ps_env = [], ps_secret_references = [],
     ps_log_limit_bytes = (if subj then DEFAULT_SUBJECT_LOG_LIMIT_BYTES else 0),
     ps_readiness = None, ps_shutdown = None, ps_is_subject = subj, ps_http_url = url,
     ps_static_bindings = [], ps_binding_args = [], ps_binding_env = []\<rparr>"

lemma spawned_spec_fields [simp]:
  "ps_argv (spawned_spec n p u b) = [p]" "ps_binding_args (spawned_spec n p u b) = []"
  "ps_binding_env (spawned_spec n p u b) = []" "ps_readiness (spawned_spec n p u b) = None"
  "ps_static_bindings (spawned_spec n p u b) = []" "ps_http_url (spawned_spec n p u b) = u"
  "ps_identity (spawned_spec n p u b) = n"
  by (simp_all add: spawned_spec_def)

section \<open>Accepted plans\<close>

definition url_plan :: "string option \<Rightarrow> ExperimentPlan" where
  "url_plan url = managed_plan ''web'' \<lparr>services := [sample_service ''web'' []
     \<lparr>svc_kind := Command [''/bin/svc''], svc_lifecycle := Managed, http_url := url\<rparr>]\<rparr>"

lemma url_plan_fields:
  "services (url_plan url) = [sample_service ''web'' [] \<lparr>svc_kind := Command [''/bin/svc''],
     svc_lifecycle := Managed, http_url := url\<rparr>]"
  "subject (url_plan url) = ManagedCommand [''/bin/app''] [] None None"
  "workload (url_plan url) = FiniteCount (Name ''web'') (PositiveCount 10) (PositiveCount 2)"
  "telemetry (url_plan url) = []" "network_path (url_plan url) = None"
  "paired (url_plan url) = None" "diagnostics (url_plan url) = None"
  "security_checks (url_plan url) = None"
  by (simp_all add: url_plan_def managed_plan_fields)

lemma url_plan_valid:
  assumes "\<forall>u. url = Some u \<longrightarrow> validate_static_http_url u = Ok ()"
  shows "validate (url_plan url) = Ok ()"
proof -
  have "ensure_acyclic (services (url_plan url)) = Ok ()"
    by (subst ensure_acyclic_map, subst map_rel_services)
      (simp_all add: url_plan_fields sample_service_def acyclic_def)
  with assms show ?thesis
    by (cases url) (simp_all add: url_plan_def managed_plan_def bare_plan_def sample_plan_def stage_simps
        plan_eval list_all_iff no_program_def program_text validate_http_url_def http_url_conflict_def ok_simps)
qed

lemma url_plan_resolves:
  assumes "\<forall>u. url = Some u \<longrightarrow> validate_static_http_url u = Ok ()"
  shows "\<exists>rp. resolve_plan (url_plan url) sample_drivers sample_options = Ok rp"
  by (simp add: url_plan_valid [OF assms] url_plan_fields resolve_eval services_to_check_def sample_service_def)

definition url_spawn_plan :: "string option \<Rightarrow> SpawnPlan" where
  "url_spawn_plan url = \<lparr>specs = [spawned_spec ''subject'' ''/bin/app'' None True,
       spawned_spec ''web'' ''/bin/svc'' url False],
     adapters = [],
     launch_order = [\<lparr>entry_identity = ''subject'', entry_kind = LaunchProcess\<rparr>,
       \<lparr>entry_identity = ''web'', entry_kind = LaunchProcess\<rparr>]\<rparr>"

definition url_session :: "string option \<Rightarrow> LocalSession" where
  "url_session url = \<lparr>spawn_plan = url_spawn_plan url, external = [], running = [], retained = [],
     events = [], prepared_at = 0, next_seq = 0, bindings = no_bindings, binding_consumptions = []\<rparr>"

lemma url_plan_session:
  assumes valid: "\<forall>u. url = Some u \<longrightarrow> validate_static_http_url u = Ok ()"
    and rp: "resolve_plan (url_plan url) sample_drivers sample_options = Ok rp"
  shows "session_prepare rp sample_prepare 0 = Some (Ok (url_session url))"
proof -
  have top: "rp_topology rp = services (url_plan url)" and v: "validate (url_plan url) = Ok ()"
    using resolved_topology [OF rp] by auto
  obtain os where os: "topological_order (rp_topology rp) = Some (Ok os)" "mset os = mset (services (url_plan url))"
    using accepted_start_order [OF v] top by auto
  from os(2) have "os = services (url_plan url)" by (simp add: url_plan_fields)
  with os(1) resolved_topology [OF rp]
  have "prepare rp sample_prepare = Some (Ok (url_spawn_plan url))"
    by (simp add: prepare_def url_plan_fields ensure_platform_def sample_prepare_def reject_if_def
        normalize_workspace_root_def path_is_absolute_def subject_spec_def no_program_def program_text
        resolve_executable_def service_spec_def resolve_working_directory_def sample_service_def Let_def
        url_spawn_plan_def spawned_spec_def SUBJECT_IDENTITY_def)
  then show ?thesis
    by (simp add: session_prepare_def top url_plan_fields url_session_def sample_service_def)
qed

lemma plain_session:
  "\<exists>rp. resolve_plan (url_plan None) sample_drivers sample_options = Ok rp
    \<and> session_prepare rp sample_prepare 0 = Some (Ok (url_session None))"
  using url_plan_resolves [of None] url_plan_session [of None] by auto

section \<open>The sessions of the properties\<close>

theorem session_log_refines_stack_witness:
  "\<exists>rp s. session_prepare rp sample_prepare 0 = Some (Ok s)
    \<and> always (\<lambda>(r, s'). lifecycle_run (log_of s') (stack_of s', None)) (session_run calm_host s)"
proof -
  obtain rp where prep: "session_prepare rp sample_prepare 0 = Some (Ok (url_session None))"
    using plain_session by blast
  have "always (\<lambda>(r, s'). lifecycle_run (log_of s') (stack_of s', None)) (session_run calm_host (url_session None))"
    by (rule always_mono [OF conjunct2 [OF session_log_refines_stack [OF prep]]]) auto
  with prep show ?thesis by blast
qed

theorem session_stops_in_reverse_witness:
  "\<exists>rp s. session_prepare rp sample_prepare 0 = Some (Ok s)
    \<and> always (\<lambda>(r, s'). \<forall>out. r = Ok out \<longrightarrow> outcome_stopped_order out = [''web'', ''subject''])
        (session_run calm_host s)"
proof -
  obtain rp where prep: "session_prepare rp sample_prepare 0 = Some (Ok (url_session None))"
    using plain_session by blast
  have "teardown_order (spawn_plan (url_session None)) = [''web'', ''subject'']"
    by (simp add: url_session_def url_spawn_plan_def teardown_order_def order_def)
  then have "always (\<lambda>(r, s'). \<forall>out. r = Ok out \<longrightarrow> outcome_stopped_order out = [''web'', ''subject''])
      (session_run calm_host (url_session None))"
    by (intro always_mono [OF session_stops_in_reverse [OF prep]]) auto
  with prep show ?thesis by blast
qed


section \<open>The exception\<close>

lemma publish_bad_url:
  assumes "\<not> well_formed_value url"
  shows "publish_spec_bindings i (Some url) bs b = (Err InvalidPlan, b)"
  using assms by (simp add: publish_spec_bindings_def binding_insert_def)

text \<open>The static URL \<open>http://a/\<close> followed by a tab.\<close>

definition tab_url :: string where
  "tab_url = ''http://a/'' @ [CHR 0x09]"

lemma tab_url_accepted: "validate_static_http_url tab_url = Ok ()"
  by (simp add: tab_url_def validate_static_http_url_def Let_def has_whitespace_def chars_ascii byte_def
      is_whitespace_def del: chars.simps)

lemma tab_url_bad: "\<not> well_formed_value tab_url"
  by (simp add: tab_url_def well_formed_value_def has_control_def chars_ascii byte_def is_control_def
      del: chars.simps)

lemma publish_nothing [simp]: "publish_spec_bindings i None [] b = (Ok (), b)"
  by (simp add: publish_spec_bindings_def)

lemmas run_simps = andthen_def ask_def yields_def

text \<open>One process of the calm host, started: what the session keeps of it.\<close>

definition started_process :: "ProcessSpec \<Rightarrow> nat \<Rightarrow> RunningManagedService" where
  "started_process spec w = ProcessService \<lparr>run_spec = spec, run_child = w, run_pid = 7, run_drains = [True, False]\<rparr>"

lemma calm_launch:
  assumes "ps_argv spec \<noteq> []" and "ps_binding_args spec = []" and "ps_binding_env spec = []"
    and "ps_readiness spec = None" and "process_of (spawn_plan s) i = Some spec"
  shows "\<exists>s'. launch calm_host \<lparr>entry_identity = i, entry_kind = LaunchProcess\<rparr> s w =
      Some ((fst (publish_spec_bindings (ps_identity spec) (ps_http_url spec) (ps_static_bindings spec) (bindings s)), s'), w)
    \<and> running s' = running s @ [started_process spec w] \<and> spawn_plan s' = spawn_plan s
    \<and> bindings s' = snd (publish_spec_bindings (ps_identity spec) (ps_http_url spec) (ps_static_bindings spec) (bindings s))"
  using assms
  by (simp add: run_simps calm_host_def launch_def start_process_def resolve_binding_inputs_def
        launch_process_def spawn_one_def push_event_def ready_process_def apply_readiness_def keep_def
        check_alive_def find_process_def is_process_named_def alive_or_exited_def Let_def started_process_def
        split: prod.split)

text \<open>
  C30: The exception is real.  The validator accepts a static \<open>http_url\<close> whose path has a
  control character; the session starts the processes of such a plan, refuses to publish the
  binding, and returns \<open>InvalidPlan\<close> while the processes that it started go on running.
\<close>

theorem unpublishable_url_leaks:
  "\<exists>rp s s' w'. validate (url_plan (Some tab_url)) = Ok ()
    \<and> resolve_plan (url_plan (Some tab_url)) sample_drivers sample_options = Ok rp
    \<and> session_prepare rp sample_prepare 0 = Some (Ok s)
    \<and> startup calm_host s 0 = Some ((Err InvalidPlan, s'), w')
    \<and> map running_identity (running s') = [''subject'', ''web'']"
proof -
  let ?s = "url_session (Some tab_url)"
  let ?subj = "spawned_spec ''subject'' ''/bin/app'' None True"
  let ?web = "spawned_spec ''web'' ''/bin/svc'' (Some tab_url) False"
  obtain rp where rp: "resolve_plan (url_plan (Some tab_url)) sample_drivers sample_options = Ok rp"
    using url_plan_resolves [of "Some tab_url"] tab_url_accepted by auto
  have prep: "session_prepare rp sample_prepare 0 = Some (Ok ?s)"
    using url_plan_session [OF _ rp] tab_url_accepted by auto
  have plan: "spawn_plan ?s = url_spawn_plan (Some tab_url)" "running ?s = []" "bindings ?s = no_bindings"
    by (simp_all add: url_session_def)
  have found: "process_of (url_spawn_plan (Some tab_url)) ''subject'' = Some ?subj"
    "process_of (url_spawn_plan (Some tab_url)) ''web'' = Some ?web"
    by (simp_all add: process_of_def url_spawn_plan_def)
  obtain s1 where s1: "launch calm_host \<lparr>entry_identity = ''subject'', entry_kind = LaunchProcess\<rparr> ?s 0
      = Some ((Ok (), s1), 0)" "running s1 = [started_process ?subj 0]" "spawn_plan s1 = spawn_plan ?s"
    using calm_launch [of ?subj ?s "''subject''" 0] by (auto simp: plan found)
  obtain s2 where s2: "launch calm_host \<lparr>entry_identity = ''web'', entry_kind = LaunchProcess\<rparr> s1 0
      = Some ((Err InvalidPlan, s2), 0)" "running s2 = [started_process ?subj 0, started_process ?web 0]"
    using calm_launch [of ?web s1 "''web''" 0]
    by (auto simp: plan found s1 publish_bad_url [OF tab_url_bad])
  have probes: "check_probes_registered calm_host ?s = Ok ()"
    by (simp add: check_probes_registered_def unregistered_probe_def plan url_spawn_plan_def)
  have "h_cancelled calm_host w = (False, w)" for w by (simp add: calm_host_def)
  with s1(1) s2(1) probes have "startup calm_host ?s 0 = Some ((Err InvalidPlan, s2), 0)"
    by (simp add: startup_def plan url_spawn_plan_def run_simps)
  moreover have "map running_identity (running s2) = [''subject'', ''web'']"
    by (simp add: s2 started_process_def running_identity_def)
  moreover have "validate (url_plan (Some tab_url)) = Ok ()"
    by (rule url_plan_valid) (simp add: tab_url_accepted)
  ultimately show ?thesis
    using rp prep by (intro exI [of _ rp] exI [of _ ?s] exI [of _ s2] exI [of _ 0]) simp
qed

end
