(* ===== verification/Phases.thy ===== *)
theory Phases
  imports ContentTrees SessionSamples BundleWriter
begin

text \<open>
  The state of a run in \<open>eggbench-runner/src/orchestration.rs\<close>: failure categories, the phase
  timeline, invocation and trial data, \<open>RunState\<close>, and the record \<open>RunEnv\<close> of everything a run
  asks of the outside.

  \<open>RunEnv\<close> holds the host of the session, the storage of the bundle writer, the workload
  executor, reset hooks, telemetry collectors, diagnostic and correctness executors, and the
  JSON encoders and decoders.  Where the source races a future against cancellation and a
  timeout, the reply of type \<open>raced\<close> tells which of the three came first.
\<close>

section \<open>Constants\<close>

definition MAX_PHASE_EVENTS :: nat where
  "MAX_PHASE_EVENTS = 10000"
definition FIXED_PHASE_EVENTS :: nat where
  "FIXED_PHASE_EVENTS = 3"
definition MAX_WORKLOAD_ARTIFACTS_PER_INVOCATION :: nat where
  "MAX_WORKLOAD_ARTIFACTS_PER_INVOCATION = 256"
definition NETWORK_PATH_EVIDENCE_BYTE_BOUND :: u64 where
  "NETWORK_PATH_EVIDENCE_BYTE_BOUND = 128 * 1024"
definition TRIAL_RESULT_SCHEMA_VERSION :: SchemaVersion where
  "TRIAL_RESULT_SCHEMA_VERSION = SchemaVersion 2"
definition WARMUP_RECORD_SCHEMA_VERSION :: SchemaVersion where
  "WARMUP_RECORD_SCHEMA_VERSION = SchemaVersion 1"
definition MAX_TELEMETRY_ARTIFACTS_PER_TRIAL :: nat where
  "MAX_TELEMETRY_ARTIFACTS_PER_TRIAL = 8"
definition TELEMETRY_ARTIFACT_BYTE_ESTIMATE :: u64 where
  "TELEMETRY_ARTIFACT_BYTE_ESTIMATE = 262144"

section \<open>Data\<close>

record InvocationContext =
  ic_kind :: InvocationKind
  ic_workload :: Workload
  ic_seed :: "u64 option"
  ic_schedule_seed :: "u64 option"
  ic_bindings :: RuntimeBindings
  ic_timeout :: nat

record RunEvidenceArtifact =
  ev_name :: string
  ev_role_label :: Name
  ev_media_type :: string
  ev_sensitivity :: Sensitivity
  ev_bytes :: string
  ev_schema_version :: SchemaVersion

record WorkloadOutput =
  wo_artifacts :: "WorkloadArtifact list"
  wo_metrics :: "RawMetricObservation list"
  wo_histograms :: "RawHistogramInput list"
  wo_error_counts :: "(string \<times> u64) list"
  wo_measurement_elapsed :: "nat option"

definition no_output :: WorkloadOutput where
  "no_output = \<lparr>wo_artifacts = [], wo_metrics = [], wo_histograms = [], wo_error_counts = [],
     wo_measurement_elapsed = None\<rparr>"

record ResetBinding =
  rb_target :: Name
  rb_timeout :: nat

record PhaseConfig =
  measurement_timeout :: nat
  warmup_timeout :: nat
  drain_timeout :: nat
  telemetry_timeout :: nat
  reset_binding :: "ResetBinding option"

record DisabledTelemetry =
  dis_source :: string
  dis_reason :: string

record TelemetryPlan =
  tp_active :: "string list"
  tp_disabled :: "DisabledTelemetry list"
  tp_required_failure :: "string option"

definition no_telemetry_plan :: TelemetryPlan where
  "no_telemetry_plan = \<lparr>tp_active = [], tp_disabled = [], tp_required_failure = None\<rparr>"

definition failed_required :: "string \<Rightarrow> TelemetryPlan" where
  "failed_required reason = no_telemetry_plan \<lparr>tp_required_failure := Some reason\<rparr>"

record TrialTelemetry =
  tt_outputs :: "(string \<times> TelemetryOutput) list"
  tt_warnings :: "MetricWarning list"

datatype PhaseKind =
  PhaseStartup | PhaseWarmup | PhaseMeasured | PhaseReset | PhaseCooldown | PhaseDiagnosticsPre
| PhaseDiagnosticsPost | PhaseCorrectness | PhaseDrain | PhaseTeardown | PhaseFinalization

datatype PhaseOutcome = OutcomeCompleted | OutcomeFailed | OutcomeTimedOut | OutcomeCancelled

record PhaseEvent =
  ph_sequence :: u64
  ph_kind :: PhaseKind
  ph_warmup_ordinal :: "u32 option"
  ph_trial_id :: "TrialId option"
  ph_start_offset_ns :: u64
  ph_elapsed_ns :: "u64 option"
  ph_outcome :: "PhaseOutcome option"
  ph_failure_category :: "FailureCategory option"

record RunOutcome =
  ro_execution_status :: ExecutionStatus
  ro_primary_failure :: "FailureCategory option"
  ro_cleanup_failures :: "CleanupFailure list"
  ro_phases :: "PhaseEvent list"
  ro_bundle_path :: string
  ro_manifest :: BundleManifest
  ro_telemetry_preflight_failure :: "string option"

datatype OrchestrationError =
  Preflight string
| TelemetryPreflight string
| EvidenceError BundleError "CleanupFailure list"

fun orchestration_source :: "OrchestrationError \<Rightarrow> BundleError option" where
  "orchestration_source (EvidenceError source _) = Some source"
| "orchestration_source _ = None"

fun orchestration_cleanup :: "OrchestrationError \<Rightarrow> CleanupFailure list" where
  "orchestration_cleanup (EvidenceError _ cleanup) = cleanup"
| "orchestration_cleanup _ = []"

record RunState =
  st_writer :: BundleWriter
  st_phases :: "PhaseEvent list"
  st_status :: ExecutionStatus
  st_primary_failure :: "FailureCategory option"
  st_cleanup_failures :: "CleanupFailure list"
  st_trials :: "TrialDescriptor list"
  st_diagnostics :: "DiagnosticExecutionRecord list"
  st_correctness :: "CorrectnessExecutionRecord list"
  st_started :: "string list"
  st_services_started :: bool
  st_staging_error :: "BundleError option"
  st_telemetry_preflight_failure :: "string option"

definition RunState_new :: "BundleWriter \<Rightarrow> RunState" where
  "RunState_new w = \<lparr>st_writer = w, st_phases = [], st_status = RunCompleted, st_primary_failure = None,
     st_cleanup_failures = [], st_trials = [], st_diagnostics = [], st_correctness = [], st_started = [],
     st_services_started = False, st_staging_error = None, st_telemetry_preflight_failure = None\<rparr>"

record WarmupRecord =
  wr_schema_version :: SchemaVersion
  wr_ordinal :: u32
  wr_elapsed_ns :: u64
  wr_status :: string
  wr_failure_category :: "FailureCategory option"

record EventSummary =
  es_seq :: u64
  es_identity :: string
  es_kind :: string
  es_pid :: "u32 option"
  es_elapsed_ms :: u64

record LifecycleMetadata =
  lm_started :: "string list"
  lm_stopped_order :: "string list"
  lm_cleanup :: "CleanupFailure list"
  lm_events :: "EventSummary list"
  lm_external_observed :: "string list"

section \<open>The outside of a run\<close>

datatype 'a raced = RaceCancelled | RaceTimedOut | Replied 'a

text \<open>The first event of an invocation: cancellation, the deadline, the end of the workload, or
  the signal that its timed part is over, with what followed in the time for post-processing.\<close>

datatype ExecuteReply =
  ExecCancelled
| ExecDeadline
| ExecDone "FailureCategory + WorkloadOutput"
| ExecSignalled "nat option" "(FailureCategory + WorkloadOutput) raced"

record 'w RunEnv =
  r_host :: "'w Host"
  r_sha :: sha
  r_storage :: "'w \<Rightarrow> (WriterIo \<times> (nat \<Rightarrow> bool)) \<times> 'w"
  r_publish :: "'w \<Rightarrow> (bool \<times> u64) \<times> 'w"
  r_codec :: ManifestCodec
  r_encode_manifest :: "BundleManifest \<Rightarrow> string option"
  r_execute :: "InvocationContext \<Rightarrow> nat \<Rightarrow> 'w \<Rightarrow> ExecuteReply \<times> 'w"
  r_drain :: "nat \<Rightarrow> 'w \<Rightarrow> (FailureCategory + unit) option \<times> 'w"
  r_run_evidence :: "'w \<Rightarrow> (BundleError + RunEvidenceArtifact option) \<times> 'w"
  r_reset_hooks :: "Name list"
  r_reset :: "Name \<Rightarrow> nat \<Rightarrow> 'w \<Rightarrow> (FailureCategory + unit) raced \<times> 'w"
  r_collectors :: "(string \<times> TelemetryPreflightTiming) list"
  r_collector_preflight :: "string \<Rightarrow> nat \<Rightarrow> 'w \<Rightarrow> (TelemetryError + unit) raced \<times> 'w"
  r_collector_start :: "string \<Rightarrow> TrialId \<Rightarrow> nat \<Rightarrow> 'w \<Rightarrow> (TelemetryError + unit) raced \<times> 'w"
  r_collector_stop :: "string \<Rightarrow> TrialId \<Rightarrow> nat \<Rightarrow> 'w \<Rightarrow> (TelemetryError + TelemetryOutput) option \<times> 'w"
  r_collector_drain :: "string \<Rightarrow> nat \<Rightarrow> 'w \<Rightarrow> (TelemetryError + unit) option \<times> 'w"
  r_diagnostic_sources :: "string list"
  r_diagnostic :: "string \<Rightarrow> DiagnosticContext \<Rightarrow> nat \<Rightarrow> 'w \<Rightarrow> (FailureCategory + DiagnosticOutput) raced \<times> 'w"
  r_correctness_sources :: "string list"
  r_correctness :: "string \<Rightarrow> CorrectnessContext \<Rightarrow> nat \<Rightarrow> 'w \<Rightarrow> (FailureCategory + CorrectnessOutput) raced \<times> 'w"
  r_current_dir :: "string option"
  r_content_fs :: ContentFs
  r_decode_corpus :: "string \<Rightarrow> HttpSecurityCorpusV1 option"
  r_decode_security_result :: "string \<Rightarrow> SecurityCheckResultV1 option"
  r_decode_corpus_result :: "string \<Rightarrow> HttpCorpusCheckResultV1 option"
  r_network_path_document :: "string \<Rightarrow> (u64 option \<times> string list) option"
  r_encode_trial :: "TrialExecutionResult \<Rightarrow> string option"
  r_encode_metrics :: "TrialMetrics \<Rightarrow> string option"
  r_encode_warmup :: "WarmupRecord \<Rightarrow> string option"
  r_encode_phases :: "PhaseEvent list \<Rightarrow> string option"
  r_encode_diagnostics :: "DiagnosticsIndex \<Rightarrow> string option"
  r_encode_security :: "SecurityChecksIndex \<Rightarrow> string option"
  r_encode_topology :: "RuntimeTopology \<Rightarrow> string option"
  r_encode_lifecycle :: "LifecycleMetadata \<Rightarrow> string option"

section \<open>The timeline\<close>

definition nanos :: "nat \<Rightarrow> u64" where
  "nanos d = (if d < 2 ^ 64 then of_nat d else - 1)"

definition saturating_sub :: "u64 \<Rightarrow> u64 \<Rightarrow> u64" where
  "saturating_sub a b = (if b \<le> a then a - b else 0)"

text \<open>\<open>origin.elapsed()\<close>\<close>

definition since :: "'w RunEnv \<Rightarrow> nat \<Rightarrow> ('w, nat) io" where
  "since env origin = andthen (ask (h_now (r_host env))) (\<lambda>now. yields (now - origin))"

definition new_event :: "nat \<Rightarrow> PhaseKind \<Rightarrow> u32 option \<Rightarrow> TrialId option \<Rightarrow> nat \<Rightarrow> PhaseEvent" where
  "new_event index k ordinal trial elapsed = \<lparr>ph_sequence = nanos index, ph_kind = k,
     ph_warmup_ordinal = ordinal, ph_trial_id = trial, ph_start_offset_ns = nanos elapsed,
     ph_elapsed_ns = None, ph_outcome = None, ph_failure_category = None\<rparr>"

definition begin_phase ::
  "'w RunEnv \<Rightarrow> nat \<Rightarrow> PhaseKind \<Rightarrow> u32 option \<Rightarrow> TrialId option \<Rightarrow> RunState \<Rightarrow> ('w, nat \<times> RunState) io" where
  "begin_phase env origin k ordinal trial st =
     andthen (since env origin) (\<lambda>elapsed. let index = length (st_phases st) in
       yields (index, st \<lparr>st_phases := st_phases st @ [new_event index k ordinal trial elapsed]\<rparr>))"

definition close_event :: "nat \<Rightarrow> PhaseOutcome \<Rightarrow> FailureCategory option \<Rightarrow> PhaseEvent \<Rightarrow> PhaseEvent" where
  "close_event elapsed outcome failure e =
     e \<lparr>ph_elapsed_ns := Some (saturating_sub (nanos elapsed) (ph_start_offset_ns e)),
        ph_outcome := Some outcome, ph_failure_category := failure\<rparr>"

text \<open>An index outside the events would panic.\<close>

definition finish_phase ::
  "'w RunEnv \<Rightarrow> nat \<Rightarrow> nat \<Rightarrow> PhaseOutcome \<Rightarrow> FailureCategory option \<Rightarrow> RunState \<Rightarrow> ('w, RunState) io" where
  "finish_phase env origin index outcome failure st =
    (if length (st_phases st) \<le> index then panics
     else andthen (since env origin) (\<lambda>elapsed.
       yields (st \<lparr>st_phases := (st_phases st)
         [index := close_event elapsed outcome failure (st_phases st ! index)]\<rparr>)))"

definition status_for :: "FailureCategory \<Rightarrow> ExecutionStatus" where
  "status_for cause = (if cause = CancelledByUser then RunCancelled else RunFailed)"

definition workload_failure :: "FailureCategory \<Rightarrow> FailureCategory" where
  "workload_failure cause =
    (if cause = CancelledByUser \<or> cause = TimedOut then cause else WorkloadFailed)"

definition outcome_for :: "FailureCategory \<Rightarrow> PhaseOutcome" where
  "outcome_for cause = (case cause of
     CancelledByUser \<Rightarrow> OutcomeCancelled | TimedOut \<Rightarrow> OutcomeTimedOut | _ \<Rightarrow> OutcomeFailed)"

definition failed :: "ExecutionStatus \<Rightarrow> FailureCategory \<Rightarrow> RunState \<Rightarrow> RunState" where
  "failed status cause st = st \<lparr>st_status := status, st_primary_failure := Some cause\<rparr>"

definition staging_failed :: "BundleError \<Rightarrow> RunState \<Rightarrow> RunState" where
  "staging_failed e st = st \<lparr>st_staging_error := Some e\<rparr>"

text \<open>The check that follows a cleanup step.\<close>

definition note_cancellation :: "'w RunEnv \<Rightarrow> RunState \<Rightarrow> ('w, RunState) io" where
  "note_cancellation env st = andthen (ask (h_cancelled (r_host env))) (\<lambda>cancelled.
     yields (if cancelled \<and> st_status st = RunCompleted then failed RunCancelled CancelledByUser st else st))"

end
