(* ===== verification/Staging.thy ===== *)
theory Staging
  imports Phases Compare
begin

text \<open>
  The staging functions of \<open>orchestration.rs\<close> and \<open>bundle.rs\<close>: evidence enters the bundle
  writer from memory.  A staging function gives its result and the writer afterwards; what was
  written before an error stays written.
\<close>

section \<open>Putting bytes into the writer\<close>

text \<open>A byte slice as a source: it never fails to read and fills the writer's buffer;
  \<open>written i\<close> tells whether the \<open>i\<close>th write succeeds.\<close>

function slices :: "(nat \<Rightarrow> bool) \<Rightarrow> nat \<Rightarrow> string \<Rightarrow> SourceStep list" where
  "slices written i bytes =
    (if bytes = [] then []
     else Chunk (take HASH_BUFFER_BYTES bytes) (written i) # slices written (Suc i) (drop HASH_BUFFER_BYTES bytes))"
  by pat_completeness auto
termination
  by (relation "measure (\<lambda>(written, i, bytes). length bytes)") (auto simp: HASH_BUFFER_BYTES_def)

declare slices.simps [simp del]

type_synonym ('w, 'a) staging = "('w, (BundleError + 'a) \<times> BundleWriter) io"

definition attempt :: "('w, 'a) staging \<Rightarrow> ('a \<Rightarrow> BundleWriter \<Rightarrow> ('w, 'b) staging) \<Rightarrow> ('w, 'b) staging" where
  "attempt m f = andthen m (\<lambda>(r, w). case r of Err e \<Rightarrow> yields (Err e, w) | Ok a \<Rightarrow> f a w)"

definition reject :: "BundleError \<Rightarrow> BundleWriter \<Rightarrow> ('w, 'a) staging" where
  "reject e w = yields (Err e, w)"

definition accept :: "'a \<Rightarrow> BundleWriter \<Rightarrow> ('w, 'a) staging" where
  "accept a w = yields (Ok a, w)"

definition lift_result :: "BundleError + 'a \<Rightarrow> BundleWriter \<Rightarrow> ('w, 'a) staging" where
  "lift_result r w = yields (r, w)"

definition put_bytes ::
  "'w RunEnv \<Rightarrow> ArtifactPath \<Rightarrow> ArtifactRole \<Rightarrow> string \<Rightarrow> Sensitivity \<Rightarrow> string \<Rightarrow> BundleWriter
    \<Rightarrow> ('w, unit) staging" where
  "put_bytes env path role media_type sensitivity bytes w =
     andthen (ask (r_storage env)) (\<lambda>(io, written).
       case add_artifact (r_sha env) io path role media_type sensitivity (slices written 0 bytes) w of
         (Err e, w') \<Rightarrow> yields (Err e, w')
       | (Ok _, w') \<Rightarrow> yields (Ok (), w'))"

definition put_artifact ::
  "'w RunEnv \<Rightarrow> string \<Rightarrow> ArtifactRole \<Rightarrow> string \<Rightarrow> Sensitivity \<Rightarrow> string \<Rightarrow> BundleWriter
    \<Rightarrow> ('w, ArtifactPath) staging" where
  "put_artifact env text role media_type sensitivity bytes w =
    (case ArtifactPath_new text of
       Err e \<Rightarrow> reject e w
     | Ok path \<Rightarrow> attempt (put_bytes env path role media_type sensitivity bytes w) (\<lambda>_. accept path))"

definition encoded :: "string option \<Rightarrow> BundleError + string" where
  "encoded r = (case r of None \<Rightarrow> Err (ManifestParse ''encode'') | Some bytes \<Rightarrow> Ok bytes)"

definition JSON :: string where
  "JSON = ''application/json''"

definition pad2 :: "nat \<Rightarrow> string" where
  "pad2 n = replicate (2 - length (show_dec n)) CHR ''0'' @ show_dec n"

section \<open>Workload artifacts and warmups\<close>

definition unsafe_artifact_name :: "string \<Rightarrow> bool" where
  "unsafe_artifact_name name \<longleftrightarrow> name = [] \<or> CHR ''/'' \<in> set name \<or> CHR 92 \<in> set name
     \<or> name = ''.'' \<or> name = ''..''"

fun stage_artifact_list ::
  "'w RunEnv \<Rightarrow> string \<Rightarrow> bool \<Rightarrow> nat \<Rightarrow> WorkloadArtifact list \<Rightarrow> ArtifactPath list \<Rightarrow> BundleWriter
    \<Rightarrow> ('w, ArtifactPath list) staging" where
  "stage_artifact_list env base timed index [] placed w = accept placed w"
| "stage_artifact_list env base timed index (a # as) placed w =
    (if unsafe_artifact_name (wa_name a) then reject (InvalidManifest ''unsafe workload artifact name'') w
     else attempt
       (put_artifact env (base @ ''/artifacts/'' @ pad3 (index + 1) @ ''-'' @ wa_name a)
         (if timed then RoleTrialArtifact else RoleOther (Name ''warmup_artifact''))
         (wa_media_type a) Redacted (wa_bytes a) w)
       (\<lambda>path. stage_artifact_list env base timed (index + 1) as (if timed then placed @ [path] else placed)))"

definition stage_workload_artifacts ::
  "'w RunEnv \<Rightarrow> string \<Rightarrow> WorkloadOutput \<Rightarrow> bool \<Rightarrow> BundleWriter \<Rightarrow> ('w, ArtifactPath list) staging" where
  "stage_workload_artifacts env base out timed w =
    (if MAX_WORKLOAD_ARTIFACTS_PER_INVOCATION < length (wo_artifacts out)
     then reject (BoundExceeded ''workload artifact count'') w
     else stage_artifact_list env base timed 0 (wo_artifacts out) [] w)"

definition stage_warmup ::
  "'w RunEnv \<Rightarrow> u32 \<Rightarrow> nat \<Rightarrow> FailureCategory option \<Rightarrow> WorkloadOutput \<Rightarrow> BundleWriter \<Rightarrow> ('w, unit) staging" where
  "stage_warmup env ordinal elapsed failure out w =
    (let record = \<lparr>wr_schema_version = WARMUP_RECORD_SCHEMA_VERSION, wr_ordinal = ordinal,
           wr_elapsed_ns = nanos elapsed,
           wr_status = (if failure \<noteq> None then ''failed'' else ''completed''),
           wr_failure_category = failure\<rparr>;
         base = ''warmups/'' @ pad3 (unat ordinal)
     in attempt (lift_result (encoded (r_encode_warmup env record)) w) (\<lambda>bytes w.
        attempt (put_artifact env (base @ ''/result.json'') (RoleOther (Name ''warmup'')) JSON Redacted bytes w) (\<lambda>_ w.
        attempt (stage_workload_artifacts env base out False w) (\<lambda>_. accept ()))))"

section \<open>Measured trials\<close>

definition workload_producer :: "ResolvedPlan \<Rightarrow> string \<times> string option" where
  "workload_producer rp = (case bt_get (rp_drivers rp) CatWorkload of
     Some d \<Rightarrow> (as_str (drv_name (descriptor d)), Some (adapter_version (descriptor d)))
   | None \<Rightarrow> (''unknown-workload'', None))"

type_synonym artifact_map = "(string, ArtifactPath) BTreeMap"

fun stage_telemetry_artifacts ::
  "'w RunEnv \<Rightarrow> string \<Rightarrow> nat \<Rightarrow> nat \<Rightarrow> WorkloadArtifact list \<Rightarrow> ArtifactPath list \<times> artifact_map
    \<Rightarrow> BundleWriter \<Rightarrow> ('w, ArtifactPath list \<times> artifact_map) staging" where
  "stage_telemetry_artifacts env base collector index [] acc w = accept acc w"
| "stage_telemetry_artifacts env base collector index (a # as) acc w =
    (if unsafe_artifact_name (wa_name a) then reject (InvalidManifest ''unsafe telemetry artifact name'') w
     else attempt
       (put_artifact env (base @ ''/telemetry/'' @ pad2 collector @ ''-'' @ pad2 index @ ''-'' @ wa_name a)
         RoleTrialArtifact (wa_media_type a) Redacted (wa_bytes a) w)
       (\<lambda>path w.
         if bt_contains (snd acc) (wa_name a)
         then reject (InvalidManifest ''telemetry/workload artifact name collision'') w
         else stage_telemetry_artifacts env base collector (index + 1) as
           (fst acc @ [path], bt_insert (wa_name a) path (snd acc)) w))"

fun stage_telemetry ::
  "'w RunEnv \<Rightarrow> string \<Rightarrow> nat \<Rightarrow> (string \<times> TelemetryOutput) list \<Rightarrow> ArtifactPath list \<times> artifact_map
    \<Rightarrow> BundleWriter \<Rightarrow> ('w, ArtifactPath list \<times> artifact_map) staging" where
  "stage_telemetry env base collector [] acc w = accept acc w"
| "stage_telemetry env base collector ((source, out) # outs) acc w =
    (if MAX_TELEMETRY_ARTIFACTS_PER_TRIAL < length (to_artifacts out)
     then reject (BoundExceeded ''telemetry artifact count'') w
     else attempt (stage_telemetry_artifacts env base collector 0 (to_artifacts out) acc w)
       (stage_telemetry env base (collector + 1) outs))"

definition artifact_map_of :: "(string \<times> ArtifactPath) list \<Rightarrow> artifact_map" where
  "artifact_map_of ps = foldl (\<lambda>m (n, p). bt_insert n p m) [] ps"

definition normalization_input ::
  "ResolvedPlan \<Rightarrow> TrialId \<Rightarrow> TrialExecutionResult \<Rightarrow> WorkloadOutput \<Rightarrow> TrialTelemetry \<Rightarrow> artifact_map
    \<Rightarrow> NormalizationInput" where
  "normalization_input rp t result out tel m =
    \<lparr>ni_trial_id = t, ni_metrics = rp_metrics rp, ni_terminal_status = tr_terminal_status result,
     ni_observations = wo_metrics out @ concat (map (\<lambda>o'. to_metrics (snd o')) (tt_outputs tel)),
     ni_histograms = wo_histograms out, ni_error_counts = wo_error_counts out, ni_artifact_map = m,
     ni_producer = fst (workload_producer rp), ni_producer_version = snd (workload_producer rp)\<rparr>"

definition telemetry_warnings :: "TrialTelemetry \<Rightarrow> MetricWarning list" where
  "telemetry_warnings tel =
     concat (map (\<lambda>o'. to_warnings (snd o')) (tt_outputs tel)) @ tt_warnings tel"

definition normalized_metrics ::
  "ResolvedPlan \<Rightarrow> TrialId \<Rightarrow> TrialExecutionResult \<Rightarrow> WorkloadOutput \<Rightarrow> TrialTelemetry \<Rightarrow> artifact_map
    \<Rightarrow> BundleError + TrialMetrics" where
  "normalized_metrics rp t result out tel m =
    (case normalize_trial_metrics (normalization_input rp t result out tel m) of
       Err e \<Rightarrow> Err e
     | Ok tm \<Rightarrow>
         (let tm' = tm \<lparr>tm_warnings := tm_warnings tm @ telemetry_warnings tel\<rparr>
          in case validate_trial_metrics tm' of Err e \<Rightarrow> Err e | Ok _ \<Rightarrow> Ok tm'))"

definition stage_trial ::
  "'w RunEnv \<Rightarrow> ResolvedPlan \<Rightarrow> TrialId \<Rightarrow> TrialExecutionResult \<Rightarrow> WorkloadOutput \<Rightarrow> TrialTelemetry
    \<Rightarrow> BundleWriter \<Rightarrow> ('w, ArtifactPath \<times> ArtifactPath list) staging" where
  "stage_trial env rp t result out tel w =
    (let base = ''trials/'' @ pad3 (unat (trial_get t))
     in attempt (lift_result (encoded (r_encode_trial env result)) w) (\<lambda>bytes w.
        attempt (put_artifact env (base @ ''/result.json'') RoleTrialResult JSON Public bytes w) (\<lambda>result_path w.
        attempt (stage_workload_artifacts env base out True w) (\<lambda>placed w.
        attempt (stage_telemetry env base 0 (tt_outputs tel)
            (placed, artifact_map_of (zip (map wa_name (wo_artifacts out)) placed)) w) (\<lambda>(paths, m) w.
        attempt (lift_result (normalized_metrics rp t result out tel m) w) (\<lambda>tm w.
        attempt (lift_result (encoded (r_encode_metrics env tm)) w) (\<lambda>metrics_bytes w.
        attempt (lift_result (trial_metrics_path t) w) (\<lambda>metrics_path w.
        attempt (put_bytes env metrics_path RoleTrialArtifact JSON Public metrics_bytes w) (\<lambda>_.
          accept (result_path, paths @ [metrics_path]))))))))))"

section \<open>One-shot checks\<close>

definition short_phase :: "DiagnosticPhase \<Rightarrow> string" where
  "short_phase slot = (case slot of PreWorkload \<Rightarrow> ''pre'' | PostWorkload \<Rightarrow> ''post'' | BothPhases \<Rightarrow> ''both'')"

definition phase_label :: "DiagnosticPhase \<Rightarrow> string" where
  "phase_label slot = (case slot of
     PreWorkload \<Rightarrow> ''pre_workload'' | PostWorkload \<Rightarrow> ''post_workload'' | BothPhases \<Rightarrow> ''both'')"

definition probe_label :: "DiagnosticProbe \<Rightarrow> string" where
  "probe_label p = (case p of Dns \<Rightarrow> ''dns'' | Tcp \<Rightarrow> ''tcp'' | Tls \<Rightarrow> ''tls'' | Http \<Rightarrow> ''http'')"

definition diagnostic_path :: "DiagnosticPhase \<Rightarrow> DiagnosticRequest \<Rightarrow> string" where
  "diagnostic_path slot r = ''diagnostics/'' @ short_phase slot @ ''/'' @ as_str (diag_id r) @ ''.json''"

definition skipped_record :: "'w RunEnv \<Rightarrow> DiagnosticRequest \<Rightarrow> DiagnosticPhase \<Rightarrow> string \<Rightarrow> DiagnosticExecutionRecord" where
  "skipped_record env r slot reason = \<lparr>dr_id = as_str (diag_id r), dr_phase = phase_label slot,
     dr_required = diag_required r, dr_target = as_str (diag_target r),
     dr_probes = map probe_label (diag_probes r), dr_timeout_ms = duration_get (diag_timeout_ms r),
     dr_disposition = ''skipped'', dr_report_status = ''skipped'', dr_artifact = diagnostic_path slot r,
     dr_artifact_sha256 = to_hex (r_sha env ''{}''), dr_producer_version = [], dr_executable_sha256 = [],
     dr_machine_schema = [], dr_warnings = [], dr_skipped_reason = Some reason\<rparr>"

definition record_skipped_diagnostic ::
  "'w RunEnv \<Rightarrow> DiagnosticRequest \<Rightarrow> DiagnosticPhase \<Rightarrow> string \<Rightarrow> RunState \<Rightarrow> RunState" where
  "record_skipped_diagnostic env r slot reason st =
     st \<lparr>st_diagnostics := st_diagnostics st @ [skipped_record env r slot reason]\<rparr>"

definition diagnostic_disposition_label :: "DiagnosticDisposition \<Rightarrow> string" where
  "diagnostic_disposition_label d = (case d of
     DiagPositive \<Rightarrow> ''positive'' | DiagNegative \<Rightarrow> ''negative'' | DiagFailed \<Rightarrow> ''failed'' | DiagSkipped \<Rightarrow> ''skipped'')"

definition executed_record ::
  "'w RunEnv \<Rightarrow> DiagnosticRequest \<Rightarrow> DiagnosticPhase \<Rightarrow> DiagnosticOutput \<Rightarrow> DiagnosticExecutionRecord" where
  "executed_record env r slot out = \<lparr>dr_id = as_str (diag_id r), dr_phase = phase_label slot,
     dr_required = diag_required r, dr_target = as_str (diag_target r),
     dr_probes = map probe_label (diag_probes r), dr_timeout_ms = duration_get (diag_timeout_ms r),
     dr_disposition = diagnostic_disposition_label (do_disposition out),
     dr_report_status = do_report_status out, dr_artifact = diagnostic_path slot r,
     dr_artifact_sha256 = to_hex (r_sha env (do_raw_report out)),
     dr_producer_version = do_producer_version out, dr_executable_sha256 = do_executable_sha256 out,
     dr_machine_schema = do_machine_schema out, dr_warnings = do_warnings out,
     dr_skipped_reason = do_skipped_reason out\<rparr>"

text \<open>The functions on the whole run state keep the writer in it.\<close>

definition with_writer :: "RunState \<Rightarrow> ('w, 'a) staging \<Rightarrow> ('w, (BundleError + 'a) \<times> RunState) io" where
  "with_writer st m = andthen m (\<lambda>(r, w). yields (r, st \<lparr>st_writer := w\<rparr>))"

definition stage_diagnostic_record ::
  "'w RunEnv \<Rightarrow> DiagnosticRequest \<Rightarrow> DiagnosticPhase \<Rightarrow> DiagnosticOutput \<Rightarrow> RunState
    \<Rightarrow> ('w, (BundleError + unit) \<times> RunState) io" where
  "stage_diagnostic_record env r slot out st =
    (if 4 * 1024 * 1024 < length (do_raw_report out)
     then yields (Err (BoundExceeded ''diagnostic report''), st)
     else andthen (with_writer st (put_artifact env (diagnostic_path slot r) (RoleOther diagnostics_role_label)
            JSON Redacted (do_raw_report out) (st_writer st))) (\<lambda>(result, st).
       case result of
         Err e \<Rightarrow> yields (Err e, st)
       | Ok _ \<Rightarrow> yields (Ok (), st \<lparr>st_diagnostics := st_diagnostics st @ [executed_record env r slot out]\<rparr>)))"

definition diagnostics_index :: "ResolvedPlan \<Rightarrow> DiagnosticExecutionRecord list \<Rightarrow> DiagnosticsIndex" where
  "diagnostics_index rp records =
    (let producer = find (\<lambda>r. dr_producer_version r \<noteq> []) records
     in \<lparr>dx_schema_version = SchemaVersion 1, dx_driver = ''eggprobe'',
      dx_adapter_version = (case bt_get (rp_drivers rp) CatDiagnostic of
         None \<Rightarrow> CARGO_PKG_VERSION | Some d \<Rightarrow> adapter_version (descriptor d)),
      dx_executable_version = (case producer of None \<Rightarrow> [] | Some r \<Rightarrow> dr_producer_version r),
      dx_executable_sha256 = (case producer of None \<Rightarrow> [] | Some r \<Rightarrow> dr_executable_sha256 r),
      dx_machine_schema = (case find (\<lambda>r. dr_machine_schema r \<noteq> []) records of
         None \<Rightarrow> ''0.3'' | Some r \<Rightarrow> dr_machine_schema r),
      dx_executions = records\<rparr>)"

definition stage_diagnostics_index :: "'w RunEnv \<Rightarrow> ResolvedPlan \<Rightarrow> RunState \<Rightarrow> ('w, unit) staging" where
  "stage_diagnostics_index env rp st =
    (let w = st_writer st; index = diagnostics_index rp (st_diagnostics st)
     in if rp_diagnostics rp = [] \<or> st_diagnostics st = [] then accept () w
        else attempt (lift_result (map_err (\<lambda>_. InvalidManifest ''diagnostics index contract is invalid'')
            (validate_diagnostics_index index)) w) (\<lambda>_ w.
          attempt (lift_result (encoded (r_encode_diagnostics env index)) w) (\<lambda>bytes w.
            if 128 * 1024 < length bytes
            then reject (InvalidManifest ''diagnostics index exceeds the 128 KiB bound'') w
            else attempt (put_artifact env ''diagnostics.json'' (RoleOther diagnostics_role_label) JSON Redacted bytes w)
              (\<lambda>_. accept ()))))"

section \<open>Correctness evidence\<close>

definition security_path :: "Name \<Rightarrow> string" where
  "security_path i = ''security/'' @ as_str i @ ''.json''"

definition corpus_result_contradicts ::
  "HttpCorpusCheckRequest \<Rightarrow> CorrectnessOutput \<Rightarrow> HttpCorpusCheckResultV1 \<Rightarrow> bool" where
  "corpus_result_contradicts q out r \<longleftrightarrow> hx_id r \<noteq> as_str (corpus_id q) \<or> hx_source r \<noteq> as_str (corpus_source q)
     \<or> hx_family r \<noteq> ''http_observable'' \<or> hx_target r \<noteq> as_str (corpus_target q)
     \<or> \<not> eq_ignore_ascii_case (hx_corpus_sha256 r) (check_corpus_sha256 q)
     \<or> 512 * 1024 < length (co_sanitized_result out)"

definition corpus_metadata_contradicts ::
  "HttpCorpusCheckRequest \<Rightarrow> CorrectnessOutput \<Rightarrow> HttpCorpusCheckResultV1 \<Rightarrow> bool" where
  "corpus_metadata_contradicts q out r =
    (case case_counts r of (evaluated, _, bad, _) \<Rightarrow>
       co_evaluated_cases out \<noteq> evaluated \<or> co_successful_bypasses out \<noteq> bad
       \<or> co_disposition out \<noteq> (if 0 < bad then ObservedFail else ObservedPass)
       \<or> co_scope_sha256 out \<noteq> to_ascii_lowercase (check_corpus_sha256 q)
       \<or> co_producer_version out \<noteq> hx_adapter_semantic_version r @ '':'' @ hx_eggfetch_version r)"

text \<open>The result tells whether some case was invalid.\<close>

definition stage_http_corpus_record ::
  "'w RunEnv \<Rightarrow> HttpCorpusCheckRequest \<Rightarrow> CorrectnessOutput \<Rightarrow> RunState
    \<Rightarrow> ('w, (BundleError + bool) \<times> RunState) io" where
  "stage_http_corpus_record env q out st =
    (case r_decode_corpus_result env (co_sanitized_result out) of
       None \<Rightarrow> yields (Err (ManifestParse ''decode''), st)
     | Some r \<Rightarrow>
         if \<not> is_ok (validate_corpus_result r)
         then yields (Err (InvalidManifest ''HTTP corpus result contract is invalid''), st)
         else if corpus_result_contradicts q out r
         then yields (Err (InvalidManifest ''HTTP corpus result contradicts the resolved request''), st)
         else if corpus_metadata_contradicts q out r
         then yields (Err (InvalidManifest ''HTTP corpus executor metadata contradicts its sanitized result''), st)
         else andthen (with_writer st (put_artifact env (security_path (corpus_id q)) (RoleOther security_role_label)
                JSON Redacted (co_sanitized_result out) (st_writer st))) (\<lambda>(result, st).
           case result of
             Err e \<Rightarrow> yields (Err e, st)
           | Ok _ \<Rightarrow> yields (Ok (0 < snd (snd (snd (case_counts r)))), st)))"

definition security_result_contradicts ::
  "SecurityCheckRequest \<Rightarrow> CorrectnessOutput \<Rightarrow> SecurityCheckResultV1 \<Rightarrow> bool" where
  "security_result_contradicts q out r \<longleftrightarrow> as_str (sr_id r) \<noteq> as_str (sec_id q)
     \<or> as_str (sr_source r) \<noteq> as_str (sec_source q) \<or> as_str (sr_target r) \<noteq> as_str (sec_target q)
     \<or> sr_test_type r \<noteq> as_cli_str (sec_test_type q)
     \<or> sr_allowed_successful_bypasses r \<noteq> max_successful_bypasses q
     \<or> sr_producer_version r \<noteq> co_producer_version out \<or> sr_producer_sha256 r \<noteq> co_executable_sha256 out
     \<or> sr_scope_sha256 r \<noteq> co_scope_sha256 out \<or> sr_evaluated_cases r \<noteq> co_evaluated_cases out
     \<or> sr_successful_bypasses r \<noteq> co_successful_bypasses out"

definition observed_label :: "ObservedDisposition \<Rightarrow> string" where
  "observed_label d = (case d of ObservedPass \<Rightarrow> ''pass'' | ObservedFail \<Rightarrow> ''fail'')"

definition correctness_record ::
  "'w RunEnv \<Rightarrow> SecurityCheckRequest \<Rightarrow> CorrectnessOutput \<Rightarrow> CorrectnessExecutionRecord" where
  "correctness_record env q out = \<lparr>cr_id = as_str (sec_id q), cr_source = as_str (sec_source q),
     cr_target = as_str (sec_target q), cr_test_type = as_cli_str (sec_test_type q),
     cr_disposition = observed_label (co_disposition out), cr_evaluated_cases = co_evaluated_cases out,
     cr_successful_bypasses = co_successful_bypasses out,
     cr_allowed_successful_bypasses = max_successful_bypasses q, cr_artifact = security_path (sec_id q),
     cr_artifact_sha256 = to_hex (r_sha env (co_sanitized_result out)),
     cr_producer_version = co_producer_version out, cr_executable_sha256 = co_executable_sha256 out,
     cr_scope_sha256 = co_scope_sha256 out\<rparr>"

definition stage_correctness_record ::
  "'w RunEnv \<Rightarrow> SecurityCheckRequest \<Rightarrow> CorrectnessOutput \<Rightarrow> RunState
    \<Rightarrow> ('w, (BundleError + unit) \<times> RunState) io" where
  "stage_correctness_record env q out st =
    (case r_decode_security_result env (co_sanitized_result out) of
       None \<Rightarrow> yields (Err (ManifestParse ''decode''), st)
     | Some r \<Rightarrow>
         if \<not> is_ok (validate_security_result r)
         then yields (Err (InvalidManifest ''security result contract is invalid''), st)
         else if security_result_contradicts q out r
         then yields (Err (InvalidManifest ''security result contradicts the resolved request''), st)
         else if disposition_str (sr_disposition r) \<noteq> observed_label (co_disposition out)
         then yields (Err (InvalidManifest ''security result disposition contradicts the executor observation''), st)
         else if 128 * 1024 < length (co_sanitized_result out)
         then yields (Err (InvalidManifest ''security result exceeds the 128 KiB bound''), st)
         else andthen (with_writer st (put_artifact env (security_path (sec_id q)) (RoleOther security_role_label)
                JSON Redacted (co_sanitized_result out) (st_writer st))) (\<lambda>(result, st).
           case result of
             Err e \<Rightarrow> yields (Err e, st)
           | Ok _ \<Rightarrow> yields (Ok (), st \<lparr>st_correctness := st_correctness st @ [correctness_record env q out]\<rparr>)))"

fun index_records :: "CorrectnessExecutionRecord list \<Rightarrow> BundleError + SecurityCheckIndexRecord list" where
  "index_records [] = Ok []"
| "index_records (r # rs) =
    (case Name_new (cr_id r) of Err _ \<Rightarrow> Err (InvalidManifest ''security index id is invalid'') | Ok i \<Rightarrow>
     (case Name_new (cr_source r) of Err _ \<Rightarrow> Err (InvalidManifest ''security index source is invalid'') | Ok s \<Rightarrow>
     (case Name_new (cr_target r) of Err _ \<Rightarrow> Err (InvalidManifest ''security index target is invalid'') | Ok t \<Rightarrow>
     (case index_records rs of Err e \<Rightarrow> Err e | Ok is \<Rightarrow> Ok
       (\<lparr>si_id = i, si_source = s, si_target = t, si_test_type = cr_test_type r,
         si_disposition = cr_disposition r, si_evaluated_cases = cr_evaluated_cases r,
         si_successful_bypasses = cr_successful_bypasses r,
         si_allowed_successful_bypasses = cr_allowed_successful_bypasses r,
         si_artifact = cr_artifact r, si_artifact_sha256 = cr_artifact_sha256 r\<rparr> # is)))))"

definition security_index ::
  "ResolvedPlan \<Rightarrow> CorrectnessExecutionRecord \<Rightarrow> SecurityCheckIndexRecord list \<Rightarrow> SecurityChecksIndex" where
  "security_index rp first rows = \<lparr>sx_schema_version = SchemaVersion SECURITY_CHECKS_INDEX_SCHEMA,
     sx_driver = EGGSEC_WAF_DRIVER_NAME,
     sx_adapter_version = (case bt_get (rp_drivers rp) CatCorrectness of
       None \<Rightarrow> CARGO_PKG_VERSION | Some d \<Rightarrow> adapter_version (descriptor d)),
     sx_executable_version = cr_producer_version first, sx_executable_sha256 = cr_executable_sha256 first,
     sx_operation = security_operation_label, sx_scope_sha256 = cr_scope_sha256 first,
     sx_lifecycle_placement = CORRECTNESS_ADAPTER_SEMANTIC_VERSION @ '':'' @ correctness_timing_label,
     sx_checks = rows\<rparr>"

definition stage_security_index :: "'w RunEnv \<Rightarrow> ResolvedPlan \<Rightarrow> RunState \<Rightarrow> ('w, unit) staging" where
  "stage_security_index env rp st =
    (let w = st_writer st in
     if rp_security_checks rp = [] then accept () w
     else (case st_correctness st of
       [] \<Rightarrow> accept () w
     | first # _ \<Rightarrow>
         if length (st_correctness st) \<noteq> length (rp_security_checks rp)
         then reject (InvalidManifest ''security evidence check count contradicts the resolved plan'') w
         else attempt (lift_result (index_records (st_correctness st)) w) (\<lambda>rows w.
           let index = security_index rp first rows in
           attempt (lift_result (map_err (\<lambda>_. InvalidManifest ''security index contract is invalid'')
               (validate_security_index index)) w) (\<lambda>_ w.
           attempt (lift_result (encoded (r_encode_security env index)) w) (\<lambda>bytes w.
             if 128 * 1024 < length bytes
             then reject (InvalidManifest ''security index exceeds the 128 KiB bound'') w
             else attempt (put_artifact env ''security-checks.json'' (RoleOther security_role_label) JSON Redacted bytes w)
               (\<lambda>_. accept ()))))))"

section \<open>Lifecycle evidence\<close>

definition stage_runtime_topology :: "'w RunEnv \<Rightarrow> LocalSession \<Rightarrow> BundleWriter \<Rightarrow> ('w, ArtifactPath) staging" where
  "stage_runtime_topology env s w =
     attempt (lift_result (encoded (r_encode_topology env (runtime_topology s))) w) (\<lambda>bytes.
       put_artifact env ''lifecycle/runtime-topology.json'' (RoleOther (Name ''runtime-topology'')) JSON Redacted bytes)"

definition stage_run_evidence :: "'w RunEnv \<Rightarrow> RunEvidenceArtifact \<Rightarrow> BundleWriter \<Rightarrow> ('w, ArtifactPath) staging" where
  "stage_run_evidence env e w =
     put_artifact env (ev_name e) (RoleOther (ev_role_label e)) (ev_media_type e) (ev_sensitivity e) (ev_bytes e) w"

fun stage_logs_of :: "'w RunEnv \<Rightarrow> LocalSession \<Rightarrow> string list \<Rightarrow> ArtifactPath list \<Rightarrow> BundleWriter
    \<Rightarrow> ('w, ArtifactPath list) staging" where
  "stage_logs_of env s [] placed w = accept placed w"
| "stage_logs_of env s (identity # is) placed w =
     andthen (logs (r_host env) identity s) (\<lambda>found. case found of
       None \<Rightarrow> stage_logs_of env s is placed w
     | Some l \<Rightarrow>
         (let base = ''lifecycle/logs/'' @ sanitize_identity identity in
          attempt (put_artifact env (base @ ''.stdout'') RoleStdout ''application/octet-stream'' Redacted
              (out_data (log_stdout l)) w) (\<lambda>out w.
          attempt (put_artifact env (base @ ''.stderr'') RoleStderr ''application/octet-stream'' Redacted
              (out_data (log_stderr l)) w) (\<lambda>err.
            stage_logs_of env s is (placed @ [out, err])))))"

definition stage_lifecycle_logs :: "'w RunEnv \<Rightarrow> LocalSession \<Rightarrow> BundleWriter \<Rightarrow> ('w, ArtifactPath list) staging" where
  "stage_lifecycle_logs env s w = stage_logs_of env s (spawn_order s) [] w"

definition event_kind_text :: "LifecycleEventKind \<Rightarrow> string" where
  "event_kind_text k = (case k of
     Spawned \<Rightarrow> ''Spawned'' | Ready \<Rightarrow> ''Ready'' | Stopping \<Rightarrow> ''Stopping'' | Stopped \<Rightarrow> ''Stopped'')"

definition lifecycle_metadata :: "LocalSession \<Rightarrow> LifecycleOutcome \<Rightarrow> LifecycleMetadata" where
  "lifecycle_metadata s outcome = \<lparr>lm_started = outcome_started outcome,
     lm_stopped_order = outcome_stopped_order outcome, lm_cleanup = outcome_cleanup outcome,
     lm_events = map (\<lambda>e. \<lparr>es_seq = event_seq e, es_identity = event_identity e,
       es_kind = event_kind_text (event_kind e), es_pid = event_pid e, es_elapsed_ms = event_elapsed_ms e\<rparr>) (events s),
     lm_external_observed = external s\<rparr>"

definition stage_lifecycle_metadata ::
  "'w RunEnv \<Rightarrow> LocalSession \<Rightarrow> LifecycleOutcome \<Rightarrow> BundleWriter \<Rightarrow> ('w, ArtifactPath) staging" where
  "stage_lifecycle_metadata env s outcome w =
     attempt (lift_result (encoded (r_encode_lifecycle env (lifecycle_metadata s outcome))) w) (\<lambda>bytes.
       put_artifact env ''lifecycle/lifecycle.json'' (RoleOther (Name ''lifecycle'')) JSON Redacted bytes)"

definition stage_phase_artifacts :: "'w RunEnv \<Rightarrow> PhaseEvent list \<Rightarrow> BundleWriter \<Rightarrow> ('w, unit) staging" where
  "stage_phase_artifacts env phases w =
     attempt (lift_result (encoded (r_encode_phases env phases)) w) (\<lambda>bytes w.
     attempt (put_artifact env ''runner-phases.json'' (RoleOther (Name ''runner_phases'')) JSON Redacted bytes w)
       (\<lambda>_. accept ()))"

text \<open>\<open>r_network_path_document\<close> reads a JSON document: its \<open>schema_version\<close> as an unsigned number
  and the keys of the object; a document that is no object has no keys.\<close>

definition network_path_keys :: "string list" where
  "network_path_keys = [''route'', ''route_driver'', ''eggress_outbound_version'', ''semantics'',
     ''diagnostics'', ''policy_mode'']"

definition validate_run_evidence_contract ::
  "'w RunEnv \<Rightarrow> RunEvidenceArtifact \<Rightarrow> bool \<Rightarrow> BundleError + unit" where
  "validate_run_evidence_contract env e required =
    (let is_path = ev_name e = ''network-path.json'' in
     if required then
       (if \<not> is_path \<or> as_str (ev_role_label e) \<noteq> ''network-path'' \<or> ev_media_type e \<noteq> JSON
           \<or> ev_sensitivity e \<noteq> Redacted \<or> ev_schema_version e \<noteq> SchemaVersion 1
        then Err (InvalidManifest ''network-path run evidence metadata is invalid'')
        else (case r_network_path_document env (ev_bytes e) of
            None \<Rightarrow> Err (ManifestParse ''decode'')
          | Some (version, keys) \<Rightarrow>
              reject_if (version \<noteq> Some 1 \<or> \<not> set network_path_keys \<subseteq> set keys)
                (InvalidManifest ''network-path run evidence schema is unsupported'')))
     else reject_if is_path (InvalidManifest ''network-path evidence is not allowed for a path-free plan''))"

text \<open>\<open>RunEvidenceArtifact::from_contract\<close>, for a contract that checks itself.\<close>

definition evidence_from_contract ::
  "string \<Rightarrow> Name \<Rightarrow> string \<Rightarrow> Sensitivity \<Rightarrow> SchemaVersion \<Rightarrow> BundleError + unit \<Rightarrow> string option
    \<Rightarrow> BundleError + RunEvidenceArtifact" where
  "evidence_from_contract name label media_type sensitivity version valid json =
    (case valid of Err e \<Rightarrow> Err e | Ok _ \<Rightarrow>
     (case encoded json of Err e \<Rightarrow> Err e | Ok bytes \<Rightarrow>
      if 128 * 1024 < length bytes
      then Err (InvalidManifest ''run evidence exceeds the 128 KiB artifact bound'')
      else Ok \<lparr>ev_name = name, ev_role_label = label, ev_media_type = media_type,
        ev_sensitivity = sensitivity, ev_bytes = bytes, ev_schema_version = version\<rparr>))"

end
