(* ===== verification/Preflight.thy ===== *)
theory Preflight
  imports Staging
begin

text \<open>
  The checks of \<open>orchestration.rs\<close> before anything starts: timeouts and reset hook, corpus inputs,
  registered executors, telemetry probes and the capacity of the bundle for mandatory evidence.

  Counts and byte estimates use checked arithmetic of 64 bits; they are natural numbers here, and
  an operation whose result needs more bits gives \<open>None\<close>.
\<close>

section \<open>Configuration\<close>

definition duration_of :: "DurationMs \<Rightarrow> nat" where
  "duration_of d = millis (unat (duration_get d))"

definition timeout_for :: "ResolvedPlan \<Rightarrow> string \<Rightarrow> nat option" where
  "timeout_for rp key = map_option duration_of (bt_get (timeouts (rp_trials rp)) (Name key))"

definition timeout_keys :: "string list" where
  "timeout_keys = [''measurement'', ''warmup'', ''reset'', ''drain'', ''telemetry'']"

definition reset_target :: "ResetPolicy \<Rightarrow> Name option" where
  "reset_target p = (case p of NoReset \<Rightarrow> None | ResetService s \<Rightarrow> Some s | ResetReference r \<Rightarrow> Some r)"

definition reset_config :: "ResolvedPlan \<Rightarrow> Name list \<Rightarrow> OrchestrationError + ResetBinding option" where
  "reset_config rp hooks =
    (case reset_target (reset_policy (rp_trials rp)) of
       None \<Rightarrow> Ok None
     | Some target \<Rightarrow>
         (case timeout_for rp ''reset'' of
            None \<Rightarrow> Err (Preflight ''reset timeout is required'')
          | Some limit \<Rightarrow>
              if limit = 0 then Err (Preflight ''reset timeout must be greater than zero'')
              else if target \<notin> set hooks then Err (Preflight ''required reset hook is not registered'')
              else Ok (Some \<lparr>rb_target = target, rb_timeout = limit\<rparr>)))"

definition preflight :: "ResolvedPlan \<Rightarrow> Name list \<Rightarrow> OrchestrationError + PhaseConfig" where
  "preflight rp hooks =
    (let n = count_get (measured (rp_trials rp)) in
     if rp_paired rp \<noteq> None \<and> (n < 2 \<or> n mod 2 \<noteq> 0)
     then Err (Preflight ''paired run requires an even measured trial count of at least 2'')
     else if list_ex (\<lambda>e. as_str (fst e) \<notin> set timeout_keys) (timeouts (rp_trials rp))
     then Err (Preflight ''unknown M002 timeout key'')
     else (case timeout_for rp ''measurement'' of
       None \<Rightarrow> Err (Preflight ''measurement timeout is required'')
     | Some measurement \<Rightarrow>
         (let warm = (case timeout_for rp ''warmup'' of None \<Rightarrow> measurement | Some d \<Rightarrow> d) in
          case timeout_for rp ''drain'' of
            None \<Rightarrow> Err (Preflight ''drain timeout is required'')
          | Some drain \<Rightarrow>
              if measurement = 0 \<or> warm = 0 \<or> drain = 0
              then Err (Preflight ''timeouts must be greater than zero'')
              else (case reset_config rp hooks of
                  Err e \<Rightarrow> Err e
                | Ok binding \<Rightarrow> Ok \<lparr>measurement_timeout = measurement, warmup_timeout = warm,
                    drain_timeout = drain,
                    telemetry_timeout = (case timeout_for rp ''telemetry'' of None \<Rightarrow> measurement | Some d \<Rightarrow> d),
                    reset_binding = binding\<rparr>))))"

section \<open>Inputs and executors\<close>

fun corpus_checks_load :: "'w RunEnv \<Rightarrow> string \<Rightarrow> HttpCorpusCheckRequest list \<Rightarrow> OrchestrationError + unit" where
  "corpus_checks_load env workspace [] = Ok ()"
| "corpus_checks_load env workspace (q # qs) =
    (case load_http_security_corpus (r_content_fs env) (r_sha env) (r_decode_corpus env) workspace
        (check_corpus_ref q) (check_corpus_sha256 q) of
       Err _ \<Rightarrow> Err (Preflight ''HTTP corpus input is invalid'')
     | Ok _ \<Rightarrow> corpus_checks_load env workspace qs)"

definition corpus_workload_load :: "'w RunEnv \<Rightarrow> string \<Rightarrow> Workload \<Rightarrow> OrchestrationError + unit" where
  "corpus_workload_load env workspace wl =
    (case wl of
       HttpCorpus _ corpus_ref corpus_sha256 schedule _ _ _ \<Rightarrow>
         (case load_http_security_corpus (r_content_fs env) (r_sha env) (r_decode_corpus env) workspace
             corpus_ref corpus_sha256 of
            Err _ \<Rightarrow> Err (Preflight ''HTTP corpus workload input is invalid'')
          | Ok (corpus, _) \<Rightarrow>
              reject_if (list_ex (\<lambda>e. case_id e \<notin> set (map hc_id (hs_cases corpus))) schedule)
                (Preflight ''HTTP corpus workload references an unknown case''))
     | _ \<Rightarrow> Ok ())"

definition preflight_http_corpus_inputs :: "'w RunEnv \<Rightarrow> ResolvedPlan \<Rightarrow> OrchestrationError + unit" where
  "preflight_http_corpus_inputs env rp =
    (if rp_http_corpus_checks rp = [] \<and> \<not> is_http_corpus (rp_workload rp) then Ok ()
     else (case r_current_dir env of
         None \<Rightarrow> Err (Preflight ''cannot resolve corpus workspace'')
       | Some workspace \<Rightarrow> checks
           [corpus_checks_load env workspace (rp_http_corpus_checks rp),
            corpus_workload_load env workspace (rp_workload rp)]))"

definition preflight_diagnostics :: "'w RunEnv \<Rightarrow> ResolvedPlan \<Rightarrow> OrchestrationError + unit" where
  "preflight_diagnostics env rp =
     reject_if (list_ex (\<lambda>q. as_str (diag_source q) \<notin> set (r_diagnostic_sources env)) (rp_diagnostics rp))
       (Preflight ''required diagnostic executor is not registered'')"

definition preflight_correctness :: "'w RunEnv \<Rightarrow> ResolvedPlan \<Rightarrow> OrchestrationError + unit" where
  "preflight_correctness env rp = checks
    [reject_if (list_ex (\<lambda>q. as_str (sec_source q) \<notin> set (r_correctness_sources env)) (rp_security_checks rp))
       (Preflight ''required correctness executor is not registered''),
     reject_if (list_ex (\<lambda>q. as_str (corpus_source q) \<notin> set (r_correctness_sources env)) (rp_http_corpus_checks rp))
       (Preflight ''required HTTP corpus correctness executor is not registered'')]"

section \<open>Telemetry probes\<close>

definition collector_timing :: "'w RunEnv \<Rightarrow> string \<Rightarrow> TelemetryPreflightTiming option" where
  "collector_timing env source = map_of (r_collectors env) source"

definition disable :: "string \<Rightarrow> string \<Rightarrow> TelemetryPlan \<Rightarrow> TelemetryPlan" where
  "disable source reason p = p \<lparr>tp_disabled := tp_disabled p @ [\<lparr>dis_source = source, dis_reason = reason\<rparr>]\<rparr>"

fun probe_sources ::
  "'w RunEnv \<Rightarrow> nat \<Rightarrow> TelemetryPreflightTiming \<Rightarrow> TelemetryRequest list \<Rightarrow> TelemetryPlan \<Rightarrow> ('w, TelemetryPlan) io" where
  "probe_sources env limit timing [] p = yields p"
| "probe_sources env limit timing (q # qs) p =
    (let source = as_str (telemetry_source q); required = telemetry_required q in
     case collector_timing env source of
       None \<Rightarrow>
         if timing \<noteq> BeforeStartup then probe_sources env limit timing qs p
         else if required then yields (failed_required ''required telemetry collector is not registered'')
         else probe_sources env limit timing qs (disable source ''collector not registered'' p)
     | Some t \<Rightarrow>
         if t \<noteq> timing then probe_sources env limit timing qs p
         else andthen (ask (r_collector_preflight env source limit)) (\<lambda>probed. case probed of
             RaceCancelled \<Rightarrow> yields no_telemetry_plan
           | Replied (Ok _) \<Rightarrow> probe_sources env limit timing qs (p \<lparr>tp_active := tp_active p @ [source]\<rparr>)
           | Replied (Err e) \<Rightarrow>
               if required then yields (failed_required (''required telemetry source '' @ source
                 @ '' failed preflight: '' @ telemetry_display e))
               else probe_sources env limit timing qs (disable source (telemetry_display e) p)
           | RaceTimedOut \<Rightarrow>
               if required then yields (failed_required (''required telemetry source '' @ source
                 @ '' preflight timed out''))
               else probe_sources env limit timing qs (disable source ''telemetry preflight timed out'' p)))"

definition preflight_telemetry ::
  "'w RunEnv \<Rightarrow> ResolvedPlan \<Rightarrow> PhaseConfig \<Rightarrow> TelemetryPreflightTiming \<Rightarrow> ('w, TelemetryPlan) io" where
  "preflight_telemetry env rp config timing =
     probe_sources env (telemetry_timeout config) timing (rp_telemetry rp) no_telemetry_plan"

section \<open>Capacity\<close>

definition fits64 :: "nat \<Rightarrow> nat option" where
  "fits64 n = (if n < 2 ^ 64 then Some n else None)"

definition add64 :: "nat \<Rightarrow> nat \<Rightarrow> nat option" where
  "add64 a b = fits64 (a + b)"

definition mul64 :: "nat \<Rightarrow> nat \<Rightarrow> nat option" where
  "mul64 a b = fits64 (a * b)"

definition add_opt :: "nat option \<Rightarrow> nat option \<Rightarrow> nat option" where
  "add_opt x y = Option.bind x (\<lambda>a. Option.bind y (add64 a))"

definition diagnostic_execution_count :: "ResolvedPlan \<Rightarrow> nat" where
  "diagnostic_execution_count rp =
     sum_list (map (\<lambda>q. if diag_phase q = BothPhases then 2 else 1) (rp_diagnostics rp))"

definition phase_bound_of :: "ResolvedPlan \<Rightarrow> nat option" where
  "phase_bound_of rp =
     add_opt (add_opt (add_opt (add_opt (Some (unat (warmup (rp_trials rp))))
       (mul64 (unat (count_get (measured (rp_trials rp)))) 3))
       (Some FIXED_PHASE_EVENTS)) (Some (diagnostic_execution_count rp)))
       (Some (length (rp_security_checks rp) + length (rp_http_corpus_checks rp)))"

definition security_evidence_byte_estimate :: "ResolvedPlan \<Rightarrow> nat option" where
  "security_evidence_byte_estimate rp =
    (if rp_security_checks rp = [] then Some 0
     else add_opt (mul64 (length (rp_security_checks rp)) (128 * 1024)) (Some (128 * 1024)))"

definition http_corpus_evidence_byte_estimate :: "ResolvedPlan \<Rightarrow> nat option" where
  "http_corpus_evidence_byte_estimate rp = mul64 (length (rp_http_corpus_checks rp)) (512 * 1024)"

definition telemetry_artifact_count :: "nat \<Rightarrow> ResolvedPlan \<Rightarrow> nat option" where
  "telemetry_artifact_count n rp =
     Option.bind (mul64 n (length (rp_telemetry rp))) (\<lambda>c. mul64 c MAX_TELEMETRY_ARTIFACTS_PER_TRIAL)"

text \<open>The floor of one artifact and the bytes of one trial.\<close>

definition telemetry_byte_estimate :: "ResolvedPlan \<Rightarrow> (nat \<times> nat) option" where
  "telemetry_byte_estimate rp =
    (if rp_telemetry rp = [] then Some (0, 0)
     else Option.bind (mul64 (length (rp_telemetry rp)) MAX_TELEMETRY_ARTIFACTS_PER_TRIAL) (\<lambda>c.
       map_option (\<lambda>b. (unat TELEMETRY_ARTIFACT_BYTE_ESTIMATE, b))
         (mul64 c (unat TELEMETRY_ARTIFACT_BYTE_ESTIMATE))))"

definition identities_byte_bound :: "nat \<Rightarrow> string list \<Rightarrow> nat option" where
  "identities_byte_bound each ids =
     add_opt (add_opt (mul64 (length ids) each) (mul64 (sum_list (map length ids)) 8)) (Some 2048)"

definition lifecycle_byte_bound :: "string list \<Rightarrow> nat option" where
  "lifecycle_byte_bound = identities_byte_bound 512"

definition topology_byte_bound :: "string list \<Rightarrow> nat option" where
  "topology_byte_bound = identities_byte_bound 1024"

definition or_preflight :: "string \<Rightarrow> 'a option \<Rightarrow> OrchestrationError + 'a" where
  "or_preflight message r = (case r of None \<Rightarrow> Err (Preflight message) | Some a \<Rightarrow> Ok a)"

definition security_artifact_count :: "ResolvedPlan \<Rightarrow> nat option" where
  "security_artifact_count rp =
    (if rp_security_checks rp = [] then Some 0 else add64 (length (rp_security_checks rp)) 1)"

definition required_artifact_count :: "ResolvedPlan \<Rightarrow> string list \<Rightarrow> nat \<Rightarrow> nat \<Rightarrow> nat \<Rightarrow> nat option" where
  "required_artifact_count rp ids log_count telemetry_count security_count =
    (let measured_count = unat (count_get (measured (rp_trials rp))) in
     add_opt (add_opt (add_opt (add_opt (add_opt (add_opt (add_opt
       (Some (unat (warmup (rp_trials rp)))) (mul64 measured_count 2))
       (Some security_count)) (Some (length (rp_http_corpus_checks rp)))) (Some 3))
       (Some (if rp_network_path rp \<noteq> None then 1 else 0))) (Some log_count)) (Some telemetry_count))"

definition phase_bytes :: "nat \<Rightarrow> nat option" where
  "phase_bytes bound = add_opt (mul64 bound 256) (Some 2048)"

definition network_path_bytes :: "ResolvedPlan \<Rightarrow> nat" where
  "network_path_bytes rp = (if rp_network_path rp = None then 0 else unat NETWORK_PATH_EVIDENCE_BYTE_BOUND)"

definition artifact_floor :: "ResolvedPlan \<Rightarrow> nat \<Rightarrow> nat \<Rightarrow> nat \<Rightarrow> nat \<Rightarrow> nat" where
  "artifact_floor rp phase_b lifecycle_b topology_b telemetry_floor =
     foldl max phase_b [lifecycle_b, topology_b, network_path_bytes rp, telemetry_floor,
       if rp_http_corpus_checks rp = [] then 0 else 512 * 1024, 512]"

definition required_runner_bytes :: "ResolvedPlan \<Rightarrow> nat \<Rightarrow> nat \<Rightarrow> nat \<Rightarrow> nat \<Rightarrow> nat option" where
  "required_runner_bytes rp phase_b lifecycle_b topology_b per_trial =
    (let measured_count = unat (count_get (measured (rp_trials rp))) in
     add_opt (add_opt (add_opt (add_opt (add_opt (add_opt (add_opt (add_opt
       (Some phase_b) (Some lifecycle_b)) (Some topology_b)) (Some (network_path_bytes rp)))
       (security_evidence_byte_estimate rp)) (http_corpus_evidence_byte_estimate rp))
       (mul64 (unat (warmup (rp_trials rp))) 512)) (mul64 measured_count 1024))
       (mul64 measured_count per_trial))"

definition log_limit_of :: "ResolvedPlan \<Rightarrow> string \<Rightarrow> u64" where
  "log_limit_of rp identity =
    (if identity = ''subject'' then DEFAULT_SUBJECT_LOG_LIMIT_BYTES
     else (case find (\<lambda>s. as_str (svc_name s) = identity) (rp_topology rp) of
         None \<Rightarrow> 0 | Some s \<Rightarrow> log_limit_bytes s))"

fun add_log_bytes :: "BundleWriter \<Rightarrow> ResolvedPlan \<Rightarrow> string list \<Rightarrow> nat \<Rightarrow> OrchestrationError + nat" where
  "add_log_bytes w rp [] n = Ok n"
| "add_log_bytes w rp (identity # is) n =
    (if max_artifact_bytes w < log_limit_of rp identity
     then Err (Preflight ''per-artifact bound is smaller than a declared service log cap'')
     else (case mul64 (unat (log_limit_of rp identity)) 2 of
         None \<Rightarrow> Err (Preflight ''service log byte bound overflow'')
       | Some both \<Rightarrow>
           (case add64 n both of
              None \<Rightarrow> Err (Preflight ''runner artifact byte bound overflow'')
            | Some n' \<Rightarrow> add_log_bytes w rp is n')))"

definition check_artifact_counts :: "BundleWriter \<Rightarrow> string list \<Rightarrow> ResolvedPlan \<Rightarrow> OrchestrationError + unit" where
  "check_artifact_counts w ids rp =
    (case or_preflight ''log artifact count overflow'' (mul64 (length ids) 2) of Err e \<Rightarrow> Err e | Ok log_count \<Rightarrow>
     (case or_preflight ''telemetry artifact count overflow''
         (telemetry_artifact_count (unat (count_get (measured (rp_trials rp)))) rp) of Err e \<Rightarrow> Err e | Ok telemetry_count \<Rightarrow>
     (case or_preflight ''evidence artifact count overflow'' (security_artifact_count rp) of Err e \<Rightarrow> Err e | Ok security_count \<Rightarrow>
     (case or_preflight ''evidence artifact count overflow''
         (required_artifact_count rp ids log_count telemetry_count security_count) of Err e \<Rightarrow> Err e | Ok needed \<Rightarrow>
      reject_if (remaining_artifact_count w < needed)
        (Preflight ''bundle artifact-count bound cannot hold mandatory runner evidence'')))))"

definition preflight_evidence_capacity ::
  "BundleWriter \<Rightarrow> string list \<Rightarrow> ResolvedPlan \<Rightarrow> nat \<Rightarrow> OrchestrationError + unit" where
  "preflight_evidence_capacity w ids rp phase_bound =
    (case check_artifact_counts w ids rp of Err e \<Rightarrow> Err e | Ok _ \<Rightarrow>
     (case or_preflight ''phase artifact bound overflow'' (phase_bytes phase_bound) of Err e \<Rightarrow> Err e | Ok phase_b \<Rightarrow>
     (case or_preflight ''lifecycle artifact bound overflow'' (lifecycle_byte_bound ids) of Err e \<Rightarrow> Err e | Ok lifecycle_b \<Rightarrow>
     (case or_preflight ''runtime-topology artifact bound overflow'' (topology_byte_bound ids) of Err e \<Rightarrow> Err e | Ok topology_b \<Rightarrow>
     (case or_preflight ''telemetry artifact byte bound overflow'' (telemetry_byte_estimate rp) of
        Err e \<Rightarrow> Err e
      | Ok (telemetry_floor, per_trial) \<Rightarrow>
          if unat (max_artifact_bytes w) < artifact_floor rp phase_b lifecycle_b topology_b telemetry_floor
          then Err (Preflight ''per-artifact bound cannot hold mandatory runner metadata'')
          else (case or_preflight ''runner artifact byte bound overflow''
              (required_runner_bytes rp phase_b lifecycle_b topology_b per_trial) of Err e \<Rightarrow> Err e | Ok needed \<Rightarrow>
          (case add_log_bytes w rp ids needed of Err e \<Rightarrow> Err e | Ok all_bytes \<Rightarrow>
           reject_if (unat (remaining_total_bytes w) < all_bytes)
             (Preflight ''bundle byte bound cannot hold mandatory runner evidence''))))))))"

text \<open>The phase bound, checked against the limit of the runner.\<close>

definition checked_phase_bound :: "ResolvedPlan \<Rightarrow> OrchestrationError + nat" where
  "checked_phase_bound rp =
    (case or_preflight ''phase event bound overflow'' (phase_bound_of rp) of Err e \<Rightarrow> Err e | Ok bound \<Rightarrow>
     if MAX_PHASE_EVENTS < bound then Err (Preflight ''phase event bound exceeds runner limit'') else Ok bound)"

text \<open>Everything that is decided before the clock of the run starts.\<close>

definition static_preflight :: "'w RunEnv \<Rightarrow> BundleWriter \<Rightarrow> string list \<Rightarrow> ResolvedPlan \<Rightarrow> OrchestrationError + PhaseConfig" where
  "static_preflight env w ids rp =
    (case preflight rp (r_reset_hooks env) of Err e \<Rightarrow> Err e | Ok config \<Rightarrow>
     (case preflight_http_corpus_inputs env rp of Err e \<Rightarrow> Err e | Ok _ \<Rightarrow>
     (case checked_phase_bound rp of Err e \<Rightarrow> Err e | Ok bound \<Rightarrow>
     (case preflight_evidence_capacity w ids rp bound of Err e \<Rightarrow> Err e | Ok _ \<Rightarrow> Ok config))))"

end
