(* ===== verification/RunPhases.thy ===== *)
theory RunPhases
  imports Preflight
begin

text \<open>
  The parts of a run between startup and drain: one workload invocation, the telemetry window
  of a trial, one-shot diagnostics, correctness checks, warmups and measured trials with reset
  and cooldown.  A loop body tells with its first result whether the loop goes on; \<open>False\<close> is the
  \<open>break\<close> of the source.
\<close>

section \<open>Loops with a break\<close>

fun each_until :: "('a \<Rightarrow> 's \<Rightarrow> ('w, bool \<times> 's) io) \<Rightarrow> 'a list \<Rightarrow> 's \<Rightarrow> ('w, 's) io" where
  "each_until f [] s = yields s"
| "each_until f (x # xs) s = andthen (f x s) (\<lambda>(go, s'). if go then each_until f xs s' else yields s')"

text \<open>\<open>finish_phase\<close> as the last step of a loop body.\<close>

definition finish_and ::
  "'w RunEnv \<Rightarrow> nat \<Rightarrow> nat \<Rightarrow> PhaseOutcome \<Rightarrow> FailureCategory option \<Rightarrow> bool \<Rightarrow> RunState \<Rightarrow> ('w, bool \<times> RunState) io" where
  "finish_and env origin index outcome failure go st =
     andthen (finish_phase env origin index outcome failure st) (\<lambda>st. yields (go, st))"

section \<open>One invocation\<close>

datatype InvocationResult =
  InvCompleted WorkloadOutput nat u64
| InvFailure FailureCategory nat u64

definition invocation_context ::
  "ResolvedPlan \<Rightarrow> RuntimeBindings \<Rightarrow> InvocationKind \<Rightarrow> Workload option \<Rightarrow> nat \<Rightarrow> InvocationContext" where
  "invocation_context rp b k override limit = \<lparr>ic_kind = k,
     ic_workload = (case override of None \<Rightarrow> rp_workload rp | Some wl \<Rightarrow> wl),
     ic_seed = map_option (\<lambda>s. derive_seed s k) (rp_seed rp),
     ic_schedule_seed = map_option (\<lambda>s. derive_schedule_seed s k) (rp_seed rp),
     ic_bindings = b, ic_timeout = limit\<rparr>"

definition race_result :: "(FailureCategory + 'a) raced \<Rightarrow> FailureCategory + 'a" where
  "race_result r = (case r of RaceCancelled \<Rightarrow> Err CancelledByUser | RaceTimedOut \<Rightarrow> Err TimedOut | Replied x \<Rightarrow> x)"

definition execute_result :: "ExecuteReply \<Rightarrow> (FailureCategory + WorkloadOutput) \<times> nat option" where
  "execute_result reply = (case reply of
     ExecCancelled \<Rightarrow> (Err CancelledByUser, None)
   | ExecDeadline \<Rightarrow> (Err TimedOut, None)
   | ExecDone r \<Rightarrow> (r, None)
   | ExecSignalled reported r \<Rightarrow> (race_result r, reported))"

definition execute_invocation ::
  "'w RunEnv \<Rightarrow> nat \<Rightarrow> ResolvedPlan \<Rightarrow> RuntimeBindings \<Rightarrow> InvocationKind \<Rightarrow> Workload option \<Rightarrow> nat \<Rightarrow> nat
    \<Rightarrow> ('w, InvocationResult) io" where
  "execute_invocation env origin rp b k override limit postprocess_limit =
     andthen (ask (h_now (r_host env))) (\<lambda>start.
     andthen (ask (r_execute env (invocation_context rp b k override limit) postprocess_limit)) (\<lambda>reply.
       let (result, reported) = execute_result reply; offset = nanos (start - origin) in
       andthen (case reported of Some d \<Rightarrow> yields d
           | None \<Rightarrow> andthen (ask (h_now (r_host env))) (\<lambda>now. yields (now - start))) (\<lambda>elapsed.
         yields (case result of Ok out \<Rightarrow> InvCompleted out elapsed offset
           | Err cause \<Rightarrow> InvFailure cause elapsed offset))))"

section \<open>The telemetry window\<close>

fun stop_opened :: "'w RunEnv \<Rightarrow> nat \<Rightarrow> TrialId \<Rightarrow> string list \<Rightarrow> ('w, unit) io" where
  "stop_opened env limit t [] = yields ()"
| "stop_opened env limit t (source # opened) =
    (if collector_timing env source = None then stop_opened env limit t opened
     else andthen (ask (r_collector_stop env source t limit)) (\<lambda>_. stop_opened env limit t opened))"

definition start_reply :: "(TelemetryError + unit) raced \<Rightarrow> TelemetryError + unit" where
  "start_reply r = (case r of
     RaceCancelled \<Rightarrow> Err (TelemetryError_new ''collector_cancelled'' ''telemetry start cancelled'')
   | RaceTimedOut \<Rightarrow> Err (TelemetryError_new ''polling_timeout'' ''telemetry start timed out'')
   | Replied x \<Rightarrow> x)"

fun start_sources :: "'w RunEnv \<Rightarrow> nat \<Rightarrow> TrialId \<Rightarrow> string list \<Rightarrow> string list
    \<Rightarrow> ('w, TelemetryError + string list) io" where
  "start_sources env limit t [] opened = yields (Ok opened)"
| "start_sources env limit t (source # sources) opened =
    (if collector_timing env source = None then start_sources env limit t sources opened
     else andthen (ask (r_collector_start env source t limit)) (\<lambda>reply. case start_reply reply of
         Ok _ \<Rightarrow> start_sources env limit t sources (opened @ [source])
       | Err e \<Rightarrow> andthen (stop_opened env limit t opened) (\<lambda>_. yields (Err e))))"

definition start_trial_telemetry ::
  "'w RunEnv \<Rightarrow> TelemetryPlan \<Rightarrow> TrialId \<Rightarrow> nat \<Rightarrow> ('w, TelemetryError + string list) io" where
  "start_trial_telemetry env p t limit = start_sources env limit t (tp_active p) []"

type_synonym captured = "(string \<times> TelemetryOutput) list \<times> CleanupFailure list"

fun stop_sources :: "'w RunEnv \<Rightarrow> nat \<Rightarrow> TrialId \<Rightarrow> string list \<Rightarrow> captured \<Rightarrow> ('w, captured) io" where
  "stop_sources env limit t [] acc = yields acc"
| "stop_sources env limit t (source # sources) acc =
    (if collector_timing env source = None then stop_sources env limit t sources acc
     else andthen (ask (r_collector_stop env source t limit)) (\<lambda>reply. stop_sources env limit t sources
       (case reply of
          Some (Ok out) \<Rightarrow> (fst acc @ [(source, out)], snd acc)
        | Some (Err e) \<Rightarrow> (fst acc, snd acc @ [\<lparr>cleanup_service = source, cleanup_reason = telemetry_display e\<rparr>])
        | None \<Rightarrow> (fst acc, snd acc @ [\<lparr>cleanup_service = source, cleanup_reason = ''telemetry stop timed out''\<rparr>]))))"

definition stop_trial_telemetry ::
  "'w RunEnv \<Rightarrow> string list \<Rightarrow> TrialId \<Rightarrow> nat \<Rightarrow> ('w, captured) io" where
  "stop_trial_telemetry env started t limit = stop_sources env limit t started ([], [])"

definition disabled_telemetry_warnings :: "TelemetryPlan \<Rightarrow> MetricWarning list" where
  "disabled_telemetry_warnings p = map (\<lambda>d. \<lparr>mw_category = ''telemetry_disabled'',
     mw_detail = take_chars 512 (''telemetry source '' @ dis_source d @ '' disabled: '' @ dis_reason d)\<rparr>) (tp_disabled p)"

section \<open>Diagnostics\<close>

definition diagnostic_applies :: "DiagnosticPhase \<Rightarrow> DiagnosticPhase \<Rightarrow> bool" where
  "diagnostic_applies slot requested \<longleftrightarrow>
     (slot = PreWorkload \<and> requested \<in> {PreWorkload, BothPhases})
     \<or> (slot = PostWorkload \<and> requested \<in> {PostWorkload, BothPhases})"

definition cause_text :: "FailureCategory \<Rightarrow> string" where
  "cause_text c = (case c of
     WorkloadFailed \<Rightarrow> ''WorkloadFailed'' | TimedOut \<Rightarrow> ''TimedOut'' | CancelledByUser \<Rightarrow> ''Cancelled''
   | ResetFailed \<Rightarrow> ''ResetFailed'' | DrainFailed \<Rightarrow> ''DrainFailed'' | StartupFailed \<Rightarrow> ''StartupFailed''
   | TeardownFailed \<Rightarrow> ''TeardownFailed'' | TelemetryFailed \<Rightarrow> ''TelemetryFailed''
   | DiagnosticFailed \<Rightarrow> ''DiagnosticFailed'' | CorrectnessFailed \<Rightarrow> ''CorrectnessFailed'')"

definition failed_diagnostic :: "DiagnosticRequest \<Rightarrow> FailureCategory \<Rightarrow> DiagnosticOutput" where
  "failed_diagnostic q cause = \<lparr>do_raw_report = ''{}'', do_disposition = DiagFailed,
     do_producer = as_str (diag_source q), do_producer_version = [], do_executable_sha256 = [],
     do_machine_schema = [], do_report_status = to_ascii_lowercase (''executor_'' @ cause_text cause),
     do_probe_statuses = [], do_warnings = [''diagnostic executor '' @ cause_text cause],
     do_skipped_reason = None\<rparr>"

definition diagnostic_context :: "DiagnosticRequest \<Rightarrow> DiagnosticPhase \<Rightarrow> RuntimeBindings \<Rightarrow> DiagnosticContext" where
  "diagnostic_context q slot b = \<lparr>dc_diagnostic_id = as_str (diag_id q), dc_phase = slot,
     dc_target = as_str (diag_target q), dc_probes = diag_probes q, dc_required = diag_required q,
     dc_bindings = b, dc_timeout = duration_of (diag_timeout_ms q)\<rparr>"

definition EXECUTOR_GRACE :: nat where
  "EXECUTOR_GRACE = millis 5000"

text \<open>The state when an observed outcome of a required diagnostic is bad: an earlier failure
  stands in the slot after the workload.\<close>

definition required_diagnostic_failed ::
  "DiagnosticPhase \<Rightarrow> ExecutionStatus \<Rightarrow> FailureCategory \<Rightarrow> RunState \<Rightarrow> RunState" where
  "required_diagnostic_failed slot status cause st =
    (if slot = PreWorkload \<or> st_status st = RunCompleted then failed status cause st else st)"

definition staging_stop :: "BundleError \<Rightarrow> RunState \<Rightarrow> RunState" where
  "staging_stop e st = st \<lparr>st_staging_error := Some e, st_status := RunFailed\<rparr>"

definition observed_diagnostic ::
  "'w RunEnv \<Rightarrow> nat \<Rightarrow> nat \<Rightarrow> DiagnosticPhase \<Rightarrow> DiagnosticRequest \<Rightarrow> DiagnosticOutput \<Rightarrow> RunState
    \<Rightarrow> ('w, bool \<times> RunState) io" where
  "observed_diagnostic env origin index slot q out st =
    (let negative = (do_disposition out = DiagNegative \<or> do_disposition out = DiagFailed) in
     andthen (stage_diagnostic_record env q slot out st) (\<lambda>(result, st). case result of
       Err e \<Rightarrow> finish_and env origin index OutcomeFailed None False (staging_stop e st)
     | Ok _ \<Rightarrow>
         if negative \<and> diag_required q
         then finish_and env origin index OutcomeFailed (Some DiagnosticFailed) (slot \<noteq> PreWorkload)
           (required_diagnostic_failed slot RunInvalid DiagnosticFailed st)
         else finish_and env origin index
           (if do_disposition out = DiagFailed \<and> \<not> diag_required q then OutcomeFailed else OutcomeCompleted)
           None True st))"

definition broken_diagnostic ::
  "'w RunEnv \<Rightarrow> nat \<Rightarrow> nat \<Rightarrow> DiagnosticPhase \<Rightarrow> DiagnosticRequest \<Rightarrow> FailureCategory \<Rightarrow> RunState
    \<Rightarrow> ('w, bool \<times> RunState) io" where
  "broken_diagnostic env origin index slot q cause st =
     andthen (stage_diagnostic_record env q slot (failed_diagnostic q cause) st) (\<lambda>(result, st). case result of
       Err _ \<Rightarrow> finish_and env origin index OutcomeFailed None False
         (staging_stop (InvalidManifest ''diagnostic evidence staging failed'') st)
     | Ok _ \<Rightarrow>
         if diag_required q
         then finish_and env origin index (outcome_for cause) (Some cause) (slot \<noteq> PreWorkload)
           (required_diagnostic_failed slot (if cause = CancelledByUser then RunCancelled else RunInvalid) cause st)
         else finish_and env origin index OutcomeCompleted None True st)"

definition execute_diagnostic ::
  "'w RunEnv \<Rightarrow> nat \<Rightarrow> RuntimeBindings \<Rightarrow> DiagnosticPhase \<Rightarrow> DiagnosticRequest \<Rightarrow> RunState \<Rightarrow> ('w, bool \<times> RunState) io" where
  "execute_diagnostic env origin b slot q st =
     andthen (begin_phase env origin (if slot = PreWorkload then PhaseDiagnosticsPre else PhaseDiagnosticsPost)
         None None st) (\<lambda>(index, st).
       if as_str (diag_source q) \<notin> set (r_diagnostic_sources env)
       then finish_and env origin index OutcomeFailed None False
         (staging_stop (InvalidManifest ''diagnostic executor is not registered'') st)
       else
         andthen (ask (r_diagnostic env (as_str (diag_source q)) (diagnostic_context q slot b)
             (duration_of (diag_timeout_ms q) + EXECUTOR_GRACE))) (\<lambda>reply.
         andthen (case race_result reply of
             Ok out \<Rightarrow> observed_diagnostic env origin index slot q out st
           | Err cause \<Rightarrow> broken_diagnostic env origin index slot q cause st) (\<lambda>(go, st).
         if go then andthen (note_cancellation env st) (\<lambda>st. yields (True, st)) else yields (False, st))))"

definition run_one_diagnostic ::
  "'w RunEnv \<Rightarrow> nat \<Rightarrow> RuntimeBindings \<Rightarrow> DiagnosticPhase \<Rightarrow> DiagnosticRequest \<Rightarrow> RunState \<Rightarrow> ('w, bool \<times> RunState) io" where
  "run_one_diagnostic env origin b slot q st =
    (if \<not> diagnostic_applies slot (diag_phase q) then yields (True, st)
     else
       andthen (if slot \<noteq> PreWorkload then ask (h_cancelled (r_host env)) else yields False) (\<lambda>skip.
         if skip then yields (True, record_skipped_diagnostic env q slot ''skipped_due_to_cancellation'' st)
         else
           andthen (ask (h_cancelled (r_host env))) (\<lambda>cancelled.
             if cancelled
             then yields (False, record_skipped_diagnostic env q slot ''skipped_due_to_cancellation''
               (failed RunCancelled CancelledByUser st))
             else execute_diagnostic env origin b slot q st)))"

definition run_diagnostic_phase ::
  "'w RunEnv \<Rightarrow> nat \<Rightarrow> ResolvedPlan \<Rightarrow> RuntimeBindings \<Rightarrow> DiagnosticPhase \<Rightarrow> RunState \<Rightarrow> ('w, RunState) io" where
  "run_diagnostic_phase env origin rp b slot st =
     each_until (run_one_diagnostic env origin b slot) (rp_diagnostics rp) st"

section \<open>Correctness checks\<close>

definition security_context :: "SecurityCheckRequest \<Rightarrow> RuntimeBindings \<Rightarrow> CorrectnessContext" where
  "security_context q b = \<lparr>cc_check_id = as_str (sec_id q), cc_source = as_str (sec_source q),
     cc_target = as_str (sec_target q), cc_test_type = as_cli_str (sec_test_type q),
     cc_max_successful_bypasses = max_successful_bypasses q, cc_concurrency = count_get (sec_concurrency q),
     cc_timeout_ms = duration_get (sec_timeout_ms q), cc_bindings = b,
     cc_timeout = duration_of (sec_timeout_ms q), cc_http_corpus_request = None\<rparr>"

definition corpus_context :: "HttpCorpusCheckRequest \<Rightarrow> RuntimeBindings \<Rightarrow> CorrectnessContext" where
  "corpus_context q b = \<lparr>cc_check_id = as_str (corpus_id q), cc_source = as_str (corpus_source q),
     cc_target = as_str (corpus_target q), cc_test_type = ''http_observable'',
     cc_max_successful_bypasses = 0, cc_concurrency = 1,
     cc_timeout_ms = duration_get (corpus_timeout_ms q), cc_bindings = b,
     cc_timeout = duration_of (corpus_timeout_ms q), cc_http_corpus_request = Some q\<rparr>"

text \<open>An operational failure of a check.\<close>

definition correctness_cause :: "FailureCategory \<Rightarrow> FailureCategory" where
  "correctness_cause c = (if c = CancelledByUser \<or> c = TimedOut then c else CorrectnessFailed)"

definition broken_check ::
  "'w RunEnv \<Rightarrow> nat \<Rightarrow> nat \<Rightarrow> FailureCategory \<Rightarrow> RunState \<Rightarrow> ('w, bool \<times> RunState) io" where
  "broken_check env origin index cause st =
     finish_and env origin index (outcome_for cause) (Some (correctness_cause cause)) False
       (failed (if cause = CancelledByUser then RunCancelled else RunInvalid) (correctness_cause cause) st)"

definition begin_check ::
  "'w RunEnv \<Rightarrow> nat \<Rightarrow> string \<Rightarrow> string \<Rightarrow> CorrectnessContext
    \<Rightarrow> (nat \<Rightarrow> CorrectnessOutput \<Rightarrow> RunState \<Rightarrow> ('w, bool \<times> RunState) io) \<Rightarrow> RunState \<Rightarrow> ('w, bool \<times> RunState) io" where
  "begin_check env origin source missing context observed st =
     andthen (ask (h_cancelled (r_host env))) (\<lambda>cancelled.
       if cancelled then yields (False, failed RunCancelled CancelledByUser st)
       else andthen (begin_phase env origin PhaseCorrectness None None st) (\<lambda>(index, st).
         if source \<notin> set (r_correctness_sources env)
         then finish_and env origin index OutcomeFailed None False (staging_stop (InvalidManifest missing) st)
         else andthen (ask (r_correctness env source context (cc_timeout context + EXECUTOR_GRACE))) (\<lambda>reply.
           case race_result reply of
             Ok out \<Rightarrow> observed index out st
           | Err cause \<Rightarrow> broken_check env origin index cause st)))"

definition observed_security_check ::
  "'w RunEnv \<Rightarrow> nat \<Rightarrow> SecurityCheckRequest \<Rightarrow> nat \<Rightarrow> CorrectnessOutput \<Rightarrow> RunState \<Rightarrow> ('w, bool \<times> RunState) io" where
  "observed_security_check env origin q index out st =
     andthen (stage_correctness_record env q out st) (\<lambda>(result, st). case result of
       Err e \<Rightarrow> finish_and env origin index OutcomeFailed None False (staging_stop e st)
     | Ok _ \<Rightarrow> andthen (finish_phase env origin index OutcomeCompleted None st) (\<lambda>st.
         andthen (note_cancellation env st) (\<lambda>st. yields (True, st))))"

definition run_security_check ::
  "'w RunEnv \<Rightarrow> nat \<Rightarrow> RuntimeBindings \<Rightarrow> SecurityCheckRequest \<Rightarrow> RunState \<Rightarrow> ('w, bool \<times> RunState) io" where
  "run_security_check env origin b q =
     begin_check env origin (as_str (sec_source q)) ''correctness executor is not registered''
       (security_context q b) (observed_security_check env origin q)"

definition observed_corpus_check ::
  "'w RunEnv \<Rightarrow> nat \<Rightarrow> HttpCorpusCheckRequest \<Rightarrow> nat \<Rightarrow> CorrectnessOutput \<Rightarrow> RunState \<Rightarrow> ('w, bool \<times> RunState) io" where
  "observed_corpus_check env origin q index out st =
     andthen (stage_http_corpus_record env q out st) (\<lambda>(result, st). case result of
       Err e \<Rightarrow> finish_and env origin index OutcomeFailed None False (staging_stop e st)
     | Ok has_invalid \<Rightarrow> finish_and env origin index OutcomeCompleted None (\<not> has_invalid)
         (if has_invalid then failed RunInvalid CorrectnessFailed st else st))"

definition run_corpus_check ::
  "'w RunEnv \<Rightarrow> nat \<Rightarrow> RuntimeBindings \<Rightarrow> HttpCorpusCheckRequest \<Rightarrow> RunState \<Rightarrow> ('w, bool \<times> RunState) io" where
  "run_corpus_check env origin b q =
     begin_check env origin (as_str (corpus_source q)) ''HTTP corpus correctness executor is not registered''
       (corpus_context q b) (observed_corpus_check env origin q)"

definition run_correctness_phase ::
  "'w RunEnv \<Rightarrow> nat \<Rightarrow> ResolvedPlan \<Rightarrow> RuntimeBindings \<Rightarrow> RunState \<Rightarrow> ('w, RunState) io" where
  "run_correctness_phase env origin rp b st =
     andthen (each_until (run_security_check env origin b) (rp_security_checks rp) st) (\<lambda>st.
       each_until (run_corpus_check env origin b) (rp_http_corpus_checks rp) st)"

section \<open>Warmups\<close>

definition ordinals :: "nat \<Rightarrow> u32 list" where
  "ordinals n = map of_nat [1..<Suc n]"

definition run_warmup ::
  "'w RunEnv \<Rightarrow> nat \<Rightarrow> ResolvedPlan \<Rightarrow> PhaseConfig \<Rightarrow> RuntimeBindings \<Rightarrow> u32 \<Rightarrow> RunState \<Rightarrow> ('w, bool \<times> RunState) io" where
  "run_warmup env origin rp config b ordinal st =
     andthen (begin_phase env origin PhaseWarmup (Some ordinal) None st) (\<lambda>(index, st).
     andthen (execute_invocation env origin rp b (Warmup ordinal)
         (if rp_paired rp \<noteq> None then Some (effective_workload rp (warmup_arm ordinal)) else None)
         (warmup_timeout config) (drain_timeout config)) (\<lambda>invoked. case invoked of
       InvCompleted out elapsed _ \<Rightarrow>
         andthen (with_writer st (stage_warmup env ordinal elapsed None out (st_writer st))) (\<lambda>(result, st). case result of
           Ok _ \<Rightarrow> finish_and env origin index OutcomeCompleted None True st
         | Err e \<Rightarrow> finish_and env origin index OutcomeFailed None False (staging_stop e st))
     | InvFailure cause elapsed _ \<Rightarrow>
         (let cause = workload_failure cause in
          andthen (finish_phase env origin index (outcome_for cause) (Some cause) (failed (status_for cause) cause st)) (\<lambda>st.
          andthen (with_writer st (stage_warmup env ordinal elapsed (Some cause) no_output (st_writer st))) (\<lambda>(result, st).
            yields (False, case result of Ok _ \<Rightarrow> st | Err e \<Rightarrow> staging_failed e st))))))"

definition run_warmups ::
  "'w RunEnv \<Rightarrow> nat \<Rightarrow> ResolvedPlan \<Rightarrow> PhaseConfig \<Rightarrow> RuntimeBindings \<Rightarrow> RunState \<Rightarrow> ('w, RunState) io" where
  "run_warmups env origin rp config b st =
     each_until (run_warmup env origin rp config b) (ordinals (unat (warmup (rp_trials rp)))) st"

section \<open>Measured trials\<close>

record TrialSlot =
  slot_trial :: TrialId
  slot_arm :: "TrialArm option"
  slot_pair :: "u32 option"

definition result_of ::
  "TrialSlot \<Rightarrow> u64 \<Rightarrow> u64 \<Rightarrow> TrialExecutionStatus \<Rightarrow> TrialExecutionFailure option \<Rightarrow> TrialExecutionResult" where
  "result_of sl offset elapsed status failure = \<lparr>tr_schema_version = TRIAL_RESULT_SCHEMA_VERSION,
     tr_trial_id = slot_trial sl, tr_start_offset_ns = offset, tr_elapsed_ns = elapsed,
     tr_terminal_status = status, tr_failure_category = failure, tr_arm = slot_arm sl, tr_pair_id = slot_pair sl\<rparr>"

text \<open>Staging of a trial: its descriptor joins the manifest only when its evidence was staged.\<close>

definition keep_trial ::
  "'w RunEnv \<Rightarrow> ResolvedPlan \<Rightarrow> TrialSlot \<Rightarrow> TrialExecutionResult \<Rightarrow> WorkloadOutput \<Rightarrow> TrialTelemetry \<Rightarrow> RunState
    \<Rightarrow> ('w, (BundleError + unit) \<times> RunState) io" where
  "keep_trial env rp sl result out tel st =
     andthen (with_writer st (stage_trial env rp (slot_trial sl) result out tel (st_writer st))) (\<lambda>(r, st). case r of
       Ok (path, paths) \<Rightarrow> yields (Ok (), st \<lparr>st_trials := st_trials st @
         [\<lparr>trial_ident = slot_trial sl, trial_result = path, trial_artifacts = paths\<rparr>]\<rparr>)
     | Err e \<Rightarrow> yields (Err e, st))"

definition keep_failed_trial ::
  "'w RunEnv \<Rightarrow> ResolvedPlan \<Rightarrow> TrialSlot \<Rightarrow> TrialExecutionResult \<Rightarrow> TrialTelemetry \<Rightarrow> RunState
    \<Rightarrow> ('w, bool \<times> RunState) io" where
  "keep_failed_trial env rp sl result tel st =
     andthen (keep_trial env rp sl result no_output tel st) (\<lambda>(r, st).
       yields (False, case r of Ok _ \<Rightarrow> st | Err e \<Rightarrow> staging_failed e st))"

definition trial_unstarted ::
  "'w RunEnv \<Rightarrow> nat \<Rightarrow> ResolvedPlan \<Rightarrow> TrialSlot \<Rightarrow> TrialTelemetry \<Rightarrow> nat \<Rightarrow> RunState \<Rightarrow> ('w, bool \<times> RunState) io" where
  "trial_unstarted env origin rp sl no_tel index st =
     andthen (finish_phase env origin index OutcomeFailed (Some TelemetryFailed) (failed RunFailed TelemetryFailed st)) (\<lambda>st.
     andthen (since env origin) (\<lambda>elapsed.
       keep_failed_trial env rp sl (result_of sl (nanos elapsed) 0 TrialFailed (Some FailTelemetry)) no_tel st))"

definition trial_completed ::
  "'w RunEnv \<Rightarrow> nat \<Rightarrow> ResolvedPlan \<Rightarrow> TrialSlot \<Rightarrow> MetricWarning list \<Rightarrow> nat \<Rightarrow> WorkloadOutput \<Rightarrow> nat \<Rightarrow> u64
    \<Rightarrow> captured \<Rightarrow> RunState \<Rightarrow> ('w, bool \<times> RunState) io" where
  "trial_completed env origin rp sl warnings index out elapsed offset capt st =
    (let measurement = (case wo_measurement_elapsed out of None \<Rightarrow> elapsed | Some d \<Rightarrow> d) in
     if snd capt = [] then
       andthen (keep_trial env rp sl (result_of sl offset (nanos measurement) TrialCompleted None) out
           \<lparr>tt_outputs = fst capt, tt_warnings = warnings\<rparr> st) (\<lambda>(r, st). case r of
         Ok _ \<Rightarrow> finish_and env origin index OutcomeCompleted None True st
       | Err e \<Rightarrow> finish_and env origin index OutcomeFailed None False (staging_stop e st))
     else
       andthen (finish_phase env origin index OutcomeFailed (Some TelemetryFailed)
           (failed RunFailed TelemetryFailed
             (st \<lparr>st_cleanup_failures := st_cleanup_failures st @ snd capt\<rparr>))) (\<lambda>st.
         keep_failed_trial env rp sl (result_of sl offset (nanos elapsed) TrialFailed (Some FailTelemetry))
           \<lparr>tt_outputs = [], tt_warnings = warnings\<rparr> st))"

definition terminal_status :: "FailureCategory \<Rightarrow> TrialExecutionStatus" where
  "terminal_status c = (case c of TimedOut \<Rightarrow> TrialTimedOut | CancelledByUser \<Rightarrow> TrialCancelled | _ \<Rightarrow> TrialFailed)"

definition terminal_failure :: "FailureCategory \<Rightarrow> TrialExecutionFailure" where
  "terminal_failure c = (case c of TimedOut \<Rightarrow> FailTimedOut | CancelledByUser \<Rightarrow> FailCancelled | _ \<Rightarrow> FailWorkload)"

definition trial_failed ::
  "'w RunEnv \<Rightarrow> nat \<Rightarrow> ResolvedPlan \<Rightarrow> TrialSlot \<Rightarrow> MetricWarning list \<Rightarrow> nat \<Rightarrow> FailureCategory \<Rightarrow> nat \<Rightarrow> u64
    \<Rightarrow> captured \<Rightarrow> RunState \<Rightarrow> ('w, bool \<times> RunState) io" where
  "trial_failed env origin rp sl warnings index cause elapsed offset capt st =
    (let cause = workload_failure cause;
         st = st \<lparr>st_cleanup_failures := st_cleanup_failures st @ snd capt\<rparr> in
     andthen (finish_phase env origin index (outcome_for cause) (Some cause) (failed (status_for cause) cause st)) (\<lambda>st.
       keep_failed_trial env rp sl
         (result_of sl offset (nanos elapsed) (terminal_status cause) (Some (terminal_failure cause)))
         \<lparr>tt_outputs = [], tt_warnings = warnings\<rparr> st))"

definition measure_trial ::
  "'w RunEnv \<Rightarrow> nat \<Rightarrow> ResolvedPlan \<Rightarrow> PhaseConfig \<Rightarrow> TelemetryPlan \<Rightarrow> RuntimeBindings \<Rightarrow> TrialSlot \<Rightarrow> RunState
    \<Rightarrow> ('w, bool \<times> RunState) io" where
  "measure_trial env origin rp config tp b sl st =
     andthen (begin_phase env origin PhaseMeasured None (Some (slot_trial sl)) st) (\<lambda>(index, st).
     let warnings = disabled_telemetry_warnings tp in
     andthen (start_trial_telemetry env tp (slot_trial sl) (telemetry_timeout config)) (\<lambda>opened. case opened of
       Err _ \<Rightarrow> trial_unstarted env origin rp sl \<lparr>tt_outputs = [], tt_warnings = warnings\<rparr> index st
     | Ok started \<Rightarrow>
         andthen (execute_invocation env origin rp b (Measured (slot_trial sl) (slot_arm sl))
             (map_option (effective_workload rp) (slot_arm sl)) (measurement_timeout config) (drain_timeout config)) (\<lambda>invoked.
         andthen (stop_trial_telemetry env started (slot_trial sl) (telemetry_timeout config)) (\<lambda>capt.
           case invoked of
             InvCompleted out elapsed offset \<Rightarrow> trial_completed env origin rp sl warnings index out elapsed offset capt st
           | InvFailure cause elapsed offset \<Rightarrow> trial_failed env origin rp sl warnings index cause elapsed offset capt st))))"

definition reset_cause :: "FailureCategory \<Rightarrow> FailureCategory" where
  "reset_cause c = (if c = CancelledByUser \<or> c = TimedOut then c else ResetFailed)"

definition run_reset ::
  "'w RunEnv \<Rightarrow> nat \<Rightarrow> PhaseConfig \<Rightarrow> TrialId \<Rightarrow> RunState \<Rightarrow> ('w, bool \<times> RunState) io" where
  "run_reset env origin config t st = (case reset_binding config of
     None \<Rightarrow> yields (True, st)
   | Some r \<Rightarrow>
       andthen (begin_phase env origin PhaseReset None (Some t) st) (\<lambda>(index, st).
       andthen (ask (r_reset env (rb_target r) (rb_timeout r))) (\<lambda>reply. case race_result reply of
         Ok _ \<Rightarrow> finish_and env origin index OutcomeCompleted None True st
       | Err cause \<Rightarrow> (let cause = reset_cause cause in
           finish_and env origin index (outcome_for cause) (Some cause) False (failed (status_for cause) cause st)))))"

definition run_cooldown ::
  "'w RunEnv \<Rightarrow> nat \<Rightarrow> ResolvedPlan \<Rightarrow> TrialId \<Rightarrow> RunState \<Rightarrow> ('w, bool \<times> RunState) io" where
  "run_cooldown env origin rp t st = (case cooldown_ms (rp_trials rp) of
     None \<Rightarrow> yields (True, st)
   | Some d \<Rightarrow>
       andthen (begin_phase env origin PhaseCooldown None (Some t) st) (\<lambda>(index, st).
       andthen (ask (h_sleep_or_cancel (r_host env) (duration_of d))) (\<lambda>cancelled.
         if cancelled
         then finish_and env origin index OutcomeCancelled (Some CancelledByUser) False (failed RunCancelled CancelledByUser st)
         else finish_and env origin index OutcomeCompleted None True st)))"

definition between_trials ::
  "'w RunEnv \<Rightarrow> nat \<Rightarrow> ResolvedPlan \<Rightarrow> PhaseConfig \<Rightarrow> u32 \<Rightarrow> TrialId \<Rightarrow> RunState \<Rightarrow> ('w, bool \<times> RunState) io" where
  "between_trials env origin rp config number t st =
    (if number < count_get (measured (rp_trials rp)) \<and> st_status st = RunCompleted \<and> st_staging_error st = None
     then andthen (run_reset env origin config t st) (\<lambda>(go, st).
       if go then run_cooldown env origin rp t st else yields (False, st))
     else yields (True, st))"

definition trial_slot :: "ResolvedPlan \<Rightarrow> u32 \<Rightarrow> TrialId \<Rightarrow> TrialSlot" where
  "trial_slot rp number t = (case rp_paired rp of
     None \<Rightarrow> \<lparr>slot_trial = t, slot_arm = None, slot_pair = None\<rparr>
   | Some _ \<Rightarrow> (case paired_assignment number of (arm, pair) \<Rightarrow>
       \<lparr>slot_trial = t, slot_arm = Some arm, slot_pair = Some pair\<rparr>))"

definition run_trial ::
  "'w RunEnv \<Rightarrow> nat \<Rightarrow> ResolvedPlan \<Rightarrow> PhaseConfig \<Rightarrow> TelemetryPlan \<Rightarrow> RuntimeBindings \<Rightarrow> u32 \<Rightarrow> RunState
    \<Rightarrow> ('w, bool \<times> RunState) io" where
  "run_trial env origin rp config tp b number st =
     andthen (ask (h_cancelled (r_host env))) (\<lambda>cancelled.
       if cancelled then yields (False, failed RunCancelled CancelledByUser st)
       else (case TrialId_new number of
           Err e \<Rightarrow> yields (False, staging_failed e st)
         | Ok t \<Rightarrow>
             andthen (measure_trial env origin rp config tp b (trial_slot rp number t) st) (\<lambda>(go, st).
               if go then between_trials env origin rp config number t st else yields (False, st))))"

definition run_trials ::
  "'w RunEnv \<Rightarrow> nat \<Rightarrow> ResolvedPlan \<Rightarrow> PhaseConfig \<Rightarrow> TelemetryPlan \<Rightarrow> RuntimeBindings \<Rightarrow> RunState \<Rightarrow> ('w, RunState) io" where
  "run_trials env origin rp config tp b st =
     each_until (run_trial env origin rp config tp b)
       (ordinals (unat (count_get (measured (rp_trials rp))))) st"

end
