(* ===== verification/ExecuteRun.thy ===== *)
theory ExecuteRun
  imports RunPhases
begin

text \<open>
  \<open>execute_run_with_diagnostics\<close> of \<open>orchestration.rs\<close>: static and probing preflight, startup,
  the experimental phases, and the cleanup tail that drains the workload and the collectors,
  tears the services down, stages the evidence and publishes the bundle.
\<close>

section \<open>Startup and deferred probes\<close>

definition begin_startup :: "'w RunEnv \<Rightarrow> nat \<Rightarrow> RunState \<Rightarrow> ('w, nat \<times> RunState) io" where
  "begin_startup env origin st = begin_phase env origin PhaseStartup None None st"

definition startup_cancelled :: "'w RunEnv \<Rightarrow> nat \<Rightarrow> RunState \<Rightarrow> ('w, RunState) io" where
  "startup_cancelled env origin st =
     andthen (begin_startup env origin st) (\<lambda>(index, st).
       finish_phase env origin index OutcomeCancelled (Some CancelledByUser) (failed RunCancelled CancelledByUser st))"

definition startup_done :: "'w RunEnv \<Rightarrow> nat \<Rightarrow> nat \<Rightarrow> string list \<Rightarrow> RunState \<Rightarrow> ('w, RunState) io" where
  "startup_done env origin index started st =
     finish_phase env origin index OutcomeCompleted None
       (st \<lparr>st_started := started, st_services_started := (started \<noteq> [])\<rparr>)"

definition spawned_identities :: "LocalSession \<Rightarrow> string list" where
  "spawned_identities s = map event_identity (filter (\<lambda>e. event_kind e = Spawned) (events s))"

text \<open>The source asks for cancellation three times.\<close>

definition startup_broken ::
  "'w RunEnv \<Rightarrow> nat \<Rightarrow> nat \<Rightarrow> RunnerError \<Rightarrow> LocalSession \<Rightarrow> RunState \<Rightarrow> ('w, RunState) io" where
  "startup_broken env origin index e s st =
     andthen (ask (h_cancelled (r_host env))) (\<lambda>c1.
     andthen (ask (h_cancelled (r_host env))) (\<lambda>c2.
     andthen (ask (h_cancelled (r_host env))) (\<lambda>c3.
       let cause = (if c2 then CancelledByUser else StartupFailed) in
       finish_phase env origin index (if c3 then OutcomeCancelled else OutcomeFailed) (Some cause)
         (failed (if c1 then RunCancelled else RunFailed) cause
           (st \<lparr>st_started := spawned_identities s,
                st_cleanup_failures := st_cleanup_failures st @ error_cleanup e\<rparr>)))))"

definition run_startup ::
  "'w RunEnv \<Rightarrow> nat \<Rightarrow> LocalSession \<Rightarrow> RunState \<Rightarrow> ('w, LocalSession \<times> RunState) io" where
  "run_startup env origin s st =
     andthen (ask (h_cancelled (r_host env))) (\<lambda>cancelled.
       if cancelled then andthen (startup_cancelled env origin st) (\<lambda>st. yields (s, st))
       else andthen (begin_startup env origin st) (\<lambda>(index, st).
         andthen (startup (r_host env) s) (\<lambda>(result, s). case result of
           Ok started \<Rightarrow> andthen (startup_done env origin index started st) (\<lambda>st. yields (s, st))
         | Err e \<Rightarrow> andthen (startup_broken env origin index e s st) (\<lambda>st. yields (s, st)))))"

definition in_progress :: "RunState \<Rightarrow> bool" where
  "in_progress st \<longleftrightarrow> st_status st = RunCompleted \<and> st_staging_error st = None"

definition extend_telemetry :: "TelemetryPlan \<Rightarrow> TelemetryPlan \<Rightarrow> TelemetryPlan" where
  "extend_telemetry p q = p \<lparr>tp_active := tp_active p @ tp_active q, tp_disabled := tp_disabled p @ tp_disabled q\<rparr>"

definition deferred_probes ::
  "'w RunEnv \<Rightarrow> ResolvedPlan \<Rightarrow> PhaseConfig \<Rightarrow> TelemetryPlan \<Rightarrow> RunState \<Rightarrow> ('w, TelemetryPlan \<times> RunState) io" where
  "deferred_probes env rp config tp st =
    (if \<not> in_progress st then yields (tp, st)
     else andthen (ask (h_cancelled (r_host env))) (\<lambda>cancelled.
       andthen (if cancelled then yields no_telemetry_plan
           else preflight_telemetry env rp config AfterReadiness) (\<lambda>deferred.
         yields (extend_telemetry tp deferred,
           case tp_required_failure deferred of
             None \<Rightarrow> st
           | Some reason \<Rightarrow> (failed RunFailed TelemetryFailed st) \<lparr>st_telemetry_preflight_failure := Some reason\<rparr>))))"

section \<open>The experiment\<close>

definition while_in_progress :: "(RunState \<Rightarrow> ('w, RunState) io) \<Rightarrow> RunState \<Rightarrow> ('w, RunState) io" where
  "while_in_progress f st = (if in_progress st then f st else yields st)"

definition run_experiment ::
  "'w RunEnv \<Rightarrow> nat \<Rightarrow> ResolvedPlan \<Rightarrow> PhaseConfig \<Rightarrow> TelemetryPlan \<Rightarrow> RuntimeBindings \<Rightarrow> RunState \<Rightarrow> ('w, RunState) io" where
  "run_experiment env origin rp config tp b st =
     andthen (while_in_progress (run_diagnostic_phase env origin rp b PreWorkload) st) (\<lambda>st.
     andthen (while_in_progress (run_correctness_phase env origin rp b) st) (\<lambda>st.
     andthen (while_in_progress (run_warmups env origin rp config b) st) (\<lambda>st.
       while_in_progress (run_trials env origin rp config tp b) st)))"

section \<open>Cleanup\<close>

text \<open>A failed cleanup step becomes the primary failure only when nothing failed before.\<close>

definition cleanup_failed :: "ExecutionStatus \<Rightarrow> FailureCategory \<Rightarrow> RunState \<Rightarrow> RunState" where
  "cleanup_failed status cause st = (if st_status st = RunCompleted then failed status cause st else st)"

definition drain_cause :: "FailureCategory \<Rightarrow> FailureCategory" where
  "drain_cause c = (if c = CancelledByUser then CancelledByUser else DrainFailed)"

definition run_drain :: "'w RunEnv \<Rightarrow> nat \<Rightarrow> PhaseConfig \<Rightarrow> RunState \<Rightarrow> ('w, RunState) io" where
  "run_drain env origin config st =
     andthen (begin_phase env origin PhaseDrain None None st) (\<lambda>(index, st).
     andthen (ask (r_drain env (drain_timeout config))) (\<lambda>reply.
     andthen (case reply of
         Some (Ok _) \<Rightarrow> finish_phase env origin index OutcomeCompleted None st
       | Some (Err cause) \<Rightarrow> finish_phase env origin index OutcomeFailed (Some (drain_cause cause))
           (cleanup_failed (status_for (drain_cause cause)) (drain_cause cause) st)
       | None \<Rightarrow> finish_phase env origin index OutcomeTimedOut (Some TimedOut)
           (cleanup_failed RunFailed DrainFailed st))
       (note_cancellation env)))"

fun drain_collectors ::
  "'w RunEnv \<Rightarrow> nat \<Rightarrow> string list \<Rightarrow> CleanupFailure list \<Rightarrow> ('w, CleanupFailure list) io" where
  "drain_collectors env limit [] fs = yields fs"
| "drain_collectors env limit (source # sources) fs =
    (if collector_timing env source = None then drain_collectors env limit sources fs
     else andthen (ask (r_collector_drain env source limit)) (\<lambda>reply. drain_collectors env limit sources
       (case reply of
          Some (Ok _) \<Rightarrow> fs
        | _ \<Rightarrow> fs @ [\<lparr>cleanup_service = source, cleanup_reason = ''telemetry drain failed''\<rparr>])))"

definition run_telemetry_drain ::
  "'w RunEnv \<Rightarrow> nat \<Rightarrow> PhaseConfig \<Rightarrow> TelemetryPlan \<Rightarrow> RunState \<Rightarrow> ('w, RunState) io" where
  "run_telemetry_drain env origin config tp st =
    (if tp_active tp = [] then yields st
     else
       andthen (begin_phase env origin PhaseDrain None None st) (\<lambda>(index, st).
       andthen (drain_collectors env (drain_timeout config) (tp_active tp) []) (\<lambda>fs.
       andthen (if fs \<noteq> []
           then finish_phase env origin index OutcomeFailed (Some TelemetryFailed)
             (cleanup_failed RunFailed TelemetryFailed
               (st \<lparr>st_cleanup_failures := st_cleanup_failures st @ fs\<rparr>))
           else finish_phase env origin index OutcomeCompleted None st)
         (note_cancellation env))))"

definition run_post_diagnostics ::
  "'w RunEnv \<Rightarrow> nat \<Rightarrow> ResolvedPlan \<Rightarrow> RuntimeBindings \<Rightarrow> RunState \<Rightarrow> ('w, RunState) io" where
  "run_post_diagnostics env origin rp b st =
    (if st_services_started st then run_diagnostic_phase env origin rp b PostWorkload st else yields st)"

definition run_teardown ::
  "'w RunEnv \<Rightarrow> nat \<Rightarrow> LocalSession \<Rightarrow> RunState \<Rightarrow> ('w, string list \<times> LocalSession \<times> RunState) io" where
  "run_teardown env origin s st =
     andthen (begin_phase env origin PhaseTeardown None None st) (\<lambda>(index, st).
       if \<not> st_services_started st
       then andthen (finish_phase env origin index OutcomeCompleted None st) (\<lambda>st. yields ([], s, st))
       else
         andthen (session_shutdown (r_host env) s) (\<lambda>(rep, s).
         andthen (note_cancellation env
             (st \<lparr>st_cleanup_failures := st_cleanup_failures st @ shutdown_failures rep\<rparr>)) (\<lambda>st.
         andthen (if st_cleanup_failures st = []
             then finish_phase env origin index OutcomeCompleted None st
             else finish_phase env origin index OutcomeFailed (Some TeardownFailed)
               (cleanup_failed RunFailed TeardownFailed st)) (\<lambda>st.
           yields (stopped_order rep, s, st)))))"

definition run_cleanup ::
  "'w RunEnv \<Rightarrow> nat \<Rightarrow> ResolvedPlan \<Rightarrow> PhaseConfig \<Rightarrow> TelemetryPlan \<Rightarrow> LocalSession \<Rightarrow> RunState
    \<Rightarrow> ('w, string list \<times> LocalSession \<times> RunState) io" where
  "run_cleanup env origin rp config tp s st =
     andthen (run_drain env origin config st) (\<lambda>st.
     andthen (run_telemetry_drain env origin config tp st) (\<lambda>st.
     andthen (run_post_diagnostics env origin rp (bindings s) st) (\<lambda>st.
       run_teardown env origin s st)))"

section \<open>Evidence and publication\<close>

text \<open>A staging step runs only while no staging error stands; its error becomes the standing one.\<close>

definition stage_unless_failed :: "(BundleWriter \<Rightarrow> ('w, 'a) staging) \<Rightarrow> RunState \<Rightarrow> ('w, RunState) io" where
  "stage_unless_failed f st =
    (if st_staging_error st \<noteq> None then yields st
     else andthen (with_writer st (f (st_writer st))) (\<lambda>(result, st).
       yields (case result of Ok _ \<Rightarrow> st | Err e \<Rightarrow> staging_failed e st)))"

definition stage_evidence_of ::
  "'w RunEnv \<Rightarrow> ResolvedPlan \<Rightarrow> BundleError + RunEvidenceArtifact option \<Rightarrow> BundleWriter \<Rightarrow> ('w, unit) staging" where
  "stage_evidence_of env rp produced w = (case produced of
     Ok (Some e) \<Rightarrow>
       (case validate_run_evidence_contract env e (rp_network_path rp \<noteq> None) of
          Err x \<Rightarrow> reject x w
        | Ok _ \<Rightarrow> attempt (stage_run_evidence env e w) (\<lambda>_. accept ()))
   | Ok None \<Rightarrow>
       (if rp_network_path rp \<noteq> None
        then reject (InvalidManifest ''network-path plan did not produce required network-path evidence'') w
        else accept () w)
   | Err x \<Rightarrow> reject x w)"

definition stage_executor_evidence :: "'w RunEnv \<Rightarrow> ResolvedPlan \<Rightarrow> BundleWriter \<Rightarrow> ('w, unit) staging" where
  "stage_executor_evidence env rp w =
     andthen (ask (r_run_evidence env)) (\<lambda>produced. stage_evidence_of env rp produced w)"

text \<open>The logs are staged even when a staging error stands.\<close>

definition stage_logs :: "'w RunEnv \<Rightarrow> LocalSession \<Rightarrow> RunState \<Rightarrow> ('w, bool \<times> RunState) io" where
  "stage_logs env s st =
     andthen (with_writer st (stage_lifecycle_logs env s (st_writer st))) (\<lambda>(result, st). case result of
       Ok _ \<Rightarrow> yields (True, st)
     | Err e \<Rightarrow> yields (False, if st_staging_error st = None then staging_failed e st else st))"

definition stage_evidence ::
  "'w RunEnv \<Rightarrow> ResolvedPlan \<Rightarrow> string list \<Rightarrow> LocalSession \<Rightarrow> RunState \<Rightarrow> ('w, RunState) io" where
  "stage_evidence env rp stopped s st =
    (let outcome = \<lparr>outcome_started = st_started st, outcome_stopped_order = stopped,
           outcome_cleanup = st_cleanup_failures st\<rparr> in
     andthen (stage_logs env s (st \<lparr>st_started := []\<rparr>)) (\<lambda>(logged, st).
     andthen (if logged then stage_unless_failed (stage_lifecycle_metadata env s outcome) st else yields st) (\<lambda>st.
     andthen (stage_unless_failed (stage_runtime_topology env s) st) (\<lambda>st.
     andthen (stage_unless_failed (\<lambda>_. stage_diagnostics_index env rp st) st) (\<lambda>st.
     andthen (stage_unless_failed (\<lambda>_. stage_security_index env rp st) st) (\<lambda>st.
       stage_unless_failed (stage_executor_evidence env rp) st))))))"

definition run_finalization :: "'w RunEnv \<Rightarrow> nat \<Rightarrow> RunState \<Rightarrow> ('w, RunState) io" where
  "run_finalization env origin st =
     andthen (begin_phase env origin PhaseFinalization None None st) (\<lambda>(index, st).
     andthen (finish_phase env origin index OutcomeCompleted None st) (\<lambda>st.
       stage_unless_failed (stage_phase_artifacts env (st_phases st)) st))"

definition publish :: "'w RunEnv \<Rightarrow> ResolvedPlan \<Rightarrow> RunState \<Rightarrow> ('w, OrchestrationError + RunOutcome) io" where
  "publish env rp st = (case st_staging_error st of
     Some e \<Rightarrow> yields (Err (EvidenceError e (st_cleanup_failures st)))
   | None \<Rightarrow>
       andthen (ask (r_publish env)) (\<lambda>(published, now).
         yields (case finalize (r_sha env) (r_codec env) (r_encode_manifest env) published (st_writer st)
             (st_status st) None (rp_subject rp) (map (\<lambda>d. descriptor (snd d)) (rp_drivers rp))
             (st_trials st) None None now of
           Err e \<Rightarrow> Err (EvidenceError e (st_cleanup_failures st))
         | Ok r \<Rightarrow> Ok \<lparr>ro_execution_status = st_status st, ro_primary_failure = st_primary_failure st,
             ro_cleanup_failures = st_cleanup_failures st, ro_phases = st_phases st,
             ro_bundle_path = w_final_path (st_writer st), ro_manifest = rd_manifest r,
             ro_telemetry_preflight_failure = st_telemetry_preflight_failure st\<rparr>)))"

section \<open>The run\<close>

definition run_started ::
  "'w RunEnv \<Rightarrow> nat \<Rightarrow> ResolvedPlan \<Rightarrow> PhaseConfig \<Rightarrow> TelemetryPlan \<Rightarrow> LocalSession \<Rightarrow> RunState
    \<Rightarrow> ('w, LocalSession \<times> RunState) io" where
  "run_started env origin rp config tp s st =
     andthen (run_startup env origin s st) (\<lambda>(s, st).
     andthen (deferred_probes env rp config tp st) (\<lambda>(tp, st).
     andthen (run_experiment env origin rp config tp (bindings s) st) (\<lambda>st.
     andthen (run_cleanup env origin rp config tp s st) (\<lambda>(stopped, s, st).
     andthen (stage_evidence env rp stopped s st) (\<lambda>st.
     andthen (run_finalization env origin st) (\<lambda>st.
       yields (s, st)))))))"

definition unless_cancelled ::
  "'w RunEnv \<Rightarrow> OrchestrationError + unit \<Rightarrow> ('w, OrchestrationError + unit) io" where
  "unless_cancelled env check =
     andthen (ask (h_cancelled (r_host env))) (\<lambda>cancelled. yields (if cancelled then Ok () else check))"

text \<open>The probes before startup and the executors that must be registered.\<close>

definition early_preflight ::
  "'w RunEnv \<Rightarrow> ResolvedPlan \<Rightarrow> PhaseConfig \<Rightarrow> ('w, OrchestrationError + TelemetryPlan) io" where
  "early_preflight env rp config =
     andthen (ask (h_cancelled (r_host env))) (\<lambda>cancelled.
     andthen (if cancelled then yields no_telemetry_plan
         else preflight_telemetry env rp config BeforeStartup) (\<lambda>tp. case tp_required_failure tp of
       Some reason \<Rightarrow> yields (Err (TelemetryPreflight reason))
     | None \<Rightarrow>
         andthen (unless_cancelled env (preflight_diagnostics env rp)) (\<lambda>d. case d of
           Err e \<Rightarrow> yields (Err e)
         | Ok _ \<Rightarrow>
             andthen (unless_cancelled env (preflight_correctness env rp)) (\<lambda>c. case c of
               Err e \<Rightarrow> yields (Err e)
             | Ok _ \<Rightarrow> yields (Ok tp)))))"

definition execute_run_with_diagnostics ::
  "'w RunEnv \<Rightarrow> ResolvedPlan \<Rightarrow> BundleWriter \<Rightarrow> LocalSession
    \<Rightarrow> ('w, (OrchestrationError + RunOutcome) \<times> LocalSession) io" where
  "execute_run_with_diagnostics env rp w s =
    (case static_preflight env w (spawn_order s) rp of
       Err e \<Rightarrow> yields (Err e, s)
     | Ok config \<Rightarrow>
         andthen (ask (h_now (r_host env))) (\<lambda>origin.
         andthen (early_preflight env rp config) (\<lambda>early. case early of
           Err e \<Rightarrow> yields (Err e, s)
         | Ok tp \<Rightarrow>
             andthen (run_started env origin rp config tp s (RunState_new w)) (\<lambda>(s, st).
             andthen (publish env rp st) (\<lambda>result. yields (result, s))))))"

text \<open>The entry point without diagnostic and correctness executors.\<close>

definition execute_run ::
  "'w RunEnv \<Rightarrow> ResolvedPlan \<Rightarrow> BundleWriter \<Rightarrow> LocalSession
    \<Rightarrow> ('w, (OrchestrationError + RunOutcome) \<times> LocalSession) io" where
  "execute_run env = execute_run_with_diagnostics
     (env \<lparr>r_diagnostic_sources := [], r_correctness_sources := []\<rparr>)"

end
