(* ===== verification/Triples.thy ===== *)
theory Triples
  imports Host
begin

text \<open>
  Partial and total correctness of computations in one judgement: \<open>holds t P m\<close> says that every
  result of \<open>m\<close> satisfies \<open>P\<close>, and, when \<open>t\<close> is true, that \<open>m\<close> always gives one.  Proofs that
  follow the structure of a computation are done once for both.
\<close>

definition holds :: "bool \<Rightarrow> ('a \<Rightarrow> bool) \<Rightarrow> ('w, 'a) io \<Rightarrow> bool" where
  "holds t P m \<longleftrightarrow> always P m \<and> (t \<longrightarrow> returns m)"

named_theorems triple "rules of holds, by the structure of a computation"

lemma holds_yields [triple]: "P x \<Longrightarrow> holds t P (yields x)"
  by (simp add: holds_def always_yields returns_yields)

lemma holds_ask [triple]: "(\<And>x. P x) \<Longrightarrow> holds t P (ask f)"
  by (simp add: holds_def always_ask returns_ask)

lemma holds_andthen: "holds t Q m \<Longrightarrow> (\<And>x. Q x \<Longrightarrow> holds t P (f x)) \<Longrightarrow> holds t P (andthen m f)"
  unfolding holds_def by (blast intro: always_andthen returns_andthen_where)

lemma holds_ask_andthen [triple]: "(\<And>x. holds t P (f x)) \<Longrightarrow> holds t P (andthen (ask g) f)"
  by (rule holds_andthen [where Q = "\<lambda>x. True"]) (simp_all add: holds_ask)

lemma holds_mono: "holds t Q m \<Longrightarrow> (\<And>x. Q x \<Longrightarrow> P x) \<Longrightarrow> holds t P m"
  unfolding holds_def by (blast intro: always_mono)

lemma holds_True: "returns m \<Longrightarrow> holds t (\<lambda>x. True) m"
  by (simp add: holds_def always_True)

lemma holds_returns: "holds True P m \<Longrightarrow> returns m"
  by (simp add: holds_def)

lemma holds_always: "holds t P m \<Longrightarrow> always P m"
  by (simp add: holds_def)

lemma holds_conj: "holds t P m \<Longrightarrow> holds t Q m \<Longrightarrow> holds t (\<lambda>x. P x \<and> Q x) m"
  by (simp add: holds_def always_conj)

lemma holds_if [triple]:
  "(b \<Longrightarrow> holds t P m) \<Longrightarrow> (\<not> b \<Longrightarrow> holds t P n) \<Longrightarrow> holds t P (if b then m else n)"
  by simp

lemma returns_if: "(b \<Longrightarrow> returns m) \<Longrightarrow> (\<not> b \<Longrightarrow> returns n) \<Longrightarrow> returns (if b then m else n)"
  by simp

end
