(* ===== verification/RunSteps.thy ===== *)
theory RunSteps
  imports ExecuteRun Triples
begin

text \<open>
  What a run keeps, in one interface.  \<open>run_steps\<close> asks of a relation between states of a run that
  it admits the elementary updates of \<open>orchestration.rs\<close>: events, records, an end of the progress,
  and storing bytes in the writer.  Every part of a run but the keeping of a trial then stays in
  the relation; \<open>run_trial_steps\<close> adds trials.
\<close>

section \<open>The interface\<close>

locale run_steps =
  fixes env :: "'w RunEnv" and R :: "RunState \<Rightarrow> RunState \<Rightarrow> bool"
  assumes stays: "R st st"
    and joins: "R st1 st2 \<Longrightarrow> R st2 st3 \<Longrightarrow> R st1 st3"
    and events_change: "R st (st \<lparr>st_phases := es\<rparr>)"
    and records_change: "R st (st \<lparr>st_diagnostics := ds, st_correctness := cs\<rparr>)"
    and services_change: "R st (st \<lparr>st_started := names, st_services_started := up\<rparr>)"
    and progress_ends: "\<not> in_progress st' \<Longrightarrow> st_writer st' = st_writer st \<Longrightarrow> R st st'"
    and bytes_stored: "always (\<lambda>(r, w'). R (st \<lparr>st_writer := w\<rparr>) (st \<lparr>st_writer := w'\<rparr>))
      (put_bytes env path role media_type sensitivity bytes w)"

named_theorems run_step "parts of a run stay in the relation"

context run_steps
begin

abbreviation on :: "RunState \<Rightarrow> 'a \<times> RunState \<Rightarrow> bool" where
  "on st p \<equiv> R st (snd p)"

lemma ends:
  assumes "R st1 st2" and "\<not> in_progress st3" and "st_writer st3 = st_writer st2"
  shows "R st1 st3"
  by (rule joins [OF assms(1) progress_ends [OF assms(2,3)]])

lemma updates:
  assumes "R st1 st2"
  shows "R st1 (st2 \<lparr>st_phases := es\<rparr>)" "R st1 (st2 \<lparr>st_diagnostics := ds\<rparr>)"
    "R st1 (st2 \<lparr>st_correctness := cs\<rparr>)" "R st1 (st2 \<lparr>st_started := names\<rparr>)"
    "R st1 (st2 \<lparr>st_started := names, st_services_started := up\<rparr>)"
proof -
  show "R st1 (st2 \<lparr>st_phases := es\<rparr>)" by (rule joins [OF assms events_change])
  show "R st1 (st2 \<lparr>st_diagnostics := ds\<rparr>)"
    using joins [OF assms records_change [of st2 "st_correctness st2" ds]] by simp
  show "R st1 (st2 \<lparr>st_correctness := cs\<rparr>)"
    using joins [OF assms records_change [of st2 cs "st_diagnostics st2"]] by simp
  show "R st1 (st2 \<lparr>st_started := names\<rparr>)"
    using joins [OF assms services_change [of st2 "st_services_started st2" names]] by simp
  show "R st1 (st2 \<lparr>st_started := names, st_services_started := up\<rparr>)"
    by (rule joins [OF assms services_change])
qed

lemma stopped:
  assumes "R st1 st2"
  shows "s \<noteq> RunCompleted \<Longrightarrow> R st1 (failed s c st2)" "R st1 (staging_failed e st2)" "R st1 (staging_stop e st2)"
    "s \<noteq> RunCompleted \<Longrightarrow> R st1 (required_diagnostic_failed slot s c st2)"
  by (auto simp: required_diagnostic_failed_def intro!: ends [OF assms] assms
      simp: failed_def staging_failed_def staging_stop_def in_progress_def)

lemma not_completed: "status_for c \<noteq> RunCompleted" "RunFailed \<noteq> RunCompleted" "RunInvalid \<noteq> RunCompleted"
  "RunCancelled \<noteq> RunCompleted" "(if b then RunCancelled else RunInvalid) \<noteq> RunCompleted"
  "(if b then RunCancelled else RunFailed) \<noteq> RunCompleted"
  by (simp_all add: status_for_def)

section \<open>The timeline\<close>

lemma begin_on: "R a st \<Longrightarrow> always (on a) (begin_phase env origin k ordinal tr st)"
  unfolding begin_phase_def
  by (rule always_andthen_all) (simp add: Let_def always_yields updates)

lemma finish_on: "R a st \<Longrightarrow> always (R a) (finish_phase env origin i outcome failure st)"
  unfolding finish_phase_def
  by (auto simp: always_panics always_yields updates intro!: always_andthen_all)

lemma finish_and_on: "R a st \<Longrightarrow> always (on a) (finish_and env origin i outcome failure go st)"
  unfolding finish_and_def by (rule always_andthen [OF finish_on]) (simp_all add: always_yields)

lemma note_on: "R a st \<Longrightarrow> always (R a) (note_cancellation env st)"
  unfolding note_cancellation_def
  by (rule always_andthen_all) (simp add: always_yields stopped)

section \<open>Staging\<close>

definition stores :: "('w, 'a) staging \<Rightarrow> BundleWriter \<Rightarrow> bool" where
  "stores m w \<longleftrightarrow> (\<forall>st. always (\<lambda>(r, w'). R (st \<lparr>st_writer := w\<rparr>) (st \<lparr>st_writer := w'\<rparr>)) m)"

lemma stores_attempt:
  assumes "stores m w" and "\<And>x w'. stores (f x w') w'"
  shows "stores (attempt m f) w"
  unfolding stores_def attempt_def
proof (intro allI)
  fix st
  show "always (\<lambda>(r, w'). R (st \<lparr>st_writer := w\<rparr>) (st \<lparr>st_writer := w'\<rparr>))
      (andthen m (\<lambda>(r, w). case r of Inl e \<Rightarrow> yields (Inl e, w) | Inr x \<Rightarrow> f x w))"
  proof (rule always_andthen [where Q = "\<lambda>(r, w'). R (st \<lparr>st_writer := w\<rparr>) (st \<lparr>st_writer := w'\<rparr>)"])
    show "always (\<lambda>(r, w'). R (st \<lparr>st_writer := w\<rparr>) (st \<lparr>st_writer := w'\<rparr>)) m"
      using assms(1) by (simp add: stores_def)
    have "always (\<lambda>(r, w''). R (st \<lparr>st_writer := w\<rparr>) (st \<lparr>st_writer := w''\<rparr>)) (f x w')"
      if "R (st \<lparr>st_writer := w\<rparr>) (st \<lparr>st_writer := w'\<rparr>)" for x w'
    proof -
      have "always (\<lambda>(r, w''). R (st \<lparr>st_writer := w'\<rparr>) (st \<lparr>st_writer := w''\<rparr>)) (f x w')"
        using assms(2) by (auto simp: stores_def)
      then show ?thesis by (rule always_mono) (auto intro: joins [OF that])
    qed
    then show "case p of (r, w') \<Rightarrow> R (st \<lparr>st_writer := w\<rparr>) (st \<lparr>st_writer := w'\<rparr>) \<Longrightarrow>
        always (\<lambda>(r, w'). R (st \<lparr>st_writer := w\<rparr>) (st \<lparr>st_writer := w'\<rparr>))
          (case p of (r, w) \<Rightarrow> case r of Inl e \<Rightarrow> yields (Inl e, w) | Inr x \<Rightarrow> f x w)" for p
      by (auto simp: always_yields split: sum.split)
  qed
qed

lemma stores_small: "stores (reject e w) w" "stores (accept x w) w" "stores (lift_result r w) w"
  by (simp_all add: stores_def reject_def accept_def lift_result_def always_yields stays)

lemma stores_ask: "(\<And>x. stores (f x) w) \<Longrightarrow> stores (andthen (ask g) f) w"
  by (auto simp: stores_def intro: always_andthen_all)

lemma stores_put_bytes: "stores (put_bytes env path role media_type sensitivity bytes w) w"
  unfolding stores_def by (intro allI bytes_stored)

lemma stores_if: "(b \<Longrightarrow> stores m w) \<Longrightarrow> (\<not> b \<Longrightarrow> stores n w) \<Longrightarrow> stores (if b then m else n) w"
  by simp

lemmas store = stores_attempt stores_small stores_ask stores_put_bytes stores_if

lemma stores_put_artifact: "stores (put_artifact env text role media_type sensitivity bytes w) w"
  unfolding put_artifact_def by (auto intro!: store split: sum.split)

lemma stores_artifact_list: "stores (stage_artifact_list env base timed i as placed w) w"
proof (induction as arbitrary: i placed w)
  case (Cons x xs)
  then show ?case by (auto intro!: store stores_put_artifact)
qed (simp add: store)

lemma stores_workload: "stores (stage_workload_artifacts env base out timed w) w"
  unfolding stage_workload_artifacts_def by (intro store stores_artifact_list)

lemma stores_warmup: "stores (stage_warmup env ordinal elapsed failure out w) w"
  unfolding stage_warmup_def Let_def by (intro store stores_put_artifact stores_workload)

lemma stores_telemetry_artifacts: "stores (stage_telemetry_artifacts env base c i as acc w) w"
proof (induction as arbitrary: i acc w)
  case (Cons x xs)
  then show ?case by (auto intro!: store stores_put_artifact)
qed (simp add: store)

lemma stores_telemetry: "stores (stage_telemetry env base c outs acc w) w"
proof (induction outs arbitrary: c acc w)
  case (Cons x xs)
  then show ?case by (cases x) (auto intro!: store stores_telemetry_artifacts)
qed (simp add: store)

lemma stores_trial: "stores (stage_trial env rp tr result out tel w) w"
  unfolding stage_trial_def Let_def
  by (intro store stores_put_artifact stores_workload stores_telemetry)
    (auto intro!: store split: prod.split)

lemma stores_indexes:
  "stores (stage_diagnostics_index env rp st) (st_writer st)"
  "stores (stage_security_index env rp st) (st_writer st)"
  unfolding stage_diagnostics_index_def stage_security_index_def Let_def
  by (auto intro!: store stores_put_artifact split: list.split)

lemma stores_logs_of: "stores (stage_logs_of env s ids placed w) w"
proof (induction ids arbitrary: placed w)
  case (Cons x xs)
  have after: "stores (andthen m f) w" if "\<And>y. stores (f y) w" for m :: "('w, ServiceLogs option) io" and f
    using that by (auto simp: stores_def intro: always_andthen_all)
  show ?case
    unfolding stage_logs_of.simps Let_def
    by (rule after) (auto intro!: store stores_put_artifact Cons split: option.split)
qed (simp add: store)

lemma stores_lifecycle:
  "stores (stage_lifecycle_logs env s w) w" "stores (stage_lifecycle_metadata env s outcome w) w"
  "stores (stage_runtime_topology env s w) w" "stores (stage_phase_artifacts env es w) w"
  "stores (stage_run_evidence env e w) w"
  unfolding stage_lifecycle_logs_def stage_lifecycle_metadata_def stage_runtime_topology_def
    stage_phase_artifacts_def stage_run_evidence_def
  by (intro store stores_put_artifact stores_logs_of)+

lemma stores_executor_evidence: "stores (stage_executor_evidence env rp w) w"
  unfolding stage_executor_evidence_def stage_evidence_of_def
  by (auto intro!: store stores_lifecycle split: sum.split option.split)

lemma with_writer_on:
  assumes "stores m (st_writer st)" and "R a st"
  shows "always (on a) (with_writer st m)"
  unfolding with_writer_def
proof (rule always_andthen)
  have "always (\<lambda>(r, w'). R (st \<lparr>st_writer := st_writer st\<rparr>) (st \<lparr>st_writer := w'\<rparr>)) m"
    using assms(1) unfolding stores_def by blast
  then show "always (\<lambda>(r, w'). R st (st \<lparr>st_writer := w'\<rparr>)) m" by simp
qed (auto simp: always_yields intro: joins [OF assms(2)])

lemma stage_unless_failed_on:
  assumes "\<And>w. w = st_writer st \<Longrightarrow> stores (f w) w" and "R a st"
  shows "always (R a) (stage_unless_failed f st)"
  unfolding stage_unless_failed_def
  using assms by (auto simp: always_yields stopped intro!: always_andthen [OF with_writer_on] split: sum.split)

section \<open>Records\<close>

lemma records_on:
  assumes "R a st"
  shows "always (on a) (stage_diagnostic_record env q slot out st)"
    and "always (on a) (stage_correctness_record env sq out' st)"
    and "always (on a) (stage_http_corpus_record env hq out' st)"
proof -
  have put: "always (on a) (with_writer st (put_artifact env name role media_type sensitivity bytes (st_writer st)))"
    for name role media_type sensitivity bytes
    by (rule with_writer_on [OF stores_put_artifact assms])
  show "always (on a) (stage_diagnostic_record env q slot out st)"
    and "always (on a) (stage_correctness_record env sq out' st)"
    and "always (on a) (stage_http_corpus_record env hq out' st)"
    unfolding stage_diagnostic_record_def stage_correctness_record_def stage_http_corpus_record_def
    by (auto simp: always_yields updates assms intro!: always_andthen [OF put] split: sum.split option.split)
qed

lemma each_until_on:
  assumes "\<And>x st. R a st \<Longrightarrow> always (on a) (f x st)"
  shows "R a st \<Longrightarrow> always (R a) (each_until f xs st)"
proof (induction xs arbitrary: st)
  case (Cons x xs)
  show ?case
    unfolding each_until.simps
    by (rule always_andthen [OF assms [OF Cons.prems]]) (auto simp: Cons.IH always_yields)
qed (simp add: always_yields)

lemma execute_diagnostic_on:
  assumes "R a st"
  shows "always (on a) (execute_diagnostic env origin b slot q st)"
proof -
  have seen: "always (on a) (observed_diagnostic env origin i slot q out st')"
    and broke: "always (on a) (broken_diagnostic env origin i slot q cause st')" if "R a st'" for i out cause st'
    unfolding observed_diagnostic_def broken_diagnostic_def Let_def
    by (rule always_andthen [OF records_on(1) [OF that]];
        auto intro!: finish_and_on stopped simp: not_completed split: sum.split)+
  have going: "always (on a) (if go then andthen (note_cancellation env st') (\<lambda>st. yields (True, st)) else yields (False, st'))"
    if "R a st'" for go st'
    using that by (auto simp: always_yields intro!: always_andthen [OF note_on])
  have answered: "always (on a) (andthen (ask g) (\<lambda>reply. andthen (case race_result reply of
      Inl cause \<Rightarrow> broken_diagnostic env origin i slot q cause st' | Inr out \<Rightarrow> observed_diagnostic env origin i slot q out st')
      (\<lambda>(go, st). if go then andthen (note_cancellation env st) (\<lambda>st. yields (True, st)) else yields (False, st))))"
    if "R a st'" for i st' g
    by (rule always_andthen_all, rule always_andthen [where Q = "on a"])
      (auto simp: seen [OF that] broke [OF that] intro: going split: sum.split)
  show ?thesis
    unfolding execute_diagnostic_def
    by (rule always_andthen [OF begin_on [OF assms]])
      (auto intro!: finish_and_on stopped answered)
qed

lemma diagnostic_phase_on:
  assumes "R a st"
  shows "always (R a) (run_diagnostic_phase env origin rp b slot st)"
  unfolding run_diagnostic_phase_def
proof (rule each_until_on [OF _ assms])
  fix q st' assume r: "R a st'"
  show "always (on a) (run_one_diagnostic env origin b slot q st')"
    unfolding run_one_diagnostic_def record_skipped_diagnostic_def
    using r by (auto simp: always_yields updates stopped intro!: always_andthen_all execute_diagnostic_on)
qed

lemma begin_check_on:
  assumes "R a st" and "\<And>i out st'. R a st' \<Longrightarrow> always (on a) (observed i out st')"
  shows "always (on a) (begin_check env origin source missing c observed st)"
proof -
  have late: "always (on a) (if source \<notin> set (r_correctness_sources env)
         then finish_and env origin i OutcomeFailed None False (staging_stop (InvalidManifest missing) st')
         else andthen (ask (r_correctness env source c (cc_timeout c + EXECUTOR_GRACE))) (\<lambda>reply.
           case race_result reply of
             Inl cause \<Rightarrow> broken_check env origin i cause st' | Inr out \<Rightarrow> observed i out st'))" if "R a st'" for i st'
    using that by (auto simp: broken_check_def not_completed intro!: always_andthen_all finish_and_on stopped assms(2) split: sum.split)
  show ?thesis
    unfolding begin_check_def
    by (rule always_andthen_all)
      (auto simp: always_yields stopped assms(1) intro!: always_andthen [OF begin_on [OF assms(1)]] late)
qed

lemma correctness_phase_on:
  assumes "R a st"
  shows "always (R a) (run_correctness_phase env origin rp b st)"
proof -
  have sec: "always (on a) (run_security_check env origin b q st')" if "R a st'" for q st'
    unfolding run_security_check_def
  proof (rule begin_check_on [OF that])
    fix i out st'' assume r: "R a st''"
    show "always (on a) (observed_security_check env origin q i out st'')"
      unfolding observed_security_check_def
      by (rule always_andthen [OF records_on(2) [OF r]])
        (auto simp: always_yields stopped intro!: finish_and_on always_andthen [OF finish_on]
          always_andthen [OF note_on] split: sum.split)
  qed
  have corp: "always (on a) (run_corpus_check env origin b q st')" if "R a st'" for q st'
    unfolding run_corpus_check_def
  proof (rule begin_check_on [OF that])
    fix i out st'' assume r: "R a st''"
    show "always (on a) (observed_corpus_check env origin q i out st'')"
      unfolding observed_corpus_check_def
      by (rule always_andthen [OF records_on(3) [OF r]])
        (auto simp: stopped intro!: finish_and_on split: sum.split)
  qed
  show ?thesis
    unfolding run_correctness_phase_def
    by (rule always_andthen [OF each_until_on [OF sec assms]]) (auto intro: each_until_on corp)
qed

lemma warmup_on:
  assumes "R a st"
  shows "always (on a) (run_warmup env origin rp config b ordinal st)"
proof -
  have good: "always (on a) (andthen (with_writer st' (stage_warmup env ordinal elapsed None out (st_writer st'))) (\<lambda>(result, st). case result of
           Inl e \<Rightarrow> finish_and env origin i OutcomeFailed None False (staging_stop e st)
         | Inr _ \<Rightarrow> finish_and env origin i OutcomeCompleted None True st))" if "R a st'" for i elapsed out st'
    by (rule always_andthen [OF with_writer_on [OF stores_warmup that]])
      (auto simp: stopped intro!: finish_and_on split: sum.split)
  have bad: "always (on a) (andthen (finish_phase env origin i outcome f (failed (status_for cause) cause st')) (\<lambda>st.
          andthen (with_writer st (stage_warmup env ordinal elapsed (Some cause) no_output (st_writer st))) (\<lambda>(result, st).
            yields (False, case result of Inl e \<Rightarrow> staging_failed e st | Inr _ \<Rightarrow> st))))"
    if "R a st'" for i outcome f cause elapsed st'
    by (rule always_andthen [OF finish_on [OF stopped(1) [OF that not_completed(1)]]])
      (auto simp: always_yields stopped intro!: always_andthen [OF with_writer_on [OF stores_warmup]] split: sum.split)
  have invoked: "always (on a) (andthen (execute_invocation env origin rp b k override limit post) (\<lambda>invoked. case invoked of
       InvCompleted out elapsed _ \<Rightarrow>
         andthen (with_writer st' (stage_warmup env ordinal elapsed None out (st_writer st'))) (\<lambda>(result, st). case result of
           Inl e \<Rightarrow> finish_and env origin i OutcomeFailed None False (staging_stop e st)
         | Inr _ \<Rightarrow> finish_and env origin i OutcomeCompleted None True st)
     | InvFailure cause elapsed _ \<Rightarrow>
         (let cause = workload_failure cause in
          andthen (finish_phase env origin i (outcome_for cause) (Some cause) (failed (status_for cause) cause st')) (\<lambda>st.
          andthen (with_writer st (stage_warmup env ordinal elapsed (Some cause) no_output (st_writer st))) (\<lambda>(result, st).
            yields (False, case result of Inl e \<Rightarrow> staging_failed e st | Inr _ \<Rightarrow> st))))))"
    if "R a st'" for i st' k override limit post
    by (rule always_andthen_all) (auto simp: Let_def good [OF that] bad [OF that] split: InvocationResult.split)
  show ?thesis
    unfolding run_warmup_def
    by (rule always_andthen [OF begin_on [OF assms]]) (auto intro: invoked)
qed

lemma warmups_on: "R a st \<Longrightarrow> always (R a) (run_warmups env origin rp config b st)"
  unfolding run_warmups_def by (rule each_until_on [OF warmup_on])

end

end
