(* ===== verification/RunKeeps.thy ===== *)
theory RunKeeps
  imports RunSteps SessionProps
begin

text \<open>
  The interface of \<open>RunSteps\<close> for the outer parts of a run: startup, late probes, drains,
  teardown, evidence, and, for relations that admit new trials, the whole run.
\<close>

context run_steps
begin

section \<open>Startup\<close>

lemma startup_on:
  assumes "R a st"
  shows "always (on a) (run_startup env origin s st)"
proof -
  have begun: "always (on a) (begin_startup env origin st)"
    unfolding begin_startup_def by (rule begin_on [OF assms])
  have cancelled: "always (R a) (startup_cancelled env origin st)"
    unfolding startup_cancelled_def
    by (rule always_andthen [OF begun]) (auto intro!: finish_on stopped)
  have broken: "always (R a) (startup_broken env origin i e s' st')" if "R a st'" for i e s' st'
    unfolding startup_broken_def Let_def
    by (intro always_andthen_all finish_on ends [OF that]) (auto simp: failed_def in_progress_def)
  have going: "always (on a) (andthen (startup (r_host env) s) (\<lambda>(result, s). case result of
           Inl e \<Rightarrow> andthen (startup_broken env origin i e s st') (\<lambda>st. yields (s, st))
         | Inr started \<Rightarrow> andthen (startup_done env origin i started st') (\<lambda>st. yields (s, st))))"
    if "R a st'" for i st'
    using that by (intro always_andthen_all)
      (auto simp: always_yields startup_done_def intro!: always_andthen [OF broken] always_andthen [OF finish_on] updates(5)
        split: sum.split)
  show ?thesis
    unfolding run_startup_def
    by (rule always_andthen_all)
      (auto simp: always_yields intro!: always_andthen [OF cancelled] always_andthen [OF begun] going)
qed

lemma deferred_on:
  assumes "R a st"
  shows "always (on a) (deferred_probes env rp config tp st)"
  unfolding deferred_probes_def
  by (auto simp: always_yields assms failed_def in_progress_def intro!: always_andthen_all ends [OF assms]
      split: option.split)

section \<open>Reset and cooldown\<close>

lemma between_on:
  assumes "R a st"
  shows "always (on a) (between_trials env origin rp config number tr st)"
proof -
  have reset: "always (on a) (run_reset env origin config tr st)"
    unfolding run_reset_def Let_def
    by (auto simp: always_yields assms split: option.split intro!: always_andthen [OF begin_on [OF assms]])
      (auto intro!: always_andthen_all finish_and_on stopped simp: not_completed split: sum.split)
  have cool: "always (on a) (run_cooldown env origin rp tr st')" if "R a st'" for st'
    unfolding run_cooldown_def
    by (auto simp: always_yields that split: option.split intro!: always_andthen [OF begin_on [OF that]])
      (auto intro!: always_andthen_all finish_and_on stopped)
  show ?thesis
    unfolding between_trials_def
    by (auto simp: always_yields assms intro!: always_andthen [OF reset] cool)
qed

section \<open>Cleanup\<close>

lemma cleanup_failed_on: "R a st \<Longrightarrow> s \<noteq> RunCompleted \<Longrightarrow> R a (cleanup_failed s c st)"
  by (simp add: cleanup_failed_def stopped)

text \<open>Cleanup failures are recorded together with an end of the progress.\<close>

lemma cleanup_recorded_on:
  assumes "R a st" and "s \<noteq> RunCompleted"
  shows "R a (cleanup_failed s c (st \<lparr>st_cleanup_failures := fs\<rparr>))"
  by (rule ends [OF assms(1)]) (use assms(2) in \<open>auto simp: cleanup_failed_def failed_def in_progress_def\<close>)

lemma drain_on:
  assumes "R a st"
  shows "always (R a) (run_drain env origin config st)"
proof -
  have closed: "always (R a) (andthen (case reply of
         None \<Rightarrow> finish_phase env origin i OutcomeTimedOut (Some TimedOut) (cleanup_failed RunFailed DrainFailed st')
       | Some x \<Rightarrow> (case x of
           Inl cause \<Rightarrow> finish_phase env origin i OutcomeFailed (Some (drain_cause cause))
             (cleanup_failed (status_for (drain_cause cause)) (drain_cause cause) st')
         | Inr _ \<Rightarrow> finish_phase env origin i OutcomeCompleted None st')) (note_cancellation env))"
    if "R a st'" for reply :: "(FailureCategory + unit) option" and i st'
    by (rule always_andthen [where Q = "R a"])
      (auto intro!: finish_on cleanup_failed_on note_on simp: that not_completed split: option.split sum.split)
  show ?thesis
    unfolding run_drain_def
    by (rule always_andthen [OF begin_on [OF assms]]) (auto intro!: always_andthen_all closed)
qed

lemma telemetry_drain_on:
  assumes "R a st"
  shows "always (R a) (run_telemetry_drain env origin config tp st)"
proof -
  have closed: "always (R a) (andthen (if fs \<noteq> []
           then finish_phase env origin i OutcomeFailed (Some TelemetryFailed)
             (cleanup_failed RunFailed TelemetryFailed (st' \<lparr>st_cleanup_failures := st_cleanup_failures st' @ fs\<rparr>))
           else finish_phase env origin i OutcomeCompleted None st') (note_cancellation env))"
    if "R a st'" for fs i st'
    by (rule always_andthen [where Q = "R a"])
      (auto intro!: finish_on cleanup_recorded_on note_on simp: that)
  have "always (R a) (andthen (begin_phase env origin PhaseDrain None None st) (\<lambda>(i, st).
       andthen (drain_collectors env (drain_timeout config) (tp_active tp) []) (\<lambda>fs.
       andthen (if fs \<noteq> []
           then finish_phase env origin i OutcomeFailed (Some TelemetryFailed)
             (cleanup_failed RunFailed TelemetryFailed (st \<lparr>st_cleanup_failures := st_cleanup_failures st @ fs\<rparr>))
           else finish_phase env origin i OutcomeCompleted None st) (note_cancellation env))))"
    by (rule always_andthen [OF begin_on [OF assms]], clarify, rule always_andthen_all, rule closed) simp
  then show ?thesis by (simp add: run_telemetry_drain_def always_yields assms)
qed

lemma post_on: "R a st \<Longrightarrow> always (R a) (run_post_diagnostics env origin rp b st)"
  unfolding run_post_diagnostics_def by (simp add: diagnostic_phase_on always_yields)

lemma teardown_on:
  assumes "R a st"
  shows "always (\<lambda>(stopped_names, s', st'). R a st') (run_teardown env origin s st)"
proof -
  have closed: "always (\<lambda>(stopped_names, s', st'). R a st')
      (andthen (note_cancellation env (st' \<lparr>st_cleanup_failures := st_cleanup_failures st' @ fs\<rparr>)) (\<lambda>st.
         andthen (if st_cleanup_failures st = []
             then finish_phase env origin i OutcomeCompleted None st
             else finish_phase env origin i OutcomeFailed (Some TeardownFailed)
               (cleanup_failed RunFailed TeardownFailed st)) (\<lambda>st.
           yields (names, s', st))))"
    if r: "R a st'" for fs i names s' st'
  proof (rule always_andthen [where Q = "\<lambda>st2. R a (if st_cleanup_failures st2 = [] then st2 else cleanup_failed RunFailed TeardownFailed st2)"])
    show "always (\<lambda>st2. R a (if st_cleanup_failures st2 = [] then st2 else cleanup_failed RunFailed TeardownFailed st2))
        (note_cancellation env (st' \<lparr>st_cleanup_failures := st_cleanup_failures st' @ fs\<rparr>))"
    proof (cases "st_cleanup_failures st' @ fs = []")
      case True
      then have "st' \<lparr>st_cleanup_failures := st_cleanup_failures st' @ fs\<rparr> = st'" by (cases st') simp
      with note_on [OF r] show ?thesis
        by (auto elim!: always_mono intro!: cleanup_failed_on)
    next
      case False
      then show ?thesis
        unfolding note_cancellation_def
        by (intro always_andthen_all) (auto simp: always_yields failed_def cleanup_failed_def in_progress_def intro!: ends [OF r])
    qed
  next
    fix st2
    assume "R a (if st_cleanup_failures st2 = [] then st2 else cleanup_failed RunFailed TeardownFailed st2)"
    then show "always (\<lambda>(stopped_names, s', st'). R a st') (andthen (if st_cleanup_failures st2 = []
             then finish_phase env origin i OutcomeCompleted None st2
             else finish_phase env origin i OutcomeFailed (Some TeardownFailed)
               (cleanup_failed RunFailed TeardownFailed st2)) (\<lambda>st. yields (names, s', st)))"
      by (auto simp: always_yields intro!: always_andthen [OF finish_on] split: if_splits)
  qed
  have idle: "always (\<lambda>(stopped_names, s', st'). R a st')
      (andthen (finish_phase env origin i OutcomeCompleted None st') (\<lambda>st. yields ([], s, st)))" if "R a st'" for i st'
    by (rule always_andthen [OF finish_on [OF that]]) (simp add: always_yields)
  have stopping: "always (\<lambda>(stopped_names, s', st'). R a st')
      (andthen (session_shutdown (r_host env) s) (\<lambda>(rep, s).
         andthen (note_cancellation env
             (st' \<lparr>st_cleanup_failures := st_cleanup_failures st' @ shutdown_failures rep\<rparr>)) (\<lambda>st.
         andthen (if st_cleanup_failures st = []
             then finish_phase env origin i OutcomeCompleted None st
             else finish_phase env origin i OutcomeFailed (Some TeardownFailed)
               (cleanup_failed RunFailed TeardownFailed st)) (\<lambda>st.
           yields (stopped_order rep, s, st)))))" if "R a st'" for i st'
    by (rule always_andthen_all, clarify, rule closed [OF that])
  show ?thesis
    unfolding run_teardown_def
    by (rule always_andthen [OF begin_on [OF assms]]) (auto intro: idle stopping)
qed

lemma cleanup_on:
  assumes "R a st"
  shows "always (\<lambda>(stopped_names, s', st'). R a st') (run_cleanup env origin rp config tp s st)"
  unfolding run_cleanup_def
  by (rule always_andthen [OF drain_on [OF assms]], rule always_andthen [OF telemetry_drain_on], assumption,
      rule always_andthen [OF post_on], assumption, rule teardown_on)

section \<open>Evidence\<close>

lemma evidence_on:
  assumes "R a st"
  shows "always (R a) (stage_evidence env rp names s st)"
proof -
  have logged: "always (on a) (stage_logs env s st')" if "R a st'" for st'
    unfolding stage_logs_def
    by (rule always_andthen [OF with_writer_on [OF stores_lifecycle(1) that]])
      (auto simp: always_yields stopped split: sum.split)
  show ?thesis
    unfolding stage_evidence_def Let_def
    by (rule always_andthen [OF logged [OF updates(4) [OF assms]]])
      (auto simp: stores_lifecycle stores_indexes stores_executor_evidence
        intro!: always_andthen [where Q = "R a"] stage_unless_failed_on always_yields [THEN iffD2])
qed

lemma finalization_on: "R a st \<Longrightarrow> always (R a) (run_finalization env origin st)"
  unfolding run_finalization_def
  by (rule always_andthen [OF begin_on], assumption)
    (auto intro!: always_andthen [OF finish_on] stage_unless_failed_on stores_lifecycle)

end

end
