(* ===== verification/RunProps.thy ===== *)
theory RunProps
  imports ExecuteRun Triples SessionProps
begin

text \<open>
  The timeline of a run refines a state machine.  The abstract machine has one state per part of
  a run and moves by the kind of a phase; the events that a run records are numbered from zero,
  all closed, accepted by the machine up to its final state, and no more than the bound that is
  computed before the run starts.  The same proofs show that a run returns when its session does.
\<close>

section \<open>Loops\<close>

lemma holds_each_until:
  assumes step: "\<And>x ys s. I (x # ys) s \<Longrightarrow> holds t (\<lambda>(go, s'). if go then I ys s' else Q s') (f x s)"
    and stop: "\<And>s. I [] s \<Longrightarrow> Q s"
  shows "I xs s \<Longrightarrow> holds t Q (each_until f xs s)"
proof (induction xs arbitrary: s)
  case Nil
  then show ?case by (simp add: holds_yields stop)
next
  case (Cons x xs)
  show ?case
    unfolding each_until.simps
    by (rule holds_andthen [OF step [OF Cons.prems]]) (auto simp: Cons.IH holds_yields)
qed

section \<open>The abstract machine\<close>

datatype RunStage =
  Fresh | Started | PreChecked | Checked | Warmed | Measuring | Resetting | Cooling
| Draining | Drained | PostChecked | TornDown | Finalized

definition experimental :: "RunStage set" where
  "experimental = {Started, PreChecked, Checked, Warmed, Measuring, Resetting, Cooling}"

fun next_stage :: "RunStage \<Rightarrow> PhaseKind \<Rightarrow> RunStage option" where
  "next_stage s PhaseStartup = (if s = Fresh then Some Started else None)"
| "next_stage s PhaseDiagnosticsPre = (if s \<in> {Started, PreChecked} then Some PreChecked else None)"
| "next_stage s PhaseCorrectness = (if s \<in> {Started, PreChecked, Checked} then Some Checked else None)"
| "next_stage s PhaseWarmup = (if s \<in> {Started, PreChecked, Checked, Warmed} then Some Warmed else None)"
| "next_stage s PhaseMeasured = (if s \<in> experimental then Some Measuring else None)"
| "next_stage s PhaseReset = (if s = Measuring then Some Resetting else None)"
| "next_stage s PhaseCooldown = (if s \<in> {Measuring, Resetting} then Some Cooling else None)"
| "next_stage s PhaseDrain = (if s \<in> experimental then Some Draining
     else if s = Draining then Some Drained else None)"
| "next_stage s PhaseDiagnosticsPost = (if s \<in> {Draining, Drained, PostChecked} then Some PostChecked else None)"
| "next_stage s PhaseTeardown = (if s \<in> {Draining, Drained, PostChecked} then Some TornDown else None)"
| "next_stage s PhaseFinalization = (if s = TornDown then Some Finalized else None)"

definition run_stages :: "PhaseKind list \<Rightarrow> RunStage option" where
  "run_stages ks = foldl (\<lambda>s k. Option.bind s (\<lambda>x. next_stage x k)) (Some Fresh) ks"

definition moves :: "RunStage set \<Rightarrow> PhaseKind \<Rightarrow> RunStage set \<Rightarrow> bool" where
  "moves A k B \<longleftrightarrow> (\<forall>a \<in> A. \<exists>b \<in> B. next_stage a k = Some b)"

lemma run_stages_snoc: "run_stages (ks @ [k]) = Option.bind (run_stages ks) (\<lambda>x. next_stage x k)"
  by (simp add: run_stages_def)

section \<open>The timeline\<close>

text \<open>Events are numbered by their position and closed.\<close>

definition closed_log :: "PhaseEvent list \<Rightarrow> bool" where
  "closed_log es \<longleftrightarrow> (\<forall>i < length es. ph_sequence (es ! i) = nanos i
     \<and> ph_outcome (es ! i) \<noteq> None \<and> ph_elapsed_ns (es ! i) \<noteq> None)"

definition stage_in :: "RunStage set \<Rightarrow> PhaseEvent list \<Rightarrow> bool" where
  "stage_in A es \<longleftrightarrow> (\<exists>a \<in> A. run_stages (map ph_kind es) = Some a)"

text \<open>\<open>log_at n A r st\<close>: the timeline is closed, the machine is in \<open>A\<close>, and \<open>r\<close> more events fit in
  \<open>n\<close>.  \<open>log_open\<close> is the same with a last event of kind \<open>k\<close> at \<open>i\<close> that is still open.\<close>

definition log_at :: "nat \<Rightarrow> RunStage set \<Rightarrow> nat \<Rightarrow> RunState \<Rightarrow> bool" where
  "log_at n A r st \<longleftrightarrow> closed_log (st_phases st) \<and> stage_in A (st_phases st) \<and> length (st_phases st) + r \<le> n"

definition log_open :: "nat \<Rightarrow> RunStage set \<Rightarrow> PhaseKind \<Rightarrow> nat \<Rightarrow> nat \<Rightarrow> RunState \<Rightarrow> bool" where
  "log_open n A k r i st \<longleftrightarrow> (\<exists>es e. st_phases st = es @ [e] \<and> closed_log es \<and> stage_in A es
     \<and> length es + Suc r \<le> n \<and> i = length es \<and> ph_kind e = k \<and> ph_sequence e = nanos i)"

lemma log_at_weaken: "log_at n A r st \<Longrightarrow> A \<subseteq> B \<Longrightarrow> r' \<le> r \<Longrightarrow> log_at n B r' st"
  by (auto simp: log_at_def stage_in_def)

named_theorems log_simps "the timeline depends on the phases only"

lemma log_at_cong: "st_phases st' = st_phases st \<Longrightarrow> log_at n A r st' = log_at n A r st"
  by (simp add: log_at_def)

lemma log_open_cong: "st_phases st' = st_phases st \<Longrightarrow> log_open n A k r i st' = log_open n A k r i st"
  by (simp add: log_open_def)

lemma phases_of_updates [log_simps]:
  "st_phases (failed s c st) = st_phases st"
  "st_phases (staging_failed e st) = st_phases st"
  "st_phases (staging_stop e st) = st_phases st"
  "st_phases (required_diagnostic_failed slot s c st) = st_phases st"
  "st_phases (cleanup_failed s c st) = st_phases st"
  "st_phases (record_skipped_diagnostic env q slot reason st) = st_phases st"
  by (simp_all add: failed_def staging_failed_def staging_stop_def required_diagnostic_failed_def
      cleanup_failed_def record_skipped_diagnostic_def)

lemma log_of_updates:
  "st_phases st' = st_phases st \<Longrightarrow> log_at n A r st \<Longrightarrow> log_at n A r st'"
  "st_phases st' = st_phases st \<Longrightarrow> log_open n A k r i st \<Longrightarrow> log_open n A k r i st'"
  by (simp_all add: log_at_def log_open_def)

lemma holds_since [triple]: "(\<And>d. P d) \<Longrightarrow> holds t P (since env origin)"
  unfolding since_def by (intro triple)

lemma holds_begin_phase:
  assumes "log_at n A (Suc r) st"
  shows "holds t (\<lambda>(i, st'). log_open n A k r i st') (begin_phase env origin k ordinal trial st)"
  unfolding begin_phase_def
  by (rule holds_andthen [OF holds_since [where P = "\<lambda>d. True"]])
    (use assms in \<open>auto simp: Let_def log_open_def log_at_def new_event_def intro!: holds_yields\<close>)

lemma closed_log_snoc:
  "closed_log (es @ [e]) \<longleftrightarrow> closed_log es \<and> ph_sequence e = nanos (length es)
     \<and> ph_outcome e \<noteq> None \<and> ph_elapsed_ns e \<noteq> None"
  by (auto simp: closed_log_def nth_append less_Suc_eq)

lemma stage_in_snoc: "stage_in A es \<Longrightarrow> moves A (ph_kind e) B \<Longrightarrow> stage_in B (es @ [e])"
  by (fastforce simp: stage_in_def moves_def run_stages_snoc)

lemma holds_finish_phase:
  assumes "log_open n A k r i st" and "moves A k B"
  shows "holds t (log_at n B r) (finish_phase env origin i outcome failure st)"
proof -
  from assms(1) obtain es e where e: "st_phases st = es @ [e]" "closed_log es" "stage_in A es"
    "length es + Suc r \<le> n" "i = length es" "ph_kind e = k" "ph_sequence e = nanos i"
    by (auto simp: log_open_def)
  have "log_at n B r (st \<lparr>st_phases := (st_phases st) [i := close_event d outcome failure (st_phases st ! i)]\<rparr>)" for d
    using e assms(2) stage_in_snoc [of A es "close_event d outcome failure e" B]
    by (simp add: log_at_def closed_log_snoc close_event_def)
  then show ?thesis
    unfolding finish_phase_def using e
    by (auto intro!: holds_andthen [OF holds_since [where P = "\<lambda>d. True"]] holds_yields)
qed

lemma holds_finish_and:
  assumes "log_open n A k r i st" and "moves A k B" and "\<And>st'. log_at n B r st' \<Longrightarrow> P (go, st')"
  shows "holds t P (finish_and env origin i outcome failure go st)"
  unfolding finish_and_def
  by (rule holds_andthen [OF holds_finish_phase [OF assms(1,2)]]) (simp add: holds_yields assms(3))

lemma holds_note_cancellation:
  assumes "log_at n A r st"
  shows "holds t (log_at n A r) (note_cancellation env st)"
  unfolding note_cancellation_def
  by (intro triple) (use assms in \<open>auto intro: log_of_updates simp: log_simps\<close>)

section \<open>Staging returns and leaves the timeline alone\<close>

named_theorems ret "computations that always return"

declare returns_yields [ret] returns_ask [ret] returns_if [ret]

lemma ret_attempt [ret]: "returns m \<Longrightarrow> (\<And>a w. returns (f a w)) \<Longrightarrow> returns (attempt m f)"
  unfolding attempt_def by (intro returns_andthen) (auto intro: returns_yields split: sum.split)

lemma ret_small [ret]: "returns (reject e w)" "returns (accept a w)" "returns (lift_result r w)"
  by (simp_all add: reject_def accept_def lift_result_def returns_yields)

lemma ret_put_bytes [ret]: "returns (put_bytes env path role media_type sensitivity bytes w)"
  unfolding put_bytes_def
  by (intro returns_andthen returns_ask) (auto intro: returns_yields split: prod.split sum.split)

lemma ret_put_artifact [ret]: "returns (put_artifact env text role media_type sensitivity bytes w)"
  unfolding put_artifact_def by (auto intro!: ret split: sum.split)

lemma ret_artifact_list [ret]: "returns (stage_artifact_list env base timed i as placed w)"
  by (induction env base timed i as placed w rule: stage_artifact_list.induct) (auto intro!: ret)

lemma ret_workload_artifacts [ret]: "returns (stage_workload_artifacts env base out timed w)"
  unfolding stage_workload_artifacts_def by (intro ret)

lemma ret_warmup [ret]: "returns (stage_warmup env ordinal elapsed failure out w)"
  unfolding stage_warmup_def Let_def by (intro ret)

lemma ret_telemetry_artifacts [ret]: "returns (stage_telemetry_artifacts env base c i as acc w)"
  by (induction env base c i as acc w rule: stage_telemetry_artifacts.induct) (auto intro!: ret)

lemma ret_telemetry [ret]: "returns (stage_telemetry env base c outs acc w)"
  by (induction env base c outs acc w rule: stage_telemetry.induct) (auto intro!: ret)

lemma ret_trial [ret]: "returns (stage_trial env rp tr result out tel w)"
  unfolding stage_trial_def Let_def by (intro ret) (auto intro!: ret split: prod.split)

lemma ret_indexes [ret]:
  "returns (stage_diagnostics_index env rp st)" "returns (stage_security_index env rp st)"
  unfolding stage_diagnostics_index_def stage_security_index_def Let_def
  by (auto intro!: ret split: list.split)

lemma ret_logs [ret]: "returns (logs h identity s)"
  unfolding logs_def snapshot_of_def
  by (auto intro!: returns_andthen returns_ask returns_yields split: option.split RunningManagedService.split)

lemma ret_stage_logs_of [ret]: "returns (stage_logs_of env s ids placed w)"
proof (induction env s ids placed w rule: stage_logs_of.induct)
  case (2 env s identity ids placed w)
  then show ?case
    by (auto simp: Let_def intro!: returns_andthen [OF ret_logs] ret split: option.split)
qed (simp add: ret)

lemma ret_lifecycle [ret]:
  "returns (stage_lifecycle_logs env s w)" "returns (stage_lifecycle_metadata env s outcome w)"
  "returns (stage_runtime_topology env s w)" "returns (stage_phase_artifacts env es w)"
  "returns (stage_run_evidence env e w)"
  unfolding stage_lifecycle_logs_def stage_lifecycle_metadata_def stage_runtime_topology_def
    stage_phase_artifacts_def stage_run_evidence_def
  by (intro ret)+

lemma ret_executor_evidence [ret]: "returns (stage_executor_evidence env rp w)"
  unfolding stage_executor_evidence_def stage_evidence_of_def
  by (intro returns_andthen returns_ask) (auto intro!: ret split: sum.split option.split)

lemma holds_with_writer:
  assumes "returns m" and "\<And>r st'. st_phases st' = st_phases st \<Longrightarrow> P (r, st')"
  shows "holds t P (with_writer st m)"
  unfolding with_writer_def
  by (rule holds_andthen [OF holds_True [OF assms(1)]]) (auto intro!: holds_yields assms(2))

text \<open>What a step that leaves the timeline alone says: the result is any, the phases are the same.\<close>

abbreviation same_log :: "RunState \<Rightarrow> 'a \<times> RunState \<Rightarrow> bool" where
  "same_log st r \<equiv> st_phases (snd r) = st_phases st"

lemma with_writer_log: "returns m \<Longrightarrow> holds t (same_log st) (with_writer st m)"
  by (rule holds_with_writer) simp_all

lemma diagnostic_record_log: "holds t (same_log st) (stage_diagnostic_record env q slot out st)"
  unfolding stage_diagnostic_record_def
  by (auto intro!: holds_if holds_yields holds_andthen [OF with_writer_log] ret split: sum.split)

lemma correctness_record_log: "holds t (same_log st) (stage_correctness_record env q out st)"
  unfolding stage_correctness_record_def
  by (auto intro!: holds_if holds_yields holds_andthen [OF with_writer_log] ret split: sum.split option.split)

lemma corpus_record_log: "holds t (same_log st) (stage_http_corpus_record env q out st)"
  unfolding stage_http_corpus_record_def
  by (auto intro!: holds_if holds_yields holds_andthen [OF with_writer_log] ret split: sum.split option.split)

lemma keep_trial_log: "holds t (same_log st) (keep_trial env rp sl result out tel st)"
  unfolding keep_trial_def
  by (auto intro!: holds_yields holds_andthen [OF with_writer_log] ret split: sum.split)

lemma keep_failed_trial_log: "holds t (same_log st) (keep_failed_trial env rp sl result tel st)"
  unfolding keep_failed_trial_def
  by (auto intro!: holds_yields holds_andthen [OF keep_trial_log] simp: log_simps split: sum.split)

section \<open>Diagnostics and checks\<close>

abbreviation steps_to :: "nat \<Rightarrow> RunStage set \<Rightarrow> nat \<Rightarrow> bool \<times> RunState \<Rightarrow> bool" where
  "steps_to n B r p \<equiv> log_at n B r (snd p)"

lemma finish_steps:
  assumes "log_open n A k r i st" and "moves A k B" and "st_phases st' = st_phases st"
  shows "holds t (steps_to n B r) (finish_and env origin i outcome failure go st')"
  by (rule holds_finish_and [OF log_of_updates(2) [OF assms(3,1)] assms(2)]) simp

lemma observed_diagnostic_log:
  assumes "log_open n A k r i st" and "moves A k B"
  shows "holds t (steps_to n B r) (observed_diagnostic env origin i slot q out st)"
  unfolding observed_diagnostic_def Let_def
  by (rule holds_andthen [OF diagnostic_record_log])
    (auto intro!: holds_if finish_steps [OF assms] simp: log_simps split: sum.split)

lemma broken_diagnostic_log:
  assumes "log_open n A k r i st" and "moves A k B"
  shows "holds t (steps_to n B r) (broken_diagnostic env origin i slot q cause st)"
  unfolding broken_diagnostic_def
  by (rule holds_andthen [OF diagnostic_record_log])
    (auto intro!: holds_if finish_steps [OF assms] simp: log_simps split: sum.split)

lemma note_and_go:
  assumes "log_at n B r st"
  shows "holds t (steps_to n B r) (andthen (note_cancellation env st) (\<lambda>st. yields (go, st)))"
  by (rule holds_andthen [OF holds_note_cancellation [OF assms]]) (simp add: holds_yields)

lemma execute_diagnostic_log:
  assumes "log_at n A (Suc r) st" and "moves A (if slot = PreWorkload then PhaseDiagnosticsPre else PhaseDiagnosticsPost) B"
  shows "holds t (steps_to n B r) (execute_diagnostic env origin b slot q st)"
  unfolding execute_diagnostic_def
proof (rule holds_andthen [OF holds_begin_phase [OF assms(1)]], clarsimp)
  fix i st'
  assume op: "log_open n A (if slot = PreWorkload then PhaseDiagnosticsPre else PhaseDiagnosticsPost) r i st'"
  show "(as_str (diag_source q) \<notin> set (r_diagnostic_sources env) \<longrightarrow>
      holds t (steps_to n B r) (finish_and env origin i OutcomeFailed None False
        (staging_stop (InvalidManifest ''diagnostic executor is not registered'') st')))
    \<and> (as_str (diag_source q) \<in> set (r_diagnostic_sources env) \<longrightarrow>
      holds t (steps_to n B r) (andthen (ask (r_diagnostic env (as_str (diag_source q)) (diagnostic_context q slot b)
             (duration_of (diag_timeout_ms q) + EXECUTOR_GRACE))) (\<lambda>reply.
         andthen (case race_result reply of
             Inl cause \<Rightarrow> broken_diagnostic env origin i slot q cause st'
           | Inr out \<Rightarrow> observed_diagnostic env origin i slot q out st') (\<lambda>(go, st).
         if go then andthen (note_cancellation env st) (\<lambda>st. yields (True, st)) else yields (False, st)))))"
    by (intro conjI impI finish_steps [OF op assms(2)] holds_ask_andthen
        holds_andthen [where Q = "steps_to n B r"])
      (auto simp: log_simps intro!: observed_diagnostic_log [OF op assms(2)] broken_diagnostic_log [OF op assms(2)]
        note_and_go holds_yields split: sum.split)
qed

definition slot_count :: "DiagnosticPhase \<Rightarrow> DiagnosticRequest list \<Rightarrow> nat" where
  "slot_count slot qs = length (filter (\<lambda>q. diagnostic_applies slot (diag_phase q)) qs)"

lemma slot_counts:
  "slot_count PreWorkload (rp_diagnostics rp) + slot_count PostWorkload (rp_diagnostics rp) = diagnostic_execution_count rp"
proof -
  have "slot_count PreWorkload qs + slot_count PostWorkload qs
      = sum_list (map (\<lambda>q. if diag_phase q = BothPhases then 2 else 1) qs)" for qs
  proof (induction qs)
    case (Cons q qs)
    then show ?case by (cases "diag_phase q") (simp_all add: slot_count_def diagnostic_applies_def)
  qed (simp add: slot_count_def)
  then show ?thesis by (simp add: diagnostic_execution_count_def)
qed

lemma diagnostic_phase_log:
  assumes "log_at n B (r + slot_count slot (rp_diagnostics rp)) st"
    and m: "moves B (if slot = PreWorkload then PhaseDiagnosticsPre else PhaseDiagnosticsPost) B"
  shows "holds t (log_at n B r) (run_diagnostic_phase env origin rp b slot st)"
  unfolding run_diagnostic_phase_def
proof (rule holds_each_until [where I = "\<lambda>qs st. log_at n B (r + slot_count slot qs) st"])
  fix q qs s
  assume at: "log_at n B (r + slot_count slot (q # qs)) s"
  have later: "log_at n B (r + slot_count slot qs) s'" "log_at n B r s'"
    if "log_at n B (r + slot_count slot (q # qs)) s'" for s'
    by (rule log_at_weaken [OF that]; simp add: slot_count_def)+
  have "holds t (steps_to n B (r + slot_count slot qs)) (run_one_diagnostic env origin b slot q s)"
  proof (cases "diagnostic_applies slot (diag_phase q)")
    case False
    with later(1) [OF at] show ?thesis by (simp add: run_one_diagnostic_def holds_yields)
  next
    case True
    with at have at': "log_at n B (Suc (r + slot_count slot qs)) s" by (simp add: slot_count_def)
    have skip: "log_at n B (r + slot_count slot qs) s'" if "st_phases s' = st_phases s" for s'
      using log_of_updates(1) [OF that later(1) [OF at]] .
    have first: "holds t (\<lambda>x. True)
        (if slot \<noteq> PreWorkload then ask (h_cancelled (r_host env)) else yields False)"
      by (intro holds_if holds_ask holds_yields) simp_all
    have "run_one_diagnostic env origin b slot q s =
       andthen (if slot \<noteq> PreWorkload then ask (h_cancelled (r_host env)) else yields False) (\<lambda>skip.
         if skip then yields (True, record_skipped_diagnostic env q slot ''skipped_due_to_cancellation'' s)
         else
           andthen (ask (h_cancelled (r_host env))) (\<lambda>cancelled.
             if cancelled
             then yields (False, record_skipped_diagnostic env q slot ''skipped_due_to_cancellation''
               (failed RunCancelled CancelledByUser s))
             else execute_diagnostic env origin b slot q s))"
      using True by (simp only: run_one_diagnostic_def simp_thms if_False)
    then show ?thesis
      by (simp only:) (rule holds_andthen [OF first], intro holds_if holds_yields holds_ask_andthen,
        simp_all add: log_simps skip execute_diagnostic_log [OF at' m])
  qed
  then show "holds t (\<lambda>(go, s'). if go then log_at n B (r + slot_count slot qs) s' else log_at n B r s')
      (run_one_diagnostic env origin b slot q s)"
    by (rule holds_mono) (auto intro: log_at_weaken)
qed (use assms(1) in \<open>simp_all add: slot_count_def\<close>)

lemma begin_check_log:
  assumes at: "log_at n B (Suc r) st" and m: "moves B PhaseCorrectness B"
    and body: "\<And>i out st'. log_open n B PhaseCorrectness r i st' \<Longrightarrow> holds t (steps_to n B r) (observed i out st')"
  shows "holds t (steps_to n B r) (begin_check env origin source missing context observed st)"
proof -
  have skip: "log_at n B r s'" if "st_phases s' = st_phases st" for s'
    using log_at_weaken [OF log_of_updates(1) [OF that at]] by auto
  have run: "holds t (steps_to n B r) (if source \<notin> set (r_correctness_sources env)
         then finish_and env origin i OutcomeFailed None False (staging_stop (InvalidManifest missing) st')
         else andthen (ask (r_correctness env source context (cc_timeout context + EXECUTOR_GRACE))) (\<lambda>reply.
           case race_result reply of
             Inl cause \<Rightarrow> broken_check env origin i cause st'
           | Inr out \<Rightarrow> observed i out st'))" if op: "log_open n B PhaseCorrectness r i st'" for i st'
    unfolding broken_check_def
    by (intro holds_if holds_ask_andthen finish_steps [OF op m])
      (auto intro!: finish_steps [OF op m] body [OF op] simp: log_simps split: sum.split)
  show ?thesis
    unfolding begin_check_def
    by (intro holds_ask_andthen holds_if holds_yields holds_andthen [OF holds_begin_phase [OF at]])
      (auto intro: run simp: skip log_simps)
qed

lemma security_check_log:
  assumes "log_at n B (Suc r) st" and m: "moves B PhaseCorrectness B"
  shows "holds t (steps_to n B r) (run_security_check env origin b q st)"
  unfolding run_security_check_def
proof (rule begin_check_log [OF assms])
  fix i out st'
  assume op: "log_open n B PhaseCorrectness r i st'"
  have fin: "holds t (steps_to n B r) (andthen (finish_phase env origin i OutcomeCompleted None st2)
      (\<lambda>st. andthen (note_cancellation env st) (\<lambda>st. yields (True, st))))" if "st_phases st2 = st_phases st'" for st2
    by (rule holds_andthen [OF holds_finish_phase [OF log_of_updates(2) [OF that op] m]]) (rule note_and_go)
  show "holds t (steps_to n B r) (observed_security_check env origin q i out st')"
    unfolding observed_security_check_def
    by (rule holds_andthen [OF correctness_record_log])
      (auto intro!: finish_steps [OF op m] fin simp: log_simps split: sum.split)
qed

lemma corpus_check_log:
  assumes "log_at n B (Suc r) st" and m: "moves B PhaseCorrectness B"
  shows "holds t (steps_to n B r) (run_corpus_check env origin b q st)"
  unfolding run_corpus_check_def
proof (rule begin_check_log [OF assms])
  fix i out st'
  assume op: "log_open n B PhaseCorrectness r i st'"
  show "holds t (steps_to n B r) (observed_corpus_check env origin q i out st')"
    unfolding observed_corpus_check_def
    by (rule holds_andthen [OF corpus_record_log])
      (auto intro!: finish_steps [OF op m] simp: log_simps split: sum.split)
qed

text \<open>A loop whose body takes at most one event.\<close>

lemma counted_loop_log:
  fixes xs :: "'a list"
  assumes step: "\<And>x r st. log_at n B (Suc r) st \<Longrightarrow> holds t (steps_to n B r) (f x st)"
    and start: "log_at n B (r + length xs) st"
  shows "holds t (log_at n B r) (each_until f xs st)"
proof (rule holds_each_until [where I = "\<lambda>(ys :: 'a list) st. log_at n B (r + length ys) st"])
  fix y :: 'a and ys :: "'a list" and s
  assume "log_at n B (r + length (y # ys)) s"
  then have "holds t (steps_to n B (r + length ys)) (f y s)" by (intro step) simp
  then show "holds t (\<lambda>(go, s'). if go then log_at n B (r + length ys) s' else log_at n B r s') (f y s)"
    by (rule holds_mono) (auto intro: log_at_weaken)
qed (use start in simp_all)

lemma correctness_phase_log:
  assumes "log_at n B (r + length (rp_security_checks rp) + length (rp_http_corpus_checks rp)) st"
    and m: "moves B PhaseCorrectness B"
  shows "holds t (log_at n B r) (run_correctness_phase env origin rp b st)"
  unfolding run_correctness_phase_def
proof (rule holds_andthen [where Q = "log_at n B (r + length (rp_http_corpus_checks rp))"])
  show "holds t (log_at n B (r + length (rp_http_corpus_checks rp)))
      (each_until (run_security_check env origin b) (rp_security_checks rp) st)"
    by (rule counted_loop_log [OF security_check_log [OF _ m]])
      (use assms(1) in \<open>auto simp: ac_simps\<close>)
  show "log_at n B (r + length (rp_http_corpus_checks rp)) st' \<Longrightarrow>
      holds t (log_at n B r) (each_until (run_corpus_check env origin b) (rp_http_corpus_checks rp) st')" for st'
    by (rule counted_loop_log [OF corpus_check_log [OF _ m]])
qed

section \<open>Warmups and trials\<close>

lemma execute_invocation_returns [ret]: "returns (execute_invocation env origin rp b k override limit post)"
  unfolding execute_invocation_def
  by (intro returns_andthen returns_ask)
    (auto simp: Let_def intro!: returns_andthen returns_ask returns_yields split: prod.split option.split sum.split)

lemma ret_stop_opened [ret]: "returns (stop_opened env limit tr opened)"
  by (induction env limit tr opened rule: stop_opened.induct) (auto intro!: returns_andthen ret)

lemma ret_start_sources [ret]: "returns (start_sources env limit tr sources opened)"
  by (induction env limit tr sources opened rule: start_sources.induct)
    (auto intro!: returns_andthen ret split: sum.split)

lemma ret_stop_sources [ret]: "returns (stop_sources env limit tr sources acc)"
  by (induction env limit tr sources acc rule: stop_sources.induct) (auto intro!: returns_andthen ret)

lemma ret_telemetry_window [ret]:
  "returns (start_trial_telemetry env p tr limit)" "returns (stop_trial_telemetry env started tr limit)"
  by (simp_all add: start_trial_telemetry_def stop_trial_telemetry_def ret)

lemma holds_after:
  assumes "returns m" and "\<And>x. holds t P (f x)"
  shows "holds t P (andthen m f)"
  by (rule holds_andthen [OF holds_True [OF assms(1)]]) (rule assms(2))

lemma run_warmup_log:
  assumes at: "log_at n B (Suc r) st" and m: "moves B PhaseWarmup B"
  shows "holds t (steps_to n B r) (run_warmup env origin rp config b ordinal st)"
  unfolding run_warmup_def
proof (rule holds_andthen [OF holds_begin_phase [OF at]], clarify)
  fix i st'
  assume op: "log_open n B PhaseWarmup r i st'"
  have done_: "holds t (steps_to n B r) (andthen (with_writer st' (stage_warmup env ordinal elapsed None out (st_writer st')))
      (\<lambda>(result, st). case result of
           Inl e \<Rightarrow> finish_and env origin i OutcomeFailed None False (staging_stop e st)
         | Inr _ \<Rightarrow> finish_and env origin i OutcomeCompleted None True st))" for elapsed out
    by (rule holds_andthen [OF with_writer_log [OF ret_warmup]])
      (auto intro!: finish_steps [OF op m] simp: log_simps split: sum.split)
  have bad: "holds t (steps_to n B r) (andthen (finish_phase env origin i (outcome_for cause) (Some cause)
        (failed (status_for cause) cause st')) (\<lambda>st.
          andthen (with_writer st (stage_warmup env ordinal elapsed (Some cause) no_output (st_writer st))) (\<lambda>(result, st).
            yields (False, case result of Inl e \<Rightarrow> staging_failed e st | Inr _ \<Rightarrow> st))))" for cause elapsed
    by (rule holds_andthen [OF holds_finish_phase [OF log_of_updates(2) [OF _ op] m]])
      (auto intro!: holds_andthen [OF with_writer_log [OF ret_warmup]] holds_yields
        simp: log_simps log_at_def split: sum.split)
  show "holds t (steps_to n B r) (andthen (execute_invocation env origin rp b (Warmup ordinal)
         (if rp_paired rp \<noteq> None then Some (effective_workload rp (warmup_arm ordinal)) else None)
         (warmup_timeout config) (drain_timeout config)) (\<lambda>invoked. case invoked of
       InvCompleted out elapsed _ \<Rightarrow>
         andthen (with_writer st' (stage_warmup env ordinal elapsed None out (st_writer st'))) (\<lambda>(result, st). case result of
           Inl e \<Rightarrow> finish_and env origin i OutcomeFailed None False (staging_stop e st)
         | Inr _ \<Rightarrow> finish_and env origin i OutcomeCompleted None True st)
     | InvFailure cause elapsed _ \<Rightarrow>
         (let cause = workload_failure cause in
          andthen (finish_phase env origin i (outcome_for cause) (Some cause) (failed (status_for cause) cause st')) (\<lambda>st.
          andthen (with_writer st (stage_warmup env ordinal elapsed (Some cause) no_output (st_writer st))) (\<lambda>(result, st).
            yields (False, case result of Inl e \<Rightarrow> staging_failed e st | Inr _ \<Rightarrow> st))))))"
    by (rule holds_after [OF execute_invocation_returns])
      (auto simp: Let_def done_ bad split: InvocationResult.split)
qed

lemma moves_trial:
  "moves experimental PhaseMeasured {Measuring}" "moves {Measuring} PhaseReset {Resetting}"
  "moves {Measuring, Resetting} PhaseCooldown {Cooling}"
  "moves {Started} PhaseDiagnosticsPre {Started, PreChecked}"
  by (simp_all add: moves_def experimental_def)

lemma finish_log:
  assumes "log_open n A k r i st" and "moves A k B" and "st_phases st' = st_phases st"
  shows "holds t (log_at n B r) (finish_phase env origin i outcome failure st')"
  by (rule holds_finish_phase [OF log_of_updates(2) [OF assms(3,1)] assms(2)])

lemma keep_failed_steps:
  assumes "log_at n B r st"
  shows "holds t (steps_to n B r) (keep_failed_trial env rp sl result tel st)"
  by (rule holds_mono [OF keep_failed_trial_log]) (use assms in \<open>simp add: log_at_def\<close>)

lemma trial_outcome_log:
  assumes op: "log_open n A k r i st" and m: "moves A k B"
  shows "holds t (steps_to n B r) (trial_unstarted env origin rp sl no_tel i st)"
    and "holds t (steps_to n B r) (trial_completed env origin rp sl warnings i out elapsed offset capt st)"
    and "holds t (steps_to n B r) (trial_failed env origin rp sl warnings i cause elapsed offset capt st)"
proof -
  show "holds t (steps_to n B r) (trial_unstarted env origin rp sl no_tel i st)"
    unfolding trial_unstarted_def
    by (rule holds_andthen [OF finish_log [OF op m]], simp add: log_simps,
        rule holds_andthen [OF holds_since [where P = "\<lambda>d. True"]]) (simp_all add: keep_failed_steps)
  show "holds t (steps_to n B r) (trial_failed env origin rp sl warnings i cause elapsed offset capt st)"
    unfolding trial_failed_def Let_def
    by (rule holds_andthen [OF finish_log [OF op m]]) (simp_all add: log_simps keep_failed_steps)
  have good: "holds t (steps_to n B r) (andthen (keep_trial env rp sl result out tel st) (\<lambda>(x, st). case x of
         Inl e \<Rightarrow> finish_and env origin i OutcomeFailed None False (staging_stop e st)
       | Inr _ \<Rightarrow> finish_and env origin i OutcomeCompleted None True st))" for result tel
    by (rule holds_andthen [OF keep_trial_log])
      (auto intro!: finish_steps [OF op m] simp: log_simps split: sum.split)
  have bad: "holds t (steps_to n B r) (andthen (finish_phase env origin i OutcomeFailed (Some TelemetryFailed)
           (failed RunFailed TelemetryFailed (st \<lparr>st_cleanup_failures := cs\<rparr>))) (\<lambda>st.
         keep_failed_trial env rp sl result tel st))" for cs result tel
    by (rule holds_andthen [OF finish_log [OF op m]]) (simp_all add: log_simps keep_failed_steps)
  show "holds t (steps_to n B r) (trial_completed env origin rp sl warnings i out elapsed offset capt st)"
    unfolding trial_completed_def Let_def by (intro holds_if good bad)
qed

lemma measure_trial_log:
  assumes "log_at n experimental (Suc r) st"
  shows "holds t (steps_to n {Measuring} r) (measure_trial env origin rp config tp b sl st)"
proof -
  have run: "holds t (steps_to n {Measuring} r)
      (andthen (start_trial_telemetry env tp (slot_trial sl) (telemetry_timeout config)) (\<lambda>opened. case opened of
       Inl _ \<Rightarrow> trial_unstarted env origin rp sl \<lparr>tt_outputs = [], tt_warnings = disabled_telemetry_warnings tp\<rparr> i st'
     | Inr started \<Rightarrow>
         andthen (execute_invocation env origin rp b (Measured (slot_trial sl) (slot_arm sl))
             (map_option (effective_workload rp) (slot_arm sl)) (measurement_timeout config) (drain_timeout config)) (\<lambda>invoked.
         andthen (stop_trial_telemetry env started (slot_trial sl) (telemetry_timeout config)) (\<lambda>capt.
           case invoked of
             InvCompleted out elapsed offset \<Rightarrow> trial_completed env origin rp sl (disabled_telemetry_warnings tp) i out elapsed offset capt st'
           | InvFailure cause elapsed offset \<Rightarrow> trial_failed env origin rp sl (disabled_telemetry_warnings tp) i cause elapsed offset capt st'))))"
    if op: "log_open n experimental PhaseMeasured r i st'" for i st'
    by (rule holds_after [OF ret_telemetry_window(1)])
      (auto intro!: trial_outcome_log [OF op moves_trial(1)] holds_after [OF execute_invocation_returns]
        holds_after [OF ret_telemetry_window(2)] split: sum.split InvocationResult.split)
  show ?thesis
    unfolding measure_trial_def Let_def
    by (rule holds_andthen [OF holds_begin_phase [OF assms]]) (auto intro: run)
qed

lemma run_reset_log:
  assumes "log_at n {Measuring} (Suc r) st"
  shows "holds t (steps_to n {Measuring, Resetting} r) (run_reset env origin config tr st)"
proof (cases "reset_binding config")
  case None
  have "log_at n {Measuring, Resetting} r st" by (rule log_at_weaken [OF assms]) simp_all
  with None show ?thesis by (simp add: run_reset_def holds_yields)
next
  case (Some rb)
  have m: "moves {Measuring} PhaseReset {Measuring, Resetting}" by (simp add: moves_def)
  have "holds t (steps_to n {Measuring, Resetting} r)
      (andthen (ask (r_reset env (rb_target rb) (rb_timeout rb))) (\<lambda>reply. case race_result reply of
         Inl cause \<Rightarrow> (let cause = reset_cause cause in
           finish_and env origin i (outcome_for cause) (Some cause) False (failed (status_for cause) cause st'))
       | Inr _ \<Rightarrow> finish_and env origin i OutcomeCompleted None True st'))"
    if op: "log_open n {Measuring} PhaseReset r i st'" for i st'
    by (intro holds_ask_andthen)
      (auto simp: Let_def log_simps intro!: finish_steps [OF op m] split: sum.split)
  with Some show ?thesis
    unfolding run_reset_def
    by (auto intro!: holds_andthen [OF holds_begin_phase [OF assms]])
qed

lemma run_cooldown_log:
  assumes "log_at n {Measuring, Resetting} (Suc r) st"
  shows "holds t (steps_to n {Measuring, Resetting, Cooling} r) (run_cooldown env origin rp tr st)"
proof (cases "cooldown_ms (rp_trials rp)")
  case None
  have "log_at n {Measuring, Resetting, Cooling} r st" by (rule log_at_weaken [OF assms]) auto
  with None show ?thesis by (simp add: run_cooldown_def holds_yields)
next
  case (Some d)
  have m: "moves {Measuring, Resetting} PhaseCooldown {Measuring, Resetting, Cooling}" by (simp add: moves_def)
  have "holds t (steps_to n {Measuring, Resetting, Cooling} r)
      (andthen (ask (h_sleep_or_cancel (r_host env) (duration_of d))) (\<lambda>cancelled.
         if cancelled
         then finish_and env origin i OutcomeCancelled (Some CancelledByUser) False (failed RunCancelled CancelledByUser st')
         else finish_and env origin i OutcomeCompleted None True st'))"
    if op: "log_open n {Measuring, Resetting} PhaseCooldown r i st'" for i st'
    by (intro holds_ask_andthen holds_if finish_steps [OF op m]) (simp_all add: log_simps)
  with Some show ?thesis
    unfolding run_cooldown_def
    by (auto intro!: holds_andthen [OF holds_begin_phase [OF assms]])
qed

definition trial_events :: "ResolvedPlan \<Rightarrow> u32 \<Rightarrow> nat" where
  "trial_events rp number = (if number < count_get (measured (rp_trials rp)) then 3 else 1)"

lemma run_trial_log:
  assumes "log_at n experimental (r + trial_events rp number) st"
  shows "holds t (steps_to n experimental r) (run_trial env origin rp config tp b number st)"
proof -
  have later: "log_at n experimental r s'" if "st_phases s' = st_phases st" for s'
    by (rule log_at_weaken [OF log_of_updates(1) [OF that assms]]) simp_all
  define more where "more = (if number < count_get (measured (rp_trials rp)) then 2 else 0 :: nat)"
  have at: "log_at n experimental (Suc (r + more)) st"
    using assms by (simp add: trial_events_def more_def numeral_3_eq_3 split: if_splits)
  have exp: "log_at n A r' s' \<Longrightarrow> A \<subseteq> experimental \<Longrightarrow> r \<le> r' \<Longrightarrow> log_at n experimental r s'" for A r' s'
    by (rule log_at_weaken)
  have sub: "{Measuring} \<subseteq> experimental" "{Measuring, Resetting} \<subseteq> experimental"
    "{Measuring, Resetting, Cooling} \<subseteq> experimental"
    by (auto simp: experimental_def)
  have between: "holds t (steps_to n experimental r) (between_trials env origin rp config number tr st')"
    if m: "log_at n {Measuring} (r + more) st'" for tr st'
  proof (cases "number < count_get (measured (rp_trials rp)) \<and> st_status st' = RunCompleted \<and> st_staging_error st' = None")
    case False
    then show ?thesis using exp [OF m sub(1)] by (auto simp: between_trials_def intro!: holds_yields)
  next
    case True
    then have m2: "log_at n {Measuring} (Suc (Suc r)) st'" using m by (simp add: more_def)
    have cool: "holds t (steps_to n experimental r) (run_cooldown env origin rp tr s')"
      if "log_at n {Measuring, Resetting} (Suc r) s'" for s'
      by (rule holds_mono [OF run_cooldown_log [OF that]]) (erule exp, rule sub(3), simp)
    have halt: "steps_to n experimental r (False, s')" if "log_at n {Measuring, Resetting} (Suc r) s'" for s'
      using exp [OF that sub(2)] by simp
    have "holds t (steps_to n experimental r) (andthen (run_reset env origin config tr st') (\<lambda>(go, s').
        if go then run_cooldown env origin rp tr s' else yields (False, s')))"
      by (rule holds_andthen [OF run_reset_log [OF m2]]) (auto intro: cool intro!: holds_yields halt)
    with True show ?thesis by (simp add: between_trials_def)
  qed
  have halt: "steps_to n experimental r (False, s')" if "log_at n {Measuring} (r + more) s'" for s'
    using exp [OF that sub(1)] by simp
  have measured_then: "holds t (steps_to n experimental r)
      (andthen (measure_trial env origin rp config tp b (trial_slot rp number tr) st) (\<lambda>(go, s').
         if go then between_trials env origin rp config number tr s' else yields (False, s')))" for tr
    by (rule holds_andthen [OF measure_trial_log [OF at]]) (auto intro: between intro!: holds_yields halt)
  show ?thesis
    unfolding run_trial_def
    by (intro holds_ask_andthen holds_if)
      (auto intro!: holds_yields later measured_then simp: log_simps split: sum.split)
qed

lemma trial_event_sum:
  assumes "m = unat (count_get (measured (rp_trials rp)))" and "0 < m"
  shows "sum_list (map (trial_events rp) (ordinals m)) + 2 = 3 * m"
proof -
  have small: "unat (of_nat i :: u32) = i" if "i \<le> m" for i
  proof -
    have "i < 2 ^ 32" using that assms(1) unsigned_less [of "count_get (measured (rp_trials rp))", where ?'a = nat] by simp
    then show ?thesis by (simp add: unat_of_nat take_bit_nat_eq_self)
  qed
  have each: "trial_events rp (of_nat i) = (if i < m then 3 else 1)" if "i \<le> m" for i
    using small [OF that] assms(1) by (simp add: trial_events_def word_less_nat_alt)
  have "sum_list (map (trial_events rp) (map of_nat [1..<m])) = 3 * (m - 1)"
  proof -
    have "map (trial_events rp) (map of_nat [1..<m]) = map (\<lambda>i. 3) [1..<m]" by (simp add: each)
    then show ?thesis by (simp only: sum_list_triv) simp
  qed
  moreover have "ordinals m = map of_nat [1..<m] @ [of_nat m]"
    using assms(2) by (simp add: ordinals_def)
  ultimately show ?thesis using assms(2) each [of m] by simp
qed

lemma run_trials_log:
  assumes "log_at n experimental (r + sum_list (map (trial_events rp) (ordinals (unat (count_get (measured (rp_trials rp))))))) st"
  shows "holds t (log_at n experimental r) (run_trials env origin rp config tp b st)"
  unfolding run_trials_def
proof (rule holds_each_until [where I = "\<lambda>ys st. log_at n experimental (r + sum_list (map (trial_events rp) ys)) st"])
  fix y ys s
  assume "log_at n experimental (r + sum_list (map (trial_events rp) (y # ys))) s"
  then have "holds t (steps_to n experimental (r + sum_list (map (trial_events rp) ys))) (run_trial env origin rp config tp b y s)"
    by (intro run_trial_log) (simp add: ac_simps)
  then show "holds t (\<lambda>(go, s'). if go then log_at n experimental (r + sum_list (map (trial_events rp) ys)) s'
      else log_at n experimental r s') (run_trial env origin rp config tp b y s)"
    by (rule holds_mono) (auto intro: log_at_weaken)
qed (use assms in simp_all)

section \<open>The whole run\<close>

abbreviation session_returns :: "bool \<Rightarrow> 'w RunEnv \<Rightarrow> LocalSession \<Rightarrow> bool" where
  "session_returns t env s \<equiv> t \<longrightarrow> returns (startup (r_host env) s) \<and> (\<forall>s'. returns (session_shutdown (r_host env) s'))"

lemma holds_if_returns: "(t \<longrightarrow> returns m) \<Longrightarrow> holds t (\<lambda>x. True) m"
  by (simp add: holds_def always_True)

lemma startup_log:
  assumes at: "log_at n {Fresh} (Suc r) st" and s: "session_returns t env s"
  shows "holds t (\<lambda>(s', st'). log_at n {Started} r st') (run_startup env origin s st)"
proof -
  have m: "moves {Fresh} PhaseStartup {Started}" by (simp add: moves_def)
  have fin: "holds t (\<lambda>(s', st'). log_at n {Started} r st')
      (andthen (finish_phase env origin i outcome failure st') (\<lambda>st. yields (s', st)))"
    if "log_open n {Fresh} PhaseStartup r i st0" "st_phases st' = st_phases st0" for i outcome failure st' st0 s'
    by (rule holds_andthen [OF finish_log [OF that(1) m that(2)]]) (simp add: holds_yields)
  have cancelled: "holds t (\<lambda>(s', st'). log_at n {Started} r st')
      (andthen (startup_cancelled env origin st) (\<lambda>st. yields (s, st)))"
    unfolding startup_cancelled_def begin_startup_def
    by (rule holds_andthen [where Q = "log_at n {Started} r"])
      (auto intro!: holds_andthen [OF holds_begin_phase [OF at]] finish_log [OF _ m] holds_yields simp: log_simps)
  have broken: "holds t (\<lambda>(s', st'). log_at n {Started} r st')
      (andthen (startup_broken env origin i e s' st') (\<lambda>st. yields (s', st)))"
    if op: "log_open n {Fresh} PhaseStartup r i st'" for i e s' st'
    by (rule holds_andthen [where Q = "log_at n {Started} r"])
      (auto simp: startup_broken_def Let_def log_simps intro!: holds_ask_andthen finish_log [OF op m] holds_yields)
  have going: "holds t (\<lambda>(s', st'). log_at n {Started} r st')
      (andthen (startup (r_host env) s) (\<lambda>(result, s). case result of
           Inl e \<Rightarrow> andthen (startup_broken env origin i e s st') (\<lambda>st. yields (s, st))
         | Inr started \<Rightarrow> andthen (startup_done env origin i started st') (\<lambda>st. yields (s, st))))"
    if op: "log_open n {Fresh} PhaseStartup r i st'" for i st'
    by (rule holds_andthen [OF holds_if_returns], use s in blast)
      (clarsimp simp: startup_done_def broken [OF op] fin [OF op] split: sum.split)
  show ?thesis
    unfolding run_startup_def
    by (intro holds_ask_andthen holds_if cancelled)
      (auto simp: begin_startup_def intro!: holds_andthen [OF holds_begin_phase [OF at]] intro: going)
qed

lemma ret_probe_sources [ret]: "returns (probe_sources env limit timing qs p)"
proof (induction env limit timing qs p rule: probe_sources.induct)
  case (2 env limit timing q qs p)
  have "returns (andthen (ask g) f)" if "\<And>x. returns (f x)" for g :: "'a \<Rightarrow> 'b \<times> 'a" and f
    using that by (intro returns_andthen returns_ask)
  with 2 show ?case
    by (auto simp: Let_def returns_yields intro!: returns_andthen returns_ask
        split: option.split raced.split sum.split)
qed (simp add: returns_yields)

lemma ret_preflight_telemetry [ret]: "returns (preflight_telemetry env rp config timing)"
  by (simp add: preflight_telemetry_def ret_probe_sources)

lemma deferred_log:
  assumes "log_at n A r st"
  shows "holds t (\<lambda>(tp', st'). log_at n A r st') (deferred_probes env rp config tp st)"
proof -
  have same: "log_at n A r ((failed RunFailed TelemetryFailed st) \<lparr>st_telemetry_preflight_failure := x\<rparr>)" for x
    by (rule log_of_updates(1) [OF _ assms]) (simp add: log_simps)
  have probing: "returns (if c then yields no_telemetry_plan
      else preflight_telemetry env rp config AfterReadiness)" for c
    by (simp add: ret returns_yields)
  have out: "holds t (\<lambda>(tp', st'). log_at n A r st') (yields (p, case tp_required_failure d of
      None \<Rightarrow> st | Some reason \<Rightarrow> (failed RunFailed TelemetryFailed st) \<lparr>st_telemetry_preflight_failure := Some reason\<rparr>))"
    for p d
    by (rule holds_yields) (simp add: assms same split: option.split)
  show ?thesis
    unfolding deferred_probes_def
    by (rule holds_if, rule holds_yields, simp add: assms, rule holds_ask_andthen,
        rule holds_after [OF probing], rule out)
qed

lemma in_progress_log:
  assumes "log_at n A r st" and "A \<subseteq> B" and "r' \<le> r"
    and "\<And>st'. log_at n A r st' \<Longrightarrow> holds t (log_at n B r') (f st')"
  shows "holds t (log_at n B r') (while_in_progress f st)"
  unfolding while_in_progress_def
  by (intro holds_if holds_yields assms(4) assms(1) log_at_weaken [OF assms(1-3)])

definition correctness_count :: "ResolvedPlan \<Rightarrow> nat" where
  "correctness_count rp = length (rp_security_checks rp) + length (rp_http_corpus_checks rp)"

definition warmup_count :: "ResolvedPlan \<Rightarrow> nat" where
  "warmup_count rp = unat (warmup (rp_trials rp))"

definition trial_event_total :: "ResolvedPlan \<Rightarrow> nat" where
  "trial_event_total rp = sum_list (map (trial_events rp) (ordinals (unat (count_get (measured (rp_trials rp))))))"

lemma experiment_log:
  assumes "log_at n {Started} (r + slot_count PreWorkload (rp_diagnostics rp) + correctness_count rp
     + warmup_count rp + trial_event_total rp) st"
  shows "holds t (log_at n experimental r) (run_experiment env origin rp config tp b st)"
  unfolding run_experiment_def
proof (rule holds_andthen [where Q = "log_at n {Started, PreChecked} (r + correctness_count rp + warmup_count rp + trial_event_total rp)"])
  show "holds t (log_at n {Started, PreChecked} (r + correctness_count rp + warmup_count rp + trial_event_total rp))
      (while_in_progress (run_diagnostic_phase env origin rp b PreWorkload) st)"
    by (rule in_progress_log [OF assms], simp, simp, rule diagnostic_phase_log)
      (auto simp: ac_simps moves_def intro: log_at_weaken)
next
  fix st
  assume a: "log_at n {Started, PreChecked} (r + correctness_count rp + warmup_count rp + trial_event_total rp) st"
  show "holds t (log_at n experimental r) (andthen (while_in_progress (run_correctness_phase env origin rp b) st) (\<lambda>st.
     andthen (while_in_progress (run_warmups env origin rp config b) st) (\<lambda>st.
       while_in_progress (run_trials env origin rp config tp b) st)))"
  proof (rule holds_andthen [where Q = "log_at n {Started, PreChecked, Checked} (r + warmup_count rp + trial_event_total rp)"])
    show "holds t (log_at n {Started, PreChecked, Checked} (r + warmup_count rp + trial_event_total rp))
        (while_in_progress (run_correctness_phase env origin rp b) st)"
      by (rule in_progress_log [OF a], blast, simp, rule correctness_phase_log)
        (auto simp: ac_simps correctness_count_def moves_def intro: log_at_weaken)
  next
    fix st
    assume c: "log_at n {Started, PreChecked, Checked} (r + warmup_count rp + trial_event_total rp) st"
    show "holds t (log_at n experimental r) (andthen (while_in_progress (run_warmups env origin rp config b) st) (\<lambda>st.
       while_in_progress (run_trials env origin rp config tp b) st))"
    proof (rule holds_andthen [where Q = "log_at n {Started, PreChecked, Checked, Warmed} (r + trial_event_total rp)"])
      have "holds t (log_at n {Started, PreChecked, Checked, Warmed} (r + trial_event_total rp))
          (run_warmups env origin rp config b st')"
        if "log_at n {Started, PreChecked, Checked} (r + warmup_count rp + trial_event_total rp) st'" for st'
        unfolding run_warmups_def
        by (rule counted_loop_log [OF run_warmup_log])
          (use that in \<open>auto simp: moves_def ordinals_def warmup_count_def ac_simps intro: log_at_weaken\<close>)
      then show "holds t (log_at n {Started, PreChecked, Checked, Warmed} (r + trial_event_total rp))
          (while_in_progress (run_warmups env origin rp config b) st)"
        by (intro in_progress_log [OF c]) auto
    next
      fix st
      assume w: "log_at n {Started, PreChecked, Checked, Warmed} (r + trial_event_total rp) st"
      show "holds t (log_at n experimental r) (while_in_progress (run_trials env origin rp config tp b) st)"
        by (rule in_progress_log [OF w], simp add: experimental_def, simp, rule run_trials_log,
            rule log_at_weaken) (auto simp: experimental_def trial_event_total_def)
    qed
  qed
qed

lemma drain_log:
  assumes "log_at n experimental (Suc r) st"
  shows "holds t (log_at n {Draining} r) (run_drain env origin config st)"
proof -
  have m: "moves experimental PhaseDrain {Draining}" by (simp add: moves_def)
  show ?thesis
    unfolding run_drain_def
    by (rule holds_andthen [OF holds_begin_phase [OF assms]], clarify, rule holds_ask_andthen,
        rule holds_andthen [where Q = "log_at n {Draining} r"])
      (auto intro!: finish_log [OF _ m] holds_note_cancellation simp: log_simps split: option.split sum.split)
qed

lemma ret_drain_collectors [ret]: "returns (drain_collectors env limit sources fs)"
  by (induction env limit sources fs rule: drain_collectors.induct) (auto intro!: returns_andthen ret)

lemma telemetry_drain_log:
  assumes "log_at n {Draining} (Suc r) st"
  shows "holds t (log_at n {Draining, Drained} r) (run_telemetry_drain env origin config tp st)"
proof -
  have m: "moves {Draining} PhaseDrain {Draining, Drained}" by (simp add: moves_def experimental_def)
  have fin: "holds t (log_at n {Draining, Drained} r) (andthen
      (if fs \<noteq> [] then finish_phase env origin i OutcomeFailed (Some TelemetryFailed)
          (cleanup_failed RunFailed TelemetryFailed (st' \<lparr>st_cleanup_failures := st_cleanup_failures st' @ fs\<rparr>))
        else finish_phase env origin i OutcomeCompleted None st') (note_cancellation env))"
    if op: "log_open n {Draining} PhaseDrain r i st'" for i fs st'
    by (rule holds_andthen [where Q = "log_at n {Draining, Drained} r"])
      (auto intro!: holds_if finish_log [OF op m] holds_note_cancellation simp: log_simps)
  show ?thesis
    unfolding run_telemetry_drain_def
    by (intro holds_if holds_yields log_at_weaken [OF assms] holds_andthen [OF holds_begin_phase [OF assms]])
      (auto intro!: holds_after [OF ret_drain_collectors] intro: fin)
qed

lemma post_diagnostics_log:
  assumes "log_at n {Draining, Drained} (r + slot_count PostWorkload (rp_diagnostics rp)) st"
  shows "holds t (log_at n {Draining, Drained, PostChecked} r) (run_post_diagnostics env origin rp b st)"
proof -
  have "log_at n {Draining, Drained, PostChecked} (r + slot_count PostWorkload (rp_diagnostics rp)) st"
    "log_at n {Draining, Drained, PostChecked} r st"
    by (rule log_at_weaken [OF assms]; auto)+
  then show ?thesis
    unfolding run_post_diagnostics_def
    by (intro holds_if diagnostic_phase_log holds_yields) (auto simp: moves_def)
qed

lemma teardown_log:
  assumes at: "log_at n {Draining, Drained, PostChecked} (Suc r) st" and s: "session_returns t env s0"
  shows "holds t (\<lambda>(stopped, s', st'). log_at n {TornDown} r st') (run_teardown env origin s st)"
proof -
  have m: "moves {Draining, Drained, PostChecked} PhaseTeardown {TornDown}" by (simp add: moves_def)
  have noted: "holds t (\<lambda>st''. st_phases st'' = st_phases st') (note_cancellation env st')" for st'
    unfolding note_cancellation_def by (intro holds_ask_andthen holds_yields) (simp add: log_simps)
  have idle: "holds t (\<lambda>(stopped, s', st'). log_at n {TornDown} r st')
      (andthen (finish_phase env origin i OutcomeCompleted None st') (\<lambda>st. yields ([], s, st)))"
    if op: "log_open n {Draining, Drained, PostChecked} PhaseTeardown r i st'" for i st'
    by (rule holds_andthen [OF finish_log [OF op m]]) (simp_all add: holds_yields)
  have after: "holds t (\<lambda>(stopped, s', st'). log_at n {TornDown} r st')
      (andthen (if st_cleanup_failures st'' = []
          then finish_phase env origin i OutcomeCompleted None st''
          else finish_phase env origin i OutcomeFailed (Some TeardownFailed) (cleanup_failed RunFailed TeardownFailed st''))
        (\<lambda>st. yields (order', s', st)))"
    if op: "log_open n {Draining, Drained, PostChecked} PhaseTeardown r i st'" and "st_phases st'' = st_phases st'"
    for i st' st'' order' s'
    by (rule holds_andthen [where Q = "log_at n {TornDown} r"])
      (use that(2) in \<open>auto intro!: holds_if finish_log [OF op m] holds_yields simp: log_simps\<close>)
  have stopping: "holds t (\<lambda>(stopped, s', st'). log_at n {TornDown} r st')
      (andthen (session_shutdown (r_host env) s) (\<lambda>(rep, s).
         andthen (note_cancellation env
             (st' \<lparr>st_cleanup_failures := st_cleanup_failures st' @ shutdown_failures rep\<rparr>)) (\<lambda>st.
         andthen (if st_cleanup_failures st = []
             then finish_phase env origin i OutcomeCompleted None st
             else finish_phase env origin i OutcomeFailed (Some TeardownFailed)
               (cleanup_failed RunFailed TeardownFailed st)) (\<lambda>st.
           yields (stopped_order rep, s, st)))))"
    if op: "log_open n {Draining, Drained, PostChecked} PhaseTeardown r i st'" for i st'
  proof (rule holds_andthen [OF holds_if_returns], use s in simp, clarify)
    fix rep :: ShutdownReport and s'
    show "holds t (\<lambda>(stopped, s', st'). log_at n {TornDown} r st')
        (andthen (note_cancellation env
             (st' \<lparr>st_cleanup_failures := st_cleanup_failures st' @ shutdown_failures rep\<rparr>)) (\<lambda>st.
         andthen (if st_cleanup_failures st = []
             then finish_phase env origin i OutcomeCompleted None st
             else finish_phase env origin i OutcomeFailed (Some TeardownFailed)
               (cleanup_failed RunFailed TeardownFailed st)) (\<lambda>st.
           yields (stopped_order rep, s', st))))"
      by (rule holds_andthen [OF noted]) (rule after [OF op], simp)
  qed
  show ?thesis
    unfolding run_teardown_def
    by (rule holds_andthen [OF holds_begin_phase [OF at]]) (auto intro: idle stopping)
qed

lemma stage_unless_failed_log:
  assumes "log_at n A r st" and "returns (f (st_writer st))"
  shows "holds t (log_at n A r) (stage_unless_failed f st)"
  unfolding stage_unless_failed_def
  by (intro holds_if holds_yields assms(1) holds_andthen [OF with_writer_log [OF assms(2)]])
    (use assms(1) in \<open>auto simp: log_at_def log_simps intro!: holds_yields split: sum.split\<close>)

lemma stage_evidence_log:
  assumes "log_at n A r st"
  shows "holds t (log_at n A r) (stage_evidence env rp stopped s st)"
proof -
  have start: "log_at n A r (st \<lparr>st_started := []\<rparr>)"
    by (rule log_of_updates(1) [OF _ assms]) simp
  have lg: "holds t (steps_to n A r) (stage_logs env s st')" if "log_at n A r st'" for st'
    unfolding stage_logs_def
    by (rule holds_andthen [OF with_writer_log [OF ret_lifecycle(1)]])
      (use that in \<open>auto simp: log_at_def log_simps intro!: holds_yields split: sum.split\<close>)
  show ?thesis
    unfolding stage_evidence_def Let_def
    by (rule holds_andthen [OF lg [OF start]], clarsimp)
      (intro conjI impI holds_andthen [OF stage_unless_failed_log] holds_andthen [OF holds_yields [where P = "log_at n A r"]]
        stage_unless_failed_log ret; assumption?)+
qed

lemma finalization_log:
  assumes "log_at n {TornDown} (Suc r) st"
  shows "holds t (log_at n {Finalized} r) (run_finalization env origin st)"
  unfolding run_finalization_def
  by (rule holds_andthen [OF holds_begin_phase [OF assms]], clarify, rule holds_andthen [OF finish_log])
    (auto simp: moves_def intro!: stage_unless_failed_log ret)

end
