(* ===== verification/RunClaims.thy ===== *)
theory RunClaims
  imports RunProps
begin

text \<open>
  The properties of a whole run: its timeline is a path of the abstract machine within the bound
  that was checked before, and it returns when the session does.
\<close>

section \<open>The bound\<close>

definition run_bound :: "ResolvedPlan \<Rightarrow> nat" where
  "run_bound rp = correctness_count rp + warmup_count rp + trial_event_total rp
     + slot_count PreWorkload (rp_diagnostics rp) + slot_count PostWorkload (rp_diagnostics rp) + 5"

lemma run_started_log:
  assumes s: "session_returns t env s" and st: "st_phases st = []"
  shows "holds t (\<lambda>(s', st'). log_at (run_bound rp) {Finalized} 0 st') (run_started env origin rp config tp s st)"
proof -
  let ?n = "run_bound rp" and ?post = "slot_count PostWorkload (rp_diagnostics rp)"
  let ?r = "4 + ?post + slot_count PreWorkload (rp_diagnostics rp) + correctness_count rp
    + warmup_count rp + trial_event_total rp"
  have fresh: "log_at ?n {Fresh} (Suc ?r) st"
    by (simp add: log_at_def closed_log_def stage_in_def run_stages_def st run_bound_def)
  have final: "holds t (\<lambda>(s', st'). log_at ?n {Finalized} 0 st')
      (andthen (run_finalization env origin st1) (\<lambda>st. yields (s', st)))"
    if "log_at ?n {TornDown} 1 st1" for st1 s'
    by (rule holds_andthen [OF finalization_log], use that in simp, rule holds_yields, simp)
  have staging: "holds t (\<lambda>(s', st'). log_at ?n {Finalized} 0 st')
      (andthen (stage_evidence env rp stopped s' st1) (\<lambda>st. andthen (run_finalization env origin st) (\<lambda>st. yields (s', st))))"
    if "log_at ?n {TornDown} 1 st1" for stopped s' st1
    by (rule holds_andthen [OF stage_evidence_log [OF that]]) (rule final)
  have teardown: "holds t (\<lambda>(stopped, s', st'). log_at ?n {TornDown} 1 st') (run_teardown env origin s' st1)"
    if "log_at ?n {Draining, Drained, PostChecked} 2 st1" for s' st1
    by (rule teardown_log [OF _ s]) (use that in \<open>simp add: numeral_2_eq_2\<close>)
  have posting: "holds t (log_at ?n {Draining, Drained, PostChecked} 2) (run_post_diagnostics env origin rp b st1)"
    if "log_at ?n {Draining, Drained} (2 + ?post) st1" for b st1
    by (rule post_diagnostics_log) (use that in simp)
  have draining: "holds t (log_at ?n {Draining, Drained} (2 + ?post)) (run_telemetry_drain env origin config tp' st1)"
    if "log_at ?n {Draining} (3 + ?post) st1" for tp' st1
    by (rule telemetry_drain_log) (use that in \<open>simp add: eval_nat_numeral\<close>)
  have stop: "holds t (log_at ?n {Draining} (3 + ?post)) (run_drain env origin config st1)"
    if "log_at ?n experimental (4 + ?post) st1" for st1
    by (rule drain_log) (use that in \<open>simp add: eval_nat_numeral\<close>)
  have cleanup: "holds t (\<lambda>(stopped, s', st'). log_at ?n {TornDown} 1 st') (run_cleanup env origin rp config tp' s' st1)"
    if "log_at ?n experimental (4 + ?post) st1" for tp' s' st1
    unfolding run_cleanup_def
    by (rule holds_andthen [OF stop [OF that]], rule holds_andthen [OF draining], assumption,
        rule holds_andthen [OF posting], assumption, rule teardown)
  have trying: "holds t (log_at ?n experimental (4 + ?post)) (run_experiment env origin rp config tp' b st1)"
    if "log_at ?n {Started} ?r st1" for tp' b st1
    by (rule experiment_log) (use that in simp)
  show ?thesis
    unfolding run_started_def
    by (rule holds_andthen [OF startup_log [OF fresh s]], clarify, rule holds_andthen [OF deferred_log], assumption,
        clarify, rule holds_andthen [OF trying], assumption, rule holds_andthen [OF cleanup], assumption,
        clarify, rule staging)
qed

lemma executions_by_slot:
  "slot_count PreWorkload qs + slot_count PostWorkload qs
     = sum_list (map (\<lambda>q. if diag_phase q = BothPhases then 2 else 1) qs)"
proof (induction qs)
  case (Cons q qs)
  then show ?case
    by (cases "diag_phase q") (simp_all add: slot_count_def diagnostic_applies_def)
qed (simp add: slot_count_def)

lemma add_opt_Some: "add_opt x y = Some c \<Longrightarrow> \<exists>a b. x = Some a \<and> y = Some b \<and> c = a + b"
  by (auto simp: add_opt_def add64_def fits64_def bind_eq_Some_conv split: if_splits)

lemma mul64_Some: "mul64 a b = Some c \<Longrightarrow> c = a * b"
  by (auto simp: mul64_def fits64_def split: if_splits)

lemma phase_bound_is:
  assumes "checked_phase_bound rp = Ok bound" and pos: "0 < count_get (measured (rp_trials rp))"
  shows "run_bound rp = bound \<and> bound \<le> 10000"
proof -
  let ?m = "unat (count_get (measured (rp_trials rp)))"
  from assms(1) have b: "phase_bound_of rp = Some bound" "bound \<le> 10000"
    by (auto simp: checked_phase_bound_def or_preflight_def MAX_PHASE_EVENTS_def split: sum.splits option.splits if_splits)
  from b(1) have "bound = unat (warmup (rp_trials rp)) + ?m * 3 + 3 + diagnostic_execution_count rp
      + (length (rp_security_checks rp) + length (rp_http_corpus_checks rp))"
    unfolding phase_bound_of_def FIXED_PHASE_EVENTS_def by (fastforce dest!: add_opt_Some mul64_Some)
  moreover have "trial_event_total rp + 2 = 3 * ?m"
    unfolding trial_event_total_def
    by (rule trial_event_sum [OF refl]) (use pos in \<open>simp add: unat_gt_0\<close>)
  ultimately show ?thesis
    using b(2) executions_by_slot [of "rp_diagnostics rp"]
    by (simp add: run_bound_def correctness_count_def warmup_count_def diagnostic_execution_count_def)
qed

section \<open>The timeline of a run\<close>

definition timeline_ok :: "ResolvedPlan \<Rightarrow> PhaseEvent list \<Rightarrow> bool" where
  "timeline_ok rp es \<longleftrightarrow> closed_log es \<and> run_stages (map ph_kind es) = Some Finalized
     \<and> (\<exists>bound. checked_phase_bound rp = Ok bound \<and> length es \<le> bound \<and> bound \<le> 10000)"

lemma log_at_ok:
  assumes "log_at (run_bound rp) {Finalized} 0 st" and "checked_phase_bound rp = Ok bound"
    and "0 < count_get (measured (rp_trials rp))"
  shows "timeline_ok rp (st_phases st)"
  using assms phase_bound_is [OF assms(2,3)] by (auto simp: timeline_ok_def log_at_def stage_in_def)

lemma static_preflight_bound:
  "static_preflight env w ids rp = Ok config \<Longrightarrow> \<exists>bound. checked_phase_bound rp = Ok bound"
  by (auto simp: static_preflight_def split: sum.splits)

lemma publish_phases: "always (\<lambda>result. \<forall>out. result = Ok out \<longrightarrow> ro_phases out = st_phases st) (publish env rp st)"
  unfolding publish_def
  by (auto simp: io_rules intro!: always_andthen_all split: option.split sum.split)


section \<open>Returning\<close>

lemma early_preflight_returns: "returns (early_preflight env rp config)"
  by (auto simp: early_preflight_def unless_cancelled_def ret returns_yields intro!: returns_andthen returns_ask
      split: option.split sum.split)

lemma publish_returns: "returns (publish env rp st)"
  by (auto simp: publish_def returns_yields intro!: returns_andthen returns_ask split: option.split)

lemma session_returns_when:
  assumes prep: "session_prepare rp opts now = Some (Ok s)"
    and l: "\<forall>p \<in> set (specs (spawn_plan s)). launchable p" and t: "ticking (r_host env) clock"
  shows "session_returns True env s"
proof -
  have "session_inv (spawn_plan s) s" using session_prepare_inv [OF prep] by simp
  then have "returns (startup (r_host env) s)"
    using startup_from_returns [OF t l] by (auto simp: startup_def returns_yields split: sum.split)
  then show ?thesis by (simp add: session_shutdown_def stop_all_returns [OF t])
qed

text \<open>
  C4: A run always comes to its end.  On a host whose clock ticks, with a session that was
  prepared from a plan and whose programs have arguments to launch, orchestration returns from
  every world, with an outcome or an error: no timeline index is out of range, every loop over
  diagnostics, checks, warmups and trials ends, and so do startup and teardown.
\<close>
theorem run_always_returns:
  assumes "session_prepare rp0 opts now = Some (Ok s)"
    and "\<forall>p \<in> set (specs (spawn_plan s)). launchable p" and "ticking (r_host env) clock"
  shows "returns (execute_run_with_diagnostics env rp w s)"
proof -
  have "returns (run_started env origin rp config tp s (RunState_new w))" for origin config tp
    by (rule holds_returns [OF run_started_log [OF session_returns_when [OF assms]]])
      (simp add: RunState_new_def)
  then show ?thesis
    unfolding execute_run_with_diagnostics_def
    by (auto simp: returns_yields publish_returns early_preflight_returns intro!: returns_andthen returns_ask
        split: sum.split)
qed

end
