(* ===== verification/RunOutcomes.thy ===== *)
theory RunOutcomes
  imports RunKeeps RunClaims
begin

text \<open>
  What the outcome of a run says.  Relations that admit new trials are kept by the whole run; the
  writer's invariant is one, and so is \<open>loose\<close>: progress never comes back, and while it lasts
  nothing failed.  \<open>steady\<close> is \<open>loose\<close> without new trials; with it a completed run has measured
  every trial.
\<close>

section \<open>Trials\<close>

locale run_trial_steps = run_steps env R for env :: "'w RunEnv" and R :: "RunState \<Rightarrow> RunState \<Rightarrow> bool" +
  assumes trials_change: "R st (st \<lparr>st_trials := ts\<rparr>)"

context run_trial_steps
begin

lemma keep_trial_on:
  assumes "R a st"
  shows "always (on a) (keep_trial env rp sl result out tel st)"
    and "always (on a) (keep_failed_trial env rp sl result tel st)"
proof -
  have kept: "always (on a) (keep_trial env rp sl result out tel st)" for out
    unfolding keep_trial_def
    by (rule always_andthen [OF with_writer_on [OF stores_trial assms]])
      (auto simp: always_yields intro: joins [OF _ trials_change] split: sum.split)
  then show "always (on a) (keep_trial env rp sl result out tel st)" .
  show "always (on a) (keep_failed_trial env rp sl result tel st)"
    unfolding keep_failed_trial_def
    by (rule always_andthen [OF kept]) (auto simp: always_yields stopped split: sum.split)
qed

lemma trial_ends_on:
  assumes "R a st"
  shows "always (on a) (trial_unstarted env origin rp sl no_tel i st)"
    and "always (on a) (trial_failed env origin rp sl warnings i cause elapsed offset capt st)"
    and "always (on a) (trial_completed env origin rp sl warnings i out elapsed offset capt st)"
proof -
  show "always (on a) (trial_unstarted env origin rp sl no_tel i st)"
    unfolding trial_unstarted_def
    by (rule always_andthen [OF finish_on [OF stopped(1) [OF assms not_completed(2)]]])
      (auto intro: always_andthen_all keep_trial_on)
  have over: "R a (failed s c (st \<lparr>st_cleanup_failures := fs\<rparr>))" if "s \<noteq> RunCompleted" for s c fs
    using that by (intro ends [OF assms]) (simp_all add: failed_def in_progress_def)
  show "always (on a) (trial_failed env origin rp sl warnings i cause elapsed offset capt st)"
    unfolding trial_failed_def Let_def
    by (rule always_andthen [OF finish_on [OF over [OF not_completed(1)]]]) (rule keep_trial_on)
  have good: "always (on a) (andthen (keep_trial env rp sl result out tel st) (\<lambda>(x, st). case x of
         Inl e \<Rightarrow> finish_and env origin i OutcomeFailed None False (staging_stop e st)
       | Inr _ \<Rightarrow> finish_and env origin i OutcomeCompleted None True st))" for result tel
    by (rule always_andthen [OF keep_trial_on(1) [OF assms]]) (auto intro!: finish_and_on stopped split: sum.split)
  have bad: "always (on a) (andthen (finish_phase env origin i OutcomeFailed f (failed RunFailed TelemetryFailed
      (st \<lparr>st_cleanup_failures := fs\<rparr>))) (\<lambda>st. keep_failed_trial env rp sl result tel st))" for f fs result tel
    by (rule always_andthen [OF finish_on [OF over [OF not_completed(2)]]]) (rule keep_trial_on)
  show "always (on a) (trial_completed env origin rp sl warnings i out elapsed offset capt st)"
    unfolding trial_completed_def Let_def by (auto intro: good bad)
qed

lemma measure_on:
  assumes "R a st"
  shows "always (on a) (measure_trial env origin rp config tp b sl st)"
proof -
  have invoked: "always (on a) (andthen (stop_trial_telemetry env names tr limit) (\<lambda>capt. case invoked of
      InvCompleted out elapsed offset \<Rightarrow> trial_completed env origin rp sl warnings i out elapsed offset capt st'
    | InvFailure cause elapsed offset \<Rightarrow> trial_failed env origin rp sl warnings i cause elapsed offset capt st'))"
    if "R a st'" for names tr limit invoked warnings i st'
    by (rule always_andthen_all) (auto simp: trial_ends_on [OF that] split: InvocationResult.split)
  show ?thesis
    unfolding measure_trial_def Let_def
    by (rule always_andthen [OF begin_on [OF assms]], clarify, rule always_andthen_all)
      (auto intro: trial_ends_on always_andthen_all invoked split: sum.split)
qed

lemma trial_on:
  assumes "R a st"
  shows "always (on a) (run_trial env origin rp config tp b number st)"
proof -
  have after: "always (on a) (andthen (measure_trial env origin rp config tp b sl st) (\<lambda>(go, st).
      if go then between_trials env origin rp config number tr st else yields (False, st)))" for sl tr
    by (rule always_andthen [OF measure_on [OF assms]]) (auto simp: always_yields intro: between_on)
  show ?thesis
    unfolding run_trial_def
    by (rule always_andthen_all) (auto simp: always_yields stopped assms after split: sum.split)
qed

lemma trials_on: "R a st \<Longrightarrow> always (R a) (run_trials env origin rp config tp b st)"
  unfolding run_trials_def by (rule each_until_on [OF trial_on])

lemma in_progress_on: "R a st \<Longrightarrow> (\<And>st. R a st \<Longrightarrow> always (R a) (f st)) \<Longrightarrow> always (R a) (while_in_progress f st)"
  by (simp add: while_in_progress_def always_yields)

lemma experiment_on:
  assumes "R a st"
  shows "always (R a) (run_experiment env origin rp config tp b st)"
  unfolding run_experiment_def
  by (rule always_andthen [OF in_progress_on [OF assms diagnostic_phase_on]], assumption,
      rule always_andthen [OF in_progress_on [OF _ correctness_phase_on]], assumption, assumption,
      rule always_andthen [OF in_progress_on [OF _ warmups_on]], assumption, assumption,
      rule in_progress_on [OF _ trials_on])

lemma run_started_on:
  assumes "R a st"
  shows "always (on a) (run_started env origin rp config tp s st)"
proof -
  have tail: "always (on a) (andthen (run_cleanup env origin rp config tp' s' st') (\<lambda>(names, s, st).
      andthen (stage_evidence env rp names s st) (\<lambda>st. andthen (run_finalization env origin st) (\<lambda>st. yields (s, st)))))"
    if "R a st'" for tp' s' st'
    by (rule always_andthen [OF cleanup_on [OF that]], clarify, rule always_andthen [OF evidence_on], assumption,
        rule always_andthen [OF finalization_on], assumption) (simp add: always_yields)
  have middle: "always (on a) (andthen (run_experiment env origin rp config tp' (bindings s') st') (\<lambda>st.
      andthen (run_cleanup env origin rp config tp' s' st) (\<lambda>(names, s, st).
      andthen (stage_evidence env rp names s st) (\<lambda>st. andthen (run_finalization env origin st) (\<lambda>st. yields (s, st))))))"
    if "R a st'" for tp' s' st'
    by (rule always_andthen [OF experiment_on [OF that]]) (rule tail)
  show ?thesis
    unfolding run_started_def
    by (rule always_andthen [OF startup_on [OF assms]], clarsimp, rule always_andthen [OF deferred_on], assumption,
        clarsimp, rule middle)
qed

end

section \<open>The writer\<close>

definition writer_kept :: "sha \<Rightarrow> RunState \<Rightarrow> RunState \<Rightarrow> bool" where
  "writer_kept sha st st' \<longleftrightarrow> (writer_inv sha (st_writer st) \<longrightarrow> writer_inv sha (st_writer st'))
     \<and> w_final_path (st_writer st') = w_final_path (st_writer st)
     \<and> w_run_id (st_writer st') = w_run_id (st_writer st) \<and> w_bounds (st_writer st') = w_bounds (st_writer st)"

lemma slices_ok: "source_ok (slices written i bytes)"
proof (induction written i bytes rule: slices.induct)
  case (1 written i bytes)
  then show ?case by (subst slices.simps) (simp add: source_ok_def)
qed

lemma add_artifact_identity:
  assumes "add_artifact sha io path role mt sens source w = (r, w')"
  shows "w_final_path w' = w_final_path w \<and> w_run_id w' = w_run_id w \<and> w_bounds w' = w_bounds w"
  using assms by (auto simp: add_artifact_def Let_def split: sum.splits prod.splits if_splits)

lemma put_bytes_writer:
  "always (\<lambda>(r, w'). writer_kept (r_sha env) (st \<lparr>st_writer := w\<rparr>) (st \<lparr>st_writer := w'\<rparr>))
     (put_bytes env path role mt sens bytes w)"
  unfolding put_bytes_def
proof (rule always_andthen_all, clarify)
  fix io written
  obtain r w' where a: "add_artifact (r_sha env) io path role mt sens (slices written 0 bytes) w = (r, w')"
    by (cases "add_artifact (r_sha env) io path role mt sens (slices written 0 bytes) w") blast
  have "writer_kept (r_sha env) (st \<lparr>st_writer := w\<rparr>) (st \<lparr>st_writer := w'\<rparr>)"
    using add_artifact_inv [OF a _ slices_ok] add_artifact_identity [OF a] by (simp add: writer_kept_def)
  with a show "always (\<lambda>(r, w'). writer_kept (r_sha env) (st \<lparr>st_writer := w\<rparr>) (st \<lparr>st_writer := w'\<rparr>))
      (case add_artifact (r_sha env) io path role mt sens (slices written 0 bytes) w of
         (Inl e, w') \<Rightarrow> yields (Inl e, w') | (Inr _, w') \<Rightarrow> yields (Inr (), w'))"
    by (auto simp: always_yields split: sum.split)
qed

interpretation kept: run_trial_steps env "writer_kept (r_sha env)" for env
  by unfold_locales (rule put_bytes_writer | (auto simp: writer_kept_def)[1])+

section \<open>Progress\<close>

text \<open>Progress is never regained, and while it lasts no failure was recorded.\<close>

definition loose :: "RunState \<Rightarrow> RunState \<Rightarrow> bool" where
  "loose st st' \<longleftrightarrow> (in_progress st' \<longrightarrow> in_progress st
     \<and> st_cleanup_failures st' = st_cleanup_failures st \<and> st_primary_failure st' = st_primary_failure st)"

definition steady :: "RunState \<Rightarrow> RunState \<Rightarrow> bool" where
  "steady st st' \<longleftrightarrow> loose st st' \<and> (in_progress st' \<longrightarrow> st_trials st' = st_trials st)"

interpretation loose: run_trial_steps env loose for env
  by unfold_locales (auto simp: loose_def in_progress_def intro: always_mono [OF always_True])

interpretation steady: run_steps env steady for env
  by unfold_locales (auto simp: steady_def loose_def in_progress_def intro: always_mono [OF always_True])

section \<open>Every trial is measured\<close>

definition trial_ids :: "RunState \<Rightarrow> TrialId list" where
  "trial_ids st = map trial_ident (st_trials st)"

lemma loose_refl: "loose st st"
  by (simp add: loose_def)

lemma dead_ends:
  assumes "\<not> in_progress st"
  shows "always (\<lambda>st'. \<not> in_progress st') (finish_phase env origin i outcome f st)"
    and "always (\<lambda>p. \<not> in_progress (snd p)) (finish_and env origin i outcome f go st)"
    and "always (\<lambda>p. \<not> in_progress (snd p)) (keep_failed_trial env rp sl result tel st)"
proof -
  show "always (\<lambda>st'. \<not> in_progress st') (finish_phase env origin i outcome f st)"
    by (rule always_mono [OF loose.finish_on [OF loose_refl]]) (use assms in \<open>auto simp: loose_def\<close>)
  show "always (\<lambda>p. \<not> in_progress (snd p)) (finish_and env origin i outcome f go st)"
    by (rule always_mono [OF loose.finish_and_on [OF loose_refl]]) (use assms in \<open>auto simp: loose_def\<close>)
  show "always (\<lambda>p. \<not> in_progress (snd p)) (keep_failed_trial env rp sl result tel st)"
    by (rule always_mono [OF loose.keep_trial_on(2) [OF loose_refl]]) (use assms in \<open>auto simp: loose_def\<close>)
qed

text \<open>After a step of the loop: one more trial while the progress lasts, and a break only at its end.\<close>

definition took :: "TrialId list \<Rightarrow> bool \<times> RunState \<Rightarrow> bool" where
  "took ids p \<longleftrightarrow> (in_progress (snd p) \<longrightarrow> trial_ids (snd p) = ids) \<and> (\<not> fst p \<longrightarrow> \<not> in_progress (snd p))"

lemma over: "s \<noteq> RunCompleted \<Longrightarrow> \<not> in_progress (failed s c st)" "\<not> in_progress (staging_failed e st)"
  "\<not> in_progress (staging_stop e st)"
  by (simp_all add: failed_def staging_failed_def staging_stop_def in_progress_def)

lemma dead_took: "always (\<lambda>p. \<not> in_progress (snd p)) m \<Longrightarrow> always (took ids) m"
  by (erule always_mono) (simp add: took_def)

lemma keep_trial_ids:
  "always (\<lambda>(x, st'). x = Ok () \<longrightarrow> trial_ids st' = trial_ids st @ [slot_trial sl]) (keep_trial env rp sl result out tel st)"
  unfolding keep_trial_def
  by (rule always_andthen [where Q = "\<lambda>(x, st'). st_trials st' = st_trials st"])
    (auto simp: with_writer_def trial_ids_def always_yields intro: always_andthen_all split: sum.split)

lemma trial_took:
  shows "always (took ids) (trial_unstarted env origin rp sl no_tel i st)"
    and "always (took ids) (trial_failed env origin rp sl warnings i cause elapsed offset capt st)"
    and "always (took (trial_ids st @ [slot_trial sl])) (trial_completed env origin rp sl warnings i out elapsed offset capt st)"
proof -
  show "always (took ids) (trial_unstarted env origin rp sl no_tel i st)"
    unfolding trial_unstarted_def
    by (rule dead_took, rule always_andthen [OF dead_ends(1)], simp add: over)
      (auto intro: always_andthen_all dead_ends(3))
  show "always (took ids) (trial_failed env origin rp sl warnings i cause elapsed offset capt st)"
    unfolding trial_failed_def Let_def
    by (rule dead_took, rule always_andthen [OF dead_ends(1)], simp add: over loose.not_completed) (rule dead_ends(3))
  have good: "always (took (trial_ids st @ [slot_trial sl])) (andthen (keep_trial env rp sl result out tel st) (\<lambda>(x, st). case x of
         Inl e \<Rightarrow> finish_and env origin i OutcomeFailed None False (staging_stop e st)
       | Inr _ \<Rightarrow> finish_and env origin i OutcomeCompleted None True st))" for result tel
  proof (rule always_andthen [OF keep_trial_ids], clarify)
    fix x :: "BundleError + unit" and st'
    assume ids: "x = Ok () \<longrightarrow> trial_ids st' = trial_ids st @ [slot_trial sl]"
    have "always (took (trial_ids st')) (finish_and env origin i OutcomeCompleted None True st')"
      unfolding finish_and_def
      by (rule always_andthen [OF steady.finish_on [where a = st']])
        (auto simp: steady_def loose_def took_def trial_ids_def always_yields)
    with ids show "always (took (trial_ids st @ [slot_trial sl])) (case x of
         Inl e \<Rightarrow> finish_and env origin i OutcomeFailed None False (staging_stop e st')
       | Inr _ \<Rightarrow> finish_and env origin i OutcomeCompleted None True st')"
      by (cases x) (simp_all add: dead_took [OF dead_ends(2) [OF over(3)]])
  qed
  have bad: "always (took ids) (andthen (finish_phase env origin i OutcomeFailed f (failed RunFailed TelemetryFailed st2))
      (\<lambda>st. keep_failed_trial env rp sl result tel st))" for f st2 result tel ids
    by (rule dead_took, rule always_andthen [OF dead_ends(1)], simp add: over) (rule dead_ends(3))
  show "always (took (trial_ids st @ [slot_trial sl])) (trial_completed env origin rp sl warnings i out elapsed offset capt st)"
    unfolding trial_completed_def Let_def by (auto intro: good bad)
qed

lemma measure_took: "always (took (trial_ids st @ [slot_trial sl])) (measure_trial env origin rp config tp b sl st)"
proof -
  have begun: "always (\<lambda>(i, st'). st_trials st' = st_trials st) (begin_phase env origin k ordinal tr st)" for k ordinal tr
    unfolding begin_phase_def by (auto simp: Let_def always_yields intro: always_andthen_all)
  have invoked: "always (took (trial_ids st @ [slot_trial sl])) (andthen (stop_trial_telemetry env names tr limit) (\<lambda>capt. case inv of
      InvCompleted out elapsed offset \<Rightarrow> trial_completed env origin rp sl warnings i out elapsed offset capt st'
    | InvFailure cause elapsed offset \<Rightarrow> trial_failed env origin rp sl warnings i cause elapsed offset capt st'))"
    if "st_trials st' = st_trials st" for names tr limit inv warnings i st'
  proof -
    have "trial_ids st = trial_ids st'" using that by (simp add: trial_ids_def)
    then show ?thesis by (auto intro!: always_andthen_all trial_took split: InvocationResult.split)
  qed
  show ?thesis
    unfolding measure_trial_def Let_def
    by (rule always_andthen [OF begun], clarify, rule always_andthen_all)
      (auto intro: trial_took always_andthen_all invoked split: sum.split)
qed

lemma between_took: "always (took (trial_ids st)) (between_trials env origin rp config number tr st)"
proof -
  have ids: "always (\<lambda>p. in_progress (snd p) \<longrightarrow> trial_ids (snd p) = trial_ids st) (between_trials env origin rp config number tr st)"
    by (rule always_mono [OF steady.between_on [where a = st]]) (auto simp: steady_def loose_def trial_ids_def)
  have go: "always (\<lambda>p. \<not> fst p \<longrightarrow> \<not> in_progress (snd p)) (finish_and env origin i outcome f False st')"
    if "\<not> in_progress st'" for i outcome f st'
    by (rule always_mono [OF dead_ends(2) [OF that]]) simp
  have going: "always (\<lambda>p. \<not> fst p \<longrightarrow> \<not> in_progress (snd p)) (finish_and env origin i outcome f True st')" for i outcome f st'
    unfolding finish_and_def by (auto simp: always_yields intro: always_andthen_all)
  have reset: "always (\<lambda>p. \<not> fst p \<longrightarrow> \<not> in_progress (snd p)) (run_reset env origin config tr st)"
    unfolding run_reset_def Let_def
    by (auto simp: always_yields over loose.not_completed intro!: always_andthen_all go going split: option.split sum.split)
  have cool: "always (\<lambda>p. \<not> fst p \<longrightarrow> \<not> in_progress (snd p)) (run_cooldown env origin rp tr st')" for st'
    unfolding run_cooldown_def
    by (auto simp: always_yields over intro!: always_andthen_all go going split: option.split)
  have "always (\<lambda>p. \<not> fst p \<longrightarrow> \<not> in_progress (snd p)) (between_trials env origin rp config number tr st)"
    unfolding between_trials_def
    by (auto simp: always_yields intro!: always_andthen [OF reset] cool)
  with ids show ?thesis unfolding took_def by (rule always_conj)
qed

lemma run_trial_took:
  assumes "number \<noteq> 0"
  shows "always (took (trial_ids st @ [TrialId number])) (run_trial env origin rp config tp b number st)"
proof -
  have slot: "slot_trial (trial_slot rp number (TrialId number)) = TrialId number"
    by (simp add: trial_slot_def split: option.split prod.split)
  have after: "always (took (trial_ids st @ [TrialId number])) (if go then between_trials env origin rp config number tr st'
      else yields (False, st'))" if "took (trial_ids st @ [TrialId number]) (go, st')" for go st' tr
  proof (cases "in_progress st'")
    case True
    with that have "trial_ids st @ [TrialId number] = trial_ids st'" "go" by (auto simp: took_def)
    then show ?thesis using between_took by simp
  next
    case False
    then have "always (\<lambda>p. \<not> in_progress (snd p)) (between_trials env origin rp config number tr st')"
      by (intro always_mono [OF loose.between_on [OF loose_refl]]) (auto simp: loose_def)
    then show ?thesis using False by (simp add: dead_took always_yields took_def)
  qed
  have "always (took (trial_ids st @ [TrialId number])) (andthen (measure_trial env origin rp config tp b
      (trial_slot rp number (TrialId number)) st) (\<lambda>(go, st').
        if go then between_trials env origin rp config number (TrialId number) st' else yields (False, st')))"
    by (rule always_andthen [OF measure_took [of st "trial_slot rp number (TrialId number)", unfolded slot]], clarify, erule after)
  moreover have "TrialId_new number = Ok (TrialId number)" using assms by (simp add: TrialId_new_def)
  ultimately show ?thesis
    unfolding run_trial_def by (intro always_andthen_all) (simp add: always_yields took_def over)
qed

lemma run_trials_measure_all:
  defines "all_ids rp \<equiv> map TrialId (ordinals (unat (count_get (measured (rp_trials rp)))))"
  assumes "trial_ids st = []"
  shows "always (\<lambda>st'. in_progress st' \<longrightarrow> trial_ids st' = all_ids rp) (run_trials env origin rp config tp b st)"
proof -
  let ?m = "unat (count_get (measured (rp_trials rp)))"
  let ?I = "\<lambda>ys st. 0 \<notin> set ys \<and> (in_progress st \<longrightarrow> trial_ids st @ map TrialId ys = all_ids rp)"
  have "(of_nat i :: u32) \<noteq> 0" if "1 \<le> i" "i \<le> ?m" for i
  proof -
    have "i < 2 ^ 32" using that(2) unsigned_less [of "count_get (measured (rp_trials rp))", where ?'a = nat] by simp
    then have "unat (of_nat i :: u32) = i" by (simp add: unat_of_nat take_bit_nat_eq_self)
    with that(1) show ?thesis by (metis not_one_le_zero unat_0)
  qed
  then have start: "?I (ordinals ?m) st" using assms(2) by (fastforce simp: ordinals_def all_ids_def)
  have "holds False (\<lambda>st'. in_progress st' \<longrightarrow> trial_ids st' = all_ids rp)
      (each_until (run_trial env origin rp config tp b) (ordinals ?m) st)"
  proof (rule holds_each_until [where I = ?I])
    fix y ys s
    assume i: "?I (y # ys) s"
    then have "always (took (trial_ids s @ [TrialId y])) (run_trial env origin rp config tp b y s)"
      by (intro run_trial_took) auto
    moreover have "always (\<lambda>p. loose s (snd p)) (run_trial env origin rp config tp b y s)"
      by (rule loose.trial_on [OF loose_refl])
    ultimately have "always (\<lambda>p. took (trial_ids s @ [TrialId y]) p \<and> loose s (snd p)) (run_trial env origin rp config tp b y s)"
      by (rule always_conj)
    then show "holds False (\<lambda>(go, s'). if go then ?I ys s' else (in_progress s' \<longrightarrow> trial_ids s' = all_ids rp))
        (run_trial env origin rp config tp b y s)"
      unfolding holds_def by (intro conjI) (erule always_mono, use i in \<open>auto simp: took_def loose_def\<close>)
  qed (use start in simp_all)
  then show ?thesis unfolding run_trials_def by (rule holds_always)
qed

end
