(* ===== verification/RunResults.thy ===== *)
theory RunResults
  imports RunOutcomes
begin

text \<open>
  Properties of a whole run that rest on the interfaces of \<open>RunSteps\<close>: what a completed run and
  its published bundle contain, and that cleanup does not hide an earlier failure.
\<close>

section \<open>Completed runs\<close>

definition all_ids :: "ResolvedPlan \<Rightarrow> TrialId list" where
  "all_ids rp = map TrialId (ordinals (unat (count_get (measured (rp_trials rp)))))"

text \<open>\<open>ids_are l st\<close>: while progress lasts the kept trials are \<open>l\<close>.\<close>

definition ids_are :: "TrialId list \<Rightarrow> RunState \<Rightarrow> bool" where
  "ids_are l st \<longleftrightarrow> (in_progress st \<longrightarrow> trial_ids st = l)"

lemma steady_refl: "steady st st"
  by (simp add: steady_def loose_def)

lemma steady_ids: "steady st st' \<Longrightarrow> ids_are l st \<Longrightarrow> ids_are l st'"
  by (simp add: steady_def loose_def ids_are_def trial_ids_def)

lemma keep_ids:
  assumes "ids_are l st"
  shows "always (steady st) m \<Longrightarrow> always (ids_are l) m"
    and "always (\<lambda>p. steady st (snd p)) m' \<Longrightarrow> always (\<lambda>p. ids_are l (snd p)) m'"
    and "always (\<lambda>(names, s', st'). steady st st') m'' \<Longrightarrow> always (\<lambda>(names, s', st'). ids_are l st') m''"
  by (auto elim!: always_mono intro: steady_ids [OF _ assms])

lemma keep_ids_while:
  assumes "ids_are l st" and "always (steady st) (f st)"
  shows "always (ids_are l) (while_in_progress f st)"
  using keep_ids(1) [OF assms] assms(1) by (simp add: while_in_progress_def always_yields)

lemma experiment_ids:
  assumes "ids_are [] st"
  shows "always (ids_are (all_ids rp)) (run_experiment env origin rp config tp b st)"
proof -
  have trials: "always (ids_are (all_ids rp)) (while_in_progress (run_trials env origin rp config tp b) st')"
    if "ids_are [] st'" for st'
  proof (cases "in_progress st'")
    case True
    with that have "trial_ids st' = []" by (simp add: ids_are_def)
    from run_trials_measure_all [OF this, of rp env origin config tp b] True show ?thesis
      by (auto simp: while_in_progress_def ids_are_def all_ids_def elim!: always_mono)
  qed (simp add: while_in_progress_def always_yields ids_are_def)
  have pre: "always (ids_are []) (while_in_progress (run_diagnostic_phase env origin rp b PreWorkload) st')"
    and mid: "always (ids_are []) (while_in_progress (run_correctness_phase env origin rp b) st')"
    and warm: "always (ids_are []) (while_in_progress (run_warmups env origin rp config b) st')"
    if "ids_are [] st'" for st'
    by (rule keep_ids_while [OF that]; rule steady.diagnostic_phase_on [OF steady_refl]
        steady.correctness_phase_on [OF steady_refl] steady.warmups_on [OF steady_refl])+
  show ?thesis
    unfolding run_experiment_def
    by (rule always_andthen [OF pre [OF assms]], rule always_andthen [OF mid], assumption,
        rule always_andthen [OF warm], assumption, rule trials)
qed

lemma run_started_ids:
  assumes "ids_are [] st"
  shows "always (\<lambda>p. ids_are (all_ids rp) (snd p)) (run_started env origin rp config tp s st)"
proof -
  note refl = steady_refl
  have tail: "always (\<lambda>p. ids_are (all_ids rp) (snd p)) (andthen (run_cleanup env origin rp config tp' s' st') (\<lambda>(names, s, st).
      andthen (stage_evidence env rp names s st) (\<lambda>st. andthen (run_finalization env origin st) (\<lambda>st. yields (s, st)))))"
    if "ids_are (all_ids rp) st'" for tp' s' st'
    by (rule always_andthen [OF keep_ids(3) [OF that steady.cleanup_on [OF refl]]], clarify,
        rule always_andthen [OF keep_ids(1) [OF _ steady.evidence_on [OF refl]]], assumption,
        rule always_andthen [OF keep_ids(1) [OF _ steady.finalization_on [OF refl]]], assumption)
      (simp add: always_yields)
  have middle: "always (\<lambda>p. ids_are (all_ids rp) (snd p)) (andthen (run_experiment env origin rp config tp' (bindings s') st') (\<lambda>st.
      andthen (run_cleanup env origin rp config tp' s' st) (\<lambda>(names, s, st).
      andthen (stage_evidence env rp names s st) (\<lambda>st. andthen (run_finalization env origin st) (\<lambda>st. yields (s, st))))))"
    if "ids_are [] st'" for tp' s' st'
    by (rule always_andthen [OF experiment_ids [OF that]]) (rule tail)
  show ?thesis
    unfolding run_started_def
    by (rule always_andthen [OF keep_ids(2) [OF assms steady.startup_on [OF refl]]], clarsimp,
        rule always_andthen [OF keep_ids(2) [OF _ steady.deferred_on [OF refl]]], assumption, clarsimp, rule middle)
qed

lemma new_ids: "ids_are [] (RunState_new w)"
  by (simp add: ids_are_def trial_ids_def RunState_new_def)

text \<open>Everything known of the state at the end of a run.\<close>

definition run_end :: "sha \<Rightarrow> ResolvedPlan \<Rightarrow> BundleWriter \<Rightarrow> RunState \<Rightarrow> bool" where
  "run_end sha rp w st \<longleftrightarrow> ids_are (all_ids rp) st \<and> writer_kept sha (RunState_new w) st \<and> loose (RunState_new w) st"

lemma run_started_end:
  "always (\<lambda>p. run_end (r_sha env) rp w (snd p)) (run_started env origin rp config tp s (RunState_new w))"
  unfolding run_end_def
  by (intro always_conj run_started_ids new_ids kept.run_started_on loose.run_started_on loose_refl)
    (simp add: writer_kept_def)

section \<open>The published bundle\<close>

lemma finalized_manifest:
  assumes "finalize sha codec encode published w st v subj drivers ts cmp rep now = Ok r"
    and "codec_agrees codec encode" and "writer_inv sha w"
  shows "assemble_manifest w st v subj drivers ts cmp rep now = Ok (rd_manifest r)
    \<and> validate_manifest (rd_manifest r) = Ok ()"
proof -
  from assms(1) obtain m bytes where m: "assemble_manifest w st v subj drivers ts cmp rep now = Ok m"
    "validate_manifest m = Ok ()" "encode m = Some bytes" "length bytes \<le> MAX_MANIFEST_BYTES"
    "bundle_open codec (published_dir w bytes) = Ok r"
    by (auto simp: finalize_def ok_simps split: sum.splits option.splits if_splits)
  have "m_schema_version m = SchemaVersion 2"
    using m(1) by (auto simp: assemble_manifest_def EVIDENCE_MANIFEST_SCHEMA_VERSION_def split: option.splits)
  with assms(2) m(3) have dec: "decode_manifest codec bytes = Ok (m, None)"
    by (simp add: codec_agrees_def decode_manifest_def)
  have "map_of (dir_tree (published_dir w bytes)) [''manifest.json''] = Some (Regular bytes)"
    using assms(3) by (simp add: writer_inv_def published_dir_def nodes_get bt_get_insert)
  with m(4,5) dec have "rd_manifest r = m"
    by (auto simp: bundle_open_def Let_def secure_open_def read_bounded_Ok split: if_splits sum.splits)
  with m show ?thesis by simp
qed

lemma sorted_ordinals: "n < 2 ^ 32 \<Longrightarrow> sorted (ordinals n)"
  unfolding ordinals_def
  by (auto simp: sorted_iff_nth_mono word_le_nat_alt unat_of_nat take_bit_nat_eq_self simp del: upt_Suc of_nat_Suc)

lemma assembled_fields:
  "assemble_manifest w st v subj drivers ts cmp rep now = Ok m \<Longrightarrow> m_execution_status m = Some st
    \<and> m_run_id m = w_run_id w \<and> m_artifacts m = map snd (w_artifacts w)"
  by (auto simp: assemble_manifest_def split: option.splits)

lemma assembled_trials:
  assumes "assemble_manifest w st v subj drivers ts cmp rep now = Ok m" and "map trial_ident ts = all_ids rp"
  shows "map trial_ident (m_trials m) = all_ids rp"
proof -
  have ids: "map trial_ident (map sorted_trial ts) = all_ids rp"
    using assms(2) by (simp add: sorted_trial_def comp_def)
  have "map (\<lambda>t. trial_get (trial_ident t)) (map sorted_trial ts) = map trial_get (all_ids rp)"
    by (simp add: ids [symmetric])
  also have "\<dots> = ordinals (unat (count_get (measured (rp_trials rp))))" by (simp add: all_ids_def comp_def)
  finally have keys: "map (\<lambda>t. trial_get (trial_ident t)) (map sorted_trial ts)
      = ordinals (unat (count_get (measured (rp_trials rp))))" .
  have "unat (count_get (measured (rp_trials rp))) < 2 ^ 32"
    using unsigned_less [of "count_get (measured (rp_trials rp))", where ?'a = nat] by simp
  then have "sorted (map (\<lambda>t. trial_get (trial_ident t)) (map sorted_trial ts))"
    unfolding keys by (rule sorted_ordinals)
  then have "m_trials m = map sorted_trial ts"
    using assms(1) by (auto simp: assemble_manifest_def sort_key_id_if_sorted split: option.splits)
  with ids show ?thesis by simp
qed

text \<open>What an outcome says, in one place; the properties below are its parts.\<close>

definition outcome_ok :: "ResolvedPlan \<Rightarrow> BundleWriter \<Rightarrow> RunOutcome \<Rightarrow> bool" where
  "outcome_ok rp w out \<longleftrightarrow> (let m = ro_manifest out in
     (ro_execution_status out = RunCompleted \<longrightarrow> ro_primary_failure out = None \<and> ro_cleanup_failures out = []
        \<and> map trial_ident (m_trials m) = all_ids rp)
     \<and> validate_manifest m = Ok () \<and> m_execution_status m = Some (ro_execution_status out)
     \<and> m_run_id m = w_run_id w \<and> ro_bundle_path out = w_final_path w
     \<and> length (m_artifacts m) \<le> unat (count_get (artifact_count (w_bounds w)))
     \<and> byte_sum (m_artifacts m) \<le> unat (ArtifactBounds.total_bytes (w_bounds w)))"

lemma finalized_outcome:
  assumes fin: "finalize sha codec encode published (st_writer st) (st_status st) None subj drivers (st_trials st) None None now = Ok r"
    and codec: "codec_agrees codec encode" and inv: "writer_inv sha w"
    and ended: "run_end sha rp w st" and clean: "st_staging_error st = None"
  shows "outcome_ok rp w \<lparr>ro_execution_status = st_status st, ro_primary_failure = st_primary_failure st,
     ro_cleanup_failures = st_cleanup_failures st, ro_phases = st_phases st,
     ro_bundle_path = w_final_path (st_writer st), ro_manifest = rd_manifest r,
     ro_telemetry_preflight_failure = st_telemetry_preflight_failure st\<rparr>"
proof -
  have same: "w_final_path (st_writer st) = w_final_path w" "w_run_id (st_writer st) = w_run_id w"
    "w_bounds (st_writer st) = w_bounds w" and inv': "writer_inv sha (st_writer st)"
    using ended inv by (auto simp: run_end_def writer_kept_def RunState_new_def)
  note m = finalized_manifest [OF fin codec inv']
  have fields: "m_execution_status (rd_manifest r) = Some (st_status st)"
    "m_run_id (rd_manifest r) = w_run_id (st_writer st)" "m_artifacts (rd_manifest r) = map snd (w_artifacts (st_writer st))"
    using assembled_fields [OF conjunct1 [OF m]] by simp_all
  have bounded: "length (w_artifacts (st_writer st)) \<le> unat (count_get (artifact_count (w_bounds w)))"
    "byte_sum (map snd (w_artifacts (st_writer st))) \<le> unat (ArtifactBounds.total_bytes (w_bounds w))"
    using inv' same by (auto simp: writer_inv_def word_le_nat_alt)
  have done_: "st_primary_failure st = None \<and> st_cleanup_failures st = [] \<and> map trial_ident (m_trials (rd_manifest r)) = all_ids rp"
    if "st_status st = RunCompleted"
  proof -
    have "in_progress st" using that clean by (simp add: in_progress_def)
    with ended have "st_primary_failure st = None" "st_cleanup_failures st = []" "map trial_ident (st_trials st) = all_ids rp"
      by (auto simp: run_end_def loose_def RunState_new_def ids_are_def trial_ids_def)
    with m show ?thesis by (auto intro: assembled_trials)
  qed
  show ?thesis
    unfolding outcome_ok_def Let_def using m fields same bounded done_ by simp
qed

lemma publish_outcome:
  assumes "codec_agrees (r_codec env) (r_encode_manifest env)" and "writer_inv (r_sha env) w"
    and "run_end (r_sha env) rp w st"
  shows "always (\<lambda>result. \<forall>out. result = Ok out \<longrightarrow> outcome_ok rp w out) (publish env rp st)"
proof (cases "st_staging_error st")
  case None
  with assms show ?thesis
    unfolding publish_def
    by (auto simp: always_yields intro!: always_andthen_all finalized_outcome split: sum.split)
qed (simp add: publish_def always_yields)

lemma run_outcome:
  assumes "codec_agrees (r_codec env) (r_encode_manifest env)" and "writer_inv (r_sha env) w"
  shows "always (\<lambda>(result, s'). \<forall>out. result = Ok out \<longrightarrow> outcome_ok rp w out)
    (execute_run_with_diagnostics env rp w s)"
proof -
  have "always (\<lambda>(result, s'). \<forall>out. result = Ok out \<longrightarrow> outcome_ok rp w out)
      (andthen (run_started env origin rp config tp s (RunState_new w)) (\<lambda>(s, st).
         andthen (publish env rp st) (\<lambda>result. yields (result, s))))" for origin config tp
    by (rule always_andthen [OF run_started_end [where env = env]], clarsimp,
        rule always_andthen [OF publish_outcome [OF assms]], assumption) (simp add: always_yields)
  then show ?thesis
    unfolding execute_run_with_diagnostics_def
    by (auto simp: always_yields intro!: always_andthen_all split: sum.split)
qed



section \<open>Cleanup after a failure\<close>

text \<open>\<open>standing c st\<close>: the run has failed, and its status and first failure are \<open>c\<close>, unless
  evidence could not be staged or a later cancellation took their place.\<close>

definition standing :: "ExecutionStatus \<times> FailureCategory option \<Rightarrow> RunState \<Rightarrow> bool" where
  "standing c st \<longleftrightarrow> st_status st \<noteq> RunCompleted \<and> (st_staging_error st = None \<longrightarrow>
     (st_status st, st_primary_failure st) \<in> {c, (RunCancelled, Some CancelledByUser)})"

lemma standing_cong:
  "st_status st' = st_status st \<Longrightarrow> st_primary_failure st' = st_primary_failure st
    \<Longrightarrow> st_staging_error st' = st_staging_error st \<Longrightarrow> standing c st' = standing c st"
  by (simp add: standing_def)

lemma standing_updates:
  assumes "standing c st"
  shows "standing c (st \<lparr>st_phases := es\<rparr>)" "standing c (cleanup_failed s f st)"
    "standing c (st \<lparr>st_cleanup_failures := fs\<rparr>)" "standing c (cleanup_failed s f (st \<lparr>st_cleanup_failures := fs\<rparr>))"
    "standing c (required_diagnostic_failed PostWorkload s f st)" "standing c (staging_stop e st)"
    "standing c (record_skipped_diagnostic env q slot reason st)"
    "standing c (record_skipped_diagnostic env q slot reason (failed RunCancelled CancelledByUser st))"
    "standing c (st \<lparr>st_writer := w\<rparr>)" "standing c (st \<lparr>st_diagnostics := ds\<rparr>)"
  using assms by (auto simp: standing_def cleanup_failed_def required_diagnostic_failed_def staging_stop_def
      record_skipped_diagnostic_def failed_def)

lemma standing_timeline:
  assumes "standing c st"
  shows "always (\<lambda>p. standing c (snd p)) (begin_phase env origin k ordinal tr st)"
    and "always (standing c) (finish_phase env origin i outcome f st)"
    and "always (standing c) (note_cancellation env st)"
    and "always (\<lambda>p. standing c (snd p)) (finish_and env origin i outcome f go st)"
proof -
  show "always (\<lambda>p. standing c (snd p)) (begin_phase env origin k ordinal tr st)"
    unfolding begin_phase_def by (rule always_andthen_all) (simp add: Let_def always_yields standing_updates assms)
  show fin: "always (standing c) (finish_phase env origin i outcome f st)"
    unfolding finish_phase_def
    by (auto simp: always_panics always_yields standing_updates assms intro!: always_andthen_all)
  show "always (standing c) (note_cancellation env st)"
    unfolding note_cancellation_def
    by (rule always_andthen_all) (use assms in \<open>auto simp: always_yields standing_def\<close>)
  show "always (\<lambda>p. standing c (snd p)) (finish_and env origin i outcome f go st)"
    unfolding finish_and_def by (rule always_andthen [OF fin]) (simp add: always_yields)
qed

lemma standing_record:
  "standing c st \<Longrightarrow> always (\<lambda>p. standing c (snd p)) (stage_diagnostic_record env q slot out st)"
  unfolding stage_diagnostic_record_def
  by (auto simp: always_yields intro!: always_andthen [where Q = "\<lambda>p. standing c (snd p)"] split: sum.split)
    (auto simp: with_writer_def always_yields standing_updates intro!: always_andthen_all)

lemma standing_post:
  assumes "standing c st"
  shows "always (standing c) (run_post_diagnostics env origin rp b st)"
proof -
  have seen: "always (\<lambda>p. standing c (snd p)) (observed_diagnostic env origin i PostWorkload q out st')"
    and broke: "always (\<lambda>p. standing c (snd p)) (broken_diagnostic env origin i PostWorkload q cause st')"
    if "standing c st'" for i q out cause st'
    unfolding observed_diagnostic_def broken_diagnostic_def Let_def
    by (rule always_andthen [OF standing_record [OF that]];
        auto intro!: standing_timeline standing_updates split: sum.split)+
  have noted: "always (\<lambda>p. standing c (snd p)) (if go then andthen (note_cancellation env st') (\<lambda>st. yields (True, st)) else yields (False, st'))"
    if "standing c st'" for go st'
    using that by (auto simp: always_yields intro!: always_andthen [OF standing_timeline(3)])
  have answered: "always (\<lambda>p. standing c (snd p)) (andthen (ask g) (\<lambda>reply. andthen (case race_result reply of
      Inl cause \<Rightarrow> broken_diagnostic env origin i PostWorkload q cause st'
    | Inr out \<Rightarrow> observed_diagnostic env origin i PostWorkload q out st')
      (\<lambda>(go, st). if go then andthen (note_cancellation env st) (\<lambda>st. yields (True, st)) else yields (False, st))))"
    if "standing c st'" for i q st' g
    by (rule always_andthen_all, rule always_andthen [where Q = "\<lambda>p. standing c (snd p)"])
      (auto simp: seen [OF that] broke [OF that] intro: noted split: sum.split)
  have one: "always (\<lambda>p. standing c (snd p)) (execute_diagnostic env origin b PostWorkload q st')" if "standing c st'" for q st'
    unfolding execute_diagnostic_def
    by (rule always_andthen [OF standing_timeline(1) [OF that]])
      (auto intro!: standing_timeline standing_updates answered)
  have each: "always (\<lambda>p. standing c (snd p)) (run_one_diagnostic env origin b PostWorkload q st')" if "standing c st'" for q st'
    unfolding run_one_diagnostic_def
    using that by (auto simp: always_yields standing_updates intro!: always_andthen_all one)
  have "always (standing c) (each_until (run_one_diagnostic env origin b PostWorkload) qs st')" if "standing c st'" for qs st'
    using that
  proof (induction qs arbitrary: st')
    case (Cons q qs)
    show ?case
      unfolding each_until.simps
      by (rule always_andthen [OF each [OF Cons.prems]]) (auto simp: Cons.IH always_yields)
  qed (simp add: always_yields)
  then show ?thesis
    unfolding run_post_diagnostics_def run_diagnostic_phase_def using assms by (simp add: always_yields)
qed

lemma standing_drains:
  assumes "standing c st"
  shows "always (standing c) (run_drain env origin config st)"
    and "always (standing c) (run_telemetry_drain env origin config tp st)"
proof -
  have closed: "always (standing c) (andthen (case reply of
         None \<Rightarrow> finish_phase env origin i OutcomeTimedOut (Some TimedOut) (cleanup_failed RunFailed DrainFailed st')
       | Some x \<Rightarrow> (case x of
           Inl cause \<Rightarrow> finish_phase env origin i OutcomeFailed (Some (drain_cause cause))
             (cleanup_failed (status_for (drain_cause cause)) (drain_cause cause) st')
         | Inr _ \<Rightarrow> finish_phase env origin i OutcomeCompleted None st')) (note_cancellation env))"
    if "standing c st'" for reply :: "(FailureCategory + unit) option" and i st'
    by (rule always_andthen [where Q = "standing c"])
      (auto intro!: standing_timeline standing_updates simp: that split: option.split sum.split)
  show "always (standing c) (run_drain env origin config st)"
    unfolding run_drain_def
    by (rule always_andthen [OF standing_timeline(1) [OF assms]]) (auto intro!: always_andthen_all closed)
  have shut: "always (standing c) (andthen (if fs \<noteq> []
           then finish_phase env origin i OutcomeFailed (Some TelemetryFailed)
             (cleanup_failed RunFailed TelemetryFailed (st' \<lparr>st_cleanup_failures := st_cleanup_failures st' @ fs\<rparr>))
           else finish_phase env origin i OutcomeCompleted None st') (note_cancellation env))"
    if "standing c st'" for fs i st'
    by (rule always_andthen [where Q = "standing c"]) (auto intro!: standing_timeline standing_updates simp: that)
  have "always (standing c) (andthen (begin_phase env origin PhaseDrain None None st) (\<lambda>(i, st).
       andthen (drain_collectors env (drain_timeout config) (tp_active tp) []) (\<lambda>fs.
       andthen (if fs \<noteq> []
           then finish_phase env origin i OutcomeFailed (Some TelemetryFailed)
             (cleanup_failed RunFailed TelemetryFailed (st \<lparr>st_cleanup_failures := st_cleanup_failures st @ fs\<rparr>))
           else finish_phase env origin i OutcomeCompleted None st) (note_cancellation env))))"
    by (rule always_andthen [OF standing_timeline(1) [OF assms]], clarify, rule always_andthen_all, rule shut) simp
  then show "always (standing c) (run_telemetry_drain env origin config tp st)"
    by (simp add: run_telemetry_drain_def always_yields assms)
qed

lemma standing_teardown:
  assumes "standing c st"
  shows "always (\<lambda>(names, s', st'). standing c st') (run_teardown env origin s st)"
proof -
  have idle: "always (\<lambda>(names, s', st'). standing c st')
      (andthen (finish_phase env origin i OutcomeCompleted None st') (\<lambda>st. yields ([], s, st)))" if "standing c st'" for i st'
    by (rule always_andthen [OF standing_timeline(2) [OF that]]) (simp add: always_yields)
  have closing: "always (\<lambda>(names, s', st'). standing c st') (andthen (if st_cleanup_failures st' = []
             then finish_phase env origin i OutcomeCompleted None st'
             else finish_phase env origin i OutcomeFailed (Some TeardownFailed)
               (cleanup_failed RunFailed TeardownFailed st')) (\<lambda>st. yields (names, s', st)))"
    if "standing c st'" for i st' names s'
    using that by (auto simp: always_yields intro!: always_andthen [where Q = "standing c"] standing_timeline standing_updates)
  have stopping: "always (\<lambda>(names, s', st'). standing c st')
      (andthen (session_shutdown (r_host env) s) (\<lambda>(rep, s).
         andthen (note_cancellation env
             (st' \<lparr>st_cleanup_failures := st_cleanup_failures st' @ shutdown_failures rep\<rparr>)) (\<lambda>st.
         andthen (if st_cleanup_failures st = []
             then finish_phase env origin i OutcomeCompleted None st
             else finish_phase env origin i OutcomeFailed (Some TeardownFailed)
               (cleanup_failed RunFailed TeardownFailed st)) (\<lambda>st.
           yields (stopped_order rep, s, st)))))" if "standing c st'" for i st'
    by (rule always_andthen_all, clarify,
        rule always_andthen [OF standing_timeline(3) [OF standing_updates(3) [OF that]]], rule closing)
  show ?thesis
    unfolding run_teardown_def
    by (rule always_andthen [OF standing_timeline(1) [OF assms]]) (auto intro: idle stopping)
qed

text \<open>
  C6: The cleanup tail never hides what went wrong before it.  When a run enters cleanup with a
  status other than completed, a failing drain, collector, required diagnostic or teardown leaves
  that status and its primary failure in place; the only thing that can take their place is a
  cancellation by the user, or an evidence error, after which no outcome is given at all.
\<close>
theorem cleanup_never_masks:
  assumes "st_status st \<noteq> RunCompleted"
  shows "always (\<lambda>(names, s', st'). st_status st' \<noteq> RunCompleted \<and> (st_staging_error st' = None \<longrightarrow>
      (st_status st' = st_status st \<and> st_primary_failure st' = st_primary_failure st)
      \<or> (st_status st' = RunCancelled \<and> st_primary_failure st' = Some CancelledByUser)))
    (run_cleanup env origin rp config tp s st)"
proof -
  let ?c = "(st_status st, st_primary_failure st)"
  have "standing ?c st" using assms by (simp add: standing_def)
  then have "always (\<lambda>(names, s', st'). standing ?c st') (run_cleanup env origin rp config tp s st)"
    unfolding run_cleanup_def
    by (intro always_andthen [OF standing_drains(1)], assumption)
      (rule always_andthen [OF standing_drains(2)], assumption,
       rule always_andthen [OF standing_post], assumption, rule standing_teardown)
  then show ?thesis by (rule always_mono) (auto simp: standing_def)
qed

section \<open>A diagnostic that breaks\<close>

lemma index_without_producer:
  assumes "rp_diagnostics rp \<noteq> []" and "st_diagnostics st = [r]" and "dr_producer_version r = []"
    and "dr_disposition r \<noteq> ''skipped''"
  shows "always (\<lambda>(result, w). \<exists>e. result = Err e) (stage_diagnostics_index env rp st)"
proof -
  have "\<not> is_ok (validate_diagnostics_index (diagnostics_index rp [r]))"
    using assms(3,4) by (simp add: validate_diagnostics_index_def diagnostics_index_def provenance_ok_def
        all_skipped_def Let_def ok_simps is_ok_def reject_if_def)
  then obtain e where "validate_diagnostics_index (diagnostics_index rp [r]) = Err e"
    by (cases "validate_diagnostics_index (diagnostics_index rp [r])") (auto simp: is_ok_def)
  with assms(1,2) show ?thesis
    by (simp add: stage_diagnostics_index_def Let_def attempt_def lift_result_def map_err_def always_yields)
qed

text \<open>
  C7: An optional diagnostic whose executor fails leaves evidence that cannot be staged.  Such a
  failure is meant to be recorded and passed over, and the loop does go on with an unchanged
  status; but the placeholder record has no producer version, so when it is the first record of
  the run, staging the diagnostics index from the state it leaves fails in every world.
\<close>
theorem broken_diagnostic_loses_bundle:
  assumes "\<not> diag_required q" and "rp_diagnostics rp \<noteq> []" and "st_diagnostics st = []"
  shows "always (\<lambda>(go, st'). go \<longrightarrow> st_status st' = st_status st
      \<and> always (\<lambda>(result, w). \<exists>e. result = Err e) (stage_diagnostics_index env rp st'))
    (broken_diagnostic env origin i slot q cause st)"
proof -
  let ?r = "executed_record env q slot (failed_diagnostic q cause)"
  let ?P = "\<lambda>(x, st'). x = Ok () \<longrightarrow> st_status st' = st_status st \<and> st_diagnostics st' = [?r]"
  have rec: "always ?P (stage_diagnostic_record env q slot (failed_diagnostic q cause) st)"
    unfolding stage_diagnostic_record_def
    by (auto simp: always_yields failed_diagnostic_def
        intro!: always_andthen [where Q = "\<lambda>(x, st'). st_status st' = st_status st \<and> st_diagnostics st' = []"] split: sum.split)
      (auto simp: with_writer_def always_yields assms(3) intro!: always_andthen_all)
  have r: "dr_producer_version ?r = []" "dr_disposition ?r \<noteq> ''skipped''"
    by (simp_all add: executed_record_def failed_diagnostic_def diagnostic_disposition_label_def)
  have fin: "always (\<lambda>(go, st'). go \<longrightarrow> st_status st' = st_status st2 \<and> st_diagnostics st' = st_diagnostics st2)
      (finish_and env origin i outcome f go' st2)" for outcome f go' st2
  proof -
    have "always (\<lambda>st'. st_status st' = st_status st2 \<and> st_diagnostics st' = st_diagnostics st2)
        (finish_phase env origin i outcome f st2)"
      unfolding finish_phase_def by (auto simp: always_yields always_panics intro!: always_andthen_all)
    then show ?thesis
      unfolding finish_and_def by (rule always_andthen) (simp add: always_yields)
  qed
  show ?thesis
    unfolding broken_diagnostic_def
  proof (rule always_andthen [OF rec], clarify)
    fix x :: "BundleError + unit" and st2 :: RunState
    assume p: "x = Ok () \<longrightarrow> st_status st2 = st_status st \<and> st_diagnostics st2 = [?r]"
    have "always (\<lambda>(go, st'). go \<longrightarrow> st_status st' = st_status st \<and> st_diagnostics st' = [?r])
        (finish_and env origin i OutcomeCompleted None True st2)" if "x = Ok ()"
      by (rule always_mono [OF fin]) (use p that in auto)
    moreover have "always (\<lambda>(go, st'). go \<longrightarrow> Q st') (finish_and env origin i outcome f False st3)" for Q outcome f st3
      unfolding finish_and_def by (auto simp: always_yields intro: always_andthen_all)
    ultimately show "always (\<lambda>(go, st'). go \<longrightarrow> st_status st' = st_status st
        \<and> always (\<lambda>(result, w). \<exists>e. result = Err e) (stage_diagnostics_index env rp st')) (case x of
         Inl _ \<Rightarrow> finish_and env origin i OutcomeFailed None False
           (staging_stop (InvalidManifest ''diagnostic evidence staging failed'') st2)
       | Inr _ \<Rightarrow>
         if diag_required q
         then finish_and env origin i (outcome_for cause) (Some cause) (slot \<noteq> PreWorkload)
           (required_diagnostic_failed slot (if cause = CancelledByUser then RunCancelled else RunInvalid) cause st2)
         else finish_and env origin i OutcomeCompleted None True st2)"
      using assms(1)
      by (cases x) (auto elim!: always_mono intro: index_without_producer [OF assms(2) _ r])
  qed
qed

end
