(* ===== verification/RunSamples.thy ===== *)
theory RunSamples
  imports RunResults SessionSamples
begin

text \<open>
  A concrete run: the host and the session of \<open>SessionSamples\<close>, an executor that finishes each
  invocation, no collectors and no checks, one warmup and two trials.
\<close>

definition quiet_env :: "nat RunEnv" where
  "quiet_env = \<lparr>r_host = calm_host, r_sha = zero_sha, r_storage = (\<lambda>w. ((calm_io, \<lambda>_. True), w)),
     r_publish = (\<lambda>w. ((True, 9), w)), r_codec = tag_codec, r_encode_manifest = tag_encode,
     r_execute = (\<lambda>c limit w. (ExecDone (Ok no_output), w + 3)), r_drain = (\<lambda>limit w. (Some (Ok ()), w)),
     r_run_evidence = (\<lambda>w. (Ok None, w)), r_reset_hooks = [], r_reset = (\<lambda>t limit w. (Replied (Ok ()), w)),
     r_collectors = [], r_collector_preflight = (\<lambda>c limit w. (RaceTimedOut, w)),
     r_collector_start = (\<lambda>c t limit w. (RaceTimedOut, w)), r_collector_stop = (\<lambda>c t limit w. (None, w)),
     r_collector_drain = (\<lambda>c limit w. (None, w)), r_diagnostic_sources = [],
     r_diagnostic = (\<lambda>c x limit w. (RaceTimedOut, w)), r_correctness_sources = [],
     r_correctness = (\<lambda>c x limit w. (RaceTimedOut, w)), r_current_dir = Some ''/ws'',
     r_content_fs = \<lparr>cf_canonicalize = (\<lambda>p. Some p), cf_symlink_metadata = (\<lambda>p. None),
       cf_metadata = (\<lambda>p. None), cf_read_dir = (\<lambda>p. None), cf_read = (\<lambda>p. None), cf_lossy = (\<lambda>p. p)\<rparr>,
     r_decode_corpus = (\<lambda>b. None), r_decode_security_result = (\<lambda>b. None),
     r_decode_corpus_result = (\<lambda>b. None), r_network_path_document = (\<lambda>b. None),
     r_encode_trial = (\<lambda>t. Some ''t''), r_encode_metrics = (\<lambda>m. Some ''m''), r_encode_warmup = (\<lambda>x. Some ''w''),
     r_encode_phases = (\<lambda>x. Some ''p''), r_encode_diagnostics = (\<lambda>x. Some ''d''),
     r_encode_security = (\<lambda>x. Some ''s''), r_encode_topology = (\<lambda>x. Some ''r''),
     r_encode_lifecycle = (\<lambda>x. Some ''l'')\<rparr>"

definition quick_plan :: ResolvedPlan where
  "quick_plan = sample_resolved \<lparr>rp_trials := \<lparr>measured = PositiveCount 2, warmup = 1, cooldown_ms = None,
     reset_policy = NoReset,
     timeouts = [(Name ''drain'', DurationMs 5), (Name ''measurement'', DurationMs 20)]\<rparr>\<rparr>"

definition roomy_writer :: BundleWriter where
  "roomy_writer = start_writer \<lparr>w_bounds :=
     \<lparr>artifact_count = PositiveCount 100, artifact_bytes = 4000000, total_bytes = 100000000\<rparr>\<rparr>"


lemma quiet_env_fields:
  "r_host quiet_env = calm_host" "r_sha quiet_env = zero_sha" "r_codec quiet_env = tag_codec"
  "r_encode_manifest quiet_env = tag_encode" "r_storage quiet_env = (\<lambda>w. ((calm_io, \<lambda>_. True), w))"
  by (simp_all add: quiet_env_def)

lemma tag_codec_agrees: "codec_agrees tag_codec tag_encode"
  by (auto simp: codec_agrees_def tag_codec_def tag_encode_def split: if_splits)

lemma plain_specs: "\<forall>p \<in> set (specs (spawn_plan (url_session None))). launchable p"
  by (simp add: url_session_def url_spawn_plan_def launchable_def spawned_spec_def)

definition quick_config :: PhaseConfig where
  "quick_config = \<lparr>measurement_timeout = millis 20, warmup_timeout = millis 20, drain_timeout = millis 5,
     telemetry_timeout = millis 20, reset_binding = None\<rparr>"

lemma quick_spawns: "spawn_order (url_session None) = [''subject'', ''web'']"
  by (simp add: spawn_order_def url_session_def url_spawn_plan_def order_def)

lemma quick_plan_fields:
  "rp_trials quick_plan = \<lparr>measured = PositiveCount 2, warmup = 1, cooldown_ms = None, reset_policy = NoReset,
     timeouts = [(Name ''drain'', DurationMs 5), (Name ''measurement'', DurationMs 20)]\<rparr>"
  "rp_paired quick_plan = None" "rp_network_path quick_plan = None" "rp_diagnostics quick_plan = []"
  "rp_security_checks quick_plan = []" "rp_http_corpus_checks quick_plan = []" "rp_telemetry quick_plan = []"
  "rp_topology quick_plan = []" "rp_workload quick_plan = FiniteCount (Name ''web'') (PositiveCount 10) (PositiveCount 2)"
  by (simp_all add: quick_plan_def sample_resolved_def)

lemma quick_preflight:
  "static_preflight quiet_env roomy_writer (spawn_order (url_session None)) quick_plan = Ok quick_config"
proof -
  have config: "preflight quick_plan (r_reset_hooks quiet_env) = Ok quick_config"
    by (simp add: preflight_def quick_plan_fields timeout_keys_def timeout_for_def bt_get_def duration_of_def
        millis_def reset_config_def reset_target_def quick_config_def)
  have corpus: "preflight_http_corpus_inputs quiet_env quick_plan = Ok ()"
    by (simp add: preflight_http_corpus_inputs_def quick_plan_fields)
  note small = or_preflight_def add_opt_def add64_def fits64_def mul64_def
  have bound: "checked_phase_bound quick_plan = Ok 10"
    by (simp add: checked_phase_bound_def phase_bound_of_def small quick_plan_fields diagnostic_execution_count_def
        FIXED_PHASE_EVENTS_def MAX_PHASE_EVENTS_def)
  have counts: "check_artifact_counts roomy_writer [''subject'', ''web''] quick_plan = Ok ()"
    by (simp add: check_artifact_counts_def small quick_plan_fields telemetry_artifact_count_def
        security_artifact_count_def required_artifact_count_def remaining_artifact_count_def roomy_writer_def
        start_writer_def reject_if_def)
  have bytes: "phase_bytes 10 = Some 4608" "lifecycle_byte_bound [''subject'', ''web''] = Some 3152"
    "topology_byte_bound [''subject'', ''web''] = Some 4176" "telemetry_byte_estimate quick_plan = Some (0, 0)"
    by (simp_all add: phase_bytes_def lifecycle_byte_bound_def topology_byte_bound_def identities_byte_bound_def
        telemetry_byte_estimate_def small quick_plan_fields)
  have needed: "required_runner_bytes quick_plan 4608 3152 4176 0 = Some 14496"
    by (simp add: required_runner_bytes_def small quick_plan_fields network_path_bytes_def
        security_evidence_byte_estimate_def http_corpus_evidence_byte_estimate_def)
  have logs: "add_log_bytes roomy_writer quick_plan [''subject'', ''web''] 14496 = Ok (14496 + 2 * unat DEFAULT_SUBJECT_LOG_LIMIT_BYTES)"
    by (simp add: max_artifact_bytes_def roomy_writer_def log_limit_of_def DEFAULT_SUBJECT_LOG_LIMIT_BYTES_def
        small quick_plan_fields)
  have room: "max_artifact_bytes roomy_writer = 4000000" "remaining_total_bytes roomy_writer = 100000000"
    by (simp_all add: max_artifact_bytes_def remaining_total_bytes_def roomy_writer_def start_writer_def)
  have "preflight_evidence_capacity roomy_writer [''subject'', ''web''] quick_plan 10 = Ok ()"
    by (simp add: preflight_evidence_capacity_def counts bytes needed logs or_preflight_def artifact_floor_def
        network_path_bytes_def quick_plan_fields room DEFAULT_SUBJECT_LOG_LIMIT_BYTES_def reject_if_def
        del: add_log_bytes.simps)
  with config corpus bound show ?thesis by (simp add: static_preflight_def quick_spawns)
qed


theorem run_always_returns_witness:
  "\<exists>rp s. session_prepare rp sample_prepare 0 = Some (Ok s)
     \<and> returns (execute_run_with_diagnostics quiet_env quick_plan roomy_writer s)"
proof -
  obtain rp where prep: "session_prepare rp sample_prepare 0 = Some (Ok (url_session None))"
    using plain_session by blast
  have "ticking (r_host quiet_env) (\<lambda>w. w)" by (simp add: quiet_env_fields calm_host_ticking)
  from run_always_returns [OF prep plain_specs this] prep show ?thesis by blast
qed



definition broken_state :: RunState where
  "broken_state = failed RunFailed WorkloadFailed (RunState_new roomy_writer)"

theorem cleanup_never_masks_witness:
  "always (\<lambda>(names, s', st'). st_status st' \<noteq> RunCompleted \<and> (st_staging_error st' = None \<longrightarrow>
      (st_status st' = RunFailed \<and> st_primary_failure st' = Some WorkloadFailed)
      \<or> (st_status st' = RunCancelled \<and> st_primary_failure st' = Some CancelledByUser)))
    (run_cleanup quiet_env 0 quick_plan quick_config no_telemetry_plan (url_session None) broken_state)"
  using cleanup_never_masks [of broken_state quiet_env 0 quick_plan quick_config no_telemetry_plan "url_session None"]
  by (simp add: broken_state_def failed_def)

definition dns_request :: DiagnosticRequest where
  "dns_request = \<lparr>diag_id = Name ''d'', diag_source = Name ''eggprobe'', diag_phase = PreWorkload,
     diag_target = Name ''web'', diag_probes = [Dns], diag_required = False, diag_timeout_ms = DurationMs 50\<rparr>"

definition probed_plan :: ResolvedPlan where
  "probed_plan = quick_plan \<lparr>rp_diagnostics := [dns_request]\<rparr>"

definition probing_state :: RunState where
  "probing_state = (RunState_new roomy_writer) \<lparr>st_phases := [new_event 0 PhaseDiagnosticsPre None None 0]\<rparr>"

lemma probe_path: "\<not> unsafe_path ''diagnostics/pre/d.json''"
  by code_simp

lemma json_media_type: "\<not> bad_media_type JSON"
  by (simp add: bad_media_type_def has_control_plain byte_def JSON_def)

lemma probe_admitted:
  "admission (ArtifactPath ''diagnostics/pre/d.json'') JSON roomy_writer = Ok ()"
  by (simp add: admission_def json_media_type reject_if_def roomy_writer_def start_writer_def bt_contains_def
      MAX_ARTIFACT_COUNT_def)

lemma probe_stored:
  "\<exists>rec w'. add_artifact zero_sha calm_io (ArtifactPath ''diagnostics/pre/d.json'') (RoleOther diagnostics_role_label)
     JSON Redacted [Chunk ''{}'' True] roomy_writer = (Ok rec, w')"
  by (simp add: add_artifact_def probe_admitted)
    (simp add: to_path_buf_def calm_io_def roomy_writer_def start_writer_def bt_contains_def checked_add_def Let_def)

theorem broken_diagnostic_loses_bundle_witness:
  "\<exists>st'. broken_diagnostic quiet_env 0 0 PreWorkload dns_request TimedOut probing_state 0 = Some ((True, st'), 0)
     \<and> st_status st' = RunCompleted
     \<and> always (\<lambda>(result, w). \<exists>e. result = Err e) (stage_diagnostics_index quiet_env probed_plan st')"
proof -
  have path: "diagnostic_path PreWorkload dns_request = ''diagnostics/pre/d.json''"
    by (simp add: diagnostic_path_def short_phase_def dns_request_def)
  have writer: "st_writer probing_state = roomy_writer" "st_phases probing_state \<noteq> []"
    by (simp_all add: probing_state_def RunState_new_def)
  have optional: "\<not> diag_required dns_request" by (simp add: dns_request_def)
  have chunks: "slices (\<lambda>_. True) 0 ''{}'' = [Chunk ''{}'' True]"
    by (simp add: slices.simps [of _ _ "''{}''"] slices.simps [of _ _ "[]"] HASH_BUFFER_BYTES_def)
  obtain rec w' where stored: "add_artifact zero_sha calm_io (ArtifactPath ''diagnostics/pre/d.json'')
      (RoleOther diagnostics_role_label) JSON Redacted [Chunk ''{}'' True] roomy_writer = (Ok rec, w')"
    using probe_stored by blast
  have put: "put_artifact quiet_env ''diagnostics/pre/d.json'' (RoleOther diagnostics_role_label) JSON Redacted ''{}''
      roomy_writer 0 = Some ((Ok (ArtifactPath ''diagnostics/pre/d.json''), w'), 0)"
    by (simp add: put_artifact_def ArtifactPath_new_def probe_path put_bytes_def quiet_env_fields chunks stored
        andthen_def ask_def yields_def attempt_def accept_def)
  have "\<exists>st'. broken_diagnostic quiet_env 0 0 PreWorkload dns_request TimedOut probing_state 0 = Some ((True, st'), 0)"
    by (simp add: broken_diagnostic_def stage_diagnostic_record_def failed_diagnostic_def with_writer_def path writer put
        andthen_def yields_def finish_and_def finish_phase_def since_def ask_def quiet_env_fields calm_host_def optional)
  then obtain st' where run: "broken_diagnostic quiet_env 0 0 PreWorkload dns_request TimedOut probing_state 0
      = Some ((True, st'), 0)" by blast
  have "always (\<lambda>(go, st'). go \<longrightarrow> st_status st' = st_status probing_state
      \<and> always (\<lambda>(result, w). \<exists>e. result = Err e) (stage_diagnostics_index quiet_env probed_plan st'))
    (broken_diagnostic quiet_env 0 0 PreWorkload dns_request TimedOut probing_state)"
    by (rule broken_diagnostic_loses_bundle)
      (simp_all add: dns_request_def probed_plan_def probing_state_def RunState_new_def)
  then have "True \<longrightarrow> st_status st' = st_status probing_state
      \<and> always (\<lambda>(result, w). \<exists>e. result = Err e) (stage_diagnostics_index quiet_env probed_plan st')"
    using run unfolding always_def [of "case_prod _"] by blast
  moreover have "st_status probing_state = RunCompleted" by (simp add: probing_state_def RunState_new_def)
  ultimately show ?thesis using run by auto
qed

end
