(* ===== verification/RustText.thy ===== *)
theory RustText
  imports RustStd
begin

text \<open>
  More of the text functions of the standard library: \<open>lines\<close>, \<open>trim\<close>,
  \<open>split_ascii_whitespace\<close>, \<open>find\<close> of a character.
\<close>

section \<open>Characters of a string\<close>

definition char_len :: "char \<Rightarrow> nat" where
  "char_len a = (if byte a < 128 then 1 else if byte a < 224 then 2 else if byte a < 240 then 3 else 4)"

text \<open>The encodings of the characters of a string, in order.\<close>

function char_pieces :: "string \<Rightarrow> string list" where
  "char_pieces s = (if s = [] then [] else take (char_len (hd s)) s # char_pieces (drop (char_len (hd s)) s))"
  by pat_completeness auto
termination
  by (relation "measure length") (auto simp: char_len_def)

declare char_pieces.simps [simp del]

definition piece_is_whitespace :: "string \<Rightarrow> bool" where
  "piece_is_whitespace p \<longleftrightarrow> (case chars p of cp # _ \<Rightarrow> is_whitespace cp | [] \<Rightarrow> False)"

definition trim :: "string \<Rightarrow> string" where
  "trim s = concat (rev (dropWhile piece_is_whitespace (rev (dropWhile piece_is_whitespace (char_pieces s)))))"

lemma char_pieces_ascii: "\<forall>c \<in> set s. byte c < 128 \<Longrightarrow> char_pieces s = map (\<lambda>c. [c]) s"
proof (induction s)
  case Nil
  show ?case by (simp add: char_pieces.simps)
next
  case (Cons c s)
  then show ?case by (subst char_pieces.simps) (simp add: char_len_def)
qed

lemma concat_char_pieces: "concat (char_pieces s) = s"
proof (induction s rule: char_pieces.induct)
  case (1 s)
  then show ?case by (subst char_pieces.simps) simp
qed

definition ascii_white :: "char \<Rightarrow> bool" where
  "ascii_white c \<longleftrightarrow> is_whitespace (byte c)"

lemma piece_is_whitespace_ascii: "byte c < 128 \<Longrightarrow> piece_is_whitespace [c] \<longleftrightarrow> ascii_white c"
  by (simp add: piece_is_whitespace_def ascii_white_def)

lemma dropWhile_none: "\<forall>x \<in> set xs. \<not> P x \<Longrightarrow> dropWhile P xs = xs"
  by (cases xs) auto

text \<open>On ASCII text without white space.\<close>

lemma trim_plain:
  assumes "\<forall>c \<in> set s. byte c < 128 \<and> \<not> ascii_white c"
  shows "trim s = s"
proof -
  have p: "char_pieces s = map (\<lambda>c. [c]) s" using assms by (simp add: char_pieces_ascii)
  have white: "\<forall>x \<in> set (char_pieces s). \<not> piece_is_whitespace x"
    using assms by (auto simp: p piece_is_whitespace_ascii)
  then show ?thesis by (simp add: trim_def dropWhile_none concat_char_pieces)
qed

section \<open>Lines and words\<close>

definition strip_cr :: "string \<Rightarrow> string" where
  "strip_cr l = (if l \<noteq> [] \<and> last l = CHR 0x0D then butlast l else l)"

text \<open>A line ends at a newline; a carriage return before the newline belongs to the line end.\<close>

definition lines :: "string \<Rightarrow> string list" where
  "lines s = (let ps = split_char CHR 0x0A s
     in map strip_cr (butlast ps) @ (if last ps = [] then [] else [last ps]))"

definition is_ascii_whitespace :: "char \<Rightarrow> bool" where
  "is_ascii_whitespace c \<longleftrightarrow> c \<in> {CHR '' '', CHR 0x09, CHR 0x0A, CHR 0x0C, CHR 0x0D}"

fun words_of :: "string \<Rightarrow> string \<Rightarrow> string list" where
  "words_of w [] = (if w = [] then [] else [rev w])"
| "words_of w (c # s) =
    (if is_ascii_whitespace c then (if w = [] then words_of [] s else rev w # words_of [] s)
     else words_of (c # w) s)"

definition split_ascii_whitespace :: "string \<Rightarrow> string list" where
  "split_ascii_whitespace s = words_of [] s"

lemma words_of_plain:
  "\<forall>c \<in> set s. \<not> is_ascii_whitespace c \<Longrightarrow> words_of w s = (if rev w @ s = [] then [] else [rev w @ s])"
  by (induction s arbitrary: w) auto

lemma split_ascii_whitespace_plain:
  "\<forall>c \<in> set s. \<not> is_ascii_whitespace c \<Longrightarrow> s \<noteq> [] \<Longrightarrow> split_ascii_whitespace s = [s]"
  by (simp add: split_ascii_whitespace_def words_of_plain)

end
