(* ===== verification/FloatText.thy ===== *)
theory FloatText
  imports RustNum "HOL-Library.Log_Nat"
begin

text \<open>
  \<open>str::parse::<f64>\<close>: the number grammar of \<open>core::num::dec2flt\<close> and the rounding of a
  decimal to the nearest double, ties to even.
\<close>

section \<open>Rounding\<close>

text \<open>The quotient of two naturals, rounded to the nearest, ties to even.\<close>

definition div_round :: "nat \<Rightarrow> nat \<Rightarrow> nat" where
  "div_round n d =
    (let q = n div d; r = n mod d
     in if 2 * r < d \<or> (2 * r = d \<and> even q) then q else Suc q)"

definition scale_up :: "int \<Rightarrow> nat" where
  "scale_up k = (if 0 \<le> k then 2 ^ nat k else 1)"

text \<open>The exponent of the leading bit of \<open>n / d\<close>.\<close>

definition floor_log2 :: "nat \<Rightarrow> nat \<Rightarrow> int" where
  "floor_log2 n d =
    (let b = bitlen (int n) - bitlen (int d)
     in if d * scale_up b \<le> n * scale_up (- b) then b else b - 1)"

text \<open>
  A positive double is \<open>m * 2 ^ k\<close> with \<open>k \<ge> -1074\<close>; its pattern is \<open>(k + 1074) * 2 ^ 52 + m\<close>,
  where the leading bit of a normal \<open>m\<close> carries into the exponent field.
\<close>

definition INFINITY_BITS :: nat where
  "INFINITY_BITS = 0x7FF0000000000000"

definition magnitude_bits :: "nat \<Rightarrow> nat \<Rightarrow> nat" where
  "magnitude_bits n d =
    (if n = 0 then 0
     else let k = max (- 1074) (floor_log2 n d - 52);
              m = div_round (n * scale_up (- k)) (d * scale_up k)
          in min INFINITY_BITS (nat (k + 1074) * 2 ^ 52 + m))"

definition signed_bits :: "bool \<Rightarrow> nat \<Rightarrow> f64" where
  "signed_bits negative m = of_nat (if negative then 2 ^ 63 + m else m)"

definition decimal_bits :: "nat \<Rightarrow> int \<Rightarrow> nat" where
  "decimal_bits m e = (if 0 \<le> e then magnitude_bits (m * 10 ^ nat e) 1 else magnitude_bits m (10 ^ nat (- e)))"

section \<open>The grammar\<close>

definition split_sign :: "string \<Rightarrow> bool \<times> string" where
  "split_sign s = (case s of
     c # r \<Rightarrow> if c = CHR ''-'' then (True, r) else if c = CHR ''+'' then (False, r) else (False, s)
   | [] \<Rightarrow> (False, []))"

text \<open>The exponent stops growing once it is large.\<close>

definition exponent_value :: "string \<Rightarrow> nat" where
  "exponent_value ds = foldl (\<lambda>e d. if e < 0x10000 then 10 * e + digit_val d else e) 0 ds"

definition parse_exponent :: "string \<Rightarrow> int option" where
  "parse_exponent s = (case s of
     [] \<Rightarrow> Some 0
   | c # r \<Rightarrow>
       if c \<noteq> CHR ''e'' \<and> c \<noteq> CHR ''E'' then None
       else (case split_sign r of (negative, ds) \<Rightarrow>
         if ds = [] \<or> \<not> list_all is_ascii_digit ds then None
         else Some (if negative then - int (exponent_value ds) else int (exponent_value ds))))"

text \<open>Digits, an optional point with digits, an optional exponent.\<close>

definition parse_number :: "string \<Rightarrow> (nat \<times> int) option" where
  "parse_number s =
    (let whole = takeWhile is_ascii_digit s; r = dropWhile is_ascii_digit s;
         pointed = (case r of c # _ \<Rightarrow> c = CHR ''.'' | [] \<Rightarrow> False);
         after = (if pointed then tl r else r);
         part = (if pointed then takeWhile is_ascii_digit after else []);
         rest = (if pointed then dropWhile is_ascii_digit after else after)
     in if whole = [] \<and> part = [] then None
        else case parse_exponent rest of
          None \<Rightarrow> None
        | Some e \<Rightarrow> Some (dec_value (whole @ part), e - int (length part)))"

definition NAN_BITS :: nat where
  "NAN_BITS = 0x7FF8000000000000"

definition parse_special :: "string \<Rightarrow> nat option" where
  "parse_special s =
    (if eq_ignore_ascii_case s ''nan'' then Some NAN_BITS
     else if eq_ignore_ascii_case s ''inf'' \<or> eq_ignore_ascii_case s ''infinity'' then Some INFINITY_BITS
     else None)"

definition parse_f64 :: "string \<Rightarrow> f64 option" where
  "parse_f64 s = (case split_sign s of (negative, r) \<Rightarrow>
     map_option (signed_bits negative) (case parse_number r of
       Some (m, e) \<Rightarrow> Some (decimal_bits m e)
     | None \<Rightarrow> parse_special r))"

section \<open>Facts\<close>

lemma div_round_nearest:
  assumes "0 < d"
  shows "2 * \<bar>int n - int (d * div_round n d)\<bar> \<le> int d"
proof -
  define q r where "q = n div d" and "r = n mod d"
  have n: "n = d * q + r" and r: "r < d" using assms by (simp_all add: q_def r_def)
  have e: "div_round n d = (if 2 * r < d \<or> (2 * r = d \<and> even q) then q else Suc q)"
    by (simp add: div_round_def q_def r_def Let_def)
  show ?thesis
  proof (cases "2 * r < d \<or> (2 * r = d \<and> even q)")
    case True
    then have "div_round n d = q" by (simp add: e)
    moreover have "int n - int (d * q) = int r" by (simp add: n)
    ultimately show ?thesis using True by auto
  next
    case False
    have eq: "int n - int (d * Suc q) = int r - int d" by (simp add: n algebra_simps)
    from False have "d \<le> 2 * r" by linarith
    moreover from False have "div_round n d = Suc q" unfolding e by simp
    ultimately show ?thesis using r eq by simp
  qed
qed

lemma magnitude_bits_le: "magnitude_bits n d \<le> INFINITY_BITS"
  by (simp add: magnitude_bits_def Let_def)

lemma is_ascii_digit_not_sign:
  "is_ascii_digit c \<Longrightarrow> c \<noteq> CHR ''-'' \<and> c \<noteq> CHR ''+''"
  by (auto simp: is_ascii_digit_def byte_def)

text \<open>A decimal integer reads as the double nearest to it.\<close>

lemma parse_f64_show_dec: "parse_f64 (show_dec n) = Some (signed_bits False (decimal_bits n 0))"
proof -
  have digits: "list_all is_ascii_digit (show_dec n)" "show_dec n \<noteq> []"
    by (simp_all add: show_dec_digits show_dec_nonempty)
  then have "split_sign (show_dec n) = (False, show_dec n)"
    by (cases "show_dec n") (auto simp: split_sign_def dest: is_ascii_digit_not_sign)
  moreover have tw: "takeWhile is_ascii_digit (show_dec n) = show_dec n" "dropWhile is_ascii_digit (show_dec n) = []"
    using digits by (simp_all add: list_all_iff takeWhile_eq_all_conv)
  have "parse_number (show_dec n) = Some (n, 0)"
    using digits(2) by (simp add: tw parse_number_def parse_exponent_def dec_value_show Let_def)
  ultimately show ?thesis by (simp add: parse_f64_def)
qed

lemma decimal_one: "decimal_bits 1 0 = 0x3FF0000000000000"
proof -
  have "floor_log2 1 1 = 0" by (simp add: floor_log2_def scale_up_def bitlen_def)
  then show ?thesis
    by (simp add: decimal_bits_def magnitude_bits_def scale_up_def div_round_def INFINITY_BITS_def)
qed

end
