(* ===== verification/Exposition.thy ===== *)
theory Exposition
  imports Contracts RustText FloatText ContentTrees
begin

text \<open>
  The Prometheus text exposition of \<open>prometheus_http.rs\<close>: the mapping from samples to metric
  names with its validator, the readers of a sample line and \<open>parse_exposition\<close>.  JSON is a
  parameter of \<open>parse_mapping\<close>.
\<close>

section \<open>The mapping\<close>

definition PROMETHEUS_HTTP_SOURCE :: string where
  "PROMETHEUS_HTTP_SOURCE = ''prometheus-http''"

definition MAPPING_SCHEMA_VERSION :: u32 where
  "MAPPING_SCHEMA_VERSION = 1"

definition MAX_MAPPING_BYTES :: nat where
  "MAX_MAPPING_BYTES = 128 * 1024"

definition MAX_SCRAPE_BYTES :: nat where
  "MAX_SCRAPE_BYTES = 1024 * 1024"

definition MAX_EXPOSITION_LINES :: nat where
  "MAX_EXPOSITION_LINES = 10000"

definition MAX_PROMETHEUS_NAME_BYTES :: nat where
  "MAX_PROMETHEUS_NAME_BYTES = 128"

definition MAX_LABEL_VALUE_BYTES :: nat where
  "MAX_LABEL_VALUE_BYTES = 256"

definition MAX_MAPPED_FIELDS :: nat where
  "MAX_MAPPED_FIELDS = 64"

datatype PrometheusMetricKind = KindGauge | KindCounter

datatype PrometheusAggregation = PromMean | PromMax | PromMin

record PrometheusFieldMapping =
  pf_output_name :: string
  pf_prometheus_name :: string
  pf_kind :: PrometheusMetricKind
  pf_unit :: string
  pf_aggregation :: "PrometheusAggregation option"
  pf_labels :: "(string, string) BTreeMap"
  pf_required :: bool

record PrometheusMappingV1 =
  pm_schema_version :: u32
  pm_source :: string
  pm_fields :: "PrometheusFieldMapping list"

definition is_ascii_alphabetic :: "char \<Rightarrow> bool" where
  "is_ascii_alphabetic c \<longleftrightarrow> is_ascii_uppercase c \<or> is_ascii_lowercase c"

definition valid_first :: "(char \<Rightarrow> bool) \<Rightarrow> string \<Rightarrow> bool" where
  "valid_first letter s \<longleftrightarrow> s \<noteq> [] \<and> length s \<le> MAX_PROMETHEUS_NAME_BYTES \<and> letter (hd s)
     \<and> (\<forall>c \<in> set (tl s). letter c \<or> is_ascii_digit c)"

definition valid_metric_name :: "string \<Rightarrow> bool" where
  "valid_metric_name = valid_first (\<lambda>c. is_ascii_alphabetic c \<or> c = CHR ''_'' \<or> c = CHR '':'')"

definition valid_label_name :: "string \<Rightarrow> bool" where
  "valid_label_name = valid_first (\<lambda>c. is_ascii_alphabetic c \<or> c = CHR ''_'')"

definition bad_selector :: "string \<times> string \<Rightarrow> bool" where
  "bad_selector l \<longleftrightarrow> \<not> valid_label_name (fst l) \<or> MAX_LABEL_VALUE_BYTES < length (snd l) \<or> has_control (snd l)"

definition field_shape :: "PrometheusFieldMapping \<Rightarrow> string + unit" where
  "field_shape f = checks
    [reject_if ((pf_kind f = KindGauge) \<noteq> (pf_aggregation f \<noteq> None)) ''mapping_aggregation_invalid'',
     reject_if (\<not> is_ok (Name_new (pf_output_name f)) \<or> \<not> prefix ''subject_'' (pf_output_name f)
         \<or> MAX_PROMETHEUS_NAME_BYTES < length (pf_output_name f) \<or> \<not> valid_metric_name (pf_prometheus_name f)
         \<or> \<not> is_ok (Name_new (pf_unit f)) \<or> 16 < length (pf_labels f))
       ''mapping_field_invalid'']"

definition field_selectors :: "PrometheusFieldMapping \<Rightarrow> string + unit" where
  "field_selectors f = for_each (\<lambda>l. reject_if (bad_selector l) ''mapping_selector_invalid'') (pf_labels f)"

fun scan_fields :: "string set \<Rightarrow> PrometheusFieldMapping list \<Rightarrow> string + unit" where
  "scan_fields outputs [] = Ok ()"
| "scan_fields outputs (f # fs) = checks
    [field_shape f, reject_if (pf_output_name f \<in> outputs) ''mapping_field_invalid'', field_selectors f,
     scan_fields (insert (pf_output_name f) outputs) fs]"

interpretation mapped: unique_scan pf_output_name field_shape "\<lambda>_. ''mapping_field_invalid''" field_selectors scan_fields
  by unfold_locales simp_all

definition validate_mapping :: "PrometheusMappingV1 \<Rightarrow> string + unit" where
  "validate_mapping m = checks
    [reject_if (pm_schema_version m \<noteq> MAPPING_SCHEMA_VERSION \<or> pm_source m \<noteq> ''prometheus'')
       ''mapping_schema_unsupported'',
     reject_if (pm_fields m = [] \<or> MAX_MAPPED_FIELDS < length (pm_fields m)) ''mapping_field_bound'',
     scan_fields {} (pm_fields m)]"

definition parse_mapping ::
  "(string \<Rightarrow> PrometheusMappingV1 option) \<Rightarrow> string \<Rightarrow> string + PrometheusMappingV1" where
  "parse_mapping decode bytes =
    (if MAX_MAPPING_BYTES < length bytes then Err ''mapping_too_large''
     else case decode bytes of
       None \<Rightarrow> Err ''mapping_invalid''
     | Some m \<Rightarrow> (case validate_mapping m of Err e \<Rightarrow> Err e | Ok _ \<Rightarrow> Ok m))"

section \<open>A sample line\<close>

text \<open>The first white space outside quotes ends the sample; then one word must follow.\<close>

fun sample_end :: "bool \<Rightarrow> bool \<Rightarrow> string \<Rightarrow> string \<Rightarrow> (string \<times> string) option" where
  "sample_end quoted escaped acc [] = None"
| "sample_end quoted escaped acc (c # s) =
    (if quoted
     then (if escaped then sample_end True False (c # acc) s
           else if c = CHR 92 then sample_end True True (c # acc) s
           else sample_end (c \<noteq> CHR 34) False (c # acc) s)
     else if c = CHR 34 then sample_end True escaped (c # acc) s
     else if is_ascii_whitespace c then Some (rev acc, c # s)
     else sample_end False escaped (c # acc) s)"

definition split_sample_line :: "string \<Rightarrow> string + (string \<times> string)" where
  "split_sample_line line = (case sample_end False False [] line of
     None \<Rightarrow> Err ''sample_invalid''
   | Some (sample, rest) \<Rightarrow>
       (case split_ascii_whitespace rest of
          [value] \<Rightarrow> if sample = [] then Err ''sample_invalid'' else Ok (sample, value)
        | _ \<Rightarrow> Err ''sample_invalid''))"

text \<open>The value after an opening quote, and what follows the closing one.\<close>

fun quoted_label :: "bool \<Rightarrow> string \<Rightarrow> string \<Rightarrow> string + (string \<times> string)" where
  "quoted_label escaped out [] = Err ''sample_labels_invalid''"
| "quoted_label escaped out (c # s) =
    (if escaped
     then (if c = CHR ''n'' then quoted_label False (CHR 0x0A # out) s
           else if c = CHR 92 \<or> c = CHR 34 then quoted_label False (c # out) s
           else Err ''sample_labels_invalid'')
     else if c = CHR 92 then quoted_label True out s
     else if c = CHR 34 then Ok (rev out, s)
     else quoted_label False (c # out) s)"

definition parse_quoted_label :: "string \<Rightarrow> string + (string \<times> string)" where
  "parse_quoted_label s = quoted_label False [] s"

lemma quoted_label_shorter: "quoted_label e out s = Ok (v, r) \<Longrightarrow> length r < length s"
  by (induction e out s rule: quoted_label.induct) (auto split: if_splits)

function parse_labels :: "string \<Rightarrow> (string, string) BTreeMap \<Rightarrow> string + (string, string) BTreeMap" where
  "parse_labels inner labels =
    (if inner = [] then Ok labels
     else case split_once ''='' inner of
       None \<Rightarrow> Err ''sample_labels_invalid''
     | Some (k, after) \<Rightarrow>
         if \<not> valid_label_name (trim k) \<or> \<not> prefix [CHR 34] after then Err ''sample_labels_invalid''
         else (case parse_quoted_label (tl after) of
           Err e \<Rightarrow> Err e
         | Ok (value, rest) \<Rightarrow>
             if MAX_LABEL_VALUE_BYTES < length value \<or> bt_contains labels (trim k)
             then Err ''sample_labels_invalid''
             else (case rest of
               [] \<Rightarrow> Ok (bt_insert (trim k) value labels)
             | c # rest' \<Rightarrow>
                 if c \<noteq> CHR '','' then Err ''sample_labels_invalid''
                 else parse_labels rest' (bt_insert (trim k) value labels))))"
  by pat_completeness auto
termination
proof (relation "measure (\<lambda>(inner, labels). length inner)", goal_cases)
  case 1
  show ?case by simp
next
  case (2 inner labels pair k rest1 pair' v rest c rest')
  have "split_once ''='' inner = Some (k, rest1)" using 2(2,3) by simp
  then have "inner = k @ ''='' @ rest1" by (rule split_once_Some)
  moreover have "length (c # rest') < length (tl rest1)"
    using 2(5-8) unfolding parse_quoted_label_def by (auto dest: quoted_label_shorter)
  ultimately show ?case by (cases rest1) simp_all
qed

declare parse_labels.simps [simp del]

definition parse_sample_name_labels :: "string \<Rightarrow> string + (string \<times> (string, string) BTreeMap)" where
  "parse_sample_name_labels sample = (case split_once ''{'' sample of
     None \<Rightarrow> if valid_metric_name sample then Ok (sample, []) else Err ''sample_name_invalid''
   | Some (name, inner) \<Rightarrow>
       if last sample \<noteq> CHR ''}'' then Err ''sample_labels_invalid''
       else if \<not> valid_metric_name name then Err ''sample_name_invalid''
       else map_sum id (\<lambda>labels. (name, labels)) (parse_labels (butlast inner) []))"

section \<open>The exposition\<close>

type_synonym Sample = "string \<times> (string, string) BTreeMap \<times> f64"

definition read_sample :: "string \<Rightarrow> string + Sample" where
  "read_sample line = (case split_sample_line line of
     Err e \<Rightarrow> Err e
   | Ok (sample, value_text) \<Rightarrow>
       (case parse_f64 value_text of
          None \<Rightarrow> Err ''sample_value_invalid''
        | Some value \<Rightarrow>
            if \<not> f64_is_finite value then Err ''sample_value_non_finite''
            else map_sum id (\<lambda>(name, labels). (name, labels, value)) (parse_sample_name_labels sample)))"

text \<open>The values and match counts so far.\<close>

type_synonym Matches = "(string, f64) BTreeMap \<times> (string, nat) BTreeMap"

fun match_fields :: "PrometheusFieldMapping list \<Rightarrow> Sample \<Rightarrow> Matches \<Rightarrow> string + Matches" where
  "match_fields [] s m = Ok m"
| "match_fields (f # fs) (name, labels, value) (values, counts) =
    (if pf_prometheus_name f \<noteq> name then match_fields fs (name, labels, value) (values, counts)
     else if pf_labels f = [] \<and> labels \<noteq> [] then Err ''sample_ambiguous_duplicate''
     else if pf_labels f \<noteq> labels then match_fields fs (name, labels, value) (values, counts)
     else if pf_kind f = KindCounter \<and> f64_lt value f64_zero then Err ''counter_value_negative''
     else let count = Suc (case bt_get counts (pf_output_name f) of None \<Rightarrow> 0 | Some n \<Rightarrow> n) in
       if 1 < count then Err ''sample_ambiguous_duplicate''
       else match_fields fs (name, labels, value)
         (bt_insert (pf_output_name f) value values, bt_insert (pf_output_name f) count counts))"

definition declare_type :: "string \<Rightarrow> (string, string) BTreeMap \<Rightarrow> string + (string, string) BTreeMap" where
  "declare_type metadata types = (case split_ascii_whitespace metadata of
     [name, kind] \<Rightarrow>
       if \<not> valid_metric_name name then Err ''sample_type_invalid''
       else if bt_contains types name then Err ''sample_type_duplicate''
       else Ok (bt_insert name kind types)
   | _ \<Rightarrow> Err ''sample_type_invalid'')"

fun scan_lines ::
  "PrometheusFieldMapping list \<Rightarrow> string list \<Rightarrow> Matches \<Rightarrow> (string, string) BTreeMap
    \<Rightarrow> string + (Matches \<times> (string, string) BTreeMap)" where
  "scan_lines fs [] m types = Ok (m, types)"
| "scan_lines fs (l # ls) m types =
    (let line = trim l in
     case strip_prefix ''# TYPE '' line of
       Some metadata \<Rightarrow>
         (case declare_type metadata types of Err e \<Rightarrow> Err e | Ok types' \<Rightarrow> scan_lines fs ls m types')
     | None \<Rightarrow>
         if line = [] \<or> prefix ''#'' line then scan_lines fs ls m types
         else (case read_sample line of
           Err e \<Rightarrow> Err e
         | Ok s \<Rightarrow> (case match_fields fs s m of Err e \<Rightarrow> Err e | Ok m' \<Rightarrow> scan_lines fs ls m' types)))"

definition kind_text :: "PrometheusMetricKind \<Rightarrow> string" where
  "kind_text k = (case k of KindGauge \<Rightarrow> ''gauge'' | KindCounter \<Rightarrow> ''counter'')"

definition check_declared :: "(string, string) BTreeMap \<Rightarrow> PrometheusFieldMapping \<Rightarrow> string + unit" where
  "check_declared types f = (case bt_get types (pf_prometheus_name f) of
     None \<Rightarrow> Ok ()
   | Some declared \<Rightarrow> reject_if (declared \<noteq> kind_text (pf_kind f)) ''sample_type_mismatch'')"

definition parse_exposition :: "string \<Rightarrow> PrometheusMappingV1 \<Rightarrow> string + (string, f64) BTreeMap" where
  "parse_exposition bytes m = (case validate_mapping m of
     Err e \<Rightarrow> Err e
   | Ok _ \<Rightarrow>
       if MAX_SCRAPE_BYTES < length bytes then Err ''scrape_too_large''
       else if \<not> valid_utf8 bytes then Err ''scrape_not_utf8''
       else if MAX_EXPOSITION_LINES < length (lines bytes) then Err ''scrape_line_bound''
       else (case scan_lines (pm_fields m) (lines bytes) ([], []) [] of
         Err e \<Rightarrow> Err e
       | Ok ((values, counts), types) \<Rightarrow>
           (case for_each (check_declared types) (pm_fields m) of Err e \<Rightarrow> Err e | Ok _ \<Rightarrow> Ok values)))"

section \<open>What an accepted exposition says\<close>

text \<open>The lines that carry a sample, and when a sample is one for a field.\<close>

definition sample_lines :: "string list \<Rightarrow> string list" where
  "sample_lines ls = filter (\<lambda>l. l \<noteq> [] \<and> \<not> prefix ''#'' l) (map trim ls)"

definition measured_by :: "PrometheusFieldMapping \<Rightarrow> Sample \<Rightarrow> bool" where
  "measured_by f s \<longleftrightarrow> fst s = pf_prometheus_name f \<and> fst (snd s) = pf_labels f"

fun match_all :: "PrometheusFieldMapping list \<Rightarrow> Sample list \<Rightarrow> Matches \<Rightarrow> string + Matches" where
  "match_all fs [] m = Ok m"
| "match_all fs (s # ss) m = (case match_fields fs s m of Err e \<Rightarrow> Err e | Ok m' \<Rightarrow> match_all fs ss m')"

lemma scan_lines_Ok:
  assumes "scan_lines fs ls m types = Ok (m', types')"
  shows "\<exists>ss. list_all2 (\<lambda>l s. read_sample l = Ok s) (sample_lines ls) ss \<and> match_all fs ss m = Ok m'"
  using assms
proof (induction ls arbitrary: m types)
  case Nil
  then show ?case by (auto simp: sample_lines_def)
next
  case (Cons l ls)
  show ?case
  proof (cases "prefix ''# TYPE '' (trim l)")
    case True
    then have "prefix ''#'' (trim l)" by (auto simp: prefix_def)
    then have lines: "sample_lines (l # ls) = sample_lines ls" by (simp add: sample_lines_def)
    from Cons.prems True obtain types2 where "scan_lines fs ls m types2 = Ok (m', types')"
      by (auto split: sum.splits)
    from Cons.IH [OF this] lines show ?thesis by simp
  next
    case no_type: False
    show ?thesis
    proof (cases "trim l = [] \<or> prefix ''#'' (trim l)")
      case True
      then have lines: "sample_lines (l # ls) = sample_lines ls" by (auto simp: sample_lines_def)
      from Cons.prems True no_type have "scan_lines fs ls m types = Ok (m', types')"
        by (auto simp: Let_def)
      from Cons.IH [OF this] lines show ?thesis by simp
    next
      case False
      with Cons.prems no_type obtain s m2 where r: "read_sample (trim l) = Ok s" "match_fields fs s m = Ok m2"
        "scan_lines fs ls m2 types = Ok (m', types')"
        by (auto simp: Let_def split: sum.splits)
      from Cons.IH [OF r(3)] obtain ss where
        "list_all2 (\<lambda>l s. read_sample l = Ok s) (sample_lines ls) ss" "match_all fs ss m2 = Ok m'"
        by blast
      with r False show ?thesis by (intro exI [of _ "s # ss"]) (simp add: sample_lines_def)
    qed
  qed
qed

lemma match_fields_Ok:
  assumes "match_fields fs (name, labels, value) (vals, counts) = Ok (vals', counts')"
    and "distinct (map pf_output_name fs)" and "bt_ok vals" and "bt_ok counts"
  shows "bt_ok vals' \<and> bt_ok counts'
    \<and> (\<forall>f \<in> set fs. if measured_by f (name, labels, value)
         then bt_get counts (pf_output_name f) \<in> {None, Some 0} \<and> bt_get counts' (pf_output_name f) = Some 1
           \<and> bt_get vals' (pf_output_name f) = Some value \<and> (pf_kind f = KindCounter \<longrightarrow> \<not> f64_lt value f64_zero)
         else bt_get counts' (pf_output_name f) = bt_get counts (pf_output_name f)
           \<and> bt_get vals' (pf_output_name f) = bt_get vals (pf_output_name f))
    \<and> (\<forall>k. k \<notin> pf_output_name ` set fs \<longrightarrow> bt_get counts' k = bt_get counts k \<and> bt_get vals' k = bt_get vals k)"
  using assms
proof (induction fs arbitrary: vals counts)
  case Nil
  then show ?case by simp
next
  case (Cons f fs)
  let ?s = "(name, labels, value)"
  show ?case
  proof (cases "measured_by f ?s")
    case False
    with Cons.prems(1) have step: "match_fields fs ?s (vals, counts) = Ok (vals', counts')"
      by (auto simp: measured_by_def split: if_splits)
    from Cons.IH [OF this] Cons.prems(2-4) False show ?thesis by auto
  next
    case True
    let ?v = "bt_insert (pf_output_name f) value vals"
    let ?c = "bt_insert (pf_output_name f) 1 counts"
    from True Cons.prems(1) have old: "bt_get counts (pf_output_name f) \<in> {None, Some 0}"
        "pf_kind f = KindCounter \<longrightarrow> \<not> f64_lt value f64_zero"
      and step: "match_fields fs ?s (?v, ?c) = Ok (vals', counts')"
      by (auto simp: measured_by_def Let_def split: if_splits option.splits)
    from Cons.IH [OF step] Cons.prems(2-4) have ih: "bt_ok vals'" "bt_ok counts'"
      "\<forall>g \<in> set fs. if measured_by g ?s
         then bt_get ?c (pf_output_name g) \<in> {None, Some 0} \<and> bt_get counts' (pf_output_name g) = Some 1
           \<and> bt_get vals' (pf_output_name g) = Some value \<and> (pf_kind g = KindCounter \<longrightarrow> \<not> f64_lt value f64_zero)
         else bt_get counts' (pf_output_name g) = bt_get ?c (pf_output_name g)
           \<and> bt_get vals' (pf_output_name g) = bt_get ?v (pf_output_name g)"
      "\<forall>k. k \<notin> pf_output_name ` set fs \<longrightarrow> bt_get counts' k = bt_get ?c k \<and> bt_get vals' k = bt_get ?v k"
      by (auto simp: bt_ok_insert)
    have fresh: "pf_output_name f \<notin> pf_output_name ` set fs" using Cons.prems(2) by simp
    then have others: "bt_get ?c (pf_output_name g) = bt_get counts (pf_output_name g)"
      "bt_get ?v (pf_output_name g) = bt_get vals (pf_output_name g)" if "g \<in> set fs" for g
      using that Cons.prems(3,4) by (auto simp: bt_get_insert image_iff)
    have here: "bt_get counts' (pf_output_name f) = Some 1" "bt_get vals' (pf_output_name f) = Some value"
      using ih(4) fresh Cons.prems(3,4) by (auto simp: bt_get_insert)
    show ?thesis
      using ih others here old True Cons.prems(3,4) by (auto simp: bt_get_insert)
  qed
qed

text \<open>What the values say of the samples seen so far.\<close>

definition exact_for :: "Sample list \<Rightarrow> Matches \<Rightarrow> PrometheusFieldMapping \<Rightarrow> bool" where
  "exact_for ss m f \<longleftrightarrow> (case filter (measured_by f) ss of
     [] \<Rightarrow> bt_get (fst m) (pf_output_name f) = None \<and> bt_get (snd m) (pf_output_name f) = None
   | s # ts \<Rightarrow> ts = [] \<and> bt_get (fst m) (pf_output_name f) = Some (snd (snd s))
       \<and> bt_get (snd m) (pf_output_name f) = Some 1
       \<and> (pf_kind f = KindCounter \<longrightarrow> \<not> f64_lt (snd (snd s)) f64_zero))"

definition exact_matches :: "PrometheusFieldMapping list \<Rightarrow> Sample list \<Rightarrow> Matches \<Rightarrow> bool" where
  "exact_matches fs ss m \<longleftrightarrow> bt_ok (fst m) \<and> bt_ok (snd m) \<and> (\<forall>f \<in> set fs. exact_for ss m f)
     \<and> (\<forall>k. k \<notin> pf_output_name ` set fs \<longrightarrow> bt_get (fst m) k = None)"

lemma exact_matches_step:
  assumes "exact_matches fs ss m" and "match_fields fs s m = Ok m'" and "distinct (map pf_output_name fs)"
  shows "exact_matches fs (ss @ [s]) m'"
proof -
  obtain name labels v where s: "s = (name, labels, v)" by (metis surj_pair)
  obtain vals counts vals' counts' where m: "m = (vals, counts)" "m' = (vals', counts')" by (metis surj_pair)
  have pre: "bt_ok vals" "bt_ok counts" using assms(1) by (simp_all add: exact_matches_def m)
  from match_fields_Ok [OF assms(2) [unfolded s m] assms(3) pre]
  have ok: "bt_ok vals'" "bt_ok counts'"
    "\<forall>f \<in> set fs. if measured_by f s
         then bt_get counts (pf_output_name f) \<in> {None, Some 0} \<and> bt_get counts' (pf_output_name f) = Some 1
           \<and> bt_get vals' (pf_output_name f) = Some v \<and> (pf_kind f = KindCounter \<longrightarrow> \<not> f64_lt v f64_zero)
         else bt_get counts' (pf_output_name f) = bt_get counts (pf_output_name f)
           \<and> bt_get vals' (pf_output_name f) = bt_get vals (pf_output_name f)"
    "\<forall>k. k \<notin> pf_output_name ` set fs \<longrightarrow> bt_get vals' k = bt_get vals k"
    unfolding s by blast+
  have "exact_for (ss @ [s]) m' f" if "f \<in> set fs" for f
  proof -
    have old: "exact_for ss m f" using assms(1) that by (simp add: exact_matches_def)
    show ?thesis
    proof (cases "measured_by f s")
      case True
      with ok(3) that old have "filter (measured_by f) ss = []"
        by (auto simp: exact_for_def m split: list.splits)
      with True ok(3) that show ?thesis by (auto simp: exact_for_def m s)
    next
      case False
      with ok(3) that old show ?thesis by (auto simp: exact_for_def m split: list.splits)
    qed
  qed
  with ok assms(1) show ?thesis by (simp add: exact_matches_def m)
qed

lemma exact_matches_all:
  "exact_matches fs ss m \<Longrightarrow> match_all fs ss' m = Ok m' \<Longrightarrow> distinct (map pf_output_name fs)
    \<Longrightarrow> exact_matches fs (ss @ ss') m'"
proof (induction ss' arbitrary: ss m)
  case Nil
  then show ?case by simp
next
  case (Cons s ss')
  then obtain m2 where "match_fields fs s m = Ok m2" "match_all fs ss' m2 = Ok m'"
    by (auto split: sum.splits)
  with Cons.IH [of "ss @ [s]" m2] exact_matches_step [OF Cons.prems(1)] Cons.prems(3) show ?case by simp
qed

lemma read_sample_finite: "read_sample l = Ok s \<Longrightarrow> f64_is_finite (snd (snd s))"
  by (auto simp: read_sample_def split: sum.splits option.splits if_splits prod.splits)
    (auto simp: map_sum_def split: sum.splits)

text \<open>
  C34: The values of an accepted exposition are exactly what its sample lines say: every line
  reads as a sample, a mapped field has a value exactly when one sample has its name and its
  labels, never two, the value is that sample's and finite, a counter is not negative, and no
  value belongs to a field that is not mapped.
\<close>

theorem exposition_values_exact:
  assumes "parse_exposition bytes m = Ok vals"
  shows "\<exists>ss. list_all2 (\<lambda>l s. read_sample l = Ok s) (sample_lines (lines bytes)) ss
    \<and> (\<forall>f \<in> set (pm_fields m). case filter (measured_by f) ss of
         [] \<Rightarrow> bt_get vals (pf_output_name f) = None
       | s # ts \<Rightarrow> ts = [] \<and> bt_get vals (pf_output_name f) = Some (snd (snd s))
           \<and> f64_is_finite (snd (snd s)) \<and> (pf_kind f = KindCounter \<longrightarrow> \<not> f64_lt (snd (snd s)) f64_zero))
    \<and> fst ` set vals \<subseteq> pf_output_name ` set (pm_fields m)"
proof -
  from assms obtain counts types where
    scan: "scan_lines (pm_fields m) (lines bytes) ([], []) [] = Ok ((vals, counts), types)"
    and valid: "validate_mapping m = Ok ()"
    by (auto simp: parse_exposition_def split: sum.splits if_splits)
  have distinct: "distinct (map pf_output_name (pm_fields m))"
    using valid by (auto simp: validate_mapping_def ok_simps mapped.scan_Ok_iff)
  from scan_lines_Ok [OF scan] obtain ss where
    ss: "list_all2 (\<lambda>l s. read_sample l = Ok s) (sample_lines (lines bytes)) ss"
      "match_all (pm_fields m) ss ([], []) = Ok (vals, counts)" by blast
  have "exact_matches (pm_fields m) [] ([], [])" by (simp add: exact_matches_def exact_for_def)
  from exact_matches_all [OF this ss(2) distinct]
  have exact: "exact_matches (pm_fields m) ss (vals, counts)" by simp
  have finite: "f64_is_finite (snd (snd s))" if "s \<in> set ss" for s
    using ss(1) that by (auto simp: list_all2_conv_all_nth in_set_conv_nth dest: read_sample_finite)
  have fields: "case filter (measured_by f) ss of
         [] \<Rightarrow> bt_get vals (pf_output_name f) = None
       | s # ts \<Rightarrow> ts = [] \<and> bt_get vals (pf_output_name f) = Some (snd (snd s))
           \<and> f64_is_finite (snd (snd s)) \<and> (pf_kind f = KindCounter \<longrightarrow> \<not> f64_lt (snd (snd s)) f64_zero)"
    if "f \<in> set (pm_fields m)" for f
  proof -
    have "exact_for ss (vals, counts) f" using exact that by (simp add: exact_matches_def)
    moreover have "f64_is_finite (snd (snd s))" if "filter (measured_by f) ss = s # ts" for s ts
    proof -
      have "s \<in> set (filter (measured_by f) ss)" using that by simp
      then show ?thesis using finite by simp
    qed
    ultimately show ?thesis by (auto simp: exact_for_def split: list.splits)
  qed
  have "k \<in> pf_output_name ` set (pm_fields m)" if "k \<in> fst ` set vals" for k
    using exact that by (auto simp: exact_matches_def bt_contains_def [symmetric] bt_contains_get)
  with ss(1) fields show ?thesis by blast
qed

section \<open>Writing a sample line and reading it back\<close>

text \<open>The exposition format's own way to write a sample: a label value is escaped.\<close>

definition escape_char :: "char \<Rightarrow> string" where
  "escape_char c = (if c = CHR 0x0A then [CHR 92, CHR ''n''] else if c = CHR 92 \<or> c = CHR 34 then [CHR 92, c] else [c])"

definition render_label :: "string \<times> string \<Rightarrow> string" where
  "render_label l = fst l @ [CHR ''='', CHR 34] @ concat (map escape_char (snd l)) @ [CHR 34]"

definition render_sample :: "string \<Rightarrow> (string \<times> string) list \<Rightarrow> string" where
  "render_sample name ls =
    name @ (if ls = [] then [] else ''{'' @ join_str '','' (map render_label ls) @ ''}'')"

lemma quoted_label_escape:
  "quoted_label False out (concat (map escape_char v) @ [CHR 34] @ r) = Ok (rev out @ v, r)"
  by (induction v arbitrary: out) (auto simp: escape_char_def)

lemma sample_end_plain:
  "\<forall>c \<in> set s. c \<noteq> CHR 34 \<and> \<not> is_ascii_whitespace c
    \<Longrightarrow> sample_end False False acc (s @ t) = sample_end False False (rev s @ acc) t"
  by (induction s arbitrary: acc) auto

lemma sample_end_escape:
  "sample_end True False acc (concat (map escape_char v) @ [CHR 34] @ t)
    = sample_end False False (CHR 34 # rev (concat (map escape_char v)) @ acc) t"
  by (induction v arbitrary: acc) (auto simp: escape_char_def)

definition quiet_char :: "char \<Rightarrow> bool" where
  "quiet_char c \<longleftrightarrow> is_ascii_alphabetic c \<or> c = CHR ''_'' \<or> c = CHR '':'' \<or> is_ascii_digit c"

lemma quiet_char_plain:
  assumes "quiet_char c"
  shows "c \<noteq> CHR 34 \<and> \<not> is_ascii_whitespace c \<and> c \<noteq> CHR ''='' \<and> c \<noteq> CHR ''{'' \<and> c \<noteq> CHR ''}''
    \<and> byte c < 128 \<and> \<not> ascii_white c"
  using assms
  by (auto simp: quiet_char_def is_ascii_alphabetic_def ascii_defs is_ascii_whitespace_def ascii_white_def is_whitespace_def)

lemma metric_name_quiet: "valid_metric_name s \<Longrightarrow> \<forall>c \<in> set s. quiet_char c"
  by (cases s) (auto simp: valid_metric_name_def valid_first_def quiet_char_def)

lemma label_name_quiet: "valid_label_name s \<Longrightarrow> \<forall>c \<in> set s. quiet_char c"
  by (cases s) (auto simp: valid_label_name_def valid_first_def quiet_char_def)

lemma label_key_plain:
  assumes "valid_label_name s"
  shows "\<forall>c \<in> set (s @ ''=''). c \<noteq> CHR 34 \<and> \<not> is_ascii_whitespace c"
proof
  fix c assume "c \<in> set (s @ ''='')"
  then have "quiet_char c \<or> c = CHR ''=''" using label_name_quiet [OF assms] by auto
  then show "c \<noteq> CHR 34 \<and> \<not> is_ascii_whitespace c"
    using quiet_char_plain [of c] by (elim disjE) (simp_all add: is_ascii_whitespace_def)
qed

lemma sample_end_labels:
  assumes "\<forall>l \<in> set ls. valid_label_name (fst l)"
  shows "sample_end False False acc (join_str '','' (map render_label ls) @ t)
    = sample_end False False (rev (join_str '','' (map render_label ls)) @ acc) t"
  using assms
proof (induction ls arbitrary: acc)
  case Nil
  then show ?case by simp
next
  case (Cons l ls)
  have one: "sample_end False False acc (render_label l @ t) = sample_end False False (rev (render_label l) @ acc) t"
    for acc t
  proof -
    have "valid_label_name (fst l)" using Cons.prems by simp
    from sample_end_plain [OF label_key_plain [OF this], of acc "[CHR 34] @ concat (map escape_char (snd l)) @ [CHR 34] @ t"]
    have "sample_end False False acc (render_label l @ t)
        = sample_end True False (CHR 34 # rev (fst l @ ''='') @ acc) (concat (map escape_char (snd l)) @ [CHR 34] @ t)"
      by (simp add: render_label_def)
    then show ?thesis unfolding sample_end_escape by (simp add: render_label_def)
  qed
  show ?case
  proof (cases "ls = []")
    case True
    then show ?thesis by (simp add: one)
  next
    case False
    have comma: "sample_end False False a ('','' @ r) = sample_end False False (CHR '','' # a) r" for a r
      by (simp add: is_ascii_whitespace_def)
    from False have "join_str '','' (map render_label (l # ls))
        = render_label l @ '','' @ join_str '','' (map render_label ls)"
      by (cases ls) simp_all
    then show ?thesis
      using Cons.IH Cons.prems one [of acc "'','' @ join_str '','' (map render_label ls) @ t"] comma by simp
  qed
qed

lemma bt_insert_last: "\<forall>e \<in> set m. fst e < k \<Longrightarrow> bt_insert k v m = m @ [(k, v)]"
  by (induction m) (auto simp: less_le_not_le)

lemma parse_labels_render:
  assumes "\<forall>l \<in> set ls. valid_label_name (fst l) \<and> length (snd l) \<le> MAX_LABEL_VALUE_BYTES"
    and "bt_ok (acc @ ls)"
  shows "parse_labels (join_str '','' (map render_label ls)) acc = Ok (acc @ ls)"
  using assms
proof (induction ls arbitrary: acc)
  case Nil
  then show ?case by (simp add: parse_labels.simps)
next
  case (Cons l ls)
  define tail where "tail = (if ls = [] then [] else '','' @ join_str '','' (map render_label ls))"
  have whole: "join_str '','' (map render_label (l # ls))
      = fst l @ CHR ''='' # CHR 34 # concat (map escape_char (snd l)) @ [CHR 34] @ tail"
    by (cases ls) (simp_all add: tail_def render_label_def)
  have quiet: "\<forall>c \<in> set (fst l). quiet_char c" using Cons.prems(1) label_name_quiet [of "fst l"] by simp
  then have no_eq: "CHR ''='' \<notin> set (fst l)" by (auto dest: quiet_char_plain)
  have trim: "trim (fst l) = fst l" using quiet by (intro trim_plain) (auto dest: quiet_char_plain)
  have less: "\<forall>e \<in> set acc. fst e < fst l"
    using Cons.prems(2) by (auto simp: bt_ok_def sorted_wrt_append)
  then have fresh: "\<not> bt_contains acc (fst l)" by (auto simp: bt_contains_def)
  have added: "bt_insert (fst l) (snd l) acc = acc @ [l]" using bt_insert_last [OF less, of "snd l"] by simp
  have step: "parse_labels (join_str '','' (map render_label (l # ls))) acc
      = (case tail of [] \<Rightarrow> Ok (acc @ [l])
         | c # r \<Rightarrow> if c \<noteq> CHR '','' then Err ''sample_labels_invalid'' else parse_labels r (acc @ [l]))"
    using Cons.prems(1)
    by (subst parse_labels.simps, unfold whole, subst split_once_char_append [OF no_eq])
      (simp add: trim parse_quoted_label_def quoted_label_escape [of "[]", simplified] fresh added not_less split: list.split)
  show ?case
  proof (cases "ls = []")
    case True
    with step show ?thesis by (simp add: tail_def)
  next
    case False
    with Cons.IH [of "acc @ [l]"] Cons.prems step show ?thesis by (simp add: tail_def)
  qed
qed

text \<open>
  C35: A sample that is written in the exposition format is read back: for a valid metric name,
  sorted labels with any values of at most 256 bytes (quotes, backslashes and newlines escaped)
  and the text of a finite number, reading the written line gives exactly the name, the labels
  and the number.
\<close>

theorem sample_roundtrip:
  assumes "valid_metric_name name" and "bt_ok ls"
    and "\<forall>l \<in> set ls. valid_label_name (fst l) \<and> length (snd l) \<le> 256"
    and "parse_f64 text = Some x" and "f64_is_finite x" and "\<forall>c \<in> set text. \<not> is_ascii_whitespace c"
  shows "read_sample (render_sample name ls @ '' '' @ text) = Ok (name, ls, x)"
proof -
  have name: "\<forall>c \<in> set name. c \<noteq> CHR 34 \<and> \<not> is_ascii_whitespace c" "CHR ''{'' \<notin> set name" "name \<noteq> []"
    using assms(1) metric_name_quiet [OF assms(1)]
    by (auto dest: quiet_char_plain simp: valid_metric_name_def valid_first_def)
  have nonempty: "text \<noteq> []" using assms(4) by (auto simp: parse_f64_def split_sign_def parse_number_def parse_special_def
        parse_exponent_def eq_ignore_ascii_case_def to_ascii_lowercase_def)
  have labels: "\<forall>l \<in> set ls. valid_label_name (fst l)" using assms(3) by simp
  have stop: "sample_end False False acc ('' '' @ t) = Some (rev acc, '' '' @ t)" for acc t
    by (simp add: is_ascii_whitespace_def)
  have brace: "sample_end False False acc (c # t) = sample_end False False (c # acc) t"
    if "c = CHR ''{'' \<or> c = CHR ''}''" for acc c t
    using that by (auto simp: is_ascii_whitespace_def)
  have "sample_end False False [] (render_sample name ls @ '' '' @ text) = Some (render_sample name ls, '' '' @ text)"
    using stop [of "rev name" "text"] stop [of "CHR ''}'' # rev (join_str '','' (map render_label ls)) @ CHR ''{'' # rev name" "text"]
    by (simp add: render_sample_def sample_end_plain [OF name(1)] brace sample_end_labels [OF labels] del: sample_end.simps)
  moreover have "split_ascii_whitespace ('' '' @ text) = [text]"
    using split_ascii_whitespace_plain [OF assms(6) nonempty]
    by (simp add: split_ascii_whitespace_def is_ascii_whitespace_def)
  ultimately have split: "split_sample_line (render_sample name ls @ '' '' @ text) = Ok (render_sample name ls, text)"
    using name(3) by (simp add: split_sample_line_def render_sample_def)
  have "parse_sample_name_labels (render_sample name ls) = Ok (name, ls)"
  proof (cases "ls = []")
    case True
    have "split_once ''{'' name = None" using name(2) by (simp add: split_once_char_None)
    with True assms(1) show ?thesis by (simp add: parse_sample_name_labels_def render_sample_def)
  next
    case False
    have "split_once ''{'' (name @ CHR ''{'' # join_str '','' (map render_label ls) @ ''}'')
        = Some (name, join_str '','' (map render_label ls) @ ''}'')"
      by (rule split_once_char_append [OF name(2)])
    moreover have "parse_labels (join_str '','' (map render_label ls)) [] = Ok ls"
      using parse_labels_render [of ls "[]"] assms(2,3) by (simp add: MAX_LABEL_VALUE_BYTES_def)
    ultimately show ?thesis
      using False assms(1) by (simp add: parse_sample_name_labels_def render_sample_def)
  qed
  with split assms(4,5) show ?thesis by (simp add: read_sample_def)
qed

end
