(* ===== verification/Endpoints.thy ===== *)
theory Endpoints
  imports RustNum BTree
begin

text \<open>
  Addresses (\<open>IpAddr::from_str\<close> with its value) and the private-target policy for scrape
  endpoints of \<open>prometheus_http.rs\<close>.  The resolver of the system is a parameter.
\<close>

section \<open>Addresses\<close>

datatype IpAddr = V4 "nat list" | V6 "nat list"

definition ip_octet :: "string \<Rightarrow> (nat \<times> string) option" where
  "ip_octet s = map_option (\<lambda>r. (dec_value (takeWhile is_ascii_digit s), r)) (read_octet s)"

definition hex_val :: "char \<Rightarrow> nat" where
  "hex_val c = (if is_ascii_digit c then byte c - 48 else if 97 \<le> byte c then byte c - 87 else byte c - 55)"

definition ip_group :: "string \<Rightarrow> (nat \<times> string) option" where
  "ip_group s = map_option
     (\<lambda>r. (foldl (\<lambda>n c. n * 16 + hex_val c) 0 (takeWhile is_ascii_hexdigit s), r)) (read_hex_group s)"

definition after_separator :: "char \<Rightarrow> nat \<Rightarrow> (string \<Rightarrow> ('a \<times> string) option) \<Rightarrow> string \<Rightarrow> ('a \<times> string) option" where
  "after_separator sep i inner s =
    (if i = 0 then inner s
     else case s of [] \<Rightarrow> None | c # r \<Rightarrow> if c = sep then inner r else None)"

definition ip_v4 :: "string \<Rightarrow> (nat list \<times> string) option" where
  "ip_v4 s =
    Option.bind (after_separator CHR ''.'' 0 ip_octet s) (\<lambda>(a, s).
    Option.bind (after_separator CHR ''.'' 1 ip_octet s) (\<lambda>(b, s).
    Option.bind (after_separator CHR ''.'' 2 ip_octet s) (\<lambda>(c, s).
    Option.bind (after_separator CHR ''.'' 3 ip_octet s) (\<lambda>(d, s). Some ([a, b, c, d], s)))))"

text \<open>The groups read so far, whether an IPv4 tail ended them, and the rest.\<close>

fun ip_groups :: "nat \<Rightarrow> nat \<Rightarrow> string \<Rightarrow> nat list \<times> bool \<times> string" where
  "ip_groups 0 i s = ([], False, s)"
| "ip_groups (Suc k) i s =
    (case (if 0 < k then after_separator CHR '':'' i ip_v4 s else None) of
       Some (v, r) \<Rightarrow> ([v ! 0 * 256 + v ! 1, v ! 2 * 256 + v ! 3], True, r)
     | None \<Rightarrow>
        (case after_separator CHR '':'' i ip_group s of
           Some (g, r) \<Rightarrow> (case ip_groups k (Suc i) r of (gs, v4, r') \<Rightarrow> (g # gs, v4, r'))
         | None \<Rightarrow> ([], False, s)))"

definition ip_v6 :: "string \<Rightarrow> (nat list \<times> string) option" where
  "ip_v6 s = (case ip_groups 8 0 s of
     (head, v4, r) \<Rightarrow>
       if length head = 8 then Some (head, r)
       else if v4 then None
       else (case r of
         c # d # t \<Rightarrow>
           if c = CHR '':'' \<and> d = CHR '':''
           then (case ip_groups (8 - (length head + 1)) 0 t of
             (ends, _, r') \<Rightarrow> Some (head @ replicate (8 - length head - length ends) 0 @ ends, r'))
           else None
       | _ \<Rightarrow> None))"

definition parse_ip :: "string \<Rightarrow> IpAddr option" where
  "parse_ip s = (case ip_v4 s of
     Some (v, r) \<Rightarrow> if r = [] then Some (V4 v) else None
   | None \<Rightarrow> (case ip_v6 s of
       Some (g, r) \<Rightarrow> if r = [] then Some (V6 g) else None
     | None \<Rightarrow> None))"

definition v4_is_loopback :: "nat list \<Rightarrow> bool" where
  "v4_is_loopback v \<longleftrightarrow> v ! 0 = 127"

definition v4_is_private :: "nat list \<Rightarrow> bool" where
  "v4_is_private v \<longleftrightarrow> v ! 0 = 10 \<or> (v ! 0 = 172 \<and> 16 \<le> v ! 1 \<and> v ! 1 \<le> 31) \<or> (v ! 0 = 192 \<and> v ! 1 = 168)"

definition v6_is_loopback :: "nat list \<Rightarrow> bool" where
  "v6_is_loopback g \<longleftrightarrow> g = [0, 0, 0, 0, 0, 0, 0, 1]"

definition ip_is_loopback :: "IpAddr \<Rightarrow> bool" where
  "ip_is_loopback ip = (case ip of V4 v \<Rightarrow> v4_is_loopback v | V6 g \<Rightarrow> v6_is_loopback g)"

definition to_ipv4_mapped :: "nat list \<Rightarrow> nat list option" where
  "to_ipv4_mapped g = (if take 6 g = [0, 0, 0, 0, 0, 0xFFFF]
     then Some [g ! 6 div 256, g ! 6 mod 256, g ! 7 div 256, g ! 7 mod 256] else None)"

section \<open>The policy\<close>

text \<open>The mask on the first segment keeps its top seven bits.\<close>

definition is_private_or_loopback :: "IpAddr \<Rightarrow> bool" where
  "is_private_or_loopback ip = (case ip of
     V4 v \<Rightarrow> v4_is_loopback v \<or> v4_is_private v
   | V6 g \<Rightarrow> v6_is_loopback g \<or> (word_of_nat (g ! 0) AND (0xFE00 :: u16)) = 0xFC00
       \<or> (case to_ipv4_mapped g of None \<Rightarrow> False | Some v \<Rightarrow> v4_is_loopback v \<or> v4_is_private v))"

definition split_authority :: "string \<Rightarrow> string + (string \<times> string)" where
  "split_authority authority = (case strip_prefix ''['' authority of
     Some bracketed \<Rightarrow>
       (case split_once '']'' bracketed of
          None \<Rightarrow> Err ''endpoint_invalid''
        | Some (host, r) \<Rightarrow>
            (case strip_prefix '':'' r of
               None \<Rightarrow> Err ''endpoint_invalid''
             | Some port \<Rightarrow> if host = [] \<or> port = [] then Err ''endpoint_invalid'' else Ok (host, port)))
   | None \<Rightarrow>
       (case rsplit_once_char CHR '':'' authority of
          None \<Rightarrow> Err ''endpoint_invalid''
        | Some (host, port) \<Rightarrow>
            if host = [] \<or> port = [] \<or> CHR '':'' \<in> set host then Err ''endpoint_invalid'' else Ok (host, port)))"

definition localhost_name :: "string \<Rightarrow> bool" where
  "localhost_name host \<longleftrightarrow> eq_ignore_ascii_case host ''localhost'' \<or> suffix ''.localhost'' (to_ascii_lowercase host)"

definition check_host :: "(string \<Rightarrow> u16 \<Rightarrow> IpAddr list option) \<Rightarrow> string \<Rightarrow> u16 \<Rightarrow> string + unit" where
  "check_host resolve host port = (case parse_ip host of
     Some ip \<Rightarrow> reject_if (\<not> is_private_or_loopback ip) ''endpoint_not_private''
   | None \<Rightarrow>
       if \<not> localhost_name host then Err ''endpoint_not_private''
       else (case resolve host port of
         None \<Rightarrow> Err ''endpoint_unresolvable''
       | Some addresses \<Rightarrow>
           reject_if (addresses = [] \<or> (\<exists>a \<in> set addresses. \<not> ip_is_loopback a)) ''endpoint_not_private''))"

definition endpoint_rest_bad :: "string \<Rightarrow> string \<Rightarrow> bool" where
  "endpoint_rest_bad raw rest \<longleftrightarrow> CHR ''@'' \<in> set rest \<or> CHR ''?'' \<in> set rest \<or> CHR ''#'' \<in> set rest
     \<or> 2048 < length raw \<or> has_control raw"

definition validate_private_endpoint ::
  "(string \<Rightarrow> u16 \<Rightarrow> IpAddr list option) \<Rightarrow> string \<Rightarrow> string + unit" where
  "validate_private_endpoint resolve raw = (case strip_prefix ''http://'' raw of
     None \<Rightarrow> Err ''endpoint_invalid''
   | Some rest \<Rightarrow>
       let authority = takeWhile (\<lambda>c. c \<noteq> CHR ''/'') rest in
       if endpoint_rest_bad raw rest \<or> authority = [] \<or> has_whitespace authority then Err ''endpoint_invalid''
       else (case split_authority authority of
         Err e \<Rightarrow> Err e
       | Ok (host, port_text) \<Rightarrow>
           (case parse_u16 port_text of
              None \<Rightarrow> Err ''endpoint_invalid''
            | Some port \<Rightarrow> if port = 0 then Err ''endpoint_invalid'' else check_host resolve host port)))"

definition endpoint_authority :: "string \<Rightarrow> string" where
  "endpoint_authority endpoint = (case split_once ''://'' endpoint of
     None \<Rightarrow> []
   | Some (_, rest) \<Rightarrow> takeWhile (\<lambda>c. c \<noteq> CHR ''/'') rest)"

section \<open>What the policy accepts\<close>

definition show_v4 :: "nat \<Rightarrow> nat \<Rightarrow> nat \<Rightarrow> nat \<Rightarrow> string" where
  "show_v4 a b c d = show_dec a @ ''.'' @ show_dec b @ ''.'' @ show_dec c @ ''.'' @ show_dec d"

lemma show_dec_leading: "hd (show_dec n) = CHR ''0'' \<Longrightarrow> n = 0"
proof (induction n rule: show_dec.induct)
  case (1 n)
  show ?case
  proof (cases "n < 10")
    case True
    with "1.prems" have "byte (digit_char n) = byte CHR ''0''" by (subst (asm) show_dec.simps) simp
    with True show ?thesis by (simp add: byte_digit_char) (simp add: byte_def)
  next
    case False
    then have "hd (show_dec n) = hd (show_dec (n div 10))"
      by (subst show_dec.simps) (simp add: show_dec_nonempty)
    with "1.IH" [OF False] "1.prems" False show ?thesis by simp
  qed
qed

lemma show_dec_zero: "show_dec 0 = ''0''"
  by code_simp

lemma ip_octet_show:
  assumes "n < 256" and "r = [] \<or> \<not> is_ascii_digit (hd r)"
  shows "ip_octet (show_dec n @ r) = Some (n, r)"
proof -
  have digits: "\<forall>c \<in> set (show_dec n). is_ascii_digit c" using show_dec_digits by (simp add: list_all_iff)
  have tw: "takeWhile is_ascii_digit (show_dec n @ r) = show_dec n" "dropWhile is_ascii_digit (show_dec n @ r) = r"
    using digits assms(2) by (cases r; simp add: takeWhile_append dropWhile_append)+
  have short: "length (show_dec n) \<le> 3" using length_show_dec [of n 3] assms(1) by simp
  have zero: "\<not> (hd (show_dec n) = CHR ''0'' \<and> 1 < length (show_dec n))"
    using show_dec_leading [of n] show_dec_zero by auto
  show ?thesis
    using assms(1) short zero by (auto simp: ip_octet_def read_octet_def tw Let_def dec_value_show show_dec_nonempty)
qed

lemma ip_v4_show:
  assumes "a < 256" "b < 256" "c < 256" "d < 256" and "r = [] \<or> \<not> is_ascii_digit (hd r)"
  shows "ip_v4 (show_v4 a b c d @ r) = Some ([a, b, c, d], r)"
proof -
  have dot: "\<not> is_ascii_digit CHR ''.''" by (simp add: is_ascii_digit_def byte_def)
  show ?thesis
    using assms dot by (simp add: ip_v4_def show_v4_def after_separator_def ip_octet_show)
qed

lemma digit_facts: "is_ascii_digit c \<Longrightarrow> c \<noteq> CHR ''['' \<and> c \<noteq> CHR '':'' \<and> c \<noteq> CHR ''/'' \<and> c \<noteq> CHR ''@''
    \<and> c \<noteq> CHR ''?'' \<and> c \<noteq> CHR ''#'' \<and> byte c < 128 \<and> \<not> is_whitespace (byte c) \<and> \<not> is_control (byte c)"
  by (auto simp: is_ascii_digit_def byte_def is_whitespace_def is_control_def)

lemma show_dec_facts: "c \<in> set (show_dec n) \<Longrightarrow> is_ascii_digit c"
  using show_dec_digits [of n] by (simp add: list_all_iff)

lemma show_v4_chars: "c \<in> set (show_v4 u v w x) \<Longrightarrow> is_ascii_digit c \<or> c = CHR ''.''"
  by (auto simp: show_v4_def dest: show_dec_facts)

lemma ipv4_endpoint_result:
  assumes "a < 256" "b < 256" "c < 256" "d < 256" and "0 < p" "p < 65536"
    and "path = [] \<or> hd path = CHR ''/''"
    and "\<forall>x \<in> set path. 32 < byte x \<and> byte x < 127 \<and> x \<noteq> CHR ''@'' \<and> x \<noteq> CHR ''?'' \<and> x \<noteq> CHR ''#''"
    and "length path \<le> 2000"
  shows "validate_private_endpoint resolve (''http://'' @ show_v4 a b c d @ '':'' @ show_dec p @ path) =
    (if a = 127 \<or> a = 10 \<or> (a = 172 \<and> 16 \<le> b \<and> b \<le> 31) \<or> (a = 192 \<and> b = 168)
     then Ok () else Err ''endpoint_not_private'')"
proof -
  define host where "host = show_v4 a b c d"
  define rest where "rest = host @ '':'' @ show_dec p @ path"
  have host: "\<forall>x \<in> set host. is_ascii_digit x \<or> x = CHR ''.''" "host \<noteq> []"
    using show_v4_chars by (auto simp: host_def) (simp add: show_v4_def)
  have port: "\<forall>x \<in> set (show_dec p). is_ascii_digit x" by (simp add: show_dec_facts)
  define plain where "plain x \<longleftrightarrow> x \<noteq> CHR ''['' \<and> x \<noteq> CHR '':'' \<and> x \<noteq> CHR ''/'' \<and> x \<noteq> CHR ''@''
    \<and> x \<noteq> CHR ''?'' \<and> x \<noteq> CHR ''#'' \<and> byte x < 128 \<and> \<not> is_whitespace (byte x)" for x
  have plain: "plain x" if "is_ascii_digit x \<or> x = CHR ''.''" for x
    using that digit_facts [of x] by (elim disjE) (simp_all add: plain_def byte_def is_whitespace_def)
  have host_plain: "\<forall>x \<in> set host. plain x" and port_plain: "\<forall>x \<in> set (show_dec p). plain x"
    using host(1) port plain by blast+
  have auth: "takeWhile (\<lambda>x. x \<noteq> CHR ''/'') rest = host @ '':'' @ show_dec p"
  proof -
    have "\<forall>x \<in> set (host @ '':'' @ show_dec p). x \<noteq> CHR ''/''" using host_plain port_plain by (auto simp: plain_def)
    moreover have "takeWhile (\<lambda>x. x \<noteq> CHR ''/'') path = []" using assms(7) by (cases path) auto
    ultimately show ?thesis
      using takeWhile_append2 [of "host @ '':'' @ show_dec p" "\<lambda>x. x \<noteq> CHR ''/''" path] by (simp add: rest_def)
  qed
  have range: "32 < byte x \<and> byte x < 127" if "x \<in> set (''http://'' @ rest)" for x
  proof -
    from that consider "x \<in> set ''http://''" | "x \<in> set host" | "x = CHR '':''" | "x \<in> set (show_dec p)" | "x \<in> set path"
      by (auto simp: rest_def)
    then show ?thesis
    proof cases
      case 1
      then show ?thesis by (auto simp: byte_def)
    next
      case 2
      then have "is_ascii_digit x \<or> x = CHR ''.''" using host by simp
      then show ?thesis by (elim disjE) (simp_all add: is_ascii_digit_def byte_def)
    next
      case 4
      then have "is_ascii_digit x" using port by simp
      then show ?thesis by (simp add: is_ascii_digit_def)
    qed (use assms(8) in \<open>simp_all add: byte_def\<close>)
  qed
  have ascii: "byte x < 128 \<and> \<not> is_control (byte x)" if "x \<in> set (''http://'' @ rest)" for x
    using range [OF that] by (simp add: is_control_def)
  have clean: "\<forall>x \<in> set rest. x \<noteq> CHR ''@'' \<and> x \<noteq> CHR ''?'' \<and> x \<noteq> CHR ''#''"
    unfolding rest_def set_append ball_Un using host_plain port_plain assms(8) by (simp add: plain_def)
  have "length (show_dec a) \<le> 3" "length (show_dec b) \<le> 3" "length (show_dec c) \<le> 3" "length (show_dec d) \<le> 3"
    "length (show_dec p) \<le> 5"
    using assms(1-6) by (simp_all add: length_show_dec)
  then have "length rest \<le> 2040" using assms(9) by (simp add: rest_def host_def show_v4_def)
  moreover have "\<not> has_control (''http://'' @ rest)"
    using ascii has_control_ascii [of "''http://'' @ rest"] by blast
  ultimately have good: "\<not> endpoint_rest_bad (''http://'' @ rest) rest"
    using clean unfolding endpoint_rest_bad_def by auto
  have "\<forall>x \<in> set (host @ '':'' @ show_dec p). byte x < 128 \<and> \<not> is_whitespace (byte x)"
    unfolding set_append ball_Un using host_plain port_plain by (simp add: plain_def byte_def is_whitespace_def)
  then have white: "\<not> has_whitespace (host @ '':'' @ show_dec p)"
    by (subst has_whitespace_def, subst chars_ascii) auto
  have "hd host \<noteq> CHR ''[''" using host(2) host_plain by (cases host) (auto simp: plain_def)
  then have "strip_prefix ''['' (host @ '':'' @ show_dec p) = None" using host(2) by (cases host) auto
  moreover have "CHR '':'' \<notin> set (show_dec p)" "CHR '':'' \<notin> set host" using host_plain port_plain by (auto simp: plain_def)
  ultimately have split: "split_authority (host @ '':'' @ show_dec p) = Ok (host, show_dec p)"
    using host(2) by (simp add: split_authority_def rsplit_once_char_append show_dec_nonempty)
  have "ip_v4 host = Some ([a, b, c, d], [])" using ip_v4_show [OF assms(1-4), of "[]"] by (simp add: host_def)
  then have ip: "parse_ip host = Some (V4 [a, b, c, d])" by (simp add: parse_ip_def)
  have u16: "parse_u16 (show_dec p) = Some (of_nat p)" "(of_nat p :: u16) \<noteq> 0"
    using parse_u16_show [of "of_nat p"] assms(5,6)
    by (simp_all add: unat_of_nat word_of_nat_eq_0_iff nat_dvd_not_less)
  have "validate_private_endpoint resolve (''http://'' @ rest) = check_host resolve host (of_nat p)"
  proof -
    define raw where "raw = ''http://'' @ rest"
    have "strip_prefix ''http://'' raw = Some rest" by (simp add: raw_def)
    with good white split u16 host(2) auth show ?thesis
      by (simp add: raw_def [symmetric] validate_private_endpoint_def Let_def)
  qed
  then show ?thesis
    unfolding rest_def host_def using ip
    by (auto simp: host_def check_host_def is_private_or_loopback_def v4_is_loopback_def v4_is_private_def reject_if_def)
qed

text \<open>
  For an endpoint written with an IPv4 address and a port, the scrape policy accepts exactly
  the loopback and private ranges: \<open>http://a.b.c.d:port/path\<close> is accepted when the address is in
  127/8, 10/8, 172.16/12 or 192.168/16, and every other address is refused as not private.
\<close>

theorem ipv4_endpoint_policy:
  assumes "a < 256" "b < 256" "c < 256" "d < 256" and "0 < p" "p < 65536"
    and "path = [] \<or> hd path = CHR ''/''"
    and "\<forall>x \<in> set path. 32 < byte x \<and> byte x < 127 \<and> x \<noteq> CHR ''@'' \<and> x \<noteq> CHR ''?'' \<and> x \<noteq> CHR ''#''"
    and "length path \<le> 2000"
  shows "validate_private_endpoint resolve (''http://'' @ show_v4 a b c d @ '':'' @ show_dec p @ path) =
    (if a = 127 \<or> a = 10 \<or> (a = 172 \<and> 16 \<le> b \<and> b \<le> 31) \<or> (a = 192 \<and> b = 168)
     then Ok () else Err ''endpoint_not_private'')"
  using assms by (rule ipv4_endpoint_result)

theorem ipv4_endpoint_policy_witness:
  "validate_private_endpoint (\<lambda>_ _. None) (''http://'' @ show_v4 10 0 0 7 @ '':'' @ show_dec 9100 @ ''/metrics'') = Ok ()
     \<and> validate_private_endpoint (\<lambda>_ _. None) (''http://'' @ show_v4 8 8 8 8 @ '':'' @ show_dec 80 @ []) = Err ''endpoint_not_private''"
  using ipv4_endpoint_policy [of 10 0 0 7 9100 "''/metrics''" "\<lambda>_ _. None"]
    ipv4_endpoint_policy [of 8 8 8 8 80 "[]" "\<lambda>_ _. None"]
  by (simp add: byte_def)

text \<open>
  An accepted scrape endpoint reaches no public host: its authority has a host and a non-zero
  port, and the host is either the text of a loopback or private address, or a \<open>localhost\<close> name
  that the resolver maps to loopback addresses only.
\<close>

theorem accepted_endpoint_private:
  assumes "validate_private_endpoint resolve raw = Ok ()"
  shows "\<exists>rest host port_text port. raw = ''http://'' @ rest
    \<and> split_authority (takeWhile (\<lambda>c. c \<noteq> CHR ''/'') rest) = Ok (host, port_text)
    \<and> parse_u16 port_text = Some port \<and> port \<noteq> 0
    \<and> (case parse_ip host of
         Some ip \<Rightarrow> is_private_or_loopback ip
       | None \<Rightarrow> localhost_name host
           \<and> (\<exists>as. resolve host port = Some as \<and> as \<noteq> [] \<and> (\<forall>a \<in> set as. ip_is_loopback a)))"
  using assms
  by (auto simp: validate_private_endpoint_def check_host_def reject_if_def Let_def prefix_def
      split: if_splits sum.splits option.splits)

theorem accepted_endpoint_private_witness:
  "\<exists>rest host port_text port. ''http://'' @ show_v4 10 0 0 7 @ '':'' @ show_dec 9100 @ [] = ''http://'' @ rest
    \<and> split_authority (takeWhile (\<lambda>c. c \<noteq> CHR ''/'') rest) = Ok (host, port_text)
    \<and> parse_u16 port_text = Some port \<and> port \<noteq> 0
    \<and> (case parse_ip host of
         Some ip \<Rightarrow> is_private_or_loopback ip
       | None \<Rightarrow> localhost_name host
           \<and> (\<exists>as. (\<lambda>_ _. None) host port = Some as \<and> as \<noteq> [] \<and> (\<forall>a \<in> set as. ip_is_loopback a)))"
  by (rule accepted_endpoint_private) (subst ipv4_endpoint_result, simp_all)

end
