(* ===== verification/Prometheus.thy ===== *)
theory Prometheus
  imports Exposition Endpoints SessionSamples Compare
begin

text \<open>
  The Prometheus collector of \<open>prometheus_http.rs\<close>: its construction, the preflight that waits
  for the mapped contract, the window of snapshots of one trial and what a trial reports.  The
  HTTP client is a request to the outside whose reply is a status with a body or a failure; the
  polling task runs alone on the window between start and stop, so it is the list of the replies
  it got.  Floating point operations are those of \<open>Fpu\<close>.
\<close>

section \<open>The collector\<close>

definition MIN_POLL_INTERVAL :: nat where
  "MIN_POLL_INTERVAL = millis 100"

definition MAX_POLL_INTERVAL :: nat where
  "MAX_POLL_INTERVAL = millis 60000"

record RequestedPrometheusMetric =
  rq_name :: string
  rq_unit :: string

record PrometheusWindow =
  pw_start :: "(string, f64) BTreeMap option"
  pw_samples :: "(string, f64) BTreeMap list"
  pw_poll_errors :: u64
  pw_missing_fields :: u64
  pw_dropped_samples :: u64

record PrometheusHttpCollector =
  pc_endpoint :: string
  pc_binding_service :: string
  pc_binding_key :: string
  pc_mapping_ref :: string
  pc_mapping :: PrometheusMappingV1
  pc_mapping_sha256 :: string
  pc_requested :: "RequestedPrometheusMetric list"
  pc_poll_interval :: nat
  pc_window :: "PrometheusWindow option"

definition mapped_units :: "PrometheusFieldMapping list \<Rightarrow> (string, string) BTreeMap" where
  "mapped_units fs = foldl (\<lambda>m f. bt_insert (pf_output_name f) (pf_unit f) m) [] fs"

definition collector_new ::
  "(string \<Rightarrow> u16 \<Rightarrow> IpAddr list option) \<Rightarrow> string \<Rightarrow> PrometheusMappingV1 \<Rightarrow> string \<Rightarrow> string \<Rightarrow> string \<Rightarrow> string
    \<Rightarrow> RequestedPrometheusMetric list \<Rightarrow> nat \<Rightarrow> string + PrometheusHttpCollector" where
  "collector_new resolve endpoint mapping mapping_sha256 binding_service binding_key mapping_ref requested interval =
    (case checks
        [validate_private_endpoint resolve endpoint, validate_mapping mapping,
         reject_if (length mapping_sha256 \<noteq> 64 \<or> \<not> list_all is_ascii_hexdigit mapping_sha256
             \<or> interval < MIN_POLL_INTERVAL \<or> MAX_POLL_INTERVAL < interval)
           ''collector_config_invalid'',
         reject_if (requested = []
             \<or> list_ex (\<lambda>q. bt_get (mapped_units (pm_fields mapping)) (rq_name q) \<noteq> Some (rq_unit q)) requested)
           ''collector_fields_invalid''] of
       Err e \<Rightarrow> Err e
     | Ok _ \<Rightarrow> Ok \<lparr>pc_endpoint = endpoint, pc_binding_service = binding_service, pc_binding_key = binding_key,
         pc_mapping_ref = mapping_ref,
         pc_mapping = mapping \<lparr>pm_fields :=
           filter (\<lambda>f. pf_output_name f \<in> rq_name ` set requested) (pm_fields mapping)\<rparr>,
         pc_mapping_sha256 = mapping_sha256, pc_requested = requested, pc_poll_interval = interval,
         pc_window = None\<rparr>)"

section \<open>One scrape\<close>

datatype FetchReply = UrlRejected | TransportFailed bool | FetchStatus u16 "string option"

definition parsed_scrape :: "PrometheusMappingV1 \<Rightarrow> u16 \<Rightarrow> string option \<Rightarrow> TelemetryError + (string, f64) BTreeMap" where
  "parsed_scrape m status body =
    (if \<not> (200 \<le> status \<and> status \<le> 299)
     then Err (TelemetryError_new ''scrape_unavailable'' ''non-success scrape status'')
     else case body of
       None \<Rightarrow> Err (TelemetryError_new ''scrape_unavailable'' ''scrape body unreadable'')
     | Some bytes \<Rightarrow>
         map_err (\<lambda>c. TelemetryError_new c ''Prometheus exposition rejected'') (parse_exposition bytes m))"

definition scrape :: "PrometheusMappingV1 \<Rightarrow> FetchReply \<Rightarrow> TelemetryError + (string, f64) BTreeMap" where
  "scrape m reply = (case reply of
     UrlRejected \<Rightarrow> Err (TelemetryError_new ''endpoint_invalid'' ''scrape URL rejected'')
   | TransportFailed timeout \<Rightarrow> Err (TelemetryError_new ''scrape_unavailable''
       (if timeout then ''scrape timeout'' else ''scrape transport failure''))
   | FetchStatus status body \<Rightarrow> parsed_scrape m status body)"

definition scrape_with :: "PrometheusMappingV1 \<Rightarrow> FetchReply \<Rightarrow> TelemetryError + (string, f64) BTreeMap" where
  "scrape_with m reply = (case reply of
     UrlRejected \<Rightarrow> Err (TelemetryError_new ''endpoint_invalid'' ''scrape URL rejected'')
   | TransportFailed _ \<Rightarrow> Err (TelemetryError_new ''scrape_unavailable'' ''scrape transport failed'')
   | FetchStatus status body \<Rightarrow> parsed_scrape m status body)"

section \<open>The window\<close>

definition push_snapshot :: "PrometheusMappingV1 \<Rightarrow> (string, f64) BTreeMap \<Rightarrow> PrometheusWindow \<Rightarrow> PrometheusWindow" where
  "push_snapshot m vals w =
    (let w1 = (if 512 \<le> length (pw_samples w)
           then w \<lparr>pw_samples := tl (pw_samples w), pw_dropped_samples := saturating_add (pw_dropped_samples w) 1\<rparr>
           else w)
     in w1 \<lparr>pw_missing_fields := saturating_add (pw_missing_fields w1)
              (of_nat (length (filter (\<lambda>f. \<not> bt_contains vals (pf_output_name f)) (pm_fields m)))),
            pw_samples := pw_samples w1 @ [vals]\<rparr>)"

definition poll_step :: "PrometheusMappingV1 \<Rightarrow> PrometheusWindow \<Rightarrow> FetchReply \<Rightarrow> PrometheusWindow" where
  "poll_step m w reply = (case scrape_with m reply of
     Ok vals \<Rightarrow> push_snapshot m vals w
   | Err _ \<Rightarrow> w \<lparr>pw_poll_errors := saturating_add (pw_poll_errors w) 1\<rparr>)"

definition poll_loop :: "PrometheusMappingV1 \<Rightarrow> FetchReply list \<Rightarrow> PrometheusWindow \<Rightarrow> PrometheusWindow" where
  "poll_loop m replies w = foldl (poll_step m) w replies"

definition open_window :: "(string, f64) BTreeMap \<Rightarrow> PrometheusWindow" where
  "open_window start = \<lparr>pw_start = Some start, pw_samples = [], pw_poll_errors = 0, pw_missing_fields = 0,
     pw_dropped_samples = 0\<rparr>"

section \<open>Aggregation\<close>

text \<open>\<open>f64::max\<close> and \<open>f64::min\<close>: a NaN loses against a number; which zero wins is left open by
  the language.\<close>

definition f64_max :: "f64 \<Rightarrow> f64 \<Rightarrow> f64" where
  "f64_max x y = (if f64_is_nan x then y else if f64_is_nan y then x else if f64_lt x y then y else x)"

definition f64_min :: "f64 \<Rightarrow> f64 \<Rightarrow> f64" where
  "f64_min x y = (if f64_is_nan x then y else if f64_is_nan y then x else if f64_lt y x then y else x)"

fun reduce :: "('a \<Rightarrow> 'a \<Rightarrow> 'a) \<Rightarrow> 'a list \<Rightarrow> 'a option" where
  "reduce f [] = None"
| "reduce f (x # xs) = Some (foldl f x xs)"

definition aggregate_gauge :: "Fpu \<Rightarrow> f64 list \<Rightarrow> PrometheusAggregation \<Rightarrow> (f64 \<times> Aggregation) option" where
  "aggregate_gauge fpu xs policy =
    (if xs = [] then None
     else case policy of
       PromMean \<Rightarrow> Some (fp_sum fpu (map (\<lambda>x. fp_div fpu x (fp_of_nat fpu (min (length xs) 0xFFFFFFFF))) xs), AggMean)
     | PromMax \<Rightarrow> map_option (\<lambda>x. (x, AggMaximum)) (reduce f64_max xs)
     | PromMin \<Rightarrow> map_option (\<lambda>x. (x, AggMinimum)) (reduce f64_min xs))"

text \<open>The last value of a counter that never goes down.\<close>

fun counter_end :: "f64 \<Rightarrow> f64 list \<Rightarrow> f64 option" where
  "counter_end previous [] = Some previous"
| "counter_end previous (x # xs) = (if f64_lt x previous then None else counter_end x xs)"

definition counter_delta :: "Fpu \<Rightarrow> f64 option \<Rightarrow> f64 list \<Rightarrow> unit + f64 option" where
  "counter_delta fpu start xs = (case start of
     None \<Rightarrow> Ok None
   | Some s \<Rightarrow> (case counter_end s xs of None \<Rightarrow> Err () | Some x \<Rightarrow> Ok (Some (fp_sub fpu x s))))"

section \<open>What a trial reports\<close>

definition prometheus_warning :: "string \<Rightarrow> string \<Rightarrow> MetricWarning" where
  "prometheus_warning label detail = \<lparr>mw_category = ''prometheus_'' @ label, mw_detail = detail\<rparr>"

definition required_gap :: "PrometheusWindow \<Rightarrow> PrometheusFieldMapping \<Rightarrow> bool" where
  "required_gap w f \<longleftrightarrow> pf_required f \<and> (0 < pw_poll_errors w \<or> 0 < pw_dropped_samples w
     \<or> (\<exists>s \<in> set (pw_samples w). \<not> bt_contains s (pf_output_name f)))"

definition retained_values :: "PrometheusWindow \<Rightarrow> PrometheusFieldMapping \<Rightarrow> f64 list" where
  "retained_values w f = List.map_filter (\<lambda>s. bt_get s (pf_output_name f)) (pw_samples w)"

text \<open>A gauge without an aggregation would panic; a counter that went down is an error.\<close>

definition field_value ::
  "Fpu \<Rightarrow> PrometheusWindow \<Rightarrow> PrometheusFieldMapping \<Rightarrow> (unit + (f64 \<times> Aggregation) option) option" where
  "field_value fpu w f = (case pf_kind f of
     KindGauge \<Rightarrow> map_option (\<lambda>policy. Ok (aggregate_gauge fpu (retained_values w f) policy)) (pf_aggregation f)
   | KindCounter \<Rightarrow> Some (map_sum id (map_option (\<lambda>d. (d, AggDirect)))
       (counter_delta fpu (bt_get (case pw_start w of None \<Rightarrow> [] | Some s \<Rightarrow> s) (pf_output_name f))
         (retained_values w f))))"

definition observation :: "RequestedPrometheusMetric \<Rightarrow> PrometheusFieldMapping \<Rightarrow> f64 \<Rightarrow> Aggregation \<Rightarrow> RawMetricObservation" where
  "observation q f v agg = \<lparr>raw_name = rq_name q, raw_unit = rq_unit q, raw_value = v, raw_aggregation = agg,
     raw_source_field = Some (pf_prometheus_name f), raw_producer = Some PROMETHEUS_HTTP_SOURCE,
     raw_producer_version = Some CARGO_PKG_VERSION, raw_artifacts = [''prometheus-provenance.json'']\<rparr>"

text \<open>Metrics, warnings and whether a required metric is invalid.\<close>

type_synonym TrialReport = "RawMetricObservation list \<times> MetricWarning list \<times> bool"

definition report_missing :: "PrometheusFieldMapping \<Rightarrow> TrialReport \<Rightarrow> TrialReport" where
  "report_missing f rep = (case rep of (ms, warnings, bad) \<Rightarrow>
    if pf_required f
    then (ms, warnings @ [prometheus_warning ''required_metric_missing''
        ''required mapped trial observation is unavailable''], True)
    else (ms, warnings, bad))"

definition report_field ::
  "Fpu \<Rightarrow> PrometheusWindow \<Rightarrow> RequestedPrometheusMetric \<Rightarrow> PrometheusFieldMapping \<Rightarrow> TrialReport \<Rightarrow> TrialReport option" where
  "report_field fpu w q f rep = (case rep of (ms, warnings, bad) \<Rightarrow>
    if required_gap w f
    then Some (ms, warnings @ [prometheus_warning ''required_metric_gap''
        ''required mapped field was absent or a scrape snapshot was lost''], True)
    else case field_value fpu w f of
      None \<Rightarrow> None
    | Some (Ok (Some (v, agg))) \<Rightarrow> Some (ms @ [observation q f v agg], warnings, bad)
    | Some (Ok None) \<Rightarrow> Some (report_missing f (ms, warnings, bad))
    | Some (Err _) \<Rightarrow> Some (report_missing f
        (ms, warnings @ [prometheus_warning ''counter_reset'' ''counter decreased during trial''],
         bad \<or> pf_required f)))"

fun trial_report ::
  "Fpu \<Rightarrow> PrometheusFieldMapping list \<Rightarrow> PrometheusWindow \<Rightarrow> RequestedPrometheusMetric list \<Rightarrow> TrialReport
    \<Rightarrow> TrialReport option" where
  "trial_report fpu fs w [] rep = Some rep"
| "trial_report fpu fs w (q # qs) rep =
    (case find (\<lambda>f. pf_output_name f = rq_name q) fs of
       None \<Rightarrow> trial_report fpu fs w qs rep
     | Some f \<Rightarrow> (case report_field fpu w q f rep of None \<Rightarrow> None | Some rep' \<Rightarrow> trial_report fpu fs w qs rep'))"

section \<open>The provenance document\<close>

record PrometheusProvenance =
  pv_schema_version :: nat
  pv_source :: string
  pv_adapter_version :: string
  pv_transport :: string
  pv_transport_version :: string
  pv_exposition_format :: string
  pv_endpoint_authority :: string
  pv_binding_service :: string
  pv_binding_key :: string
  pv_mapping_ref :: string
  pv_mapping_sha256 :: string
  pv_poll_interval_ms :: nat
  pv_sample_count :: nat
  pv_poll_error_count :: u64
  pv_missing_field_observation_count :: u64
  pv_dropped_sample_count :: u64
  pv_aggregation :: "(string \<times> PrometheusMetricKind \<times> PrometheusAggregation option) list"

text \<open>The outside of a collector: the host of the run, the client, the polling task (the replies
  it got before it was stopped, and how it ended within a time limit), the version of the client
  and the JSON encoder.\<close>

datatype TaskEnd = TaskJoined | TaskPanicked | TaskTimedOut

record 'w PromEnv =
  pe_host :: "'w Host"
  pe_fetch :: "string \<Rightarrow> nat \<Rightarrow> 'w \<Rightarrow> FetchReply option \<times> 'w"
  pe_polls :: "'w \<Rightarrow> FetchReply list \<times> 'w"
  pe_join :: "nat \<Rightarrow> 'w \<Rightarrow> TaskEnd \<times> 'w"
  pe_client_version :: string
  pe_encode :: "PrometheusProvenance \<Rightarrow> string option"

definition provenance :: "'w PromEnv \<Rightarrow> PrometheusHttpCollector \<Rightarrow> PrometheusWindow \<Rightarrow> PrometheusProvenance" where
  "provenance env c w = \<lparr>pv_schema_version = 1, pv_source = PROMETHEUS_HTTP_SOURCE,
     pv_adapter_version = CARGO_PKG_VERSION, pv_transport = ''eggfetch-core'',
     pv_transport_version = pe_client_version env, pv_exposition_format = ''prometheus-text-scalar-v1'',
     pv_endpoint_authority = endpoint_authority (pc_endpoint c), pv_binding_service = pc_binding_service c,
     pv_binding_key = pc_binding_key c, pv_mapping_ref = pc_mapping_ref c,
     pv_mapping_sha256 = pc_mapping_sha256 c, pv_poll_interval_ms = pc_poll_interval c div 1000000,
     pv_sample_count = length (pw_samples w), pv_poll_error_count = pw_poll_errors w,
     pv_missing_field_observation_count = pw_missing_fields w, pv_dropped_sample_count = pw_dropped_samples w,
     pv_aggregation = map (\<lambda>f. (pf_output_name f, pf_kind f, pf_aggregation f)) (pm_fields (pc_mapping c))\<rparr>"

section \<open>Preflight\<close>

record TelemetryCapability =
  cap_poll_interval :: nat
  cap_identity :: "(string, string) BTreeMap"

definition capability :: "PrometheusHttpCollector \<Rightarrow> TelemetryCapability" where
  "capability c = \<lparr>cap_poll_interval = pc_poll_interval c,
     cap_identity = foldl (\<lambda>m (k, v). bt_insert k v m) []
       [(''endpoint_authority'', endpoint_authority (pc_endpoint c)), (''mapping_sha256'', pc_mapping_sha256 c),
        (''binding_service'', pc_binding_service c), (''binding_key'', pc_binding_key c),
        (''mapping_schema'', show_dec (unat MAPPING_SCHEMA_VERSION))]\<rparr>"

definition missing_required :: "PrometheusMappingV1 \<Rightarrow> (string, f64) BTreeMap \<Rightarrow> bool" where
  "missing_required m sample \<longleftrightarrow>
     list_ex (\<lambda>f. pf_required f \<and> \<not> bt_contains sample (pf_output_name f)) (pm_fields m)"

text \<open>What one attempt leaves: the answer, or the reason to try again.\<close>

definition probe_attempt ::
  "PrometheusHttpCollector \<Rightarrow> FetchReply \<Rightarrow> TelemetryError + TelemetryCapability" where
  "probe_attempt c reply = (case scrape (pc_mapping c) reply of
     Err e \<Rightarrow> Err e
   | Ok sample \<Rightarrow>
       if missing_required (pc_mapping c) sample
       then Err (TelemetryError_new ''required_metric_missing'' ''required mapped field absent'')
       else Ok (capability c))"

definition last_or :: "TelemetryError option \<Rightarrow> string \<Rightarrow> string \<Rightarrow> TelemetryError" where
  "last_or last_error label detail = (case last_error of Some e \<Rightarrow> e | None \<Rightarrow> TelemetryError_new label detail)"

definition cancelled_error :: "string \<Rightarrow> TelemetryError" where
  "cancelled_error detail = TelemetryError_new ''collector_cancelled'' detail"

partial_function (option) preflight_loop ::
  "'w PromEnv \<Rightarrow> PrometheusHttpCollector \<Rightarrow> nat \<Rightarrow> TelemetryError option \<Rightarrow> 'w
    \<Rightarrow> ((TelemetryError + TelemetryCapability) \<times> 'w) option" where
  "preflight_loop env c deadline last_error w =
    (case h_cancelled (pe_host env) w of (cancelled, w) \<Rightarrow>
      if cancelled then Some (Err (cancelled_error ''preflight cancelled''), w)
      else (case h_now (pe_host env) w of (now, w) \<Rightarrow>
        if deadline \<le> now
        then Some (Err (last_or last_error ''required_metric_missing'' ''no scrape completed in bounds''), w)
        else (case pe_fetch env (pc_endpoint c) (deadline - now) w of (reply, w) \<Rightarrow>
          (case reply of
             None \<Rightarrow> Some (Err (last_or last_error ''preflight_timeout'' ''scrape exceeded preflight bound''), w)
           | Some r \<Rightarrow> (case probe_attempt c r of
               Ok cap \<Rightarrow> Some (Ok cap, w)
             | Err e \<Rightarrow> (case h_now (pe_host env) w of (now2, w) \<Rightarrow>
                 if deadline \<le> now2 then Some (Err e, w)
                 else preflight_loop env c deadline (Some e)
                   (h_sleep (pe_host env) (min (deadline - now2) (pc_poll_interval c)) w)))))))"

definition preflight_inner ::
  "'w PromEnv \<Rightarrow> PrometheusHttpCollector \<Rightarrow> nat \<Rightarrow> ('w, TelemetryError + TelemetryCapability) io" where
  "preflight_inner env c limit =
     andthen (ask (h_cancelled (pe_host env))) (\<lambda>cancelled.
       if cancelled then yields (Err (cancelled_error ''preflight cancelled''))
       else andthen (ask (h_now (pe_host env))) (\<lambda>now. preflight_loop env c (now + limit) None))"

section \<open>A trial\<close>

definition start_inner ::
  "'w PromEnv \<Rightarrow> PrometheusHttpCollector \<Rightarrow> nat \<Rightarrow> ('w, (TelemetryError + unit) \<times> PrometheusHttpCollector) io" where
  "start_inner env c limit =
     andthen (ask (h_cancelled (pe_host env))) (\<lambda>cancelled.
       if cancelled then yields (Err (cancelled_error ''trial start cancelled''), c)
       else if pc_window c \<noteq> None
       then yields (Err (TelemetryError_new ''polling_failed'' ''trial window already open''), c)
       else andthen (ask (pe_fetch env (pc_endpoint c) limit)) (\<lambda>reply. case reply of
         None \<Rightarrow> yields (Err (TelemetryError_new ''polling_timeout'' ''start snapshot timeout''), c)
       | Some r \<Rightarrow> (case scrape (pc_mapping c) r of
           Err e \<Rightarrow> yields (Err e, c)
         | Ok start \<Rightarrow> yields (Ok (), c \<lparr>pc_window := Some (open_window start)\<rparr>))))"

definition final_fetch :: "'w PromEnv \<Rightarrow> PrometheusHttpCollector \<Rightarrow> nat \<Rightarrow> ('w, FetchReply option) io" where
  "final_fetch env c deadline =
     andthen (ask (h_now (pe_host env))) (\<lambda>now.
       if deadline \<le> now then yields None
       else andthen (ask (h_cancelled (pe_host env))) (\<lambda>cancelled.
         if cancelled then yields None else ask (pe_fetch env (pc_endpoint c) (deadline - now))))"

definition final_snapshot ::
  "'w PromEnv \<Rightarrow> PrometheusHttpCollector \<Rightarrow> PrometheusWindow \<Rightarrow> FetchReply option
    \<Rightarrow> ('w, PrometheusWindow \<times> MetricWarning list) io" where
  "final_snapshot env c w reply =
    (case map_option (scrape (pc_mapping c)) reply of
       Some (Ok vals) \<Rightarrow> yields (push_snapshot (pc_mapping c) vals w, [])
     | _ \<Rightarrow> andthen (ask (h_cancelled (pe_host env))) (\<lambda>cancelled.
         yields (w, [if cancelled
           then prometheus_warning ''final_snapshot_cancelled'' ''final scrape skipped during cancellation''
           else prometheus_warning ''final_snapshot_failed'' ''final scrape was unavailable''])))"

definition window_warnings :: "PrometheusWindow \<Rightarrow> MetricWarning list" where
  "window_warnings w =
    (if 0 < pw_poll_errors w then [prometheus_warning ''poll_errors'' ''one or more in-window scrapes failed''] else [])
    @ (if 0 < pw_missing_fields w
       then [prometheus_warning ''missing_samples'' ''one or more mapped fields were absent''] else [])"

definition trial_output ::
  "Fpu \<Rightarrow> 'w PromEnv \<Rightarrow> PrometheusHttpCollector \<Rightarrow> PrometheusWindow \<Rightarrow> MetricWarning list
    \<Rightarrow> ('w, TelemetryError + TelemetryOutput) io" where
  "trial_output fpu env c w warnings =
    (case trial_report fpu (pm_fields (pc_mapping c)) w (pc_requested c) ([], warnings @ window_warnings w, False) of
       None \<Rightarrow> panics
     | Some (ms, warnings, bad) \<Rightarrow>
         if bad
         then yields (Err (TelemetryError_new ''required_metric_invalid''
           ''required mapped metric was missing or reset during the trial''))
         else yields (Ok \<lparr>to_artifacts = [\<lparr>wa_name = ''prometheus-provenance.json'',
             wa_media_type = ''application/json'',
             wa_bytes = (case pe_encode env (provenance env c w) of None \<Rightarrow> [] | Some bytes \<Rightarrow> bytes)\<rparr>],
           to_metrics = ms, to_warnings = warnings\<rparr>))"

definition close_window ::
  "Fpu \<Rightarrow> 'w PromEnv \<Rightarrow> PrometheusHttpCollector \<Rightarrow> PrometheusWindow \<Rightarrow> nat
    \<Rightarrow> ('w, TelemetryError + TelemetryOutput) io" where
  "close_window fpu env c w limit =
     andthen (ask (h_now (pe_host env))) (\<lambda>now.
     andthen (ask (pe_polls env)) (\<lambda>replies.
     andthen (ask (pe_join env limit)) (\<lambda>ended. case ended of
         TaskPanicked \<Rightarrow> yields (Err (TelemetryError_new ''polling_failed'' ''polling task join failed''))
       | TaskTimedOut \<Rightarrow>
           yields (Err (TelemetryError_new ''polling_timeout'' ''polling task did not drain and was aborted''))
       | TaskJoined \<Rightarrow>
           andthen (final_fetch env c (now + limit)) (\<lambda>reply.
           andthen (final_snapshot env c (poll_loop (pc_mapping c) replies w) reply) (\<lambda>(w, warnings).
             trial_output fpu env c w warnings)))))"

definition stop_inner ::
  "Fpu \<Rightarrow> 'w PromEnv \<Rightarrow> PrometheusHttpCollector \<Rightarrow> nat
    \<Rightarrow> ('w, (TelemetryError + TelemetryOutput) \<times> PrometheusHttpCollector) io" where
  "stop_inner fpu env c limit = (case pc_window c of
     None \<Rightarrow> yields (Err (TelemetryError_new ''polling_failed'' ''stop without open trial window''), c)
   | Some w \<Rightarrow> andthen (close_window fpu env c w limit) (\<lambda>result. yields (result, c \<lparr>pc_window := None\<rparr>)))"

definition drain_collector ::
  "'w PromEnv \<Rightarrow> PrometheusHttpCollector \<Rightarrow> nat \<Rightarrow> ('w, (TelemetryError + unit) \<times> PrometheusHttpCollector) io" where
  "drain_collector env c limit = (case pc_window c of
     None \<Rightarrow> yields (Ok (), c)
   | Some _ \<Rightarrow> andthen (ask (pe_join env limit)) (\<lambda>ended. yields (case ended of
         TaskJoined \<Rightarrow> Ok ()
       | TaskPanicked \<Rightarrow> Err (TelemetryError_new ''polling_failed'' ''polling task join failed during drain'')
       | TaskTimedOut \<Rightarrow>
           Err (TelemetryError_new ''polling_timeout'' ''polling task did not drain before the drain bound''),
       c \<lparr>pc_window := None\<rparr>)))"

definition prometheus_http_descriptor :: "bool \<Rightarrow> DriverDescriptor" where
  "prometheus_http_descriptor gregg = \<lparr>drv_name = Name PROMETHEUS_HTTP_SOURCE, adapter_version = CARGO_PKG_VERSION,
     upstream_name = ''prometheus-text-exposition'', upstream_version = Some ''bounded-v1'',
     drv_category = CatTelemetry, drv_capabilities = [], supported_platforms = [], machine_output_schema = None,
     external_process = False, drv_default = (\<not> gregg), compatible_service_types = []\<rparr>"

section \<open>The window keeps the last snapshots\<close>

definition parsed_replies :: "PrometheusMappingV1 \<Rightarrow> FetchReply list \<Rightarrow> (string, f64) BTreeMap list" where
  "parsed_replies m rs = concat (map (\<lambda>r. case scrape_with m r of Ok vals \<Rightarrow> [vals] | Err _ \<Rightarrow> []) rs)"

lemma parsed_replies_snoc:
  "parsed_replies m (rs @ [r]) = parsed_replies m rs @ (case scrape_with m r of Ok vals \<Rightarrow> [vals] | Err _ \<Rightarrow> [])"
  by (simp add: parsed_replies_def)

lemma parsed_replies_length: "length (parsed_replies m rs) \<le> length rs"
  by (induction rs rule: rev_induct) (auto simp: parsed_replies_snoc parsed_replies_def [of m "[]"] split: sum.split)

lemma saturating_add_one: "Suc (unat a) < 2 ^ 64 \<Longrightarrow> unat (saturating_add a 1) = Suc (unat a)"
  by (auto simp: saturating_add_def checked_add_def unat_word_ariths)

lemma poll_loop_snoc: "poll_loop m (rs @ [r]) w = poll_step m (poll_loop m rs w) r"
  by (simp add: poll_loop_def)

lemma poll_step_fields:
  "scrape_with m r = Err e \<Longrightarrow> poll_step m w r = w \<lparr>pw_poll_errors := saturating_add (pw_poll_errors w) 1\<rparr>"
  "scrape_with m r = Ok vals \<Longrightarrow> pw_samples (poll_step m w r)
     = (if 512 \<le> length (pw_samples w) then tl (pw_samples w) else pw_samples w) @ [vals]"
  "scrape_with m r = Ok vals \<Longrightarrow> pw_dropped_samples (poll_step m w r)
     = (if 512 \<le> length (pw_samples w) then saturating_add (pw_dropped_samples w) 1 else pw_dropped_samples w)"
  "scrape_with m r = Ok vals \<Longrightarrow> pw_poll_errors (poll_step m w r) = pw_poll_errors w"
  "pw_start (poll_step m w r) = pw_start w"
  by (auto simp: poll_step_def push_snapshot_def Let_def split: sum.split)

text \<open>
  Whatever a trial's polling meets, its window holds exactly the last 512 snapshots that were
  read, in order, after the start snapshot; the counters of dropped snapshots and failed polls
  are exact.
\<close>

theorem window_keeps_last:
  assumes "length rs < 2 ^ 64"
  shows "let ss = parsed_replies m rs; w = poll_loop m rs (open_window start) in
    pw_start w = Some start \<and> pw_samples w = drop (length ss - 512) ss \<and> length (pw_samples w) \<le> 512
    \<and> unat (pw_dropped_samples w) = length ss - 512 \<and> unat (pw_poll_errors w) = length rs - length ss"
  using assms
proof (induction rs rule: rev_induct)
  case Nil
  then show ?case by (simp add: parsed_replies_def poll_loop_def open_window_def)
next
  case (snoc r rs)
  define ss where "ss = parsed_replies m rs"
  define w where "w = poll_loop m rs (open_window start)"
  have small: "length rs < 2 ^ 64" using snoc.prems by simp
  from snoc.IH [OF this] have ih: "pw_start w = Some start" "pw_samples w = drop (length ss - 512) ss"
    "unat (pw_dropped_samples w) = length ss - 512" "unat (pw_poll_errors w) = length rs - length ss"
    by (simp_all add: ss_def w_def Let_def)
  have le: "length ss \<le> length rs" by (simp add: ss_def parsed_replies_length)
  then have arith: "length ss - (length ss - 512) \<le> 512"
    "Suc (length rs - length ss) = Suc (length rs) - length ss" by arith+
  show ?case
  proof (cases "scrape_with m r")
    case (Inl e)
    have "Suc (unat (pw_poll_errors w)) < 2 ^ 64" using ih(4) snoc.prems by simp
    with Inl ih arith show ?thesis
      by (simp add: parsed_replies_snoc poll_loop_snoc ss_def [symmetric] w_def [symmetric] poll_step_fields
          saturating_add_one Let_def)
  next
    case (Inr vals)
    have "Suc (unat (pw_dropped_samples w)) < 2 ^ 64" using ih(3) le snoc.prems by simp
    moreover have "drop (length ss - 511) ss = tl (drop (length ss - 512) ss) \<and> length ss - 511 = Suc (length ss - 512)"
      if "512 \<le> length ss"
    proof -
      have "length ss - 511 = Suc (length ss - 512)" using that by arith
      then show ?thesis by (simp add: drop_Suc tl_drop)
    qed
    ultimately show ?thesis
      using Inr ih le
      by (simp add: parsed_replies_snoc poll_loop_snoc ss_def [symmetric] w_def [symmetric] poll_step_fields
          saturating_add_one Let_def Suc_diff_le drop_Suc tl_drop)
  qed
qed

section \<open>A collector that was built\<close>

definition collector_ok :: "PrometheusHttpCollector \<Rightarrow> bool" where
  "collector_ok c \<longleftrightarrow> distinct (map pf_output_name (pm_fields (pc_mapping c)))
     \<and> (\<forall>f \<in> set (pm_fields (pc_mapping c)). (pf_kind f = KindGauge) = (pf_aggregation f \<noteq> None))
     \<and> (\<forall>q \<in> set (pc_requested c). \<exists>f \<in> set (pm_fields (pc_mapping c)). pf_output_name f = rq_name q \<and> pf_unit f = rq_unit q)
     \<and> 0 < pc_poll_interval c"

lemma mapped_units_get:
  assumes "bt_get (mapped_units fs) k = Some u"
  shows "\<exists>f \<in> set fs. pf_output_name f = k \<and> pf_unit f = u"
proof -
  have ok: "bt_ok (mapped_units fs)" for fs
    by (induction fs rule: rev_induct) (simp_all add: mapped_units_def bt_ok_insert)
  show ?thesis
    using assms
  proof (induction fs rule: rev_induct)
    case Nil
    then show ?case by (simp add: mapped_units_def)
  next
    case (snoc f fs)
    have "mapped_units (fs @ [f]) = bt_insert (pf_output_name f) (pf_unit f) (mapped_units fs)"
      by (simp add: mapped_units_def)
    with snoc ok [of fs] show ?case by (auto simp: bt_get_insert split: if_splits)
  qed
qed

lemma collector_new_ok:
  assumes "collector_new resolve endpoint m sha svc key ref requested interval = Ok c"
  shows "collector_ok c \<and> pc_window c = None"
proof -
  from assms have valid: "validate_mapping m = Ok ()" and interval: "MIN_POLL_INTERVAL \<le> interval"
    and units: "\<forall>q \<in> set requested. bt_get (mapped_units (pm_fields m)) (rq_name q) = Some (rq_unit q)"
    and c: "pc_mapping c = m \<lparr>pm_fields := filter (\<lambda>f. pf_output_name f \<in> rq_name ` set requested) (pm_fields m)\<rparr>"
      "pc_requested c = requested" "pc_poll_interval c = interval" "pc_window c = None"
    by (auto simp: collector_new_def ok_simps not_less list_ex_iff split: sum.splits)
  have fields: "distinct (map pf_output_name (pm_fields m))"
    "\<forall>f \<in> set (pm_fields m). field_shape f = Ok ()"
    using valid by (simp_all add: validate_mapping_def ok_simps mapped.scan_Ok_iff)
  have "\<exists>f \<in> set (pm_fields (pc_mapping c)). pf_output_name f = rq_name q \<and> pf_unit f = rq_unit q"
    if "q \<in> set requested" for q
    using mapped_units_get [of "pm_fields m" "rq_name q" "rq_unit q"] units that c(1) by force
  moreover have "0 < interval" using interval by (simp add: MIN_POLL_INTERVAL_def millis_def)
  ultimately show ?thesis
    using fields by (auto simp: collector_ok_def c distinct_map_filter field_shape_def ok_simps)
qed

text \<open>What a requested field contributes, and when a required one is not there.\<close>

definition reported ::
  "Fpu \<Rightarrow> PrometheusFieldMapping list \<Rightarrow> PrometheusWindow \<Rightarrow> RequestedPrometheusMetric \<Rightarrow> RawMetricObservation list" where
  "reported fpu fs w q = (case find (\<lambda>f. pf_output_name f = rq_name q) fs of
     None \<Rightarrow> []
   | Some f \<Rightarrow>
       if required_gap w f then []
       else (case field_value fpu w f of
         Some (Ok (Some (v, agg))) \<Rightarrow> [observation q f v agg]
       | _ \<Rightarrow> []))"

lemma report_field_spec:
  assumes "find (\<lambda>f. pf_output_name f = rq_name q) fs = Some f"
    and "report_field fpu w q f (ms, warnings, bad) = Some (ms', warnings', bad')"
  shows "ms' = ms @ reported fpu fs w q \<and> (bad' \<longleftrightarrow> bad \<or> (pf_required f \<and> reported fpu fs w q = []))"
  using assms
  by (auto simp: report_field_def reported_def report_missing_def required_gap_def
      split: if_splits option.splits sum.splits prod.splits)

lemma trial_report_spec:
  assumes "trial_report fpu fs w qs (ms, warnings, bad) = Some (ms', warnings', bad')"
  shows "ms' = ms @ concat (map (reported fpu fs w) qs)
    \<and> (\<not> bad' \<longrightarrow> \<not> bad \<and> (\<forall>q \<in> set qs. \<forall>f. find (\<lambda>f. pf_output_name f = rq_name q) fs = Some f
        \<longrightarrow> pf_required f \<longrightarrow> reported fpu fs w q \<noteq> []))"
  using assms
proof (induction qs arbitrary: ms warnings bad)
  case Nil
  then show ?case by simp
next
  case (Cons q qs)
  show ?case
  proof (cases "find (\<lambda>f. pf_output_name f = rq_name q) fs")
    case None
    then have "reported fpu fs w q = []" by (simp add: reported_def)
    with Cons.IH [of ms warnings bad] Cons.prems None show ?thesis by simp
  next
    case (Some f)
    with Cons.prems obtain m1 w1 b1 where r: "report_field fpu w q f (ms, warnings, bad) = Some (m1, w1, b1)"
      "trial_report fpu fs w qs (m1, w1, b1) = Some (ms', warnings', bad')"
      by (auto split: option.splits prod.splits)
    from Cons.IH [OF r(2)] report_field_spec [OF Some r(1)] Some show ?thesis by auto
  qed
qed

lemma trial_report_total:
  assumes "\<forall>f \<in> set fs. (pf_kind f = KindGauge) = (pf_aggregation f \<noteq> None)"
  shows "trial_report fpu fs w qs rep \<noteq> None"
proof -
  have one: "report_field fpu w q f rep \<noteq> None" if "f \<in> set fs" for q f rep
  proof -
    have "field_value fpu w f \<noteq> None"
      using assms that by (cases "pf_kind f") (auto simp: field_value_def)
    then show ?thesis
      by (cases rep) (auto simp: report_field_def report_missing_def split: option.split sum.split)
  qed
  show ?thesis
  proof (induction qs arbitrary: rep)
    case (Cons q qs)
    show ?case
    proof (cases "find (\<lambda>f. pf_output_name f = rq_name q) fs")
      case (Some f)
      then have "f \<in> set fs" by (metis find_Some_iff nth_mem)
      with one [OF this, of q rep] Cons Some show ?thesis by (auto split: option.split)
    qed (use Cons in simp)
  qed simp
qed

text \<open>The windows that stopping can reach from \<open>w\<close>.\<close>

definition closes_as :: "PrometheusMappingV1 \<Rightarrow> PrometheusWindow \<Rightarrow> PrometheusWindow \<Rightarrow> bool" where
  "closes_as m w w' \<longleftrightarrow> (\<exists>replies. w' = poll_loop m replies w \<or> (\<exists>vals. w' = push_snapshot m vals (poll_loop m replies w)))"

lemma trial_output_sound:
  assumes "collector_ok c"
  shows "returns (trial_output fpu env c w warnings)
    \<and> always (\<lambda>r. \<forall>out. r = Ok out \<longrightarrow>
        to_metrics out = concat (map (reported fpu (pm_fields (pc_mapping c)) w) (pc_requested c))
        \<and> (\<forall>q \<in> set (pc_requested c). \<forall>f \<in> set (pm_fields (pc_mapping c)).
            pf_output_name f = rq_name q \<longrightarrow> pf_required f \<longrightarrow> reported fpu (pm_fields (pc_mapping c)) w q \<noteq> []))
      (trial_output fpu env c w warnings)"
proof -
  let ?fs = "pm_fields (pc_mapping c)"
  obtain ms ws bad where rep: "trial_report fpu ?fs w (pc_requested c) ([], warnings @ window_warnings w, False) = Some (ms, ws, bad)"
    using trial_report_total [of ?fs fpu w] assms unfolding collector_ok_def by (metis not_None_eq surj_pair)
  have found: "find (\<lambda>g. pf_output_name g = rq_name q) ?fs = Some f"
    if "f \<in> set ?fs" "pf_output_name f = rq_name q" for f q
  proof (cases "find (\<lambda>g. pf_output_name g = rq_name q) ?fs")
    case None
    then show ?thesis using that by (auto simp: find_None_iff)
  next
    case (Some g)
    then have "g \<in> set ?fs" "pf_output_name g = rq_name q" by (auto simp: find_Some_iff)
    with that assms Some show ?thesis by (auto simp: collector_ok_def distinct_map inj_on_def)
  qed
  show ?thesis
    using trial_report_spec [OF rep] found
    by (auto simp: trial_output_def rep always_yields intro: io_rules)
qed

lemma final_fetch_returns: "returns (final_fetch env c deadline)"
  by (auto simp: final_fetch_def intro!: io_rules)

lemma final_snapshot_returns: "returns (final_snapshot env c w reply)"
  by (auto simp: final_snapshot_def intro!: io_rules split: option.split sum.split)

lemma final_snapshot_closes:
  "always (\<lambda>(w', ws). closes_as (pc_mapping c) w w') (final_snapshot env c (poll_loop (pc_mapping c) replies w) reply)"
proof -
  have "closes_as (pc_mapping c) w (poll_loop (pc_mapping c) replies w)"
    "closes_as (pc_mapping c) w (push_snapshot (pc_mapping c) vals (poll_loop (pc_mapping c) replies w))" for vals
    by (auto simp: closes_as_def)
  then show ?thesis
    by (auto simp: final_snapshot_def always_yields intro!: always_andthen_all split: option.split sum.split)
qed


section \<open>Preflight\<close>

lemma preflight_loop_returns:
  assumes t: "ticking (pe_host env) clock" and f: "\<And>u d w. clock w \<le> clock (snd (pe_fetch env u d w))"
    and pos: "0 < pc_poll_interval c"
  shows "\<exists>r. preflight_loop env c deadline last_error w = Some r"
proof (induction "deadline - clock w" arbitrary: w last_error rule: less_induct)
  case less
  obtain b w1 where e0: "h_cancelled (pe_host env) w = (b, w1)" by fastforce
  obtain now w2 where e1: "h_now (pe_host env) w1 = (now, w2)" by fastforce
  obtain reply w3 where e2: "pe_fetch env (pc_endpoint c) (deadline - now) w2 = (reply, w3)" by fastforce
  obtain now2 w4 where e3: "h_now (pe_host env) w3 = (now2, w4)" by fastforce
  have fetched: "clock w2 \<le> clock w3" using f [of w2 "pc_endpoint c" "deadline - now"] by (simp add: e2)
  let ?w5 = "h_sleep (pe_host env) (min (deadline - now2) (pc_poll_interval c)) w4"
  have step: "clock w \<le> clock w1" "now = clock w1" "clock w1 \<le> clock w2" "clock w2 \<le> clock w3" "now2 = clock w3"
    "clock w3 \<le> clock w4" "clock w4 + min (deadline - now2) (pc_poll_interval c) \<le> clock ?w5"
    using tickingD(5) [OF t e0] tickingD(1) [OF t e1] tickingD(1) [OF t e3] tickingD(2) [OF t, of w4] fetched by auto
  have "\<exists>r. preflight_loop env c deadline last ?w5 = Some r" if "\<not> deadline \<le> now2" for last
    by (rule less) (use step that pos in linarith)
  then show ?case
    by (subst preflight_loop.simps) (auto simp: e0 e1 e2 e3 split: option.split sum.split)
qed

definition contract_seen :: "PrometheusHttpCollector \<Rightarrow> TelemetryError + TelemetryCapability \<Rightarrow> bool" where
  "contract_seen c r \<longleftrightarrow> (\<forall>cap. r = Ok cap \<longrightarrow> cap = capability c
     \<and> (\<exists>body sample. parse_exposition body (pc_mapping c) = Ok sample \<and> \<not> missing_required (pc_mapping c) sample))"

lemma probe_attempt_contract: "probe_attempt c r = Ok cap \<Longrightarrow> contract_seen c (Ok cap)"
  by (auto simp: probe_attempt_def scrape_def parsed_scrape_def contract_seen_def map_err_def
      split: sum.splits if_splits FetchReply.splits option.splits)

lemma preflight_loop_contract:
  "preflight_loop env c deadline last_error w = Some (r, w') \<Longrightarrow> contract_seen c r"
proof -
  have err: "contract_seen c (Err e)" for e by (simp add: contract_seen_def)
  assume "preflight_loop env c deadline last_error w = Some (r, w')"
  then have "contract_seen c (fst (r, w'))"
  proof (rule preflight_loop.raw_induct [rotated, where P = "\<lambda>env c deadline last_error w y. contract_seen c (fst y)"])
    fix rec :: "'a PromEnv \<Rightarrow> PrometheusHttpCollector \<Rightarrow> nat \<Rightarrow> TelemetryError option \<Rightarrow> 'a \<Rightarrow> ((TelemetryError + TelemetryCapability) \<times> 'a) option"
      and env c deadline last_error w y
    assume "\<And>env c deadline last_error w y. rec env c deadline last_error w = Some y \<Longrightarrow> contract_seen c (fst y)"
    then show "contract_seen c (fst y)" if "(case h_cancelled (pe_host env) w of (cancelled, w) \<Rightarrow>
      if cancelled then Some (Err (cancelled_error ''preflight cancelled''), w)
      else (case h_now (pe_host env) w of (now, w) \<Rightarrow>
        if deadline \<le> now
        then Some (Err (last_or last_error ''required_metric_missing'' ''no scrape completed in bounds''), w)
        else (case pe_fetch env (pc_endpoint c) (deadline - now) w of (reply, w) \<Rightarrow>
          (case reply of
             None \<Rightarrow> Some (Err (last_or last_error ''preflight_timeout'' ''scrape exceeded preflight bound''), w)
           | Some r \<Rightarrow> (case probe_attempt c r of
               Ok cap \<Rightarrow> Some (Ok cap, w)
             | Err e \<Rightarrow> (case h_now (pe_host env) w of (now2, w) \<Rightarrow>
                 if deadline \<le> now2 then Some (Err e, w)
                 else rec env c deadline (Some e)
                   (h_sleep (pe_host env) (min (deadline - now2) (pc_poll_interval c)) w))))))) = Some y"
      using that
      by (auto split: prod.splits if_splits option.splits sum.splits
          simp: contract_seen_def dest: probe_attempt_contract [unfolded contract_seen_def])
  qed
  then show ?thesis by simp
qed


section \<open>A concrete collector\<close>

definition load_field :: PrometheusFieldMapping where
  "load_field = \<lparr>pf_output_name = ''subject_load'', pf_prometheus_name = ''load'', pf_kind = KindGauge,
     pf_unit = ''ratio'', pf_aggregation = Some PromMax, pf_labels = [], pf_required = True\<rparr>"

definition load_mapping :: PrometheusMappingV1 where
  "load_mapping = \<lparr>pm_schema_version = 1, pm_source = ''prometheus'', pm_fields = [load_field]\<rparr>"

lemma load_names: "is_ok (Name_new ''subject_load'')" "is_ok (Name_new ''ratio'')" "valid_metric_name ''load''"
  by (simp_all add: Name_new_def trim_is_empty_def has_control_def is_whitespace_def is_control_def byte_def
      MAX_NAME_LEN_def valid_metric_name_def valid_first_def MAX_PROMETHEUS_NAME_BYTES_def is_ascii_alphabetic_def
      ascii_defs)

lemma load_mapping_valid: "validate_mapping load_mapping = Ok ()"
  by (simp add: validate_mapping_def load_mapping_def load_field_def MAPPING_SCHEMA_VERSION_def MAX_MAPPED_FIELDS_def
      field_shape_def field_selectors_def load_names MAX_PROMETHEUS_NAME_BYTES_def reject_if_def)

lemma parse_one: "parse_f64 ''1'' = Some 0x3FF0000000000000"
proof -
  have "show_dec 1 = ''1''" by code_simp
  with parse_f64_show_dec [of 1] decimal_one show ?thesis by (simp add: signed_bits_def)
qed

lemma load_sample: "read_sample ''load 1'' = Ok (''load'', [], 0x3FF0000000000000)"
proof -
  have "split_sample_line ''load 1'' = Ok (''load'', ''1'')" "parse_sample_name_labels ''load'' = Ok (''load'', [])"
    by code_simp+
  moreover have "f64_is_finite 0x3FF0000000000000" by (simp add: f64_defs)
  ultimately show ?thesis by (simp add: read_sample_def parse_one)
qed

lemma load_exposition: "parse_exposition ''load 1'' load_mapping = Ok [(''subject_load'', 0x3FF0000000000000)]"
proof -
  have "char_pieces ''load 1'' = map (\<lambda>c. [c]) ''load 1''" by (rule char_pieces_ascii) (simp add: byte_def)
  then have parts: "trim ''load 1'' = ''load 1''" "lines ''load 1'' = [''load 1'']" "valid_utf8 ''load 1''"
    by (simp_all add: trim_def piece_is_whitespace_ascii ascii_white_def is_whitespace_def byte_def lines_def
        valid_utf8_def Let_def)
  have small: "\<not> MAX_SCRAPE_BYTES < length ''load 1''" "\<not> MAX_EXPOSITION_LINES < length [''load 1'']"
    by (simp_all add: MAX_SCRAPE_BYTES_def MAX_EXPOSITION_LINES_def)
  have "scan_lines [load_field] [''load 1''] ([], []) []
      = Ok (([(''subject_load'', 0x3FF0000000000000)], [(''subject_load'', 1)]), [])"
    by (simp add: parts(1) load_sample load_field_def)
  moreover have "pm_fields load_mapping = [load_field]" by (simp add: load_mapping_def)
  moreover have "check_declared [] load_field = Ok ()" by (simp add: check_declared_def)
  ultimately show ?thesis
    using small by (simp add: parse_exposition_def load_mapping_valid parts(2,3) del: scan_lines.simps)
qed

theorem exposition_values_exact_witness:
  "\<exists>ss. list_all2 (\<lambda>l s. read_sample l = Ok s) (sample_lines (lines ''load 1'')) ss
    \<and> (\<forall>f \<in> set (pm_fields load_mapping). case filter (measured_by f) ss of
         [] \<Rightarrow> bt_get [(''subject_load'', 0x3FF0000000000000 :: f64)] (pf_output_name f) = None
       | s # ts \<Rightarrow> ts = [] \<and> bt_get [(''subject_load'', 0x3FF0000000000000)] (pf_output_name f) = Some (snd (snd s))
           \<and> f64_is_finite (snd (snd s)) \<and> (pf_kind f = KindCounter \<longrightarrow> \<not> f64_lt (snd (snd s)) f64_zero))
    \<and> fst ` set [(''subject_load'', 0x3FF0000000000000 :: f64)] \<subseteq> pf_output_name ` set (pm_fields load_mapping)"
  by (rule exposition_values_exact [OF load_exposition])

theorem sample_roundtrip_witness:
  "read_sample (render_sample ''load'' [(''job'', [CHR 34, CHR 92, CHR 0x0A])] @ '' '' @ ''1'')
    = Ok (''load'', [(''job'', [CHR 34, CHR 92, CHR 0x0A])], 0x3FF0000000000000)"
proof (rule sample_roundtrip)
  show "valid_metric_name ''load''" by code_simp
  have "valid_label_name ''job''" by code_simp
  then show "\<forall>l \<in> set [(''job'', [CHR 34, CHR 92, CHR 0x0A])]. valid_label_name (fst l) \<and> length (snd l) \<le> 256"
    by simp
qed (simp_all add: bt_ok_def parse_one f64_defs is_ascii_whitespace_def)

theorem window_keeps_last_witness:
  "pw_poll_errors (poll_loop load_mapping [UrlRejected, TransportFailed True] (open_window [])) = 2"
proof -
  let ?w = "poll_loop load_mapping [UrlRejected, TransportFailed True] (open_window [])"
  have "unat (pw_poll_errors ?w) = 2"
    using window_keeps_last [of "[UrlRejected, TransportFailed True]" load_mapping "[]"]
    by (simp add: Let_def parsed_replies_def scrape_with_def)
  then have "unat (pw_poll_errors ?w) = unat (2 :: u64)" by simp
  then show ?thesis by (simp only: word_unat_eq_iff)
qed

definition load_collector :: PrometheusHttpCollector where
  "load_collector = \<lparr>pc_endpoint = ''http://'' @ show_v4 10 0 0 7 @ '':'' @ show_dec 9100 @ [],
     pc_binding_service = ''web'', pc_binding_key = ''metrics'', pc_mapping_ref = ''map.json'',
     pc_mapping = load_mapping, pc_mapping_sha256 = replicate 64 CHR ''0'',
     pc_requested = [\<lparr>rq_name = ''subject_load'', rq_unit = ''ratio''\<rparr>], pc_poll_interval = millis 1000,
     pc_window = None\<rparr>"

lemma load_collector_new:
  "collector_new (\<lambda>_ _. None) (''http://'' @ show_v4 10 0 0 7 @ '':'' @ show_dec 9100 @ []) load_mapping
     (replicate 64 CHR ''0'') ''web'' ''metrics'' ''map.json'' [\<lparr>rq_name = ''subject_load'', rq_unit = ''ratio''\<rparr>] (millis 1000)
   = Ok load_collector"
proof -
  define e where "e = ''http://'' @ show_v4 10 0 0 7 @ '':'' @ show_dec 9100 @ []"
  have "validate_private_endpoint (\<lambda>_ _. None) e = Ok ()" unfolding e_def by (subst ipv4_endpoint_result) simp_all
  moreover have "is_ascii_hexdigit CHR ''0''" by (simp add: ascii_defs)
  ultimately show ?thesis
    unfolding e_def [symmetric] collector_new_def load_mapping_valid load_collector_def
    by (simp add: reject_if_def MIN_POLL_INTERVAL_def MAX_POLL_INTERVAL_def millis_def list_all_iff
        load_mapping_def load_field_def mapped_units_def bt_get_def)
qed

definition calm_client :: "nat PromEnv" where
  "calm_client = \<lparr>pe_host = calm_host, pe_fetch = (\<lambda>u d w. (Some (FetchStatus 200 (Some ''load 1'')), w)),
     pe_polls = (\<lambda>w. ([FetchStatus 200 (Some ''load 1'')], w)), pe_join = (\<lambda>d w. (TaskJoined, w)),
     pe_client_version = ''1'', pe_encode = (\<lambda>_. None)\<rparr>"



end
